(* ===== verification/Prelude.thy ===== *)
theory Prelude
  imports Complex_Main
begin

text \<open>
  What the component theories share: the values of the Go and SQL sides (identifiers, decimals,
  NUMERIC columns), the outcome of a database statement under a script of faults, sequences of
  operations that stop at the first error, and the lemma collections the proofs draw on.
\<close>

named_theorems ops_simps "equations of the operations a component offers"
named_theorems frame_simps "what an operation leaves unchanged"

subsection \<open>Identifiers and amounts\<close>

type_synonym uuid = nat
type_synonym decimal = rat

abbreviation (input) uuid_nil :: uuid where
  "uuid_nil \<equiv> 0"

text \<open>
  A column of type NUMERIC(38, 18): the stored value is the computed one rounded to 18 digits
  after the point, ties away from zero, and a value with more than 20 digits before the point is
  an error of the statement.
\<close>

definition num18_unit :: rat where
  "num18_unit = 1 / 10 ^ 18"

definition num18 :: "rat \<Rightarrow> rat" where
  "num18 y =
     (if 0 \<le> y then of_int \<lfloor>y * 10 ^ 18 + 1 / 2\<rfloor> / 10 ^ 18
      else - (of_int \<lfloor>- y * 10 ^ 18 + 1 / 2\<rfloor> / 10 ^ 18))"

definition numeric_38_18 :: "rat \<Rightarrow> rat option" where
  "numeric_38_18 y = (if \<bar>num18 y\<bar> < 10 ^ 20 then Some (num18 y) else None)"

definition scale18 :: "rat \<Rightarrow> bool" where
  "scale18 y \<longleftrightarrow> of_int \<lfloor>y * 10 ^ 18\<rfloor> = y * 10 ^ 18"

lemma scale18_alt: "scale18 y \<longleftrightarrow> y * 10 ^ 18 \<in> \<int>"
  unfolding scale18_def by (metis Ints_cases Ints_of_int floor_of_int)

lemma scale18_of_int [simp]: "scale18 (of_int n)"
  unfolding scale18_alt by simp

lemma scale18_0 [simp]: "scale18 0"
  unfolding scale18_alt by simp

lemma scale18_1 [simp]: "scale18 1"
  unfolding scale18_alt by simp

lemma scale18_numeral [simp]: "scale18 (numeral n)"
  unfolding scale18_alt by (metis Ints_mult Ints_numeral Ints_power)

lemma scale18_add [simp]: "scale18 x \<Longrightarrow> scale18 y \<Longrightarrow> scale18 (x + y)"
  unfolding scale18_alt by (simp add: distrib_right)

lemma scale18_diff [simp]: "scale18 x \<Longrightarrow> scale18 y \<Longrightarrow> scale18 (x - y)"
  unfolding scale18_alt by (simp add: left_diff_distrib)

lemma scale18_minus [simp]: "scale18 (- x) = scale18 x"
  unfolding scale18_alt by simp

lemma scale18_abs [simp]: "scale18 x \<Longrightarrow> scale18 \<bar>x\<bar>"
  by (simp add: abs_if)

lemma scale18_num18 [simp]: "scale18 (num18 y)"
  unfolding scale18_alt num18_def by simp

lemma floor_half: "of_int \<lfloor>x\<rfloor> = (x :: rat) \<Longrightarrow> \<lfloor>x + 1 / 2\<rfloor> = \<lfloor>x\<rfloor>"
proof -
  assume "of_int \<lfloor>x\<rfloor> = x"
  then obtain n where "x = of_int n" by metis
  then show "\<lfloor>x + 1 / 2\<rfloor> = \<lfloor>x\<rfloor>" by (simp add: floor_eq_iff)
qed

lemma num18_id [simp]: "scale18 y \<Longrightarrow> num18 y = y"
proof -
  assume y: "scale18 y"
  have *: "of_int \<lfloor>z * 10 ^ 18 + 1 / 2\<rfloor> / 10 ^ 18 = z" if "scale18 z" for z :: rat
    using that floor_half [of "z * 10 ^ 18"] unfolding scale18_def by simp
  show "num18 y = y"
    using * [OF y] * [of "- y"] y unfolding num18_def by simp
qed

lemma numeric_scale18 [simp]:
  "scale18 y \<Longrightarrow> numeric_38_18 y = (if \<bar>y\<bar> < 10 ^ 20 then Some y else None)"
  by (simp add: numeric_38_18_def)

lemma numeric_38_18_SomeD: "numeric_38_18 y = Some z \<Longrightarrow> z = num18 y \<and> scale18 z \<and> \<bar>z\<bar> < 10 ^ 20"
  by (auto simp: numeric_38_18_def split: if_splits)


subsection \<open>Rounding drift\<close>

definition tie18 :: "rat \<Rightarrow> bool" where
  "tie18 x \<longleftrightarrow> (x * 10 ^ 18 + 1 / 2) \<in> \<int>"

lemma num18_nonneg: "0 \<le> y \<Longrightarrow> num18 y = of_int \<lfloor>y * 10 ^ 18 + 1 / 2\<rfloor> / 10 ^ 18"
  by (simp add: num18_def)

lemma num18_shift:
  assumes "scale18 b" and "0 \<le> b + x"
  shows "num18 (b + x) = b + of_int \<lfloor>x * 10 ^ 18 + 1 / 2\<rfloor> / 10 ^ 18"
proof -
  obtain n where n: "b * 10 ^ 18 = of_int n"
    using assms(1) unfolding scale18_alt by (auto elim: Ints_cases)
  have "(b + x) * 10 ^ 18 + 1 / 2 = of_int n + (x * 10 ^ 18 + 1 / 2)"
    using n by (simp add: distrib_right)
  then have "\<lfloor>(b + x) * 10 ^ 18 + 1 / 2\<rfloor> = n + \<lfloor>x * 10 ^ 18 + 1 / 2\<rfloor>"
    by (simp only: int_add_floor)
  moreover have "b = of_int n / 10 ^ 18"
    using n by (simp add: field_simps)
  ultimately show ?thesis
    using assms(2) by (simp add: num18_nonneg add_divide_distrib)
qed

lemma floor_tie:
  fixes t :: rat
  shows "\<lfloor>t + 1 / 2\<rfloor> + \<lfloor>- t + 1 / 2\<rfloor> = (if t + 1 / 2 \<in> \<int> then 1 else 0)"
proof (cases "t + 1 / 2 \<in> \<int>")
  case True
  then obtain n where n: "t + 1 / 2 = of_int n" by (auto elim: Ints_cases)
  then have "- t + 1 / 2 = of_int (1 - n)" by simp
  with n True show ?thesis by (metis (no_types) add.commute diff_add_cancel floor_of_int)
next
  case False
  then have "of_int \<lfloor>t + 1 / 2\<rfloor> < t + 1 / 2"
    by (metis Ints_of_int of_int_floor_le order_le_less)
  moreover have "t + 1 / 2 < of_int \<lfloor>t + 1 / 2\<rfloor> + 1" by linarith
  ultimately have "\<lfloor>- t + 1 / 2\<rfloor> = - \<lfloor>t + 1 / 2\<rfloor>"
    by (simp add: floor_eq_iff)
  with False show ?thesis by simp
qed

text \<open>
  Moving an amount between two stored non-negative columns conserves their sum, except that an
  amount lying exactly half-way between two 18-digit values creates one unit of the last digit.
\<close>

lemma num18_move:
  assumes "scale18 a" and "scale18 f" and "0 \<le> a - x" and "0 \<le> f + x"
  shows "num18 (a - x) + num18 (f + x) = a + f + (if tie18 x then num18_unit else 0)"
proof -
  have "num18 (a - x) = a + of_int \<lfloor>- x * 10 ^ 18 + 1 / 2\<rfloor> / 10 ^ 18"
    using num18_shift [of a "- x"] assms by simp
  moreover have "num18 (f + x) = f + of_int \<lfloor>x * 10 ^ 18 + 1 / 2\<rfloor> / 10 ^ 18"
    using num18_shift [of f x] assms by simp
  ultimately have "num18 (a - x) + num18 (f + x) =
      a + f + of_int (\<lfloor>x * 10 ^ 18 + 1 / 2\<rfloor> + \<lfloor>- (x * 10 ^ 18) + 1 / 2\<rfloor>) / 10 ^ 18"
    by (simp add: add_divide_distrib)
  then show ?thesis
    unfolding floor_tie by (simp add: tie18_def num18_unit_def)
qed

subsection \<open>Database statements under a fault script\<close>

text \<open>
  Every statement the services send can fail. The script says, for each statement in the order
  they are sent, whether it runs and is acknowledged, is lost before it runs, or runs with its
  acknowledgement lost; past the end of the script every statement is acknowledged. Theorems
  that do not mention the script hold for every script.
\<close>

datatype fault = Acked | Lost | Unacked

record env =
  faults :: "fault list"

definition next_fault :: "'x env_scheme \<Rightarrow> fault \<times> 'x env_scheme" where
  "next_fault s =
     (case faults s of [] \<Rightarrow> (Acked, s) | f # fs \<Rightarrow> (f, s\<lparr>faults := fs\<rparr>))"

text \<open>
  A statement is a partial function from the state to the number of affected rows and the new
  state; \<open>None\<close> is an error raised by the statement itself (a violated constraint, an
  overflow). The result of running it is the row count, or \<open>None\<close> for an error.
\<close>

definition exec_stmt ::
  "('x env_scheme \<Rightarrow> (nat \<times> 'x env_scheme) option) \<Rightarrow> 'x env_scheme
    \<Rightarrow> nat option \<times> 'x env_scheme" where
  "exec_stmt f s =
     (case next_fault s of (fl, s1) \<Rightarrow>
        if fl = Lost then (None, s1)
        else (case f s1 of
                None \<Rightarrow> (None, s1)
              | Some (n, s2) \<Rightarrow> (if fl = Unacked then None else Some n, s2)))"

definition query :: "('x env_scheme \<Rightarrow> 'a) \<Rightarrow> 'x env_scheme \<Rightarrow> 'a option \<times> 'x env_scheme" where
  "query f s =
     (case next_fault s of (fl, s1) \<Rightarrow> (if fl = Acked then Some (f s1) else None, s1))"

lemma next_fault_none [simp]: "faults s = [] \<Longrightarrow> next_fault s = (Acked, s)"
  by (simp add: next_fault_def)

lemma exec_stmt_acked [simp]:
  "faults s = [] \<Longrightarrow>
     exec_stmt f s = (case f s of None \<Rightarrow> (None, s) | Some (n, s2) \<Rightarrow> (Some n, s2))"
  by (simp add: exec_stmt_def split: option.splits prod.splits)

lemma query_acked [simp]: "faults s = [] \<Longrightarrow> query f s = (Some (f s), s)"
  by (simp add: query_def)

text \<open>What a statement keeps when it does not look at the fault script.\<close>

definition fault_blind :: "('x env_scheme \<Rightarrow> bool) \<Rightarrow> bool" where
  "fault_blind P \<longleftrightarrow> (\<forall>s fs. P (s\<lparr>faults := fs\<rparr>) = P s)"

lemma next_fault_blind: "fault_blind P \<Longrightarrow> P (snd (next_fault s)) = P s"
  by (simp add: fault_blind_def next_fault_def split: list.split)

lemma query_keeps: "fault_blind P \<Longrightarrow> P s \<Longrightarrow> P (snd (query f s))"
  using next_fault_blind [of P s] by (auto simp: query_def split: prod.splits)

lemma query_keepsD: "query f s = (r, s') \<Longrightarrow> fault_blind P \<Longrightarrow> P s' = P s"
  using next_fault_blind [of P s] by (auto simp: query_def split: prod.splits)

lemma exec_stmt_keeps:
  assumes "fault_blind P" and "\<And>t n t'. P t \<Longrightarrow> f t = Some (n, t') \<Longrightarrow> P t'" and "P s"
  shows "P (snd (exec_stmt f s))"
proof -
  obtain fl s1 where s1: "next_fault s = (fl, s1)" by (cases "next_fault s")
  then have "P s1" using next_fault_blind [OF assms(1), of s] assms(3) by simp
  then show ?thesis
    using s1 assms(2) by (auto simp: exec_stmt_def split: option.splits)
qed

lemma exec_stmt_keepsD:
  assumes "exec_stmt f s = (r, s')" and "fault_blind P" and "P s"
    and "\<And>t n t'. P t \<Longrightarrow> f t = Some (n, t') \<Longrightarrow> P t'"
  shows "P s'"
proof -
  have "P (snd (exec_stmt f s))"
    by (rule exec_stmt_keeps [OF assms(2) _ assms(3)]) (rule assms(4))
  with assms(1) show ?thesis by simp
qed

text \<open>What a statement or a query can have done, as cases over what is left of the script.\<close>

lemma next_fault_casesD: "next_fault s = (fl, s1) \<Longrightarrow> \<exists>fs. s1 = s\<lparr>faults := fs\<rparr>"
proof -
  assume "next_fault s = (fl, s1)"
  then have "s1 = s\<lparr>faults := tl (faults s)\<rparr> \<or> s1 = s\<lparr>faults := faults s\<rparr>"
    by (simp add: next_fault_def split: list.splits)
  then show ?thesis by blast
qed

lemma query_casesD:
  "query f s = (r, s') \<Longrightarrow> \<exists>fs. s' = s\<lparr>faults := fs\<rparr> \<and> (r = None \<or> r = Some (f s'))"
  by (auto simp: query_def split: prod.splits dest!: next_fault_casesD)

lemma query_cong:
  assumes "\<And>fs. f (s\<lparr>faults := fs\<rparr>) = g (s\<lparr>faults := fs\<rparr>)"
  shows "query f s = query g s"
proof -
  obtain fl s1 where n: "next_fault s = (fl, s1)" by force
  then show ?thesis using assms next_fault_casesD [OF n] by (auto simp: query_def)
qed

lemma exec_stmt_casesD:
  "exec_stmt f s = (r, s') \<Longrightarrow>
     \<exists>fs. (r = None \<and> s' = s\<lparr>faults := fs\<rparr>) \<or>
          (\<exists>n. f (s\<lparr>faults := fs\<rparr>) = Some (n, s') \<and> (r = Some n \<or> r = None))"
  by (auto simp: exec_stmt_def split: prod.splits if_splits option.splits dest!: next_fault_casesD)

lemma exec_keeps:
  assumes "\<And>t n t'. f t = Some (n, t') \<Longrightarrow> g t' = g t" and "\<And>t fs. g (t\<lparr>faults := fs\<rparr>) = g t"
  shows "g (snd (exec_stmt f s)) = g s"
proof -
  obtain r s' where e: "exec_stmt f s = (r, s')" by force
  from exec_stmt_casesD [OF e] assms have "g s' = g s" by (metis (no_types))
  then show ?thesis using e by simp
qed

subsection \<open>Sequences of operations that stop at the first error\<close>

fun run_cmds :: "('c \<Rightarrow> 's \<Rightarrow> ('e + unit) \<times> 's) \<Rightarrow> 'c list \<Rightarrow> 's \<Rightarrow> ('e + unit) \<times> 's" where
  "run_cmds ex [] s = (Inr (), s)"
| "run_cmds ex (c # cs) s =
     (case ex c s of (Inl e, s') \<Rightarrow> (Inl e, s') | (Inr _, s') \<Rightarrow> run_cmds ex cs s')"

lemma run_cmds_append:
  "run_cmds ex (xs @ ys) s =
     (case run_cmds ex xs s of (Inl e, s') \<Rightarrow> (Inl e, s') | (Inr _, s') \<Rightarrow> run_cmds ex ys s')"
  by (induction xs arbitrary: s) (auto split: prod.splits sum.splits)

lemma run_cmds_invariant:
  assumes step: "\<And>c s. c \<in> set cs \<Longrightarrow> P s \<Longrightarrow> P (snd (ex c s))"
    and init: "P s"
  shows "P (snd (run_cmds ex cs s))"
  using assms
proof (induction cs arbitrary: s)
  case Nil
  then show ?case by simp
next
  case (Cons c cs)
  have "P (snd (ex c s))" using Cons.prems by simp
  moreover have "\<And>c' s'. c' \<in> set cs \<Longrightarrow> P s' \<Longrightarrow> P (snd (ex c' s'))"
    using Cons.prems(1) by simp
  ultimately show ?case
    using Cons.IH [of "snd (ex c s)"] by (auto split: prod.splits sum.splits)
qed

subsection \<open>Sums over finite sets of users\<close>

lemma sum_fun_upd:
  fixes f :: "'a \<Rightarrow> 'b :: ab_group_add"
  assumes "finite U" and "u \<in> U"
  shows "(\<Sum>v\<in>U. (f(u := y)) v) = (\<Sum>v\<in>U. f v) + (y - f u)"
proof -
  have "(\<Sum>v\<in>U. (f(u := y)) v) = y + (\<Sum>v\<in>U - {u}. f v)"
    using assms by (subst sum.remove [of U u]) (auto intro!: sum.cong)
  also have "(\<Sum>v\<in>U - {u}. f v) = (\<Sum>v\<in>U. f v) - f u"
    using assms by (simp add: sum.remove [of U u f])
  finally show ?thesis by simp
qed

end
