(* ===== verification/Ledger_Spec.thy ===== *)
theory Ledger_Spec
  imports Prelude
begin

text \<open>
  The contract between the balance ledger and the services that move money with it: five
  commands on one (user, asset) row, what each moves between the available and the frozen
  column, and what a run of commands adds up to. The locale is interpreted on the wallet
  service in theory Wallet.
\<close>

datatype ledger_cmd =
    CmdCredit uuid string decimal
  | CmdFreeze uuid string decimal
  | CmdUnfreeze uuid string decimal
  | CmdDebitFrozen uuid string decimal
  | CmdDebitAvailable uuid string decimal

fun cmd_user :: "ledger_cmd \<Rightarrow> uuid" where
  "cmd_user (CmdCredit u _ _) = u"
| "cmd_user (CmdFreeze u _ _) = u"
| "cmd_user (CmdUnfreeze u _ _) = u"
| "cmd_user (CmdDebitFrozen u _ _) = u"
| "cmd_user (CmdDebitAvailable u _ _) = u"

fun cmd_asset :: "ledger_cmd \<Rightarrow> string" where
  "cmd_asset (CmdCredit _ a _) = a"
| "cmd_asset (CmdFreeze _ a _) = a"
| "cmd_asset (CmdUnfreeze _ a _) = a"
| "cmd_asset (CmdDebitFrozen _ a _) = a"
| "cmd_asset (CmdDebitAvailable _ a _) = a"

fun cmd_amount :: "ledger_cmd \<Rightarrow> decimal" where
  "cmd_amount (CmdCredit _ _ x) = x"
| "cmd_amount (CmdFreeze _ _ x) = x"
| "cmd_amount (CmdUnfreeze _ _ x) = x"
| "cmd_amount (CmdDebitFrozen _ _ x) = x"
| "cmd_amount (CmdDebitAvailable _ _ x) = x"

text \<open>What a command adds to the available and to the frozen column.\<close>

fun cmd_avail :: "ledger_cmd \<Rightarrow> decimal" where
  "cmd_avail (CmdCredit _ _ x) = x"
| "cmd_avail (CmdFreeze _ _ x) = - x"
| "cmd_avail (CmdUnfreeze _ _ x) = x"
| "cmd_avail (CmdDebitFrozen _ _ x) = 0"
| "cmd_avail (CmdDebitAvailable _ _ x) = - x"

fun cmd_frozen :: "ledger_cmd \<Rightarrow> decimal" where
  "cmd_frozen (CmdCredit _ _ x) = 0"
| "cmd_frozen (CmdFreeze _ _ x) = x"
| "cmd_frozen (CmdUnfreeze _ _ x) = - x"
| "cmd_frozen (CmdDebitFrozen _ _ x) = - x"
| "cmd_frozen (CmdDebitAvailable _ _ x) = 0"

type_synonym column = "uuid \<Rightarrow> string \<Rightarrow> decimal"

definition bump :: "column \<Rightarrow> uuid \<Rightarrow> string \<Rightarrow> decimal \<Rightarrow> column" where
  "bump col u a x = (\<lambda>u' a'. if u' = u \<and> a' = a then col u' a' + x else col u' a')"

definition applies :: "ledger_cmd \<Rightarrow> column \<times> column \<Rightarrow> column \<times> column \<Rightarrow> bool" where
  "applies c before after \<longleftrightarrow>
     after = (bump (fst before) (cmd_user c) (cmd_asset c) (cmd_avail c),
              bump (snd before) (cmd_user c) (cmd_asset c) (cmd_frozen c))"

text \<open>The holdings of a set of users in one asset, and what a list of commands adds to them.\<close>

definition held :: "column \<times> column \<Rightarrow> uuid set \<Rightarrow> string \<Rightarrow> decimal" where
  "held cols U a = (\<Sum>u\<in>U. fst cols u a + snd cols u a)"

definition net :: "ledger_cmd list \<Rightarrow> string \<Rightarrow> decimal" where
  "net cs a = sum_list (map (\<lambda>c. if cmd_asset c = a then cmd_avail c + cmd_frozen c else 0) cs)"

definition net_avail :: "ledger_cmd list \<Rightarrow> uuid \<Rightarrow> string \<Rightarrow> decimal" where
  "net_avail cs u a =
     sum_list (map (\<lambda>c. if cmd_user c = u \<and> cmd_asset c = a then cmd_avail c else 0) cs)"

definition net_frozen :: "ledger_cmd list \<Rightarrow> uuid \<Rightarrow> string \<Rightarrow> decimal" where
  "net_frozen cs u a =
     sum_list (map (\<lambda>c. if cmd_user c = u \<and> cmd_asset c = a then cmd_frozen c else 0) cs)"

lemma bump_apply [simp]:
  "bump col u a x u' a' = (if u' = u \<and> a' = a then col u' a' + x else col u' a')"
  by (simp add: bump_def)

lemma net_simps [simp]:
  "net [] a = 0"
  "net (c # cs) a = (if cmd_asset c = a then cmd_avail c + cmd_frozen c else 0) + net cs a"
  by (simp_all add: net_def)

lemma net_avail_simps [simp]:
  "net_avail [] u a = 0"
  "net_avail (c # cs) u a =
     (if cmd_user c = u \<and> cmd_asset c = a then cmd_avail c else 0) + net_avail cs u a"
  by (simp_all add: net_avail_def)

lemma net_frozen_simps [simp]:
  "net_frozen [] u a = 0"
  "net_frozen (c # cs) u a =
     (if cmd_user c = u \<and> cmd_asset c = a then cmd_frozen c else 0) + net_frozen cs u a"
  by (simp_all add: net_frozen_def)

lemma held_applies:
  assumes "applies c before after" and "finite U" and "cmd_user c \<in> U"
  shows "held after U a = held before U a + net [c] a"
proof -
  let ?f = "\<lambda>u. fst before u a + snd before u a"
  let ?x = "if cmd_asset c = a then cmd_avail c + cmd_frozen c else 0"
  have "fst after u a + snd after u a = (?f(cmd_user c := ?f (cmd_user c) + ?x)) u" for u
    using assms(1) by (auto simp: applies_def)
  then have "held after U a = (\<Sum>u\<in>U. (?f(cmd_user c := ?f (cmd_user c) + ?x)) u)"
    by (simp add: held_def)
  also have "\<dots> = (\<Sum>u\<in>U. ?f u) + (?f (cmd_user c) + ?x - ?f (cmd_user c))"
    using assms(2,3) by (rule sum_fun_upd)
  finally show ?thesis by (simp add: held_def)
qed

locale ledger =
  fixes wf :: "'s \<Rightarrow> bool"
    and cols :: "'s \<Rightarrow> column \<times> column"
    and exec :: "ledger_cmd \<Rightarrow> 's \<Rightarrow> ('e + unit) \<times> 's"
  assumes nonneg: "wf s \<Longrightarrow> 0 \<le> fst (cols s) u a \<and> 0 \<le> snd (cols s) u a"
    and exec_wf: "wf s \<Longrightarrow> wf (snd (exec c s))"
    and exec_ok: "wf s \<Longrightarrow> scale18 (cmd_amount c) \<Longrightarrow> exec c s = (Inr (), s') \<Longrightarrow>
      applies c (cols s) (cols s') \<and> 0 < cmd_amount c"
    and exec_err: "wf s \<Longrightarrow> scale18 (cmd_amount c) \<Longrightarrow> exec c s = (Inl e, s') \<Longrightarrow>
      cols s' = cols s \<or> applies c (cols s) (cols s')"
begin

lemma run_wf: "wf s \<Longrightarrow> wf (snd (run_cmds exec cs s))"
  by (rule run_cmds_invariant) (auto intro: exec_wf)

lemma exec_okD:
  assumes "wf s" and "scale18 (cmd_amount c)" and "exec c s = (Inr (), s')"
  shows "wf s'" and "applies c (cols s) (cols s')" and "0 < cmd_amount c"
  using exec_ok [OF assms] exec_wf [OF assms(1), of c] assms(3) by auto

lemma run_ok:
  assumes "wf s" and "\<forall>c \<in> set cs. scale18 (cmd_amount c)"
    and "run_cmds exec cs s = (Inr (), s')"
  shows "fst (cols s') u a = fst (cols s) u a + net_avail cs u a"
    and "snd (cols s') u a = snd (cols s) u a + net_frozen cs u a"
proof -
  have "fst (cols s') u a = fst (cols s) u a + net_avail cs u a \<and>
        snd (cols s') u a = snd (cols s) u a + net_frozen cs u a"
    using assms
  proof (induction cs arbitrary: s)
    case Nil
    then show ?case by simp
  next
    case (Cons c cs)
    from Cons.prems(3) obtain s1 where c: "exec c s = (Inr (), s1)"
      and rest: "run_cmds exec cs s1 = (Inr (), s')"
      by (auto split: prod.splits sum.splits)
    have s1: "wf s1" "applies c (cols s) (cols s1)"
      using exec_okD [OF Cons.prems(1) _ c] Cons.prems(2) by auto
    have "fst (cols s') u a = fst (cols s1) u a + net_avail cs u a \<and>
          snd (cols s') u a = snd (cols s1) u a + net_frozen cs u a"
      using Cons.IH [OF s1(1) _ rest] Cons.prems(2) by simp
    then show ?case using s1(2) by (auto simp: applies_def)
  qed
  then show "fst (cols s') u a = fst (cols s) u a + net_avail cs u a"
    and "snd (cols s') u a = snd (cols s) u a + net_frozen cs u a" by auto
qed

lemma run_ok_held:
  assumes "wf s" and "\<forall>c \<in> set cs. scale18 (cmd_amount c)"
    and "run_cmds exec cs s = (Inr (), s')" and "finite U" and "cmd_user ` set cs \<subseteq> U"
  shows "held (cols s') U a = held (cols s) U a + net cs a"
  using assms
proof (induction cs arbitrary: s)
  case Nil
  then show ?case by simp
next
  case (Cons c cs)
  from Cons.prems(3) obtain s1 where c: "exec c s = (Inr (), s1)"
    and rest: "run_cmds exec cs s1 = (Inr (), s')"
    by (auto split: prod.splits sum.splits)
  have s1: "wf s1" "applies c (cols s) (cols s1)"
    using exec_okD [OF Cons.prems(1) _ c] Cons.prems(2) by auto
  have "held (cols s') U a = held (cols s1) U a + net cs a"
    using Cons.IH [OF s1(1) _ rest] Cons.prems by simp
  moreover have "held (cols s1) U a = held (cols s) U a + net [c] a"
    using held_applies [OF s1(2) Cons.prems(4)] Cons.prems(5) by simp
  ultimately show ?case by simp
qed

lemma exec_cols:
  assumes "wf s" and "scale18 (cmd_amount c)"
  shows "cols (snd (exec c s)) = cols s \<or> applies c (cols s) (cols (snd (exec c s)))"
proof (cases "exec c s")
  case (Pair r s')
  then show ?thesis
    using exec_ok [OF assms] exec_err [OF assms] by (cases r) auto
qed

text \<open>Whatever the outcome, a run touches only the rows its commands name.\<close>

lemma run_frame:
  assumes "wf s" and "\<forall>c \<in> set cs. scale18 (cmd_amount c)"
    and "(u, a) \<notin> (\<lambda>c. (cmd_user c, cmd_asset c)) ` set cs"
  shows "fst (cols (snd (run_cmds exec cs s))) u a = fst (cols s) u a"
    and "snd (cols (snd (run_cmds exec cs s))) u a = snd (cols s) u a"
proof -
  let ?P = "\<lambda>t. wf t \<and> fst (cols t) u a = fst (cols s) u a \<and> snd (cols t) u a = snd (cols s) u a"
  have "?P (snd (run_cmds exec cs s))"
  proof (rule run_cmds_invariant)
    fix c t assume c: "c \<in> set cs" and t: "?P t"
    have "cols (snd (exec c t)) = cols t \<or> applies c (cols t) (cols (snd (exec c t)))"
      using exec_cols [of t c] t c assms(2) by simp
    moreover have "\<not> (u = cmd_user c \<and> a = cmd_asset c)"
      using c assms(3) by auto
    ultimately show "?P (snd (exec c t))"
      using t exec_wf [of t c] by (auto simp: applies_def)
  qed (simp add: assms(1))
  then show "fst (cols (snd (run_cmds exec cs s))) u a = fst (cols s) u a"
    and "snd (cols (snd (run_cmds exec cs s))) u a = snd (cols s) u a" by simp_all
qed

end

end
