(* ===== verification/Wallet.thy ===== *)
theory Wallet
  imports Ledger_Spec "HOL-Library.Char_ord" "HOL-Library.List_Lexorder"
begin

text \<open>
  The balance ledger: internal/wallet/wallet.go, repo.go, service.go and bootstrap.go over the
  tables balances and currencies of migrations/0001_init.up.sql. A balances row is keyed by
  (user_id, asset); its two NUMERIC(38, 18) columns carry CHECKs that they are not negative.
\<close>

subsection \<open>Values and errors (wallet.go)\<close>

record Balance =
  UserID :: uuid
  Asset :: string
  Available :: decimal
  Frozen :: decimal

definition Total :: "Balance \<Rightarrow> decimal" where
  "Total b = Available b + Frozen b"

definition IsZero :: "Balance \<Rightarrow> bool" where
  "IsZero b \<longleftrightarrow> Available b = 0 \<and> Frozen b = 0"

definition BalanceList_Filter :: "Balance list \<Rightarrow> Balance list" where
  "BalanceList_Filter bl = filter (\<lambda>b. \<not> IsZero b) bl"

datatype wallet_error =
    ErrInsufficientBalance
  | ErrInsufficientFrozen
  | ErrUserNotFound
  | ErrNegativeAmount
  | ErrAssetNotSupported
  | ErrSameUserTransfer
  | ErrDatabase
  | ErrZeroRows string
  | Wrapped string wallet_error

fun errors_Is :: "wallet_error \<Rightarrow> wallet_error \<Rightarrow> bool" where
  "errors_Is (Wrapped m e) t = (Wrapped m e = t \<or> errors_Is e t)"
| "errors_Is e t = (e = t)"

subsection \<open>The tables\<close>

record balance_row =
  available :: decimal
  frozen :: decimal

record wallet_db = env +
  balances :: "uuid \<times> string \<Rightarrow> balance_row option"
  currencies :: "(string \<times> bool) list"

text \<open>
  Storing a row: both columns are rounded to their scale, and a value that overflows its
  column or violates its CHECK makes the statement fail.
\<close>

definition store_balance :: "decimal \<Rightarrow> decimal \<Rightarrow> balance_row option" where
  "store_balance a f =
     (case (numeric_38_18 a, numeric_38_18 f) of
        (Some a', Some f') \<Rightarrow>
          if 0 \<le> a' \<and> 0 \<le> f' then Some \<lparr>available = a', frozen = f'\<rparr> else None
      | _ \<Rightarrow> None)"

text \<open>UPDATE balances SET available = fa, frozen = ff WHERE user_id, asset AND guard.\<close>

definition update_balance ::
  "uuid \<times> string \<Rightarrow> (balance_row \<Rightarrow> bool) \<Rightarrow> (balance_row \<Rightarrow> decimal \<times> decimal)
    \<Rightarrow> 'x wallet_db_scheme \<Rightarrow> (nat \<times> 'x wallet_db_scheme) option" where
  "update_balance k guard f s =
     (case balances s k of
        None \<Rightarrow> Some (0, s)
      | Some b \<Rightarrow>
          if guard b
          then map_option (\<lambda>b'. (1, s\<lparr>balances := (balances s)(k \<mapsto> b')\<rparr>))
                 (store_balance (fst (f b)) (snd (f b)))
          else Some (0, s))"

subsection \<open>The repository (repo.go)\<close>

definition is_active :: "'x wallet_db_scheme \<Rightarrow> string \<Rightarrow> bool" where
  "is_active s a = (a \<in> set (map fst (filter snd (currencies s))))"

definition balance_view :: "uuid \<Rightarrow> 'x wallet_db_scheme \<Rightarrow> string \<Rightarrow> Balance" where
  "balance_view u s a =
     (case balances s (u, a) of
        None \<Rightarrow> \<lparr>UserID = u, Asset = a, Available = 0, Frozen = 0\<rparr>
      | Some b \<Rightarrow> \<lparr>UserID = u, Asset = a, Available = available b, Frozen = frozen b\<rparr>)"

definition repo_GetAll ::
  "uuid \<Rightarrow> 'x wallet_db_scheme \<Rightarrow> (wallet_error + Balance list) \<times> 'x wallet_db_scheme" where
  "repo_GetAll u s =
     (case query (\<lambda>t. map (balance_view u t) (sort (map fst (filter snd (currencies t))))) s of
        (None, s') \<Rightarrow> (Inl ErrDatabase, s')
      | (Some out, s') \<Rightarrow> (Inr out, s'))"

definition repo_GetOne ::
  "uuid \<Rightarrow> string \<Rightarrow> 'x wallet_db_scheme \<Rightarrow> (wallet_error + Balance) \<times> 'x wallet_db_scheme" where
  "repo_GetOne u a s =
     (case query (\<lambda>t. if is_active t a then Some (balance_view u t a) else None) s of
        (None, s') \<Rightarrow> (Inl ErrDatabase, s')
      | (Some None, s') \<Rightarrow> (Inl ErrAssetNotSupported, s')
      | (Some (Some b), s') \<Rightarrow> (Inr b, s'))"

text \<open>
  INSERT .. ON CONFLICT DO UPDATE: the row proposed for insertion has to satisfy the CHECKs
  also when the statement ends up updating the row that is there.
\<close>

definition credit_row ::
  "uuid \<Rightarrow> string \<Rightarrow> decimal \<Rightarrow> 'x wallet_db_scheme \<Rightarrow> (nat \<times> 'x wallet_db_scheme) option" where
  "credit_row u a x s =
     (case store_balance x 0 of
        None \<Rightarrow> None
      | Some b0 \<Rightarrow>
          (case balances s (u, a) of
             None \<Rightarrow> Some (1, s\<lparr>balances := (balances s)((u, a) \<mapsto> b0)\<rparr>)
           | Some _ \<Rightarrow> update_balance (u, a) (\<lambda>_. True) (\<lambda>b. (available b + x, frozen b)) s))"

definition repo_Credit ::
  "uuid \<Rightarrow> string \<Rightarrow> decimal \<Rightarrow> 'x wallet_db_scheme \<Rightarrow> (wallet_error + unit) \<times> 'x wallet_db_scheme" where
  "repo_Credit u a x s =
     (case exec_stmt (credit_row u a x) s of
        (None, s') \<Rightarrow> (Inl ErrDatabase, s')
      | (Some n, s') \<Rightarrow>
          if n = 0 then (Inl (ErrZeroRows ''credit returned 0 rows''), s') else (Inr (), s'))"

text \<open>
  The four guarded updates share their zero-rows branch: read the balance back and say whether
  the column was too small or the row is missing.
\<close>

definition explain_zero_rows ::
  "uuid \<Rightarrow> string \<Rightarrow> (Balance \<Rightarrow> decimal) \<Rightarrow> decimal \<Rightarrow> wallet_error \<Rightarrow> 'x wallet_db_scheme
    \<Rightarrow> (wallet_error + unit) \<times> 'x wallet_db_scheme" where
  "explain_zero_rows u a col x err s =
     (case repo_GetOne u a s of
        (Inl gerr, s') \<Rightarrow> (Inl gerr, s')
      | (Inr b, s') \<Rightarrow> (Inl (if col b < x then err else ErrUserNotFound), s'))"

definition guarded_update ::
  "uuid \<Rightarrow> string \<Rightarrow> (balance_row \<Rightarrow> bool) \<Rightarrow> (balance_row \<Rightarrow> decimal \<times> decimal)
    \<Rightarrow> (Balance \<Rightarrow> decimal) \<Rightarrow> decimal \<Rightarrow> wallet_error \<Rightarrow> 'x wallet_db_scheme
    \<Rightarrow> (wallet_error + unit) \<times> 'x wallet_db_scheme" where
  "guarded_update u a guard f col x err s =
     (case exec_stmt (update_balance (u, a) guard f) s of
        (None, s') \<Rightarrow> (Inl ErrDatabase, s')
      | (Some n, s') \<Rightarrow> if n = 0 then explain_zero_rows u a col x err s' else (Inr (), s'))"

definition repo_Freeze ::
  "uuid \<Rightarrow> string \<Rightarrow> decimal \<Rightarrow> 'x wallet_db_scheme \<Rightarrow> (wallet_error + unit) \<times> 'x wallet_db_scheme" where
  "repo_Freeze u a x =
     guarded_update u a (\<lambda>b. x \<le> available b) (\<lambda>b. (available b - x, frozen b + x))
       Available x ErrInsufficientBalance"

definition repo_Unfreeze ::
  "uuid \<Rightarrow> string \<Rightarrow> decimal \<Rightarrow> 'x wallet_db_scheme \<Rightarrow> (wallet_error + unit) \<times> 'x wallet_db_scheme" where
  "repo_Unfreeze u a x =
     guarded_update u a (\<lambda>b. x \<le> frozen b) (\<lambda>b. (available b + x, frozen b - x))
       Frozen x ErrInsufficientFrozen"

definition repo_DebitFrozen ::
  "uuid \<Rightarrow> string \<Rightarrow> decimal \<Rightarrow> 'x wallet_db_scheme \<Rightarrow> (wallet_error + unit) \<times> 'x wallet_db_scheme" where
  "repo_DebitFrozen u a x =
     guarded_update u a (\<lambda>b. x \<le> frozen b) (\<lambda>b. (available b, frozen b - x))
       Frozen x ErrInsufficientFrozen"

definition repo_DebitAvailable ::
  "uuid \<Rightarrow> string \<Rightarrow> decimal \<Rightarrow> 'x wallet_db_scheme \<Rightarrow> (wallet_error + unit) \<times> 'x wallet_db_scheme" where
  "repo_DebitAvailable u a x =
     guarded_update u a (\<lambda>b. x \<le> available b) (\<lambda>b. (available b - x, frozen b))
       Available x ErrInsufficientBalance"

text \<open>
  Transfer runs in one transaction: begin, debit, credit, commit. Every early return rolls the
  balances back; a commit whose acknowledgement is lost has taken effect.
\<close>

definition rollback_balances :: "'x wallet_db_scheme \<Rightarrow> 'x wallet_db_scheme \<Rightarrow> 'x wallet_db_scheme" where
  "rollback_balances s0 s = s\<lparr>balances := balances s0\<rparr>"

definition repo_Transfer ::
  "uuid \<Rightarrow> uuid \<Rightarrow> string \<Rightarrow> decimal \<Rightarrow> 'x wallet_db_scheme \<Rightarrow> (wallet_error + unit) \<times> 'x wallet_db_scheme" where
  "repo_Transfer fromID toID a x s =
     (if fromID = toID then (Inl ErrSameUserTransfer, s)
      else
        (case query (\<lambda>_. ()) s of
           (None, s0) \<Rightarrow> (Inl ErrDatabase, s0)
         | (Some _, s0) \<Rightarrow>
             (case exec_stmt (update_balance (fromID, a) (\<lambda>b. x \<le> available b)
                                (\<lambda>b. (available b - x, frozen b))) s0 of
                (None, s1) \<Rightarrow> (Inl ErrDatabase, rollback_balances s0 s1)
              | (Some n, s1) \<Rightarrow>
                  if n = 0 then (Inl ErrInsufficientBalance, rollback_balances s0 s1)
                  else
                    (case exec_stmt (credit_row toID a x) s1 of
                       (None, s2) \<Rightarrow> (Inl ErrDatabase, rollback_balances s0 s2)
                     | (Some m, s2) \<Rightarrow>
                         if m = 0
                         then (Inl (ErrZeroRows ''credit receiver returned 0 rows''),
                               rollback_balances s0 s2)
                         else
                           (case next_fault s2 of
                              (Acked, s3) \<Rightarrow> (Inr (), s3)
                            | (Lost, s3) \<Rightarrow> (Inl ErrDatabase, rollback_balances s0 s3)
                            | (Unacked, s3) \<Rightarrow> (Inl ErrDatabase, s3))))))"

definition repo_SupportedAssets ::
  "'x wallet_db_scheme \<Rightarrow> (wallet_error + string list) \<times> 'x wallet_db_scheme" where
  "repo_SupportedAssets s =
     (case query (\<lambda>t. sort (map fst (filter snd (currencies t)))) s of
        (None, s') \<Rightarrow> (Inl ErrDatabase, s')
      | (Some out, s') \<Rightarrow> (Inr out, s'))"

subsection \<open>The service (service.go)\<close>

definition GetAll ::
  "uuid \<Rightarrow> 'x wallet_db_scheme \<Rightarrow> (wallet_error + Balance list) \<times> 'x wallet_db_scheme" where
  "GetAll u s = repo_GetAll u s"

definition GetOne ::
  "uuid \<Rightarrow> string \<Rightarrow> 'x wallet_db_scheme \<Rightarrow> (wallet_error + Balance) \<times> 'x wallet_db_scheme" where
  "GetOne u a s = repo_GetOne u a s"

definition wrap_err :: "string \<Rightarrow> (wallet_error + 'a) \<times> 's \<Rightarrow> (wallet_error + 'a) \<times> 's" where
  "wrap_err m r = (case r of (Inl e, s) \<Rightarrow> (Inl (Wrapped m e), s) | (Inr v, s) \<Rightarrow> (Inr v, s))"

definition Credit ::
  "uuid \<Rightarrow> string \<Rightarrow> decimal \<Rightarrow> 'x wallet_db_scheme \<Rightarrow> (wallet_error + unit) \<times> 'x wallet_db_scheme" where
  "Credit u a x s =
     (if x \<le> 0 then (Inl ErrNegativeAmount, s) else wrap_err ''credit'' (repo_Credit u a x s))"

definition Freeze ::
  "uuid \<Rightarrow> string \<Rightarrow> decimal \<Rightarrow> 'x wallet_db_scheme \<Rightarrow> (wallet_error + unit) \<times> 'x wallet_db_scheme" where
  "Freeze u a x s =
     (if x \<le> 0 then (Inl ErrNegativeAmount, s)
      else case repo_Freeze u a x s of
        (Inl e, s') \<Rightarrow>
          if errors_Is e ErrInsufficientBalance then (Inl e, s')
          else if errors_Is e ErrAssetNotSupported then (Inl e, s')
          else (Inl (Wrapped ''freeze'' e), s')
      | (Inr _, s') \<Rightarrow> (Inr (), s'))"

definition Unfreeze ::
  "uuid \<Rightarrow> string \<Rightarrow> decimal \<Rightarrow> 'x wallet_db_scheme \<Rightarrow> (wallet_error + unit) \<times> 'x wallet_db_scheme" where
  "Unfreeze u a x s =
     (if x \<le> 0 then (Inl ErrNegativeAmount, s) else wrap_err ''unfreeze'' (repo_Unfreeze u a x s))"

definition DebitFrozen ::
  "uuid \<Rightarrow> string \<Rightarrow> decimal \<Rightarrow> 'x wallet_db_scheme \<Rightarrow> (wallet_error + unit) \<times> 'x wallet_db_scheme" where
  "DebitFrozen u a x s =
     (if x \<le> 0 then (Inl ErrNegativeAmount, s) else wrap_err ''debit_frozen'' (repo_DebitFrozen u a x s))"

definition DebitAvailable ::
  "uuid \<Rightarrow> string \<Rightarrow> decimal \<Rightarrow> 'x wallet_db_scheme \<Rightarrow> (wallet_error + unit) \<times> 'x wallet_db_scheme" where
  "DebitAvailable u a x s =
     (if x \<le> 0 then (Inl ErrNegativeAmount, s)
      else wrap_err ''debit_available'' (repo_DebitAvailable u a x s))"

definition Transfer ::
  "uuid \<Rightarrow> uuid \<Rightarrow> string \<Rightarrow> decimal \<Rightarrow> 'x wallet_db_scheme \<Rightarrow> (wallet_error + unit) \<times> 'x wallet_db_scheme" where
  "Transfer fromID toID a x s =
     (if x \<le> 0 then (Inl ErrNegativeAmount, s)
      else wrap_err ''transfer'' (repo_Transfer fromID toID a x s))"

definition SupportedAssets ::
  "'x wallet_db_scheme \<Rightarrow> (wallet_error + string list) \<times> 'x wallet_db_scheme" where
  "SupportedAssets s = repo_SupportedAssets s"

subsection \<open>The faucet (bootstrap.go)\<close>

definition DefaultFaucetAmount :: decimal where
  "DefaultFaucetAmount = 10000"

definition BootstrapNewUser ::
  "string \<Rightarrow> uuid \<Rightarrow> 'x wallet_db_scheme \<Rightarrow> (wallet_error + unit) \<times> 'x wallet_db_scheme" where
  "BootstrapNewUser enable_faucet_env u s =
     (if enable_faucet_env \<noteq> ''true'' then (Inr (), s)
      else Credit u ''USDT'' DefaultFaucetAmount s)"

subsection \<open>The ledger invariant\<close>

definition wf_wallet :: "'x wallet_db_scheme \<Rightarrow> bool" where
  "wf_wallet s \<longleftrightarrow>
     (\<forall>k b. balances s k = Some b \<longrightarrow>
        0 \<le> available b \<and> 0 \<le> frozen b \<and> scale18 (available b) \<and> scale18 (frozen b) \<and>
        available b < 10 ^ 20 \<and> frozen b < 10 ^ 20)"

text \<open>
  A read, or a statement that failed before it ran, changes nothing but the position in the
  fault script; a statement on one row changes that row besides.
\<close>

definition only_faults :: "'x env_scheme \<Rightarrow> 'x env_scheme \<Rightarrow> bool" where
  "only_faults s s' \<longleftrightarrow> (\<exists>fs. s' = s\<lparr>faults := fs\<rparr>)"

definition only_balances :: "'x wallet_db_scheme \<Rightarrow> 'x wallet_db_scheme \<Rightarrow> bool" where
  "only_balances s s' \<longleftrightarrow> (\<exists>fs bs. s' = s\<lparr>faults := fs, balances := bs\<rparr>)"

lemma only_faults_refl [simp]: "only_faults s s"
  unfolding only_faults_def by (rule exI [of _ "faults s"]) simp

lemma only_faults_upd [simp]: "only_faults s (s\<lparr>faults := fs\<rparr>)"
  unfolding only_faults_def by blast

lemma only_faults_trans [trans]: "only_faults s t \<Longrightarrow> only_faults t u \<Longrightarrow> only_faults s u"
  unfolding only_faults_def by auto

lemma only_faults_balances:
  "only_faults s s' \<Longrightarrow> balances s' = balances s"
  "only_faults s s' \<Longrightarrow> currencies s' = currencies s"
  by (auto simp: only_faults_def)

lemma only_faults_only_balances: "only_faults s s' \<Longrightarrow> only_balances s s'"
  for s :: "'x wallet_db_scheme"
proof -
  assume "only_faults s s'"
  then obtain fs where "s' = s\<lparr>faults := fs\<rparr>" unfolding only_faults_def by blast
  then have "s' = s\<lparr>faults := fs, balances := balances s\<rparr>" by simp
  then show ?thesis unfolding only_balances_def by blast
qed

lemma only_balances_upd [simp]: "only_balances s (s\<lparr>faults := fs, balances := bs\<rparr>)"
  unfolding only_balances_def by blast

lemma only_balances_trans [trans]: "only_balances s t \<Longrightarrow> only_balances t u \<Longrightarrow> only_balances s u"
  unfolding only_balances_def
proof -
  assume "\<exists>fs bs. t = s\<lparr>faults := fs, balances := bs\<rparr>" and "\<exists>fs bs. u = t\<lparr>faults := fs, balances := bs\<rparr>"
  then obtain fs bs where "u = s\<lparr>faults := fs, balances := bs\<rparr>" by auto
  then show "\<exists>fs bs. u = s\<lparr>faults := fs, balances := bs\<rparr>" by blast
qed

lemma only_balances_refl [simp]: "only_balances s s"
  by (simp add: only_faults_only_balances)

lemma wf_walletI:
  "(\<And>k b. balances s k = Some b \<Longrightarrow>
      0 \<le> available b \<and> 0 \<le> frozen b \<and> scale18 (available b) \<and> scale18 (frozen b) \<and>
        available b < 10 ^ 20 \<and> frozen b < 10 ^ 20) \<Longrightarrow> wf_wallet s"
  unfolding wf_wallet_def by blast

lemma wf_walletD:
  "wf_wallet s \<Longrightarrow> balances s k = Some b \<Longrightarrow>
     0 \<le> available b \<and> 0 \<le> frozen b \<and> scale18 (available b) \<and> scale18 (frozen b) \<and>
        available b < 10 ^ 20 \<and> frozen b < 10 ^ 20"
  unfolding wf_wallet_def by blast

lemma wf_wallet_cong: "balances s' = balances s \<Longrightarrow> wf_wallet s' = wf_wallet s"
  by (simp add: wf_wallet_def)

lemma store_balance_SomeD:
  assumes "store_balance a f = Some b"
  shows "available b = num18 a" and "frozen b = num18 f"
    and "0 \<le> available b" and "0 \<le> frozen b" and "scale18 (available b)" and "scale18 (frozen b)"
    and "available b < 10 ^ 20" and "frozen b < 10 ^ 20"
  using assms
  by (auto simp: store_balance_def numeric_38_18_def split: option.splits if_splits)

lemma next_fault_frame: "next_fault s = (fl, s') \<Longrightarrow> only_faults s s'"
  by (auto simp: next_fault_def split: list.splits)

lemma query_frame: "query f s = (r, s') \<Longrightarrow> only_faults s s'"
  by (auto simp: query_def split: prod.splits dest: next_fault_frame)

lemma wf_wallet_store:
  "wf_wallet s \<Longrightarrow> store_balance a f = Some b \<Longrightarrow> balances s' = (balances s)(k \<mapsto> b) \<Longrightarrow> wf_wallet s'"
  by (rule wf_walletI) (auto dest: wf_walletD store_balance_SomeD split: if_splits)

lemma exec_stmt_cases:
  assumes "exec_stmt f s = (r, s')"
  obtains (unchanged) "r = None" and "only_faults s s'"
  | (ran) s1 n where "only_faults s s1" and "f s1 = Some (n, s')" and "r = Some n \<or> r = None"
proof -
  obtain fl s1 where s1: "next_fault s = (fl, s1)" by (cases "next_fault s")
  note fr = next_fault_frame [OF s1]
  show thesis
  proof (cases "fl = Lost \<or> f s1 = None")
    case True
    then have "r = None" "s' = s1"
      using assms s1 by (auto simp: exec_stmt_def split: option.splits)
    with fr show thesis by (intro unchanged) simp_all
  next
    case False
    then obtain n s2 where fs: "fl \<noteq> Lost" "f s1 = Some (n, s2)" by auto
    then have "s' = s2" "r = Some n \<or> r = None"
      using assms s1 by (auto simp: exec_stmt_def split: if_splits)
    with fr fs show thesis by (intro ran [of s1 n]) simp_all
  qed
qed

text \<open>One balances row rewritten by a guarded statement, everything else kept.\<close>

definition row_moved ::
  "uuid \<times> string \<Rightarrow> (balance_row \<Rightarrow> bool) \<Rightarrow> (balance_row \<Rightarrow> decimal \<times> decimal)
    \<Rightarrow> 'x wallet_db_scheme \<Rightarrow> 'x wallet_db_scheme \<Rightarrow> bool" where
  "row_moved k guard f s s' \<longleftrightarrow>
     (\<exists>b b' fs. balances s k = Some b \<and> guard b \<and>
        store_balance (fst (f b)) (snd (f b)) = Some b' \<and>
        s' = s\<lparr>faults := fs, balances := (balances s)(k \<mapsto> b')\<rparr>)"

lemma row_movedI:
  assumes "only_faults s s0" and "balances s0 k = Some b" and "guard b"
    and "store_balance (fst (f b)) (snd (f b)) = Some b'"
    and "s' = s0\<lparr>balances := (balances s0)(k \<mapsto> b')\<rparr>"
  shows "row_moved k guard f s s'"
proof -
  from assms(1) obtain fs where "s0 = s\<lparr>faults := fs\<rparr>" unfolding only_faults_def by blast
  with assms show ?thesis unfolding row_moved_def by auto
qed

lemma update_stmt_moved:
  assumes "only_faults s s0" and "update_balance k guard f s0 = Some (n, s')"
  shows "(n = 0 \<and> s' = s0) \<or> (n = 1 \<and> row_moved k guard f s s')"
  using assms(2) unfolding update_balance_def
  by (auto split: option.splits if_splits intro: row_movedI [OF assms(1)])

lemma row_moved_frame: "row_moved k guard f s s' \<Longrightarrow> only_balances s s'"
  unfolding row_moved_def by auto

lemma row_moved_wf: "wf_wallet s \<Longrightarrow> row_moved k guard f s s' \<Longrightarrow> wf_wallet s'"
  unfolding row_moved_def by (auto intro: wf_wallet_store)

lemma repo_GetOne_frame: "repo_GetOne u a s = (r, s') \<Longrightarrow> only_faults s s'"
  by (auto simp: repo_GetOne_def split: prod.splits option.splits dest: query_frame)

lemma explain_zero_rows_frame:
  "explain_zero_rows u a col x err s = (r, s') \<Longrightarrow> only_faults s s' \<and> (\<exists>e. r = Inl e)"
  by (auto simp: explain_zero_rows_def split: prod.splits sum.splits dest: repo_GetOne_frame)

lemma guarded_update_cases:
  assumes "guarded_update u a guard f col x err s = (r, s')"
  shows "(only_faults s s' \<and> (\<exists>e. r = Inl e)) \<or>
         (row_moved (u, a) guard f s s' \<and> (r = Inr () \<or> r = Inl ErrDatabase))"
proof -
  obtain r1 s1 where ex: "exec_stmt (update_balance (u, a) guard f) s = (r1, s1)"
    by (cases "exec_stmt (update_balance (u, a) guard f) s")
  from ex show ?thesis
  proof (cases rule: exec_stmt_cases)
    case unchanged
    then show ?thesis using assms ex by (auto simp: guarded_update_def)
  next
    case (ran s0 n)
    from update_stmt_moved [OF ran(1,2)] show ?thesis
    proof
      assume "n = 0 \<and> s1 = s0"
      then show ?thesis
        using assms ex ran
        by (auto simp: guarded_update_def split: option.splits dest: explain_zero_rows_frame
            only_faults_trans)
    next
      assume "n = 1 \<and> row_moved (u, a) guard f s s1"
      then show ?thesis
        using assms ex ran(3) by (auto simp: guarded_update_def split: option.splits)
    qed
  qed
qed

text \<open>The two columns as total functions; a missing row reads as zero.\<close>

definition wallet_available :: "'x wallet_db_scheme \<Rightarrow> uuid \<Rightarrow> string \<Rightarrow> decimal" where
  "wallet_available s u a = (case balances s (u, a) of None \<Rightarrow> 0 | Some b \<Rightarrow> available b)"

definition wallet_frozen :: "'x wallet_db_scheme \<Rightarrow> uuid \<Rightarrow> string \<Rightarrow> decimal" where
  "wallet_frozen s u a = (case balances s (u, a) of None \<Rightarrow> 0 | Some b \<Rightarrow> frozen b)"

definition wallet_cols :: "'x wallet_db_scheme \<Rightarrow> column \<times> column" where
  "wallet_cols s = (wallet_available s, wallet_frozen s)"

lemma wallet_cols_simps [simp]:
  "fst (wallet_cols s) = wallet_available s"
  "snd (wallet_cols s) = wallet_frozen s"
  by (simp_all add: wallet_cols_def)

lemma wallet_cols_cong: "balances s' = balances s \<Longrightarrow> wallet_cols s' = wallet_cols s"
  by (simp add: wallet_cols_def wallet_available_def wallet_frozen_def fun_eq_iff)

lemma only_faults_cols: "only_faults s s' \<Longrightarrow> wallet_cols s' = wallet_cols s"
  by (rule wallet_cols_cong) (rule only_faults_balances)

lemma only_faults_wf: "only_faults s s' \<Longrightarrow> wf_wallet s' = wf_wallet s"
  by (rule wf_wallet_cong) (rule only_faults_balances)

lemma wallet_columns_nonneg:
  "wf_wallet s \<Longrightarrow> 0 \<le> wallet_available s u a"
  "wf_wallet s \<Longrightarrow> 0 \<le> wallet_frozen s u a"
  by (auto simp: wallet_available_def wallet_frozen_def split: option.splits dest: wf_walletD)

lemma wallet_columns_scale18:
  "wf_wallet s \<Longrightarrow> scale18 (wallet_available s u a)"
  "wf_wallet s \<Longrightarrow> scale18 (wallet_frozen s u a)"
  by (auto simp: wallet_available_def wallet_frozen_def split: option.splits dest: wf_walletD)

lemma wallet_columns_bound:
  "wf_wallet s \<Longrightarrow> wallet_available s u a < 10 ^ 20"
  "wf_wallet s \<Longrightarrow> wallet_frozen s u a < 10 ^ 20"
  by (auto simp: wallet_available_def wallet_frozen_def split: option.splits dest: wf_walletD)

text \<open>A row set to two computed values, whether it was there before or not.\<close>

definition row_set ::
  "uuid \<times> string \<Rightarrow> decimal \<Rightarrow> decimal \<Rightarrow> 'x wallet_db_scheme \<Rightarrow> 'x wallet_db_scheme \<Rightarrow> bool" where
  "row_set k y z s s' \<longleftrightarrow>
     (\<exists>b' fs. store_balance y z = Some b' \<and> s' = s\<lparr>faults := fs, balances := (balances s)(k \<mapsto> b')\<rparr>)"

lemma row_set_frame: "row_set k y z s s' \<Longrightarrow> only_balances s s'"
  unfolding row_set_def only_balances_def by blast

lemma row_setI:
  assumes "only_faults s s0" and "store_balance y z = Some b'"
    and "s' = s0\<lparr>balances := (balances s0)(k \<mapsto> b')\<rparr>"
  shows "row_set k y z s s'"
proof -
  from assms(1) obtain fs where "s0 = s\<lparr>faults := fs\<rparr>" unfolding only_faults_def by blast
  with assms(3) have "s' = s\<lparr>faults := fs, balances := (balances s)(k \<mapsto> b')\<rparr>" by simp
  with assms(2) show ?thesis unfolding row_set_def by blast
qed

lemma row_setE:
  assumes "row_set k y z s s'"
  obtains b' where "store_balance y z = Some b'" and "balances s' = (balances s)(k \<mapsto> b')"
    and "currencies s' = currencies s"
  using assms unfolding row_set_def by auto

lemma row_set_wf: "wf_wallet s \<Longrightarrow> row_set k y z s s' \<Longrightarrow> wf_wallet s'"
  by (erule row_setE) (rule wf_wallet_store)

lemma row_set_cols:
  assumes "row_set (u, a) y z s s'"
  shows "wallet_available s' u' a' = (if u' = u \<and> a' = a then num18 y else wallet_available s u' a')"
    and "wallet_frozen s' u' a' = (if u' = u \<and> a' = a then num18 z else wallet_frozen s u' a')"
  using assms
  by (auto elim!: row_setE simp: wallet_available_def wallet_frozen_def dest: store_balance_SomeD)

lemma row_moved_set:
  assumes "row_moved (u, a) guard f s s'"
  obtains b where "balances s (u, a) = Some b" and "guard b"
    and "row_set (u, a) (fst (f b)) (snd (f b)) s s'"
  using assms unfolding row_moved_def row_set_def by blast

lemma row_set_applies:
  assumes "wf_wallet s" and "scale18 (cmd_amount c)"
    and "row_set (cmd_user c, cmd_asset c)
           (wallet_available s (cmd_user c) (cmd_asset c) + cmd_avail c)
           (wallet_frozen s (cmd_user c) (cmd_asset c) + cmd_frozen c) s s'"
  shows "applies c (wallet_cols s) (wallet_cols s')"
proof -
  have "scale18 (cmd_avail c)" "scale18 (cmd_frozen c)"
    using assms(2) by (cases c; simp)+
  then show ?thesis
    using assms(1) row_set_cols [OF assms(3)]
    by (auto simp: applies_def wallet_cols_def fun_eq_iff wallet_columns_scale18)
qed

lemma credit_row_SomeD:
  assumes "only_faults s s0" and "credit_row u a x s0 = Some (n, s')"
  shows "n = 1 \<and> row_set (u, a) (wallet_available s u a + x) (wallet_frozen s u a) s s'"
proof -
  have eq: "wallet_available s u a = wallet_available s0 u a" "wallet_frozen s u a = wallet_frozen s0 u a"
    using only_faults_cols [OF assms(1)] by (simp_all add: wallet_cols_def)
  obtain b' where "store_balance (wallet_available s0 u a + x) (wallet_frozen s0 u a) = Some b'"
    "n = 1" "s' = s0\<lparr>balances := (balances s0)((u, a) \<mapsto> b')\<rparr>"
    using assms(2) unfolding credit_row_def wallet_available_def wallet_frozen_def update_balance_def
    by (auto split: option.splits)
  then show ?thesis
    unfolding eq using assms(1) by (blast intro: row_setI)
qed

lemma repo_Credit_cases:
  assumes "repo_Credit u a x s = (r, s')"
  shows "(only_faults s s' \<and> r = Inl ErrDatabase) \<or>
         (row_set (u, a) (wallet_available s u a + x) (wallet_frozen s u a) s s' \<and>
          (r = Inr () \<or> r = Inl ErrDatabase))"
proof -
  obtain r1 s1 where ex: "exec_stmt (credit_row u a x) s = (r1, s1)"
    by (cases "exec_stmt (credit_row u a x) s")
  from ex show ?thesis
  proof (cases rule: exec_stmt_cases)
    case unchanged
    then show ?thesis using assms ex by (auto simp: repo_Credit_def)
  next
    case (ran s0 n)
    note credit_row_SomeD [OF ran(1,2)]
    then show ?thesis
      using assms ex ran(3) by (auto simp: repo_Credit_def)
  qed
qed

subsection \<open>The wallet as a ledger\<close>

fun wallet_exec ::
  "ledger_cmd \<Rightarrow> 'x wallet_db_scheme \<Rightarrow> (wallet_error + unit) \<times> 'x wallet_db_scheme" where
  "wallet_exec (CmdCredit u a x) s = Credit u a x s"
| "wallet_exec (CmdFreeze u a x) s = Freeze u a x s"
| "wallet_exec (CmdUnfreeze u a x) s = Unfreeze u a x s"
| "wallet_exec (CmdDebitFrozen u a x) s = DebitFrozen u a x s"
| "wallet_exec (CmdDebitAvailable u a x) s = DebitAvailable u a x s"

text \<open>What one command can do, under any fault: nothing at all, or its move of one row.\<close>

definition cmd_row :: "ledger_cmd \<Rightarrow> 'x wallet_db_scheme \<Rightarrow> 'x wallet_db_scheme \<Rightarrow> bool" where
  "cmd_row c s s' \<longleftrightarrow>
     row_set (cmd_user c, cmd_asset c)
       (wallet_available s (cmd_user c) (cmd_asset c) + cmd_avail c)
       (wallet_frozen s (cmd_user c) (cmd_asset c) + cmd_frozen c) s s'"

lemma row_moved_cmd:
  assumes "row_moved (cmd_user c, cmd_asset c) guard f s s'"
    and "\<And>b. f b = (available b + cmd_avail c, frozen b + cmd_frozen c)"
  shows "cmd_row c s s'"
proof -
  from assms(1) obtain b where "balances s (cmd_user c, cmd_asset c) = Some b"
    and "row_set (cmd_user c, cmd_asset c) (fst (f b)) (snd (f b)) s s'"
    by (rule row_moved_set)
  then show ?thesis
    unfolding cmd_row_def wallet_available_def wallet_frozen_def assms(2) by simp
qed

lemma row_moved_cmds:
  "row_moved (u, a) g (\<lambda>b. (available b - x, frozen b + x)) s s' \<Longrightarrow> cmd_row (CmdFreeze u a x) s s'"
  "row_moved (u, a) g (\<lambda>b. (available b + x, frozen b - x)) s s' \<Longrightarrow> cmd_row (CmdUnfreeze u a x) s s'"
  "row_moved (u, a) g (\<lambda>b. (available b, frozen b - x)) s s' \<Longrightarrow> cmd_row (CmdDebitFrozen u a x) s s'"
  "row_moved (u, a) g (\<lambda>b. (available b - x, frozen b)) s s' \<Longrightarrow> cmd_row (CmdDebitAvailable u a x) s s'"
  by (rule row_moved_cmd, simp, simp)+

lemma wrap_err_eq:
  "wrap_err m x = (r, s') \<longleftrightarrow>
     (\<exists>e. x = (Inl e, s') \<and> r = Inl (Wrapped m e)) \<or> (\<exists>v. x = (Inr v, s') \<and> r = Inr v)"
  by (cases x; cases "fst x") (auto simp: wrap_err_def)

lemma wallet_exec_cases:
  assumes "wallet_exec c s = (r, s')"
  shows "(only_faults s s' \<and> (\<exists>e. r = Inl e)) \<or>
         (cmd_row c s s' \<and> 0 < cmd_amount c \<and>
          (r = Inr () \<or> (\<exists>e. r = Inl e \<and> errors_Is e ErrDatabase)))"
proof (cases "cmd_amount c \<le> 0")
  case True
  then show ?thesis
    using assms
    by (cases c) (auto simp: Credit_def Freeze_def Unfreeze_def DebitFrozen_def DebitAvailable_def)
next
  case False
  then show ?thesis
  proof (cases c)
    case (CmdCredit u a x)
    then show ?thesis
      using assms False
      by (auto simp: Credit_def wrap_err_eq cmd_row_def dest: repo_Credit_cases)
  next
    case (CmdFreeze u a x)
    then show ?thesis
      using assms False
      by (auto simp: Freeze_def repo_Freeze_def split: prod.splits sum.splits if_splits
          dest!: guarded_update_cases dest: row_moved_cmds)
  next
    case (CmdUnfreeze u a x)
    then show ?thesis
      using assms False
      by (auto simp: Unfreeze_def repo_Unfreeze_def wrap_err_eq
          dest!: guarded_update_cases dest: row_moved_cmds)
  next
    case (CmdDebitFrozen u a x)
    then show ?thesis
      using assms False
      by (auto simp: DebitFrozen_def repo_DebitFrozen_def wrap_err_eq
          dest!: guarded_update_cases dest: row_moved_cmds)
  next
    case (CmdDebitAvailable u a x)
    then show ?thesis
      using assms False
      by (auto simp: DebitAvailable_def repo_DebitAvailable_def wrap_err_eq
          dest!: guarded_update_cases dest: row_moved_cmds)
  qed
qed

lemma cmd_row_wf: "wf_wallet s \<Longrightarrow> cmd_row c s s' \<Longrightarrow> wf_wallet s'"
  unfolding cmd_row_def by (rule row_set_wf)

lemma cmd_row_applies:
  "wf_wallet s \<Longrightarrow> scale18 (cmd_amount c) \<Longrightarrow> cmd_row c s s' \<Longrightarrow> applies c (wallet_cols s) (wallet_cols s')"
  unfolding cmd_row_def by (rule row_set_applies)

lemma wallet_exec_frame: "wallet_exec c s = (r, s') \<Longrightarrow> only_balances s s'"
  by (drule wallet_exec_cases)
    (auto simp: cmd_row_def dest: only_faults_only_balances row_set_frame)

lemma wallet_exec_wf: "wf_wallet s \<Longrightarrow> wf_wallet (snd (wallet_exec c s))"
  by (cases "wallet_exec c s")
    (auto dest!: wallet_exec_cases dest: only_faults_wf cmd_row_wf)

lemma guarded_update_guard:
  assumes "guarded_update u a guard f col x err s = (Inr (), s')"
  shows "\<exists>b. balances s (u, a) = Some b \<and> guard b"
  using guarded_update_cases [OF assms] by (auto elim: row_moved_set)

lemma wallet_exec_guard:
  assumes "wf_wallet s" and "wallet_exec c s = (Inr (), s')"
  shows "0 \<le> wallet_available s (cmd_user c) (cmd_asset c) + cmd_avail c"
    and "0 \<le> wallet_frozen s (cmd_user c) (cmd_asset c) + cmd_frozen c"
  using assms wallet_columns_nonneg [OF assms(1), of "cmd_user c" "cmd_asset c"]
  by (cases c;
      auto simp: Credit_def Freeze_def Unfreeze_def DebitFrozen_def DebitAvailable_def wrap_err_eq
        repo_Freeze_def repo_Unfreeze_def repo_DebitFrozen_def repo_DebitAvailable_def
        wallet_available_def wallet_frozen_def
      split: if_splits sum.splits prod.splits dest!: guarded_update_guard)+

interpretation wl: ledger wf_wallet wallet_cols wallet_exec
proof
  fix s :: "'a wallet_db_scheme" and u a c s' e
  assume s: "wf_wallet s"
  show "0 \<le> fst (wallet_cols s) u a \<and> 0 \<le> snd (wallet_cols s) u a"
    using s by (simp add: wallet_columns_nonneg)
  show "wf_wallet (snd (wallet_exec c s))"
    using s by (rule wallet_exec_wf)
  assume x: "scale18 (cmd_amount c)"
  { assume "wallet_exec c s = (Inr (), s')"
    from wallet_exec_cases [OF this] cmd_row_applies [OF s x]
    show "applies c (wallet_cols s) (wallet_cols s') \<and> 0 < cmd_amount c" by auto }
  { assume "wallet_exec c s = (Inl e, s')"
    from wallet_exec_cases [OF this] cmd_row_applies [OF s x]
    show "wallet_cols s' = wallet_cols s \<or> applies c (wallet_cols s) (wallet_cols s')"
      by (auto dest: only_faults_cols) }
qed

subsection \<open>Transfers\<close>

lemma rollback_frame:
  "only_balances s s' \<Longrightarrow> balances (rollback_balances s s') = balances s"
  "only_balances s s' \<Longrightarrow> only_balances s (rollback_balances s s')"
proof -
  assume "only_balances s s'"
  then obtain fs bs where "s' = s\<lparr>faults := fs, balances := bs\<rparr>"
    unfolding only_balances_def by blast
  then have "rollback_balances s s' = s\<lparr>faults := fs, balances := balances s\<rparr>"
    by (simp add: rollback_balances_def)
  then show "balances (rollback_balances s s') = balances s"
    and "only_balances s (rollback_balances s s')"
    by (simp_all add: only_faults_only_balances)
qed

text \<open>The two statements of the transaction, and what they leave if the commit goes through.\<close>

definition transfer_rows ::
  "uuid \<Rightarrow> uuid \<Rightarrow> string \<Rightarrow> decimal \<Rightarrow> 'x wallet_db_scheme \<Rightarrow> 'x wallet_db_scheme \<Rightarrow> bool" where
  "transfer_rows fromID toID a x s s' \<longleftrightarrow>
     x \<le> wallet_available s fromID a \<and> fromID \<noteq> toID \<and>
     (\<exists>s1 s2. cmd_row (CmdDebitAvailable fromID a x) s s1 \<and> cmd_row (CmdCredit toID a x) s1 s2 \<and>
        only_faults s2 s')"

lemma debit_stmt_cases:
  assumes "exec_stmt (update_balance (u, a) (\<lambda>b. x \<le> available b) (\<lambda>b. (available b - x, frozen b))) s
             = (r, s')"
  shows "only_faults s s' \<and> (r = None \<or> r = Some 0) \<or>
         cmd_row (CmdDebitAvailable u a x) s s' \<and> x \<le> wallet_available s u a \<and> (r = None \<or> r = Some 1)"
  using assms
proof (cases rule: exec_stmt_cases)
  case unchanged
  then show ?thesis by simp
next
  case (ran s0 n)
  from update_stmt_moved [OF ran(1,2)] show ?thesis
  proof
    assume "n = 0 \<and> s' = s0"
    then show ?thesis using ran(1,3) by auto
  next
    assume m: "n = 1 \<and> row_moved (u, a) (\<lambda>b. x \<le> available b) (\<lambda>b. (available b - x, frozen b)) s s'"
    then obtain b where "balances s (u, a) = Some b" "x \<le> available b"
      by (auto elim: row_moved_set)
    then have "x \<le> wallet_available s u a" by (simp add: wallet_available_def)
    then show ?thesis
      using row_moved_cmds(4) [OF conjunct2 [OF m]] m ran(3) by blast
  qed
qed

lemma credit_stmt_cases:
  assumes "exec_stmt (credit_row u a x) s = (r, s')"
  shows "only_faults s s' \<and> r = None \<or> cmd_row (CmdCredit u a x) s s' \<and> (r = None \<or> r = Some 1)"
  using assms
proof (cases rule: exec_stmt_cases)
  case unchanged
  then show ?thesis by simp
next
  case (ran s0 n)
  from credit_row_SomeD [OF ran(1,2)] ran(3) show ?thesis
    by (auto simp: cmd_row_def)
qed

lemma cmd_row_frame: "cmd_row c s s' \<Longrightarrow> only_balances s s'"
  unfolding cmd_row_def by (rule row_set_frame)

lemma cmd_row_faults: "only_faults s s0 \<Longrightarrow> cmd_row c s0 s' \<Longrightarrow> cmd_row c s s'"
proof -
  assume f: "only_faults s s0" and r: "cmd_row c s0 s'"
  from f obtain fs where fs: "s0 = s\<lparr>faults := fs\<rparr>" unfolding only_faults_def by blast
  from r obtain b' gs where "store_balance
       (wallet_available s0 (cmd_user c) (cmd_asset c) + cmd_avail c)
       (wallet_frozen s0 (cmd_user c) (cmd_asset c) + cmd_frozen c) = Some b'"
    "s' = s0\<lparr>faults := gs, balances := (balances s0)((cmd_user c, cmd_asset c) \<mapsto> b')\<rparr>"
    unfolding cmd_row_def row_set_def by blast
  then have "store_balance
       (wallet_available s (cmd_user c) (cmd_asset c) + cmd_avail c)
       (wallet_frozen s (cmd_user c) (cmd_asset c) + cmd_frozen c) = Some b'"
    "s' = s\<lparr>faults := gs, balances := (balances s)((cmd_user c, cmd_asset c) \<mapsto> b')\<rparr>"
    by (simp_all add: fs wallet_available_def wallet_frozen_def)
  then show "cmd_row c s s'" unfolding cmd_row_def row_set_def by blast
qed

lemma repo_Transfer_cases:
  assumes "repo_Transfer fromID toID a x s = (r, s')"
  shows "(balances s' = balances s \<and> (\<exists>e. r = Inl e)) \<and> only_balances s s' \<or>
         transfer_rows fromID toID a x s s' \<and> (r = Inr () \<or> r = Inl ErrDatabase)"
proof (cases "fromID = toID")
  case True
  then show ?thesis using assms by (auto simp: repo_Transfer_def)
next
  case False
  let ?deb = "update_balance (fromID, a) (\<lambda>b. x \<le> available b) (\<lambda>b. (available b - x, frozen b))"
  obtain q s0 where q: "query (\<lambda>_. ()) s = (q, s0)" by (cases "query (\<lambda>_. ()) s")
  obtain r1 s1 where d: "exec_stmt ?deb s0 = (r1, s1)" by (cases "exec_stmt ?deb s0")
  obtain r2 s2 where c: "exec_stmt (credit_row toID a x) s1 = (r2, s2)"
    by (cases "exec_stmt (credit_row toID a x) s1")
  obtain fl s3 where f: "next_fault s2 = (fl, s3)" by (cases "next_fault s2")
  note qf = query_frame [OF q] and dc = debit_stmt_cases [OF d] and cc = credit_stmt_cases [OF c]
    and ff = next_fault_frame [OF f]
  have b01: "only_balances s0 s1"
    using dc by (auto dest: cmd_row_frame only_faults_only_balances)
  have b02: "only_balances s0 s2"
    using b01 cc by (auto dest: cmd_row_frame only_faults_only_balances intro: only_balances_trans)
  have b03: "only_balances s0 s3"
    using b02 ff by (auto dest: only_faults_only_balances intro: only_balances_trans)
  have undo: "balances (rollback_balances s0 t) = balances s \<and> only_balances s (rollback_balances s0 t)"
    if "only_balances s0 t" for t
    using rollback_frame [OF that] only_faults_balances(1) [OF qf] only_faults_only_balances [OF qf]
    by (auto intro: only_balances_trans)
  note undos = undo [OF b01] undo [OF b02] undo [OF b03]
  have rows: "transfer_rows fromID toID a x s s3" if "r1 = Some 1" "r2 = Some 1"
  proof -
    from dc that have "cmd_row (CmdDebitAvailable fromID a x) s s1" "x \<le> wallet_available s fromID a"
      using cmd_row_faults [OF qf] only_faults_cols [OF qf] by (auto simp: wallet_cols_def)
    then show ?thesis
      using cc that ff False unfolding transfer_rows_def by auto
  qed
  show ?thesis
    using assms False q d c f undos rows dc cc only_faults_balances(1) [OF qf]
      only_faults_only_balances [OF qf]
    by (auto simp: repo_Transfer_def split: option.splits if_splits fault.splits)
qed

lemma transfer_rows_wf: "wf_wallet s \<Longrightarrow> transfer_rows fromID toID a x s s' \<Longrightarrow> wf_wallet s'"
  unfolding transfer_rows_def by (auto dest: cmd_row_wf only_faults_wf)

lemma transfer_rows_frame: "transfer_rows fromID toID a x s s' \<Longrightarrow> only_balances s s'"
  unfolding transfer_rows_def
  by (meson cmd_row_frame only_faults_only_balances only_balances_trans)

lemma transfer_rows_cols:
  assumes "wf_wallet s" and "scale18 x" and "transfer_rows fromID toID a x s s'"
  shows "wallet_available s' u b =
           (if b = a \<and> u = fromID then wallet_available s u b - x
            else if b = a \<and> u = toID then wallet_available s u b + x
            else wallet_available s u b)"
    and "wallet_frozen s' u b = wallet_frozen s u b"
proof -
  from assms(3) obtain s1 s2 where d: "cmd_row (CmdDebitAvailable fromID a x) s s1"
    and c: "cmd_row (CmdCredit toID a x) s1 s2" and f: "only_faults s2 s'" and ne: "fromID \<noteq> toID"
    unfolding transfer_rows_def by blast
  have "applies (CmdDebitAvailable fromID a x) (wallet_cols s) (wallet_cols s1)"
    using cmd_row_applies [OF assms(1) _ d] assms(2) by simp
  moreover have "applies (CmdCredit toID a x) (wallet_cols s1) (wallet_cols s2)"
    using cmd_row_applies [OF cmd_row_wf [OF assms(1) d] _ c] assms(2) by simp
  moreover have "wallet_cols s' = wallet_cols s2" using f by (rule only_faults_cols)
  ultimately show "wallet_available s' u b =
           (if b = a \<and> u = fromID then wallet_available s u b - x
            else if b = a \<and> u = toID then wallet_available s u b + x
            else wallet_available s u b)"
    and "wallet_frozen s' u b = wallet_frozen s u b"
    using ne by (auto simp: applies_def wallet_cols_def)
qed

lemma Transfer_cases:
  assumes "Transfer fromID toID a x s = (r, s')"
  shows "balances s' = balances s \<and> (\<exists>e. r = Inl e) \<and> only_balances s s' \<or>
         transfer_rows fromID toID a x s s' \<and> 0 < x \<and>
           (r = Inr () \<or> r = Inl (Wrapped ''transfer'' ErrDatabase))"
  using assms
  by (auto simp: Transfer_def wrap_err_eq not_le split: if_splits dest!: repo_Transfer_cases)

text \<open>
  When the database answers, a command of a scaled amount succeeds exactly when both columns stay
  within their bounds, and a refused command changes nothing.
\<close>

lemma store_balance_fits:
  "scale18 y \<Longrightarrow> scale18 z \<Longrightarrow> 0 \<le> y \<Longrightarrow> 0 \<le> z \<Longrightarrow> y < 10 ^ 20 \<Longrightarrow> z < 10 ^ 20 \<Longrightarrow>
     store_balance y z = Some \<lparr>available = y, frozen = z\<rparr>"
  by (simp add: store_balance_def)

lemma guarded_update_acked:
  assumes "faults s = []" and "balances s (u, a) = Some b" and "guard b"
    and "store_balance (fst (f b)) (snd (f b)) = Some b'"
  shows "guarded_update u a guard f col x err s = (Inr (), s\<lparr>balances := (balances s)((u, a) \<mapsto> b')\<rparr>)"
  using assms by (simp add: guarded_update_def update_balance_def)

lemma guarded_update_refused:
  assumes "faults s = []" and "\<And>b. balances s (u, a) = Some b \<Longrightarrow> \<not> guard b"
  shows "\<exists>e. guarded_update u a guard f col x err s = (Inl e, s)"
  using assms
  by (cases "balances s (u, a)")
    (auto simp: guarded_update_def update_balance_def explain_zero_rows_def repo_GetOne_def)

lemma wallet_exec_succeeds:
  assumes "wf_wallet s" and "faults s = []" and "scale18 (cmd_amount c)" and "0 < cmd_amount c"
    and a: "0 \<le> wallet_available s (cmd_user c) (cmd_asset c) + cmd_avail c"
      "wallet_available s (cmd_user c) (cmd_asset c) + cmd_avail c < 10 ^ 20"
    and f: "0 \<le> wallet_frozen s (cmd_user c) (cmd_asset c) + cmd_frozen c"
      "wallet_frozen s (cmd_user c) (cmd_asset c) + cmd_frozen c < 10 ^ 20"
  shows "wallet_exec c s = (Inr (), s\<lparr>balances := (balances s)((cmd_user c, cmd_asset c) \<mapsto>
     \<lparr>available = wallet_available s (cmd_user c) (cmd_asset c) + cmd_avail c,
      frozen = wallet_frozen s (cmd_user c) (cmd_asset c) + cmd_frozen c\<rparr>)\<rparr>)"
proof -
  let ?A = "wallet_available s (cmd_user c) (cmd_asset c)"
  let ?F = "wallet_frozen s (cmd_user c) (cmd_asset c)"
  have sc: "scale18 (?A + cmd_avail c)" "scale18 (?F + cmd_frozen c)"
    using assms(1,3) by (cases c; simp add: wallet_columns_scale18)+
  note st = store_balance_fits [OF sc a(1) f(1) a(2) f(2)]
  show ?thesis
  proof (cases "balances s (cmd_user c, cmd_asset c)")
    case None
    then have z: "?A = 0" "?F = 0" by (simp_all add: wallet_available_def wallet_frozen_def)
    then obtain u b x where c: "c = CmdCredit u b x"
      using a f assms(4) by (cases c) auto
    then show ?thesis
      using None z st assms(2,4)
      by (simp add: Credit_def repo_Credit_def credit_row_def wrap_err_def)
  next
    case (Some b)
    then have z: "?A = available b" "?F = frozen b" by (simp_all add: wallet_available_def wallet_frozen_def)
    have cr: "store_balance (cmd_amount c) 0 = Some \<lparr>available = cmd_amount c, frozen = 0\<rparr>" if "cmd_avail c = cmd_amount c"
      using that a(2) assms(3,4) wallet_columns_nonneg(1) [OF assms(1), of "cmd_user c" "cmd_asset c"]
      by (intro store_balance_fits) auto
    show ?thesis
      using Some z st cr assms(2,4) a f
      by (cases c)
        (simp_all add: Credit_def repo_Credit_def credit_row_def wrap_err_def Freeze_def repo_Freeze_def
          Unfreeze_def repo_Unfreeze_def DebitFrozen_def repo_DebitFrozen_def DebitAvailable_def
          repo_DebitAvailable_def guarded_update_acked update_balance_def)
  qed
qed

lemma wallet_exec_effect:
  assumes "wallet_exec c s = (r, s')" and "wf_wallet s" and "scale18 (cmd_amount c)"
  shows "wf_wallet s'" and "wallet_cols s' = wallet_cols s \<and> (\<exists>e. r = Inl e) \<or> applies c (wallet_cols s) (wallet_cols s') \<and> 0 < cmd_amount c"
  using wallet_exec_cases [OF assms(1)] assms(2,3)
  by (auto dest: only_faults_wf only_faults_cols cmd_row_wf cmd_row_applies)

lemma wallet_exec_refused:
  assumes "faults s = []"
    and "wallet_available s (cmd_user c) (cmd_asset c) + cmd_avail c < 0 \<or>
         wallet_frozen s (cmd_user c) (cmd_asset c) + cmd_frozen c < 0"
    and "wf_wallet s"
  shows "\<exists>e. wallet_exec c s = (Inl e, s)"
proof -
  have ga: "\<exists>e. guarded_update u a (\<lambda>b. x \<le> available b) f col x err s = (Inl e, s)"
    if "wallet_available s u a < x" for u a f col x err
    using that by (intro guarded_update_refused assms(1)) (simp add: wallet_available_def)
  have gf: "\<exists>e. guarded_update u a (\<lambda>b. x \<le> frozen b) f col x err s = (Inl e, s)"
    if "wallet_frozen s u a < x" for u a f col x err
    using that by (intro guarded_update_refused assms(1)) (simp add: wallet_frozen_def)
  note nn = wallet_columns_nonneg [OF assms(3)]
  show ?thesis
  proof (cases c)
    case (CmdCredit u a x)
    then show ?thesis using assms(2) nn(1) [of u a] nn(2) [of u a] by (auto simp: Credit_def)
  next
    case (CmdFreeze u a x)
    then have "x \<le> 0 \<or> wallet_available s u a < x" using assms(2) nn(2) [of u a] by auto
    then show ?thesis
      using ga [of u a x "\<lambda>b. (available b - x, frozen b + x)" Available ErrInsufficientBalance] CmdFreeze
      by (auto simp: Freeze_def repo_Freeze_def)
  next
    case (CmdUnfreeze u a x)
    then have "x \<le> 0 \<or> wallet_frozen s u a < x" using assms(2) nn(1) [of u a] by auto
    then show ?thesis
      using gf [of u a x] CmdUnfreeze by (auto simp: Unfreeze_def repo_Unfreeze_def wrap_err_eq)
  next
    case (CmdDebitFrozen u a x)
    then have "x \<le> 0 \<or> wallet_frozen s u a < x" using assms(2) nn(1) [of u a] by auto
    then show ?thesis
      using gf [of u a x] CmdDebitFrozen by (auto simp: DebitFrozen_def repo_DebitFrozen_def wrap_err_eq)
  next
    case (CmdDebitAvailable u a x)
    then have "x \<le> 0 \<or> wallet_available s u a < x" using assms(2) nn(2) [of u a] by auto
    then show ?thesis
      using ga [of u a x] CmdDebitAvailable
      by (auto simp: DebitAvailable_def repo_DebitAvailable_def wrap_err_eq)
  qed
qed

text \<open>Every operation of the service that writes.\<close>

datatype wallet_op =
    Cmd ledger_cmd
  | TransferOp uuid uuid string decimal
  | BootstrapOp string uuid

fun wallet_step ::
  "wallet_op \<Rightarrow> 'x wallet_db_scheme \<Rightarrow> (wallet_error + unit) \<times> 'x wallet_db_scheme" where
  "wallet_step (Cmd c) s = wallet_exec c s"
| "wallet_step (TransferOp fromID toID a x) s = Transfer fromID toID a x s"
| "wallet_step (BootstrapOp flag u) s = BootstrapNewUser flag u s"

lemma BootstrapNewUser_exec:
  "BootstrapNewUser flag u s =
     (if flag \<noteq> ''true'' then (Inr (), s) else wallet_exec (CmdCredit u ''USDT'' DefaultFaucetAmount) s)"
  by (simp add: BootstrapNewUser_def)

lemma wallet_step_wf: "wf_wallet s \<Longrightarrow> wf_wallet (snd (wallet_step op s))"
proof (cases op)
  case (Cmd c)
  then show "wf_wallet s \<Longrightarrow> ?thesis" by (simp add: wallet_exec_wf)
next
  case (TransferOp f t a x)
  then show "wf_wallet s \<Longrightarrow> ?thesis"
    by (cases "Transfer f t a x s")
      (auto dest!: Transfer_cases dest: wf_wallet_cong transfer_rows_wf)
next
  case (BootstrapOp flag u)
  then show "wf_wallet s \<Longrightarrow> ?thesis"
    using wallet_exec_wf by (auto simp: BootstrapNewUser_exec simp del: wallet_exec.simps)
qed

subsection \<open>Properties of the ledger\<close>


definition demo_wallet :: wallet_db where
  "demo_wallet =
     \<lparr>faults = [],
      balances = [(7, ''USDT'') \<mapsto> \<lparr>available = 100, frozen = 0\<rparr>,
                  (8, ''USDT'') \<mapsto> \<lparr>available = 5, frozen = 7\<rparr>,
                  (8, ''BTC'') \<mapsto> \<lparr>available = 1, frozen = 2\<rparr>],
      currencies = [(''USDT'', True), (''BTC'', True), (''OLD'', False)]\<rparr>"

lemma wallet_faults_simps [simp]:
  "wf_wallet (s\<lparr>faults := fs\<rparr>) = wf_wallet s"
  "wallet_available (s\<lparr>faults := fs\<rparr>) = wallet_available s"
  "wallet_frozen (s\<lparr>faults := fs\<rparr>) = wallet_frozen s"
  by (simp_all add: wf_wallet_def wallet_available_def wallet_frozen_def fun_eq_iff)

lemma demo_wallet_simps [simp]:
  "wf_wallet demo_wallet"
  "wallet_available demo_wallet 7 ''USDT'' = 100" "wallet_frozen demo_wallet 7 ''USDT'' = 0"
  "wallet_available demo_wallet 8 ''USDT'' = 5" "wallet_frozen demo_wallet 8 ''USDT'' = 7"
  by (auto intro!: wf_walletI
      simp: demo_wallet_def wallet_available_def wallet_frozen_def split: if_splits)


text \<open>C2: a batch of ledger commands that succeeds has moved, on every row and under every fault
  script, exactly the amounts its commands name; and a batch that stops part-way has left every
  row it does not name alone.\<close>

theorem wallet_refines_ledger:
  assumes "wf_wallet s" and "\<forall>c \<in> set cs. scale18 (cmd_amount c)"
    and "run_cmds wallet_exec cs s = (r, s')"
  shows "(r = Inr () \<longrightarrow>
           wallet_available s' u a = wallet_available s u a + net_avail cs u a \<and>
           wallet_frozen s' u a = wallet_frozen s u a + net_frozen cs u a) \<and>
         ((u, a) \<notin> (\<lambda>c. (cmd_user c, cmd_asset c)) ` set cs \<longrightarrow>
           wallet_available s' u a = wallet_available s u a \<and>
           wallet_frozen s' u a = wallet_frozen s u a)"
  using wl.run_ok [OF assms(1,2)] wl.run_frame [OF assms(1,2)] assms(3) by auto

theorem wallet_refines_ledger_witness:
  "wf_wallet demo_wallet \<and>
   wallet_available (snd (run_cmds wallet_exec [CmdFreeze 7 ''USDT'' 30, CmdDebitFrozen 7 ''USDT'' 10]
                       demo_wallet)) 7 ''USDT'' = 70 \<and>
   wallet_frozen (snd (run_cmds wallet_exec [CmdFreeze 7 ''USDT'' 30, CmdDebitFrozen 7 ''USDT'' 10]
                       demo_wallet)) 7 ''USDT'' = 20"
proof -
  let ?cs = "[CmdFreeze 7 ''USDT'' 30, CmdDebitFrozen 7 ''USDT'' 10]"
  obtain r s' where run: "run_cmds wallet_exec ?cs demo_wallet = (r, s')"
    by (cases "run_cmds wallet_exec ?cs demo_wallet")
  have "fst (run_cmds wallet_exec ?cs demo_wallet) = Inr ()"
    by (simp add: demo_wallet_def Freeze_def repo_Freeze_def DebitFrozen_def repo_DebitFrozen_def
        guarded_update_def update_balance_def store_balance_def wrap_err_def)
  with run have "r = Inr ()" by simp
  with run wallet_refines_ledger [OF demo_wallet_simps(1) _ run, of 7 "''USDT''"] show ?thesis
    by (simp del: run_cmds.simps)
qed

text \<open>C3: Transfer is atomic. Whatever fails inside the transaction and whether or not the commit
  is acknowledged, either no balance has changed and an error is returned, or the sender had the
  amount, exactly it has moved from the sender's to the receiver's available balance, and no
  other column has changed.\<close>

theorem transfer_atomic:
  assumes "wf_wallet s" and "scale18 x" and "Transfer fromID toID a x s = (r, s')"
  shows "(balances s' = balances s \<and> (\<exists>e. r = Inl e)) \<or>
    (0 < x \<and> x \<le> wallet_available s fromID a \<and> fromID \<noteq> toID \<and>
     (r = Inr () \<or> r = Inl (Wrapped ''transfer'' ErrDatabase)) \<and>
     (\<forall>u b. wallet_frozen s' u b = wallet_frozen s u b \<and>
        wallet_available s' u b =
           (if b = a \<and> u = fromID then wallet_available s u b - x
            else if b = a \<and> u = toID then wallet_available s u b + x
            else wallet_available s u b)))"
proof -
  have "x \<le> wallet_available s fromID a \<and> fromID \<noteq> toID" if "transfer_rows fromID toID a x s s'"
    using that by (simp add: transfer_rows_def)
  then show ?thesis
    using Transfer_cases [OF assms(3)] transfer_rows_cols [OF assms(1,2)] by blast
qed

theorem transfer_atomic_witness:
  "wf_wallet demo_wallet \<and>
   (let (r, s') = Transfer 7 8 ''USDT'' 40 (demo_wallet\<lparr>faults := [Acked, Acked, Acked, Unacked]\<rparr>) in
    r = Inl (Wrapped ''transfer'' ErrDatabase) \<and>
    wallet_available s' 7 ''USDT'' = 60 \<and> wallet_available s' 8 ''USDT'' = 45)"
proof -
  let ?s = "demo_wallet\<lparr>faults := [Acked, Acked, Acked, Unacked]\<rparr>"
  obtain r s' where run: "Transfer 7 8 ''USDT'' 40 ?s = (r, s')"
    by (cases "Transfer 7 8 ''USDT'' 40 ?s")
  have wf: "wf_wallet ?s" by simp
  have "r = Inl (Wrapped ''transfer'' ErrDatabase) \<and> balances s' \<noteq> balances ?s"
  proof -
    have "fst (Transfer 7 8 ''USDT'' 40 ?s) = Inl (Wrapped ''transfer'' ErrDatabase) \<and>
      balances (snd (Transfer 7 8 ''USDT'' 40 ?s)) (7, ''USDT'') \<noteq> balances ?s (7, ''USDT'')"
      by (simp add: demo_wallet_def Transfer_def repo_Transfer_def query_def exec_stmt_def
          next_fault_def update_balance_def store_balance_def credit_row_def wrap_err_def)
    with run show ?thesis by auto
  qed
  with run transfer_atomic [OF wf _ run] show ?thesis
    by auto
qed

text \<open>
  Freezing on every branch when the database answers: which error, or which new row. The error
  \<open>ErrUserNotFound\<close> of the zero-rows branch is never returned.
\<close>

definition freeze_spec ::
  "uuid \<Rightarrow> string \<Rightarrow> decimal \<Rightarrow> 'x wallet_db_scheme \<Rightarrow> wallet_error + balance_row" where
  "freeze_spec u a x s =
     (if x \<le> 0 then Inl ErrNegativeAmount
      else if wallet_available s u a < x
        then Inl (if is_active s a then ErrInsufficientBalance else ErrAssetNotSupported)
      else (case store_balance (wallet_available s u a - x) (wallet_frozen s u a + x) of
              None \<Rightarrow> Inl (Wrapped ''freeze'' ErrDatabase)
            | Some b \<Rightarrow> Inr b))"

text \<open>Freeze, when every statement is acknowledged, behaves on every branch as freeze_spec says:
  the amount must be positive and covered by the available balance, the error tells an
  insufficient balance from an inactive asset, and on success one row is rewritten.\<close>

theorem Freeze_outcome:
  assumes "faults s = []"
  shows "Freeze u a x s =
    (case freeze_spec u a x s of
       Inl e \<Rightarrow> (Inl e, s)
     | Inr b \<Rightarrow> (Inr (), s\<lparr>balances := (balances s)((u, a) \<mapsto> b)\<rparr>))"
proof (cases "balances s (u, a)")
  case None
  then show ?thesis
    using assms
    by (auto simp: freeze_spec_def Freeze_def repo_Freeze_def guarded_update_def update_balance_def
        explain_zero_rows_def repo_GetOne_def balance_view_def wallet_available_def
        wallet_frozen_def)
next
  case (Some b)
  then show ?thesis
    using assms
    by (auto simp: freeze_spec_def Freeze_def repo_Freeze_def guarded_update_def update_balance_def
        explain_zero_rows_def repo_GetOne_def balance_view_def wallet_available_def
        wallet_frozen_def split: option.splits)
qed

theorem Freeze_outcome_witness:
  "Freeze 7 ''USDT'' 30 demo_wallet =
     (Inr (), demo_wallet\<lparr>balances := (balances demo_wallet)((7, ''USDT'') \<mapsto>
                                    \<lparr>available = 70, frozen = 30\<rparr>)\<rparr>) \<and>
   Freeze 7 ''USDT'' 101 demo_wallet = (Inl ErrInsufficientBalance, demo_wallet) \<and>
   Freeze 7 ''OLD'' 1 demo_wallet = (Inl ErrAssetNotSupported, demo_wallet)"
proof -
  have f: "faults demo_wallet = []" by (simp add: demo_wallet_def)
  show ?thesis
    unfolding Freeze_outcome [OF f]
    by (simp add: freeze_spec_def store_balance_def is_active_def demo_wallet_def
        wallet_available_def wallet_frozen_def)
qed

text \<open>Freezing and unfreezing any positive amount keeps the user's total, up to one unit of the
  last digit: exactly when the amount lies half-way between two 18-digit values does the rounding
  of the two columns create that unit.\<close>

theorem freeze_total_drift:
  assumes "wf_wallet s" and "c = CmdFreeze u a x \<or> c = CmdUnfreeze u a x"
    and "wallet_exec c s = (Inr (), s')"
  shows "wallet_available s' u a + wallet_frozen s' u a =
    wallet_available s u a + wallet_frozen s u a + (if tie18 x then num18_unit else 0)"
proof -
  let ?A = "wallet_available s u a" and ?F = "wallet_frozen s u a"
  have "cmd_row c s s'" using wallet_exec_cases [OF assms(3)] by auto
  then have r: "row_set (u, a) (?A + cmd_avail c) (?F + cmd_frozen c) s s'"
    using assms(2) by (auto simp: cmd_row_def)
  have guard: "0 \<le> ?A + cmd_avail c" "0 \<le> ?F + cmd_frozen c"
    using wallet_exec_guard [OF assms(1,3)] assms(2) by auto
  show ?thesis
    using assms(2) row_set_cols [OF r] guard
      num18_move [of ?A ?F x] num18_move [of ?F ?A x] wallet_columns_scale18 [OF assms(1)]
    by (auto simp: algebra_simps)
qed

theorem freeze_total_drift_witness:
  "(let s' = snd (wallet_exec (CmdFreeze 7 ''USDT'' (1 / (2 * 10 ^ 18))) demo_wallet) in
    wallet_available s' 7 ''USDT'' + wallet_frozen s' 7 ''USDT'' = 100 + num18_unit)"
proof -
  let ?c = "CmdFreeze 7 ''USDT'' (1 / (2 * 10 ^ 18))"
  have "fst (wallet_exec ?c demo_wallet) = Inr ()"
    by (simp add: demo_wallet_def Freeze_def repo_Freeze_def guarded_update_def update_balance_def
        store_balance_def numeric_38_18_def num18_def)
  then obtain s' where run: "wallet_exec ?c demo_wallet = (Inr (), s')"
    by (cases "wallet_exec ?c demo_wallet") auto
  moreover have "tie18 (1 / (2 * 10 ^ 18))" by (simp add: tie18_def)
  ultimately show ?thesis
    using freeze_total_drift [OF demo_wallet_simps(1) disjI1 [OF refl] run]
    by (simp del: wallet_exec.simps)
qed

end
