(* ===== verification/Matching.thy ===== *)
theory Matching
  imports Go_Strings
begin

text \<open>
  The contract with the matching engine: the message types of internal/matching/types.go, the
  client used when no engine is configured (client.go), the adapters that narrow a client or an
  in-process engine to what the trading service needs (order_source_adapter.go,
  trading/engine_adapter.go) and the conversions of the gRPC client (grpc_client.go). The engine
  itself is not in the repository; it is a parameter, a function on a state of any type.
\<close>

subsection \<open>Messages (types.go)\<close>

definition TypeLimit :: string where "TypeLimit = ''LIMIT''"
definition TypeMarket :: string where "TypeMarket = ''MARKET''"
definition StatusOpen :: string where "StatusOpen = ''OPEN''"
definition StatusPartial :: string where "StatusPartial = ''PARTIAL''"
definition StatusFilled :: string where "StatusFilled = ''FILLED''"
definition StatusCanceled :: string where "StatusCanceled = ''CANCELED''"
definition StatusRejected :: string where "StatusRejected = ''REJECTED''"
definition SideBuy :: string where "SideBuy = ''BUY''"
definition SideSell :: string where "SideSell = ''SELL''"
definition TIF_GTC :: string where "TIF_GTC = ''GTC''"
definition TIF_IOC :: string where "TIF_IOC = ''IOC''"
definition TIF_FOK :: string where "TIF_FOK = ''FOK''"
definition STPNone :: string where "STPNone = ''NONE''"
definition STP_CANCEL_TAKER :: string where "STP_CANCEL_TAKER = ''CANCEL_TAKER''"
definition STP_CANCEL_MAKER :: string where "STP_CANCEL_MAKER = ''CANCEL_MAKER''"
definition STP_CANCEL_BOTH :: string where "STP_CANCEL_BOTH = ''CANCEL_BOTH''"

lemmas type_defs = TypeLimit_def TypeMarket_def
lemmas status_defs =
  StatusOpen_def StatusPartial_def StatusFilled_def StatusCanceled_def StatusRejected_def
lemmas side_defs = SideBuy_def SideSell_def
lemmas tif_defs = TIF_GTC_def TIF_IOC_def TIF_FOK_def
lemmas stp_defs = STPNone_def STP_CANCEL_TAKER_def STP_CANCEL_MAKER_def STP_CANCEL_BOTH_def

type_synonym time = int

record Order =
  ord_ID :: uuid
  ord_UserID :: uuid
  ord_Pair :: string
  ord_Base :: string
  ord_Quote :: string
  ord_Side :: string
  ord_Type :: string
  ord_Price :: decimal
  ord_Quantity :: decimal
  ord_FilledQty :: decimal
  ord_RemainingQty :: decimal
  ord_Status :: string
  ord_TimeInForce :: string
  ord_STPMode :: string
  ord_CreatedAt :: "time option"
  ord_UpdatedAt :: "time option"
  ord_ExpiresAt :: "time option"
  ord_ClientID :: string
  ord_StopPrice :: "decimal option"

text \<open>The value Go gives an Order whose fields are not set.\<close>

definition zero_order :: Order where
  "zero_order =
     \<lparr>ord_ID = uuid_nil, ord_UserID = uuid_nil, ord_Pair = [], ord_Base = [], ord_Quote = [],
      ord_Side = [], ord_Type = [], ord_Price = 0, ord_Quantity = 0, ord_FilledQty = 0,
      ord_RemainingQty = 0, ord_Status = [], ord_TimeInForce = [], ord_STPMode = [],
      ord_CreatedAt = None, ord_UpdatedAt = None, ord_ExpiresAt = None, ord_ClientID = [],
      ord_StopPrice = None\<rparr>"

definition Remaining :: "Order \<Rightarrow> decimal" where
  "Remaining o1 = ord_RemainingQty o1"

record Trade =
  tr_ID :: uuid
  tr_Pair :: string
  tr_BuyOrderID :: uuid
  tr_SellOrderID :: uuid
  tr_BuyUserID :: uuid
  tr_SellUserID :: uuid
  tr_Base :: string
  tr_Quote :: string
  tr_BaseAmt :: decimal
  tr_QuoteAmt :: decimal
  tr_Price :: decimal
  tr_Quantity :: decimal
  tr_TakerSide :: string
  tr_Timestamp :: "time option"
  tr_ExecutedAt :: string

record PlaceOrderRequest =
  rq_OrderID :: uuid
  rq_UserID :: uuid
  rq_Pair :: string
  rq_Side :: string
  rq_Type :: string
  rq_Price :: decimal
  rq_Quantity :: decimal
  rq_TimeInForce :: string
  rq_STPMode :: string
  rq_ExpiresAt :: "time option"
  rq_StopPrice :: "decimal option"
  rq_ClientID :: string

record PlaceOrderResult =
  rs_OrderID :: uuid
  rs_Status :: string
  rs_Filled :: decimal
  rs_Remaining :: decimal
  rs_Trades :: "Trade list"
  rs_RejectReason :: string

record CancelOrderRequest =
  cq_OrderID :: uuid
  cq_UserID :: uuid

record AmendOrderRequest =
  aq_OrderID :: uuid
  aq_UserID :: uuid
  aq_NewPrice :: "decimal option"
  aq_NewQty :: "decimal option"

record AmendOrderResult =
  ar_Order :: Order
  ar_Trades :: "Trade list"
  ar_RejectReason :: string

record PriceLevel =
  pl_Price :: decimal
  pl_Quantity :: decimal

record OrderBookSnapshot =
  ob_Pair :: string
  ob_Bids :: "PriceLevel list"
  ob_Asks :: "PriceLevel list"

record Ticker =
  tk_Pair :: string
  tk_LastPrice :: decimal
  tk_BestBid :: decimal
  tk_BestAsk :: decimal
  tk_Volume24h :: decimal
  tk_High24h :: decimal
  tk_Low24h :: decimal
  tk_Change24h :: decimal
  tk_Trades24h :: int
  tk_UpdatedAt :: "time option"

text \<open>
  The two interfaces of types.go that are not third-party: Engine mutates the order it is given,
  Client answers requests. Both work on an engine state \<open>'e\<close>; an error is its message.
\<close>

record 'e Engine =
  eng_PlaceOrder :: "Order \<Rightarrow> 'e \<Rightarrow> Order \<times> (string + Trade list) \<times> 'e"
  eng_CancelOrder :: "string \<Rightarrow> uuid \<Rightarrow> uuid \<Rightarrow> 'e \<Rightarrow> (string + unit) \<times> 'e"
  eng_AmendOrder :: "Order \<Rightarrow> 'e \<Rightarrow> Order \<times> (string + Trade list) \<times> 'e"

record 'e Client =
  cl_PlaceOrder :: "PlaceOrderRequest \<Rightarrow> 'e \<Rightarrow> (string + PlaceOrderResult) \<times> 'e"
  cl_CancelOrder :: "CancelOrderRequest \<Rightarrow> 'e \<Rightarrow> (string + unit) \<times> 'e"
  cl_AmendOrder :: "AmendOrderRequest \<Rightarrow> 'e \<Rightarrow> (string + AmendOrderResult option) \<times> 'e"
  cl_GetOrderBook :: "string \<Rightarrow> int \<Rightarrow> 'e \<Rightarrow> (string + OrderBookSnapshot) \<times> 'e"
  cl_GetTicker :: "string \<Rightarrow> 'e \<Rightarrow> (string + Ticker) \<times> 'e"
  cl_GetOrder :: "uuid \<Rightarrow> 'e \<Rightarrow> (string + Order) \<times> 'e"

record 'e OrderSource =
  src_PlaceOrder :: "PlaceOrderRequest \<Rightarrow> 'e \<Rightarrow> (string + PlaceOrderResult) \<times> 'e"
  src_CancelOrder :: "string \<Rightarrow> uuid \<Rightarrow> uuid \<Rightarrow> 'e \<Rightarrow> (string + unit) \<times> 'e"
  src_AmendOrder :: "string \<Rightarrow> uuid \<Rightarrow> uuid \<Rightarrow> string \<Rightarrow> decimal \<Rightarrow> decimal \<Rightarrow> 'e
    \<Rightarrow> (string + PlaceOrderResult) \<times> 'e"

subsection \<open>The client without an engine (client.go)\<close>

definition no_core :: string where
  "no_core = ''matching core not built into public binary''"

definition noop_PlaceOrder :: "PlaceOrderRequest \<Rightarrow> 'e \<Rightarrow> (string + PlaceOrderResult) \<times> 'e" where
  "noop_PlaceOrder req e =
     (Inr \<lparr>rs_OrderID = rq_OrderID req, rs_Status = StatusRejected, rs_Filled = 0,
           rs_Remaining = 0, rs_Trades = [], rs_RejectReason = no_core\<rparr>, e)"

definition noop_CancelOrder :: "CancelOrderRequest \<Rightarrow> 'e \<Rightarrow> (string + unit) \<times> 'e" where
  "noop_CancelOrder req e = (Inl no_core, e)"

definition noop_AmendOrder ::
  "AmendOrderRequest \<Rightarrow> 'e \<Rightarrow> (string + AmendOrderResult option) \<times> 'e" where
  "noop_AmendOrder req e = (Inl no_core, e)"

definition noop_GetOrderBook :: "string \<Rightarrow> int \<Rightarrow> 'e \<Rightarrow> (string + OrderBookSnapshot) \<times> 'e" where
  "noop_GetOrderBook pair depth e = (Inr \<lparr>ob_Pair = pair, ob_Bids = [], ob_Asks = []\<rparr>, e)"

definition noop_GetTicker :: "time \<Rightarrow> string \<Rightarrow> 'e \<Rightarrow> (string + Ticker) \<times> 'e" where
  "noop_GetTicker now pair e =
     (Inr \<lparr>tk_Pair = pair, tk_LastPrice = 0, tk_BestBid = 0, tk_BestAsk = 0, tk_Volume24h = 0,
           tk_High24h = 0, tk_Low24h = 0, tk_Change24h = 0, tk_Trades24h = 0,
           tk_UpdatedAt = Some now\<rparr>, e)"

definition noop_GetOrder :: "uuid \<Rightarrow> 'e \<Rightarrow> (string + Order) \<times> 'e" where
  "noop_GetOrder oid e = (Inl ''order not found'', e)"

definition NewLocalEngine :: "time \<Rightarrow> 'e Client" where
  "NewLocalEngine now =
     \<lparr>cl_PlaceOrder = noop_PlaceOrder, cl_CancelOrder = noop_CancelOrder,
      cl_AmendOrder = noop_AmendOrder, cl_GetOrderBook = noop_GetOrderBook,
      cl_GetTicker = noop_GetTicker now, cl_GetOrder = noop_GetOrder\<rparr>"

text \<open>
  Dialling the engine is outside the repository: \<open>dial addr\<close> is the connected client, or
  \<open>None\<close> when the dial fails.
\<close>

definition newGRPCClient :: "(string \<Rightarrow> 'e Client option) \<Rightarrow> time \<Rightarrow> string \<Rightarrow> 'e Client" where
  "newGRPCClient dial now addr = (case dial addr of None \<Rightarrow> NewLocalEngine now | Some c \<Rightarrow> c)"

definition NewClient :: "(string \<Rightarrow> 'e Client option) \<Rightarrow> time \<Rightarrow> string \<Rightarrow> 'e Client" where
  "NewClient dial now grpcAddr =
     (if grpcAddr = [] then NewLocalEngine now else newGRPCClient dial now grpcAddr)"

subsection \<open>Adapters for the trading service\<close>

definition adapter_AmendOrder ::
  "'e Client \<Rightarrow> string \<Rightarrow> uuid \<Rightarrow> uuid \<Rightarrow> string \<Rightarrow> decimal \<Rightarrow> decimal \<Rightarrow> 'e
    \<Rightarrow> (string + PlaceOrderResult) \<times> 'e" where
  "adapter_AmendOrder c pair orderID userID side price quantity e =
     (case cl_AmendOrder c \<lparr>aq_OrderID = orderID, aq_UserID = userID, aq_NewPrice = Some price,
                             aq_NewQty = Some quantity\<rparr> e of
        (Inl err, e') \<Rightarrow> (Inl err, e')
      | (Inr None, e') \<Rightarrow>
          (Inr \<lparr>rs_OrderID = orderID, rs_Status = StatusRejected, rs_Filled = 0, rs_Remaining = 0,
                rs_Trades = [], rs_RejectReason = []\<rparr>, e')
      | (Inr (Some res), e') \<Rightarrow>
          (Inr \<lparr>rs_OrderID = ord_ID (ar_Order res), rs_Status = ord_Status (ar_Order res),
                rs_Filled = ord_FilledQty (ar_Order res),
                rs_Remaining = ord_RemainingQty (ar_Order res),
                rs_Trades = ar_Trades res, rs_RejectReason = []\<rparr>, e'))"

definition NewOrderSourceAdapter :: "'e Client \<Rightarrow> 'e OrderSource" where
  "NewOrderSourceAdapter c =
     \<lparr>src_PlaceOrder = cl_PlaceOrder c,
      src_CancelOrder =
        (\<lambda>pair orderID userID. cl_CancelOrder c \<lparr>cq_OrderID = orderID, cq_UserID = userID\<rparr>),
      src_AmendOrder = adapter_AmendOrder c\<rparr>"

text \<open>The adapter for an in-process engine; \<open>fresh\<close> is what uuid.New returns.\<close>

definition result_of :: "Order \<Rightarrow> Trade list \<Rightarrow> PlaceOrderResult" where
  "result_of o1 ts =
     \<lparr>rs_OrderID = ord_ID o1, rs_Status = ord_Status o1, rs_Filled = ord_FilledQty o1,
      rs_Remaining = Remaining o1, rs_Trades = ts, rs_RejectReason = []\<rparr>"

definition EngineAdapter_PlaceOrder ::
  "'e Engine \<Rightarrow> uuid \<Rightarrow> time \<Rightarrow> PlaceOrderRequest \<Rightarrow> 'e \<Rightarrow> (string + PlaceOrderResult) \<times> 'e" where
  "EngineAdapter_PlaceOrder eng fresh now req e =
     (case Split (CHR ''_'') (rq_Pair req) of
        [base, quote] \<Rightarrow>
          (let o0 = zero_order
                 \<lparr>ord_ID := (if rq_OrderID req = uuid_nil then fresh else rq_OrderID req),
                  ord_UserID := rq_UserID req, ord_Pair := rq_Pair req,
                  ord_Base := ToUpper base, ord_Quote := ToUpper quote,
                  ord_Side := rq_Side req, ord_Type := rq_Type req,
                  ord_Price := rq_Price req, ord_Quantity := rq_Quantity req,
                  ord_RemainingQty := rq_Quantity req, ord_Status := StatusOpen,
                  ord_CreatedAt := Some now\<rparr>
           in (case eng_PlaceOrder eng o0 e of
                 (_, Inl err, e') \<Rightarrow> (Inl err, e')
               | (o1, Inr ts, e') \<Rightarrow> (Inr (result_of o1 ts), e')))
      | _ \<Rightarrow> (Inl (''invalid pair format: '' @ rq_Pair req), e))"

definition EngineAdapter_CancelOrder ::
  "'e Engine \<Rightarrow> string \<Rightarrow> uuid \<Rightarrow> uuid \<Rightarrow> 'e \<Rightarrow> (string + unit) \<times> 'e" where
  "EngineAdapter_CancelOrder eng pair orderID userID e = eng_CancelOrder eng pair orderID userID e"

definition EngineAdapter_AmendOrder ::
  "'e Engine \<Rightarrow> string \<Rightarrow> uuid \<Rightarrow> uuid \<Rightarrow> string \<Rightarrow> decimal \<Rightarrow> decimal \<Rightarrow> 'e
    \<Rightarrow> (string + PlaceOrderResult) \<times> 'e" where
  "EngineAdapter_AmendOrder eng pair orderID userID side price quantity e =
     (case eng_AmendOrder eng
             (zero_order\<lparr>ord_ID := orderID, ord_UserID := userID, ord_Pair := pair,
                         ord_Side := side, ord_Price := price, ord_Quantity := quantity\<rparr>) e of
        (_, Inl err, e') \<Rightarrow> (Inl err, e')
      | (o1, Inr ts, e') \<Rightarrow> (Inr (result_of o1 ts), e'))"

subsection \<open>Conversions of the gRPC client (grpc_client.go)\<close>

text \<open>
  Enumerations travel as numbers; a number the client does not know becomes the empty string. The
  numbers are those of proto/matching.proto.
\<close>

definition sideToProto :: "string \<Rightarrow> int" where
  "sideToProto s = (if s = SideBuy then 1 else if s = SideSell then 2 else 0)"

definition sideFromProto :: "int \<Rightarrow> string" where
  "sideFromProto n = (if n = 1 then SideBuy else if n = 2 then SideSell else [])"

definition orderTypeToProto :: "string \<Rightarrow> int" where
  "orderTypeToProto t = (if t = TypeLimit then 1 else if t = TypeMarket then 2 else 0)"

definition orderTypeFromProto :: "int \<Rightarrow> string" where
  "orderTypeFromProto n = (if n = 1 then TypeLimit else if n = 2 then TypeMarket else [])"

definition statusFromProto :: "int \<Rightarrow> string" where
  "statusFromProto n =
     (if n = 1 then StatusOpen else if n = 2 then StatusPartial else if n = 3 then StatusFilled
      else if n = 4 then StatusCanceled else if n = 5 then StatusRejected else [])"

definition tifToProto :: "string \<Rightarrow> int" where
  "tifToProto t =
     (if t = TIF_GTC then 1 else if t = TIF_IOC then 2 else if t = TIF_FOK then 3 else 0)"

definition tifFromProto :: "int \<Rightarrow> string" where
  "tifFromProto n =
     (if n = 1 then TIF_GTC else if n = 2 then TIF_IOC else if n = 3 then TIF_FOK else [])"

definition stpToProto :: "string \<Rightarrow> int" where
  "stpToProto s =
     (if s = STPNone then 1 else if s = STP_CANCEL_MAKER then 3
      else if s = STP_CANCEL_BOTH then 4 else 2)"

definition stpFromProto :: "int \<Rightarrow> string" where
  "stpFromProto n =
     (if n = 1 then STPNone else if n = 2 then STP_CANCEL_TAKER
      else if n = 3 then STP_CANCEL_MAKER else if n = 4 then STP_CANCEL_BOTH else [])"

text \<open>
  The third-party encodings: uuid.UUID.String and uuid.Parse (value and success),
  decimal.Decimal.String and decimal.NewFromString, and the RFC 3339 form of a time. They are
  parameters of the conversions.
\<close>

record codec =
  uuid_String :: "uuid \<Rightarrow> string"
  uuid_Parse :: "string \<Rightarrow> uuid \<times> bool"
  dec_String :: "decimal \<Rightarrow> string"
  dec_Parse :: "string \<Rightarrow> decimal option"
  rfc3339 :: "time \<Rightarrow> string"

record pb_PlaceOrderRequest =
  pq_OrderId :: string
  pq_UserId :: string
  pq_Pair :: string
  pq_Side :: int
  pq_Type :: int
  pq_Price :: string
  pq_Quantity :: string
  pq_TimeInForce :: int
  pq_StpMode :: int
  pq_ExpiresAt :: "time option"
  pq_StopPrice :: string
  pq_ClientId :: string

record pb_Trade =
  pt_Id :: string
  pt_Pair :: string
  pt_BuyOrderId :: string
  pt_SellOrderId :: string
  pt_BuyUserId :: string
  pt_SellUserId :: string
  pt_Base :: string
  pt_Quote :: string
  pt_BaseAmount :: string
  pt_QuoteAmount :: string
  pt_Price :: string
  pt_Quantity :: string
  pt_TakerSide :: int
  pt_ExecutedAt :: "time option"

record pb_PlaceOrderResponse =
  pr_OrderId :: string
  pr_Status :: int
  pr_Filled :: string
  pr_Remaining :: string
  pr_Trades :: "pb_Trade list"
  pr_RejectReason :: string

record pb_Order =
  po_Id :: string
  po_UserId :: string
  po_Pair :: string
  po_Base :: string
  po_Quote :: string
  po_Side :: int
  po_Type :: int
  po_Price :: string
  po_Quantity :: string
  po_Filled :: string
  po_Remaining :: string
  po_Status :: int
  po_TimeInForce :: int
  po_StpMode :: int
  po_CreatedAt :: "time option"
  po_UpdatedAt :: "time option"
  po_ExpiresAt :: "time option"
  po_StopPrice :: string
  po_ClientId :: string

definition parseUUID :: "codec \<Rightarrow> string \<Rightarrow> uuid" where
  "parseUUID k s = fst (uuid_Parse k s)"

definition decimalToString :: "codec \<Rightarrow> decimal option \<Rightarrow> string" where
  "decimalToString k d = (case d of None \<Rightarrow> [] | Some x \<Rightarrow> dec_String k x)"

text \<open>A decimal that does not parse leaves the field at its zero value.\<close>

definition dec_or_zero :: "codec \<Rightarrow> string \<Rightarrow> decimal" where
  "dec_or_zero k s = (case dec_Parse k s of None \<Rightarrow> 0 | Some d \<Rightarrow> d)"

definition toProtoOrder :: "codec \<Rightarrow> PlaceOrderRequest \<Rightarrow> pb_PlaceOrderRequest" where
  "toProtoOrder k req =
     \<lparr>pq_OrderId = uuid_String k (rq_OrderID req), pq_UserId = uuid_String k (rq_UserID req),
      pq_Pair = rq_Pair req, pq_Side = sideToProto (rq_Side req),
      pq_Type = orderTypeToProto (rq_Type req), pq_Price = dec_String k (rq_Price req),
      pq_Quantity = dec_String k (rq_Quantity req),
      pq_TimeInForce = tifToProto (rq_TimeInForce req), pq_StpMode = stpToProto (rq_STPMode req),
      pq_ExpiresAt = rq_ExpiresAt req, pq_StopPrice = decimalToString k (rq_StopPrice req),
      pq_ClientId = rq_ClientID req\<rparr>"

definition fromProtoTrade :: "codec \<Rightarrow> pb_Trade \<Rightarrow> Trade" where
  "fromProtoTrade k t =
     \<lparr>tr_ID = parseUUID k (pt_Id t), tr_Pair = pt_Pair t,
      tr_BuyOrderID = parseUUID k (pt_BuyOrderId t),
      tr_SellOrderID = parseUUID k (pt_SellOrderId t),
      tr_BuyUserID = parseUUID k (pt_BuyUserId t), tr_SellUserID = parseUUID k (pt_SellUserId t),
      tr_Base = pt_Base t, tr_Quote = pt_Quote t,
      tr_BaseAmt = (if pt_BaseAmount t \<noteq> [] then dec_or_zero k (pt_BaseAmount t) else 0),
      tr_QuoteAmt = (if pt_QuoteAmount t \<noteq> [] then dec_or_zero k (pt_QuoteAmount t) else 0),
      tr_Price = dec_or_zero k (pt_Price t), tr_Quantity = dec_or_zero k (pt_Quantity t),
      tr_TakerSide = sideFromProto (pt_TakerSide t), tr_Timestamp = pt_ExecutedAt t,
      tr_ExecutedAt = (case pt_ExecutedAt t of None \<Rightarrow> [] | Some ts \<Rightarrow> rfc3339 k ts)\<rparr>"

definition fromProtoOrderResult :: "codec \<Rightarrow> pb_PlaceOrderResponse \<Rightarrow> PlaceOrderResult" where
  "fromProtoOrderResult k r =
     \<lparr>rs_OrderID = parseUUID k (pr_OrderId r), rs_Status = statusFromProto (pr_Status r),
      rs_Filled = dec_or_zero k (pr_Filled r), rs_Remaining = dec_or_zero k (pr_Remaining r),
      rs_Trades = map (fromProtoTrade k) (pr_Trades r), rs_RejectReason = pr_RejectReason r\<rparr>"

definition fromProtoOrder :: "codec \<Rightarrow> pb_Order \<Rightarrow> Order" where
  "fromProtoOrder k x =
     \<lparr>ord_ID = parseUUID k (po_Id x), ord_UserID = parseUUID k (po_UserId x),
      ord_Pair = po_Pair x, ord_Base = po_Base x, ord_Quote = po_Quote x,
      ord_Side = sideFromProto (po_Side x), ord_Type = orderTypeFromProto (po_Type x),
      ord_Price = dec_or_zero k (po_Price x), ord_Quantity = dec_or_zero k (po_Quantity x),
      ord_FilledQty = dec_or_zero k (po_Filled x),
      ord_RemainingQty = dec_or_zero k (po_Remaining x),
      ord_Status = statusFromProto (po_Status x),
      ord_TimeInForce = tifFromProto (po_TimeInForce x), ord_STPMode = stpFromProto (po_StpMode x),
      ord_CreatedAt = po_CreatedAt x, ord_UpdatedAt = po_UpdatedAt x,
      ord_ExpiresAt = po_ExpiresAt x, ord_ClientID = po_ClientId x,
      ord_StopPrice = (if po_StopPrice x = [] then None else dec_Parse k (po_StopPrice x))\<rparr>"

text \<open>
  The response to an amendment carries the order by reference; \<open>None\<close> is the panic of reading
  through a reference the engine left unset.
\<close>

record pb_AmendOrderResponse =
  pa_Order :: "pb_Order option"
  pa_Trades :: "pb_Trade list"
  pa_RejectReason :: string

definition fromProtoAmendResult :: "codec \<Rightarrow> pb_AmendOrderResponse \<Rightarrow> AmendOrderResult option" where
  "fromProtoAmendResult k r =
     map_option (\<lambda>x. \<lparr>ar_Order = fromProtoOrder k x, ar_Trades = map (fromProtoTrade k) (pa_Trades r),
                      ar_RejectReason = pa_RejectReason r\<rparr>) (pa_Order r)"

text \<open>The five calls that carry orders, over a stub that answers requests or fails.\<close>

definition grpc_PlaceOrder ::
  "codec \<Rightarrow> (pb_PlaceOrderRequest \<Rightarrow> 'e \<Rightarrow> (string + pb_PlaceOrderResponse) \<times> 'e)
    \<Rightarrow> PlaceOrderRequest \<Rightarrow> 'e \<Rightarrow> (string + PlaceOrderResult) \<times> 'e" where
  "grpc_PlaceOrder k stub req e =
     (case stub (toProtoOrder k req) e of
        (Inl err, e') \<Rightarrow> (Inl (''matching.PlaceOrder: '' @ err), e')
      | (Inr resp, e') \<Rightarrow> (Inr (fromProtoOrderResult k resp), e'))"

definition grpc_CancelOrder ::
  "codec \<Rightarrow> (string \<times> string \<Rightarrow> 'e \<Rightarrow> (string + unit) \<times> 'e)
    \<Rightarrow> CancelOrderRequest \<Rightarrow> 'e \<Rightarrow> (string + unit) \<times> 'e" where
  "grpc_CancelOrder k stub req e =
     (case stub (uuid_String k (cq_OrderID req), uuid_String k (cq_UserID req)) e of
        (Inl err, e') \<Rightarrow> (Inl (''matching.CancelOrder: '' @ err), e')
      | (Inr _, e') \<Rightarrow> (Inr (), e'))"

definition grpc_GetOrder ::
  "codec \<Rightarrow> (string \<Rightarrow> 'e \<Rightarrow> (string + pb_Order) \<times> 'e) \<Rightarrow> uuid \<Rightarrow> 'e \<Rightarrow> (string + Order) \<times> 'e" where
  "grpc_GetOrder k stub orderID e =
     (case stub (uuid_String k orderID) e of
        (Inl err, e') \<Rightarrow> (Inl (''matching.GetOrder: '' @ err), e')
      | (Inr resp, e') \<Rightarrow> (Inr (fromProtoOrder k resp), e'))"

subsection \<open>Properties of the conversions\<close>

lemma sideToProto_inj:
  "s \<in> {SideBuy, SideSell} \<Longrightarrow> t \<in> {SideBuy, SideSell} \<Longrightarrow> sideToProto s = sideToProto t \<Longrightarrow> s = t"
  by (auto simp: sideToProto_def side_defs)

lemma orderTypeToProto_inj:
  "s \<in> {TypeLimit, TypeMarket} \<Longrightarrow> t \<in> {TypeLimit, TypeMarket} \<Longrightarrow>
     orderTypeToProto s = orderTypeToProto t \<Longrightarrow> s = t"
  by (auto simp: orderTypeToProto_def type_defs)

lemma tifToProto_inj:
  "s \<in> {[], TIF_GTC, TIF_IOC, TIF_FOK} \<Longrightarrow> t \<in> {[], TIF_GTC, TIF_IOC, TIF_FOK} \<Longrightarrow>
     tifToProto s = tifToProto t \<Longrightarrow> s = t"
  by (auto simp: tifToProto_def tif_defs)

lemma stpToProto_inj:
  "s \<in> {STPNone, STP_CANCEL_TAKER, STP_CANCEL_MAKER, STP_CANCEL_BOTH} \<Longrightarrow>
   t \<in> {STPNone, STP_CANCEL_TAKER, STP_CANCEL_MAKER, STP_CANCEL_BOTH} \<Longrightarrow>
     stpToProto s = stpToProto t \<Longrightarrow> s = t"
  by (auto simp: stpToProto_def stp_defs)

text \<open>A request whose enumerated fields hold constants of types.go.\<close>

definition valid_request :: "PlaceOrderRequest \<Rightarrow> bool" where
  "valid_request r \<longleftrightarrow>
     rq_Side r \<in> {SideBuy, SideSell} \<and> rq_Type r \<in> {TypeLimit, TypeMarket} \<and>
     rq_TimeInForce r \<in> {[], TIF_GTC, TIF_IOC, TIF_FOK} \<and>
     rq_STPMode r \<in> {STPNone, STP_CANCEL_TAKER, STP_CANCEL_MAKER, STP_CANCEL_BOTH}"

text \<open>What the conversions rely on: different identifiers and amounts print differently.\<close>

definition faithful_codec :: "codec \<Rightarrow> bool" where
  "faithful_codec k \<longleftrightarrow> inj (uuid_String k) \<and> inj (dec_String k) \<and> (\<forall>d. dec_String k d \<noteq> [])"

lemma decimalToString_inj:
  "faithful_codec k \<Longrightarrow> decimalToString k d = decimalToString k d' \<Longrightarrow> d = d'"
  by (cases d; cases d') (auto simp: decimalToString_def faithful_codec_def dest: injD sym)


definition unary_decimal :: "decimal \<Rightarrow> string" where
  "unary_decimal x =
     (case quotient_of x of (n, d) \<Rightarrow>
        (if n < 0 then CHR ''-'' else CHR ''+'') #
        replicate (nat \<bar>n\<bar>) CHR ''1'' @ CHR ''/'' # replicate (nat d) CHR ''1'')"

definition unary_codec :: codec where
  "unary_codec =
     \<lparr>uuid_String = (\<lambda>u. replicate u CHR ''1''), uuid_Parse = (\<lambda>s. (length s, True)),
      dec_String = unary_decimal, dec_Parse = (\<lambda>s. None), rfc3339 = (\<lambda>t. [])\<rparr>"

lemma unary_decimal_inj: "inj unary_decimal"
proof (rule injI)
  fix x y assume eq: "unary_decimal x = unary_decimal y"
  obtain n d m e where q: "quotient_of x = (n, d)" "quotient_of y = (m, e)"
    by (cases "quotient_of x"; cases "quotient_of y")
  have pos: "0 < d" "0 < e" using q quotient_of_denom_pos by blast+
  have len: "takeWhile (\<lambda>c. c = CHR ''1'') (replicate k CHR ''1'' @ CHR ''/'' # w)
      = replicate k CHR ''1''" for k w
    by (induction k) auto
  have rest: "dropWhile (\<lambda>c. c = CHR ''1'') (replicate k CHR ''1'' @ CHR ''/'' # w)
      = CHR ''/'' # w" for k w
    by (induction k) auto
  have sign: "(n < 0) = (m < 0)"
    using eq q by (auto simp: unary_decimal_def split: if_splits)
  have tails: "replicate (nat \<bar>n\<bar>) CHR ''1'' @ CHR ''/'' # replicate (nat d) CHR ''1'' =
      replicate (nat \<bar>m\<bar>) CHR ''1'' @ CHR ''/'' # replicate (nat e) CHR ''1''"
    using eq q by (simp add: unary_decimal_def)
  have "replicate (nat \<bar>n\<bar>) CHR ''1'' = replicate (nat \<bar>m\<bar>) CHR ''1''"
    using arg_cong [OF tails, of "takeWhile (\<lambda>c. c = CHR ''1'')"] unfolding len .
  then have "length (replicate (nat \<bar>n\<bar>) CHR ''1'') = length (replicate (nat \<bar>m\<bar>) CHR ''1'')"
    by (rule arg_cong)
  then have num: "n = m" using sign by auto
  have "CHR ''/'' # replicate (nat d) CHR ''1'' = CHR ''/'' # replicate (nat e) CHR ''1''"
    using arg_cong [OF tails, of "dropWhile (\<lambda>c. c = CHR ''1'')"] unfolding rest .
  then have "length (CHR ''/'' # replicate (nat d) CHR ''1'') = length (CHR ''/'' # replicate (nat e) CHR ''1'')"
    by (rule arg_cong)
  then have "d = e" using pos by simp
  with num q show "x = y" by (simp add: quotient_of_inject_eq [symmetric])
qed

lemma unary_codec_faithful: "faithful_codec unary_codec"
proof -
  have "inj (\<lambda>u :: nat. replicate u CHR ''1'')"
    by (rule injI) (metis length_replicate)
  then show ?thesis
    using unary_decimal_inj
    by (simp add: faithful_codec_def unary_codec_def unary_decimal_def split: prod.split)
qed

definition demo_request :: PlaceOrderRequest where
  "demo_request =
     \<lparr>rq_OrderID = 50, rq_UserID = 7, rq_Pair = ''BTC_USDT'', rq_Side = SideBuy,
      rq_Type = TypeLimit, rq_Price = 20, rq_Quantity = 3, rq_TimeInForce = TIF_GTC,
      rq_STPMode = STP_CANCEL_TAKER, rq_ExpiresAt = None, rq_StopPrice = None, rq_ClientID = []\<rparr>"


end
