(* ===== verification/Tables.thy ===== *)
theory Tables
  imports Prelude
begin

text \<open>
  Tables with several indexed columns, as lists of rows in insertion order: UPDATE .. WHERE with
  the CHECKs of the table, INSERT with a key, and what both keep. A statement that violates a
  CHECK on any row it touches changes nothing and raises an error (\<open>None\<close>).
\<close>

fun tbl_update :: "('r \<Rightarrow> bool) \<Rightarrow> ('r \<Rightarrow> 'r option) \<Rightarrow> 'r list \<Rightarrow> (nat \<times> 'r list) option" where
  "tbl_update P f [] = Some (0, [])"
| "tbl_update P f (r # rs) =
     (case tbl_update P f rs of
        None \<Rightarrow> None
      | Some (n, rs') \<Rightarrow>
          if P r then (case f r of None \<Rightarrow> None | Some r' \<Rightarrow> Some (Suc n, r' # rs'))
          else Some (n, r # rs'))"

definition tbl_insert :: "('r \<Rightarrow> 'k) \<Rightarrow> 'r \<Rightarrow> 'r list \<Rightarrow> 'r list option" where
  "tbl_insert key r rs = (if key r \<in> key ` set rs then None else Some (rs @ [r]))"

lemma tbl_update_SomeD:
  "tbl_update P f rs = Some (n, rs') \<Longrightarrow>
     rs' = map (\<lambda>r. if P r then the (f r) else r) rs \<and> n = length (filter P rs) \<and>
     (\<forall>r \<in> set rs. P r \<longrightarrow> f r \<noteq> None)"
  by (induction rs arbitrary: n rs') (auto split: option.splits prod.splits if_splits)

lemma tbl_update_ok:
  "(\<And>r. r \<in> set rs \<Longrightarrow> P r \<Longrightarrow> f r \<noteq> None) \<Longrightarrow>
     tbl_update P f rs = Some (length (filter P rs), map (\<lambda>r. if P r then the (f r) else r) rs)"
  by (induction rs) (auto split: option.splits, fastforce)

lemma tbl_update_fail: "r \<in> set rs \<Longrightarrow> P r \<Longrightarrow> f r = None \<Longrightarrow> tbl_update P f rs = None"
  by (induction rs) (auto split: option.splits)

lemma tbl_update_none [simp]: "(\<And>r. r \<in> set rs \<Longrightarrow> \<not> P r) \<Longrightarrow> tbl_update P f rs = Some (0, rs)"
  by (induction rs) auto

text \<open>An invariant of the rows that the new rows satisfy too.\<close>

lemma tbl_update_all:
  assumes "tbl_update P f rs = Some (n, rs')" and "\<forall>r \<in> set rs. Q r"
    and "\<And>r r'. r \<in> set rs \<Longrightarrow> P r \<Longrightarrow> f r = Some r' \<Longrightarrow> Q r \<Longrightarrow> Q r'"
  shows "\<forall>r \<in> set rs'. Q r"
  using tbl_update_SomeD [OF assms(1)] assms(2,3) by fastforce

lemma tbl_update_keys:
  assumes "tbl_update P f rs = Some (n, rs')"
    and "\<And>r r'. f r = Some r' \<Longrightarrow> key r' = key r"
  shows "map key rs' = map key rs"
  using tbl_update_SomeD [OF assms(1)] assms(2) by fastforce

lemma tbl_insert_SomeD:
  "tbl_insert key r rs = Some rs' \<Longrightarrow> key r \<notin> key ` set rs \<and> rs' = rs @ [r]"
  by (auto simp: tbl_insert_def split: if_splits)

text \<open>Looking a row up by its key.\<close>

definition tbl_find :: "('r \<Rightarrow> 'k) \<Rightarrow> 'k \<Rightarrow> 'r list \<Rightarrow> 'r option" where
  "tbl_find key k rs = find (\<lambda>r. key r = k) rs"

lemma find_SomeD: "find P xs = Some x \<Longrightarrow> x \<in> set xs \<and> P x"
  by (induction xs) (auto split: if_splits)

lemma tbl_find_SomeD: "tbl_find key k rs = Some r \<Longrightarrow> r \<in> set rs \<and> key r = k"
  by (auto simp: tbl_find_def find_Some_iff in_set_conv_nth)

lemma tbl_find_NoneD: "tbl_find key k rs = None \<Longrightarrow> k \<notin> key ` set rs"
  by (auto simp: tbl_find_def find_None_iff)

lemma tbl_insert_fresh: "tbl_insert key r rs = Some rs' \<Longrightarrow> tbl_find key (key r) rs = None"
  by (cases "tbl_find key (key r) rs") (auto dest!: tbl_insert_SomeD tbl_find_SomeD simp: image_iff, metis)

lemma tbl_find_map:
  assumes "\<And>k. key (g k) = key k"
  shows "tbl_find key i (map g ks) = map_option g (tbl_find key i ks)"
  by (induction ks) (auto simp: tbl_find_def assms)

lemma tbl_find_update:
  assumes "tbl_update (\<lambda>r. key r = k) f rs = Some (n, rs')"
    and "\<And>r r'. f r = Some r' \<Longrightarrow> key r' = key r" and "tbl_find key k rs = Some r"
  shows "tbl_find key k rs' = f r"
  using assms(1,3)
proof (induction rs arbitrary: n rs')
  case Nil
  then show ?case by (simp add: tbl_find_def)
next
  case (Cons x xs)
  then show ?case
    using assms(2)
    by (auto simp: tbl_find_def split: option.splits prod.splits if_splits)
qed

lemma tbl_find_update_other:
  assumes "tbl_update (\<lambda>r. key r = k) f rs = Some (n, rs')"
    and "\<And>r r'. f r = Some r' \<Longrightarrow> key r' = key r" and "j \<noteq> k"
  shows "tbl_find key j rs' = tbl_find key j rs"
  using assms(1)
proof (induction rs arbitrary: n rs')
  case Nil
  then show ?case by simp
next
  case (Cons x xs)
  then show ?case
    using assms(2,3)
    by (fastforce simp: tbl_find_def split: option.splits prod.splits if_splits)
qed

lemma tbl_find_distinct: "distinct (map key rs) \<Longrightarrow> r \<in> set rs \<Longrightarrow> tbl_find key (key r) rs = Some r"
  by (induction rs) (auto simp: tbl_find_def)

lemma tbl_find_append:
  "tbl_find key k (rs @ [r]) =
     (case tbl_find key k rs of Some x \<Rightarrow> Some x | None \<Rightarrow> if key r = k then Some r else None)"
  by (induction rs) (auto simp: tbl_find_def)

lemma tbl_find_insert:
  "tbl_insert key r rs = Some rs' \<Longrightarrow>
     tbl_find key k rs' = (if k = key r then Some r else tbl_find key k rs)"
proof -
  assume "tbl_insert key r rs = Some rs'"
  then have "key r \<notin> key ` set rs" "rs' = rs @ [r]"
    by (auto dest: tbl_insert_SomeD)
  moreover have "\<And>xs. find (\<lambda>x. key x = k) (xs @ [r]) =
      (case find (\<lambda>x. key x = k) xs of None \<Rightarrow> if key r = k then Some r else None | Some y \<Rightarrow> Some y)"
    subgoal for xs by (induction xs) auto
    done
  moreover from calculation have "find (\<lambda>x. key x = key r) rs = None"
    unfolding find_None_iff by (metis imageI)
  ultimately show ?thesis
    by (cases "k = key r") (auto simp: tbl_find_def split: option.splits)
qed

end
