(* ===== verification/Trading.thy ===== *)
theory Trading
  imports Wallet Matching Tables
begin

text \<open>
  The trading service, internal/trading/service.go: placing, amending and cancelling orders over
  the tables trading_pairs, orders and trades (migrations 0001 and 0023), the wallet of theory
  Wallet and an order source of theory Matching. The state holds the tables and the engine's own
  state; uuid.New and time.Now are arguments.
\<close>

subsection \<open>Types and tables\<close>

datatype trading_error =
    ErrUnknownPair string
  | ErrInvalidSide
  | ErrInvalidOrderType string
  | ErrInvalidPrice
  | ErrInvalidQty
  | ErrInsufficient wallet_error
  | ErrOrderNotFound
  | ErrNotOwner
  | ErrAlreadyClosed
  | ErrMatch string
  | ErrMatcher string
  | ErrAmendEmpty
  | ErrAmendNoMatcher
  | ErrAmendWallet wallet_error
  | ErrUnfreezeAmount decimal
  | ErrSettle string wallet_error
  | ErrStep string

record PairInfo =
  pi_Base :: string
  pi_Quote :: string
  pi_MinQty :: decimal
  pi_MaxQty :: decimal
  pi_PricePrecision :: int
  pi_QtyPrecision :: int

record pair_row =
  tp_id :: nat
  tp_base :: string
  tp_quote :: string
  tp_min_qty :: decimal
  tp_max_qty :: decimal
  tp_price_precision :: int
  tp_qty_precision :: int
  tp_enabled :: bool

record order_row =
  or_id :: uuid
  or_user_id :: uuid
  or_pair_id :: nat
  or_side :: string
  or_type :: string
  or_price :: decimal
  or_quantity :: decimal
  or_filled :: decimal
  or_status :: string
  or_created_at :: time
  or_updated_at :: time

record trade_row =
  td_id :: uuid
  td_buy_order_id :: uuid
  td_sell_order_id :: uuid
  td_pair_id :: nat
  td_price :: decimal
  td_quantity :: decimal
  td_taker_side :: string
  td_executed_at :: string

record 'e trading_db = wallet_db +
  trading_pairs :: "pair_row list"
  orders :: "order_row list"
  trades :: "trade_row list"
  engine :: 'e

definition status_CANCELLED :: string where
  "status_CANCELLED = ''CANCELLED''"

definition open_status :: "string \<Rightarrow> bool" where
  "open_status st \<longleftrightarrow> st = ''OPEN'' \<or> st = ''PARTIAL''"

text \<open>
  What writing an orders row does: the trigger of migration 0023 rewrites CANCELED, the NUMERIC
  columns are rounded, and the CHECKs are evaluated.
\<close>

definition order_store :: "order_row \<Rightarrow> order_row option" where
  "order_store r =
     (case (numeric_38_18 (or_price r), numeric_38_18 (or_quantity r), numeric_38_18 (or_filled r)) of
        (Some p, Some q, Some f) \<Rightarrow>
          (let st = (if or_status r = ''CANCELED'' then ''CANCELLED'' else or_status r) in
           if 0 \<le> f \<and> f \<le> q \<and> or_side r \<in> {''BUY'', ''SELL''} \<and>
              or_type r \<in> {''LIMIT'', ''MARKET''} \<and>
              st \<in> {''OPEN'', ''PARTIAL'', ''FILLED'', ''CANCELLED''}
           then Some (r\<lparr>or_price := p, or_quantity := q, or_filled := f, or_status := st\<rparr>)
           else None)
      | _ \<Rightarrow> None)"

definition trade_store :: "trade_row \<Rightarrow> trade_row option" where
  "trade_store r =
     (case (numeric_38_18 (td_price r), numeric_38_18 (td_quantity r)) of
        (Some p, Some q) \<Rightarrow>
          if td_taker_side r \<in> {''BUY'', ''SELL''} \<and> td_executed_at r \<noteq> []
          then Some (r\<lparr>td_price := p, td_quantity := q\<rparr>) else None
      | _ \<Rightarrow> None)"

definition insert_order_stmt ::
  "order_row \<Rightarrow> ('e, 'x) trading_db_scheme \<Rightarrow> (nat \<times> ('e, 'x) trading_db_scheme) option" where
  "insert_order_stmt r s =
     (case order_store r of
        None \<Rightarrow> None
      | Some r' \<Rightarrow> map_option (\<lambda>os. (1, s\<lparr>orders := os\<rparr>)) (tbl_insert or_id r' (orders s)))"

definition update_orders_stmt ::
  "(order_row \<Rightarrow> bool) \<Rightarrow> (order_row \<Rightarrow> order_row) \<Rightarrow> ('e, 'x) trading_db_scheme
    \<Rightarrow> (nat \<times> ('e, 'x) trading_db_scheme) option" where
  "update_orders_stmt P f s =
     map_option (\<lambda>(n, os). (n, s\<lparr>orders := os\<rparr>)) (tbl_update P (\<lambda>r. order_store (f r)) (orders s))"

text \<open>INSERT .. ON CONFLICT (id) DO NOTHING.\<close>

definition insert_trade_stmt ::
  "trade_row \<Rightarrow> ('e, 'x) trading_db_scheme \<Rightarrow> (nat \<times> ('e, 'x) trading_db_scheme) option" where
  "insert_trade_stmt r s =
     (case trade_store r of
        None \<Rightarrow> None
      | Some r' \<Rightarrow>
          (case tbl_insert td_id r' (trades s) of
             None \<Rightarrow> Some (0, s)
           | Some ts \<Rightarrow> Some (1, s\<lparr>trades := ts\<rparr>)))"

definition pair_id_of :: "string \<Rightarrow> string \<Rightarrow> ('e, 'x) trading_db_scheme \<Rightarrow> nat option" where
  "pair_id_of b q s =
     map_option tp_id (find (\<lambda>p. tp_base p = b \<and> tp_quote p = q) (trading_pairs s))"

definition pair_of_id :: "nat \<Rightarrow> ('e, 'x) trading_db_scheme \<Rightarrow> pair_row option" where
  "pair_of_id i s = tbl_find tp_id i (trading_pairs s)"

subsection \<open>The pair cache\<close>

definition loadPairs ::
  "('e, 'x) trading_db_scheme \<Rightarrow> (string \<Rightarrow> PairInfo option) \<times> ('e, 'x) trading_db_scheme" where
  "loadPairs s =
     (case query (\<lambda>t. filter tp_enabled (trading_pairs t)) s of
        (None, s') \<Rightarrow> (Map.empty, s')
      | (Some rows, s') \<Rightarrow>
          (fold (\<lambda>p m. m(tp_base p @ ''_'' @ tp_quote p \<mapsto>
               \<lparr>pi_Base = tp_base p, pi_Quote = tp_quote p, pi_MinQty = tp_min_qty p,
                pi_MaxQty = tp_max_qty p, pi_PricePrecision = tp_price_precision p,
                pi_QtyPrecision = tp_qty_precision p\<rparr>)) rows Map.empty, s'))"

record EnabledPair =
  ep_Base :: string
  ep_Quote :: string
  ep_Enabled :: bool

text \<open>The iteration order over the cached keys is the map's; it is the list argument here.\<close>

definition EnabledPairs :: "string list \<Rightarrow> EnabledPair list" where
  "EnabledPairs keys =
     concat (map (\<lambda>k. case SplitN2 (CHR ''_'') k of
                        [b, q] \<Rightarrow> [\<lparr>ep_Base = b, ep_Quote = q, ep_Enabled = True\<rparr>]
                      | _ \<Rightarrow> []) keys)"

subsection \<open>Writing orders and trades\<close>

definition persistOrder ::
  "time \<Rightarrow> Order \<Rightarrow> ('e, 'x) trading_db_scheme
    \<Rightarrow> (trading_error + unit) \<times> ('e, 'x) trading_db_scheme" where
  "persistOrder now ord s =
     (case query (pair_id_of (ord_Base ord) (ord_Quote ord)) s of
        (Some (Some pairID), s1) \<Rightarrow>
          (case exec_stmt (insert_order_stmt
                  \<lparr>or_id = ord_ID ord, or_user_id = ord_UserID ord, or_pair_id = pairID,
                   or_side = ord_Side ord, or_type = ord_Type ord, or_price = ord_Price ord,
                   or_quantity = ord_Quantity ord, or_filled = ord_FilledQty ord,
                   or_status = ord_Status ord, or_created_at = now, or_updated_at = now\<rparr>) s1 of
             (None, s2) \<Rightarrow> (Inl (ErrStep ''insert order''), s2)
           | (Some n, s2) \<Rightarrow>
               if n = 0 then (Inl (ErrStep ''row not inserted''), s2) else (Inr (), s2))
      | (_, s1) \<Rightarrow> (Inl (ErrStep ''lookup pair_id''), s1))"

definition updateOrderStatus ::
  "time \<Rightarrow> uuid \<Rightarrow> string \<Rightarrow> decimal \<Rightarrow> ('e, 'x) trading_db_scheme
    \<Rightarrow> (trading_error + unit) \<times> ('e, 'x) trading_db_scheme" where
  "updateOrderStatus now oid status filled s =
     (case exec_stmt (update_orders_stmt (\<lambda>r. or_id r = oid)
             (\<lambda>r. r\<lparr>or_status := status, or_filled := filled, or_updated_at := now\<rparr>)) s of
        (None, s1) \<Rightarrow> (Inl (ErrStep ''update order''), s1)
      | (Some n, s1) \<Rightarrow>
          if n = 0 then (Inl (ErrStep ''update order: row not found''), s1) else (Inr (), s1))"

definition persistTrade ::
  "Trade \<Rightarrow> ('e, 'x) trading_db_scheme
    \<Rightarrow> (trading_error + unit) \<times> ('e, 'x) trading_db_scheme" where
  "persistTrade tr s =
     (case query (pair_id_of (tr_Base tr) (tr_Quote tr)) s of
        (Some (Some pairID), s1) \<Rightarrow>
          (case exec_stmt (insert_trade_stmt
                  \<lparr>td_id = tr_ID tr, td_buy_order_id = tr_BuyOrderID tr,
                   td_sell_order_id = tr_SellOrderID tr, td_pair_id = pairID,
                   td_price = tr_Price tr, td_quantity = tr_Quantity tr,
                   td_taker_side = tr_TakerSide tr, td_executed_at = tr_ExecutedAt tr\<rparr>) s1 of
             (None, s2) \<Rightarrow> (Inl (ErrStep ''insert trade''), s2)
           | (Some _, s2) \<Rightarrow> (Inr (), s2))
      | (_, s1) \<Rightarrow> (Inl (ErrStep ''lookup pair_id''), s1))"

subsection \<open>Settlement\<close>

text \<open>
  settleTrade moves the taker's side first, then the maker's. The four wallet calls are listed in
  the order the code makes them, each with the label its error carries; the first error ends the
  settlement and nothing is undone.
\<close>

definition settle_legs :: "Trade \<Rightarrow> uuid \<Rightarrow> (string \<times> ledger_cmd) list" where
  "settle_legs tr takerUserID =
     (let notional = tr_Quantity tr * tr_Price tr;
          baseAmt = tr_Quantity tr;
          takerIsBuyer = (tr_TakerSide tr = SideBuy);
          makerID = (if takerIsBuyer then tr_SellUserID tr else tr_BuyUserID tr)
      in if takerIsBuyer
         then [(''taker debit frozen quote'', CmdDebitFrozen takerUserID (tr_Quote tr) notional),
               (''taker credit base'', CmdCredit takerUserID (tr_Base tr) baseAmt),
               (''maker debit base'', CmdDebitFrozen makerID (tr_Base tr) baseAmt),
               (''maker credit quote'', CmdCredit makerID (tr_Quote tr) notional)]
         else [(''taker debit frozen base'', CmdDebitFrozen takerUserID (tr_Base tr) baseAmt),
               (''taker credit quote'', CmdCredit takerUserID (tr_Quote tr) notional),
               (''maker debit quote'', CmdDebitFrozen makerID (tr_Quote tr) notional),
               (''maker credit base'', CmdCredit makerID (tr_Base tr) baseAmt)])"

definition settle_step ::
  "string \<times> ledger_cmd \<Rightarrow> ('e, 'x) trading_db_scheme
    \<Rightarrow> (trading_error + unit) \<times> ('e, 'x) trading_db_scheme" where
  "settle_step leg s =
     (case wallet_exec (snd leg) s of
        (Inl e, s') \<Rightarrow> (Inl (ErrSettle (fst leg) e), s')
      | (Inr _, s') \<Rightarrow> (Inr (), s'))"

definition settleTrade ::
  "Trade \<Rightarrow> uuid \<Rightarrow> ('e, 'x) trading_db_scheme
    \<Rightarrow> (trading_error + unit) \<times> ('e, 'x) trading_db_scheme" where
  "settleTrade tr takerUserID s = run_cmds settle_step (settle_legs tr takerUserID) s"

text \<open>
  The maker's row after a trade: read its quantity and filled quantity, add the trade, and write
  status and filled quantity back. When the read fails the status written is PARTIAL and the
  filled quantity written is zero.
\<close>

definition maker_state :: "order_row option option \<Rightarrow> decimal \<Rightarrow> string \<times> decimal" where
  "maker_state q qty =
     (case q of
        Some (Some r) \<Rightarrow>
          (let newFilled = or_filled r + qty
           in (if or_quantity r \<le> newFilled then StatusFilled else StatusPartial, newFilled))
      | _ \<Rightarrow> (StatusPartial, 0))"

definition update_maker ::
  "time \<Rightarrow> uuid \<Rightarrow> Trade \<Rightarrow> ('e, 'x) trading_db_scheme \<Rightarrow> ('e, 'x) trading_db_scheme" where
  "update_maker now takerOrderID tr s =
     (let makerOrderID =
            (if tr_BuyOrderID tr = takerOrderID then tr_SellOrderID tr else tr_BuyOrderID tr)
      in case query (\<lambda>t. tbl_find or_id makerOrderID (orders t)) s of
           (q, s1) \<Rightarrow>
             (case maker_state q (tr_Quantity tr) of
                (st, filled) \<Rightarrow> snd (updateOrderStatus now makerOrderID st filled s1)))"

text \<open>One trade of the result: settle, persist, update the maker; errors are only logged.\<close>

definition process_trade ::
  "time \<Rightarrow> uuid \<Rightarrow> uuid \<Rightarrow> Trade \<Rightarrow> ('e, 'x) trading_db_scheme \<Rightarrow> ('e, 'x) trading_db_scheme" where
  "process_trade now userID takerOrderID tr s =
     update_maker now takerOrderID tr (snd (persistTrade tr (snd (settleTrade tr userID s))))"

definition process_trades ::
  "time \<Rightarrow> uuid \<Rightarrow> uuid \<Rightarrow> Trade list \<Rightarrow> ('e, 'x) trading_db_scheme \<Rightarrow> ('e, 'x) trading_db_scheme" where
  "process_trades now userID takerOrderID ts s = fold (process_trade now userID takerOrderID) ts s"

subsection \<open>PlaceOrder\<close>

record PlaceOrderInput =
  in_UserID :: uuid
  in_Pair :: string
  in_Side :: string
  in_Type :: string
  in_Price :: decimal
  in_Quantity :: decimal
  in_STPMode :: string

record PlacedOrder =
  res_OrderID :: uuid
  res_Status :: string
  res_Trades :: "Trade list"
  res_Filled :: decimal
  res_Remaining :: decimal

definition validate_order ::
  "(string \<Rightarrow> PairInfo option) \<Rightarrow> PlaceOrderInput \<Rightarrow> trading_error + PairInfo \<times> string \<times> string" where
  "validate_order pairs inp =
     (case pairs (ToUpper (in_Pair inp)) of
        None \<Rightarrow> Inl (ErrUnknownPair (in_Pair inp))
      | Some pairInfo \<Rightarrow>
          (let side = ToUpper (in_Side inp);
               orderType = (if in_Type inp = [] then TypeLimit else ToUpper (in_Type inp))
           in if side \<noteq> SideBuy \<and> side \<noteq> SideSell then Inl ErrInvalidSide
              else if orderType \<noteq> TypeLimit \<and> orderType \<noteq> TypeMarket
                then Inl (ErrInvalidOrderType (in_Type inp))
              else if orderType = TypeLimit \<and> in_Price inp \<le> 0 then Inl ErrInvalidPrice
              else if in_Quantity inp \<le> 0 then Inl ErrInvalidQty
              else Inr (pairInfo, side, orderType)))"

definition freeze_of :: "PairInfo \<Rightarrow> string \<Rightarrow> string \<Rightarrow> decimal \<Rightarrow> decimal \<Rightarrow> string \<times> decimal" where
  "freeze_of pairInfo side orderType price quantity =
     (if orderType = TypeMarket
      then (if side = SideBuy then (pi_Quote pairInfo, quantity * 1000000)
            else (pi_Base pairInfo, quantity))
      else (if side = SideSell then (pi_Base pairInfo, quantity)
            else (pi_Quote pairInfo, quantity * price)))"

definition stp_of :: "string \<Rightarrow> string" where
  "stp_of m = (if m = ''CANCEL_MAKER'' then STP_CANCEL_MAKER else STP_CANCEL_TAKER)"

definition new_order :: "time \<Rightarrow> uuid \<Rightarrow> PairInfo \<Rightarrow> string \<Rightarrow> string \<Rightarrow> PlaceOrderInput \<Rightarrow> Order" where
  "new_order now orderID pairInfo side orderType inp =
     zero_order
       \<lparr>ord_ID := orderID, ord_UserID := in_UserID inp, ord_Pair := ToUpper (in_Pair inp),
        ord_Base := pi_Base pairInfo, ord_Quote := pi_Quote pairInfo, ord_Side := side,
        ord_Type := orderType, ord_Price := in_Price inp, ord_Quantity := in_Quantity inp,
        ord_RemainingQty := in_Quantity inp, ord_Status := StatusOpen,
        ord_CreatedAt := Some now, ord_STPMode := stp_of (in_STPMode inp)\<rparr>"

definition place_request :: "Order \<Rightarrow> PlaceOrderRequest" where
  "place_request x =
     \<lparr>rq_OrderID = ord_ID x, rq_UserID = ord_UserID x, rq_Pair = ord_Pair x,
      rq_Side = ord_Side x, rq_Type = ord_Type x, rq_Price = ord_Price x,
      rq_Quantity = ord_Quantity x, rq_TimeInForce = [], rq_STPMode = ord_STPMode x,
      rq_ExpiresAt = None, rq_StopPrice = None, rq_ClientID = []\<rparr>"

text \<open>Asking the order source: its state is a part of the service's.\<close>

definition call_engine ::
  "('e \<Rightarrow> 'r \<times> 'e) \<Rightarrow> ('e, 'x) trading_db_scheme \<Rightarrow> 'r \<times> ('e, 'x) trading_db_scheme" where
  "call_engine f s = (case f (engine s) of (r, e) \<Rightarrow> (r, s\<lparr>engine := e\<rparr>))"

text \<open>Steps 4 to 7 for an order the engine has answered.\<close>

definition finish_order ::
  "time \<Rightarrow> Order \<Rightarrow> Trade list \<Rightarrow> ('e, 'x) trading_db_scheme \<Rightarrow> PlacedOrder \<times> ('e, 'x) trading_db_scheme" where
  "finish_order now x ts s =
     (let s1 = snd (persistOrder now x s);
          s2 = process_trades now (ord_UserID x) (ord_ID x) ts s1;
          s3 = snd (updateOrderStatus now (ord_ID x) (ord_Status x) (ord_FilledQty x) s2)
      in (\<lparr>res_OrderID = ord_ID x, res_Status = ord_Status x, res_Trades = ts,
           res_Filled = ord_FilledQty x, res_Remaining = ord_RemainingQty x\<rparr>, s3))"

definition PlaceOrder ::
  "(string \<Rightarrow> PairInfo option) \<Rightarrow> 'e OrderSource option \<Rightarrow> uuid \<Rightarrow> time \<Rightarrow> PlaceOrderInput
    \<Rightarrow> ('e, 'x) trading_db_scheme \<Rightarrow> (trading_error + PlacedOrder) \<times> ('e, 'x) trading_db_scheme" where
  "PlaceOrder pairs src orderID now inp s =
     (case validate_order pairs inp of
        Inl err \<Rightarrow> (Inl err, s)
      | Inr (pairInfo, side, orderType) \<Rightarrow>
          (case freeze_of pairInfo side orderType (in_Price inp) (in_Quantity inp) of
             (freezeAsset, freezeAmount) \<Rightarrow>
               (case Freeze (in_UserID inp) freezeAsset freezeAmount s of
                  (Inl werr, s1) \<Rightarrow> (Inl (ErrInsufficient werr), s1)
                | (Inr _, s1) \<Rightarrow>
                    (let x = new_order now orderID pairInfo side orderType inp in
                     case src of
                       None \<Rightarrow> (case finish_order now x [] s1 of (r, s2) \<Rightarrow> (Inr r, s2))
                     | Some os \<Rightarrow>
                         (case call_engine (src_PlaceOrder os (place_request x)) s1 of
                            (Inl merr, s2) \<Rightarrow>
                              (Inl (ErrMatch merr),
                               snd (Unfreeze (in_UserID inp) freezeAsset freezeAmount s2))
                          | (Inr res, s2) \<Rightarrow>
                              (case finish_order now
                                      (x\<lparr>ord_Status := rs_Status res, ord_FilledQty := rs_Filled res\<rparr>)
                                      (rs_Trades res) s2 of
                                 (r, s3) \<Rightarrow> (Inr r, s3)))))))"

subsection \<open>Transactions on the orders table\<close>

definition rollback_orders ::
  "('e, 'x) trading_db_scheme \<Rightarrow> ('e, 'x) trading_db_scheme \<Rightarrow> ('e, 'x) trading_db_scheme" where
  "rollback_orders s0 s = s\<lparr>orders := orders s0\<rparr>"

text \<open>
  Committing: acknowledged, lost (the transaction's writes disappear) or applied with the
  acknowledgement lost.
\<close>

definition commit_orders ::
  "('e, 'x) trading_db_scheme \<Rightarrow> ('e, 'x) trading_db_scheme \<Rightarrow> bool \<times> ('e, 'x) trading_db_scheme" where
  "commit_orders s0 s =
     (case next_fault s of
        (Acked, s') \<Rightarrow> (True, s')
      | (Lost, s') \<Rightarrow> (False, rollback_orders s0 s')
      | (Unacked, s') \<Rightarrow> (False, s'))"

text \<open>orders JOIN trading_pairs: an order whose pair row is missing is not found.\<close>

definition joined :: "('e, 'x) trading_db_scheme \<Rightarrow> order_row \<Rightarrow> (order_row \<times> pair_row) option" where
  "joined s r = map_option (\<lambda>p. (r, p)) (pair_of_id (or_pair_id r) s)"

definition find_joined ::
  "uuid \<Rightarrow> ('e, 'x) trading_db_scheme \<Rightarrow> (order_row \<times> pair_row) option" where
  "find_joined oid s = Option.bind (tbl_find or_id oid (orders s)) (joined s)"

definition closed_status :: "string \<Rightarrow> bool" where
  "closed_status st \<longleftrightarrow> st = StatusFilled \<or> st = StatusCanceled \<or> st = status_CANCELLED"

subsection \<open>CancelOrder\<close>

text \<open>
  At most three cancel requests. \<open>live\<close> says that the request's context is not cancelled: a
  cancelled context ends the retries at the first failure.
\<close>

fun cancel_attempts ::
  "nat \<Rightarrow> bool \<Rightarrow> ('e \<Rightarrow> (string + unit) \<times> 'e) \<Rightarrow> string \<Rightarrow> ('e, 'x) trading_db_scheme
    \<Rightarrow> (string + unit) \<times> ('e, 'x) trading_db_scheme" where
  "cancel_attempts 0 live f lastErr s = (Inl lastErr, s)"
| "cancel_attempts (Suc n) live f lastErr s =
     (case call_engine f s of
        (Inr _, s') \<Rightarrow> (Inr (), s')
      | (Inl err, s') \<Rightarrow>
          if live then cancel_attempts n live f err s' else (Inl ''context canceled'', s'))"

definition cancelWithRetry ::
  "bool \<Rightarrow> 'e OrderSource \<Rightarrow> string \<Rightarrow> uuid \<Rightarrow> uuid \<Rightarrow> ('e, 'x) trading_db_scheme
    \<Rightarrow> (string + unit) \<times> ('e, 'x) trading_db_scheme" where
  "cancelWithRetry live os pair orderID userID s =
     cancel_attempts 3 live (src_CancelOrder os pair orderID userID) [] s"

text \<open>What an open order still holds frozen, by its own row.\<close>

definition unfreeze_of :: "order_row \<Rightarrow> pair_row \<Rightarrow> string \<times> decimal" where
  "unfreeze_of r p =
     (let remaining = or_quantity r - or_filled r
      in if or_side r = ''SELL'' then (tp_base p, remaining)
         else (tp_quote p, remaining * or_price r))"

text \<open>
  The amount to unfreeze is capped by what the balance row holds. A failed read inside the
  transaction aborts it (\<open>None\<close>); a missing row leaves the amount as it is.
\<close>

definition cap_unfreeze ::
  "uuid \<Rightarrow> string \<Rightarrow> decimal \<Rightarrow> ('e, 'x) trading_db_scheme
    \<Rightarrow> decimal option \<times> ('e, 'x) trading_db_scheme" where
  "cap_unfreeze userID asset amount s =
     (if 0 < amount then
        (case query (\<lambda>t. map_option frozen (balances t (userID, asset))) s of
           (None, s') \<Rightarrow> (None, s')
         | (Some None, s') \<Rightarrow> (Some amount, s')
         | (Some (Some fr), s') \<Rightarrow> (Some (if fr < amount then fr else amount), s'))
      else (Some amount, s))"

text \<open>After the commit: tell the engine, then give the frozen amount back; errors are logged.\<close>

definition after_cancel ::
  "bool \<Rightarrow> 'e OrderSource option \<Rightarrow> uuid \<Rightarrow> uuid \<Rightarrow> pair_row \<Rightarrow> string \<Rightarrow> decimal
    \<Rightarrow> ('e, 'x) trading_db_scheme \<Rightarrow> ('e, 'x) trading_db_scheme" where
  "after_cancel live src orderID userID p asset amount s =
     (let s1 = (case src of
                  None \<Rightarrow> s
                | Some os \<Rightarrow>
                    snd (cancelWithRetry live os (tp_base p @ ''_'' @ tp_quote p) orderID userID s))
      in if 0 < amount then snd (Unfreeze userID asset amount s1) else s1)"

definition cancel_body ::
  "bool \<Rightarrow> 'e OrderSource option \<Rightarrow> uuid \<Rightarrow> uuid \<Rightarrow> time \<Rightarrow> order_row \<Rightarrow> pair_row
    \<Rightarrow> ('e, 'x) trading_db_scheme \<Rightarrow> (trading_error + unit) \<times> ('e, 'x) trading_db_scheme" where
  "cancel_body live src orderID userID now r p s0 =
     (case unfreeze_of r p of
        (asset, amount) \<Rightarrow>
          (case cap_unfreeze userID asset amount s0 of
             (None, s1) \<Rightarrow> (Inl (ErrStep ''update status''), s1)
           | (Some unfreezeAmount, s1) \<Rightarrow>
               if unfreezeAmount < 0 then (Inl (ErrUnfreezeAmount unfreezeAmount), s1)
               else
                 (case exec_stmt (update_orders_stmt (\<lambda>x. or_id x = orderID)
                         (\<lambda>x. x\<lparr>or_status := status_CANCELLED, or_updated_at := now\<rparr>)) s1 of
                    (None, s2) \<Rightarrow> (Inl (ErrStep ''update status''), rollback_orders s0 s2)
                  | (Some _, s2) \<Rightarrow>
                      (case commit_orders s0 s2 of
                         (False, s3) \<Rightarrow> (Inl (ErrStep ''commit''), s3)
                       | (True, s3) \<Rightarrow>
                           (Inr (), after_cancel live src orderID userID p asset unfreezeAmount s3)))))"

text \<open>
  Loading the row: the test for a missing row compares the error with itself, so every error of
  the read is reported as a missing order.
\<close>

definition CancelOrder ::
  "bool \<Rightarrow> 'e OrderSource option \<Rightarrow> uuid \<Rightarrow> uuid \<Rightarrow> time \<Rightarrow> ('e, 'x) trading_db_scheme
    \<Rightarrow> (trading_error + unit) \<times> ('e, 'x) trading_db_scheme" where
  "CancelOrder live src orderID userID now s =
     (case query (\<lambda>_. ()) s of
        (None, s0) \<Rightarrow> (Inl (ErrStep ''begin tx''), s0)
      | (Some _, s0) \<Rightarrow>
          (case query (find_joined orderID) s0 of
             (None, s1) \<Rightarrow> (Inl ErrOrderNotFound, s1)
           | (Some None, s1) \<Rightarrow> (Inl ErrOrderNotFound, s1)
           | (Some (Some (r, p)), s1) \<Rightarrow>
               if or_user_id r \<noteq> userID then (Inl ErrNotOwner, s1)
               else if closed_status (or_status r) then (Inl ErrAlreadyClosed, s1)
               else cancel_body live src orderID userID now r p s1))"

subsection \<open>CancelAllOrders\<close>

definition split_part :: "string \<Rightarrow> char \<Rightarrow> nat \<Rightarrow> string" where
  "split_part s sep i =
     (let ws = Split sep s in if 1 \<le> i \<and> i \<le> length ws then ws ! (i - 1) else [])"

definition selected_orders ::
  "uuid \<Rightarrow> string \<Rightarrow> ('e, 'x) trading_db_scheme \<Rightarrow> (order_row \<times> pair_row) list" where
  "selected_orders userID pairFilter s =
     filter (\<lambda>(r, p). or_user_id r = userID \<and> open_status (or_status r) \<and>
               (pairFilter = [] \<or> tp_base p @ ''_'' @ tp_quote p = pairFilter))
       (List.map_filter (joined s) (orders s))"

definition cancel_all_where :: "uuid \<Rightarrow> string \<Rightarrow> ('e, 'x) trading_db_scheme \<Rightarrow> order_row \<Rightarrow> bool" where
  "cancel_all_where userID pairFilter s r \<longleftrightarrow>
     or_user_id r = userID \<and> open_status (or_status r) \<and>
     (pairFilter = [] \<or>
      Some (or_pair_id r) =
        pair_id_of (split_part pairFilter (CHR ''_'') 1) (split_part pairFilter (CHR ''_'') 2) s)"

definition unfreeze_cancelled ::
  "uuid \<Rightarrow> order_row \<times> pair_row \<Rightarrow> ('e, 'x) trading_db_scheme \<Rightarrow> ('e, 'x) trading_db_scheme" where
  "unfreeze_cancelled userID rp s =
     (case unfreeze_of (fst rp) (snd rp) of
        (asset, amount) \<Rightarrow>
          if or_quantity (fst rp) - or_filled (fst rp) \<le> 0 then s
          else if amount \<le> 0 then s
          else snd (Unfreeze userID asset amount s))"

definition CancelAllOrders ::
  "'e OrderSource \<Rightarrow> uuid \<Rightarrow> string \<Rightarrow> time \<Rightarrow> ('e, 'x) trading_db_scheme
    \<Rightarrow> (trading_error + nat) \<times> ('e, 'x) trading_db_scheme" where
  "CancelAllOrders os userID pairFilter now s =
     (case query (\<lambda>_. ()) s of
        (None, s0) \<Rightarrow> (Inl (ErrStep ''begin tx''), s0)
      | (Some _, s0) \<Rightarrow>
          (case query (selected_orders userID pairFilter) s0 of
             (None, s1) \<Rightarrow> (Inl (ErrStep ''query orders''), s1)
           | (Some sel, s1) \<Rightarrow>
               if sel = [] then (Inr 0, s1)
               else
                 (case exec_stmt (\<lambda>t. update_orders_stmt (cancel_all_where userID pairFilter t)
                         (\<lambda>x. x\<lparr>or_status := status_CANCELLED, or_updated_at := now\<rparr>) t) s1 of
                    (None, s2) \<Rightarrow> (Inl (ErrStep ''update orders''), rollback_orders s0 s2)
                  | (Some _, s2) \<Rightarrow>
                      (case commit_orders s0 s2 of
                         (False, s3) \<Rightarrow> (Inl (ErrStep ''commit''), s3)
                       | (True, s3) \<Rightarrow>
                           (let s4 = fold (\<lambda>(r, p) t. snd (call_engine (src_CancelOrder os
                                        (tp_base p @ ''_'' @ tp_quote p) (or_id r) userID) t)) sel s3
                            in (Inr (length sel), fold (unfreeze_cancelled userID) sel s4))))))"

subsection \<open>AmendOrder\<close>

record AmendOrderInput =
  am_OrderID :: uuid
  am_UserID :: uuid
  am_Pair :: string
  am_Side :: string
  am_Price :: decimal
  am_Quantity :: decimal

text \<open>A zero price or quantity means: keep what the row has.\<close>

definition amend_target :: "AmendOrderInput \<Rightarrow> order_row \<Rightarrow> decimal \<times> decimal" where
  "amend_target inp r =
     (if am_Price inp \<noteq> 0 then am_Price inp else or_price r,
      if am_Quantity inp \<noteq> 0 then am_Quantity inp else or_quantity r)"

definition amend_diff :: "order_row \<Rightarrow> pair_row \<Rightarrow> decimal \<Rightarrow> decimal \<Rightarrow> string \<times> decimal" where
  "amend_diff r p newPrice newQuantity =
     (let oldRemaining = or_quantity r - or_filled r;
          newRemaining = newQuantity - or_filled r
      in if or_side r = ''SELL'' then (tp_base p, newRemaining - oldRemaining)
         else (tp_quote p, newRemaining * newPrice - oldRemaining * or_price r))"

text \<open>Freeze a positive difference, unfreeze a negative one.\<close>

definition wallet_diff ::
  "uuid \<Rightarrow> string \<Rightarrow> decimal \<Rightarrow> ('e, 'x) trading_db_scheme
    \<Rightarrow> (wallet_error + unit) \<times> ('e, 'x) trading_db_scheme" where
  "wallet_diff userID asset diff s =
     (if 0 < diff then Freeze userID asset diff s
      else if diff < 0 then Unfreeze userID asset \<bar>diff\<bar> s
      else (Inr (), s))"

definition amend_finish ::
  "time \<Rightarrow> AmendOrderInput \<Rightarrow> PlaceOrderResult \<Rightarrow> ('e, 'x) trading_db_scheme
    \<Rightarrow> PlacedOrder \<times> ('e, 'x) trading_db_scheme" where
  "amend_finish now inp res s =
     (let s1 = process_trades now (am_UserID inp) (am_OrderID inp) (rs_Trades res) s;
          takerStatus = (if rs_Status res = [] then StatusOpen else rs_Status res);
          s2 = snd (updateOrderStatus now (am_OrderID inp) takerStatus (rs_Filled res) s1)
      in (\<lparr>res_OrderID = am_OrderID inp, res_Status = takerStatus, res_Trades = rs_Trades res,
           res_Filled = rs_Filled res, res_Remaining = rs_Remaining res\<rparr>, s2))"

text \<open>
  The mutating part: the engine first, then the wallet, then the row. A wallet failure restores
  the engine; a failed update restores wallet and engine; a failed commit restores nothing.
\<close>

definition amend_body ::
  "'e OrderSource \<Rightarrow> time \<Rightarrow> AmendOrderInput \<Rightarrow> order_row \<Rightarrow> pair_row \<Rightarrow> decimal \<Rightarrow> decimal
    \<Rightarrow> ('e, 'x) trading_db_scheme \<Rightarrow> (trading_error + PlacedOrder) \<times> ('e, 'x) trading_db_scheme" where
  "amend_body os now inp r p newPrice newQuantity s0 =
     (let ask = (\<lambda>pr q. call_engine (src_AmendOrder os (tp_base p @ ''_'' @ tp_quote p)
                     (am_OrderID inp) (am_UserID inp) (or_side r) pr q))
      in case ask newPrice newQuantity s0 of
           (Inl merr, s1) \<Rightarrow> (Inl (ErrMatcher merr), s1)
         | (Inr res, s1) \<Rightarrow>
             (case amend_diff r p newPrice newQuantity of
                (asset, diff) \<Rightarrow>
                  (case wallet_diff (am_UserID inp) asset diff s1 of
                     (Inl werr, s2) \<Rightarrow>
                       (Inl (ErrAmendWallet werr), snd (ask (or_price r) (or_quantity r) s2))
                   | (Inr _, s2) \<Rightarrow>
                       (case exec_stmt (update_orders_stmt (\<lambda>x. or_id x = am_OrderID inp)
                               (\<lambda>x. x\<lparr>or_price := newPrice, or_quantity := newQuantity,
                                     or_updated_at := now\<rparr>)) s2 of
                          (None, s3) \<Rightarrow>
                            (Inl (ErrStep ''update order''),
                             snd (ask (or_price r) (or_quantity r)
                                    (snd (wallet_diff (am_UserID inp) asset (- diff)
                                            (rollback_orders s0 s3)))))
                        | (Some _, s3) \<Rightarrow>
                            (case commit_orders s0 s3 of
                               (False, s4) \<Rightarrow> (Inl (ErrStep ''commit''), s4)
                             | (True, s4) \<Rightarrow>
                                 (case amend_finish now inp res s4 of (out, s5) \<Rightarrow> (Inr out, s5)))))))"

definition AmendOrder ::
  "'e OrderSource option \<Rightarrow> time \<Rightarrow> AmendOrderInput \<Rightarrow> ('e, 'x) trading_db_scheme
    \<Rightarrow> (trading_error + PlacedOrder) \<times> ('e, 'x) trading_db_scheme" where
  "AmendOrder src now inp s =
     (if am_Price inp = 0 \<and> am_Quantity inp = 0 then (Inl ErrAmendEmpty, s)
      else
        (case query (\<lambda>_. ()) s of
           (None, s0) \<Rightarrow> (Inl (ErrStep ''begin tx''), s0)
         | (Some _, s0) \<Rightarrow>
             (case query (find_joined (am_OrderID inp)) s0 of
                (None, s1) \<Rightarrow> (Inl ErrOrderNotFound, s1)
              | (Some None, s1) \<Rightarrow> (Inl ErrOrderNotFound, s1)
              | (Some (Some (r, p)), s1) \<Rightarrow>
                  (case amend_target inp r of
                     (newPrice, newQuantity) \<Rightarrow>
                       if or_user_id r \<noteq> am_UserID inp then (Inl ErrNotOwner, s1)
                       else if closed_status (or_status r) then (Inl ErrAlreadyClosed, s1)
                       else if newPrice \<le> 0 \<or> newQuantity \<le> 0 then (Inl ErrInvalidPrice, s1)
                       else if newQuantity < or_filled r then (Inl ErrInvalidQty, s1)
                       else if newPrice = or_price r \<and> newQuantity = or_quantity r then
                         (case commit_orders s0 s1 of
                            (True, s2) \<Rightarrow>
                              (Inr \<lparr>res_OrderID = am_OrderID inp, res_Status = or_status r,
                                    res_Trades = [], res_Filled = or_filled r,
                                    res_Remaining = or_quantity r - or_filled r\<rparr>, s2)
                          | (False, s2) \<Rightarrow> (Inl (ErrStep ''commit''), s2))
                       else (case src of
                               None \<Rightarrow> (Inl ErrAmendNoMatcher, s1)
                             | Some os \<Rightarrow> amend_body os now inp r p newPrice newQuantity s1)))))"

subsection \<open>Reading orders\<close>

record OrderRecord =
  oc_ID :: uuid
  oc_UserID :: uuid
  oc_PairID :: nat
  oc_Pair :: string
  oc_Base :: string
  oc_Quote :: string
  oc_Side :: string
  oc_Type :: string
  oc_Price :: decimal
  oc_Quantity :: decimal
  oc_FilledQuantity :: decimal
  oc_Status :: string
  oc_CreatedAt :: time
  oc_UpdatedAt :: time

definition record_of :: "string \<Rightarrow> order_row \<times> pair_row \<Rightarrow> OrderRecord" where
  "record_of pair rp =
     (case rp of (r, p) \<Rightarrow>
        \<lparr>oc_ID = or_id r, oc_UserID = or_user_id r, oc_PairID = or_pair_id r, oc_Pair = pair,
         oc_Base = tp_base p, oc_Quote = tp_quote p, oc_Side = or_side r, oc_Type = or_type r,
         oc_Price = or_price r, oc_Quantity = or_quantity r, oc_FilledQuantity = or_filled r,
         oc_Status = or_status r, oc_CreatedAt = or_created_at r, oc_UpdatedAt = or_updated_at r\<rparr>)"

definition OrderRecord_Remaining :: "OrderRecord \<Rightarrow> decimal" where
  "OrderRecord_Remaining x = oc_Quantity x - oc_FilledQuantity x"

definition getOrder ::
  "uuid \<Rightarrow> ('e, 'x) trading_db_scheme \<Rightarrow> (trading_error + OrderRecord) \<times> ('e, 'x) trading_db_scheme" where
  "getOrder oid s =
     (case query (find_joined oid) s of
        (Some (Some rp), s') \<Rightarrow> (Inr (record_of [] rp), s')
      | (_, s') \<Rightarrow> (Inl ErrOrderNotFound, s'))"

definition GetOrderForUser ::
  "uuid \<Rightarrow> uuid \<Rightarrow> ('e, 'x) trading_db_scheme
    \<Rightarrow> (trading_error + OrderRecord) \<times> ('e, 'x) trading_db_scheme" where
  "GetOrderForUser orderID userID s =
     (case getOrder orderID s of
        (Inl e, s') \<Rightarrow> (Inl e, s')
      | (Inr x, s') \<Rightarrow>
          if oc_UserID x \<noteq> userID then (Inl ErrOrderNotFound, s') else (Inr x, s'))"

text \<open>ORDER BY created_at DESC over the joined rows.\<close>

definition recent_orders ::
  "(order_row \<times> pair_row \<Rightarrow> bool) \<Rightarrow> ('e, 'x) trading_db_scheme \<Rightarrow> (order_row \<times> pair_row) list" where
  "recent_orders P s =
     sort_key (\<lambda>rp. - or_created_at (fst rp)) (filter P (List.map_filter (joined s) (orders s)))"

definition ListOrdersFiltered ::
  "uuid \<Rightarrow> string \<Rightarrow> string \<Rightarrow> int \<Rightarrow> ('e, 'x) trading_db_scheme
    \<Rightarrow> (trading_error + OrderRecord list) \<times> ('e, 'x) trading_db_scheme" where
  "ListOrdersFiltered userID pairFilter statusFilter limit s =
     (let n = (if limit \<le> 0 \<or> 100 < limit then 50 else nat limit) in
      case query (\<lambda>t. take n (recent_orders (\<lambda>(r, p). or_user_id r = userID \<and>
                    (pairFilter = [] \<or> tp_base p @ ''_'' @ tp_quote p = pairFilter) \<and>
                    (statusFilter = [] \<or> or_status r = statusFilter)) t)) s of
        (None, s') \<Rightarrow> (Inl (ErrStep ''list orders''), s')
      | (Some rows, s') \<Rightarrow>
          (Inr (map (\<lambda>rp. record_of (tp_base (snd rp) @ ''_'' @ tp_quote (snd rp)) rp) rows), s'))"

definition ListOrders ::
  "uuid \<Rightarrow> int \<Rightarrow> ('e, 'x) trading_db_scheme
    \<Rightarrow> (trading_error + OrderRecord list) \<times> ('e, 'x) trading_db_scheme" where
  "ListOrders userID limit s = ListOrdersFiltered userID [] [] limit s"

record order_stats =
  st_total :: nat
  st_open :: nat
  st_partial :: nat
  st_filled :: nat
  st_canceled :: nat

definition count_status :: "string \<Rightarrow> order_row list \<Rightarrow> nat" where
  "count_status st os = length (filter (\<lambda>r. or_status r = st) os)"

definition GetOrderStats ::
  "('e, 'x) trading_db_scheme \<Rightarrow> (trading_error + order_stats) \<times> ('e, 'x) trading_db_scheme" where
  "GetOrderStats s =
     (case query (\<lambda>t. \<lparr>st_total = length (orders t), st_open = count_status ''OPEN'' (orders t),
                       st_partial = count_status ''PARTIAL'' (orders t),
                       st_filled = count_status ''FILLED'' (orders t),
                       st_canceled = count_status ''CANCELED'' (orders t)\<rparr>) s of
        (None, s') \<Rightarrow> (Inl (ErrStep ''order stats''), s')
      | (Some st, s') \<Rightarrow> (Inr st, s'))"

definition ListAllOrders ::
  "int \<Rightarrow> ('e, 'x) trading_db_scheme \<Rightarrow> (trading_error + OrderRecord list) \<times> ('e, 'x) trading_db_scheme" where
  "ListAllOrders limit s =
     (case query (\<lambda>t. take (nat limit) (recent_orders (\<lambda>_. True) t)) s of
        (None, s') \<Rightarrow> (Inl (ErrStep ''list all orders''), s')
      | (Some rows, s') \<Rightarrow>
          if limit < 0 then (Inl (ErrStep ''LIMIT must not be negative''), s')
          else (Inr (map (\<lambda>rp. record_of [] rp\<lparr>oc_PairID := 0\<rparr>) rows), s'))"

subsection \<open>The invariant of the tables\<close>

definition order_ok :: "order_row \<Rightarrow> bool" where
  "order_ok r \<longleftrightarrow>
     0 \<le> or_filled r \<and> or_filled r \<le> or_quantity r \<and>
     scale18 (or_price r) \<and> scale18 (or_quantity r) \<and> scale18 (or_filled r) \<and>
     \<bar>or_price r\<bar> < 10 ^ 20 \<and> or_quantity r < 10 ^ 20 \<and>
     or_side r \<in> {''BUY'', ''SELL''} \<and> or_type r \<in> {''LIMIT'', ''MARKET''} \<and>
     or_status r \<in> {''OPEN'', ''PARTIAL'', ''FILLED'', ''CANCELLED''}"

definition wf_orders :: "('e, 'x) trading_db_scheme \<Rightarrow> bool" where
  "wf_orders s \<longleftrightarrow> (\<forall>r \<in> set (orders s). order_ok r) \<and> distinct (map or_id (orders s))"

definition wf_trading :: "('e, 'x) trading_db_scheme \<Rightarrow> bool" where
  "wf_trading s \<longleftrightarrow> wf_wallet s \<and> wf_orders s"

lemma order_store_ok: "order_store r = Some r' \<Longrightarrow> order_ok r'"
  by (auto simp: order_store_def order_ok_def Let_def dest!: numeric_38_18_SomeD
      split: option.splits if_splits)

lemma order_store_id: "order_store r = Some r' \<Longrightarrow> or_id r' = or_id r"
  by (auto simp: order_store_def Let_def split: option.splits if_splits)

lemma order_store_same:
  "order_ok r \<Longrightarrow> order_store r = Some r"
  by (auto simp: order_store_def order_ok_def)

lemma wf_trading_blind: "fault_blind wf_trading"
  by (simp add: fault_blind_def wf_trading_def wf_orders_def)

lemma wf_orders_cong: "orders s' = orders s \<Longrightarrow> wf_orders s' = wf_orders s"
  by (simp add: wf_orders_def)

lemma wf_trading_simps [simp]:
  "wf_trading (s\<lparr>faults := fs\<rparr>) = wf_trading s"
  "wf_trading (s\<lparr>engine := e\<rparr>) = wf_trading s"
  "wf_trading (s\<lparr>trades := ts\<rparr>) = wf_trading s"
  by (simp_all add: wf_trading_def wf_orders_def wf_wallet_def)

lemma wallet_trading_simps [simp]:
  "wallet_available (s\<lparr>orders := os\<rparr>) = wallet_available s"
  "wallet_frozen (s\<lparr>orders := os\<rparr>) = wallet_frozen s"
  "wallet_available (s\<lparr>engine := e\<rparr>) = wallet_available s"
  "wallet_frozen (s\<lparr>engine := e\<rparr>) = wallet_frozen s"
  "wallet_available (s\<lparr>trades := ts\<rparr>) = wallet_available s"
  "wallet_frozen (s\<lparr>trades := ts\<rparr>) = wallet_frozen s"
  by (simp_all add: wallet_available_def wallet_frozen_def fun_eq_iff)

lemma wf_trading_orders:
  "wf_trading s \<Longrightarrow> wf_orders (s\<lparr>orders := os\<rparr>) \<Longrightarrow> wf_trading (s\<lparr>orders := os\<rparr>)"
  by (simp add: wf_trading_def wf_wallet_def)

lemma insert_order_wf:
  "wf_trading s \<Longrightarrow> insert_order_stmt r s = Some (n, s') \<Longrightarrow> wf_trading s'"
  by (auto simp: insert_order_stmt_def wf_orders_def wf_trading_def
      dest!: tbl_insert_SomeD dest: order_store_ok
      intro!: wf_trading_orders split: option.splits)
     (auto simp: wf_wallet_def)

lemma update_orders_wf:
  assumes "wf_trading s" and "\<And>r. or_id (f r) = or_id r"
    and "update_orders_stmt P f s = Some (n, s')"
  shows "wf_trading s'"
proof -
  obtain os where upd: "tbl_update P (\<lambda>r. order_store (f r)) (orders s) = Some (n, os)"
    and s': "s' = s\<lparr>orders := os\<rparr>"
    using assms(3) by (auto simp: update_orders_stmt_def)
  have "\<forall>r \<in> set os. order_ok r"
    by (rule tbl_update_all [OF upd]) (use assms(1) order_store_ok in
        \<open>auto simp: wf_trading_def wf_orders_def\<close>)
  moreover have "map or_id os = map or_id (orders s)"
    by (rule tbl_update_keys [OF upd]) (simp add: order_store_id assms(2))
  ultimately show ?thesis
    using assms(1) by (simp add: s' wf_trading_def wf_orders_def wf_wallet_def)
qed

lemma insert_trade_wf: "wf_trading s \<Longrightarrow> insert_trade_stmt r s = Some (n, s') \<Longrightarrow> wf_trading s'"
  by (auto simp: insert_trade_stmt_def split: option.splits)

text \<open>The wallet's operations keep the orders, the engine and the invariant.\<close>

lemma only_balances_trading:
  assumes "only_balances s s'"
  shows "orders s' = orders s" and "trades s' = trades s" and "engine s' = engine s"
    and "trading_pairs s' = trading_pairs s"
proof -
  from assms obtain fs bs where "s' = s\<lparr>faults := fs, balances := bs\<rparr>"
    unfolding only_balances_def by blast
  then show "orders s' = orders s" and "trades s' = trades s" and "engine s' = engine s"
    and "trading_pairs s' = trading_pairs s" by simp_all
qed

lemma wallet_exec_trading: "wf_trading s \<Longrightarrow> wf_trading (snd (wallet_exec c s))"
  using wallet_exec_wf [of s c]
  by (cases "wallet_exec c s")
    (auto simp: wf_trading_def wf_orders_def dest!: wallet_exec_frame only_balances_trading(1))

lemma wallet_ops_trading [intro!]:
  "wf_trading s \<Longrightarrow> wf_trading (snd (Freeze u a x s))"
  "wf_trading s \<Longrightarrow> wf_trading (snd (Unfreeze u a x s))"
  using wallet_exec_trading [of s "CmdFreeze u a x"] wallet_exec_trading [of s "CmdUnfreeze u a x"]
  by simp_all

lemma query_wf_trading: "query f s = (q, s') \<Longrightarrow> wf_trading s' = wf_trading s"
  using query_keepsD wf_trading_blind by blast

lemma exec_insert_order_wf:
  "exec_stmt (insert_order_stmt r) s = (q, s') \<Longrightarrow> wf_trading s \<Longrightarrow> wf_trading s'"
  by (erule exec_stmt_keepsD [OF _ wf_trading_blind]) (auto intro: insert_order_wf)

lemma exec_insert_trade_wf:
  "exec_stmt (insert_trade_stmt r) s = (q, s') \<Longrightarrow> wf_trading s \<Longrightarrow> wf_trading s'"
  by (erule exec_stmt_keepsD [OF _ wf_trading_blind]) (auto intro: insert_trade_wf)

lemma exec_update_orders_wf:
  assumes "exec_stmt (\<lambda>t. update_orders_stmt (P t) f t) s = (q, s')" and "wf_trading s"
    and "\<And>r. or_id (f r) = or_id r"
  shows "wf_trading s'"
  by (rule exec_stmt_keepsD [OF assms(1) wf_trading_blind assms(2)])
    (auto intro: update_orders_wf [OF _ assms(3)])

lemmas exec_update_const_wf = exec_update_orders_wf [where P = "\<lambda>_. P" for P]

lemma call_engine_wf: "call_engine f s = (r, s') \<Longrightarrow> wf_trading s' = wf_trading s"
  by (auto simp: call_engine_def split: prod.splits)

lemma commit_orders_wf:
  "commit_orders s0 s = (ok, s') \<Longrightarrow> wf_trading s \<Longrightarrow> wf_orders s0 \<Longrightarrow> wf_trading s'"
proof -
  assume c: "commit_orders s0 s = (ok, s')" and s: "wf_trading s" and s0: "wf_orders s0"
  obtain fl s1 where f: "next_fault s = (fl, s1)" by (cases "next_fault s")
  then have "wf_trading s1"
    using next_fault_blind [OF wf_trading_blind, of s] s by simp
  then show "wf_trading s'"
    using c f s0
    by (auto simp: commit_orders_def rollback_orders_def wf_trading_def wf_orders_def wf_wallet_def
        split: fault.splits)
qed

lemma rollback_orders_wf: "wf_trading s \<Longrightarrow> wf_orders s0 \<Longrightarrow> wf_trading (rollback_orders s0 s)"
  by (simp add: rollback_orders_def wf_trading_def wf_orders_def wf_wallet_def)

lemma persistOrder_wf: "wf_trading s \<Longrightarrow> wf_trading (snd (persistOrder now x s))"
  by (auto simp: persistOrder_def split: prod.splits option.splits
      dest: query_wf_trading exec_insert_order_wf)

lemma updateOrderStatus_wf: "wf_trading s \<Longrightarrow> wf_trading (snd (updateOrderStatus now i st f s))"
  by (auto simp: updateOrderStatus_def split: prod.splits option.splits
      dest: exec_update_const_wf)

lemma persistTrade_wf: "wf_trading s \<Longrightarrow> wf_trading (snd (persistTrade tr s))"
  by (auto simp: persistTrade_def split: prod.splits option.splits
      dest: query_wf_trading exec_insert_trade_wf)

lemma settle_step_wf: "wf_trading s \<Longrightarrow> wf_trading (snd (settle_step leg s))"
  using wallet_exec_trading [of s "snd leg"]
  by (auto simp: settle_step_def split: prod.splits sum.splits)

lemma settleTrade_wf: "wf_trading s \<Longrightarrow> wf_trading (snd (settleTrade tr u s))"
  unfolding settleTrade_def by (rule run_cmds_invariant) (auto intro: settle_step_wf)

lemma update_maker_wf: "wf_trading s \<Longrightarrow> wf_trading (update_maker now i tr s)"
  by (auto simp: update_maker_def Let_def split: prod.splits intro!: updateOrderStatus_wf
      dest: query_wf_trading)

lemma process_trade_wf: "wf_trading s \<Longrightarrow> wf_trading (process_trade now u i tr s)"
  unfolding process_trade_def
  by (intro update_maker_wf persistTrade_wf settleTrade_wf)

lemma process_trades_wf: "wf_trading s \<Longrightarrow> wf_trading (process_trades now u i ts s)"
  unfolding process_trades_def by (induction ts arbitrary: s) (auto intro: process_trade_wf)

lemma finish_order_wf: "wf_trading s \<Longrightarrow> wf_trading (snd (finish_order now x ts s))"
  by (auto simp: finish_order_def Let_def
      intro!: updateOrderStatus_wf process_trades_wf persistOrder_wf)

lemma wf_trading_results:
  "Freeze u a x s = (r, s') \<Longrightarrow> wf_trading s \<Longrightarrow> wf_trading s'"
  "Unfreeze u a x s = (r, s') \<Longrightarrow> wf_trading s \<Longrightarrow> wf_trading s'"
  "finish_order now ord ts s = (po, s') \<Longrightarrow> wf_trading s \<Longrightarrow> wf_trading s'"
  using wallet_ops_trading [of s u a x] finish_order_wf [of s now ord ts] by auto

lemma PlaceOrder_wf: "wf_trading s \<Longrightarrow> wf_trading (snd (PlaceOrder pairs src oid now inp s))"
  by (auto simp: PlaceOrder_def Let_def split: sum.splits prod.splits option.splits
      dest: call_engine_wf wf_trading_results)

lemma cancel_attempts_wf: "wf_trading s \<Longrightarrow> wf_trading (snd (cancel_attempts n live f err s))"
  by (induction n arbitrary: err s) (auto split: prod.splits sum.splits dest: call_engine_wf)

lemma wf_tradingD: "wf_trading s \<Longrightarrow> wf_orders s" "wf_trading s \<Longrightarrow> wf_wallet s"
  by (simp_all add: wf_trading_def)

lemma cap_unfreeze_wf: "cap_unfreeze u a x s = (r, s') \<Longrightarrow> wf_trading s' = wf_trading s"
  by (auto simp: cap_unfreeze_def split: prod.splits option.splits if_splits dest: query_wf_trading)

lemma wallet_diff_wf: "wallet_diff u a d s = (r, s') \<Longrightarrow> wf_trading s \<Longrightarrow> wf_trading s'"
  by (auto simp: wallet_diff_def split: if_splits dest: wf_trading_results)

text \<open>One-way forms, for chaining over the statements of a transaction.\<close>

lemma wf_chain:
  "wf_trading s \<Longrightarrow> query f s = (q, s') \<Longrightarrow> wf_trading s'"
  "wf_trading s \<Longrightarrow> call_engine g s = (r, s') \<Longrightarrow> wf_trading s'"
  "wf_trading s \<Longrightarrow> cap_unfreeze u a x s = (d, s') \<Longrightarrow> wf_trading s'"
  "wf_trading s \<Longrightarrow> wallet_diff u a x s = (w, s') \<Longrightarrow> wf_trading s'"
  "wf_trading s \<Longrightarrow> wf_trading s0 \<Longrightarrow> commit_orders s0 s = (ok, s') \<Longrightarrow> wf_trading s'"
  "wf_trading s \<Longrightarrow> wf_trading s0 \<Longrightarrow> wf_trading (rollback_orders s0 s)"
  "wf_trading s \<Longrightarrow> exec_stmt (update_orders_stmt P
      (\<lambda>x. x\<lparr>or_status := st, or_updated_at := now\<rparr>)) s = (n, s') \<Longrightarrow> wf_trading s'"
  "wf_trading s \<Longrightarrow> exec_stmt (\<lambda>t. update_orders_stmt (Q t)
      (\<lambda>x. x\<lparr>or_status := st, or_updated_at := now\<rparr>) t) s = (n, s') \<Longrightarrow> wf_trading s'"
  "wf_trading s \<Longrightarrow> exec_stmt (update_orders_stmt P
      (\<lambda>x. x\<lparr>or_price := pr, or_quantity := qty, or_updated_at := now\<rparr>)) s = (n, s') \<Longrightarrow> wf_trading s'"
  by (auto dest: query_wf_trading call_engine_wf cap_unfreeze_wf wallet_diff_wf wf_tradingD
        commit_orders_wf rollback_orders_wf exec_update_const_wf exec_update_orders_wf)

lemma wallet_diff_chain: "wf_trading s \<Longrightarrow> wf_trading (snd (wallet_diff u a x s))"
  by (cases "wallet_diff u a x s") (simp add: wallet_diff_wf)

lemma call_engine_chain: "wf_trading s \<Longrightarrow> wf_trading (snd (call_engine g s))"
  by (cases "call_engine g s") (simp add: call_engine_wf)

lemma after_cancel_wf: "wf_trading s \<Longrightarrow> wf_trading (after_cancel live src i u p a x s)"
  using cancel_attempts_wf [of s]
  by (auto simp: after_cancel_def Let_def cancelWithRetry_def split: option.splits)

lemma cancel_body_wf:
  assumes "wf_trading s"
  shows "wf_trading (snd (cancel_body live src i u now r p s))"
proof -
  obtain asset amount where a: "unfreeze_of r p = (asset, amount)" by (cases "unfreeze_of r p")
  obtain d s1 where c: "cap_unfreeze u asset amount s = (d, s1)"
    by (cases "cap_unfreeze u asset amount s")
  let ?upd = "update_orders_stmt (\<lambda>x. or_id x = i)
    (\<lambda>x. x\<lparr>or_status := status_CANCELLED, or_updated_at := now\<rparr>)"
  obtain n s2 where e: "exec_stmt ?upd s1 = (n, s2)" by (cases "exec_stmt ?upd s1")
  obtain ok s3 where m: "commit_orders s s2 = (ok, s3)" by (cases "commit_orders s s2")
  have s1: "wf_trading s1" using wf_chain(3) [OF assms c] .
  have s2: "wf_trading s2" using wf_chain(7) [OF s1 e] .
  have s3: "wf_trading s3" using wf_chain(5) [OF s2 assms m] .
  show ?thesis
    using a c e m s1 s3 after_cancel_wf [OF s3] wf_chain(6) [OF s2 assms]
    by (auto simp: cancel_body_def split: option.splits bool.splits)
qed

lemma CancelOrder_wf: "wf_trading s \<Longrightarrow> wf_trading (snd (CancelOrder live src i u now s))"
  by (auto simp: CancelOrder_def split: prod.splits option.splits
      intro!: cancel_body_wf dest: query_wf_trading)

lemma fold_wf_trading:
  "(\<And>x t. wf_trading t \<Longrightarrow> wf_trading (f x t)) \<Longrightarrow> wf_trading s \<Longrightarrow> wf_trading (fold f xs s)"
  by (induction xs arbitrary: s) auto

lemma unfreeze_cancelled_wf: "wf_trading s \<Longrightarrow> wf_trading (unfreeze_cancelled u rp s)"
  by (auto simp: unfreeze_cancelled_def split: prod.splits)

lemma cancel_engine_wf:
  "wf_trading s \<Longrightarrow> wf_trading (fold (\<lambda>(r, p) t. snd (call_engine (g r p) t)) rps s)"
  by (rule fold_wf_trading) (auto intro: call_engine_chain)

lemma CancelAllOrders_wf:
  assumes "wf_trading s"
  shows "wf_trading (snd (CancelAllOrders os u pf now s))"
proof -
  obtain b s0 where q: "query (\<lambda>_. ()) s = (b, s0)" by (cases "query (\<lambda>_. ()) s")
  obtain sel s1 where l: "query (selected_orders u pf) s0 = (sel, s1)"
    by (cases "query (selected_orders u pf) s0")
  let ?upd = "\<lambda>t. update_orders_stmt (cancel_all_where u pf t)
    (\<lambda>x. x\<lparr>or_status := status_CANCELLED, or_updated_at := now\<rparr>) t"
  obtain n s2 where e: "exec_stmt ?upd s1 = (n, s2)" by (cases "exec_stmt ?upd s1")
  obtain ok s3 where m: "commit_orders s0 s2 = (ok, s3)" by (cases "commit_orders s0 s2")
  have s0: "wf_trading s0" using wf_chain(1) [OF assms q] .
  have s1: "wf_trading s1" using wf_chain(1) [OF s0 l] .
  have s2: "wf_trading s2" using wf_chain(8) [OF s1 e] .
  have s3: "wf_trading s3" using wf_chain(5) [OF s2 s0 m] .
  show ?thesis
    using q l e m s0 s1 s3 wf_chain(6) [OF s2 s0]
      fold_wf_trading [OF unfreeze_cancelled_wf cancel_engine_wf [OF s3]]
    by (auto simp: CancelAllOrders_def Let_def split: option.splits bool.splits)
qed

lemma amend_finish_wf: "wf_trading s \<Longrightarrow> amend_finish now inp res s = (r, s') \<Longrightarrow> wf_trading s'"
  by (auto simp: amend_finish_def Let_def intro!: updateOrderStatus_wf process_trades_wf)

lemma amend_body_wf:
  assumes "wf_trading s"
  shows "wf_trading (snd (amend_body os now inp r p np nq s))"
proof -
  let ?ask = "\<lambda>pr q. call_engine (src_AmendOrder os (tp_base p @ ''_'' @ tp_quote p)
                     (am_OrderID inp) (am_UserID inp) (or_side r) pr q)"
  obtain a1 s1 where a: "?ask np nq s = (a1, s1)" by (cases "?ask np nq s")
  obtain asset diff where d: "amend_diff r p np nq = (asset, diff)" by (cases "amend_diff r p np nq")
  obtain w s2 where w: "wallet_diff (am_UserID inp) asset diff s1 = (w, s2)"
    by (cases "wallet_diff (am_UserID inp) asset diff s1")
  let ?upd = "update_orders_stmt (\<lambda>x. or_id x = am_OrderID inp)
    (\<lambda>x. x\<lparr>or_price := np, or_quantity := nq, or_updated_at := now\<rparr>)"
  obtain n s3 where e: "exec_stmt ?upd s2 = (n, s3)" by (cases "exec_stmt ?upd s2")
  obtain ok s4 where m: "commit_orders s s3 = (ok, s4)" by (cases "commit_orders s s3")
  have s1: "wf_trading s1" using wf_chain(2) [OF assms a] .
  have s2: "wf_trading s2" using wf_chain(4) [OF s1 w] .
  have s3: "wf_trading s3" using wf_chain(9) [OF s2 e] .
  have s4: "wf_trading s4" using wf_chain(5) [OF s3 assms m] .
  have undo: "wf_trading (snd (?ask pr q
      (snd (wallet_diff (am_UserID inp) asset (- diff) (rollback_orders s s3)))))" for pr q
    by (intro call_engine_chain wallet_diff_chain wf_chain(6) s3 assms)
  have redo: "wf_trading (snd (?ask pr q s2))" for pr q
    by (intro call_engine_chain s2)
  show ?thesis
    unfolding amend_body_def Let_def a d prod.case
    using s1 s4 undo redo amend_finish_wf [OF s4] w e m
    by (auto split: sum.splits option.splits bool.splits prod.splits)
qed

lemma AmendOrder_wf:
  assumes "wf_trading s"
  shows "wf_trading (snd (AmendOrder src now inp s))"
proof -
  obtain b s0 where q: "query (\<lambda>_. ()) s = (b, s0)" by (cases "query (\<lambda>_. ()) s")
  obtain l s1 where l: "query (find_joined (am_OrderID inp)) s0 = (l, s1)"
    by (cases "query (find_joined (am_OrderID inp)) s0")
  obtain ok s2 where m: "commit_orders s0 s1 = (ok, s2)" by (cases "commit_orders s0 s1")
  have s0: "wf_trading s0" using wf_chain(1) [OF assms q] .
  have s1: "wf_trading s1" using wf_chain(1) [OF s0 l] .
  have s2: "wf_trading s2" using wf_chain(5) [OF s1 s0 m] .
  show ?thesis
    using q l m assms s0 s1 s2 amend_body_wf [OF s1]
    by (auto simp: AmendOrder_def split: option.splits bool.splits prod.splits)
qed

end
