(* ===== verification/Trading_Correct.thy ===== *)
theory Trading_Correct
  imports Trading
begin

text \<open>
  What the trading service guarantees: the invariant over all operations, settlement, placing,
  cancelling and amending, and what its readers may see.
\<close>

subsection \<open>The service as a sequence of operations\<close>

datatype trading_op =
    PlaceOp uuid time PlaceOrderInput
  | CancelOp bool uuid uuid time
  | CancelAllOp uuid string time
  | AmendOp time AmendOrderInput
  | WalletOp ledger_cmd

fun trading_step ::
  "(string \<Rightarrow> PairInfo option) \<Rightarrow> 'e OrderSource \<Rightarrow> trading_op
    \<Rightarrow> ('e, 'x) trading_db_scheme \<Rightarrow> ('e, 'x) trading_db_scheme" where
  "trading_step pairs os (PlaceOp oid now inp) s = snd (PlaceOrder pairs (Some os) oid now inp s)"
| "trading_step pairs os (CancelOp live oid u now) s = snd (CancelOrder live (Some os) oid u now s)"
| "trading_step pairs os (CancelAllOp u pf now) s = snd (CancelAllOrders os u pf now s)"
| "trading_step pairs os (AmendOp now inp) s = snd (AmendOrder (Some os) now inp s)"
| "trading_step pairs os (WalletOp c) s = snd (wallet_exec c s)"

lemma trading_step_wf: "wf_trading s \<Longrightarrow> wf_trading (trading_step pairs os op s)"
  by (cases op)
    (simp_all add: PlaceOrder_wf CancelOrder_wf CancelAllOrders_wf AmendOrder_wf wallet_exec_trading)


subsection \<open>A concrete exchange\<close>

definition demo_pairs :: "string \<Rightarrow> PairInfo option" where
  "demo_pairs =
     [''BTC_USDT'' \<mapsto> \<lparr>pi_Base = ''BTC'', pi_Quote = ''USDT'', pi_MinQty = 0, pi_MaxQty = 100,
                      pi_PricePrecision = 2, pi_QtyPrecision = 8\<rparr>]"

definition demo_order :: order_row where
  "demo_order =
     \<lparr>or_id = 60, or_user_id = 8, or_pair_id = 4, or_side = ''SELL'', or_type = ''LIMIT'',
      or_price = 20, or_quantity = 2, or_filled = 0, or_status = ''OPEN'', or_created_at = 10,
      or_updated_at = 10\<rparr>"

definition demo_trading :: "unit trading_db" where
  "demo_trading =
     \<lparr>faults = [],
      balances = [(7, ''USDT'') \<mapsto> \<lparr>available = 100, frozen = 20\<rparr>,
                  (8, ''USDT'') \<mapsto> \<lparr>available = 5, frozen = 7\<rparr>,
                  (8, ''BTC'') \<mapsto> \<lparr>available = 3, frozen = 2\<rparr>],
      currencies = [(''USDT'', True), (''BTC'', True)],
      trading_pairs = [\<lparr>tp_id = 4, tp_base = ''BTC'', tp_quote = ''USDT'', tp_min_qty = 0,
                        tp_max_qty = 100, tp_price_precision = 2, tp_qty_precision = 8,
                        tp_enabled = True\<rparr>],
      orders = [demo_order], trades = [], engine = ()\<rparr>"

lemma demo_trading_wf [simp]: "wf_trading demo_trading"
  by (auto intro!: wf_walletI
      simp: wf_trading_def wf_orders_def demo_trading_def demo_order_def order_ok_def split: if_splits)

lemma demo_trading_simps [simp]:
  "faults demo_trading = []"
  "wallet_available demo_trading 7 ''USDT'' = 100" "wallet_frozen demo_trading 7 ''USDT'' = 20"
  "wallet_available demo_trading 7 ''BTC'' = 0" "wallet_frozen demo_trading 7 ''BTC'' = 0"
  "wallet_available demo_trading 8 ''USDT'' = 5" "wallet_frozen demo_trading 8 ''USDT'' = 7"
  "wallet_available demo_trading 8 ''BTC'' = 3" "wallet_frozen demo_trading 8 ''BTC'' = 2"
  by (simp_all add: demo_trading_def wallet_available_def wallet_frozen_def)

abbreviation noop_source :: "unit OrderSource" where
  "noop_source \<equiv> NewOrderSourceAdapter (NewLocalEngine 0)"


subsection \<open>Settlement\<close>

lemma settle_step_result:
  "settle_step leg s = (Inr (), s') \<longleftrightarrow> wallet_exec (snd leg) s = (Inr (), s')"
  by (auto simp: settle_step_def split: prod.splits sum.splits)

lemma run_settle_ok:
  "run_cmds settle_step legs s = (Inr (), s') \<longleftrightarrow> run_cmds wallet_exec (map snd legs) s = (Inr (), s')"
proof (induction legs arbitrary: s)
  case Nil
  then show ?case by simp
next
  case (Cons leg legs)
  obtain r s1 where w: "wallet_exec (snd leg) s = (r, s1)" by (cases "wallet_exec (snd leg) s")
  then show ?case
    using Cons.IH [of s1] settle_step_result [of leg s s1]
    by (cases r) (auto simp: settle_step_def [of leg])
qed

lemma settle_legs_net: "net (map snd (settle_legs tr taker)) a = 0"
  by (simp add: settle_legs_def Let_def)

lemma settle_legs_amounts:
  "scale18 (tr_Quantity tr) \<Longrightarrow> scale18 (tr_Quantity tr * tr_Price tr) \<Longrightarrow>
     \<forall>c \<in> set (map snd (settle_legs tr taker)). scale18 (cmd_amount c)"
  by (simp add: settle_legs_def Let_def)

text \<open>C6: a trade that settles without error moves exactly its legs: on every row the available and
  the frozen column change by what the four legs name, and every asset's total over any set of
  users that contains both parties is unchanged.\<close>

theorem settleTrade_conserves:
  fixes s :: "'e trading_db"
  assumes "wf_trading s" and "scale18 (tr_Quantity tr)" and "scale18 (tr_Quantity tr * tr_Price tr)"
    and "settleTrade tr taker s = (Inr (), s')"
    and "finite U" and "{taker, tr_BuyUserID tr, tr_SellUserID tr} \<subseteq> U"
  shows "wallet_available s' u a =
           wallet_available s u a + net_avail (map snd (settle_legs tr taker)) u a \<and>
         wallet_frozen s' u a =
           wallet_frozen s u a + net_frozen (map snd (settle_legs tr taker)) u a \<and>
         held (wallet_cols s') U a = held (wallet_cols s) U a"
proof -
  let ?cs = "map snd (settle_legs tr taker)"
  have run: "run_cmds wallet_exec ?cs s = (Inr (), s')"
    using assms(4) by (simp add: settleTrade_def run_settle_ok)
  note w = wf_tradingD(2) [OF assms(1)] and am = settle_legs_amounts [OF assms(2,3), of taker]
  have users: "cmd_user ` set ?cs \<subseteq> U"
    using assms(6) by (auto simp: settle_legs_def Let_def)
  show ?thesis
    using wl.run_ok [OF w am run, of u a] wl.run_ok_held [OF w am run assms(5) users, of a]
      settle_legs_net by simp
qed

definition demo_trade :: Trade where
  "demo_trade =
     \<lparr>tr_ID = 90, tr_Pair = ''BTC_USDT'', tr_BuyOrderID = 61, tr_SellOrderID = 60,
      tr_BuyUserID = 7, tr_SellUserID = 8, tr_Base = ''BTC'', tr_Quote = ''USDT'', tr_BaseAmt = 1,
      tr_QuoteAmt = 20, tr_Price = 20, tr_Quantity = 1, tr_TakerSide = ''BUY'',
      tr_Timestamp = None, tr_ExecutedAt = ''2026-01-01T00:00:00Z''\<rparr>"

lemmas wallet_eval =
  Credit_def repo_Credit_def credit_row_def Freeze_def repo_Freeze_def Unfreeze_def repo_Unfreeze_def
  DebitFrozen_def repo_DebitFrozen_def guarded_update_def update_balance_def store_balance_def
  wrap_err_def

theorem settleTrade_conserves_witness:
  "(let s' = snd (settleTrade demo_trade 7 demo_trading) in
    wallet_frozen s' 7 ''USDT'' = 0 \<and> wallet_available s' 7 ''BTC'' = 1 \<and>
    wallet_available s' 8 ''USDT'' = 25 \<and> wallet_frozen s' 8 ''BTC'' = 1)"
proof -
  have "fst (settleTrade demo_trade 7 demo_trading) = Inr ()"
    by (simp add: settleTrade_def settle_legs_def demo_trade_def SideBuy_def settle_step_def
        wallet_eval demo_trading_def Let_def)
  then obtain s' where run: "settleTrade demo_trade 7 demo_trading = (Inr (), s')"
    by (cases "settleTrade demo_trade 7 demo_trading") auto
  have "scale18 (tr_Quantity demo_trade)" "scale18 (tr_Quantity demo_trade * tr_Price demo_trade)"
    by (simp_all add: demo_trade_def)
  note moves = settleTrade_conserves [OF demo_trading_wf this run, of "{7, 8}"]
  have "{7, tr_BuyUserID demo_trade, tr_SellUserID demo_trade} \<subseteq> {7, 8}"
    by (simp add: demo_trade_def)
  with moves [of 7 "''USDT''"] moves [of 7 "''BTC''"] moves [of 8 "''USDT''"] moves [of 8 "''BTC''"] run
  show ?thesis
    by (simp add: settle_legs_def demo_trade_def SideBuy_def Let_def)
qed



subsection \<open>Placing orders\<close>

lemma Freeze_cases_acked:
  assumes "faults s = []" and "Freeze u a x s = (r, s')"
  shows "faults s' = [] \<and> ((\<exists>e. r = Inl e) \<and> s' = s \<or> r = Inr () \<and> 0 < x)"
  using assms Freeze_outcome [OF assms(1), of u a x]
  by (auto simp: freeze_spec_def split: sum.splits option.splits if_splits)

text \<open>Freezing an amount and unfreezing it again restores both columns.\<close>

lemma freeze_unfreeze:
  fixes s :: "('e, 'x) trading_db_scheme"
  assumes "wf_wallet s" and "faults s = []" and "scale18 x" and "Freeze u a x s = (Inr (), s1)"
    and "s2 = s1\<lparr>engine := e\<rparr>"
  shows "\<exists>s3. Unfreeze u a x s2 = (Inr (), s3) \<and> wallet_cols s3 = wallet_cols s \<and>
    only_balances s2 s3"
proof -
  have run1: "wallet_exec (CmdFreeze u a x) s = (Inr (), s1)" using assms(4) by simp
  have ap1: "applies (CmdFreeze u a x) (wallet_cols s) (wallet_cols s1)" and x: "0 < x"
    using wl.exec_okD [OF assms(1) _ run1] assms(3) by simp_all
  have c2: "wallet_cols s2 = wallet_cols s1"
    by (simp add: assms(5) wallet_cols_def wallet_available_def wallet_frozen_def fun_eq_iff)
  have w2: "wf_wallet s2"
    using wallet_exec_wf [OF assms(1), of "CmdFreeze u a x"] run1
    by (simp add: assms(5) wf_wallet_def)
  have f2: "faults s2 = []"
    using Freeze_cases_acked [OF assms(2,4)] by (simp add: assms(5))
  have cols: "wallet_available s2 u a = wallet_available s u a - x"
    "wallet_frozen s2 u a = wallet_frozen s u a + x"
    using ap1 c2 by (auto simp: applies_def wallet_cols_def)
  obtain s3 where run2: "wallet_exec (CmdUnfreeze u a x) s2 = (Inr (), s3)"
    using wallet_exec_succeeds [OF w2 f2, of "CmdUnfreeze u a x"] assms(3) x cols
      wallet_columns_nonneg [OF assms(1)] wallet_columns_bound [OF assms(1)]
    by simp
  have "applies (CmdUnfreeze u a x) (wallet_cols s2) (wallet_cols s3)"
    using wl.exec_okD [OF w2 _ run2] assms(3) by simp
  with ap1 c2 have "wallet_cols s3 = wallet_cols s"
    by (auto simp: applies_def fun_eq_iff prod_eq_iff)
  then show ?thesis
    using run2 wallet_exec_frame [OF run2] by auto
qed

text \<open>C9: an order that is not accepted costs nothing: when PlaceOrder reports any error and the
  database answers, every balance is what it was and no order or trade has been written.\<close>

theorem PlaceOrder_error_restores:
  fixes s :: "'e trading_db"
  assumes "wf_trading s" and "faults s = []"
    and "\<And>pairInfo side ty. validate_order pairs inp = Inr (pairInfo, side, ty) \<Longrightarrow>
           scale18 (snd (freeze_of pairInfo side ty (in_Price inp) (in_Quantity inp)))"
    and "PlaceOrder pairs src oid now inp s = (Inl err, s')"
  shows "wallet_cols s' = wallet_cols s \<and> orders s' = orders s \<and> trades s' = trades s"
proof (cases "validate_order pairs inp")
  case (Inl e)
  then show ?thesis using assms(4) by (simp add: PlaceOrder_def)
next
  case (Inr v)
  obtain pairInfo side ty where v: "v = (pairInfo, side, ty)" by (cases v)
  obtain asset x where fz: "freeze_of pairInfo side ty (in_Price inp) (in_Quantity inp) = (asset, x)"
    by (cases "freeze_of pairInfo side ty (in_Price inp) (in_Quantity inp)")
  have x: "scale18 x" using assms(3) [of pairInfo side ty] Inr v fz by simp
  obtain r s1 where f: "Freeze (in_UserID inp) asset x s = (r, s1)"
    by (cases "Freeze (in_UserID inp) asset x s")
  show ?thesis
  proof (cases r)
    case (Inl e)
    then show ?thesis
      using assms(4) Inr v fz f Freeze_cases_acked [OF assms(2) f] by (simp add: PlaceOrder_def)
  next
    case (Inr u)
    obtain os where os: "src = Some os"
      using assms(4) \<open>validate_order pairs inp = Inr v\<close> v fz f Inr
      by (cases src) (auto simp: PlaceOrder_def Let_def split: prod.splits)
    let ?req = "place_request (new_order now oid pairInfo side ty inp)"
    obtain q e where eng: "src_PlaceOrder os ?req (engine s1) = (q, e)"
      by (cases "src_PlaceOrder os ?req (engine s1)")
    have ret: "s' = snd (Unfreeze (in_UserID inp) asset x (s1\<lparr>engine := e\<rparr>))"
      using assms(4) \<open>validate_order pairs inp = Inr v\<close> v fz f Inr os eng
      by (cases q) (auto simp: PlaceOrder_def Let_def call_engine_def split: prod.splits)
    have f': "Freeze (in_UserID inp) asset x s = (Inr (), s1)" using f Inr by simp
    obtain s3 where s3: "Unfreeze (in_UserID inp) asset x (s1\<lparr>engine := e\<rparr>) = (Inr (), s3)"
      "wallet_cols s3 = wallet_cols s" "only_balances (s1\<lparr>engine := e\<rparr>) s3"
      using freeze_unfreeze [OF wf_tradingD(2) [OF assms(1)] assms(2) x f' refl, of e] by blast
    have "only_balances s s1"
      using wallet_exec_frame [of "CmdFreeze (in_UserID inp) asset x" s] f' by simp
    then show ?thesis
      using ret s3 only_balances_trading [OF s3(3)] only_balances_trading [of s s1] by simp
  qed
qed

definition refusing_source :: "unit OrderSource" where
  "refusing_source =
     \<lparr>src_PlaceOrder = (\<lambda>req e. (Inl ''book closed'', e)),
      src_CancelOrder = (\<lambda>pair oid u e. (Inl ''book closed'', e)),
      src_AmendOrder = (\<lambda>pair oid u side pr q e. (Inl ''book closed'', e))\<rparr>"

definition demo_input :: PlaceOrderInput where
  "demo_input =
     \<lparr>in_UserID = 7, in_Pair = ''btc_usdt'', in_Side = ''buy'', in_Type = [], in_Price = 20,
      in_Quantity = 3, in_STPMode = []\<rparr>"

lemma demo_upper: "ToUpper ''btc_usdt'' = ''BTC_USDT''" "ToUpper ''buy'' = ''BUY''"
  by code_simp+

lemma demo_validate:
  "validate_order demo_pairs demo_input =
     Inr (the (demo_pairs ''BTC_USDT''), ''BUY'', ''LIMIT'')"
  by (simp add: validate_order_def demo_input_def demo_upper Let_def demo_pairs_def
      SideBuy_def SideSell_def TypeLimit_def TypeMarket_def)

theorem PlaceOrder_error_restores_witness:
  "fst (PlaceOrder demo_pairs (Some refusing_source) 61 30 demo_input demo_trading)
     = Inl (ErrMatch ''book closed'') \<and>
   wallet_cols (snd (PlaceOrder demo_pairs (Some refusing_source) 61 30 demo_input demo_trading))
     = wallet_cols demo_trading"
proof -
  have err: "fst (PlaceOrder demo_pairs (Some refusing_source) 61 30 demo_input demo_trading)
     = Inl (ErrMatch ''book closed'')"
    unfolding PlaceOrder_def demo_validate
    by (simp add: freeze_of_def demo_pairs_def demo_input_def TypeMarket_def SideSell_def
        wallet_eval demo_trading_def refusing_source_def call_engine_def Let_def)
  then obtain s' where run:
    "PlaceOrder demo_pairs (Some refusing_source) 61 30 demo_input demo_trading
       = (Inl (ErrMatch ''book closed''), s')"
    by (cases "PlaceOrder demo_pairs (Some refusing_source) 61 30 demo_input demo_trading") simp
  have "wallet_cols s' = wallet_cols demo_trading \<and> orders s' = orders demo_trading \<and>
      trades s' = trades demo_trading"
    by (rule PlaceOrder_error_restores [OF demo_trading_wf _ _ run])
      (auto simp: demo_validate freeze_of_def demo_input_def)
  with err run show ?thesis by simp
qed

lemma update_missing_order:
  "faults s = [] \<Longrightarrow> oid \<notin> or_id ` set (orders s) \<Longrightarrow> snd (updateOrderStatus now oid st f s) = s"
proof -
  assume "faults s = []" and "oid \<notin> or_id ` set (orders s)"
  moreover from this(2) have "tbl_update (\<lambda>r. or_id r = oid) g (orders s) = Some (0, orders s)" for g
    by (intro tbl_update_none) auto
  ultimately show ?thesis
    by (simp add: updateOrderStatus_def update_orders_stmt_def)
qed

lemma stub_order_refused:
  fixes s :: "('e, 'x) trading_db_scheme"
  assumes "faults s = []" and "validate_order pairs inp = Inr (pairInfo, side, ty)"
    and "freeze_of pairInfo side ty (in_Price inp) (in_Quantity inp) = (asset, x)"
    and "Freeze (in_UserID inp) asset x s = (Inr (), s1)" and "oid \<notin> or_id ` set (orders s)"
  shows "PlaceOrder pairs (Some (NewOrderSourceAdapter (NewLocalEngine t))) oid now inp s =
      (Inr \<lparr>res_OrderID = oid, res_Status = ''REJECTED'', res_Trades = [], res_Filled = 0,
            res_Remaining = in_Quantity inp\<rparr>, s1) \<and> orders s1 = orders s"
proof -
  have f1: "faults s1 = []" using Freeze_cases_acked [OF assms(1,4)] by simp
  have fr: "only_balances s s1"
    using wallet_exec_frame [of "CmdFreeze (in_UserID inp) asset x" s] assms(4) by simp
  note os = only_balances_trading(1) [OF fr]
  have eng: "s1\<lparr>engine := engine s1\<rparr> = s1" by simp
  let ?x = "new_order now oid pairInfo side ty inp\<lparr>ord_Status := StatusRejected, ord_FilledQty := 0\<rparr>"
  have "snd (persistOrder now ?x s1) = s1"
    using f1
    by (auto simp: persistOrder_def insert_order_stmt_def order_store_def StatusRejected_def Let_def
        split: option.splits prod.splits)
  moreover have "snd (updateOrderStatus now oid StatusRejected 0 s1) = s1"
    using update_missing_order [OF f1, of oid] assms(5) os by simp
  ultimately have "finish_order now ?x [] s1 =
      (\<lparr>res_OrderID = oid, res_Status = ''REJECTED'', res_Trades = [], res_Filled = 0,
        res_Remaining = in_Quantity inp\<rparr>, s1)"
    by (simp add: finish_order_def process_trades_def new_order_def StatusRejected_def Let_def)
  then show ?thesis
    using assms(2,3,4) os
    by (simp add: PlaceOrder_def NewOrderSourceAdapter_def NewLocalEngine_def noop_PlaceOrder_def
        call_engine_def eng Let_def)
qed

text \<open>With the client that is used when no matching engine is built in, an order that passes
  validation is answered with success and status REJECTED, no row is written for it, and the
  amount frozen for it stays frozen: no later request can name the order to release it.\<close>

theorem rejected_order_keeps_funds:
  fixes s :: "'e trading_db"
  assumes "faults s = []" and "validate_order pairs inp = Inr (pairInfo, side, ty)"
    and "freeze_of pairInfo side ty (in_Price inp) (in_Quantity inp) = (asset, x)"
    and "Freeze (in_UserID inp) asset x s = (Inr (), s1)" and "oid \<notin> or_id ` set (orders s)"
  shows "PlaceOrder pairs (Some (NewOrderSourceAdapter (NewLocalEngine t))) oid now inp s =
      (Inr \<lparr>res_OrderID = oid, res_Status = ''REJECTED'', res_Trades = [], res_Filled = 0,
            res_Remaining = in_Quantity inp\<rparr>, s1) \<and> orders s1 = orders s"
  by (rule stub_order_refused [OF assms])

theorem rejected_order_keeps_funds_witness:
  "(let (r, s') = PlaceOrder demo_pairs (Some noop_source) 61 30 demo_input demo_trading in
    (\<exists>placed. r = Inr placed \<and> res_Status placed = ''REJECTED'') \<and>
    orders s' = orders demo_trading \<and>
    wallet_available s' 7 ''USDT'' = 40 \<and> wallet_frozen s' 7 ''USDT'' = 80)"
proof -
  have fz: "freeze_of (the (demo_pairs ''BTC_USDT'')) ''BUY'' ''LIMIT'' (in_Price demo_input)
      (in_Quantity demo_input) = (''USDT'', 60)"
    by (simp add: freeze_of_def demo_pairs_def demo_input_def TypeMarket_def SideSell_def)
  have fr: "Freeze (in_UserID demo_input) ''USDT'' 60 demo_trading =
      (Inr (), demo_trading\<lparr>balances := (balances demo_trading)((7, ''USDT'') \<mapsto>
                              \<lparr>available = 40, frozen = 80\<rparr>)\<rparr>)"
    by (simp add: demo_input_def wallet_eval demo_trading_def)
  have "61 \<notin> or_id ` set (orders demo_trading)" by (simp add: demo_trading_def demo_order_def)
  from rejected_order_keeps_funds [OF demo_trading_simps(1) demo_validate fz fr this, of 0 30]
  show ?thesis by (simp add: wallet_available_def wallet_frozen_def)
qed

text \<open>The row PlaceOrder writes for an order.\<close>

definition placed_row :: "time \<Rightarrow> uuid \<Rightarrow> nat \<Rightarrow> string \<Rightarrow> string \<Rightarrow> PlaceOrderInput \<Rightarrow> order_row" where
  "placed_row now oid pid side ty inp =
     \<lparr>or_id = oid, or_user_id = in_UserID inp, or_pair_id = pid, or_side = side, or_type = ty,
      or_price = in_Price inp, or_quantity = in_Quantity inp, or_filled = 0, or_status = ''OPEN'',
      or_created_at = now, or_updated_at = now\<rparr>"

lemma tbl_update_absent:
  "k \<notin> key ` set rs \<Longrightarrow> tbl_update (\<lambda>r. key r = k) f (rs @ [x]) =
     (if key x = k then map_option (\<lambda>x'. (1, rs @ [x'])) (f x) else Some (0, rs @ [x]))"
  by (induction rs) (auto split: option.splits)

text \<open>C8: an accepted limit order that rests in the book is recorded as it was asked for, and what
  it freezes is what its row says is still to be filled: quantity times price of the quote asset
  for a buy, the quantity of the base asset for a sell. That is the amount a cancel gives back.\<close>

theorem PlaceOrder_resting:
  fixes s :: "'e trading_db"
  assumes "wf_trading s" and "faults s = []"
    and v: "validate_order pairs inp = Inr (pairInfo, side, TypeLimit)"
    and fz: "freeze_of pairInfo side TypeLimit (in_Price inp) (in_Quantity inp) = (asset, x)"
    and "scale18 x" and ok: "Freeze (in_UserID inp) asset x s = (Inr (), s1)"
    and eng: "src_PlaceOrder os (place_request (new_order now oid pairInfo side TypeLimit inp)) (engine s)
          = (Inr res, e)"
    and res: "rs_Status res = StatusOpen" "rs_Trades res = []" "rs_Filled res = 0"
    and pr: "tbl_find tp_id pid (trading_pairs s) = Some p" "tp_base p = pi_Base pairInfo"
      "tp_quote p = pi_Quote pairInfo" "pair_id_of (pi_Base pairInfo) (pi_Quote pairInfo) s = Some pid"
    and fresh: "oid \<notin> or_id ` set (orders s)"
    and row: "scale18 (in_Price inp)" "scale18 (in_Quantity inp)" "in_Price inp < 10 ^ 20"
      "in_Quantity inp < 10 ^ 20"
  shows "\<exists>s'. PlaceOrder pairs (Some os) oid now inp s =
      (Inr \<lparr>res_OrderID = oid, res_Status = ''OPEN'', res_Trades = [], res_Filled = 0,
            res_Remaining = in_Quantity inp\<rparr>, s') \<and>
    orders s' = orders s @ [placed_row now oid pid side TypeLimit inp] \<and>
    unfreeze_of (placed_row now oid pid side TypeLimit inp) p = (asset, x) \<and>
    applies (CmdFreeze (in_UserID inp) asset x) (wallet_cols s) (wallet_cols s')"
proof -
  have f1: "faults s1 = []" using Freeze_cases_acked [OF assms(2) ok] by simp
  have run: "wallet_exec (CmdFreeze (in_UserID inp) asset x) s = (Inr (), s1)" using ok by simp
  have ap: "applies (CmdFreeze (in_UserID inp) asset x) (wallet_cols s) (wallet_cols s1)"
    using wl.exec_okD [OF wf_tradingD(2) [OF assms(1)] _ run] assms(5) by simp
  note same = only_balances_trading [OF wallet_exec_frame [OF run]]
  have sd: "side = ''BUY'' \<or> side = ''SELL''" and pos: "0 < in_Price inp" "0 < in_Quantity inp"
    using v by (auto simp: validate_order_def SideBuy_def SideSell_def TypeLimit_def TypeMarket_def
        Let_def not_le split: option.splits if_splits)
  let ?row = "placed_row now oid pid side TypeLimit inp"
  let ?x = "new_order now oid pairInfo side TypeLimit inp\<lparr>ord_Status := StatusOpen, ord_FilledQty := 0\<rparr>"
  define s2 where "s2 = s1\<lparr>engine := e\<rparr>"
  define s3 where "s3 = s2\<lparr>orders := orders s @ [?row]\<rparr>"
  have st: "order_store ?row = Some ?row"
    using row pos sd by (simp add: order_store_def placed_row_def TypeLimit_def Let_def)
  have f2: "faults s2 = []" and o2: "orders s2 = orders s"
    using f1 same by (simp_all add: s2_def)
  have p2: "pair_id_of (pi_Base pairInfo) (pi_Quote pairInfo) s2 = Some pid"
    using pr(4) same by (simp add: pair_id_of_def s2_def)
  have "insert_order_stmt ?row s2 = Some (1, s3)"
    using st fresh o2 by (simp add: insert_order_stmt_def tbl_insert_def s3_def) (simp add: placed_row_def)
  then have "persistOrder now ?x s2 = (Inr (), s3)"
    using f2 p2
    by (simp add: persistOrder_def new_order_def) (simp add: placed_row_def StatusOpen_def)
  moreover have "updateOrderStatus now oid StatusOpen 0 s3 = (Inr (), s3)"
  proof -
    have "?row\<lparr>or_status := StatusOpen, or_filled := 0, or_updated_at := now\<rparr> = ?row"
      by (simp add: placed_row_def StatusOpen_def)
    then show ?thesis
      using f1 st fresh
      by (simp add: updateOrderStatus_def update_orders_stmt_def tbl_update_absent s3_def s2_def)
        (simp add: placed_row_def)
  qed
  ultimately have "finish_order now ?x [] s2 =
      (\<lparr>res_OrderID = oid, res_Status = ''OPEN'', res_Trades = [], res_Filled = 0,
        res_Remaining = in_Quantity inp\<rparr>, s3)"
    by (simp add: finish_order_def process_trades_def new_order_def StatusOpen_def Let_def)
  then have "PlaceOrder pairs (Some os) oid now inp s =
      (Inr \<lparr>res_OrderID = oid, res_Status = ''OPEN'', res_Trades = [], res_Filled = 0,
            res_Remaining = in_Quantity inp\<rparr>, s3)"
    using v fz ok eng res same(3)
    by (simp add: PlaceOrder_def call_engine_def s2_def Let_def)
  moreover have "unfreeze_of ?row p = (asset, x)"
    using fz pr sd by (auto simp: unfreeze_of_def freeze_of_def placed_row_def Let_def TypeLimit_def
        TypeMarket_def SideSell_def)
  moreover have "wallet_cols s3 = wallet_cols s1"
    by (simp add: s3_def s2_def wallet_cols_def wallet_available_def wallet_frozen_def fun_eq_iff)
  ultimately show ?thesis using ap by (auto simp: s3_def)
qed

definition resting_source :: "unit OrderSource" where
  "resting_source =
     \<lparr>src_PlaceOrder = (\<lambda>req e. (Inr \<lparr>rs_OrderID = rq_OrderID req, rs_Status = ''OPEN'', rs_Filled = 0,
        rs_Remaining = rq_Quantity req, rs_Trades = [], rs_RejectReason = []\<rparr>, e)),
      src_CancelOrder = (\<lambda>pair oid u e. (Inr (), e)),
      src_AmendOrder = (\<lambda>pair oid u side pr q e. (Inl ''order not in book'', e))\<rparr>"

theorem PlaceOrder_resting_witness:
  "(let s' = snd (PlaceOrder demo_pairs (Some resting_source) 61 30 demo_input demo_trading) in
    orders s' = [demo_order, placed_row 30 61 4 ''BUY'' ''LIMIT'' demo_input] \<and>
    wallet_frozen s' 7 ''USDT'' = 80)"
proof -
  let ?pi = "the (demo_pairs ''BTC_USDT'')"
  have v: "validate_order demo_pairs demo_input = Inr (?pi, ''BUY'', TypeLimit)"
    using demo_validate by (simp add: TypeLimit_def)
  have fz: "freeze_of ?pi ''BUY'' TypeLimit (in_Price demo_input) (in_Quantity demo_input)
      = (''USDT'', 60)"
    by (simp add: freeze_of_def demo_pairs_def demo_input_def TypeLimit_def TypeMarket_def SideSell_def)
  have fr: "Freeze (in_UserID demo_input) ''USDT'' 60 demo_trading =
      (Inr (), demo_trading\<lparr>balances := (balances demo_trading)((7, ''USDT'') \<mapsto>
                              \<lparr>available = 40, frozen = 80\<rparr>)\<rparr>)"
    by (simp add: demo_input_def wallet_eval demo_trading_def)
  have eng: "src_PlaceOrder resting_source (place_request (new_order 30 61 ?pi ''BUY'' TypeLimit demo_input))
      (engine demo_trading) = (Inr \<lparr>rs_OrderID = 61, rs_Status = StatusOpen, rs_Filled = 0,
        rs_Remaining = 3, rs_Trades = [], rs_RejectReason = []\<rparr>, ())"
    by (simp add: resting_source_def place_request_def new_order_def demo_input_def demo_trading_def
        StatusOpen_def)
  have "\<exists>s'. PlaceOrder demo_pairs (Some resting_source) 61 30 demo_input demo_trading =
      (Inr \<lparr>res_OrderID = 61, res_Status = ''OPEN'', res_Trades = [], res_Filled = 0,
            res_Remaining = in_Quantity demo_input\<rparr>, s') \<and>
    orders s' = orders demo_trading @ [placed_row 30 61 4 ''BUY'' TypeLimit demo_input] \<and>
    unfreeze_of (placed_row 30 61 4 ''BUY'' TypeLimit demo_input) (hd (trading_pairs demo_trading)) = (''USDT'', 60) \<and>
    applies (CmdFreeze (in_UserID demo_input) ''USDT'' 60) (wallet_cols demo_trading) (wallet_cols s')"
    by (rule PlaceOrder_resting [OF demo_trading_wf demo_trading_simps(1) v fz _ fr eng])
      (simp_all add: demo_trading_def demo_order_def tbl_find_def pair_id_of_def demo_pairs_def
        demo_input_def)
  then show ?thesis
    by (auto simp: applies_def wallet_cols_def demo_input_def TypeLimit_def demo_trading_def)
      (simp add: wallet_frozen_def)
qed

subsection \<open>Cancelling\<close>

lemma find_joined_SomeD:
  "find_joined oid s = Some (r, p) \<Longrightarrow>
     tbl_find or_id oid (orders s) = Some r \<and> pair_of_id (or_pair_id r) s = Some p"
  by (auto simp: find_joined_def joined_def bind_eq_Some_conv)

lemma wf_orders_find:
  "wf_orders s \<Longrightarrow> tbl_find or_id oid (orders s) = Some r \<Longrightarrow> order_ok r \<and> or_id r = oid"
  by (auto simp: wf_orders_def dest: tbl_find_SomeD)

lemma unfreeze_of_nonneg:
  "order_ok r \<Longrightarrow> 0 \<le> or_price r \<Longrightarrow> 0 \<le> snd (unfreeze_of r p)"
  by (auto simp: unfreeze_of_def order_ok_def Let_def)

text \<open>Telling the engine changes the engine's state and nothing else.\<close>

definition only_engine :: "('e, 'x) trading_db_scheme \<Rightarrow> ('e, 'x) trading_db_scheme \<Rightarrow> bool" where
  "only_engine s s' \<longleftrightarrow> (\<exists>e. s' = s\<lparr>engine := e\<rparr>)"

lemma call_engine_only: "call_engine f s = (r, s') \<Longrightarrow> only_engine s s'"
  by (auto simp: call_engine_def only_engine_def split: prod.splits)

lemma only_engine_refl: "only_engine s s"
  unfolding only_engine_def by (rule exI [of _ "engine s"]) simp

lemma only_engine_trans: "only_engine s t \<Longrightarrow> only_engine t u \<Longrightarrow> only_engine s u"
  unfolding only_engine_def by auto

lemma only_engineD:
  assumes "only_engine s s'"
  shows "faults s' = faults s" and "orders s' = orders s" and "trades s' = trades s"
    and "wallet_cols s' = wallet_cols s" and "wf_trading s' = wf_trading s"
    and "trading_pairs s' = trading_pairs s"
  using assms
  by (auto simp: only_engine_def wallet_cols_def wallet_available_def wallet_frozen_def fun_eq_iff)

lemma cancel_attempts_only: "only_engine s (snd (cancel_attempts n live f err s))"
proof (induction n arbitrary: err s)
  case 0
  then show ?case by (simp add: only_engine_refl)
next
  case (Suc n)
  obtain r s1 where c: "call_engine f s = (r, s1)" by (cases "call_engine f s")
  note e = call_engine_only [OF c]
  show ?case
    using c e only_engine_trans [OF e Suc.IH] by (cases r) auto
qed

lemma cap_unfreeze_acked:
  assumes "faults s = []" and "0 \<le> x" and "wf_wallet s"
  shows "\<exists>y. cap_unfreeze u a x s = (Some y, s) \<and> 0 \<le> y \<and>
    (if balances s (u, a) = None then y = x else y = min x (wallet_frozen s u a))"
  using assms wallet_columns_nonneg(2) [OF assms(3), of u a]
  by (cases "balances s (u, a)") (auto simp: cap_unfreeze_def wallet_frozen_def)

lemma status_update_acked:
  fixes s :: "('e, 'x) trading_db_scheme"
  assumes "wf_orders s" and "faults s = []" and "tbl_find or_id oid (orders s) = Some r"
    and "st \<in> {''OPEN'', ''PARTIAL'', ''FILLED'', ''CANCELLED''}"
  shows "\<exists>n os. exec_stmt (update_orders_stmt (\<lambda>x. or_id x = oid)
            (\<lambda>x. x\<lparr>or_status := st, or_updated_at := now\<rparr>)) s = (Some n, s\<lparr>orders := os\<rparr>) \<and>
    tbl_find or_id oid os = Some (r\<lparr>or_status := st, or_updated_at := now\<rparr>) \<and>
    (\<forall>j. j \<noteq> oid \<longrightarrow> tbl_find or_id j os = tbl_find or_id j (orders s))"
proof -
  let ?f = "\<lambda>x. order_store (x\<lparr>or_status := st, or_updated_at := now\<rparr>)"
  have st: "?f x = Some (x\<lparr>or_status := st, or_updated_at := now\<rparr>)" if "order_ok x" for x
    by (rule order_store_same) (use that assms(4) in \<open>simp add: order_ok_def\<close>)
  then have upd: "tbl_update (\<lambda>x. or_id x = oid) ?f (orders s) =
      Some (length (filter (\<lambda>x. or_id x = oid) (orders s)),
            map (\<lambda>x. if or_id x = oid then the (?f x) else x) (orders s))"
    using assms(1) by (intro tbl_update_ok) (simp add: wf_orders_def)
  have key: "\<And>x x'. ?f x = Some x' \<Longrightarrow> or_id x' = or_id x"
    by (drule order_store_id) simp
  let ?os = "map (\<lambda>x. if or_id x = oid then the (?f x) else x) (orders s)"
  have "order_ok r" using wf_orders_find [OF assms(1,3)] by simp
  then have "tbl_find or_id oid ?os = Some (r\<lparr>or_status := st, or_updated_at := now\<rparr>)"
    using tbl_find_update [OF upd key assms(3)] st by simp
  moreover have "\<forall>j. j \<noteq> oid \<longrightarrow> tbl_find or_id j ?os = tbl_find or_id j (orders s)"
    using tbl_find_update_other [OF upd key] by simp
  moreover have "exec_stmt (update_orders_stmt (\<lambda>x. or_id x = oid)
      (\<lambda>x. x\<lparr>or_status := st, or_updated_at := now\<rparr>)) s =
      (Some (length (filter (\<lambda>x. or_id x = oid) (orders s))), s\<lparr>orders := ?os\<rparr>)"
    using upd assms(2) by (simp add: update_orders_stmt_def)
  ultimately show ?thesis by blast
qed

lemma after_cancel_acked:
  fixes s :: "('e, 'x) trading_db_scheme"
  assumes "wf_trading s" and "faults s = []" and "scale18 x" and "0 \<le> x"
    and "x \<le> wallet_frozen s u a \<or> balances s (u, a) = None"
    and "wallet_available s u a + x < 10 ^ 20"
  shows "orders (after_cancel live src oid u p a x s) = orders s \<and>
    faults (after_cancel live src oid u p a x s) = [] \<and>
    trading_pairs (after_cancel live src oid u p a x s) = trading_pairs s \<and>
    applies (CmdUnfreeze u a (if balances s (u, a) = None then 0 else x)) (wallet_cols s)
      (wallet_cols (after_cancel live src oid u p a x s))"
proof -
  define s1 where "s1 = (case src of None \<Rightarrow> s
     | Some os \<Rightarrow> snd (cancelWithRetry live os (tp_base p @ ''_'' @ tp_quote p) oid u s))"
  have "only_engine s s1"
    by (auto simp: s1_def cancelWithRetry_def cancel_attempts_only only_engine_refl split: option.split)
  note e = only_engineD [OF this]
  have b1: "balances s1 = balances s"
    using \<open>only_engine s s1\<close> by (auto simp: only_engine_def)
  have w1: "wf_wallet s1" using assms(1) e(5) by (simp add: wf_trading_def)
  have cols: "wallet_available s1 = wallet_available s" "wallet_frozen s1 = wallet_frozen s"
    using e(4) by (simp_all add: wallet_cols_def)
  have ac: "after_cancel live src oid u p a x s = (if 0 < x then snd (Unfreeze u a x s1) else s1)"
    by (simp add: after_cancel_def s1_def Let_def)
  show ?thesis
  proof (cases "0 < x \<and> balances s (u, a) \<noteq> None")
    case True
    obtain s2 where run: "wallet_exec (CmdUnfreeze u a x) s1 = (Inr (), s2)" and "faults s2 = []"
      using wallet_exec_succeeds [OF w1, of "CmdUnfreeze u a x"] assms(2-6) True e(1) cols
        wallet_columns_nonneg [OF w1] wallet_columns_bound(2) [OF w1, of u a]
      by (auto simp del: wallet_exec.simps)
    then show ?thesis
      using ac True e only_balances_trading [OF wallet_exec_frame [OF run]]
        wl.exec_okD(2) [OF w1 _ run] assms(3) by auto
  next
    case False
    have "snd (Unfreeze u a x s1) = s1" if "0 < x" "balances s (u, a) = None"
    proof -
      have "wallet_frozen s1 u a < x" using that b1 by (simp add: wallet_frozen_def)
      then show ?thesis
        using wallet_exec_refused [of s1 "CmdUnfreeze u a x"] e(1) assms(2) w1 by auto
    qed
    then have "after_cancel live src oid u p a x s = s1" using ac False by auto
    then show ?thesis
      using e assms(2,4) False by (auto simp: applies_def bump_def wallet_cols_def fun_eq_iff)
  qed
qed

text \<open>C7: cancelling an open order of one's own, when the database answers, marks exactly that
  order CANCELLED whatever the engine says, and moves from the frozen to the available balance
  what the order still holds, capped by what is frozen; cancelling it again is refused and
  changes nothing, so nothing is refunded twice.\<close>

theorem CancelOrder_outcome:
  fixes s :: "'e trading_db"
  assumes "wf_trading s" and "faults s = []" and "find_joined oid s = Some (r, p)"
    and "or_user_id r = u" and "open_status (or_status r)" and "0 \<le> or_price r"
    and uf: "unfreeze_of r p = (asset, x)" and "scale18 x"
    and "wallet_available s u asset + x < 10 ^ 20"
  shows "\<exists>s'. CancelOrder live src oid u now s = (Inr (), s') \<and>
    tbl_find or_id oid (orders s') = Some (r\<lparr>or_status := ''CANCELLED'', or_updated_at := now\<rparr>) \<and>
    (\<forall>j. j \<noteq> oid \<longrightarrow> tbl_find or_id j (orders s') = tbl_find or_id j (orders s)) \<and>
    applies (CmdUnfreeze u asset (min x (wallet_frozen s u asset))) (wallet_cols s) (wallet_cols s') \<and>
    CancelOrder live' src' oid u now' s' = (Inl ErrAlreadyClosed, s')"
proof -
  note w = wf_tradingD [OF assms(1)]
  from find_joined_SomeD [OF assms(3)] have r: "tbl_find or_id oid (orders s) = Some r"
    and p: "pair_of_id (or_pair_id r) s = Some p" by auto
  have ok: "order_ok r" using wf_orders_find [OF w(1) r] by simp
  have x0: "0 \<le> x" using unfreeze_of_nonneg [OF ok assms(6), of p] uf by simp
  obtain y where cap: "cap_unfreeze u asset x s = (Some y, s)" and y0: "0 \<le> y"
    and y: "if balances s (u, asset) = None then y = x else y = min x (wallet_frozen s u asset)"
    using cap_unfreeze_acked [OF assms(2) x0 w(2), of u asset] by blast
  have ysc: "scale18 y" using y assms(8) wallet_columns_scale18(2) [OF w(2)] by (auto simp: min_def split: if_splits)
  let ?r' = "r\<lparr>or_status := ''CANCELLED'', or_updated_at := now\<rparr>"
  obtain n os where upd: "exec_stmt (update_orders_stmt (\<lambda>x. or_id x = oid)
            (\<lambda>x. x\<lparr>or_status := ''CANCELLED'', or_updated_at := now\<rparr>)) s = (Some n, s\<lparr>orders := os\<rparr>)"
    and fnd: "tbl_find or_id oid os = Some ?r'"
    and oth: "\<forall>j. j \<noteq> oid \<longrightarrow> tbl_find or_id j os = tbl_find or_id j (orders s)"
    using status_update_acked [OF w(1) assms(2) r, of "''CANCELLED''" now] by auto
  let ?s1 = "s\<lparr>orders := os\<rparr>"
  define s' where "s' = after_cancel live src oid u p asset y ?s1"
  have wf1: "wf_trading ?s1" using wf_chain(7) [OF assms(1) upd] .
  have ac: "orders s' = os \<and> faults s' = [] \<and> trading_pairs s' = trading_pairs s \<and>
      applies (CmdUnfreeze u asset (if balances s (u, asset) = None then 0 else y)) (wallet_cols s) (wallet_cols s')"
    using after_cancel_acked [OF wf1 _ ysc y0, of u asset live src oid p] assms(2,9) y
      by (auto simp: s'_def wallet_available_def wallet_frozen_def wallet_cols_def min_def split: if_splits)
  have "\<not> closed_status (or_status r)"
    using assms(5) by (auto simp: closed_status_def open_status_def StatusFilled_def
        StatusCanceled_def status_CANCELLED_def)
  then have run: "CancelOrder live src oid u now s = (Inr (), s')"
    using assms(2,3,4) uf cap y0 upd
    by (simp add: CancelOrder_def cancel_body_def status_CANCELLED_def commit_orders_def s'_def)
  have z: "(if balances s (u, asset) = None then 0 else y) = min x (wallet_frozen s u asset)"
    using y x0 by (auto simp: wallet_frozen_def)
  have "find_joined oid s' = Some (?r', p)"
    using ac fnd p by (simp add: find_joined_def joined_def pair_of_id_def)
  then have again: "CancelOrder live' src' oid u now' s' = (Inl ErrAlreadyClosed, s')"
    using ac assms(4) by (simp add: CancelOrder_def closed_status_def status_CANCELLED_def)
  show ?thesis
    using run ac fnd oth again unfolding z by blast
qed

theorem CancelOrder_outcome_witness:
  "(let s' = snd (CancelOrder True (Some noop_source) 60 8 30 demo_trading) in
    tbl_find or_id 60 (orders s') = Some (demo_order\<lparr>or_status := ''CANCELLED'', or_updated_at := 30\<rparr>) \<and>
    wallet_available s' 8 ''BTC'' = 5 \<and> wallet_frozen s' 8 ''BTC'' = 0 \<and>
    CancelOrder True (Some noop_source) 60 8 31 s' = (Inl ErrAlreadyClosed, s'))"
proof -
  let ?p = "hd (trading_pairs demo_trading)"
  have j: "find_joined 60 demo_trading = Some (demo_order, ?p)"
    by (simp add: find_joined_def joined_def pair_of_id_def tbl_find_def demo_trading_def demo_order_def)
  have "\<exists>s'. CancelOrder True (Some noop_source) 60 8 30 demo_trading = (Inr (), s') \<and>
    tbl_find or_id 60 (orders s') = Some (demo_order\<lparr>or_status := ''CANCELLED'', or_updated_at := 30\<rparr>) \<and>
    (\<forall>j. j \<noteq> 60 \<longrightarrow> tbl_find or_id j (orders s') = tbl_find or_id j (orders demo_trading)) \<and>
    applies (CmdUnfreeze 8 ''BTC'' (min 2 (wallet_frozen demo_trading 8 ''BTC'')))
      (wallet_cols demo_trading) (wallet_cols s') \<and>
    CancelOrder True (Some noop_source) 60 8 31 s' = (Inl ErrAlreadyClosed, s')"
    by (rule CancelOrder_outcome [OF demo_trading_wf demo_trading_simps(1) j])
      (simp_all add: demo_order_def open_status_def unfreeze_of_def demo_trading_def
        wallet_available_def)
  then show ?thesis by (auto simp: applies_def wallet_cols_def)
qed

text \<open>A reader sees an order exactly when it is its owner: what GetOrderForUser returns belongs
  to the caller and carries the requested id, and for every other id, missing or someone else's,
  the answer is the same error, under any database fault.\<close>

theorem GetOrderForUser_private:
  fixes s :: "'e trading_db"
  shows "(\<forall>x. fst (GetOrderForUser oid u s) = Inr x \<longrightarrow> oc_UserID x = u \<and> oc_ID x = oid \<and>
           (\<exists>r \<in> set (orders s). or_id r = oid \<and> or_user_id r = u)) \<and>
         (\<forall>e. fst (GetOrderForUser oid u s) = Inl e \<longrightarrow> e = ErrOrderNotFound)"
proof -
  obtain q s1 where q: "query (find_joined oid) s = (q, s1)" by (cases "query (find_joined oid) s")
  have "find_joined oid (s\<lparr>faults := fs\<rparr>) = find_joined oid s" for fs
    by (simp add: find_joined_def joined_def [abs_def] pair_of_id_def)
  then have "q = None \<or> q = Some (find_joined oid s)"
    using q by (auto simp: query_def next_fault_def split: list.splits)
  then show ?thesis
    using q
    by (cases "find_joined oid s")
      (auto simp: GetOrderForUser_def getOrder_def record_of_def split: option.splits if_splits
        dest!: find_joined_SomeD tbl_find_SomeD)
qed

theorem GetOrderForUser_private_witness:
  "oc_UserID (projr (fst (GetOrderForUser 60 8 demo_trading))) = 8 \<and>
   fst (GetOrderForUser 60 7 demo_trading) = Inl ErrOrderNotFound"
proof -
  have a: "fst (GetOrderForUser 60 8 demo_trading) =
      Inr (record_of [] (demo_order, hd (trading_pairs demo_trading)))"
    by (simp add: GetOrderForUser_def getOrder_def record_of_def find_joined_def joined_def
        pair_of_id_def tbl_find_def demo_trading_def demo_order_def)
  have b: "isl (fst (GetOrderForUser 60 7 demo_trading))"
    by (simp add: GetOrderForUser_def getOrder_def record_of_def find_joined_def joined_def
        pair_of_id_def tbl_find_def demo_trading_def demo_order_def)
  show ?thesis
    using GetOrderForUser_private [of 60 8 demo_trading] GetOrderForUser_private [of 60 7 demo_trading]
      a b by (auto simp: isl_def)
qed

subsection \<open>Amending\<close>

lemma commit_orders_frame:
  assumes "commit_orders s0 s = (ok, s')"
  shows "balances s' = balances s" and "trades s' = trades s"
proof -
  obtain fl s1 where f: "next_fault s = (fl, s1)" by (cases "next_fault s")
  then obtain fs where "s1 = s\<lparr>faults := fs\<rparr>"
    using next_fault_frame [OF f] unfolding only_faults_def by blast
  then show "balances s' = balances s" and "trades s' = trades s"
    using assms f by (auto simp: commit_orders_def rollback_orders_def split: fault.splits)
qed

lemma query_frame_trading:
  assumes "query f s = (r, s')"
  shows "balances s' = balances s" and "orders s' = orders s" and "trades s' = trades s"
  using query_frame [OF assms] unfolding only_faults_def by auto

lemma call_engine_frame:
  "call_engine f s = (r, s') \<Longrightarrow> balances s' = balances s \<and> orders s' = orders s \<and> trades s' = trades s"
  by (auto simp: call_engine_def split: prod.splits)

lemma wallet_diff_frame:
  assumes "wallet_diff u a d s = (r, s')"
  shows "orders s' = orders s \<and> trades s' = trades s"
proof -
  have "only_balances s s'"
    using assms wallet_exec_frame [of "CmdFreeze u a d" s] wallet_exec_frame [of "CmdUnfreeze u a \<bar>d\<bar>" s]
    by (auto simp: wallet_diff_def split: if_splits)
  then show ?thesis by (simp add: only_balances_trading)
qed

lemma exec_update_trades:
  "exec_stmt (update_orders_stmt P f) s = (n, s') \<Longrightarrow> trades s' = trades s"
proof -
  assume "exec_stmt (update_orders_stmt P f) s = (n, s')"
  then show ?thesis
  proof (cases rule: exec_stmt_cases)
    case unchanged
    then show ?thesis by (auto simp: only_faults_def)
  next
    case (ran s1 n)
    then show ?thesis by (auto simp: only_faults_def update_orders_stmt_def)
  qed
qed

lemma amend_body_error:
  fixes s :: "('e, 'x) trading_db_scheme"
  assumes "amend_body os now inp r p np nq s = (Inl err, s')"
  shows "trades s' = trades s \<and> (err = ErrStep ''commit'' \<or> orders s' = orders s) \<and>
    ((\<exists>m. err = ErrMatcher m) \<longrightarrow> balances s' = balances s) \<and>
    ((\<exists>m. err = ErrMatcher m) \<or> (\<exists>w. err = ErrAmendWallet w) \<or>
     err = ErrStep ''commit'' \<or> err = ErrStep ''update order'')"
proof -
  let ?ask = "\<lambda>pr q. call_engine (src_AmendOrder os (tp_base p @ ''_'' @ tp_quote p)
                     (am_OrderID inp) (am_UserID inp) (or_side r) pr q)"
  obtain a1 s1 where a: "?ask np nq s = (a1, s1)" by (cases "?ask np nq s")
  obtain asset diff where d: "amend_diff r p np nq = (asset, diff)" by (cases "amend_diff r p np nq")
  obtain w s2 where w: "wallet_diff (am_UserID inp) asset diff s1 = (w, s2)"
    by (cases "wallet_diff (am_UserID inp) asset diff s1")
  let ?upd = "update_orders_stmt (\<lambda>x. or_id x = am_OrderID inp)
    (\<lambda>x. x\<lparr>or_price := np, or_quantity := nq, or_updated_at := now\<rparr>)"
  obtain n s3 where e: "exec_stmt ?upd s2 = (n, s3)" by (cases "exec_stmt ?upd s2")
  obtain ok s4 where m: "commit_orders s s3 = (ok, s4)" by (cases "commit_orders s s3")
  let ?undo = "snd (wallet_diff (am_UserID inp) asset (- diff) (rollback_orders s s3))"
  note fa = call_engine_frame [OF a] and fw = wallet_diff_frame [OF w]
    and fe = exec_update_trades [OF e] and fm = commit_orders_frame [OF m]
  have restore: "orders (snd (?ask pr q t)) = orders t \<and> trades (snd (?ask pr q t)) = trades t"
    for pr q and t :: "('e, 'x) trading_db_scheme"
    by (cases "?ask pr q t") (simp add: call_engine_frame)
  have undo: "orders ?undo = orders s \<and> trades ?undo = trades s3"
    by (cases "wallet_diff (am_UserID inp) asset (- diff) (rollback_orders s s3)")
      (auto simp: rollback_orders_def dest: wallet_diff_frame)
  show ?thesis
    using assms fa fw fe fm restore undo
    unfolding amend_body_def Let_def a d prod.case
    by (auto simp: w e m split: sum.splits option.splits bool.splits prod.splits)
qed

text \<open>A failed amendment does not leave the order half-changed, whatever fails: no trade is
  written, and the order rows are untouched unless the commit itself was not confirmed. When the
  request is refused, or the matching engine refuses it, the balances are untouched too.\<close>

theorem AmendOrder_error_safe:
  fixes s :: "'e trading_db"
  assumes "AmendOrder src now inp s = (Inl err, s')"
  shows "trades s' = trades s \<and>
    (err \<noteq> ErrStep ''commit'' \<longrightarrow> orders s' = orders s) \<and>
    (err \<noteq> ErrStep ''commit'' \<and> err \<noteq> ErrStep ''update order'' \<and> (\<forall>w. err \<noteq> ErrAmendWallet w)
       \<longrightarrow> balances s' = balances s)"
proof -
  obtain b s0 where q: "query (\<lambda>_. ()) s = (b, s0)" by (cases "query (\<lambda>_. ()) s")
  obtain l s1 where l: "query (find_joined (am_OrderID inp)) s0 = (l, s1)"
    by (cases "query (find_joined (am_OrderID inp)) s0")
  obtain ok s2 where m: "commit_orders s0 s1 = (ok, s2)" by (cases "commit_orders s0 s1")
  note fq = query_frame_trading [OF q] and fl = query_frame_trading [OF l]
    and fm = commit_orders_frame [OF m]
  show ?thesis
  proof (cases "b = None \<or> l = None \<or> l = Some None \<or> am_Price inp = 0 \<and> am_Quantity inp = 0")
    case True
    then show ?thesis
      using assms q l fq fl by (auto simp: AmendOrder_def split: if_splits option.splits)
  next
    case False
    then obtain r p where lp: "l = Some (Some (r, p))" by (cases l) auto
    obtain np nq where t: "amend_target inp r = (np, nq)" by (cases "amend_target inp r")
    show ?thesis
    proof (cases "\<exists>os. amend_body os now inp r p np nq s1 = (Inl err, s')")
      case True
      then show ?thesis using amend_body_error fq fl by fastforce
    next
      case False
      then have "(s' = s1 \<and> err \<noteq> ErrStep ''commit'') \<or> (s' = s2 \<and> err = ErrStep ''commit'')"
        using assms q l m lp t \<open>\<not> (b = None \<or> _ \<or> _ \<or> _)\<close>
        by (auto simp: AmendOrder_def split: option.splits bool.splits if_splits)
      then show ?thesis using fq fl fm by auto
    qed
  qed
qed

theorem AmendOrder_error_safe_witness:
  "(let amend = \<lparr>am_OrderID = 60, am_UserID = 8, am_Pair = [], am_Side = [], am_Price = 25,
                 am_Quantity = 0\<rparr>;
        s' = snd (AmendOrder (Some resting_source) 30 amend demo_trading) in
    fst (AmendOrder (Some resting_source) 30 amend demo_trading) = Inl (ErrMatcher ''order not in book'') \<and>
    orders s' = orders demo_trading \<and> balances s' = balances demo_trading)"
proof -
  let ?amend = "\<lparr>am_OrderID = 60, am_UserID = 8, am_Pair = [], am_Side = [], am_Price = 25,
                 am_Quantity = 0\<rparr>"
  have "fst (AmendOrder (Some resting_source) 30 ?amend demo_trading)
      = Inl (ErrMatcher ''order not in book'')"
    by (simp add: AmendOrder_def find_joined_def joined_def pair_of_id_def tbl_find_def
        demo_trading_def demo_order_def amend_target_def closed_status_def status_defs
        status_CANCELLED_def amend_body_def call_engine_def resting_source_def)
  then obtain s' where run: "AmendOrder (Some resting_source) 30 ?amend demo_trading
      = (Inl (ErrMatcher ''order not in book''), s')"
    by (cases "AmendOrder (Some resting_source) 30 ?amend demo_trading") simp
  from AmendOrder_error_safe [OF run] run show ?thesis by simp
qed

subsection \<open>The maker's row after a trade\<close>

lemma order_update_acked:
  fixes s :: "('e, 'x) trading_db_scheme"
  assumes "distinct (map or_id (orders s))" and "faults s = []" and "tbl_find or_id oid (orders s) = Some r"
  shows "tbl_find or_id oid (orders (snd (updateOrderStatus now oid st f s))) =
    (case order_store (r\<lparr>or_status := st, or_filled := f, or_updated_at := now\<rparr>) of
       None \<Rightarrow> Some r | Some r' \<Rightarrow> Some r')"
proof -
  let ?g = "\<lambda>x. order_store (x\<lparr>or_status := st, or_filled := f, or_updated_at := now\<rparr>)"
  have key: "\<And>x x'. ?g x = Some x' \<Longrightarrow> or_id x' = or_id x"
    by (drule order_store_id) simp
  note r = tbl_find_SomeD [OF assms(3)]
  have only: "x = r" if "x \<in> set (orders s)" "or_id x = oid" for x
    using that r assms(1) by (auto simp: distinct_map inj_on_def)
  show ?thesis
  proof (cases "?g r")
    case None
    then have "tbl_update (\<lambda>x. or_id x = oid) ?g (orders s) = None"
      using r by (cases "tbl_update (\<lambda>x. or_id x = oid) ?g (orders s)")
        (auto dest!: tbl_update_SomeD)
    then show ?thesis
      using None assms(2,3) by (simp add: updateOrderStatus_def update_orders_stmt_def)
  next
    case (Some r')
    have upd: "tbl_update (\<lambda>x. or_id x = oid) ?g (orders s) =
      Some (length (filter (\<lambda>x. or_id x = oid) (orders s)),
            map (\<lambda>x. if or_id x = oid then the (?g x) else x) (orders s))"
      by (rule tbl_update_ok) (use only Some in auto)
    then show ?thesis
      using Some assms(2) tbl_find_update [OF upd key assms(3)]
      by (simp add: updateOrderStatus_def update_orders_stmt_def)
  qed
qed

text \<open>After a trade the maker's row counts the traded quantity, and is FILLED exactly when
  nothing remains; a trade larger than what remains is refused by the table and the row stays as
  it was. But when the row cannot be read first, its filled quantity is overwritten with zero and
  its status with PARTIAL, so the order is again worth its full quantity.\<close>

theorem update_maker_outcome:
  fixes s :: "'e trading_db"
  assumes "wf_trading s" and "tr_BuyOrderID tr = taker" and "tr_SellOrderID tr = maker"
    and "tbl_find or_id maker (orders s) = Some r" and "scale18 (tr_Quantity tr)"
    and "0 < tr_Quantity tr"
  shows "(faults s = [] \<longrightarrow>
           tbl_find or_id maker (orders (update_maker now taker tr s)) = Some
             (if or_filled r + tr_Quantity tr < or_quantity r
                then r\<lparr>or_status := ''PARTIAL'', or_filled := or_filled r + tr_Quantity tr, or_updated_at := now\<rparr>
              else if or_filled r + tr_Quantity tr = or_quantity r
                then r\<lparr>or_status := ''FILLED'', or_filled := or_quantity r, or_updated_at := now\<rparr>
              else r)) \<and>
         (faults s = [Lost] \<longrightarrow>
           tbl_find or_id maker (orders (update_maker now taker tr s)) =
             Some (r\<lparr>or_status := ''PARTIAL'', or_filled := 0, or_updated_at := now\<rparr>))"
proof -
  have w: "wf_orders s" by (rule wf_tradingD(1) [OF assms(1)])
  then have d: "distinct (map or_id (orders s))" by (simp add: wf_orders_def)
  have ok: "order_ok r" using wf_orders_find [OF w assms(4)] by simp
  have mk: "(if tr_BuyOrderID tr = taker then tr_SellOrderID tr else tr_BuyOrderID tr) = maker"
    using assms(2,3) by simp
  have fits: "order_store (r\<lparr>or_status := st, or_filled := f, or_updated_at := now\<rparr>) =
      Some (r\<lparr>or_status := st, or_filled := f, or_updated_at := now\<rparr>)"
    if "st = ''PARTIAL'' \<or> st = ''FILLED''" "scale18 f" "0 \<le> f" "f \<le> or_quantity r" for st f
    by (rule order_store_same) (use that ok in \<open>auto simp: order_ok_def\<close>)
  have over: "order_store (r\<lparr>or_status := st, or_filled := f, or_updated_at := now\<rparr>) = None"
    if "scale18 f" "or_quantity r < f" for st f
    using that ok by (auto simp: order_store_def order_ok_def Let_def)
  have sc: "scale18 (or_filled r + tr_Quantity tr)" using ok assms(5) by (simp add: order_ok_def)
  have nn: "0 \<le> or_filled r" "scale18 (or_quantity r)" using ok by (simp_all add: order_ok_def)
  have "tbl_find or_id maker (orders (update_maker now taker tr s)) = Some
             (if or_filled r + tr_Quantity tr < or_quantity r
                then r\<lparr>or_status := ''PARTIAL'', or_filled := or_filled r + tr_Quantity tr, or_updated_at := now\<rparr>
              else if or_filled r + tr_Quantity tr = or_quantity r
                then r\<lparr>or_status := ''FILLED'', or_filled := or_quantity r, or_updated_at := now\<rparr>
              else r)" if f: "faults s = []"
    using f assms(4,6) nn sc fits over order_update_acked [OF d f assms(4)]
    by (auto simp: update_maker_def mk maker_state_def Let_def StatusFilled_def StatusPartial_def)
  moreover have "tbl_find or_id maker (orders (update_maker now taker tr s)) =
             Some (r\<lparr>or_status := ''PARTIAL'', or_filled := 0, or_updated_at := now\<rparr>)" if f: "faults s = [Lost]"
  proof -
    have "query (\<lambda>t. tbl_find or_id maker (orders t)) s = (None, s\<lparr>faults := []\<rparr>)"
      using f by (simp add: query_def next_fault_def)
    moreover have "tbl_find or_id maker (orders (s\<lparr>faults := []\<rparr>)) = Some r" using assms(4) by simp
    ultimately show ?thesis
      using order_update_acked [of "s\<lparr>faults := []\<rparr>" maker r now StatusPartial 0] d nn
        fits [of "''PARTIAL''" 0] ok
      by (simp add: update_maker_def mk maker_state_def StatusPartial_def order_ok_def)
  qed
  ultimately show ?thesis by blast
qed

theorem update_maker_outcome_witness:
  "tbl_find or_id 60 (orders (update_maker 30 61 demo_trade demo_trading)) =
     Some (demo_order\<lparr>or_status := ''PARTIAL'', or_filled := 1, or_updated_at := 30\<rparr>) \<and>
   tbl_find or_id 60 (orders (update_maker 30 61 demo_trade (demo_trading\<lparr>faults := [Lost]\<rparr>))) =
     Some (demo_order\<lparr>or_status := ''PARTIAL'', or_filled := 0, or_updated_at := 30\<rparr>)"
proof -
  have w: "wf_trading (demo_trading\<lparr>faults := [Lost]\<rparr>)" by simp
  have t: "tr_BuyOrderID demo_trade = 61" "tr_SellOrderID demo_trade = 60"
    "scale18 (tr_Quantity demo_trade)" "0 < tr_Quantity demo_trade" "tr_Quantity demo_trade = 1"
    by (simp_all add: demo_trade_def)
  have f: "tbl_find or_id 60 (orders demo_trading) = Some demo_order"
    by (simp add: demo_trading_def tbl_find_def demo_order_def)
  then have f': "tbl_find or_id 60 (orders (demo_trading\<lparr>faults := [Lost]\<rparr>)) = Some demo_order" by simp
  have dq: "or_filled demo_order = 0" "or_quantity demo_order = 2" by (simp_all add: demo_order_def)
  show ?thesis
    using update_maker_outcome [OF demo_trading_wf t(1,2) f t(3,4), of 30]
      update_maker_outcome [OF w t(1,2) f' t(3,4), of 30] dq t(5) by simp
qed

subsection \<open>What the service reports\<close>

text \<open>The remaining quantity PlaceOrder reports is always the quantity that was asked for, even
  when the engine has filled the order.\<close>

theorem PlaceOrder_remaining:
  fixes s :: "'e trading_db"
  assumes "PlaceOrder pairs src oid now inp s = (Inr placed, s')"
  shows "res_Remaining placed = in_Quantity inp \<and> res_OrderID placed = oid"
  using assms
  by (auto simp: PlaceOrder_def finish_order_def new_order_def Let_def
      split: sum.splits prod.splits option.splits)

theorem PlaceOrder_remaining_witness:
  "\<exists>placed s'. PlaceOrder demo_pairs (Some noop_source) 61 30 demo_input demo_trading = (Inr placed, s') \<and>
     res_Remaining placed = 3"
proof -
  have "\<not> isl (fst (PlaceOrder demo_pairs (Some noop_source) 61 30 demo_input demo_trading))"
    unfolding PlaceOrder_def demo_validate
    by (simp add: freeze_of_def demo_pairs_def demo_input_def TypeMarket_def SideSell_def wallet_eval
        demo_trading_def NewOrderSourceAdapter_def NewLocalEngine_def noop_PlaceOrder_def
        call_engine_def Let_def split: prod.split)
  then obtain placed s' where
    run: "PlaceOrder demo_pairs (Some noop_source) 61 30 demo_input demo_trading = (Inr placed, s')"
    by (cases "PlaceOrder demo_pairs (Some noop_source) 61 30 demo_input demo_trading";
        cases "fst (PlaceOrder demo_pairs (Some noop_source) 61 30 demo_input demo_trading)") auto
  from PlaceOrder_remaining [OF run] run show ?thesis by (auto simp: demo_input_def)
qed

text \<open>The order statistics count every order under one status, except that they look for
  cancelled orders under a spelling the table never stores: the count of cancelled orders is
  always zero and the parts fall short of the total by the cancelled ones.\<close>

theorem GetOrderStats_canceled:
  fixes s :: "'e trading_db"
  assumes "wf_orders s" and "GetOrderStats s = (Inr st, s')"
  shows "st_canceled st = 0 \<and>
    st_total st = st_open st + st_partial st + st_filled st + count_status ''CANCELLED'' (orders s)"
proof -
  have parts: "count_status ''CANCELED'' os = 0 \<and>
      length os = count_status ''OPEN'' os + count_status ''PARTIAL'' os + count_status ''FILLED'' os +
        count_status ''CANCELLED'' os" if "\<forall>r \<in> set os. order_ok r" for os
    using that by (induction os) (auto simp: count_status_def order_ok_def)
  obtain q s1 where q: "query (\<lambda>t. \<lparr>st_total = length (orders t), st_open = count_status ''OPEN'' (orders t),
                       st_partial = count_status ''PARTIAL'' (orders t),
                       st_filled = count_status ''FILLED'' (orders t),
                       st_canceled = count_status ''CANCELED'' (orders t)\<rparr>) s = (q, s1)"
    by fastforce
  then have "q = None \<or> q = Some \<lparr>st_total = length (orders s), st_open = count_status ''OPEN'' (orders s),
                       st_partial = count_status ''PARTIAL'' (orders s),
                       st_filled = count_status ''FILLED'' (orders s),
                       st_canceled = count_status ''CANCELED'' (orders s)\<rparr>"
    by (auto simp: query_def next_fault_def split: list.splits)
  then show ?thesis
    using assms q parts [of "orders s"] by (auto simp: GetOrderStats_def wf_orders_def split: option.splits)
qed

theorem GetOrderStats_canceled_witness:
  "(let s = demo_trading\<lparr>orders := [demo_order\<lparr>or_status := ''CANCELLED''\<rparr>, demo_order\<lparr>or_id := 62\<rparr>]\<rparr> in
    \<exists>st s'. GetOrderStats s = (Inr st, s') \<and> st_canceled st = 0 \<and> st_total st = 2 \<and> st_open st = 1)"
proof -
  let ?s = "demo_trading\<lparr>orders := [demo_order\<lparr>or_status := ''CANCELLED''\<rparr>, demo_order\<lparr>or_id := 62\<rparr>]\<rparr>"
  have w: "wf_orders ?s" by (simp add: wf_orders_def order_ok_def demo_order_def)
  obtain st where run: "GetOrderStats ?s = (Inr st, ?s)" and "st_total st = 2" "st_open st = 1"
    by (simp add: GetOrderStats_def count_status_def demo_order_def)
  with GetOrderStats_canceled [OF w run] show ?thesis by auto
qed

subsection \<open>Cancelling everything\<close>

lemma map_filter_joined:
  "\<forall>r \<in> set os. pair_of_id (or_pair_id r) s \<noteq> None \<Longrightarrow>
     map fst (List.map_filter (joined s) os) = os"
  by (induction os) (auto simp: joined_def)

lemma fold_keeps_orders:
  "(\<And>x t. orders (f x t) = orders t) \<Longrightarrow> orders (fold f xs s) = orders s"
  by (induction xs arbitrary: s) auto

lemma unfreeze_cancelled_orders:
  fixes s :: "('e, 'x) trading_db_scheme"
  shows "orders (unfreeze_cancelled u rp s) = orders s"
proof -
  have "orders (snd (Unfreeze u a x s)) = orders s" for a x
    using only_balances_trading(1) [OF wallet_exec_frame [of "CmdUnfreeze u a x" s]]
    by (cases "Unfreeze u a x s") simp
  then show ?thesis by (auto simp: unfreeze_cancelled_def split: prod.splits)
qed

definition mark_cancelled :: "uuid \<Rightarrow> time \<Rightarrow> order_row \<Rightarrow> order_row" where
  "mark_cancelled u now r =
     (if or_user_id r = u \<and> open_status (or_status r)
      then r\<lparr>or_status := ''CANCELLED'', or_updated_at := now\<rparr> else r)"

text \<open>CancelAllOrders without a pair filter, when the database answers, closes every open order
  of the user and no other order, whatever the engine answers, and returns how many there were.\<close>

theorem CancelAllOrders_complete:
  fixes s :: "'e trading_db"
  assumes "wf_trading s" and "faults s = []"
    and pairs: "\<forall>r \<in> set (orders s). pair_of_id (or_pair_id r) s \<noteq> None"
  shows "fst (CancelAllOrders os u [] now s) =
      Inr (length (filter (\<lambda>r. or_user_id r = u \<and> open_status (or_status r)) (orders s))) \<and>
    orders (snd (CancelAllOrders os u [] now s)) = map (mark_cancelled u now) (orders s)"
proof -
  let ?P = "\<lambda>r. or_user_id r = u \<and> open_status (or_status r)"
  let ?sel = "selected_orders u [] s"
  have "map fst ?sel = filter ?P (map fst (List.map_filter (joined s) (orders s)))"
    by (simp add: selected_orders_def filter_map o_def case_prod_unfold)
  also have "\<dots> = filter ?P (orders s)" unfolding map_filter_joined [OF pairs] ..
  finally have sel: "map fst ?sel = filter ?P (orders s)" .
  then have len: "length ?sel = length (filter ?P (orders s))" by (metis length_map)
  let ?f = "\<lambda>x. order_store (x\<lparr>or_status := ''CANCELLED'', or_updated_at := now\<rparr>)"
  have st: "?f x = Some (x\<lparr>or_status := ''CANCELLED'', or_updated_at := now\<rparr>)" if "x \<in> set (orders s)" for x
    by (rule order_store_same)
      (use that wf_tradingD(1) [OF assms(1)] in \<open>simp add: wf_orders_def order_ok_def\<close>)
  have upd: "tbl_update ?P ?f (orders s) =
      Some (length (filter ?P (orders s)), map (mark_cancelled u now) (orders s))"
  proof -
    have "map (\<lambda>r. if ?P r then the (?f r) else r) (orders s) = map (mark_cancelled u now) (orders s)"
      using st by (intro map_cong) (auto simp: mark_cancelled_def)
    then show ?thesis using st by (subst tbl_update_ok) auto
  qed
  show ?thesis
  proof (cases "?sel = []")
    case True
    then have "filter ?P (orders s) = []" using sel by simp
    then have "map (mark_cancelled u now) (orders s) = orders s"
      by (intro map_idI) (auto simp: mark_cancelled_def filter_empty_conv)
    then show ?thesis using True assms(2) len by (simp add: CancelAllOrders_def)
  next
    case False
    have w: "cancel_all_where u [] s = ?P" by (simp add: cancel_all_where_def fun_eq_iff)
    have eng: "orders (snd (call_engine g t)) = orders t" for g :: "'e \<Rightarrow> (string + unit) \<times> 'e" and t :: "'e trading_db"
      by (cases "call_engine g t") (simp add: call_engine_frame)
    have "orders (fold (unfreeze_cancelled u) xs (fold (\<lambda>(r, p) t. snd (call_engine (h r p) t)) ys t)) = orders t"
      for xs and ys :: "(order_row \<times> pair_row) list" and t :: "'e trading_db"
        and h :: "order_row \<Rightarrow> pair_row \<Rightarrow> 'e \<Rightarrow> (string + unit) \<times> 'e"
      by (subst fold_keeps_orders, rule unfreeze_cancelled_orders, subst fold_keeps_orders)
        (auto simp: eng)
    then show ?thesis
      using False assms(2) upd len
      by (simp add: CancelAllOrders_def update_orders_stmt_def w status_CANCELLED_def
          commit_orders_def Let_def)
  qed
qed

theorem CancelAllOrders_complete_witness:
  "fst (CancelAllOrders noop_source 8 [] 30 demo_trading) = Inr 1 \<and>
   map or_status (orders (snd (CancelAllOrders noop_source 8 [] 30 demo_trading))) = [''CANCELLED'']"
proof -
  have "\<forall>r \<in> set (orders demo_trading). pair_of_id (or_pair_id r) demo_trading \<noteq> None"
    by (simp add: demo_trading_def demo_order_def pair_of_id_def tbl_find_def)
  from CancelAllOrders_complete [OF demo_trading_wf demo_trading_simps(1) this, of noop_source 8 30]
  show ?thesis
    by (simp add: demo_trading_def demo_order_def open_status_def mark_cancelled_def)
qed

end
