(* ===== verification/RateLimit.thy ===== *)
theory RateLimit
  imports Go_Strings
begin

text \<open>
  The sliding-window limiters of internal/api/ratelimit.go and the bucket key of a request
  (ratelimit.go, apikey_middleware.go). Times and durations are nanoseconds; the clock reading of
  a call is its argument. Both limiters satisfy one contract, the locale rate_limiter, under which
  the window guarantee is proved once.
\<close>

subsection \<open>The limiters\<close>

record RateLimiter =
  rl_requests :: "string \<Rightarrow> int list option"
  rl_limit :: int
  rl_window :: int

definition NewRateLimiter :: "int \<Rightarrow> int \<Rightarrow> RateLimiter" where
  "NewRateLimiter limit window =
     \<lparr>rl_requests = Map.empty, rl_limit = limit, rl_window = window\<rparr>"

definition in_window :: "int \<Rightarrow> int \<Rightarrow> int list \<Rightarrow> int list" where
  "in_window now window ts = filter (\<lambda>t. now - window < t) ts"

definition bucket :: "(string \<Rightarrow> int list option) \<Rightarrow> string \<Rightarrow> int list" where
  "bucket reqs key = (case reqs key of None \<Rightarrow> [] | Some ts \<Rightarrow> ts)"

definition Allow :: "int \<Rightarrow> string \<Rightarrow> RateLimiter \<Rightarrow> bool \<times> RateLimiter" where
  "Allow now key rl =
     (let valid = in_window now (rl_window rl) (bucket (rl_requests rl) key)
      in if rl_limit rl \<le> int (length valid)
         then (False, rl\<lparr>rl_requests := (rl_requests rl)(key \<mapsto> valid)\<rparr>)
         else (True, rl\<lparr>rl_requests := (rl_requests rl)(key \<mapsto> valid @ [now])\<rparr>))"

definition Reset :: "string \<Rightarrow> RateLimiter \<Rightarrow> RateLimiter" where
  "Reset key rl = rl\<lparr>rl_requests := (rl_requests rl)(key := None)\<rparr>"

definition prune :: "int \<Rightarrow> int \<Rightarrow> (string \<Rightarrow> int list option) \<Rightarrow> string \<Rightarrow> int list option" where
  "prune now window reqs key =
     (case reqs key of
        None \<Rightarrow> None
      | Some ts \<Rightarrow> (let valid = in_window now window ts in if valid = [] then None else Some valid))"

definition cleanup :: "int \<Rightarrow> RateLimiter \<Rightarrow> RateLimiter" where
  "cleanup now rl = rl\<lparr>rl_requests := prune now (rl_window rl) (rl_requests rl)\<rparr>"

record apiKeyRateLimiter =
  ak_requests :: "string \<Rightarrow> int list option"
  ak_limit :: int
  ak_window :: int

definition NewAPIKeyRateLimiter :: "int \<Rightarrow> int \<Rightarrow> apiKeyRateLimiter" where
  "NewAPIKeyRateLimiter limit window =
     \<lparr>ak_requests = Map.empty, ak_limit = limit, ak_window = window\<rparr>"

text \<open>
  The per-key limiter also says how long to wait. A limit that is not positive makes it index an
  empty list: \<open>None\<close> is that panic, after the bucket has been written.
\<close>

definition allow :: "int \<Rightarrow> string \<Rightarrow> apiKeyRateLimiter \<Rightarrow> (bool \<times> int) option \<times> apiKeyRateLimiter" where
  "allow now key l =
     (let valid = in_window now (ak_window l) (bucket (ak_requests l) key)
      in if ak_limit l \<le> int (length valid)
         then ((case valid of [] \<Rightarrow> None | t # _ \<Rightarrow> Some (False, t + ak_window l - now)),
               l\<lparr>ak_requests := (ak_requests l)(key \<mapsto> valid)\<rparr>)
         else (Some (True, 0), l\<lparr>ak_requests := (ak_requests l)(key \<mapsto> valid @ [now])\<rparr>))"

definition api_cleanup :: "int \<Rightarrow> apiKeyRateLimiter \<Rightarrow> apiKeyRateLimiter" where
  "api_cleanup now l = l\<lparr>ak_requests := prune now (ak_window l) (ak_requests l)\<rparr>"

subsection \<open>The middleware and the bucket key\<close>

datatype http_outcome =
    Served
  | TooManyRequests "int option"
  | Panicked

definition RateLimiter_Middleware :: "int \<Rightarrow> string \<Rightarrow> RateLimiter \<Rightarrow> http_outcome \<times> RateLimiter" where
  "RateLimiter_Middleware now key rl =
     (case Allow now key rl of
        (False, rl') \<Rightarrow> (TooManyRequests None, rl')
      | (True, rl') \<Rightarrow> (Served, rl'))"

definition retry_after_seconds :: "int \<Rightarrow> int" where
  "retry_after_seconds d = d div 1000000000 + 1"

definition apiKey_Middleware ::
  "int \<Rightarrow> string \<Rightarrow> apiKeyRateLimiter \<Rightarrow> http_outcome \<times> apiKeyRateLimiter" where
  "apiKey_Middleware now key l =
     (if key = [] then (Served, l)
      else
        (case allow now key l of
           (None, l') \<Rightarrow> (Panicked, l')
         | (Some (False, wait), l') \<Rightarrow> (TooManyRequests (Some (retry_after_seconds wait)), l')
         | (Some (True, _), l') \<Rightarrow> (Served, l')))"

text \<open>The parts of a request the bucket key is taken from; a missing header is the empty string.\<close>

record http_request =
  hdr_XFF :: string
  hdr_XRealIP :: string
  remote_addr :: string

definition lastIndex :: "string \<Rightarrow> char \<Rightarrow> nat option" where
  "lastIndex s c = LastIndexByte s c"

text \<open>\<open>None\<close> is the panic of a slice whose bounds are out of order.\<close>

definition strip_port :: "string \<Rightarrow> string option" where
  "strip_port ip =
     (case lastIndex ip (CHR '':'') of
        None \<Rightarrow> Some ip
      | Some idx \<Rightarrow>
          if idx = 0 then Some ip
          else if hd ip = CHR ''['' then
            (if 1 \<le> idx - 1 then Some (drop 1 (take (idx - 1) ip)) else None)
          else Some (take idx ip))"

definition IPFromRequest :: "http_request \<Rightarrow> string option" where
  "IPFromRequest r = strip_port (if hdr_XFF r = [] then remote_addr r else hdr_XFF r)"

definition apiKeyKeyFromContext :: "string \<Rightarrow> http_request \<Rightarrow> string option" where
  "apiKeyKeyFromContext ctx_key r =
     (if ctx_key \<noteq> [] then Some ctx_key
      else
        (let xff = (case IndexByte (hdr_XFF r) (CHR '','') of
                      Some i \<Rightarrow> take i (hdr_XFF r) | None \<Rightarrow> hdr_XFF r);
             ip = TrimSpace xff
         in if hdr_XFF r \<noteq> [] \<and> ip \<noteq> [] then Some ip
            else if hdr_XRealIP r \<noteq> [] then Some (hdr_XRealIP r)
            else IPFromRequest r))"

subsection \<open>The contract and its window guarantee\<close>

datatype limiter_event = Request int string | Sweep int

fun event_time :: "limiter_event \<Rightarrow> int" where
  "event_time (Request t _) = t"
| "event_time (Sweep t) = t"

text \<open>The times at which requests for one key were let through.\<close>

fun accepted ::
  "(int \<Rightarrow> string \<Rightarrow> 's \<Rightarrow> bool \<times> 's) \<Rightarrow> (int \<Rightarrow> 's \<Rightarrow> 's) \<Rightarrow> string \<Rightarrow> limiter_event list \<Rightarrow> 's \<Rightarrow> int list" where
  "accepted step sweep key [] s = []"
| "accepted step sweep key (Request t k # es) s =
     (case step t k s of
        (ok, s') \<Rightarrow> (if ok \<and> k = key then [t] else []) @ accepted step sweep key es s')"
| "accepted step sweep key (Sweep t # es) s = accepted step sweep key es (sweep t s)"

locale rate_limiter =
  fixes step :: "int \<Rightarrow> string \<Rightarrow> 's \<Rightarrow> bool \<times> 's"
    and sweep :: "int \<Rightarrow> 's \<Rightarrow> 's"
    and log :: "'s \<Rightarrow> string \<Rightarrow> int list"
    and limit :: "'s \<Rightarrow> int"
    and window :: "'s \<Rightarrow> int"
  assumes step_ok: "step t k s = (True, s') \<Longrightarrow>
      log s' k = in_window t (window s) (log s k) @ [t] \<and>
      int (length (in_window t (window s) (log s k))) < limit s"
    and step_refuse: "step t k s = (False, s') \<Longrightarrow>
      log s' k = in_window t (window s) (log s k) \<and>
      limit s \<le> int (length (in_window t (window s) (log s k)))"
    and step_other: "step t k s = (b, s') \<Longrightarrow> k' \<noteq> k \<Longrightarrow> log s' k' = log s k'"
    and step_config: "step t k s = (b, s') \<Longrightarrow> limit s' = limit s \<and> window s' = window s"
    and sweep_log: "log (sweep t s) k = in_window t (window s) (log s k)"
    and sweep_config: "limit (sweep t s) = limit s \<and> window (sweep t s) = window s"
begin

lemma log_filter:
  "log s key = filter (\<lambda>a. c < a) H \<Longrightarrow> c \<le> t - window s \<Longrightarrow>
     in_window t (window s) (log s key) = filter (\<lambda>a. t - window s < a) H"
  by (auto simp: in_window_def intro: filter_cong)

lemma accepted_window_from:
  assumes "log s key = filter (\<lambda>a. c < a) H" and "\<forall>e \<in> set es. c \<le> event_time e - window s"
    and "sorted (map event_time es)" and "\<forall>a \<in> set H. \<forall>e \<in> set es. a \<le> event_time e"
    and "0 < window s"
    and "\<And>t. int (length (filter (\<lambda>a. t - window s < a \<and> a \<le> t) H)) \<le> max 0 (limit s)"
  shows "int (length (filter (\<lambda>a. t - window s < a \<and> a \<le> t) (H @ accepted step sweep key es s)))
           \<le> max 0 (limit s)"
  using assms
proof (induction es arbitrary: s H c)
  case Nil
  then show ?case by simp
next
  case (Cons e es)
  let ?w = "window s"
  have later: "\<forall>f \<in> set es. event_time e \<le> event_time f" using Cons.prems(3) by auto
  have valid: "in_window (event_time e) ?w (log s key) = filter (\<lambda>a. event_time e - ?w < a) H"
    using log_filter [OF Cons.prems(1)] Cons.prems(2) by auto
  show ?case
  proof (cases e)
    case (Sweep t0)
    note IH = Cons.IH [of "sweep t0 s" "t0 - ?w" H]
    show ?thesis
      using IH valid Cons.prems(3-6) later sweep_log [of t0 s key] sweep_config [of t0 s]
      by (simp add: Sweep)
  next
    case (Request t0 k)
    obtain ok s1 where st: "step t0 k s = (ok, s1)" by (cases "step t0 k s")
    note conf = step_config [OF st]
    show ?thesis
    proof (cases "k = key")
      case other: False
      have "log s1 key = log s key" using step_other [OF st] other by auto
      then show ?thesis
        using Cons.IH [of s1 c H] Cons.prems st conf other by (simp add: Request)
    next
      case same: True
      show ?thesis
      proof (cases ok)
        case False
        have "log s1 key = filter (\<lambda>a. t0 - ?w < a) H"
          using step_refuse [of t0 key s s1] st same False valid by (simp add: Request)
        then show ?thesis
          using Cons.IH [of s1 "t0 - ?w" H] Cons.prems(3-6) st conf later False
          by (simp add: Request)
      next
        case True
        have lg: "log s1 key = filter (\<lambda>a. t0 - ?w < a) (H @ [t0])"
          and room: "int (length (filter (\<lambda>a. t0 - ?w < a) H)) < limit s"
          using step_ok [of t0 key s s1] st same True valid Cons.prems(5) by (simp_all add: Request)
        have bound: "int (length (filter (\<lambda>a. t - ?w < a \<and> a \<le> t) (H @ [t0]))) \<le> max 0 (limit s)" for t
        proof (cases "t - ?w < t0 \<and> t0 \<le> t")
          case True
          have "length (filter (\<lambda>a. t - ?w < a \<and> a \<le> t) H) \<le> length (filter (\<lambda>a. t0 - ?w < a) H)"
          proof -
            have "filter (\<lambda>a. t - ?w < a \<and> a \<le> t) H =
                filter (\<lambda>a. t - ?w < a \<and> a \<le> t) (filter (\<lambda>a. t0 - ?w < a) H)"
              using True by (auto intro: filter_cong)
            then show ?thesis by (metis length_filter_le)
          qed
          then show ?thesis using True room by simp
        next
          case False
          then show ?thesis using Cons.prems(6) [of t] by auto
        qed
        show ?thesis
          using Cons.IH [of s1 "t0 - ?w" "H @ [t0]"] lg bound Cons.prems(3-5) st conf later True same
          by (auto simp: Request)
      qed
    qed
  qed
qed

text \<open>However requests and sweeps interleave, no window lets more than the limit through.\<close>

lemma accepted_window:
  assumes "log s key = []" and "sorted (map event_time es)"
  shows "int (length (filter (\<lambda>a. t - window s < a \<and> a \<le> t) (accepted step sweep key es s)))
           \<le> max 0 (limit s)"
proof (cases "0 < window s")
  case True
  show ?thesis
  proof (cases es)
    case Nil
    then show ?thesis by simp
  next
    case (Cons e es')
    then have "\<forall>f \<in> set es. event_time e - window s \<le> event_time f - window s"
      using assms(2) by auto
    from accepted_window_from [OF _ this assms(2) _ True, of key "[]"] assms(1)
    show ?thesis by simp
  qed
next
  case False
  then have "filter (\<lambda>a. t - window s < a \<and> a \<le> t) (accepted step sweep key es s) = []"
    by (auto simp: filter_empty_conv)
  then show ?thesis by simp
qed

end

subsection \<open>Both limiters meet the contract\<close>

lemma bucket_upd [simp]:
  "bucket (reqs(k \<mapsto> ts)) k' = (if k' = k then ts else bucket reqs k')"
  by (simp add: bucket_def)

lemma bucket_prune: "bucket (prune now w reqs) k = in_window now w (bucket reqs k)"
  by (auto simp: bucket_def prune_def in_window_def Let_def split: option.splits)

definition allow_bool :: "int \<Rightarrow> string \<Rightarrow> apiKeyRateLimiter \<Rightarrow> bool \<times> apiKeyRateLimiter" where
  "allow_bool now key l =
     (case allow now key l of (Some (ok, _), l') \<Rightarrow> (ok, l') | (None, l') \<Rightarrow> (False, l'))"

interpretation rl: rate_limiter Allow cleanup "\<lambda>l. bucket (rl_requests l)" rl_limit rl_window
  by unfold_locales
    (auto simp: Allow_def cleanup_def bucket_prune Let_def not_le split: if_splits)

interpretation ak: rate_limiter allow_bool api_cleanup "\<lambda>l. bucket (ak_requests l)" ak_limit ak_window
  by unfold_locales
    (auto simp: allow_bool_def allow_def api_cleanup_def bucket_prune Let_def not_le
      split: if_splits list.splits)

subsection \<open>Properties\<close>

text \<open>C11: neither limiter ever lets more than its limit of requests for one key through in any
  window of time, whatever the other keys do and whenever the clean-up runs, as long as the clock
  readings do not go backwards and the key starts with an empty bucket.\<close>

theorem limiters_bound_every_window:
  assumes "sorted (map event_time es)"
  shows "(rl_requests l key = None \<longrightarrow>
      int (length (filter (\<lambda>a. t - rl_window l < a \<and> a \<le> t) (accepted Allow cleanup key es l)))
        \<le> max 0 (rl_limit l)) \<and>
    (ak_requests l' key = None \<longrightarrow>
      int (length (filter (\<lambda>a. t - ak_window l' < a \<and> a \<le> t)
                     (accepted allow_bool api_cleanup key es l'))) \<le> max 0 (ak_limit l'))"
  using rl.accepted_window [OF _ assms, of l key t] ak.accepted_window [OF _ assms, of l' key t]
  by (auto simp: bucket_def)

theorem limiters_bound_every_window_witness:
  "accepted Allow cleanup ''ip'' [Request 0 ''ip'', Request 3 ''ip'', Request 5 ''ip'', Sweep 9, Request 10 ''ip'']
     (NewRateLimiter 2 10) = [0, 3, 10] \<and>
   int (length (filter (\<lambda>a. 10 - 10 < a \<and> a \<le> 10)
     (accepted Allow cleanup ''ip'' [Request 0 ''ip'', Request 3 ''ip'', Request 5 ''ip'', Sweep 9, Request 10 ''ip'']
       (NewRateLimiter 2 10)))) \<le> 2"
proof -
  let ?es = "[Request 0 ''ip'', Request 3 ''ip'', Request 5 ''ip'', Sweep 9, Request 10 ''ip'']"
  have "accepted Allow cleanup ''ip'' ?es (NewRateLimiter 2 10) = [0, 3, 10]"
    by (simp add: Allow_def cleanup_def NewRateLimiter_def in_window_def bucket_def prune_def Let_def)
  moreover have "sorted (map event_time ?es)" by simp
  from limiters_bound_every_window [OF this, of "NewRateLimiter 2 10" "''ip''" 10 "NewAPIKeyRateLimiter 2 10"]
  have "int (length (filter (\<lambda>a. 10 - 10 < a \<and> a \<le> 10) (accepted Allow cleanup ''ip'' ?es (NewRateLimiter 2 10)))) \<le> 2"
    by (simp add: NewRateLimiter_def)
  ultimately show ?thesis by blast
qed

lemma in_window_later:
  assumes "sorted ts" and "ts \<noteq> []" and "hd ts + w \<le> now"
  shows "length (in_window now w ts) < length ts"
proof -
  obtain x xs where ts: "ts = x # xs" using assms(2) by (cases ts) auto
  then have "\<not> now - w < x" using assms(3) by simp
  then have "in_window now w ts = in_window now w xs" by (simp add: in_window_def ts)
  also have "length (in_window now w xs) \<le> length xs" by (simp add: in_window_def)
  finally show ?thesis by (simp add: ts)
qed

lemma in_window_idem: "now \<le> later \<Longrightarrow> in_window later w (in_window now w ts) = in_window later w ts"
  by (auto simp: in_window_def intro: filter_cong)

lemma sorted_in_window: "sorted ts \<Longrightarrow> sorted (in_window now w ts)"
  by (simp add: in_window_def sorted_wrt_filter)

text \<open>A refused client that waits the number of seconds its Retry-After header names is let
  through: the wait the limiter computes is between zero and the window, and the header rounds it
  up.\<close>

theorem retry_after_suffices:
  assumes "sorted (bucket (ak_requests l) key)" and "int (length (bucket (ak_requests l) key)) \<le> ak_limit l"
    and "key \<noteq> []" and "apiKey_Middleware now key l = (TooManyRequests (Some secs), l')"
    and "now + secs * 1000000000 \<le> later" and "\<forall>t \<in> set (bucket (ak_requests l) key). t \<le> now"
  shows "fst (apiKey_Middleware later key l') = Served \<and> 1 \<le> secs \<and>
    (secs - 1) * 1000000000 \<le> ak_window l"
proof -
  let ?w = "ak_window l" and ?b = "bucket (ak_requests l) key"
  let ?v = "in_window now ?w ?b"
  obtain d where d: "allow now key l = (Some (False, d), l')" and secs: "secs = retry_after_seconds d"
    using assms(3,4)
    by (auto simp: apiKey_Middleware_def split: prod.splits option.splits bool.splits)
  then have full: "ak_limit l \<le> int (length ?v)" and ne: "?v \<noteq> []" and dv: "d = hd ?v + ?w - now"
    and l': "l' = l\<lparr>ak_requests := (ak_requests l)(key \<mapsto> ?v)\<rparr>"
    by (auto simp: allow_def Let_def split: if_splits list.splits)
  have mem: "hd ?v \<in> set ?v" using ne by (rule hd_in_set)
  then have pos: "0 < d" and le: "d \<le> ?w"
    using assms(6) dv by (auto simp: in_window_def)
  have up: "d \<le> secs * 1000000000" and s1: "1 \<le> secs" and s2: "(secs - 1) * 1000000000 \<le> d"
    using pos unfolding secs retry_after_seconds_def by auto
  have "length (in_window later ?w ?v) < length ?v"
    using in_window_later [OF sorted_in_window [OF assms(1)] ne, of ?w later] assms(5) up dv by simp
  moreover have "length ?v \<le> length ?b" by (simp add: in_window_def)
  ultimately have "int (length (in_window later ?w ?v)) < ak_limit l"
    using assms(2) by linarith
  then have "fst (apiKey_Middleware later key l') = Served"
    using assms(3) by (simp add: apiKey_Middleware_def allow_def l' Let_def)
  with s1 s2 le show ?thesis by simp
qed

theorem retry_after_suffices_witness:
  "(let l = (NewAPIKeyRateLimiter 1 2500000000)\<lparr>ak_requests := [''k'' \<mapsto> [1000000000]]\<rparr> in
    fst (apiKey_Middleware 2000000000 ''k'' l) = TooManyRequests (Some 2) \<and>
    fst (apiKey_Middleware 4000000000 ''k'' (snd (apiKey_Middleware 2000000000 ''k'' l))) = Served)"
proof -
  let ?l = "(NewAPIKeyRateLimiter 1 2500000000)\<lparr>ak_requests := [''k'' \<mapsto> [1000000000]]\<rparr>"
  obtain l' where run: "apiKey_Middleware 2000000000 ''k'' ?l = (TooManyRequests (Some 2), l')"
    by (simp add: apiKey_Middleware_def allow_def NewAPIKeyRateLimiter_def in_window_def bucket_def
        retry_after_seconds_def Let_def)
  have "fst (apiKey_Middleware 4000000000 ''k'' l') = Served \<and> 1 \<le> (2 :: int) \<and>
      (2 - 1) * 1000000000 \<le> ak_window ?l"
    by (rule retry_after_suffices [OF _ _ _ run])
      (simp_all add: bucket_def NewAPIKeyRateLimiter_def)
  with run show ?thesis by simp
qed

lemma LastIndexByte_append:
  "c \<notin> set b \<Longrightarrow> LastIndexByte (a @ c # b) c = Some (length a)"
proof -
  assume c: "c \<notin> set b"
  then have "LastIndexByte b c = None" by (induction b) auto
  then show ?thesis by (induction a) auto
qed

text \<open>The port is stripped from the address of the peer, with and without the brackets of an
  IPv6 address; but a client that sends the two characters of an opening bracket and a colon as
  its X-Forwarded-For header makes the address extraction panic.\<close>

theorem IPFromRequest_cases:
  assumes "host \<noteq> []" and "hd host \<noteq> CHR ''[''" and "CHR '':'' \<notin> set port" and "h6 \<noteq> []"
  shows "IPFromRequest \<lparr>hdr_XFF = [], hdr_XRealIP = x, remote_addr = host @ '':'' @ port\<rparr> = Some host \<and>
    IPFromRequest \<lparr>hdr_XFF = [], hdr_XRealIP = x, remote_addr = ''['' @ h6 @ '']:'' @ port\<rparr> = Some h6 \<and>
    IPFromRequest \<lparr>hdr_XFF = ''[:'', hdr_XRealIP = x, remote_addr = a\<rparr> = None"
proof -
  have "LastIndexByte (host @ CHR '':'' # port) CHR '':'' = Some (length host)"
    by (rule LastIndexByte_append [OF assms(3)])
  then have 1: "strip_port (host @ '':'' @ port) = Some host"
    using assms(1,2) by (auto simp: strip_port_def lastIndex_def hd_append)
  have "LastIndexByte (((CHR ''['' # h6) @ [CHR '']'']) @ CHR '':'' # port) CHR '':'' = Some (Suc (Suc (length h6)))"
    by (subst LastIndexByte_append [OF assms(3)]) simp
  then have 2: "strip_port (''['' @ h6 @ '']:'' @ port) = Some h6"
    using assms(4) by (simp add: strip_port_def lastIndex_def take_Cons')
  have 3: "strip_port ''[:'' = None"
    by (simp add: strip_port_def lastIndex_def)
  show ?thesis using 1 2 3 by (simp add: IPFromRequest_def)
qed

theorem IPFromRequest_cases_witness:
  "IPFromRequest \<lparr>hdr_XFF = [], hdr_XRealIP = [], remote_addr = ''10.0.0.7:5123''\<rparr> = Some ''10.0.0.7'' \<and>
   IPFromRequest \<lparr>hdr_XFF = ''[:'', hdr_XRealIP = [], remote_addr = ''10.0.0.7:5123''\<rparr> = None"
  using IPFromRequest_cases [of "''10.0.0.7''" "''5123''" "''::1''" "[]" "''10.0.0.7:5123''"]
  by simp

end
