(* ===== verification/ApiKeys.thy ===== *)
theory ApiKeys
  imports Tables Go_Strings
begin

text \<open>
  API keys: internal/apikeys/service.go over the table api_keys (migrations 0014 and 0026), the
  user-api authentication of internal/api/apikey_middleware.go, the scope check of
  user_api_handlers.go and the handlers of apikey_handlers.go. crypto/rand and bcrypt are
  arguments: the bytes drawn, the hash of a password and the comparison. Times are nanoseconds;
  a timestamp column keeps microseconds.
\<close>

subsection \<open>Types and the table\<close>

datatype apikey_error =
    ErrKeyNotFound
  | ErrKeyRevoked
  | ErrKeyExpired
  | ErrNonceTooOld
  | ErrNonceReplayed
  | ErrBadSignature
  | ErrClockSkew
  | ErrKey string

definition ScopeRead :: string where "ScopeRead = ''read''"
definition ScopeTrade :: string where "ScopeTrade = ''trade''"
definition ScopeWithdraw :: string where "ScopeWithdraw = ''withdraw''"

record Key =
  k_ID :: uuid
  k_UserID :: uuid
  k_Name :: string
  k_KeyID :: string
  k_KeyHash :: string
  k_Scopes :: "string list"
  k_LastUsedAt :: "int option"
  k_ExpiresAt :: "int option"
  k_Revoked :: bool
  k_CreatedAt :: int
  k_LastNonce :: int

record HMACVerifyResult =
  hv_Key :: Key
  hv_Scopes :: "string list"
  hv_Nonce :: int

text \<open>The table has the columns of the Go type; users is the table user_id refers to.\<close>

record apikey_db = env +
  key_users :: "uuid list"
  api_keys :: "Key list"

definition pg_time :: "int \<Rightarrow> int" where
  "pg_time t = t div 1000 * 1000"

definition update_keys ::
  "(Key \<Rightarrow> bool) \<Rightarrow> (Key \<Rightarrow> Key) \<Rightarrow> 'x apikey_db_scheme \<Rightarrow> (nat \<times> 'x apikey_db_scheme) option" where
  "update_keys P f s =
     map_option (\<lambda>(n, ks). (n, s\<lparr>api_keys := ks\<rparr>)) (tbl_update P (\<lambda>k. Some (f k)) (api_keys s))"

definition insert_key ::
  "int \<Rightarrow> Key \<Rightarrow> 'x apikey_db_scheme \<Rightarrow> (nat \<times> 'x apikey_db_scheme) option" where
  "insert_key db_now k s =
     (if k_UserID k \<in> set (key_users s) \<and> k_KeyID k \<notin> set (map k_KeyID (api_keys s))
      then map_option (\<lambda>ks. (1, s\<lparr>api_keys := ks\<rparr>))
             (tbl_insert k_ID
               (k\<lparr>k_LastUsedAt := None, k_ExpiresAt := map_option pg_time (k_ExpiresAt k),
                  k_Revoked := False, k_CreatedAt := pg_time db_now, k_LastNonce := 0\<rparr>) (api_keys s))
      else None)"

subsection \<open>The service\<close>

definition Generate ::
  "(string \<Rightarrow> string option) \<Rightarrow> nat list option \<Rightarrow> uuid \<Rightarrow> int \<Rightarrow> int \<Rightarrow> uuid \<Rightarrow> string \<Rightarrow> string list
    \<Rightarrow> int option \<Rightarrow> 'x apikey_db_scheme \<Rightarrow> (apikey_error + Key \<times> string) \<times> 'x apikey_db_scheme" where
  "Generate hash rnd new_id now db_now userID name scopes expiresAt s =
     (if name = [] then (Inl (ErrKey ''name required''), s)
      else
        (case rnd of
           None \<Rightarrow> (Inl (ErrKey ''rand failed''), s)
         | Some secretBytes \<Rightarrow>
             (let secret = hex_encode secretBytes;
                  keyID = ''gk_live_'' @ take 8 secret;
                  fullKey = keyID @ ''_'' @ drop 8 secret
              in (case hash fullKey of
                    None \<Rightarrow> (Inl (ErrKey ''bcrypt''), s)
                  | Some h \<Rightarrow>
                      (let key = \<lparr>k_ID = new_id, k_UserID = userID, k_Name = name, k_KeyID = keyID,
                              k_KeyHash = h, k_Scopes = (if scopes = [] then [ScopeRead] else scopes),
                              k_LastUsedAt = None, k_ExpiresAt = expiresAt, k_Revoked = False,
                              k_CreatedAt = now, k_LastNonce = 0\<rparr>
                       in (case exec_stmt (insert_key db_now key) s of
                             (None, s') \<Rightarrow> (Inl (ErrKey ''database''), s')
                           | (Some _, s') \<Rightarrow> (Inr (key, fullKey), s')))))))"

text \<open>The readers do not select last_nonce, which stays at the zero value.\<close>

definition List_keys ::
  "uuid \<Rightarrow> 'x apikey_db_scheme \<Rightarrow> (apikey_error + Key list) \<times> 'x apikey_db_scheme" where
  "List_keys userID s =
     (case query (\<lambda>t. map (\<lambda>k. k\<lparr>k_LastNonce := 0\<rparr>)
                        (sort_key (\<lambda>k. - k_CreatedAt k) (filter (\<lambda>k. k_UserID k = userID) (api_keys t)))) s of
        (None, s') \<Rightarrow> (Inl (ErrKey ''database''), s')
      | (Some ks, s') \<Rightarrow> (Inr ks, s'))"

definition Revoke ::
  "uuid \<Rightarrow> uuid \<Rightarrow> 'x apikey_db_scheme \<Rightarrow> (apikey_error + unit) \<times> 'x apikey_db_scheme" where
  "Revoke userID keyID s =
     (case exec_stmt (update_keys (\<lambda>k. k_ID k = keyID \<and> k_UserID k = userID) (\<lambda>k. k\<lparr>k_Revoked := True\<rparr>)) s of
        (None, s') \<Rightarrow> (Inl (ErrKey ''database''), s')
      | (Some n, s') \<Rightarrow> (if n = 0 then Inl ErrKeyNotFound else Inr (), s'))"

definition key_id_of :: "string \<Rightarrow> string option" where
  "key_id_of fullKey =
     (if \<not> HasPrefix fullKey ''gk_'' then None
      else (case SplitN 4 (CHR ''_'') fullKey of
              a # b # c # _ \<Rightarrow> Some (a @ ''_'' @ b @ ''_'' @ c)
            | _ \<Rightarrow> None))"

definition find_live_key ::
  "string \<Rightarrow> 'x apikey_db_scheme \<Rightarrow> Key option option \<times> 'x apikey_db_scheme" where
  "find_live_key keyID = query (\<lambda>t. find (\<lambda>k. k_KeyID k = keyID \<and> \<not> k_Revoked k) (api_keys t))"

definition expired :: "int \<Rightarrow> Key \<Rightarrow> bool" where
  "expired now k = (case k_ExpiresAt k of None \<Rightarrow> False | Some e \<Rightarrow> e < now)"

definition Authenticate ::
  "(string \<Rightarrow> string \<Rightarrow> bool) \<Rightarrow> int \<Rightarrow> string \<Rightarrow> 'x apikey_db_scheme
    \<Rightarrow> (apikey_error + Key) \<times> 'x apikey_db_scheme" where
  "Authenticate compare now fullKey s =
     (case key_id_of fullKey of
        None \<Rightarrow> (Inl (ErrKey ''invalid key format''), s)
      | Some keyID \<Rightarrow>
          (case find_live_key keyID s of
             (Some (Some k), s1) \<Rightarrow>
               if expired now k then (Inl ErrKeyExpired, s1)
               else if \<not> compare (k_KeyHash k) fullKey then (Inl (ErrKey ''invalid key''), s1)
               else (Inr (k\<lparr>k_LastNonce := 0\<rparr>), s1)
           | (_, s1) \<Rightarrow> (Inl ErrKeyNotFound, s1)))"

text \<open>The update Authenticate starts in the background; its result is dropped.\<close>

definition touch_last_used :: "int \<Rightarrow> uuid \<Rightarrow> 'x apikey_db_scheme \<Rightarrow> 'x apikey_db_scheme" where
  "touch_last_used db_now keyID s =
     snd (exec_stmt (update_keys (\<lambda>k. k_ID k = keyID) (\<lambda>k. k\<lparr>k_LastUsedAt := Some (pg_time db_now)\<rparr>)) s)"

subsection \<open>Validating a request\<close>

text \<open>
  ValidateRequest reads the key, checks it, and then claims the nonce with one guarded UPDATE.
  The two halves are separate definitions because requests of one key interleave between them.
\<close>

definition skewMs :: int where
  "skewMs = 5 * 60 * 1000"

definition check_key :: "(string \<Rightarrow> string \<Rightarrow> bool) \<Rightarrow> int \<Rightarrow> string \<Rightarrow> int \<Rightarrow> Key \<Rightarrow> apikey_error option" where
  "check_key compare now fullKey nonce k =
     (let nowMs = now div 1000000 in
      if expired now k then Some ErrKeyExpired
      else if nonce < nowMs - skewMs \<or> nowMs + skewMs < nonce then Some ErrClockSkew
      else if nonce \<le> k_LastNonce k then Some ErrNonceReplayed
      else if \<not> compare (k_KeyHash k) fullKey then Some ErrKeyNotFound
      else None)"

definition validate_check ::
  "(string \<Rightarrow> string \<Rightarrow> bool) \<Rightarrow> int \<Rightarrow> string \<Rightarrow> int \<Rightarrow> 'x apikey_db_scheme
    \<Rightarrow> (apikey_error + Key) \<times> 'x apikey_db_scheme" where
  "validate_check compare now fullKey nonce s =
     (case key_id_of fullKey of
        None \<Rightarrow> (Inl ErrKeyNotFound, s)
      | Some keyID \<Rightarrow>
          (case find_live_key keyID s of
             (Some (Some k), s1) \<Rightarrow>
               (case check_key compare now fullKey nonce k of
                  Some e \<Rightarrow> (Inl e, s1)
                | None \<Rightarrow> (Inr k, s1))
           | (_, s1) \<Rightarrow> (Inl ErrKeyNotFound, s1)))"

definition claim_nonce ::
  "int \<Rightarrow> uuid \<Rightarrow> int \<Rightarrow> 'x apikey_db_scheme \<Rightarrow> (nat \<times> 'x apikey_db_scheme) option" where
  "claim_nonce db_now keyID nonce =
     update_keys (\<lambda>k. k_ID k = keyID \<and> k_LastNonce k < nonce)
       (\<lambda>k. k\<lparr>k_LastUsedAt := Some (pg_time db_now), k_LastNonce := nonce\<rparr>)"

definition validate_commit ::
  "int \<Rightarrow> Key \<Rightarrow> int \<Rightarrow> 'x apikey_db_scheme \<Rightarrow> (apikey_error + HMACVerifyResult) \<times> 'x apikey_db_scheme" where
  "validate_commit db_now k nonce s =
     (case exec_stmt (claim_nonce db_now (k_ID k) nonce) s of
        (None, s') \<Rightarrow> (Inl (ErrKey ''nonce update''), s')
      | (Some n, s') \<Rightarrow>
          (if n = 0 then (Inl ErrNonceReplayed, s')
           else (Inr \<lparr>hv_Key = k, hv_Scopes = k_Scopes k, hv_Nonce = nonce\<rparr>, s')))"

definition ValidateRequest ::
  "(string \<Rightarrow> string \<Rightarrow> bool) \<Rightarrow> int \<Rightarrow> int \<Rightarrow> string \<Rightarrow> int \<Rightarrow> 'x apikey_db_scheme
    \<Rightarrow> (apikey_error + HMACVerifyResult) \<times> 'x apikey_db_scheme" where
  "ValidateRequest compare now db_now fullKey nonce s =
     (case validate_check compare now fullKey nonce s of
        (Inl e, s1) \<Rightarrow> (Inl e, s1)
      | (Inr k, s1) \<Rightarrow> validate_commit db_now k nonce s1)"

subsection \<open>The middleware and the handlers\<close>

fun authReasonForError :: "apikey_error \<Rightarrow> string" where
  "authReasonForError ErrKeyNotFound = ''key_not_found''"
| "authReasonForError ErrKeyRevoked = ''key_not_found''"
| "authReasonForError ErrKeyExpired = ''key_expired''"
| "authReasonForError ErrClockSkew = ''clock_skew''"
| "authReasonForError ErrNonceReplayed = ''nonce_replayed''"
| "authReasonForError ErrNonceTooOld = ''clock_skew''"
| "authReasonForError _ = ''bad_signature''"

record auth_context =
  ctx_user :: uuid
  ctx_scopes :: "string list"
  ctx_apikey :: string

text \<open>The left value is the X-Auth-Reason of the 401 answer; the right one what the handlers see.\<close>

definition userAPIKeyAuth ::
  "(string \<Rightarrow> string \<Rightarrow> bool) \<Rightarrow> int \<Rightarrow> int \<Rightarrow> string \<Rightarrow> string \<Rightarrow> 'x apikey_db_scheme
    \<Rightarrow> (string + auth_context) \<times> 'x apikey_db_scheme" where
  "userAPIKeyAuth compare now db_now fullKey nonceHeader s =
     (let nonceStr = TrimSpace nonceHeader in
      if fullKey = [] \<or> nonceStr = [] then (Inl ''missing_headers'', s)
      else
        (case ParseInt64 nonceStr of
           None \<Rightarrow> (Inl ''bad_nonce_format'', s)
         | Some nonce \<Rightarrow>
             if nonce \<le> 0 then (Inl ''bad_nonce_format'', s)
             else
               (case ValidateRequest compare now db_now fullKey nonce s of
                  (Inl e, s') \<Rightarrow> (Inl (authReasonForError e), s')
                | (Inr res, s') \<Rightarrow>
                    (Inr \<lparr>ctx_user = k_UserID (hv_Key res), ctx_scopes = hv_Scopes res,
                          ctx_apikey = k_KeyID (hv_Key res)\<rparr>, s'))))"

definition ScopesFromContext :: "auth_context option \<Rightarrow> string list" where
  "ScopesFromContext c = (case c of None \<Rightarrow> [] | Some a \<Rightarrow> ctx_scopes a)"

definition HasScope :: "auth_context option \<Rightarrow> string \<Rightarrow> bool" where
  "HasScope c scope = list_ex (\<lambda>s. s = scope) (ScopesFromContext c)"

text \<open>\<open>None\<close> is the 403 answer.\<close>

definition requireScope :: "string \<Rightarrow> (auth_context option \<Rightarrow> 'r) \<Rightarrow> auth_context option \<Rightarrow> 'r option" where
  "requireScope scope handler c = (if HasScope c scope then Some (handler c) else None)"

record create_body =
  cb_name :: string
  cb_scopes :: "string list"
  cb_expires_in_days :: int

definition validScopes :: "string list" where
  "validScopes = [ScopeRead, ScopeTrade, ScopeWithdraw]"

definition day_ns :: int where
  "day_ns = 86400 * 1000000000"

definition set_expiry :: "int \<Rightarrow> uuid \<Rightarrow> int \<Rightarrow> 'x apikey_db_scheme \<Rightarrow> nat option \<times> 'x apikey_db_scheme" where
  "set_expiry db_now keyID days =
     exec_stmt (update_keys (\<lambda>k. k_ID k = keyID)
       (\<lambda>k. k\<lparr>k_ExpiresAt := Some (pg_time db_now + days * day_ns)\<rparr>))"

text \<open>The left value is the HTTP status of an error answer.\<close>

definition createAPIKeyHandler ::
  "(string \<Rightarrow> string option) \<Rightarrow> nat list option \<Rightarrow> uuid \<Rightarrow> int \<Rightarrow> int \<Rightarrow> uuid \<Rightarrow> create_body option
    \<Rightarrow> 'x apikey_db_scheme \<Rightarrow> (nat + Key \<times> string) \<times> 'x apikey_db_scheme" where
  "createAPIKeyHandler hash rnd new_id now db_now uid body s =
     (case body of
        None \<Rightarrow> (Inl 400, s)
      | Some b \<Rightarrow>
          if cb_name b = [] then (Inl 400, s)
          else if list_ex (\<lambda>sc. sc \<notin> set validScopes) (cb_scopes b) then (Inl 400, s)
          else
            (case Generate hash rnd new_id now db_now uid (cb_name b)
                    (if cb_scopes b = [] then [ScopeRead] else cb_scopes b) None s of
               (Inl _, s1) \<Rightarrow> (Inl 500, s1)
             | (Inr (key, secret), s1) \<Rightarrow>
                 if 0 < cb_expires_in_days b then
                   (if 365 < cb_expires_in_days b then (Inl 400, s1)
                    else
                      (case set_expiry db_now (k_ID key) (cb_expires_in_days b) s1 of
                         (None, s2) \<Rightarrow> (Inr (key, secret), s2)
                       | (Some _, s2) \<Rightarrow>
                           (Inr (key\<lparr>k_ExpiresAt := Some (now + cb_expires_in_days b * day_ns)\<rparr>, secret), s2)))
                 else (Inr (key, secret), s1)))"

definition userAPIKeysHandler ::
  "uuid \<Rightarrow> 'x apikey_db_scheme \<Rightarrow> (nat + Key list \<times> nat) \<times> 'x apikey_db_scheme" where
  "userAPIKeysHandler uid s =
     (case List_keys uid s of
        (Inl _, s') \<Rightarrow> (Inl 500, s')
      | (Inr ks, s') \<Rightarrow> (Inr (ks, length ks), s'))"

definition revokeAPIKeyHandler ::
  "uuid \<Rightarrow> uuid option \<Rightarrow> 'x apikey_db_scheme \<Rightarrow> (nat + unit) \<times> 'x apikey_db_scheme" where
  "revokeAPIKeyHandler uid keyID s =
     (case keyID of
        None \<Rightarrow> (Inl 400, s)
      | Some kid \<Rightarrow>
          (case Revoke uid kid s of
             (Inl e, s') \<Rightarrow> (Inl (if e = ErrKeyNotFound then 404 else 500), s')
           | (Inr _, s') \<Rightarrow> (Inr (), s')))"

subsection \<open>What the operations keep\<close>

definition wf_keys :: "'x apikey_db_scheme \<Rightarrow> bool" where
  "wf_keys s \<longleftrightarrow> distinct (map k_ID (api_keys s)) \<and> distinct (map k_KeyID (api_keys s))"

definition key_row :: "uuid \<Rightarrow> 'x apikey_db_scheme \<Rightarrow> Key option" where
  "key_row i s = tbl_find k_ID i (api_keys s)"

lemma key_row_mem: "key_row i s = Some k \<Longrightarrow> k \<in> set (api_keys s) \<and> k_ID k = i"
  unfolding key_row_def by (rule tbl_find_SomeD)

lemma key_row_unique: "wf_keys s \<Longrightarrow> k \<in> set (api_keys s) \<Longrightarrow> key_row (k_ID k) s = Some k"
proof -
  assume a: "wf_keys s" "k \<in> set (api_keys s)"
  have "distinct (map k_ID ks) \<Longrightarrow> k \<in> set ks \<Longrightarrow> tbl_find k_ID (k_ID k) ks = Some k" for ks
    by (induction ks) (auto simp: tbl_find_def)
  with a show ?thesis by (simp add: wf_keys_def key_row_def)
qed

text \<open>
  Every statement the service sends keeps the identities of the keys, never lowers a nonce, and
  never makes a revoked key live again.
\<close>

definition keys_grow :: "'x apikey_db_scheme \<Rightarrow> 'x apikey_db_scheme \<Rightarrow> bool" where
  "keys_grow s s' \<longleftrightarrow>
     (\<forall>i k. key_row i s = Some k \<longrightarrow>
        (\<exists>k'. key_row i s' = Some k' \<and> k_LastNonce k \<le> k_LastNonce k' \<and>
              k_KeyID k' = k_KeyID k \<and> (k_Revoked k \<longrightarrow> k_Revoked k')))"

lemma keys_grow_refl [simp]: "keys_grow s s"
  by (simp add: keys_grow_def)

lemma keys_grow_trans: "keys_grow s t \<Longrightarrow> keys_grow t u \<Longrightarrow> keys_grow s u"
  unfolding keys_grow_def
proof (intro allI impI)
  fix i k
  assume st: "\<forall>i k. key_row i s = Some k \<longrightarrow> (\<exists>k'. key_row i t = Some k' \<and>
      k_LastNonce k \<le> k_LastNonce k' \<and> k_KeyID k' = k_KeyID k \<and> (k_Revoked k \<longrightarrow> k_Revoked k'))"
    and tu: "\<forall>i k. key_row i t = Some k \<longrightarrow> (\<exists>k'. key_row i u = Some k' \<and>
      k_LastNonce k \<le> k_LastNonce k' \<and> k_KeyID k' = k_KeyID k \<and> (k_Revoked k \<longrightarrow> k_Revoked k'))"
    and k: "key_row i s = Some k"
  obtain k1 where k1: "key_row i t = Some k1" "k_LastNonce k \<le> k_LastNonce k1"
    "k_KeyID k1 = k_KeyID k" "k_Revoked k \<longrightarrow> k_Revoked k1" using st k by blast
  obtain k2 where "key_row i u = Some k2" "k_LastNonce k1 \<le> k_LastNonce k2"
    "k_KeyID k2 = k_KeyID k1" "k_Revoked k1 \<longrightarrow> k_Revoked k2" using tu k1(1) by blast
  with k1 show "\<exists>k'. key_row i u = Some k' \<and> k_LastNonce k \<le> k_LastNonce k' \<and>
      k_KeyID k' = k_KeyID k \<and> (k_Revoked k \<longrightarrow> k_Revoked k')" by auto
qed

lemma keys_faults [simp]:
  "wf_keys (s\<lparr>faults := fs\<rparr>) = wf_keys s" "key_row i (s\<lparr>faults := fs\<rparr>) = key_row i s"
  "keys_grow s (s\<lparr>faults := fs\<rparr>)" "keys_grow (s\<lparr>faults := fs\<rparr>) t = keys_grow s t"
  by (simp_all add: wf_keys_def key_row_def keys_grow_def)

definition tame :: "(Key \<Rightarrow> bool) \<Rightarrow> (Key \<Rightarrow> Key) \<Rightarrow> bool" where
  "tame P f \<longleftrightarrow> (\<forall>k. k_ID (f k) = k_ID k \<and> k_KeyID (f k) = k_KeyID k \<and>
     (P k \<longrightarrow> k_LastNonce k \<le> k_LastNonce (f k)) \<and> (k_Revoked k \<longrightarrow> k_Revoked (f k)))"

lemma update_keys_result:
  assumes "update_keys P f s = Some (n, s')"
  shows "s' = s\<lparr>api_keys := map (\<lambda>k. if P k then f k else k) (api_keys s)\<rparr> \<and>
     n = length (filter P (api_keys s))"
proof -
  obtain ks where u: "tbl_update P (\<lambda>k. Some (f k)) (api_keys s) = Some (n, ks)"
    and s': "s' = s\<lparr>api_keys := ks\<rparr>"
    using assms by (auto simp: update_keys_def)
  show ?thesis using tbl_update_SomeD [OF u] s' by simp
qed

lemma update_keys_row:
  assumes "update_keys P f s = Some (n, s')" and "tame P f"
  shows "key_row i s' = map_option (\<lambda>k. if P k then f k else k) (key_row i s)"
proof -
  have "api_keys s' = map (\<lambda>k. if P k then f k else k) (api_keys s)"
    using update_keys_result [OF assms(1)] by simp
  moreover have "k_ID (if P k then f k else k) = k_ID k" for k
    using assms(2) by (simp add: tame_def)
  ultimately show ?thesis by (simp add: key_row_def tbl_find_map)
qed

lemma update_keys_keeps:
  assumes "update_keys P f s = Some (n, s')" and "tame P f"
  shows "(wf_keys s \<longrightarrow> wf_keys s') \<and> keys_grow s s'"
proof
  have "map k_ID (api_keys s') = map k_ID (api_keys s)"
    "map k_KeyID (api_keys s') = map k_KeyID (api_keys s)"
    using update_keys_result [OF assms(1)] assms(2) by (auto simp: tame_def)
  then show "wf_keys s \<longrightarrow> wf_keys s'" by (simp add: wf_keys_def)
  show "keys_grow s s'"
    using assms(2) by (auto simp: keys_grow_def update_keys_row [OF assms] tame_def)
qed

lemma insert_key_keeps:
  assumes "insert_key t k s = Some (n, s')"
  shows "(wf_keys s \<longrightarrow> wf_keys s') \<and> keys_grow s s'"
proof -
  obtain r ks where ins: "tbl_insert k_ID r (api_keys s) = Some ks" and s': "s' = s\<lparr>api_keys := ks\<rparr>"
    and r: "k_KeyID r \<notin> set (map k_KeyID (api_keys s))"
    using assms by (auto simp: insert_key_def split: if_splits)
  note app = tbl_insert_SomeD [OF ins]
  have "wf_keys s \<longrightarrow> wf_keys s'" using app r by (simp add: wf_keys_def s')
  moreover have "keys_grow s s'"
    using tbl_insert_fresh [OF ins]
    by (auto simp: keys_grow_def key_row_def s' tbl_find_insert [OF ins])
  ultimately show ?thesis by blast
qed

lemma tame_statements [simp]:
  "tame P (\<lambda>k. k\<lparr>k_Revoked := True\<rparr>)"
  "tame P (\<lambda>k. k\<lparr>k_LastUsedAt := u\<rparr>)"
  "tame P (\<lambda>k. k\<lparr>k_ExpiresAt := x\<rparr>)"
  "tame (\<lambda>k. k_ID k = i \<and> k_LastNonce k < m) (\<lambda>k. k\<lparr>k_LastUsedAt := u, k_LastNonce := m\<rparr>)"
  by (auto simp: tame_def)

definition keeps_keys :: "'x apikey_db_scheme \<Rightarrow> 'x apikey_db_scheme \<Rightarrow> bool" where
  "keeps_keys s s' \<longleftrightarrow> (wf_keys s \<longrightarrow> wf_keys s') \<and> keys_grow s s'"

lemma keeps_keys_refl [simp]: "keeps_keys s s"
  by (simp add: keeps_keys_def)

lemma keeps_keys_trans: "keeps_keys s t \<Longrightarrow> keeps_keys t u \<Longrightarrow> keeps_keys s u"
  unfolding keeps_keys_def by (blast intro: keys_grow_trans)

lemma exec_keeps_keys:
  assumes "exec_stmt f s = (r, s')"
    and "\<And>t n t'. f t = Some (n, t') \<Longrightarrow> (wf_keys t \<longrightarrow> wf_keys t') \<and> keys_grow t t'"
  shows "keeps_keys s s'"
  using exec_stmt_casesD [OF assms(1)] assms(2) unfolding keeps_keys_def by fastforce

lemma query_keeps_keys: "query f s = (r, s') \<Longrightarrow> keeps_keys s s'"
  by (auto simp: keeps_keys_def dest!: query_casesD)

lemma exec_update_keeps:
  "exec_stmt (update_keys P f) s = (r, s') \<Longrightarrow> tame P f \<Longrightarrow> keeps_keys s s'"
  by (erule exec_keeps_keys) (rule update_keys_keeps)

lemma Generate_keeps: "Generate h rnd i now dbn u nm sc ex s = (r, s') \<Longrightarrow> keeps_keys s s'"
  by (auto simp: Generate_def Let_def split: if_splits option.splits prod.splits
      elim: exec_keeps_keys [OF _ insert_key_keeps])

lemma Revoke_keeps: "Revoke u i s = (r, s') \<Longrightarrow> keeps_keys s s'"
  by (auto simp: Revoke_def split: prod.splits option.splits intro: exec_update_keeps)

lemma touch_keeps: "keeps_keys s (touch_last_used t i s)"
  unfolding touch_last_used_def
  by (rule exec_update_keeps [OF _ tame_statements(2)]) (rule prod.collapse [symmetric])

lemma set_expiry_keeps: "set_expiry t i d s = (r, s') \<Longrightarrow> keeps_keys s s'"
  unfolding set_expiry_def by (rule exec_update_keeps [OF _ tame_statements(3)])

lemma validate_check_keeps: "validate_check c now fk n s = (r, s') \<Longrightarrow> keeps_keys s s'"
  by (auto simp: validate_check_def find_live_key_def
      split: option.splits prod.splits dest: query_keeps_keys)

lemma validate_commit_keeps: "validate_commit t k n s = (r, s') \<Longrightarrow> keeps_keys s s'"
  by (auto simp: validate_commit_def claim_nonce_def split: option.splits prod.splits if_splits
      dest: exec_update_keeps [OF _ tame_statements(4)])

lemma ValidateRequest_keeps: "ValidateRequest c now t fk n s = (r, s') \<Longrightarrow> keeps_keys s s'"
  by (auto simp: ValidateRequest_def split: prod.splits sum.splits
      dest: validate_check_keeps validate_commit_keeps intro: keeps_keys_trans)

text \<open>A claimed nonce was above the stored one, and is the stored one afterwards.\<close>

lemma validate_commit_accepts:
  assumes "validate_commit t k n s = (Inr res, s')" and "wf_keys s"
  shows "\<exists>row. key_row (k_ID k) s = Some row \<and> k_LastNonce row < n \<and>
    key_row (k_ID k) s' = Some (row\<lparr>k_LastUsedAt := Some (pg_time t), k_LastNonce := n\<rparr>) \<and>
    res = \<lparr>hv_Key = k, hv_Scopes = k_Scopes k, hv_Nonce = n\<rparr>"
proof -
  obtain m where ex: "exec_stmt (claim_nonce t (k_ID k) n) s = (Some m, s')" and m: "m \<noteq> 0"
    and res: "res = \<lparr>hv_Key = k, hv_Scopes = k_Scopes k, hv_Nonce = n\<rparr>"
    using assms(1) by (auto simp: validate_commit_def split: option.splits prod.splits if_splits)
  obtain fs where cl: "claim_nonce t (k_ID k) n (s\<lparr>faults := fs\<rparr>) = Some (m, s')"
    using exec_stmt_casesD [OF ex] by auto
  note up = cl [unfolded claim_nonce_def]
  have "\<exists>row \<in> set (api_keys s). k_ID row = k_ID k \<and> k_LastNonce row < n"
    using update_keys_result [OF up] m by (auto simp: filter_empty_conv)
  then obtain row where row: "row \<in> set (api_keys s)" "k_ID row = k_ID k" "k_LastNonce row < n"
    by blast
  then have "key_row (k_ID k) s = Some row" using key_row_unique [OF assms(2)] by metis
  with row res show ?thesis
    using update_keys_row [OF up tame_statements(4)] by simp
qed

lemma find_live_key_row:
  assumes "find_live_key i s = (Some (Some k), s')"
  shows "k \<in> set (api_keys s) \<and> k_KeyID k = i \<and> \<not> k_Revoked k"
proof -
  have "find (\<lambda>k. k_KeyID k = i \<and> \<not> k_Revoked k) (api_keys s) = Some k"
    using query_casesD [OF assms [unfolded find_live_key_def]] by auto
  from find_SomeD [OF this] show ?thesis .
qed

lemma validate_check_accepts:
  assumes "validate_check c now fk n s = (Inr k, s')"
  shows "k \<in> set (api_keys s) \<and> key_id_of fk = Some (k_KeyID k) \<and> \<not> k_Revoked k \<and>
    \<not> expired now k \<and> \<bar>n - now div 1000000\<bar> \<le> skewMs \<and> k_LastNonce k < n \<and> c (k_KeyHash k) fk"
  using assms
  by (auto simp: validate_check_def check_key_def Let_def dest: find_live_key_row
      split: option.splits prod.splits if_splits)

subsection \<open>Concurrent requests\<close>

text \<open>
  The requests of several clients in flight: a request that passed its checks is pending until it
  claims its nonce. Between the two, other requests, key management and the background updates
  run in any order and with any database faults. accepted lists the claimed nonces, newest first.
\<close>

record auth_state =
  au_db :: apikey_db
  au_pending :: "(Key \<times> int) list"
  au_accepted :: "(uuid \<times> int) list"

inductive auth_step :: "(string \<Rightarrow> string \<Rightarrow> bool) \<Rightarrow> auth_state \<Rightarrow> auth_state \<Rightarrow> bool"
  for compare where
  check: "validate_check compare now fk n (au_db a) = (Inr k, db) \<Longrightarrow>
    auth_step compare a (a\<lparr>au_db := db, au_pending := (k, n) # au_pending a\<rparr>)"
| refuse: "validate_check compare now fk n (au_db a) = (Inl e, db) \<Longrightarrow>
    auth_step compare a (a\<lparr>au_db := db\<rparr>)"
| claim: "(k, n) \<in> set (au_pending a) \<Longrightarrow> validate_commit t k n (au_db a) = (Inr res, db) \<Longrightarrow>
    auth_step compare a (a\<lparr>au_db := db, au_pending := remove1 (k, n) (au_pending a),
                           au_accepted := (k_ID k, n) # au_accepted a\<rparr>)"
| lose: "(k, n) \<in> set (au_pending a) \<Longrightarrow> validate_commit t k n (au_db a) = (Inl e, db) \<Longrightarrow>
    auth_step compare a (a\<lparr>au_db := db, au_pending := remove1 (k, n) (au_pending a)\<rparr>)"
| generate: "Generate h rnd i now t u nm sc ex (au_db a) = (r, db) \<Longrightarrow>
    auth_step compare a (a\<lparr>au_db := db\<rparr>)"
| revoke: "Revoke u i (au_db a) = (r', db) \<Longrightarrow> auth_step compare a (a\<lparr>au_db := db\<rparr>)"
| expiry: "set_expiry t i d (au_db a) = (r'', db) \<Longrightarrow> auth_step compare a (a\<lparr>au_db := db\<rparr>)"
| touch: "auth_step compare a (a\<lparr>au_db := touch_last_used t i (au_db a)\<rparr>)"

definition nonces_of :: "uuid \<Rightarrow> (uuid \<times> int) list \<Rightarrow> int list" where
  "nonces_of i acc = map snd (filter (\<lambda>p. fst p = i) acc)"

lemma nonces_of_Cons [simp]:
  "nonces_of i [] = []" "nonces_of i ((j, n) # acc) = (if j = i then [n] else []) @ nonces_of i acc"
  by (simp_all add: nonces_of_def)

definition auth_inv :: "auth_state \<Rightarrow> bool" where
  "auth_inv a \<longleftrightarrow> wf_keys (au_db a) \<and>
     (\<forall>i. sorted_wrt (\<lambda>x y. y < x) (nonces_of i (au_accepted a)) \<and>
        (\<forall>n \<in> set (nonces_of i (au_accepted a)).
           \<exists>k. key_row i (au_db a) = Some k \<and> n \<le> k_LastNonce k))"

lemma auth_inv_known:
  assumes "auth_inv a" and "n \<in> set (nonces_of i (au_accepted a))"
  obtains k where "key_row i (au_db a) = Some k" and "n \<le> k_LastNonce k"
proof -
  have "\<forall>n \<in> set (nonces_of i (au_accepted a)). \<exists>k. key_row i (au_db a) = Some k \<and> n \<le> k_LastNonce k"
    using assms(1) unfolding auth_inv_def by (elim conjE allE [of _ i])
  from bspec [OF this assms(2)] obtain k where "key_row i (au_db a) = Some k" "n \<le> k_LastNonce k" by auto
  then show thesis by (rule that)
qed

lemma auth_inv_grow:
  assumes "auth_inv a" and "keeps_keys (au_db a) db" and "au_accepted b = au_accepted a" and "au_db b = db"
  shows "auth_inv b"
proof -
  have "\<exists>k. key_row i db = Some k \<and> n \<le> k_LastNonce k" if mem: "n \<in> set (nonces_of i (au_accepted a))" for i n
  proof -
    obtain k where k: "key_row i (au_db a) = Some k" "n \<le> k_LastNonce k"
      using auth_inv_known [OF assms(1) mem] by metis
    moreover obtain k' where "key_row i db = Some k'" "k_LastNonce k \<le> k_LastNonce k'"
      using assms(2) k(1) unfolding keeps_keys_def keys_grow_def by (elim conjE allE [of _ i] allE [of _ k]) auto
    ultimately show ?thesis by auto
  qed
  then show ?thesis using assms by (simp add: auth_inv_def keeps_keys_def)
qed

lemma auth_inv_claim:
  assumes "auth_inv a" and "validate_commit t k n (au_db a) = (Inr res, db)"
  shows "auth_inv (a\<lparr>au_db := db, au_pending := p, au_accepted := (k_ID k, n) # au_accepted a\<rparr>)"
proof -
  have wf: "wf_keys (au_db a)" using assms(1) by (simp add: auth_inv_def)
  have mid: "auth_inv (a\<lparr>au_db := db\<rparr>)"
    by (rule auth_inv_grow [OF assms(1) validate_commit_keeps [OF assms(2)]]) simp_all
  obtain row where row: "key_row (k_ID k) (au_db a) = Some row" "k_LastNonce row < n"
    "key_row (k_ID k) db = Some (row\<lparr>k_LastUsedAt := Some (pg_time t), k_LastNonce := n\<rparr>)"
    using validate_commit_accepts [OF assms(2) wf] by blast
  have "\<forall>m \<in> set (nonces_of (k_ID k) (au_accepted a)). m < n"
  proof
    fix m assume "m \<in> set (nonces_of (k_ID k) (au_accepted a))"
    then obtain k' where "key_row (k_ID k) (au_db a) = Some k'" "m \<le> k_LastNonce k'"
      using auth_inv_known [OF assms(1)] by blast
    with row show "m < n" by auto
  qed
  then show ?thesis using mid row(3) by (simp add: auth_inv_def)
qed

lemma auth_step_inv: "auth_step c a b \<Longrightarrow> auth_inv a \<Longrightarrow> auth_inv b"
proof (induction rule: auth_step.induct)
  case (claim k n a t res db)
  then show ?case by (intro auth_inv_claim)
qed (auto intro: auth_inv_grow validate_check_keeps validate_commit_keeps Generate_keeps Revoke_keeps
    set_expiry_keeps touch_keeps)

text \<open>C12: no nonce of a key is ever accepted twice: however the checks, the claims, the key
  management and the background updates of concurrent requests interleave, and whatever the
  database loses, the nonces accepted for a key grow strictly.\<close>

theorem nonces_never_replayed:
  assumes "(auth_step compare)\<^sup>*\<^sup>* \<lparr>au_db = db, au_pending = [], au_accepted = []\<rparr> a" and "wf_keys db"
  shows "sorted_wrt (\<lambda>x y. y < x) (nonces_of i (au_accepted a))"
proof -
  have "auth_inv \<lparr>au_db = db, au_pending = [], au_accepted = []\<rparr>"
    using assms(2) by (simp add: auth_inv_def)
  with assms(1) have "auth_inv a"
    by (induction rule: rtranclp_induct) (auto intro: auth_step_inv)
  then show ?thesis by (simp add: auth_inv_def)
qed

text \<open>One key of one user, and stand-ins for the two bcrypt functions.\<close>

definition demo_key :: Key where
  "demo_key = \<lparr>k_ID = 7, k_UserID = 8, k_Name = ''bot'', k_KeyID = ''gk_live_abcdef12'',
     k_KeyHash = ''h:gk_live_abcdef12_77'', k_Scopes = [''read''], k_LastUsedAt = None,
     k_ExpiresAt = None, k_Revoked = False, k_CreatedAt = 0, k_LastNonce = 0\<rparr>"

definition demo_keys :: apikey_db where
  "demo_keys = \<lparr>faults = [], key_users = [8, 9], api_keys = [demo_key]\<rparr>"

definition demo_hash :: "string \<Rightarrow> string option" where
  "demo_hash p = Some (''h:'' @ p)"

definition demo_compare :: "string \<Rightarrow> string \<Rightarrow> bool" where
  "demo_compare h p = (h = ''h:'' @ p)"

lemma wf_demo_keys [simp]: "wf_keys demo_keys"
  by (simp add: wf_keys_def demo_keys_def)

lemma demo_key_id: "key_id_of ''gk_live_abcdef12_77'' = Some ''gk_live_abcdef12''"
  by code_simp

lemma demo_check:
  "validate_check demo_compare 60000000000 ''gk_live_abcdef12_77'' 60000 demo_keys = (Inr demo_key, demo_keys)"
  by (simp add: validate_check_def demo_key_id find_live_key_def demo_keys_def demo_key_def check_key_def
      expired_def skewMs_def demo_compare_def)

definition demo_keys2 :: apikey_db where
  "demo_keys2 = demo_keys\<lparr>api_keys := [demo_key\<lparr>k_LastUsedAt := Some 60000000000, k_LastNonce := 60000\<rparr>]\<rparr>"

lemma demo_commits:
  "validate_commit 60000000000 demo_key 60000 demo_keys =
     (Inr \<lparr>hv_Key = demo_key, hv_Scopes = [''read''], hv_Nonce = 60000\<rparr>, demo_keys2)"
  "validate_commit 60000000000 demo_key 60000 demo_keys2 = (Inl ErrNonceReplayed, demo_keys2)"
  by (simp_all add: validate_commit_def claim_nonce_def update_keys_def demo_keys_def demo_keys2_def demo_key_def
      pg_time_def)

theorem nonces_never_replayed_witness:
  "\<exists>a. (auth_step demo_compare)\<^sup>*\<^sup>* \<lparr>au_db = demo_keys, au_pending = [], au_accepted = []\<rparr> a \<and>
     au_accepted a = [(7, 60000)] \<and> au_pending a = [] \<and>
     sorted_wrt (\<lambda>x y. y < x) (nonces_of 7 (au_accepted a))"
proof -
  let ?R = "auth_step demo_compare" and ?p = "(demo_key, 60000 :: int)"
  let ?s = "\<lambda>db pend acc. \<lparr>au_db = db, au_pending = pend, au_accepted = acc\<rparr>"
  have 1: "?R (?s demo_keys [] []) (?s demo_keys [?p] [])"
    using auth_step.check [of demo_compare _ _ _ "?s demo_keys [] []"] demo_check by fastforce
  have 2: "?R (?s demo_keys [?p] []) (?s demo_keys [?p, ?p] [])"
    using auth_step.check [of demo_compare _ _ _ "?s demo_keys [?p] []"] demo_check by fastforce
  have 3: "?R (?s demo_keys [?p, ?p] []) (?s demo_keys2 [?p] [(7, 60000)])"
    using auth_step.claim [of demo_key 60000 "?s demo_keys [?p, ?p] []" _ _ demo_keys2 demo_compare] demo_commits(1)
    by (fastforce simp: demo_key_def)
  have 4: "?R (?s demo_keys2 [?p] [(7, 60000)]) (?s demo_keys2 [] [(7, 60000)])"
    using auth_step.lose [of demo_key 60000 "?s demo_keys2 [?p] [(7, 60000)]" _ _ demo_keys2 demo_compare] demo_commits(2)
    by fastforce
  have run: "?R\<^sup>*\<^sup>* (?s demo_keys [] []) (?s demo_keys2 [] [(7, 60000)])"
    using 1 2 3 4 by (meson converse_rtranclp_into_rtranclp r_into_rtranclp)
  show ?thesis
    by (rule exI [of _ "?s demo_keys2 [] [(7, 60000)]"]) (use run nonces_never_replayed [OF run wf_demo_keys, of 7] in simp)
qed

subsection \<open>Which requests are accepted\<close>

definition good_request ::
  "(string \<Rightarrow> string \<Rightarrow> bool) \<Rightarrow> int \<Rightarrow> string \<Rightarrow> int \<Rightarrow> 'x apikey_db_scheme \<Rightarrow> Key \<Rightarrow> bool" where
  "good_request compare now fk n s k \<longleftrightarrow>
     k \<in> set (api_keys s) \<and> key_id_of fk = Some (k_KeyID k) \<and> \<not> k_Revoked k \<and> \<not> expired now k \<and>
     \<bar>n - now div 1000000\<bar> \<le> skewMs \<and> k_LastNonce k < n \<and> compare (k_KeyHash k) fk"

lemma find_live_key_unique:
  assumes "wf_keys s" and "faults s = []" and "k \<in> set (api_keys s)" and "\<not> k_Revoked k"
  shows "find_live_key (k_KeyID k) s = (Some (Some k), s)"
proof -
  have "distinct (map k_KeyID ks) \<Longrightarrow> k \<in> set ks \<Longrightarrow>
      find (\<lambda>x. k_KeyID x = k_KeyID k \<and> \<not> k_Revoked x) ks = Some k" for ks
    using assms(4) by (induction ks) auto
  with assms show ?thesis by (simp add: find_live_key_def wf_keys_def)
qed

lemma check_key_None_iff:
  "check_key c now fk n k = None \<longleftrightarrow>
     \<not> expired now k \<and> \<bar>n - now div 1000000\<bar> \<le> skewMs \<and> k_LastNonce k < n \<and> c (k_KeyHash k) fk"
  by (auto simp: check_key_def Let_def)

lemma good_request_accepted:
  assumes "good_request c now fk n s k" and "wf_keys s" and "faults s = []"
  shows "ValidateRequest c now t fk n s =
    (Inr \<lparr>hv_Key = k, hv_Scopes = k_Scopes k, hv_Nonce = n\<rparr>,
     s\<lparr>api_keys := map (\<lambda>x. if k_ID x = k_ID k \<and> k_LastNonce x < n
        then x\<lparr>k_LastUsedAt := Some (pg_time t), k_LastNonce := n\<rparr> else x) (api_keys s)\<rparr>)"
proof -
  have k: "k \<in> set (api_keys s)" "key_id_of fk = Some (k_KeyID k)" "\<not> k_Revoked k" "k_LastNonce k < n"
    "check_key c now fk n k = None"
    using assms(1) by (auto simp: good_request_def check_key_None_iff)
  have chk: "validate_check c now fk n s = (Inr k, s)"
    using k find_live_key_unique [OF assms(2,3) k(1,3)] by (simp add: validate_check_def)
  have "filter (\<lambda>x. k_ID x = k_ID k \<and> k_LastNonce x < n) (api_keys s) \<noteq> []"
    using k(1,4) by (auto simp: filter_empty_conv)
  then show ?thesis
    using chk assms(3)
    by (simp add: ValidateRequest_def validate_commit_def claim_nonce_def update_keys_def tbl_update_ok
        cong: if_cong)
qed

text \<open>C13: whatever the database loses, only a request whose key exists, is not revoked and has not
  expired, whose nonce lies within five minutes of the server's clock and above the last one, and
  whose full key bcrypt accepts, gets through, with the scopes of that key; and when the database
  answers every such request does.\<close>

theorem ValidateRequest_accepts:
  assumes "wf_keys s"
  shows "(fst (ValidateRequest c now t fk n s) = Inr res \<longrightarrow>
      (\<exists>k. good_request c now fk n s k \<and> res = \<lparr>hv_Key = k, hv_Scopes = k_Scopes k, hv_Nonce = n\<rparr>)) \<and>
    (faults s = [] \<longrightarrow> good_request c now fk n s k \<longrightarrow>
      fst (ValidateRequest c now t fk n s) = Inr \<lparr>hv_Key = k, hv_Scopes = k_Scopes k, hv_Nonce = n\<rparr>)"
proof (intro conjI impI)
  assume "fst (ValidateRequest c now t fk n s) = Inr res"
  then obtain k s1 s2 where 1: "validate_check c now fk n s = (Inr k, s1)"
    and 2: "validate_commit t k n s1 = (Inr res, s2)"
    by (cases "validate_check c now fk n s"; cases "fst (validate_check c now fk n s)")
      (auto simp: ValidateRequest_def prod_eq_iff)
  have "res = \<lparr>hv_Key = k, hv_Scopes = k_Scopes k, hv_Nonce = n\<rparr>"
    using 2 by (auto simp: validate_commit_def split: prod.splits option.splits if_splits)
  moreover have "good_request c now fk n s k"
    using validate_check_accepts [OF 1] by (simp add: good_request_def)
  ultimately show "\<exists>k. good_request c now fk n s k \<and> res = \<lparr>hv_Key = k, hv_Scopes = k_Scopes k, hv_Nonce = n\<rparr>"
    by blast
next
  assume "faults s = []" and "good_request c now fk n s k"
  then show "fst (ValidateRequest c now t fk n s) = Inr \<lparr>hv_Key = k, hv_Scopes = k_Scopes k, hv_Nonce = n\<rparr>"
    using good_request_accepted [OF _ assms] by simp
qed

lemma demo_good: "good_request demo_compare 60000000000 ''gk_live_abcdef12_77'' 60000 demo_keys demo_key"
  by (simp add: good_request_def demo_key_id demo_keys_def demo_key_def expired_def skewMs_def demo_compare_def)

theorem ValidateRequest_accepts_witness:
  "fst (ValidateRequest demo_compare 60000000000 60000000000 ''gk_live_abcdef12_77'' 60000 demo_keys) =
     Inr \<lparr>hv_Key = demo_key, hv_Scopes = [''read''], hv_Nonce = 60000\<rparr>"
  using ValidateRequest_accepts [OF wf_demo_keys, of demo_compare 60000000000 60000000000
      "''gk_live_abcdef12_77''" 60000 _ demo_key] demo_good
  by (simp add: demo_key_def demo_keys_def)

subsection \<open>A new key authenticates\<close>

lemma SplitN_gk_live:
  assumes "CHR ''_'' \<notin> set a" and "CHR ''_'' \<notin> set b"
  shows "key_id_of (''gk_live_'' @ a @ ''_'' @ b) = Some (''gk_live_'' @ a)"
proof -
  have "SplitN 4 CHR ''_'' (''gk_live_'' @ a @ ''_'' @ b) =
      ''gk'' # ''live'' # SplitN 2 CHR ''_'' (a @ CHR ''_'' # b)"
    by (simp add: numeral_eq_Suc)
  also have "SplitN 2 CHR ''_'' (a @ CHR ''_'' # b) = [a, b]"
    using assms by (simp add: numeral_2_eq_2)
  finally show ?thesis by (simp add: key_id_of_def)
qed

lemma Generate_result:
  assumes "Generate hash (Some bs) i now db_now u nm sc ex s = (Inr (key, full), s1)"
    and "faults s = []" and "wf_keys s"
  shows "\<exists>h. hash full = Some h \<and> key_id_of full = Some (k_KeyID key) \<and> faults s1 = [] \<and> wf_keys s1 \<and>
    k_ID key = i \<and> k_UserID key = u \<and>
    \<lparr>k_ID = i, k_UserID = u, k_Name = nm, k_KeyID = k_KeyID key, k_KeyHash = h,
      k_Scopes = (if sc = [] then [ScopeRead] else sc), k_LastUsedAt = None,
      k_ExpiresAt = map_option pg_time ex, k_Revoked = False, k_CreatedAt = pg_time db_now,
      k_LastNonce = 0\<rparr> \<in> set (api_keys s1)"
proof -
  let ?secret = "hex_encode bs"
  let ?id = "''gk_live_'' @ take 8 ?secret"
  let ?full = "?id @ ''_'' @ drop 8 ?secret"
  have "CHR ''_'' \<notin> set (take 8 ?secret)" "CHR ''_'' \<notin> set (drop 8 ?secret)"
    using hex_encode_no_sep [of bs] by (auto dest: in_set_takeD in_set_dropD)
  from SplitN_gk_live [OF this] have id: "key_id_of ?full = Some ?id" by simp
  obtain h ks where h: "hash ?full = Some h" and full: "full = ?full"
    and key: "k_ID key = i" "k_UserID key = u" "k_KeyID key = ?id"
    and ins: "tbl_insert k_ID \<lparr>k_ID = i, k_UserID = u, k_Name = nm, k_KeyID = ?id, k_KeyHash = h,
      k_Scopes = (if sc = [] then [ScopeRead] else sc), k_LastUsedAt = None,
      k_ExpiresAt = map_option pg_time ex, k_Revoked = False, k_CreatedAt = pg_time db_now,
      k_LastNonce = 0\<rparr> (api_keys s) = Some ks" and s1: "s1 = s\<lparr>api_keys := ks\<rparr>"
    using assms(1,2)
    by (auto simp: Generate_def insert_key_def Let_def split: if_splits option.splits)
  have "wf_keys s1" using Generate_keeps [OF assms(1)] assms(3) by (simp add: keeps_keys_def)
  then show ?thesis
    using tbl_insert_SomeD [OF ins] h id key assms(2) unfolding full key(3) s1 by auto
qed

text \<open>C14: a key that was just generated authenticates its first request, as its user and with its
  scopes, if bcrypt accepts the password it hashed, the nonce is positive and in the window and
  the key has not expired; sending the same request again is refused as a replay.\<close>

theorem Generate_authenticates:
  assumes "\<And>p h. hash p = Some h \<Longrightarrow> compare h p"
    and "Generate hash (Some bs) i now db_now u nm sc ex s = (Inr (key, full), s1)"
    and "faults s = []" and "wf_keys s"
    and "\<forall>e. ex = Some e \<longrightarrow> later \<le> pg_time e" and "0 < n" and "\<bar>n - later div 1000000\<bar> \<le> skewMs"
  shows "\<exists>res s2. ValidateRequest compare later t full n s1 = (Inr res, s2) \<and>
    k_UserID (hv_Key res) = u \<and> k_ID (hv_Key res) = i \<and>
    hv_Scopes res = (if sc = [] then [ScopeRead] else sc) \<and> hv_Nonce res = n \<and>
    fst (ValidateRequest compare later t full n s2) = Inl ErrNonceReplayed"
proof -
  obtain h where h: "hash full = Some h" and id: "key_id_of full = Some (k_KeyID key)"
    and s1: "faults s1 = []" "wf_keys s1" and row: "\<lparr>k_ID = i, k_UserID = u, k_Name = nm,
      k_KeyID = k_KeyID key, k_KeyHash = h, k_Scopes = (if sc = [] then [ScopeRead] else sc),
      k_LastUsedAt = None, k_ExpiresAt = map_option pg_time ex, k_Revoked = False,
      k_CreatedAt = pg_time db_now, k_LastNonce = 0\<rparr> \<in> set (api_keys s1)" (is "?k \<in> _")
    using Generate_result [OF assms(2-4)] by blast
  have good: "good_request compare later full n s1 ?k"
    using row id assms(1) [OF h] assms(5-7)
    by (auto simp: good_request_def expired_def split: option.splits)
  define s2 where "s2 = snd (ValidateRequest compare later t full n s1)"
  have run: "ValidateRequest compare later t full n s1 =
      (Inr \<lparr>hv_Key = ?k, hv_Scopes = k_Scopes ?k, hv_Nonce = n\<rparr>, s2)"
    using good_request_accepted [OF good s1(2,1)] by (simp add: s2_def)
  let ?k2 = "?k\<lparr>k_LastUsedAt := Some (pg_time t), k_LastNonce := n\<rparr>"
  have mem: "?k2 \<in> set (api_keys s2)" and f2: "faults s2 = []"
    using good_request_accepted [OF good s1(2,1), of t] row s1(1) assms(6)
    by (force simp: s2_def)+
  have wf2: "wf_keys s2"
    using ValidateRequest_keeps [OF run] s1(2) by (simp add: keeps_keys_def)
  have "find_live_key (k_KeyID key) s2 = (Some (Some ?k2), s2)"
    using find_live_key_unique [OF wf2 f2 mem] by simp
  moreover have "check_key compare later full n ?k2 = Some ErrNonceReplayed"
    using good by (auto simp: good_request_def check_key_def Let_def expired_def)
  ultimately have "fst (ValidateRequest compare later t full n s2) = Inl ErrNonceReplayed"
    using id by (simp add: ValidateRequest_def validate_check_def)
  with run show ?thesis by simp
qed

lemma demo_hex: "hex_encode [10, 2, 3, 4, 5, 6] = ''0a0203040506''"
  by code_simp

lemma demo_generate: "\<exists>key s1.
    Generate demo_hash (Some [10, 2, 3, 4, 5, 6]) 60 0 0 9 ''bot'' [''trade''] None demo_keys =
      (Inr (key, ''gk_live_0a020304_0506''), s1)"
  by (simp add: Generate_def demo_hex demo_hash_def demo_keys_def demo_key_def insert_key_def tbl_insert_def Let_def)

theorem Generate_authenticates_witness:
  "\<exists>key s1 res s2.
     Generate demo_hash (Some [10, 2, 3, 4, 5, 6]) 60 0 0 9 ''bot'' [''trade''] None demo_keys =
       (Inr (key, ''gk_live_0a020304_0506''), s1) \<and>
     ValidateRequest demo_compare 60000000000 0 ''gk_live_0a020304_0506'' 60000 s1 = (Inr res, s2) \<and>
     hv_Scopes res = [''trade''] \<and>
     fst (ValidateRequest demo_compare 60000000000 0 ''gk_live_0a020304_0506'' 60000 s2) = Inl ErrNonceReplayed"
proof -
  obtain key s1 where gen: "Generate demo_hash (Some [10, 2, 3, 4, 5, 6]) 60 0 0 9 ''bot'' [''trade''] None demo_keys =
      (Inr (key, ''gk_live_0a020304_0506''), s1)"
    using demo_generate by blast
  have "\<exists>res s2. ValidateRequest demo_compare 60000000000 0 ''gk_live_0a020304_0506'' 60000 s1 = (Inr res, s2) \<and>
      k_UserID (hv_Key res) = 9 \<and> k_ID (hv_Key res) = 60 \<and>
      hv_Scopes res = (if [''trade''] = [] then [ScopeRead] else [''trade'']) \<and> hv_Nonce res = 60000 \<and>
      fst (ValidateRequest demo_compare 60000000000 0 ''gk_live_0a020304_0506'' 60000 s2) = Inl ErrNonceReplayed"
    by (rule Generate_authenticates [OF _ gen])
      (simp_all add: demo_hash_def demo_compare_def demo_keys_def wf_keys_def skewMs_def)
  with gen show ?thesis by auto
qed

subsection \<open>Reasons and key creation\<close>

text \<open>The reason bad_signature, which the middleware documents as a bcrypt mismatch, is only
  ever sent for a key that bcrypt accepted, when the database failed to record its nonce; a wrong
  secret for a live key is reported as key_not_found.\<close>

theorem auth_reason_bad_signature:
  "(fst (userAPIKeyAuth compare now t fk hdr s) = Inl ''bad_signature'' \<longrightarrow>
      (\<exists>k \<in> set (api_keys s). key_id_of fk = Some (k_KeyID k) \<and> compare (k_KeyHash k) fk \<and>
        (\<exists>n s1. ParseInt64 (TrimSpace hdr) = Some n \<and> validate_check compare now fk n s = (Inr k, s1) \<and>
          fst (validate_commit t k n s1) = Inl (ErrKey ''nonce update'')))) \<and>
   (wf_keys s \<longrightarrow> faults s = [] \<longrightarrow> k \<in> set (api_keys s) \<longrightarrow> \<not> k_Revoked k \<longrightarrow> \<not> expired now k \<longrightarrow>
      fk \<noteq> [] \<longrightarrow> key_id_of fk = Some (k_KeyID k) \<longrightarrow> ParseInt64 (TrimSpace hdr) = Some n \<longrightarrow> 0 < n \<longrightarrow>
      \<bar>n - now div 1000000\<bar> \<le> skewMs \<longrightarrow> k_LastNonce k < n \<longrightarrow> \<not> compare (k_KeyHash k) fk \<longrightarrow>
      fst (userAPIKeyAuth compare now t fk hdr s) = Inl ''key_not_found'')"
proof (intro conjI impI)
  assume bad: "fst (userAPIKeyAuth compare now t fk hdr s) = Inl ''bad_signature''"
  obtain n e where n: "ParseInt64 (TrimSpace hdr) = Some n"
    and e: "fst (ValidateRequest compare now t fk n s) = Inl e" "authReasonForError e = ''bad_signature''"
    using bad by (auto simp: userAPIKeyAuth_def Let_def prod_eq_iff
        split: if_splits option.splits prod.splits sum.splits)
  have not_check: "authReasonForError e' \<noteq> ''bad_signature''"
    if "validate_check compare now fk n s = (Inl e', s')" for e' s'
    using that by (auto simp: validate_check_def check_key_def Let_def
        split: option.splits prod.splits if_splits)
  obtain k s1 where chk: "validate_check compare now fk n s = (Inr k, s1)"
    using e not_check by (cases "validate_check compare now fk n s"; cases "fst (validate_check compare now fk n s)")
      (auto simp: ValidateRequest_def)
  then have "fst (validate_commit t k n s1) = Inl e" using e(1) by (simp add: ValidateRequest_def)
  moreover have "e = ErrKey ''nonce update''"
    using calculation e(2) by (auto simp: validate_commit_def split: option.splits prod.splits if_splits)
  ultimately show "\<exists>k \<in> set (api_keys s). key_id_of fk = Some (k_KeyID k) \<and> compare (k_KeyHash k) fk \<and>
        (\<exists>n s1. ParseInt64 (TrimSpace hdr) = Some n \<and> validate_check compare now fk n s = (Inr k, s1) \<and>
          fst (validate_commit t k n s1) = Inl (ErrKey ''nonce update''))"
    using validate_check_accepts [OF chk] n chk by blast
next
  assume k: "wf_keys s" "faults s = []" "k \<in> set (api_keys s)" "\<not> k_Revoked k" "\<not> expired now k"
    "fk \<noteq> []" "key_id_of fk = Some (k_KeyID k)" "ParseInt64 (TrimSpace hdr) = Some n" "0 < n"
    "\<bar>n - now div 1000000\<bar> \<le> skewMs" "k_LastNonce k < n" "\<not> compare (k_KeyHash k) fk"
  have "check_key compare now fk n k = Some ErrKeyNotFound"
    using k by (auto simp: check_key_def Let_def)
  then have "ValidateRequest compare now t fk n s = (Inl ErrKeyNotFound, s)"
    using find_live_key_unique [OF k(1-4)] k(7) by (simp add: ValidateRequest_def validate_check_def)
  moreover have "TrimSpace hdr \<noteq> []" using k(8) by (auto simp: ParseInt64_def Let_def)
  ultimately show "fst (userAPIKeyAuth compare now t fk hdr s) = Inl ''key_not_found''"
    using k(6,8,9) by (simp add: userAPIKeyAuth_def Let_def)
qed

theorem auth_reason_bad_signature_witness:
  "fst (userAPIKeyAuth demo_compare 60000000000 0 ''gk_live_abcdef12_88'' ''60000'' demo_keys) = Inl ''key_not_found'' \<and>
   fst (userAPIKeyAuth demo_compare 60000000000 0 ''gk_live_abcdef12_77'' ''60000''
     (demo_keys\<lparr>faults := [Acked, Lost]\<rparr>)) = Inl ''bad_signature''"
proof
  have 1: "ParseInt64 (TrimSpace ''60000'') = Some 60000" by code_simp
  have 2: "key_id_of ''gk_live_abcdef12_88'' = Some ''gk_live_abcdef12''" by code_simp
  show "fst (userAPIKeyAuth demo_compare 60000000000 0 ''gk_live_abcdef12_88'' ''60000'' demo_keys) = Inl ''key_not_found''"
    by (rule auth_reason_bad_signature [THEN conjunct2, rule_format, where k = demo_key and n = 60000])
      (simp_all add: 1 2 demo_keys_def demo_key_def expired_def skewMs_def demo_compare_def wf_keys_def)
  have 3: "TrimSpace ''60000'' = ''60000''" by code_simp
  show "fst (userAPIKeyAuth demo_compare 60000000000 0 ''gk_live_abcdef12_77'' ''60000''
     (demo_keys\<lparr>faults := [Acked, Lost]\<rparr>)) = Inl ''bad_signature''"
    using 1 by (simp add: userAPIKeyAuth_def 3 ValidateRequest_def validate_check_def demo_key_id find_live_key_def
        demo_keys_def demo_key_def query_def next_fault_def check_key_def expired_def skewMs_def demo_compare_def
        validate_commit_def exec_stmt_def)
qed

text \<open>CreateAPIKeyHandler creates the key before it looks at the expiry that was asked for: a
  request for more than 365 days is answered with an error but leaves a live key that never
  expires, and so does a lost expiry update, which is answered with success.\<close>

theorem createAPIKeyHandler_leaves_key:
  assumes "Generate hash rnd i now db_now u nm (if sc = [] then [ScopeRead] else sc) None (s\<lparr>faults := []\<rparr>)
      = (Inr (key, secret), s1)"
    and "list_all (\<lambda>x. x \<in> set validScopes) sc" and "nm \<noteq> []" and "365 < d" and "0 < d'" and "d' \<le> 365"
  shows "\<exists>row \<in> set (api_keys s1). k_ID row = i \<and> k_UserID row = u \<and> k_ExpiresAt row = None \<and> \<not> k_Revoked row \<and>
    createAPIKeyHandler hash rnd i now db_now u
      (Some \<lparr>cb_name = nm, cb_scopes = sc, cb_expires_in_days = d\<rparr>) (s\<lparr>faults := []\<rparr>) = (Inl 400, s1) \<and>
    createAPIKeyHandler hash rnd i now db_now u
      (Some \<lparr>cb_name = nm, cb_scopes = sc, cb_expires_in_days = d'\<rparr>) (s\<lparr>faults := [Acked, Lost]\<rparr>)
      = (Inr (key, secret), s1)"
proof -
  have ok: "\<not> list_ex (\<lambda>x. x \<notin> set validScopes) sc"
    using assms(2) by (simp add: list_ex_iff list_all_iff)
  have ins: "insert_key t k (s\<lparr>faults := f\<rparr>) = map_option (\<lambda>(n, x). (n, x\<lparr>faults := f\<rparr>)) (insert_key t k (s\<lparr>faults := []\<rparr>))"
    for t k f by (auto simp: insert_key_def map_option_case split: option.splits)
  obtain bs where bs: "rnd = Some bs"
    using assms(1) by (auto simp: Generate_def split: if_splits option.splits)
  let ?id = "''gk_live_'' @ take 8 (hex_encode bs)"
  let ?full = "?id @ ''_'' @ drop 8 (hex_encode bs)"
  let ?scopes = "if sc = [] then [ScopeRead] else sc"
  let ?key = "\<lambda>h. \<lparr>k_ID = i, k_UserID = u, k_Name = nm, k_KeyID = ?id, k_KeyHash = h,
      k_Scopes = ?scopes, k_LastUsedAt = None, k_ExpiresAt = None,
      k_Revoked = False, k_CreatedAt = now, k_LastNonce = 0\<rparr>"
  have sc: "?scopes \<noteq> []" by simp
  obtain h where h: "hash ?full = Some h"
    and ins1: "insert_key db_now (?key h) (s\<lparr>faults := []\<rparr>) = Some (1, s1)"
    and sec: "secret = ?full" and key: "key = ?key h" and f1: "faults s1 = []"
    using assms(1) sc by (auto simp: bs Generate_def Let_def insert_key_def split: if_splits option.splits)
  have gen: "Generate hash rnd i now db_now u nm ?scopes None (s\<lparr>faults := [Acked, Lost]\<rparr>)
      = (Inr (key, secret), s1\<lparr>faults := [Lost]\<rparr>)"
    using h ins1 assms(3) sc
    by (simp add: bs Generate_def Let_def exec_stmt_def next_fault_def ins [of _ _ "[Lost]"] sec key)
  have lost: "set_expiry db_now (k_ID key) d' (s1\<lparr>faults := [Lost]\<rparr>) = (None, s1)"
    using f1 by (simp add: set_expiry_def exec_stmt_def next_fault_def)
  have fail: "createAPIKeyHandler hash rnd i now db_now u
      (Some \<lparr>cb_name = nm, cb_scopes = sc, cb_expires_in_days = d\<rparr>) (s\<lparr>faults := []\<rparr>) = (Inl 400, s1)"
    using assms(1,3,4) ok by (cases "sc = []") (simp_all add: createAPIKeyHandler_def)
  have okay: "createAPIKeyHandler hash rnd i now db_now u
      (Some \<lparr>cb_name = nm, cb_scopes = sc, cb_expires_in_days = d'\<rparr>) (s\<lparr>faults := [Acked, Lost]\<rparr>)
      = (Inr (key, secret), s1)"
    using gen lost assms(3,5,6) ok by (cases "sc = []") (simp_all add: createAPIKeyHandler_def)
  have "\<exists>row \<in> set (api_keys s1). k_ID row = i \<and> k_UserID row = u \<and> k_ExpiresAt row = None \<and> \<not> k_Revoked row"
    using ins1 by (auto simp: insert_key_def dest!: tbl_insert_SomeD split: if_splits)
  with fail okay show ?thesis by blast
qed

theorem createAPIKeyHandler_leaves_key_witness:
  "\<exists>key s1. createAPIKeyHandler demo_hash (Some [10, 2, 3, 4, 5, 6]) 60 0 0 9
      (Some \<lparr>cb_name = ''bot'', cb_scopes = [''trade''], cb_expires_in_days = 400\<rparr>) demo_keys = (Inl 400, s1) \<and>
    length (api_keys s1) = 2 \<and>
    createAPIKeyHandler demo_hash (Some [10, 2, 3, 4, 5, 6]) 60 0 0 9
      (Some \<lparr>cb_name = ''bot'', cb_scopes = [''trade''], cb_expires_in_days = 30\<rparr>)
      (demo_keys\<lparr>faults := [Acked, Lost]\<rparr>) = (Inr (key, ''gk_live_0a020304_0506''), s1)"
proof -
  have demo: "demo_keys\<lparr>faults := []\<rparr> = demo_keys" by (simp add: demo_keys_def)
  obtain key s1 where gen: "Generate demo_hash (Some [10, 2, 3, 4, 5, 6]) 60 0 0 9 ''bot'' [''trade''] None demo_keys =
      (Inr (key, ''gk_live_0a020304_0506''), s1)"
    using demo_generate by blast
  have len: "length (api_keys s1) = 2"
    using gen by (auto simp: Generate_def demo_hex demo_hash_def demo_keys_def demo_key_def insert_key_def
        tbl_insert_def Let_def)
  note thm1 = createAPIKeyHandler_leaves_key [where s = demo_keys and sc = "[''trade'']" and d = 400 and d' = 30,
      unfolded demo, simplified, OF gen]
  have "list_all (\<lambda>x. x \<in> set validScopes) [''trade'']"
    by (simp add: validScopes_def ScopeTrade_def)
  then show ?thesis using thm1 len by auto
qed

end
