(* ===== verification/Schema.thy ===== *)
theory Schema
  imports Prelude
begin

text \<open>
  Vocabularies of the migrations that several components share: the status CHECKs of deposits
  (migration 0001) and withdrawals (migration 0029), the columns the table withdrawals has after
  all migrations (0003, 0007, 0019 and 0033), and a unit of time. Times that carry a duration are
  nanoseconds since the epoch.
\<close>

definition hour_ns :: int where
  "hour_ns = 3600 * 1000000000"

definition deposit_statuses :: "string list" where
  "deposit_statuses = [''PENDING'', ''CONFIRMED'', ''CREDITED'', ''FAILED'']"

definition withdrawal_statuses :: "string list" where
  "withdrawal_statuses =
     [''PENDING'', ''RISK_CHECK'', ''APPROVED'', ''QUEUED'', ''SIGNING'', ''SIGNED'', ''BROADCASTED'',
      ''BROADCAST_UNKNOWN'', ''IN_BLOCK'', ''SOLIDIFIED'', ''COMPLETED'', ''REJECTED'', ''FAILED'',
      ''CANCELLED'', ''MANUAL_REVIEW'']"

definition migrated_columns :: "string list" where
  "migrated_columns =
     [''id'', ''user_id'', ''asset'', ''amount'', ''dest_address'', ''tx_hash'', ''chain'', ''status'',
      ''confirmations'', ''error_msg'', ''created_at'', ''sent_at'', ''confirmed_at'',
      ''risk_score'', ''risk_hold'', ''fee'', ''receive_amount'', ''block_number'']"

lemma no_completed_at: "''completed_at'' \<notin> set migrated_columns"
  by (simp add: migrated_columns_def)

end
