(* ===== verification/Risk.thy ===== *)
theory Risk
  imports Tables Go_Strings Schema
begin

text \<open>
  Risk scoring, internal/risk/service.go, over the tables login_attempts, user_known_ips,
  risk_events (migration 0007), users, deposits and withdrawals, and the part of the login handler
  (internal/api/user_handlers.go) that records a login and scores it. The cast to inet is an
  argument: the canonical form of an address, or nothing for a text that is none. Times are
  nanoseconds since the epoch.
\<close>

subsection \<open>Types and tables\<close>

definition ActionAllow :: string where "ActionAllow = ''ALLOW''"
definition ActionHold :: string where "ActionHold = ''HOLD''"
definition ActionBlock :: string where "ActionBlock = ''BLOCK''"

record Score =
  sc_Score :: int
  sc_Factors :: "(string \<times> int) list"
  sc_Action :: string

record risk_user =
  ru_id :: uuid
  ru_email :: string
  ru_created_at :: int
  ru_is_bot :: bool
  ru_last_risk_score :: int

record login_attempt =
  la_email :: string
  la_user_id :: "uuid option"
  la_ip :: string
  la_user_agent :: string
  la_success :: bool
  la_failure_reason :: string
  la_timestamp :: int

record known_ip =
  ki_user_id :: uuid
  ki_ip :: string
  ki_last_seen :: int
  ki_login_count :: int

record RiskEvent =
  ev_ID :: uuid
  ev_UserID :: uuid
  ev_EventType :: string
  ev_Score :: int
  ev_Factors :: "(string \<times> int) list"
  ev_Action :: string
  ev_Context :: "(string \<times> string) list"
  ev_CreatedAt :: int

record risk_deposit =
  rd_user_id :: uuid
  rd_amount :: decimal
  rd_status :: string

record risk_withdrawal =
  rw_user_id :: uuid
  rw_dest_address :: string
  rw_status :: string

record risk_db = env +
  risk_users :: "risk_user list"
  login_attempts :: "login_attempt list"
  user_known_ips :: "known_ip list"
  risk_events :: "RiskEvent list"
  risk_deposits :: "risk_deposit list"
  risk_withdrawals :: "risk_withdrawal list"

definition wf_risk :: "'x risk_db_scheme \<Rightarrow> bool" where
  "wf_risk s \<longleftrightarrow>
     (\<forall>d \<in> set (risk_deposits s). rd_status d \<in> set deposit_statuses) \<and>
     (\<forall>w \<in> set (risk_withdrawals s). rw_status w \<in> set withdrawal_statuses)"

subsection \<open>Recording and counting\<close>

definition ActionForScore :: "int \<Rightarrow> string" where
  "ActionForScore score =
     (if score \<le> 30 then ActionAllow else if score \<le> 60 then ActionHold else ActionBlock)"

definition RecordLogin ::
  "(string \<Rightarrow> string option) \<Rightarrow> int \<Rightarrow> string \<Rightarrow> uuid option \<Rightarrow> string \<Rightarrow> string \<Rightarrow> bool \<Rightarrow> string
    \<Rightarrow> 'x risk_db_scheme \<Rightarrow> nat option \<times> 'x risk_db_scheme" where
  "RecordLogin inet db_now email userID ip ua success reason =
     exec_stmt (\<lambda>s. map_option (\<lambda>a. (1, s\<lparr>login_attempts := login_attempts s @
         [\<lparr>la_email = email, la_user_id = userID, la_ip = a, la_user_agent = ua, la_success = success,
           la_failure_reason = reason, la_timestamp = db_now\<rparr>]\<rparr>)) (inet ip))"

definition known_key :: "known_ip \<Rightarrow> uuid \<times> string" where
  "known_key k = (ki_user_id k, ki_ip k)"

definition upsert_known_ip ::
  "int \<Rightarrow> uuid \<Rightarrow> string \<Rightarrow> 'x risk_db_scheme \<Rightarrow> (nat \<times> 'x risk_db_scheme) option" where
  "upsert_known_ip db_now u a s =
     (if u \<notin> set (map ru_id (risk_users s)) then None
      else if (u, a) \<in> set (map known_key (user_known_ips s))
      then Some (1, s\<lparr>user_known_ips := map (\<lambda>k. if known_key k = (u, a)
             then k\<lparr>ki_last_seen := db_now, ki_login_count := ki_login_count k + 1\<rparr> else k) (user_known_ips s)\<rparr>)
      else Some (1, s\<lparr>user_known_ips := user_known_ips s @
             [\<lparr>ki_user_id = u, ki_ip = a, ki_last_seen = db_now, ki_login_count = 1\<rparr>]\<rparr>))"

definition RecordKnownIP ::
  "(string \<Rightarrow> string option) \<Rightarrow> int \<Rightarrow> uuid \<Rightarrow> string \<Rightarrow> 'x risk_db_scheme \<Rightarrow> nat option \<times> 'x risk_db_scheme" where
  "RecordKnownIP inet db_now u ip =
     exec_stmt (\<lambda>s. Option.bind (inet ip) (\<lambda>a. upsert_known_ip db_now u a s))"

text \<open>The readers return \<open>None\<close> for an error, of the database or of a cast.\<close>

definition IsKnownIP ::
  "(string \<Rightarrow> string option) \<Rightarrow> uuid \<Rightarrow> string \<Rightarrow> 'x risk_db_scheme \<Rightarrow> bool option \<times> 'x risk_db_scheme" where
  "IsKnownIP inet u ip s =
     (case query (\<lambda>t. map_option (\<lambda>a. (u, a) \<in> set (map known_key (user_known_ips t))) (inet ip)) s of
        (r, s') \<Rightarrow> (Option.bind r id, s'))"

definition CountFailedLogins ::
  "int \<Rightarrow> string \<Rightarrow> int \<Rightarrow> 'x risk_db_scheme \<Rightarrow> nat option \<times> 'x risk_db_scheme" where
  "CountFailedLogins db_now email hours =
     query (\<lambda>t. length (filter (\<lambda>a. la_email a = email \<and> \<not> la_success a \<and>
       db_now - hours * hour_ns < la_timestamp a) (login_attempts t)))"

definition find_user :: "uuid \<Rightarrow> 'x risk_db_scheme \<Rightarrow> risk_user option" where
  "find_user u s = tbl_find ru_id u (risk_users s)"

definition query_user :: "uuid \<Rightarrow> 'x risk_db_scheme \<Rightarrow> risk_user option \<times> 'x risk_db_scheme" where
  "query_user u s = (case query (find_user u) s of (r, s') \<Rightarrow> (Option.bind r id, s'))"

definition isBotUser :: "uuid \<Rightarrow> 'x risk_db_scheme \<Rightarrow> bool \<times> 'x risk_db_scheme" where
  "isBotUser u s =
     (case query_user u s of (None, s') \<Rightarrow> (False, s') | (Some r, s') \<Rightarrow> (ru_is_bot r, s'))"

subsection \<open>Scores\<close>

definition make_score :: "(string \<times> int) list \<Rightarrow> Score" where
  "make_score factors =
     (let score = sum_list (map snd factors)
      in \<lparr>sc_Score = score, sc_Factors = factors, sc_Action = ActionForScore score\<rparr>)"

definition bot_score :: Score where
  "bot_score = \<lparr>sc_Score = 0, sc_Factors = [(''bot_user'', 0)], sc_Action = ActionAllow\<rparr>"

definition failed_factor :: "string \<Rightarrow> nat \<Rightarrow> int \<Rightarrow> int \<Rightarrow> (string \<times> int) list" where
  "failed_factor name failed each most =
     (if 0 < failed then [(name, min (int failed * each) most)] else [])"

definition age_factor :: "int \<Rightarrow> int \<Rightarrow> int \<Rightarrow> (string \<times> int) list" where
  "age_factor age day week =
     (if age < 24 * hour_ns then [(''account_age_lt_24h'', day)]
      else if age < 7 * 24 * hour_ns then [(''account_age_lt_7d'', week)] else [])"

definition ComputeLoginScore ::
  "(string \<Rightarrow> string option) \<Rightarrow> int \<Rightarrow> int \<Rightarrow> uuid \<Rightarrow> string \<Rightarrow> string
    \<Rightarrow> 'x risk_db_scheme \<Rightarrow> Score option \<times> 'x risk_db_scheme" where
  "ComputeLoginScore inet now db_now u email ip s =
     (case isBotUser u s of
        (True, s1) \<Rightarrow> (Some bot_score, s1)
      | (False, s1) \<Rightarrow>
          (case CountFailedLogins db_now email 1 s1 of
             (None, s2) \<Rightarrow> (None, s2)
           | (Some failed, s2) \<Rightarrow>
               (case IsKnownIP inet u ip s2 of
                  (None, s3) \<Rightarrow> (None, s3)
                | (Some known, s3) \<Rightarrow>
                    (case query_user u s3 of
                       (None, s4) \<Rightarrow> (None, s4)
                     | (Some r, s4) \<Rightarrow>
                         (Some (make_score
                            (failed_factor ''failed_logins_1h'' failed 5 30 @
                             (if known then [] else [(''new_ip'', 15)]) @
                             age_factor (now - ru_created_at r) 10 5)), s4)))))"

text \<open>shopspring's Div keeps sixteen digits, rounding halves away from zero.\<close>

definition Div :: "decimal \<Rightarrow> decimal \<Rightarrow> decimal" where
  "Div x y =
     (let q = x / y in
      if 0 \<le> q then of_int \<lfloor>q * 10 ^ 16 + 1 / 2\<rfloor> / 10 ^ 16
      else - (of_int \<lfloor>- q * 10 ^ 16 + 1 / 2\<rfloor> / 10 ^ 16))"

definition ratio_factor :: "decimal \<Rightarrow> decimal \<Rightarrow> (string \<times> int) list" where
  "ratio_factor amount tot =
     (if 0 < tot then
        (if 1 / 2 < Div amount tot then [(''amount_ratio_gt_50pct'', 20)]
         else if 1 / 5 < Div amount tot then [(''amount_ratio_gt_20pct'', 10)] else [])
      else [])"

definition done_deposits :: "uuid \<Rightarrow> 'x risk_db_scheme \<Rightarrow> decimal" where
  "done_deposits u s =
     sum_list (map rd_amount (filter (\<lambda>d. rd_user_id d = u \<and> rd_status d = ''DONE'') (risk_deposits s)))"

definition sent_before :: "uuid \<Rightarrow> string \<Rightarrow> 'x risk_db_scheme \<Rightarrow> nat" where
  "sent_before u dest s =
     length (filter (\<lambda>w. rw_user_id w = u \<and> rw_dest_address w = dest \<and>
       rw_status w \<in> {''DONE'', ''BROADCAST''}) (risk_withdrawals s))"

text \<open>
  Errors of every read but the failed logins are ignored and leave the zero value: the empty
  email, an account of the year one, no deposits, no earlier withdrawal.
\<close>

definition ComputeWithdrawScore ::
  "int \<Rightarrow> int \<Rightarrow> uuid \<Rightarrow> decimal \<Rightarrow> string \<Rightarrow> 'x risk_db_scheme \<Rightarrow> Score option \<times> 'x risk_db_scheme" where
  "ComputeWithdrawScore now db_now u amount dest s =
     (case isBotUser u s of
        (True, s1) \<Rightarrow> (Some bot_score, s1)
      | (False, s1) \<Rightarrow>
          (case query_user u s1 of (email_row, s2) \<Rightarrow>
             (case CountFailedLogins db_now (case email_row of None \<Rightarrow> [] | Some r \<Rightarrow> ru_email r) 24 s2 of
                (None, s3) \<Rightarrow> (None, s3)
              | (Some failed, s3) \<Rightarrow>
                  (case query_user u s3 of (age_row, s4) \<Rightarrow>
                     (case query (done_deposits u) s4 of (sum_done, s5) \<Rightarrow>
                        (case query (sent_before u dest) s5 of (sent, s6) \<Rightarrow>
                           (let hour = now div hour_ns mod 24 in
                            (Some (make_score
                               (failed_factor ''failed_logins_24h'' failed 3 25 @
                                (case age_row of None \<Rightarrow> [] | Some r \<Rightarrow> age_factor (now - ru_created_at r) 15 8) @
                                ratio_factor amount (case sum_done of None \<Rightarrow> 0 | Some t \<Rightarrow> t) @
                                (if (case sent of None \<Rightarrow> 0 | Some n \<Rightarrow> n) = 0 then [(''new_destination'', 10)] else []) @
                                (if 2 \<le> hour \<and> hour < 6 then [(''unusual_hour'', 10)] else []))), s6))))))))"

subsection \<open>Events and the stored score\<close>

definition RecordEvent ::
  "uuid \<Rightarrow> int \<Rightarrow> uuid \<Rightarrow> string \<Rightarrow> Score \<Rightarrow> (string \<times> string) list
    \<Rightarrow> 'x risk_db_scheme \<Rightarrow> nat option \<times> 'x risk_db_scheme" where
  "RecordEvent new_id db_now u eventType score context =
     exec_stmt (\<lambda>s.
       if u \<in> set (map ru_id (risk_users s)) \<and> length eventType \<le> 50 \<and> length (sc_Action score) \<le> 20
       then map_option (\<lambda>es. (1, s\<lparr>risk_events := es\<rparr>)) (tbl_insert ev_ID
         \<lparr>ev_ID = new_id, ev_UserID = u, ev_EventType = eventType, ev_Score = sc_Score score,
          ev_Factors = sc_Factors score, ev_Action = sc_Action score, ev_Context = context,
          ev_CreatedAt = db_now\<rparr> (risk_events s))
       else None)"

definition GetUserRiskScore :: "uuid \<Rightarrow> 'x risk_db_scheme \<Rightarrow> int option \<times> 'x risk_db_scheme" where
  "GetUserRiskScore u s =
     (case query_user u s of (r, s') \<Rightarrow> (map_option ru_last_risk_score r, s'))"

definition UpdateUserRiskScore :: "uuid \<Rightarrow> int \<Rightarrow> 'x risk_db_scheme \<Rightarrow> nat option \<times> 'x risk_db_scheme" where
  "UpdateUserRiskScore u score =
     exec_stmt (\<lambda>s. map_option (\<lambda>(n, us). (n, s\<lparr>risk_users := us\<rparr>))
       (tbl_update (\<lambda>r. ru_id r = u) (\<lambda>r. Some (r\<lparr>ru_last_risk_score := score\<rparr>)) (risk_users s)))"

definition ListRiskEvents :: "nat \<Rightarrow> 'x risk_db_scheme \<Rightarrow> RiskEvent list option \<times> 'x risk_db_scheme" where
  "ListRiskEvents limit =
     query (\<lambda>t. take limit (sort_key (\<lambda>e. - ev_CreatedAt e) (risk_events t)))"

text \<open>
  What a successful login does with the service: both records first, then the score. The results
  of the records are dropped.
\<close>

definition login_risk ::
  "(string \<Rightarrow> string option) \<Rightarrow> int \<Rightarrow> int \<Rightarrow> uuid \<Rightarrow> string \<Rightarrow> string \<Rightarrow> string
    \<Rightarrow> 'x risk_db_scheme \<Rightarrow> Score option \<times> 'x risk_db_scheme" where
  "login_risk inet now db_now u email ip ua s =
     (let s1 = snd (RecordLogin inet db_now email (Some u) ip ua True [] s);
          s2 = snd (RecordKnownIP inet db_now u ip s1)
      in ComputeLoginScore inet now db_now u email ip s2)"

definition login_record ::
  "uuid \<Rightarrow> int \<Rightarrow> uuid \<Rightarrow> string \<Rightarrow> string \<Rightarrow> Score option \<Rightarrow> 'x risk_db_scheme \<Rightarrow> 'x risk_db_scheme" where
  "login_record new_id db_now u ip ua score s =
     (case score of
        None \<Rightarrow> s
      | Some sc \<Rightarrow>
          (let s1 = snd (UpdateUserRiskScore u (sc_Score sc) s)
           in snd (RecordEvent new_id db_now u ''LOGIN'' sc [(''ip'', ip), (''user_agent'', ua)] s1)))"

subsection \<open>Bounds\<close>

lemma sum_failed_factor: "0 \<le> each \<Longrightarrow> 0 \<le> most \<Longrightarrow>
    0 \<le> sum_list (map snd (failed_factor n f each most)) \<and> sum_list (map snd (failed_factor n f each most)) \<le> most"
  by (auto simp: failed_factor_def)

lemma sum_age_factor: "0 \<le> d \<Longrightarrow> 0 \<le> w \<Longrightarrow>
    0 \<le> sum_list (map snd (age_factor a d w)) \<and> sum_list (map snd (age_factor a d w)) \<le> max d w"
  by (auto simp: age_factor_def)

lemma make_score_sum: "sc_Score (make_score fs) = sum_list (map snd fs)"
  "sc_Action (make_score fs) = ActionForScore (sum_list (map snd fs))" "sc_Factors (make_score fs) = fs"
  by (simp_all add: make_score_def Let_def)

lemma ComputeLoginScore_cases:
  fixes s :: "'x risk_db_scheme"
  assumes "ComputeLoginScore inet now t u email ip s = (Some sc, s')"
  shows "sc = bot_score \<or> (\<exists>failed known created (s2 :: 'x risk_db_scheme) s3.
    IsKnownIP inet u ip s2 = (Some known, s3) \<and> user_known_ips s2 = user_known_ips s \<and>
    sc = make_score (failed_factor ''failed_logins_1h'' failed 5 30 @
      (if known then [] else [(''new_ip'', 15)]) @ age_factor (now - created) 10 5))"
proof -
  have blind: "fault_blind (\<lambda>t. user_known_ips t = user_known_ips s)"
    by (simp add: fault_blind_def)
  obtain b s1 where 1: "isBotUser u s = (b, s1)" by force
  obtain fo s2 where 2: "CountFailedLogins t email 1 s1 = (fo, s2)" by force
  obtain ko s3 where 3: "IsKnownIP inet u ip s2 = (ko, s3)" by force
  obtain ro s4 where 4: "query_user u s3 = (ro, s4)" by force
  have "user_known_ips s1 = user_known_ips s"
    using 1 query_keepsD [OF _ blind] by (auto simp: isBotUser_def query_user_def split: prod.splits option.splits)
  moreover have "user_known_ips s2 = user_known_ips s1"
    using 2 unfolding CountFailedLogins_def by (auto dest!: query_casesD)
  ultimately have same: "user_known_ips s2 = user_known_ips s" by simp
  show ?thesis
  proof (cases b)
    case True
    then show ?thesis using assms 1 by (simp add: ComputeLoginScore_def)
  next
    case False
    then obtain f k r where "fo = Some f" "ko = Some k" "ro = Some r"
      and "sc = make_score (failed_factor ''failed_logins_1h'' f 5 30 @
        (if k then [] else [(''new_ip'', 15)]) @ age_factor (now - ru_created_at r) 10 5)"
      using assms 1 2 3 4 by (auto simp: ComputeLoginScore_def split: option.splits)
    with 3 same show ?thesis by blast
  qed
qed

lemma upsert_known_ip_known:
  assumes "u \<in> set (map ru_id (risk_users s))"
  shows "\<exists>s'. upsert_known_ip t u a s = Some (1, s') \<and> (u, a) \<in> known_key ` set (user_known_ips s')"
proof (cases "(u, a) \<in> set (map known_key (user_known_ips s))")
  case True
  define f where "f = (\<lambda>k. if known_key k = (u, a)
    then k\<lparr>ki_last_seen := t, ki_login_count := ki_login_count k + 1\<rparr> else k)"
  have "known_key (f k) = known_key k" for k by (simp add: f_def known_key_def)
  then have "known_key ` set (map f (user_known_ips s)) = known_key ` set (user_known_ips s)"
    by (simp add: image_image)
  moreover have "upsert_known_ip t u a s = Some (1, s\<lparr>user_known_ips := map f (user_known_ips s)\<rparr>)"
    using True assms by (simp add: upsert_known_ip_def f_def)
  ultimately show ?thesis using True by simp
next
  case False
  then show ?thesis using assms by (simp add: upsert_known_ip_def) (simp add: known_key_def)
qed

text \<open>The risk score of a login lies between 0 and 55, so its action is never BLOCK, and for a bot
  account it is 0; and because the login handler records the address of the login as known before
  it asks for the score, the factor new_ip never counts in a login when that record was written.\<close>

theorem login_score_bounds:
  "(fst (ComputeLoginScore inet now t u email ip s) = Some sc \<longrightarrow>
      0 \<le> sc_Score sc \<and> sc_Score sc \<le> 55 \<and> sc_Action sc \<noteq> ActionBlock) \<and>
   (faults s = [] \<longrightarrow> u \<in> set (map ru_id (risk_users s)) \<longrightarrow>
      fst (login_risk inet now t u email ip ua s) = Some sc \<longrightarrow>
      ''new_ip'' \<notin> set (map fst (sc_Factors sc)) \<and> sc_Score sc \<le> 40)"
proof (intro conjI impI)
  assume "fst (ComputeLoginScore inet now t u email ip s) = Some sc"
  then obtain s' where run: "ComputeLoginScore inet now t u email ip s = (Some sc, s')"
    by (metis prod.collapse)
  have "0 \<le> sc_Score sc \<and> sc_Score sc \<le> 55 \<and> sc_Action sc = ActionForScore (sc_Score sc)"
    using ComputeLoginScore_cases [OF run]
  proof (elim disjE exE conjE)
    assume "sc = bot_score"
    then show ?thesis by (simp add: bot_score_def ActionForScore_def)
  next
    fix failed known created
    assume sc: "sc = make_score (failed_factor ''failed_logins_1h'' failed 5 30 @
      (if known then [] else [(''new_ip'', 15)]) @ age_factor (now - created) 10 5)"
    show ?thesis
      using sum_failed_factor [of 5 30 "''failed_logins_1h''" failed]
        sum_age_factor [of 10 5 "now - created"]
      by (simp add: sc make_score_sum)
  qed
  then show "0 \<le> sc_Score sc" and "sc_Score sc \<le> 55" and "sc_Action sc \<noteq> ActionBlock"
    by (auto simp: ActionForScore_def ActionAllow_def ActionHold_def ActionBlock_def)
next
  assume s: "faults s = []" and u: "u \<in> set (map ru_id (risk_users s))"
    and run: "fst (login_risk inet now t u email ip ua s) = Some sc"
  define s1 where "s1 = snd (RecordLogin inet t email (Some u) ip ua True [] s)"
  define s2 where "s2 = snd (RecordKnownIP inet t u ip s1)"
  have s1: "faults s1 = []" "risk_users s1 = risk_users s"
    using s by (simp_all add: s1_def RecordLogin_def split: option.splits)
  have "fst (ComputeLoginScore inet now t u email ip s2) = Some sc"
    using run by (simp add: login_risk_def Let_def s1_def s2_def)
  then obtain s3 where score: "ComputeLoginScore inet now t u email ip s2 = (Some sc, s3)"
    by (metis prod.collapse)
  have known: "(u, a) \<in> set (map known_key (user_known_ips s2))" if a: "inet ip = Some a" for a
  proof -
    obtain s' where "upsert_known_ip t u a s1 = Some (1, s')" "(u, a) \<in> known_key ` set (user_known_ips s')"
      using upsert_known_ip_known [of u s1 t a] u s1(2) by auto
    then show ?thesis using s1(1) a by (simp add: s2_def RecordKnownIP_def)
  qed
  from ComputeLoginScore_cases [OF score]
  have "''new_ip'' \<notin> set (map fst (sc_Factors sc)) \<and> sc_Score sc \<le> 40"
  proof (elim disjE exE conjE)
    assume "sc = bot_score"
    then show ?thesis by (simp add: bot_score_def)
  next
    fix failed k created t1 t2
    assume ik: "IsKnownIP inet u ip t1 = (Some k, t2)" and same: "user_known_ips t1 = user_known_ips s2"
      and sc: "sc = make_score (failed_factor ''failed_logins_1h'' failed 5 30 @
        (if k then [] else [(''new_ip'', 15)]) @ age_factor (now - created) 10 5)"
    have k
    proof -
      obtain q t3 where q: "query (\<lambda>t. map_option (\<lambda>a. (u, a) \<in> set (map known_key (user_known_ips t))) (inet ip)) t1 = (q, t3)"
        by force
      have qk: "q = Some (Some k)"
        using ik q by (cases q) (auto simp: IsKnownIP_def)
      have "\<exists>fs. t3 = t1\<lparr>faults := fs\<rparr> \<and> Some k =
          map_option (\<lambda>a. (u, a) \<in> set (map known_key (user_known_ips t3))) (inet ip)"
        using query_casesD [OF q] qk by auto
      then show ?thesis using known same by (cases "inet ip") auto
    qed
    then show ?thesis
      using sum_failed_factor [of 5 30 "''failed_logins_1h''" failed]
        sum_age_factor [of 10 5 "now - created"]
      by (auto simp: sc make_score_sum failed_factor_def age_factor_def)
  qed
  then show "''new_ip'' \<notin> set (map fst (sc_Factors sc))" and "sc_Score sc \<le> 40" by blast+
qed

definition demo_risk :: risk_db where
  "demo_risk = \<lparr>faults = [],
     risk_users = [\<lparr>ru_id = 7, ru_email = ''a'', ru_created_at = 0, ru_is_bot = False, ru_last_risk_score = 0\<rparr>],
     login_attempts = [\<lparr>la_email = ''a'', la_user_id = None, la_ip = ''x'', la_user_agent = [],
       la_success = False, la_failure_reason = [], la_timestamp = 8\<rparr>],
     user_known_ips = [], risk_events = [],
     risk_deposits = [\<lparr>rd_user_id = 7, rd_amount = 100, rd_status = ''CREDITED''\<rparr>],
     risk_withdrawals = [\<lparr>rw_user_id = 7, rw_dest_address = ''T9'', rw_status = ''COMPLETED''\<rparr>]\<rparr>"

theorem login_score_bounds_witness:
  "\<exists>sc. fst (login_risk Some 9 9 7 ''a'' ''9.9.9.9'' ''ua'' demo_risk) = Some sc \<and> sc_Score sc = 15 \<and>
     ''new_ip'' \<notin> set (map fst (sc_Factors sc)) \<and>
     (\<exists>sc'. fst (ComputeLoginScore Some 9 9 7 ''a'' ''9.9.9.9'' demo_risk) = Some sc' \<and> sc_Score sc' = 30 \<and>
        sc_Action sc' \<noteq> ActionBlock)"
proof -
  obtain sc where sc: "fst (login_risk Some 9 9 7 ''a'' ''9.9.9.9'' ''ua'' demo_risk) = Some sc" "sc_Score sc = 15"
    by (simp add: login_risk_def demo_risk_def RecordLogin_def RecordKnownIP_def upsert_known_ip_def ComputeLoginScore_def
        isBotUser_def query_user_def find_user_def tbl_find_def CountFailedLogins_def IsKnownIP_def known_key_def
        failed_factor_def age_factor_def make_score_def hour_ns_def Let_def)
  obtain sc' where sc': "fst (ComputeLoginScore Some 9 9 7 ''a'' ''9.9.9.9'' demo_risk) = Some sc'" "sc_Score sc' = 30"
    by (simp add: demo_risk_def ComputeLoginScore_def
        isBotUser_def query_user_def find_user_def tbl_find_def CountFailedLogins_def IsKnownIP_def known_key_def
        failed_factor_def age_factor_def make_score_def hour_ns_def Let_def)
  have "faults demo_risk = []" "(7 :: nat) \<in> set (map ru_id (risk_users demo_risk))"
    by (simp_all add: demo_risk_def)
  then show ?thesis
    using sc sc' login_score_bounds [of Some 9 9 7 "''a''" "''9.9.9.9''" demo_risk sc "''ua''"]
      login_score_bounds [of Some 9 9 7 "''a''" "''9.9.9.9''" demo_risk sc' "''ua''"]
    by blast
qed

lemma wf_risk_blind: "fault_blind wf_risk"
  by (simp add: fault_blind_def wf_risk_def)

lemma wf_risk_no_done:
  assumes "wf_risk s"
  shows "done_deposits u s = 0" "sent_before u dest s = 0"
proof -
  have "\<forall>d \<in> set (risk_deposits s). rd_status d \<noteq> ''DONE''"
    using assms by (auto simp: wf_risk_def deposit_statuses_def)
  then show "done_deposits u s = 0" by (simp add: done_deposits_def)
  have "\<forall>w \<in> set (risk_withdrawals s). rw_status w \<notin> {''DONE'', ''BROADCAST''}"
    using assms by (auto simp: wf_risk_def withdrawal_statuses_def)
  then show "sent_before u dest s = 0" by (auto simp: sent_before_def filter_empty_conv)
qed

lemma wf_risk_queries:
  assumes "wf_risk s"
  shows "query (done_deposits u) s = query (\<lambda>_. 0) s" "query (sent_before u dest) s = query (\<lambda>_. 0) s"
proof -
  have "wf_risk (s\<lparr>faults := fs\<rparr>)" for fs
    using assms by (simp add: wf_risk_def)
  then show "query (done_deposits u) s = query (\<lambda>_. 0) s" "query (sent_before u dest) s = query (\<lambda>_. 0) s"
    by (auto intro!: query_cong simp: wf_risk_no_done)
qed

text \<open>The score on legal tables, without the two factors that never vary.\<close>

lemma ComputeWithdrawScore_wf:
  assumes "wf_risk s"
  shows "\<exists>r s'. (\<forall>amount dest. ComputeWithdrawScore now t u amount dest s = (r, s')) \<and>
    (r = None \<or> r = Some bot_score \<or>
     (\<exists>failed age hour. (age = [] \<or> (\<exists>a. age = age_factor a 15 8)) \<and> (hour = [] \<or> hour = [(''unusual_hour'', 10)]) \<and>
       r = Some (make_score (failed_factor ''failed_logins_24h'' failed 3 25 @ age @ [(''new_destination'', 10)] @ hour))))"
proof -
  obtain b s1 where 1: "isBotUser u s = (b, s1)" by force
  obtain er s2 where 2: "query_user u s1 = (er, s2)" by force
  obtain fo s3 where 3: "CountFailedLogins t (case er of None \<Rightarrow> [] | Some r \<Rightarrow> ru_email r) 24 s2 = (fo, s3)" by force
  obtain ar s4 where 4: "query_user u s3 = (ar, s4)" by force
  obtain d s5 where 5: "query (\<lambda>_. 0 :: decimal) s4 = (d, s5)" by force
  obtain n s6 where 6: "query (\<lambda>_. 0 :: nat) s5 = (n, s6)" by force
  have wf1: "wf_risk s1"
    using 1 assms query_keepsD [OF _ wf_risk_blind]
    by (auto simp: isBotUser_def query_user_def split: prod.splits option.splits)
  have wf2: "wf_risk s2"
    using 2 wf1 query_keepsD [OF _ wf_risk_blind] by (auto simp: query_user_def split: prod.splits)
  have wf3: "wf_risk s3"
    using 3 wf2 query_keepsD [OF _ wf_risk_blind] by (auto simp: CountFailedLogins_def)
  have wf4: "wf_risk s4"
    using 4 wf3 query_keepsD [OF _ wf_risk_blind] by (auto simp: query_user_def split: prod.splits)
  have wf5: "wf_risk s5"
    using 5 wf4 query_keepsD [OF _ wf_risk_blind] by auto
  have d: "(case d of None \<Rightarrow> 0 | Some t \<Rightarrow> t) = 0" using query_casesD [OF 5] by auto
  have n: "(case n of None \<Rightarrow> 0 | Some t \<Rightarrow> t) = 0" using query_casesD [OF 6] by auto
  note steps = 1 2 3 4 5 6 wf_risk_queries [OF wf4] wf_risk_queries [OF wf5] d n
  have bot: "ComputeWithdrawScore now t u amount dest s = (Some bot_score, s1)" if b for amount dest
    using 1 that by (simp add: ComputeWithdrawScore_def)
  have none: "ComputeWithdrawScore now t u amount dest s = (None, s3)" if "\<not> b" "fo = None" for amount dest
    using steps that by (simp add: ComputeWithdrawScore_def)
  let ?age = "case ar of None \<Rightarrow> [] | Some r \<Rightarrow> age_factor (now - ru_created_at r) 15 8"
  let ?hour = "if 2 \<le> now div hour_ns mod 24 \<and> now div hour_ns mod 24 < 6 then [(''unusual_hour'', 10)] else []"
  have some: "ComputeWithdrawScore now t u amount dest s =
      (Some (make_score (failed_factor ''failed_logins_24h'' f 3 25 @ ?age @ [(''new_destination'', 10)] @ ?hour)), s6)"
    if "\<not> b" "fo = Some f" for f amount dest
    using steps that by (simp add: ComputeWithdrawScore_def ratio_factor_def Let_def)
  have age: "?age = [] \<or> (\<exists>a. ?age = age_factor a 15 8)" by (cases ar) auto
  have hour: "?hour = [] \<or> ?hour = [(''unusual_hour'', 10)]" by simp
  show ?thesis
  proof (cases b)
    case True
    then show ?thesis using bot by blast
  next
    case False
    show ?thesis
    proof (cases fo)
      case None
      then show ?thesis using none False by blast
    next
      case (Some f)
      show ?thesis using some [OF False Some] age hour by blast
    qed
  qed
qed

text \<open>On the tables the migrations allow, the withdrawal score does not depend on the amount or on the
  destination: no deposit is ever DONE and no withdrawal DONE or BROADCAST, so the amount ratio never
  counts and every destination counts as new; without those two factors the score is at most 60, and
  its action is never BLOCK.\<close>

theorem withdraw_score_blind:
  assumes "wf_risk s"
  shows "ComputeWithdrawScore now t u amount dest s = ComputeWithdrawScore now t u amount' dest' s \<and>
    (fst (ComputeWithdrawScore now t u amount dest s) = Some sc \<longrightarrow>
      0 \<le> sc_Score sc \<and> sc_Score sc \<le> 60 \<and> sc_Action sc \<noteq> ActionBlock)"
proof -
  obtain r s' where all: "\<And>a d. ComputeWithdrawScore now t u a d s = (r, s')"
    and r: "r = None \<or> r = Some bot_score \<or>
     (\<exists>failed age hour. (age = [] \<or> (\<exists>a. age = age_factor a 15 8)) \<and> (hour = [] \<or> hour = [(''unusual_hour'', 10)]) \<and>
       r = Some (make_score (failed_factor ''failed_logins_24h'' failed 3 25 @ age @ [(''new_destination'', 10)] @ hour)))"
    using ComputeWithdrawScore_wf [OF assms, of now t u] by blast
  have "0 \<le> sc_Score sc \<and> sc_Score sc \<le> 60 \<and> sc_Action sc = ActionForScore (sc_Score sc)" if rs: "r = Some sc"
  proof -
    have "sc = bot_score \<or> (\<exists>failed age hour. (age = [] \<or> (\<exists>a. age = age_factor a 15 8)) \<and>
        (hour = [] \<or> hour = [(''unusual_hour'', 10)]) \<and>
        sc = make_score (failed_factor ''failed_logins_24h'' failed 3 25 @ age @ [(''new_destination'', 10)] @ hour))"
      using r rs by simp
    then consider "sc = bot_score" | failed age hour
      where "age = [] \<or> (\<exists>a. age = age_factor a 15 8)" and "hour = [] \<or> hour = [(''unusual_hour'', 10)]"
        and "sc = make_score (failed_factor ''failed_logins_24h'' failed 3 25 @ age @ [(''new_destination'', 10)] @ hour)"
      by blast
    then show ?thesis
    proof cases
      case 1
      then show ?thesis by (simp add: bot_score_def ActionForScore_def)
    next
      case (2 failed age hour)
      have "0 \<le> sum_list (map snd age) \<and> sum_list (map snd age) \<le> 15"
        using 2(1) sum_age_factor [of 15 8] by auto
      moreover have "0 \<le> sum_list (map snd hour) \<and> sum_list (map snd hour) \<le> 10"
        using 2(2) by auto
      ultimately show ?thesis
        using sum_failed_factor [of 3 25 "''failed_logins_24h''" failed] by (simp add: 2(3) make_score_sum)
    qed
  qed
  then show ?thesis
    using all by (auto simp: ActionForScore_def ActionAllow_def ActionHold_def ActionBlock_def)
qed

lemma wf_demo_risk: "wf_risk demo_risk"
  by (simp add: wf_risk_def demo_risk_def deposit_statuses_def withdrawal_statuses_def)

theorem withdraw_score_blind_witness:
  "ComputeWithdrawScore 9 9 7 1 ''T9'' demo_risk = ComputeWithdrawScore 9 9 7 1000000 ''T8'' demo_risk"
  using withdraw_score_blind [OF wf_demo_risk, of 9 9 7 1 "''T9''" 1000000 "''T8''"] by blast

end
