(* ===== verification/Trigger.thy ===== *)
theory Trigger
  imports Trading_Correct
begin

text \<open>
  Conditional orders, internal/trigger/service.go, over the table trigger_orders (migration 0022),
  its handlers (internal/api/trigger_handlers.go) and the monitor cmd/api/main.go wires to the
  trading service. The state is the trading service's with the trigger table added, so the orders a
  trigger places are the orders of theory Trading.
\<close>

subsection \<open>Types and the table\<close>

definition StopLoss :: string where "StopLoss = ''STOP_LOSS''"
definition TakeProfit :: string where "TakeProfit = ''TAKE_PROFIT''"
definition StatusPending :: string where "StatusPending = ''PENDING''"
definition StatusTriggered :: string where "StatusTriggered = ''TRIGGERED''"
definition StatusCancelled :: string where "StatusCancelled = ''CANCELLED''"
definition StatusExpired :: string where "StatusExpired = ''EXPIRED''"

record TriggerOrder =
  tg_ID :: uuid
  tg_UserID :: uuid
  tg_Pair :: string
  tg_Side :: string
  tg_Type :: string
  tg_Price :: decimal
  tg_Quantity :: decimal
  tg_Status :: string
  tg_TriggeredAt :: "time option"
  tg_OrderID :: "uuid option"
  tg_CancelledAt :: "time option"
  tg_CreatedAt :: time
  tg_UpdatedAt :: time

record CreateInput =
  ci_UserID :: uuid
  ci_Pair :: string
  ci_Side :: string
  ci_TriggerType :: string
  ci_TriggerPrice :: decimal
  ci_Quantity :: decimal

record 'e trigger_db = "'e trading_db" +
  trigger_users :: "uuid list"
  trigger_orders :: "TriggerOrder list"

text \<open>Writing a row: rounding, the CHECKs and the two foreign keys.\<close>

definition trigger_store ::
  "('e, 'x) trigger_db_scheme \<Rightarrow> TriggerOrder \<Rightarrow> TriggerOrder option" where
  "trigger_store s r =
     (case (numeric_38_18 (tg_Price r), numeric_38_18 (tg_Quantity r)) of
        (Some p, Some q) \<Rightarrow>
          if tg_Type r \<in> {StopLoss, TakeProfit} \<and>
             tg_Status r \<in> {StatusPending, StatusTriggered, StatusCancelled, StatusExpired} \<and>
             tg_Side r \<in> {''BUY'', ''SELL''} \<and> 0 < q \<and> 0 < p \<and>
             tg_UserID r \<in> set (trigger_users s) \<and>
             (case tg_OrderID r of None \<Rightarrow> True | Some i \<Rightarrow> i \<in> or_id ` set (orders s))
          then Some (r\<lparr>tg_Price := p, tg_Quantity := q\<rparr>) else None
      | _ \<Rightarrow> None)"

definition update_triggers ::
  "(TriggerOrder \<Rightarrow> bool) \<Rightarrow> (TriggerOrder \<Rightarrow> TriggerOrder) \<Rightarrow> ('e, 'x) trigger_db_scheme
    \<Rightarrow> (nat \<times> ('e, 'x) trigger_db_scheme) option" where
  "update_triggers P f s =
     map_option (\<lambda>(n, ts). (n, s\<lparr>trigger_orders := ts\<rparr>))
       (tbl_update P (\<lambda>r. trigger_store s (f r)) (trigger_orders s))"

subsection \<open>The service\<close>

text \<open>The left value is an error.\<close>

definition Create ::
  "uuid \<Rightarrow> time \<Rightarrow> CreateInput \<Rightarrow> ('e, 'x) trigger_db_scheme
    \<Rightarrow> (string + TriggerOrder) \<times> ('e, 'x) trigger_db_scheme" where
  "Create new_id db_now inp s =
     (if ci_TriggerPrice inp = 0 \<or> ci_Quantity inp = 0
      then (Inl ''trigger_price and quantity required'', s)
      else if ci_TriggerType inp \<noteq> StopLoss \<and> ci_TriggerType inp \<noteq> TakeProfit
      then (Inl ''invalid trigger_type'', s)
      else if ci_Side inp \<noteq> ''BUY'' \<and> ci_Side inp \<noteq> ''SELL''
      then (Inl ''side must be BUY or SELL'', s)
      else
        (let row = \<lparr>tg_ID = new_id, tg_UserID = ci_UserID inp, tg_Pair = ci_Pair inp,
              tg_Side = ci_Side inp, tg_Type = ci_TriggerType inp, tg_Price = ci_TriggerPrice inp,
              tg_Quantity = ci_Quantity inp, tg_Status = StatusPending, tg_TriggeredAt = None,
              tg_OrderID = None, tg_CancelledAt = None, tg_CreatedAt = db_now, tg_UpdatedAt = db_now\<rparr>
         in (case exec_stmt (\<lambda>t. Option.bind (trigger_store t row) (\<lambda>r.
                   map_option (\<lambda>ts. (1, t\<lparr>trigger_orders := ts\<rparr>)) (tbl_insert tg_ID r (trigger_orders t)))) s of
               (None, s') \<Rightarrow> (Inl ''database'', s')
             | (Some _, s') \<Rightarrow> (Inr (the (trigger_store s row)), s'))))"

definition ListByUser ::
  "uuid \<Rightarrow> ('e, 'x) trigger_db_scheme \<Rightarrow> TriggerOrder list option \<times> ('e, 'x) trigger_db_scheme" where
  "ListByUser u = query (\<lambda>t. sort_key (\<lambda>r. - tg_CreatedAt r) (filter (\<lambda>r. tg_UserID r = u) (trigger_orders t)))"

definition Cancel ::
  "time \<Rightarrow> uuid \<Rightarrow> uuid \<Rightarrow> ('e, 'x) trigger_db_scheme \<Rightarrow> (string + unit) \<times> ('e, 'x) trigger_db_scheme" where
  "Cancel db_now u i s =
     (case exec_stmt (update_triggers (\<lambda>r. tg_ID r = i \<and> tg_UserID r = u \<and> tg_Status r = StatusPending)
             (\<lambda>r. r\<lparr>tg_Status := StatusCancelled, tg_CancelledAt := Some db_now, tg_UpdatedAt := db_now\<rparr>)) s of
        (None, s') \<Rightarrow> (Inl ''database'', s')
      | (Some n, s') \<Rightarrow>
          (if n = 0 then Inl ''trigger order not found or not pending'' else Inr (), s'))"

text \<open>Which rows the monitor's query selects.\<close>

definition fires :: "string \<Rightarrow> decimal \<Rightarrow> TriggerOrder \<Rightarrow> bool" where
  "fires pair price r \<longleftrightarrow>
     tg_Pair r = pair \<and> tg_Status r = StatusPending \<and>
     (tg_Type r = StopLoss \<and> price \<le> tg_Price r \<or> tg_Type r = TakeProfit \<and> tg_Price r \<le> price)"

definition mark_triggered ::
  "time \<Rightarrow> uuid \<Rightarrow> uuid \<Rightarrow> ('e, 'x) trigger_db_scheme \<Rightarrow> nat option \<times> ('e, 'x) trigger_db_scheme" where
  "mark_triggered now i orderID =
     exec_stmt (update_triggers (\<lambda>r. tg_ID r = i \<and> tg_Status r = StatusPending)
       (\<lambda>r. r\<lparr>tg_Status := StatusTriggered, tg_TriggeredAt := Some now, tg_OrderID := Some orderID,
              tg_UpdatedAt := now\<rparr>))"

text \<open>
  Executing the selected rows one after the other. place_order returns the id of the order it
  placed; a row whose order fails is skipped, and one whose mark fails is reported all the same.
\<close>

fun trigger_rows ::
  "(uuid \<Rightarrow> string \<Rightarrow> string \<Rightarrow> decimal \<Rightarrow> 's \<Rightarrow> uuid option \<times> 's) \<Rightarrow>
   (uuid \<Rightarrow> uuid \<Rightarrow> 's \<Rightarrow> nat option \<times> 's) \<Rightarrow> time \<Rightarrow> TriggerOrder list \<Rightarrow> 's \<Rightarrow> TriggerOrder list \<times> 's" where
  "trigger_rows place mark now [] s = ([], s)"
| "trigger_rows place mark now (r # rs) s =
     (case place (tg_UserID r) (tg_Pair r) (tg_Side r) (tg_Quantity r) s of
        (None, s1) \<Rightarrow> trigger_rows place mark now rs s1
      | (Some orderID, s1) \<Rightarrow>
          (case mark (tg_ID r) orderID s1 of (_, s2) \<Rightarrow>
             (case trigger_rows place mark now rs s2 of (out, s3) \<Rightarrow>
                (r\<lparr>tg_Status := StatusTriggered, tg_TriggeredAt := Some now,
                   tg_OrderID := Some orderID\<rparr> # out, s3))))"

definition CheckAndTrigger ::
  "(uuid \<Rightarrow> string \<Rightarrow> string \<Rightarrow> decimal \<Rightarrow> ('e, 'x) trigger_db_scheme \<Rightarrow> uuid option \<times> ('e, 'x) trigger_db_scheme)
    \<Rightarrow> time \<Rightarrow> string \<Rightarrow> decimal \<Rightarrow> ('e, 'x) trigger_db_scheme
    \<Rightarrow> TriggerOrder list option \<times> ('e, 'x) trigger_db_scheme" where
  "CheckAndTrigger place now pair price s =
     (case query (\<lambda>t. filter (fires pair price) (trigger_orders t)) s of
        (None, s1) \<Rightarrow> (None, s1)
      | (Some rs, s1) \<Rightarrow>
          (case trigger_rows place (mark_triggered now) now rs s1 of (out, s2) \<Rightarrow> (Some out, s2)))"

definition CountPending :: "('e, 'x) trigger_db_scheme \<Rightarrow> nat option \<times> ('e, 'x) trigger_db_scheme" where
  "CountPending = query (\<lambda>t. length (filter (\<lambda>r. tg_Status r = StatusPending) (trigger_orders t)))"

text \<open>One tick over the prices, in the order the map is walked; \<open>None\<close> is a failed price feed.\<close>

fun tick_prices ::
  "(uuid \<Rightarrow> string \<Rightarrow> string \<Rightarrow> decimal \<Rightarrow> ('e, 'x) trigger_db_scheme \<Rightarrow> uuid option \<times> ('e, 'x) trigger_db_scheme)
    \<Rightarrow> time \<Rightarrow> (string \<times> decimal) list \<Rightarrow> ('e, 'x) trigger_db_scheme \<Rightarrow> ('e, 'x) trigger_db_scheme" where
  "tick_prices place now [] s = s"
| "tick_prices place now ((pair, price) # ps) s =
     (if price \<le> 0 then tick_prices place now ps s
      else tick_prices place now ps (snd (CheckAndTrigger place now pair price s)))"

definition tick ::
  "(uuid \<Rightarrow> string \<Rightarrow> string \<Rightarrow> decimal \<Rightarrow> ('e, 'x) trigger_db_scheme \<Rightarrow> uuid option \<times> ('e, 'x) trigger_db_scheme)
    \<Rightarrow> time \<Rightarrow> (string \<times> decimal) list option \<Rightarrow> ('e, 'x) trigger_db_scheme \<Rightarrow> ('e, 'x) trigger_db_scheme" where
  "tick place now prices s = (case prices of None \<Rightarrow> s | Some ps \<Rightarrow> tick_prices place now ps s)"

text \<open>The order the monitor places: a market order of the trading service.\<close>

definition place_market ::
  "(string \<Rightarrow> PairInfo option) \<Rightarrow> 'e OrderSource option \<Rightarrow> (('e, 'x) trading_db_scheme \<Rightarrow> uuid) \<Rightarrow> time
    \<Rightarrow> uuid \<Rightarrow> string \<Rightarrow> string \<Rightarrow> decimal \<Rightarrow> ('e, 'x) trading_db_scheme
    \<Rightarrow> uuid option \<times> ('e, 'x) trading_db_scheme" where
  "place_market pairs src new_id now u pair side qty s =
     (case PlaceOrder pairs src (new_id s) now
             \<lparr>in_UserID = u, in_Pair = pair, in_Side = side, in_Type = TypeMarket, in_Price = 0,
              in_Quantity = qty, in_STPMode = []\<rparr> s of
        (Inl _, s') \<Rightarrow> (None, s')
      | (Inr res, s') \<Rightarrow> (Some (res_OrderID res), s'))"

subsection \<open>The handlers\<close>

text \<open>
  The left value is the HTTP status of an error. The body's amounts are texts; dec is the decimal
  package's parser. The nil user is an unauthenticated request.
\<close>

definition createTriggerOrderHandler ::
  "(string \<Rightarrow> decimal option) \<Rightarrow> uuid \<Rightarrow> time \<Rightarrow> uuid
    \<Rightarrow> (string \<times> string \<times> string \<times> string \<times> string) option \<Rightarrow> ('e, 'x) trigger_db_scheme
    \<Rightarrow> (nat + TriggerOrder) \<times> ('e, 'x) trigger_db_scheme" where
  "createTriggerOrderHandler dec new_id db_now userID body s =
     (if userID = uuid_nil then (Inl 401, s)
      else
        (case body of
           None \<Rightarrow> (Inl 400, s)
         | Some (pair, side, ttype, price, quantity) \<Rightarrow>
             (case dec price of
                None \<Rightarrow> (Inl 400, s)
              | Some tp \<Rightarrow>
                  if \<not> 0 < tp then (Inl 400, s)
                  else
                    (case dec quantity of
                       None \<Rightarrow> (Inl 400, s)
                     | Some qty \<Rightarrow>
                         if \<not> 0 < qty then (Inl 400, s)
                         else
                           (case Create new_id db_now
                                  \<lparr>ci_UserID = userID, ci_Pair = pair, ci_Side = side, ci_TriggerType = ttype,
                                   ci_TriggerPrice = tp, ci_Quantity = qty\<rparr> s of
                              (Inl _, s') \<Rightarrow> (Inl 400, s')
                            | (Inr r, s') \<Rightarrow> (Inr r, s'))))))"

definition listTriggerOrdersHandler ::
  "uuid \<Rightarrow> ('e, 'x) trigger_db_scheme \<Rightarrow> (nat + TriggerOrder list) \<times> ('e, 'x) trigger_db_scheme" where
  "listTriggerOrdersHandler userID s =
     (if userID = uuid_nil then (Inl 401, s)
      else (case ListByUser userID s of
              (None, s') \<Rightarrow> (Inl 500, s')
            | (Some rs, s') \<Rightarrow> (Inr rs, s')))"

definition cancelTriggerOrderHandler ::
  "time \<Rightarrow> uuid \<Rightarrow> uuid option \<Rightarrow> ('e, 'x) trigger_db_scheme \<Rightarrow> (nat + unit) \<times> ('e, 'x) trigger_db_scheme" where
  "cancelTriggerOrderHandler db_now userID i s =
     (if userID = uuid_nil then (Inl 401, s)
      else (case i of
              None \<Rightarrow> (Inl 400, s)
            | Some k \<Rightarrow> (case Cancel db_now userID k s of
                (Inl _, s') \<Rightarrow> (Inl 400, s') | (Inr _, s') \<Rightarrow> (Inr (), s'))))"

subsection \<open>What placing an order keeps\<close>

text \<open>
  Whatever happens, placing an order leaves the tables the trading service does not know about as
  they are, and never removes an order.
\<close>

definition orders_grow :: "('e, 'x) trading_db_scheme \<Rightarrow> ('e, 'x) trading_db_scheme \<Rightarrow> bool" where
  "orders_grow s s' \<longleftrightarrow> trading_db.more s' = trading_db.more s \<and> or_id ` set (orders s) \<subseteq> or_id ` set (orders s')"

lemma orders_grow_refl [simp]: "orders_grow s s"
  by (simp add: orders_grow_def)

lemma orders_grow_trans: "orders_grow s t \<Longrightarrow> orders_grow t u \<Longrightarrow> orders_grow s u"
  by (auto simp: orders_grow_def)

lemma only_balances_grow: "only_balances s s' \<Longrightarrow> orders_grow s s'"
  by (auto simp: only_balances_def orders_grow_def)

lemma query_grow: "query f s = (r, s') \<Longrightarrow> orders_grow s s'"
  by (auto simp: orders_grow_def dest!: query_casesD)

lemma call_engine_grow: "call_engine f s = (r, s') \<Longrightarrow> orders_grow s s'"
  by (auto simp: call_engine_def orders_grow_def split: prod.splits)

lemma exec_stmt_grow:
  assumes "exec_stmt f s = (r, s')" and "\<And>t n t'. f t = Some (n, t') \<Longrightarrow> orders_grow t t'"
  shows "orders_grow s s'"
proof -
  have "orders_grow s (s\<lparr>faults := fs\<rparr>)" for fs by (simp add: orders_grow_def)
  then show ?thesis using exec_stmt_casesD [OF assms(1)] assms(2) by (blast intro: orders_grow_trans)
qed

lemma insert_order_grow: "insert_order_stmt r s = Some (n, s') \<Longrightarrow> orders_grow s s'"
  by (auto simp: insert_order_stmt_def orders_grow_def dest!: tbl_insert_SomeD split: option.splits)

lemma insert_trade_grow: "insert_trade_stmt r s = Some (n, s') \<Longrightarrow> orders_grow s s'"
  by (auto simp: insert_trade_stmt_def orders_grow_def split: option.splits)

lemma update_orders_grow:
  assumes "update_orders_stmt P f s = Some (n, s')" and "\<And>r. or_id (f r) = or_id r"
  shows "orders_grow s s'"
proof -
  obtain os where upd: "tbl_update P (\<lambda>r. order_store (f r)) (orders s) = Some (n, os)"
    and s': "s' = s\<lparr>orders := os\<rparr>"
    using assms(1) by (auto simp: update_orders_stmt_def)
  have "map or_id os = map or_id (orders s)"
    by (rule tbl_update_keys [OF upd]) (simp add: order_store_id assms(2))
  then have "or_id ` set os = or_id ` set (orders s)" by (metis set_map)
  then show ?thesis by (simp add: orders_grow_def s')
qed

lemma persistOrder_grow: "orders_grow s (snd (persistOrder now x s))"
  by (auto simp: persistOrder_def split: prod.splits option.splits
      intro: orders_grow_trans dest: query_grow exec_stmt_grow [OF _ insert_order_grow])

lemma updateOrderStatus_grow: "orders_grow s (snd (updateOrderStatus now i st f s))"
proof -
  obtain r s' where ex: "exec_stmt (update_orders_stmt (\<lambda>r. or_id r = i)
      (\<lambda>r. r\<lparr>or_status := st, or_filled := f, or_updated_at := now\<rparr>)) s = (r, s')" by force
  have "orders_grow s s'" by (rule exec_stmt_grow [OF ex]) (erule update_orders_grow, simp)
  with ex show ?thesis by (simp add: updateOrderStatus_def split: option.splits)
qed

lemma persistTrade_grow: "orders_grow s (snd (persistTrade tr s))"
  by (auto simp: persistTrade_def split: prod.splits option.splits
      intro: orders_grow_trans dest: query_grow exec_stmt_grow [OF _ insert_trade_grow])

lemma wallet_exec_grow: "orders_grow s (snd (wallet_exec c s))"
  using wallet_exec_frame [of c s] by (cases "wallet_exec c s") (simp add: only_balances_grow)

lemma settleTrade_grow: "orders_grow s (snd (settleTrade tr u s))"
  unfolding settleTrade_def
proof (rule run_cmds_invariant)
  fix c t assume "orders_grow s t"
  moreover have "orders_grow t (snd (settle_step c t))"
    using wallet_exec_grow [of t "snd c"] by (auto simp: settle_step_def split: prod.splits sum.splits)
  ultimately show "orders_grow s (snd (settle_step c t))" by (rule orders_grow_trans)
qed simp

lemma process_trade_grow: "orders_grow s (process_trade now u i tr s)"
proof -
  have "orders_grow t (update_maker now i tr t)" for t :: "('a, 'b) trading_db_scheme"
    by (auto simp: update_maker_def Let_def split: prod.splits
        intro: orders_grow_trans [OF _ updateOrderStatus_grow] dest: query_grow)
  then show ?thesis
    unfolding process_trade_def
    by (meson orders_grow_trans persistTrade_grow settleTrade_grow)
qed

lemma process_trades_grow: "orders_grow s (process_trades now u i ts s)"
  unfolding process_trades_def
  by (induction ts arbitrary: s) (auto intro: orders_grow_trans process_trade_grow)

lemma finish_order_grow: "orders_grow s (snd (finish_order now x ts s))"
  by (simp add: finish_order_def Let_def)
    (meson orders_grow_trans persistOrder_grow process_trades_grow updateOrderStatus_grow)

lemma wallet_ops_grow:
  "Freeze u a x s = (r, s') \<Longrightarrow> orders_grow s s'" "Unfreeze u a x s = (r, s') \<Longrightarrow> orders_grow s s'"
  using wallet_exec_grow [of s "CmdFreeze u a x"] wallet_exec_grow [of s "CmdUnfreeze u a x"] by simp_all

lemma PlaceOrder_grow: "orders_grow s (snd (PlaceOrder pairs src oid now inp s))"
proof (cases "validate_order pairs inp")
  case (Inl e)
  then show ?thesis by (simp add: PlaceOrder_def)
next
  case (Inr v)
  obtain pi side ty where v: "v = (pi, side, ty)" by (cases v)
  obtain a x where fz: "freeze_of pi side ty (in_Price inp) (in_Quantity inp) = (a, x)" by force
  obtain w s1 where fr: "Freeze (in_UserID inp) a x s = (w, s1)" by force
  let ?x = "new_order now oid pi side ty inp"
  show ?thesis
  proof (cases w)
    case (Inl e)
    then show ?thesis using Inr v fz fr wallet_ops_grow(1) [OF fr] by (simp add: PlaceOrder_def)
  next
    case ok: (Inr _)
    show ?thesis
    proof (cases src)
      case None
      then show ?thesis
        using Inr v fz fr ok orders_grow_trans [OF wallet_ops_grow(1) [OF fr] finish_order_grow [of s1 now ?x "[]"]]
        by (auto simp: PlaceOrder_def Let_def split: prod.splits)
    next
      case (Some os)
      obtain m s2 where ce: "call_engine (src_PlaceOrder os (place_request ?x)) s1 = (m, s2)" by force
      have g2: "orders_grow s s2"
        using orders_grow_trans [OF wallet_ops_grow(1) [OF fr] call_engine_grow [OF ce]] .
      have un: "orders_grow s (snd (Unfreeze (in_UserID inp) a x s2))"
        using orders_grow_trans [OF g2] wallet_ops_grow(2) by (metis prod.collapse)
      show ?thesis
      proof (cases m)
        case (Inl e)
        then show ?thesis using Inr v fz fr ok Some ce un by (simp add: PlaceOrder_def Let_def)
      next
        case res: (Inr res)
        let ?y = "?x\<lparr>ord_Status := rs_Status res, ord_FilledQty := rs_Filled res\<rparr>"
        have "orders_grow s (snd (finish_order now ?y (rs_Trades res) s2))"
          by (rule orders_grow_trans [OF g2 finish_order_grow])
        then show ?thesis using Inr v fz fr ok Some ce res by (auto simp: PlaceOrder_def Let_def split: prod.splits)
      qed
    qed
  qed
qed

subsection \<open>The trigger table under the monitor\<close>

lemma grow_triggers:
  fixes s :: "('e, 'x) trigger_db_scheme"
  shows "orders_grow s s' \<Longrightarrow> trigger_orders s' = trigger_orders s \<and> trigger_users s' = trigger_users s"
  by (cases s; cases s') (simp add: orders_grow_def)

text \<open>A row that is no longer pending stays as it is.\<close>

definition closed_kept :: "('e, 'x) trigger_db_scheme \<Rightarrow> ('e, 'x) trigger_db_scheme \<Rightarrow> bool" where
  "closed_kept s s' \<longleftrightarrow>
     (\<forall>r \<in> set (trigger_orders s). tg_Status r \<noteq> StatusPending \<longrightarrow> r \<in> set (trigger_orders s'))"

lemma closed_kept_refl [simp]: "closed_kept s s"
  by (simp add: closed_kept_def)

lemma closed_kept_trans: "closed_kept s t \<Longrightarrow> closed_kept t u \<Longrightarrow> closed_kept s u"
  by (simp add: closed_kept_def)

lemma closed_kept_same: "trigger_orders s' = trigger_orders s \<Longrightarrow> closed_kept s s'"
  by (simp add: closed_kept_def)

lemma update_triggers_result:
  assumes "update_triggers P f s = Some (n, s')"
  shows "s' = s\<lparr>trigger_orders := map (\<lambda>r. if P r then the (trigger_store s (f r)) else r) (trigger_orders s)\<rparr> \<and>
    (\<forall>r \<in> set (trigger_orders s). P r \<longrightarrow> trigger_store s (f r) \<noteq> None) \<and>
    n = length (filter P (trigger_orders s))"
proof -
  obtain ts where u: "tbl_update P (\<lambda>r. trigger_store s (f r)) (trigger_orders s) = Some (n, ts)"
    and s': "s' = s\<lparr>trigger_orders := ts\<rparr>"
    using assms by (auto simp: update_triggers_def)
  show ?thesis using tbl_update_SomeD [OF u] s' by simp
qed

lemma update_triggers_closed:
  assumes "update_triggers P f s = Some (n, s')" and "\<And>r. P r \<Longrightarrow> tg_Status r = StatusPending"
  shows "closed_kept s s'"
proof -
  have "trigger_orders s' = map (\<lambda>r. if P r then the (trigger_store s (f r)) else r) (trigger_orders s)"
    using update_triggers_result [OF assms(1)] by simp
  then show ?thesis using assms(2) by (auto simp: closed_kept_def image_iff)
qed

lemma exec_stmt_closed:
  assumes "exec_stmt f s = (r, s')" and "\<And>t n t'. f t = Some (n, t') \<Longrightarrow> closed_kept t t'"
  shows "closed_kept s s'"
proof -
  have "closed_kept s (s\<lparr>faults := fs\<rparr>)" for fs by (rule closed_kept_same) simp
  then show ?thesis using exec_stmt_casesD [OF assms(1)] assms(2) by (blast intro: closed_kept_trans)
qed

lemma mark_triggered_closed: "mark_triggered now i oid s = (r, s') \<Longrightarrow> closed_kept s s'"
  unfolding mark_triggered_def by (erule exec_stmt_closed) (erule update_triggers_closed, simp)

lemma Cancel_closed: "closed_kept s (snd (Cancel now u i s))"
proof -
  obtain r s' where ex: "exec_stmt (update_triggers (\<lambda>r. tg_ID r = i \<and> tg_UserID r = u \<and> tg_Status r = StatusPending)
      (\<lambda>r. r\<lparr>tg_Status := StatusCancelled, tg_CancelledAt := Some now, tg_UpdatedAt := now\<rparr>)) s = (r, s')" by force
  have "closed_kept s s'" by (rule exec_stmt_closed [OF ex]) (erule update_triggers_closed, simp)
  with ex show ?thesis by (simp add: Cancel_def split: option.splits)
qed

lemma Create_closed: "closed_kept s (snd (Create i now inp s))"
proof -
  have ins: "closed_kept t t'"
    if "Option.bind (trigger_store t row) (\<lambda>r. map_option (\<lambda>ts. (1, t\<lparr>trigger_orders := ts\<rparr>))
          (tbl_insert tg_ID r (trigger_orders t))) = Some (n, t')"
    for row and t t' :: "('a, 'b) trigger_db_scheme" and n :: nat
    using that by (auto simp: closed_kept_def bind_eq_Some_conv dest!: tbl_insert_SomeD)
  then show ?thesis
    by (auto simp: Create_def Let_def split: prod.splits option.splits dest: exec_stmt_closed)
qed

text \<open>A trigger table as its constraints leave it.\<close>

definition triggers_ok :: "('e, 'x) trigger_db_scheme \<Rightarrow> bool" where
  "triggers_ok s \<longleftrightarrow> distinct (map tg_ID (trigger_orders s)) \<and>
     (\<forall>r \<in> set (trigger_orders s). trigger_store s r = Some r)"

lemma triggers_ok_unique:
  "triggers_ok s \<Longrightarrow> x \<in> set (trigger_orders s) \<Longrightarrow> r \<in> set (trigger_orders s) \<Longrightarrow> tg_ID x = tg_ID r \<Longrightarrow> x = r"
  by (auto simp: triggers_ok_def distinct_map inj_on_def)

lemma trigger_store_same: "trigger_store s r = Some r \<longleftrightarrow>
    numeric_38_18 (tg_Price r) = Some (tg_Price r) \<and> numeric_38_18 (tg_Quantity r) = Some (tg_Quantity r) \<and>
    tg_Type r \<in> {StopLoss, TakeProfit} \<and>
    tg_Status r \<in> {StatusPending, StatusTriggered, StatusCancelled, StatusExpired} \<and>
    tg_Side r \<in> {''BUY'', ''SELL''} \<and> 0 < tg_Quantity r \<and> 0 < tg_Price r \<and>
    tg_UserID r \<in> set (trigger_users s) \<and>
    (case tg_OrderID r of None \<Rightarrow> True | Some i \<Rightarrow> i \<in> or_id ` set (orders s))"
proof -
  have "r\<lparr>tg_Price := p, tg_Quantity := q\<rparr> = r \<longleftrightarrow> p = tg_Price r \<and> q = tg_Quantity r" for p q
    by (cases r) auto
  then show ?thesis
    by (auto simp: trigger_store_def split: option.splits if_splits)
qed

lemma triggers_ok_grow:
  assumes "triggers_ok s" and "orders_grow s s'"
  shows "triggers_ok s'"
proof -
  note t = grow_triggers [OF assms(2)]
  have "trigger_store s' r = Some r" if "trigger_store s r = Some r" for r
    using that assms(2) t by (auto simp: trigger_store_same orders_grow_def split: option.splits)
  then show ?thesis using assms(1) t by (simp add: triggers_ok_def)
qed

lemma triggers_ok_mark:
  assumes "triggers_ok s" and "r \<in> set (trigger_orders s)" and "tg_Status r = StatusPending"
    and "oid \<in> or_id ` set (orders s)"
  shows "triggers_ok (s\<lparr>trigger_orders := map (\<lambda>x. if x = r
      then r\<lparr>tg_Status := StatusTriggered, tg_TriggeredAt := Some now, tg_OrderID := Some oid, tg_UpdatedAt := now\<rparr>
      else x) (trigger_orders s)\<rparr>)"
proof -
  let ?r' = "r\<lparr>tg_Status := StatusTriggered, tg_TriggeredAt := Some now, tg_OrderID := Some oid, tg_UpdatedAt := now\<rparr>"
  define f where "f = (\<lambda>x. if x = r then ?r' else x)"
  have st: "trigger_store (s\<lparr>trigger_orders := ts\<rparr>) = trigger_store s" for ts
    by (simp add: fun_eq_iff trigger_store_def cong: if_cong option.case_cong)
  have "trigger_store s ?r' = Some ?r'"
    using assms by (auto simp: triggers_ok_def trigger_store_same)
  then have "\<forall>x \<in> set (map f (trigger_orders s)). trigger_store s x = Some x"
    using assms(1) by (auto simp: triggers_ok_def f_def)
  moreover have "tg_ID (f x) = tg_ID x" for x by (simp add: f_def)
  then have "map tg_ID (map f (trigger_orders s)) = map tg_ID (trigger_orders s)" by simp
  ultimately show ?thesis
    using assms(1) unfolding triggers_ok_def st f_def [symmetric] by (simp del: map_map)
qed

lemma mark_triggered_acked:
  assumes "faults s = []" and "triggers_ok s" and "r \<in> set (trigger_orders s)"
    and "tg_Status r = StatusPending" and "oid \<in> or_id ` set (orders s)"
  shows "mark_triggered now (tg_ID r) oid s = (Some 1, s\<lparr>trigger_orders := map (\<lambda>x. if x = r
      then r\<lparr>tg_Status := StatusTriggered, tg_TriggeredAt := Some now, tg_OrderID := Some oid, tg_UpdatedAt := now\<rparr>
      else x) (trigger_orders s)\<rparr>)"
proof -
  let ?P = "\<lambda>x. tg_ID x = tg_ID r \<and> tg_Status x = StatusPending"
  let ?f = "\<lambda>x. x\<lparr>tg_Status := StatusTriggered, tg_TriggeredAt := Some now, tg_OrderID := Some oid, tg_UpdatedAt := now\<rparr>"
  have P: "?P x \<longleftrightarrow> x = r" if "x \<in> set (trigger_orders s)" for x
    using triggers_ok_unique [OF assms(2) that assms(3)] assms(4) by auto
  have st: "trigger_store s (?f r) = Some (?f r)"
    using assms by (auto simp: triggers_ok_def trigger_store_same)
  have "tbl_update ?P (\<lambda>x. trigger_store s (?f x)) (trigger_orders s) =
      Some (length (filter ?P (trigger_orders s)),
        map (\<lambda>x. if ?P x then the (trigger_store s (?f x)) else x) (trigger_orders s))"
    by (rule tbl_update_ok) (use P st in auto)
  moreover have "map (\<lambda>x. if ?P x then the (trigger_store s (?f x)) else x) (trigger_orders s) =
      map (\<lambda>x. if x = r then ?f r else x) (trigger_orders s)"
    by (rule map_cong [OF refl]) (use P st in auto)
  moreover have "length (filter ?P (trigger_orders s)) = 1"
  proof -
    have "filter ?P (trigger_orders s) = filter (\<lambda>x. x = r) (trigger_orders s)"
      by (rule filter_cong [OF refl]) (rule P)
    moreover have "distinct (trigger_orders s)" using assms(2) by (simp add: triggers_ok_def distinct_map)
    then have "length (filter (\<lambda>x. x = r) (trigger_orders s)) = 1"
      using assms(3) by (simp add: distinct_length_filter Collect_conv_if)
    ultimately show ?thesis by simp
  qed
  ultimately show ?thesis using assms(1) by (simp add: mark_triggered_def update_triggers_def)
qed

text \<open>What the monitor needs of the service that places its orders.\<close>

locale order_placer =
  fixes place :: "uuid \<Rightarrow> string \<Rightarrow> string \<Rightarrow> decimal \<Rightarrow> ('e, 'x) trigger_db_scheme
      \<Rightarrow> uuid option \<times> ('e, 'x) trigger_db_scheme"
  assumes place_grow: "place u p sd q s = (r, s') \<Longrightarrow> orders_grow s s'"
begin

lemma place_triggers: "place u p sd q s = (r, s') \<Longrightarrow> trigger_orders s' = trigger_orders s"
  using grow_triggers place_grow by blast

lemma trigger_rows_closed: "closed_kept s (snd (trigger_rows place (mark_triggered now) now rs s))"
proof (induction rs arbitrary: s)
  case (Cons r rs)
  obtain oid s1 where p: "place (tg_UserID r) (tg_Pair r) (tg_Side r) (tg_Quantity r) s = (oid, s1)" by force
  have c1: "closed_kept s s1" by (rule closed_kept_same) (rule place_triggers [OF p])
  show ?case
  proof (cases oid)
    case None
    then show ?thesis using p c1 Cons by (auto intro: closed_kept_trans)
  next
    case (Some i)
    obtain m s2 where k: "mark_triggered now (tg_ID r) i s1 = (m, s2)" by force
    have "closed_kept s s2" by (rule closed_kept_trans [OF c1 mark_triggered_closed [OF k]])
    then show ?thesis using p Some k Cons by (auto split: prod.splits intro: closed_kept_trans) (metis closed_kept_trans snd_conv)
  qed
qed simp

lemma CheckAndTrigger_closed: "closed_kept s (snd (CheckAndTrigger place now pair price s))"
proof -
  obtain q s1 where q: "query (\<lambda>t. filter (fires pair price) (trigger_orders t)) s = (q, s1)" by force
  have "closed_kept s s1"
    using query_casesD [OF q] by (auto intro: closed_kept_same)
  then show ?thesis
    using q trigger_rows_closed [of s1 now]
    by (auto simp: CheckAndTrigger_def split: option.splits prod.splits) (metis closed_kept_trans snd_conv)
qed

lemma tick_closed: "closed_kept s (tick place now prices s)"
proof -
  have "closed_kept s (tick_prices place now ps s)" for ps
  proof (induction ps arbitrary: s)
    case (Cons pp ps)
    obtain pair price where pp: "pp = (pair, price)" by force
    have "closed_kept s (tick_prices place now ps (snd (CheckAndTrigger place now pair price s)))"
      by (rule closed_kept_trans [OF CheckAndTrigger_closed Cons.IH])
    then show ?case using Cons.IH by (simp add: pp)
  qed simp
  then show ?thesis by (simp add: tick_def split: option.splits)
qed

text \<open>
  A due trigger whose order goes through is marked, and no due trigger is left. Q n says that the
  next n orders go through.
\<close>

lemma trigger_rows_due:
  assumes step: "\<And>n r t. Q (Suc n) t \<Longrightarrow> r \<in> set rs \<Longrightarrow>
      \<exists>oid t'. place (tg_UserID r) (tg_Pair r) (tg_Side r) (tg_Quantity r) t = (Some oid, t') \<and>
        faults t' = [] \<and> oid \<in> or_id ` set (orders t') \<and> Q n (snd (mark_triggered now (tg_ID r) oid t'))"
    and "Q (length rs) t" and "triggers_ok t" and "set rs \<subseteq> set (trigger_orders t)"
    and "\<forall>r \<in> set rs. tg_Status r = StatusPending" and "distinct (map tg_ID rs)"
  shows "\<exists>out t'. trigger_rows place (mark_triggered now) now rs t = (out, t') \<and>
    map tg_ID out = map tg_ID rs \<and>
    (\<forall>x \<in> set (trigger_orders t'). tg_ID x \<in> tg_ID ` set rs \<longrightarrow> tg_Status x = StatusTriggered) \<and>
    (\<forall>x. tg_ID x \<notin> tg_ID ` set rs \<longrightarrow> (x \<in> set (trigger_orders t') \<longleftrightarrow> x \<in> set (trigger_orders t)))"
  using assms
proof (induction rs arbitrary: t)
  case Nil
  then show ?case by simp
next
  case (Cons r rs)
  obtain oid t1 where p: "place (tg_UserID r) (tg_Pair r) (tg_Side r) (tg_Quantity r) t = (Some oid, t1)"
    and t1: "faults t1 = []" "oid \<in> or_id ` set (orders t1)" and Q: "Q (length rs) (snd (mark_triggered now (tg_ID r) oid t1))"
    using Cons.prems(1) [of "length rs" t r] Cons.prems(2) by auto
  note g = place_grow [OF p]
  have same: "trigger_orders t1 = trigger_orders t" by (rule place_triggers [OF p])
  have ok1: "triggers_ok t1" by (rule triggers_ok_grow [OF Cons.prems(3) g])
  have r1: "r \<in> set (trigger_orders t1)" "tg_Status r = StatusPending"
    using Cons.prems(4,5) same by auto
  let ?r' = "r\<lparr>tg_Status := StatusTriggered, tg_TriggeredAt := Some now, tg_OrderID := Some oid, tg_UpdatedAt := now\<rparr>"
  define t2 where "t2 = t1\<lparr>trigger_orders := map (\<lambda>x. if x = r then ?r' else x) (trigger_orders t1)\<rparr>"
  have k: "mark_triggered now (tg_ID r) oid t1 = (Some 1, t2)"
    unfolding t2_def by (rule mark_triggered_acked [OF t1(1) ok1 r1 t1(2)])
  have ok2: "triggers_ok t2"
    unfolding t2_def by (rule triggers_ok_mark [OF ok1 r1 t1(2)])
  have rest: "set rs \<subseteq> set (trigger_orders t2)"
  proof
    fix x assume x: "x \<in> set rs"
    then have "x \<noteq> r" using Cons.prems(6) by auto
    then show "x \<in> set (trigger_orders t2)" using Cons.prems(4) x same by (force simp: t2_def)
  qed
  have Q2: "Q (length rs) t2" using Q k by simp
  obtain out t' where IH: "trigger_rows place (mark_triggered now) now rs t2 = (out, t')"
    "map tg_ID out = map tg_ID rs"
    "\<forall>x \<in> set (trigger_orders t'). tg_ID x \<in> tg_ID ` set rs \<longrightarrow> tg_Status x = StatusTriggered"
    "\<forall>x. tg_ID x \<notin> tg_ID ` set rs \<longrightarrow> (x \<in> set (trigger_orders t') \<longleftrightarrow> x \<in> set (trigger_orders t2))"
    using Cons.IH [OF _ Q2 ok2 rest] Cons.prems(1,5,6) by auto
  have notin: "tg_ID r \<notin> tg_ID ` set rs" using Cons.prems(6) by auto
  have rows2: "x \<in> set (trigger_orders t2) \<longleftrightarrow> x = ?r' \<or> (x \<in> set (trigger_orders t) \<and> x \<noteq> r)" for x
    using r1(1) same by (auto simp: t2_def)
  have uniq: "x \<in> set (trigger_orders t) \<Longrightarrow> tg_ID x = tg_ID r \<Longrightarrow> x = r" for x
    using triggers_ok_unique [OF ok1 _ r1(1)] same by auto
  have "tg_Status x = StatusTriggered"
    if x: "x \<in> set (trigger_orders t')" "tg_ID x \<in> tg_ID ` set (r # rs)" for x
  proof (cases "tg_ID x \<in> tg_ID ` set rs")
    case True
    then show ?thesis using IH(3) x(1) by blast
  next
    case False
    then have "tg_ID x = tg_ID r" "x \<in> set (trigger_orders t2)" using x IH(4) by auto
    then show ?thesis using rows2 uniq by auto
  qed
  moreover have "x \<in> set (trigger_orders t') \<longleftrightarrow> x \<in> set (trigger_orders t)"
    if "tg_ID x \<notin> tg_ID ` set (r # rs)" for x
    using that IH(4) rows2 by auto
  moreover have "trigger_rows place (mark_triggered now) now (r # rs) t =
      (r\<lparr>tg_Status := StatusTriggered, tg_TriggeredAt := Some now, tg_OrderID := Some oid\<rparr> # out, t')"
    using p k IH(1) by simp
  ultimately show ?case using IH(2) by simp
qed

end

lemma place_market_grow: "place_market pairs src new_id now u p sd q s = (r, s') \<Longrightarrow> orders_grow s s'"
  using PlaceOrder_grow [of s pairs src "new_id s" now
      "\<lparr>in_UserID = u, in_Pair = p, in_Side = sd, in_Type = TypeMarket, in_Price = 0, in_Quantity = q, in_STPMode = []\<rparr>"]
  by (auto simp: place_market_def split: prod.splits sum.splits)

interpretation mk: order_placer "place_market pairs src new_id now" for pairs src new_id now
  by unfold_locales (rule place_market_grow)

subsection \<open>Properties\<close>

datatype trigger_op =
    OpCreate uuid time CreateInput
  | OpCancel time uuid uuid
  | OpTick time "(string \<times> decimal) list option"

fun trigger_step ::
  "(string \<Rightarrow> PairInfo option) \<Rightarrow> 'e OrderSource option \<Rightarrow> (('e, 'x) trigger_db_scheme \<Rightarrow> uuid) \<Rightarrow> trigger_op
    \<Rightarrow> ('e, 'x) trigger_db_scheme \<Rightarrow> ('e, 'x) trigger_db_scheme" where
  "trigger_step pairs src new_id (OpCreate i now inp) s = snd (Create i now inp s)"
| "trigger_step pairs src new_id (OpCancel now u i) s = snd (Cancel now u i s)"
| "trigger_step pairs src new_id (OpTick now prices) s = tick (place_market pairs src new_id now) now prices s"


definition demo_trigger :: TriggerOrder where
  "demo_trigger = \<lparr>tg_ID = 70, tg_UserID = 8, tg_Pair = ''BTC_USDT'', tg_Side = ''SELL'', tg_Type = StopLoss,
     tg_Price = 15, tg_Quantity = 1, tg_Status = StatusPending, tg_TriggeredAt = None, tg_OrderID = None,
     tg_CancelledAt = None, tg_CreatedAt = 10, tg_UpdatedAt = 10\<rparr>"

definition demo_triggers :: "TriggerOrder list \<Rightarrow> unit trigger_db" where
  "demo_triggers ts = trading_db.extend demo_trading \<lparr>trigger_users = [7, 8], trigger_orders = ts\<rparr>"

lemmas demo_trigger_simps = demo_triggers_def trading_db.defs demo_trading_def


text \<open>C16: when the database answers and the engine takes the orders, one check of a pair at a price
  executes every trigger that is due, each once, and leaves none of them pending; the other rows
  stay as they are. Q n is any condition under which the next n orders for due triggers go through.\<close>

theorem due_triggers_fire:
  assumes "triggers_ok s" and "faults s = []" and "Q (length (filter (fires pair price) (trigger_orders s))) s"
    and step: "\<And>n r t. Q (Suc n) t \<Longrightarrow> r \<in> set (trigger_orders s) \<Longrightarrow> fires pair price r \<Longrightarrow>
      \<exists>oid t'. place_market pairs src new_id now (tg_UserID r) (tg_Pair r) (tg_Side r) (tg_Quantity r) t = (Some oid, t') \<and>
        faults t' = [] \<and> oid \<in> or_id ` set (orders t') \<and> Q n (snd (mark_triggered now (tg_ID r) oid t'))"
  shows "\<exists>out s'. CheckAndTrigger (place_market pairs src new_id now) now pair price s = (Some out, s') \<and>
    map tg_ID out = map tg_ID (filter (fires pair price) (trigger_orders s)) \<and>
    (\<forall>r \<in> set (trigger_orders s'). \<not> fires pair price r) \<and>
    (\<forall>r \<in> set (trigger_orders s). \<not> fires pair price r \<longrightarrow> r \<in> set (trigger_orders s'))"
proof -
  let ?due = "filter (fires pair price) (trigger_orders s)"
  have dist: "distinct (map tg_ID ?due)"
    using assms(1) by (simp add: triggers_ok_def distinct_map_filter)
  have "\<exists>out t'. trigger_rows (place_market pairs src new_id now) (mark_triggered now) now ?due s = (out, t') \<and>
    map tg_ID out = map tg_ID ?due \<and>
    (\<forall>x \<in> set (trigger_orders t'). tg_ID x \<in> tg_ID ` set ?due \<longrightarrow> tg_Status x = StatusTriggered) \<and>
    (\<forall>x. tg_ID x \<notin> tg_ID ` set ?due \<longrightarrow> (x \<in> set (trigger_orders t') \<longleftrightarrow> x \<in> set (trigger_orders s)))"
    by (rule mk.trigger_rows_due [where Q = Q, OF step assms(3,1) _ _ dist]) (auto simp: fires_def)
  then obtain out t' where run: "trigger_rows (place_market pairs src new_id now) (mark_triggered now) now ?due s = (out, t')"
    and out: "map tg_ID out = map tg_ID ?due"
    and fin: "\<And>x. x \<in> set (trigger_orders t') \<Longrightarrow> tg_ID x \<in> tg_ID ` set ?due \<Longrightarrow> tg_Status x = StatusTriggered"
    and rest: "\<And>x. tg_ID x \<notin> tg_ID ` set ?due \<Longrightarrow> x \<in> set (trigger_orders t') \<longleftrightarrow> x \<in> set (trigger_orders s)"
    by blast
  have "\<not> fires pair price r" if r: "r \<in> set (trigger_orders t')" for r
  proof (cases "tg_ID r \<in> tg_ID ` set ?due")
    case True
    then show ?thesis using fin [OF r] by (simp add: fires_def StatusTriggered_def StatusPending_def)
  next
    case False
    then show ?thesis using rest r by auto
  qed
  moreover have "r \<in> set (trigger_orders t')" if r: "r \<in> set (trigger_orders s)" "\<not> fires pair price r" for r
  proof -
    have "tg_ID r \<notin> tg_ID ` set ?due"
      using triggers_ok_unique [OF assms(1)] r by fastforce
    then show ?thesis using rest r(1) by blast
  qed
  moreover have "CheckAndTrigger (place_market pairs src new_id now) now pair price s = (Some out, t')"
    using run assms(2) by (simp add: CheckAndTrigger_def)
  ultimately show ?thesis using out by blast
qed

definition demo_s1 :: "unit trigger_db" where
  "demo_s1 = (demo_triggers [demo_trigger])\<lparr>balances := (balances demo_trading)((8, ''BTC'') \<mapsto> \<lparr>available = 2, frozen = 3\<rparr>)\<rparr>"

lemma demo_trigger_run:
  "validate_order demo_pairs \<lparr>in_UserID = tg_UserID demo_trigger, in_Pair = tg_Pair demo_trigger,
      in_Side = tg_Side demo_trigger, in_Type = TypeMarket, in_Price = 0, in_Quantity = tg_Quantity demo_trigger,
      in_STPMode = []\<rparr> = Inr (the (demo_pairs ''BTC_USDT''), ''SELL'', ''MARKET'')"
  "freeze_of (the (demo_pairs ''BTC_USDT'')) ''SELL'' ''MARKET'' 0 (tg_Quantity demo_trigger) = (''BTC'', 1)"
  "Freeze (tg_UserID demo_trigger) ''BTC'' 1 (demo_triggers [demo_trigger]) = (Inr (), demo_s1)"
  "filter (fires ''BTC_USDT'' 12) (trigger_orders (demo_triggers [demo_trigger])) = [demo_trigger]"
proof -
  have up: "ToUpper ''BTC_USDT'' = ''BTC_USDT''" "ToUpper ''SELL'' = ''SELL''" "ToUpper ''MARKET'' = ''MARKET''"
    by code_simp+
  show "validate_order demo_pairs \<lparr>in_UserID = tg_UserID demo_trigger, in_Pair = tg_Pair demo_trigger,
      in_Side = tg_Side demo_trigger, in_Type = TypeMarket, in_Price = 0, in_Quantity = tg_Quantity demo_trigger,
      in_STPMode = []\<rparr> = Inr (the (demo_pairs ''BTC_USDT''), ''SELL'', ''MARKET'')"
    by (simp add: validate_order_def demo_trigger_def up demo_pairs_def TypeMarket_def TypeLimit_def SideBuy_def SideSell_def Let_def)
  show "freeze_of (the (demo_pairs ''BTC_USDT'')) ''SELL'' ''MARKET'' 0 (tg_Quantity demo_trigger) = (''BTC'', 1)"
    by (simp add: freeze_of_def demo_pairs_def demo_trigger_def SideSell_def SideBuy_def)
  show "Freeze (tg_UserID demo_trigger) ''BTC'' 1 (demo_triggers [demo_trigger]) = (Inr (), demo_s1)"
    by (simp add: wallet_eval demo_trigger_simps demo_s1_def demo_trigger_def)
  show "filter (fires ''BTC_USDT'' 12) (trigger_orders (demo_triggers [demo_trigger])) = [demo_trigger]"
    by (simp add: demo_trigger_simps demo_trigger_def fires_def)
qed

definition demo_s2 :: "unit trigger_db" where
  "demo_s2 = demo_s1\<lparr>orders := orders demo_s1 @
     [\<lparr>or_id = 61, or_user_id = 8, or_pair_id = 4, or_side = ''SELL'', or_type = ''MARKET'', or_price = 0,
       or_quantity = 1, or_filled = 0, or_status = ''OPEN'', or_created_at = 30, or_updated_at = 30\<rparr>]\<rparr>"

lemma demo_place:
  "place_market demo_pairs None (\<lambda>_. 61) 30 (tg_UserID demo_trigger) (tg_Pair demo_trigger) (tg_Side demo_trigger)
     (tg_Quantity demo_trigger) (demo_triggers [demo_trigger]) = (Some 61, demo_s2)"
proof -
  let ?inp = "\<lparr>in_UserID = tg_UserID demo_trigger, in_Pair = tg_Pair demo_trigger,
      in_Side = tg_Side demo_trigger, in_Type = TypeMarket, in_Price = 0, in_Quantity = tg_Quantity demo_trigger,
      in_STPMode = []\<rparr>"
  let ?x = "new_order 30 61 (the (demo_pairs ''BTC_USDT'')) ''SELL'' ''MARKET'' ?inp"
  let ?row = "\<lparr>or_id = 61, or_user_id = 8, or_pair_id = 4, or_side = ''SELL'', or_type = ''MARKET'', or_price = 0,
       or_quantity = 1, or_filled = 0, or_status = ''OPEN'', or_created_at = 30, or_updated_at = 30\<rparr>"
  have store: "order_store ?row = Some ?row"
    by (simp add: order_store_def numeric_38_18_def)
  have s1: "faults demo_s1 = []" "orders demo_s1 = [demo_order]"
    "pair_id_of ''BTC'' ''USDT'' demo_s1 = Some 4"
    by (simp_all add: demo_s1_def demo_trigger_simps pair_id_of_def)
  have "persistOrder 30 ?x demo_s1 = (Inr (), demo_s2)"
    using store s1 by (simp add: persistOrder_def new_order_def demo_pairs_def demo_trigger_def insert_order_stmt_def
      tbl_insert_def demo_order_def demo_s2_def zero_order_def StatusOpen_def)
  moreover have "updateOrderStatus 30 61 ''OPEN'' 0 demo_s2 = (Inr (), demo_s2)"
    using store s1 by (simp add: updateOrderStatus_def update_orders_stmt_def demo_s2_def demo_order_def)
  moreover have "ord_ID ?x = 61" "ord_Status ?x = ''OPEN''" "ord_FilledQty ?x = 0"
    by (simp_all add: new_order_def zero_order_def StatusOpen_def)
  ultimately have "finish_order 30 ?x [] demo_s1 =
      (\<lparr>res_OrderID = 61, res_Status = ''OPEN'', res_Trades = [], res_Filled = 0, res_Remaining = ord_RemainingQty ?x\<rparr>, demo_s2)"
    by (simp add: finish_order_def process_trades_def)
  then show ?thesis
    by (simp add: place_market_def PlaceOrder_def demo_trigger_run(1,2,3))
qed

theorem due_triggers_fire_witness:
  "\<exists>out s'. CheckAndTrigger (place_market demo_pairs None (\<lambda>_. 61) 30) 30 ''BTC_USDT'' 12 (demo_triggers [demo_trigger]) =
      (Some out, s') \<and> map tg_ID out = [70] \<and> (\<forall>r \<in> set (trigger_orders s'). \<not> fires ''BTC_USDT'' 12 r)"
proof -
  let ?s = "demo_triggers [demo_trigger]"
  let ?Q = "\<lambda>(n :: nat) t. n = 0 \<or> n = 1 \<and> t = ?s"
  have ok: "triggers_ok ?s"
    by (simp add: triggers_ok_def trigger_store_same demo_trigger_simps demo_trigger_def)
  have f: "faults ?s = []" by (simp add: demo_trigger_simps)
  have "\<exists>out s'. CheckAndTrigger (place_market demo_pairs None (\<lambda>_. 61) 30) 30 ''BTC_USDT'' 12 ?s = (Some out, s') \<and>
    map tg_ID out = map tg_ID (filter (fires ''BTC_USDT'' 12) (trigger_orders ?s)) \<and>
    (\<forall>r \<in> set (trigger_orders s'). \<not> fires ''BTC_USDT'' 12 r) \<and>
    (\<forall>r \<in> set (trigger_orders ?s). \<not> fires ''BTC_USDT'' 12 r \<longrightarrow> r \<in> set (trigger_orders s'))"
  proof (rule due_triggers_fire [where Q = ?Q, OF ok f])
    show "?Q (length (filter (fires ''BTC_USDT'' 12) (trigger_orders ?s))) ?s"
      by (simp add: demo_trigger_run(4))
    fix n r t
    assume Q: "?Q (Suc n) t" and r: "r \<in> set (trigger_orders ?s)"
    have "r = demo_trigger" using r by (simp add: demo_trigger_simps)
    then show "\<exists>oid t'. place_market demo_pairs None (\<lambda>_. 61) 30 (tg_UserID r) (tg_Pair r) (tg_Side r) (tg_Quantity r) t = (Some oid, t') \<and>
        faults t' = [] \<and> oid \<in> or_id ` set (orders t') \<and> ?Q n (snd (mark_triggered 30 (tg_ID r) oid t'))"
      using Q demo_place by (auto simp: demo_s2_def demo_s1_def demo_trigger_simps)
  qed
  moreover have "map tg_ID [demo_trigger] = [70]" by (simp add: demo_trigger_def)
  ultimately show ?thesis unfolding demo_trigger_run(4) by metis
qed

text \<open>With the client that is used when no engine is built in, a due trigger freezes its user's
  funds and is reported as executed, but its row stays pending, because the order it names was never
  recorded: the next check fires it, and freezes the funds, again.\<close>

theorem stub_trigger_refires:
  assumes "faults s = []" and "filter (fires pair price) (trigger_orders s) = [r]"
    and "new_id s \<notin> or_id ` set (orders s)"
    and v: "validate_order pairs \<lparr>in_UserID = tg_UserID r, in_Pair = tg_Pair r, in_Side = tg_Side r, in_Type = TypeMarket,
      in_Price = 0, in_Quantity = tg_Quantity r, in_STPMode = []\<rparr> = Inr (pairInfo, side, ty)"
    and fz: "freeze_of pairInfo side ty 0 (tg_Quantity r) = (asset, x)"
    and "Freeze (tg_UserID r) asset x s = (Inr (), s1)"
  shows "CheckAndTrigger (place_market pairs (Some (NewOrderSourceAdapter (NewLocalEngine t))) new_id now) now pair price s =
      (Some [r\<lparr>tg_Status := StatusTriggered, tg_TriggeredAt := Some now, tg_OrderID := Some (new_id s)\<rparr>], s1) \<and>
    trigger_orders s1 = trigger_orders s"
proof -
  let ?inp = "\<lparr>in_UserID = tg_UserID r, in_Pair = tg_Pair r, in_Side = tg_Side r, in_Type = TypeMarket,
      in_Price = 0, in_Quantity = tg_Quantity r, in_STPMode = []\<rparr>"
  let ?place = "place_market pairs (Some (NewOrderSourceAdapter (NewLocalEngine t))) new_id now"
  have po: "PlaceOrder pairs (Some (NewOrderSourceAdapter (NewLocalEngine t))) (new_id s) now ?inp s =
      (Inr \<lparr>res_OrderID = new_id s, res_Status = ''REJECTED'', res_Trades = [], res_Filled = 0,
        res_Remaining = in_Quantity ?inp\<rparr>, s1) \<and> orders s1 = orders s"
    by (rule stub_order_refused [OF assms(1) v _ _ assms(3)]) (use fz assms(6) in simp_all)
  then have place: "?place (tg_UserID r) (tg_Pair r) (tg_Side r) (tg_Quantity r) s = (Some (new_id s), s1)"
    by (simp add: place_market_def)
  have ord: "orders s1 = orders s" using po by blast
  have same: "trigger_orders s1 = trigger_orders s"
    using grow_triggers [OF wallet_ops_grow(1) [OF assms(6)]] by simp
  have f1: "faults s1 = []" using Freeze_cases_acked [OF assms(1,6)] by simp
  have r: "r \<in> set (trigger_orders s1)" "tg_Status r = StatusPending"
  proof -
    have "r \<in> set (filter (fires pair price) (trigger_orders s))" using assms(2) by simp
    then show "r \<in> set (trigger_orders s1)" "tg_Status r = StatusPending"
      using same by (simp_all add: fires_def)
  qed
  have "mark_triggered now (tg_ID r) (new_id s) s1 = (None, s1)"
  proof -
    let ?f = "\<lambda>x. x\<lparr>tg_Status := StatusTriggered, tg_TriggeredAt := Some now, tg_OrderID := Some (new_id s), tg_UpdatedAt := now\<rparr>"
    have "trigger_store s1 (?f r) = None"
      using assms(3) ord by (auto simp: trigger_store_def split: option.splits)
    then have "tbl_update (\<lambda>x. tg_ID x = tg_ID r \<and> tg_Status x = StatusPending) (\<lambda>x. trigger_store s1 (?f x)) (trigger_orders s1) = None"
      by (intro tbl_update_fail [OF r(1)]) (simp_all add: r(2))
    then show ?thesis using f1 by (simp add: mark_triggered_def update_triggers_def)
  qed
  then show ?thesis
    using assms(1,2) place same by (simp add: CheckAndTrigger_def)
qed

theorem stub_trigger_refires_witness:
  "\<exists>out s1. CheckAndTrigger (place_market demo_pairs (Some noop_source) (\<lambda>_. 61) 30) 30 ''BTC_USDT'' 12 (demo_triggers [demo_trigger])
     = (Some out, s1) \<and> map tg_Status out = [StatusTriggered] \<and> trigger_orders s1 = [demo_trigger] \<and>
     wallet_frozen s1 8 ''BTC'' = 3"
proof -
  have "61 \<notin> or_id ` set (orders (demo_triggers [demo_trigger]))" "faults (demo_triggers [demo_trigger]) = []"
    by (simp_all add: demo_trigger_simps demo_order_def)
  from stub_trigger_refires [where new_id = "\<lambda>_. 61" and t = 0 and now = 30, OF this(2) demo_trigger_run(4) this(1)
      demo_trigger_run(1,2,3)]
  show ?thesis
    by (auto simp: demo_s1_def demo_trigger_simps wallet_frozen_def)
qed

end
