(* ===== verification/Go_Float.thy ===== *)
theory Go_Float
  imports Go_Strings "HOL-Library.Log_Nat"
begin

text \<open>
  Go's float64 as the services use it for amounts: the finite values are rationals rounded to 53
  binary digits, ties to even; the sign of a zero is not kept, since no comparison or conversion
  here can see it. strconv.ParseFloat is written out for all its syntax.
\<close>

subsection \<open>Rounding\<close>

definition round_even :: "rat \<Rightarrow> int" where
  "round_even x =
     (let f = \<lfloor>x\<rfloor>; r = x - of_int f
      in if r < 1 / 2 then f else if 1 / 2 < r then f + 1 else if even f then f else f + 1)"

definition ilog2 :: "rat \<Rightarrow> int" where
  "ilog2 x =
     (case quotient_of x of (n, d) \<Rightarrow>
        (let e = bitlen n - bitlen d in if x < 2 powi e then e - 1 else e))"

datatype float64 = FNaN | FInf bool | FFin rat

definition ulp_exp :: "rat \<Rightarrow> int" where
  "ulp_exp x = max (ilog2 x - 52) (- 1074)"

definition round_pos :: "rat \<Rightarrow> rat" where
  "round_pos x = of_int (round_even (x / 2 powi ulp_exp x)) * 2 powi ulp_exp x"

definition round64 :: "rat \<Rightarrow> float64" where
  "round64 x =
     (if x = 0 then FFin 0
      else
        (let y = round_pos \<bar>x\<bar>
         in if 2 ^ 1024 \<le> y then FInf (x < 0) else FFin (if x < 0 then - y else y)))"

lemma round_even_floor: "round_even x = \<lfloor>x\<rfloor> \<or> round_even x = \<lfloor>x\<rfloor> + 1"
  by (simp add: round_even_def Let_def)

lemma round_even_of_int [simp]: "round_even (of_int n) = n"
  by (simp add: round_even_def)

lemma round_even_error: "\<bar>of_int (round_even x) - x\<bar> \<le> 1 / 2"
  unfolding round_even_def Let_def by (simp add: abs_if) linarith

lemma round_even_mono: "x \<le> y \<Longrightarrow> round_even x \<le> round_even y"
proof -
  assume xy: "x \<le> y"
  show ?thesis
  proof (cases "\<lfloor>x\<rfloor> = \<lfloor>y\<rfloor>")
    case True
    then show ?thesis using xy by (auto simp: round_even_def Let_def)
  next
    case False
    then have "\<lfloor>x\<rfloor> + 1 \<le> \<lfloor>y\<rfloor>" using floor_mono [OF xy] by linarith
    then show ?thesis using round_even_floor [of x] round_even_floor [of y] by linarith
  qed
qed

lemma powi_mono2: "a \<le> b \<Longrightarrow> (2 :: rat) powi a \<le> 2 powi b"
  by (simp add: power_int_increasing)

lemma powi_pos: "0 < (2 :: rat) powi e" "(2 :: rat) powi e \<noteq> 0"
  by simp_all

lemma ilog2_bounds:
  assumes "0 < x"
  shows "2 powi ilog2 x \<le> x \<and> x < 2 powi (ilog2 x + 1)"
proof -
  obtain n d where q: "quotient_of x = (n, d)" by force
  have d: "0 < d" using quotient_of_denom_pos [OF q] .
  have x: "x = of_int n / of_int d" using quotient_of_div [OF q] .
  have n: "0 < n" using assms d x by (simp add: zero_less_divide_iff)
  define a b where "a = bitlen n" and "b = bitlen d"
  have a: "1 \<le> a" "2 ^ nat (a - 1) \<le> n" "n < 2 ^ nat a"
    using bitlen_bounds [OF n] bitlen_nonneg [of n] n bitlen_eq_zero_iff [of n]
    by (auto simp: a_def int_one_le_iff_zero_less less_le)
  have b: "1 \<le> b" "2 ^ nat (b - 1) \<le> d" "d < 2 ^ nat b"
    using bitlen_bounds [OF d] bitlen_nonneg [of d] d bitlen_eq_zero_iff [of d]
    by (auto simp: b_def int_one_le_iff_zero_less less_le)
  have p: "(of_int (2 ^ nat k) :: rat) = 2 powi k" if "0 \<le> k" for k
    using that by (simp add: power_int_def)
  have an: "2 powi (a - 1) \<le> (of_int n :: rat)" "(of_int n :: rat) < 2 powi a"
    using a p [of "a - 1"] p [of a] by (metis of_int_le_iff diff_ge_0_iff_ge, metis of_int_less_iff order_trans zero_le_one)
  have bd: "2 powi (b - 1) \<le> (of_int d :: rat)" "(of_int d :: rat) < 2 powi b"
    using b p [of "b - 1"] p [of b] by (metis of_int_le_iff diff_ge_0_iff_ge, metis of_int_less_iff order_trans zero_le_one)
  have d0: "(0 :: rat) < of_int d" using d by simp
  have lo: "2 powi (a - b - 1) \<le> x"
  proof -
    have "2 powi (a - b - 1) * of_int d \<le> 2 powi (a - b - 1) * (2 powi b :: rat)"
      using bd by (intro mult_left_mono) auto
    also have "\<dots> = 2 powi (a - 1)" by (simp flip: power_int_add)
    finally show ?thesis using an d0 x by (simp add: pos_le_divide_eq)
  qed
  have hi: "x < 2 powi (a - b + 1)"
  proof -
    have "(of_int n :: rat) < 2 powi a" by (rule an)
    also have "\<dots> = 2 powi (a - b + 1) * 2 powi (b - 1)" by (simp flip: power_int_add)
    also have "\<dots> \<le> 2 powi (a - b + 1) * of_int d" using bd by (intro mult_left_mono) auto
    finally show ?thesis using d0 x by (simp add: pos_divide_less_eq)
  qed
  show ?thesis
    using lo hi q by (auto simp: ilog2_def Let_def a_def b_def)
qed

lemma ilog2_eq:
  assumes "2 powi e \<le> x" and "x < 2 powi (e + 1)"
  shows "ilog2 x = e"
proof -
  have x: "0 < x" using assms(1) powi_pos(1) [of e] by (meson less_le_trans)
  note b = ilog2_bounds [OF x]
  have "e < ilog2 x + 1"
    using assms(1) b powi_mono2 [of "ilog2 x + 1" e] by (meson leD le_less_trans linorder_not_less)
  moreover have "ilog2 x < e + 1"
    using assms(2) b powi_mono2 [of "e + 1" "ilog2 x"] by (meson leD le_less_trans linorder_not_less)
  ultimately show ?thesis by linarith
qed

lemma ilog2_mono: "0 < x \<Longrightarrow> x \<le> y \<Longrightarrow> ilog2 x \<le> ilog2 y"
proof -
  assume x: "0 < x" and xy: "x \<le> y"
  have "2 powi ilog2 x \<le> x" "y < 2 powi (ilog2 y + 1)"
    using ilog2_bounds x xy by auto
  then have "(2 :: rat) powi ilog2 x < 2 powi (ilog2 y + 1)" using xy by linarith
  then show ?thesis using powi_mono2 [of "ilog2 y + 1" "ilog2 x"] by linarith
qed


lemma ulp_exp_mono: "0 < x \<Longrightarrow> x \<le> y \<Longrightarrow> ulp_exp x \<le> ulp_exp y"
  using ilog2_mono by (fastforce simp: ulp_exp_def)

lemma round_pos_mono:
  assumes "0 < x" and "x \<le> y"
  shows "round_pos x \<le> round_pos y"
proof (cases "ulp_exp x = ulp_exp y")
  case True
  have "round_even (x / 2 powi ulp_exp y) \<le> round_even (y / 2 powi ulp_exp y)"
    by (rule round_even_mono) (use assms(2) in \<open>simp add: divide_right_mono\<close>)
  then show ?thesis using True by (simp add: round_pos_def)
next
  case False
  define a b where "a = ulp_exp x" and "b = ulp_exp y"
  have ab: "a < b" using ulp_exp_mono [OF assms] False by (simp add: a_def b_def)
  have by': "b = ilog2 y - 52" and "ilog2 x < ilog2 y"
    using ab by (auto simp: a_def b_def ulp_exp_def max_def split: if_splits)
  have "x < 2 powi (ilog2 x + 1)" using ilog2_bounds [OF assms(1)] by blast
  also have "\<dots> \<le> 2 powi (52 + b)"
    by (rule powi_mono2) (use \<open>ilog2 x < ilog2 y\<close> by' in simp)
  finally have "x / 2 powi a \<le> 2 powi (52 + b) / 2 powi a"
    by (intro divide_right_mono) simp_all
  also have "\<dots> = 2 powi (52 + b - a)" by (simp add: power_int_diff)
  also have "\<dots> = of_int (2 ^ nat (52 + b - a))" using ab by (simp add: power_int_def a_def)
  finally have "round_even (x / 2 powi a) \<le> 2 ^ nat (52 + b - a)"
    using round_even_mono [of "x / 2 powi a" "of_int (2 ^ nat (52 + b - a))"] by (simp only: round_even_of_int)
  then have "(of_int (round_even (x / 2 powi a)) :: rat) \<le> of_int (2 ^ nat (52 + b - a))"
    by (simp only: of_int_le_iff)
  also have "\<dots> = 2 powi (52 + b - a)" using ab by (simp add: power_int_def a_def)
  finally have "round_pos x \<le> 2 powi (52 + b - a) * 2 powi a"
    by (simp add: round_pos_def mult_right_mono flip: a_def)
  also have "\<dots> = 2 powi (52 + b)" by (simp flip: power_int_add)
  finally have x: "round_pos x \<le> 2 powi (52 + b)" .
  have "2 powi (52 + b) \<le> y" using ilog2_bounds [of y] assms by' by simp
  then have "2 powi (52 + b) / 2 powi b \<le> y / 2 powi b" by (intro divide_right_mono) simp_all
  moreover have "2 powi (52 + b) / 2 powi b = (of_int (2 ^ 52) :: rat)"
    by (simp add: power_int_add)
  ultimately have "round_even (of_int (2 ^ 52)) \<le> round_even (y / 2 powi b)"
    by (intro round_even_mono) simp
  then have "of_int (2 ^ 52) \<le> (of_int (round_even (y / 2 powi b)) :: rat)"
    by (simp only: round_even_of_int of_int_le_iff)
  then have "of_int (2 ^ 52) * 2 powi b \<le> round_pos y"
    unfolding round_pos_def b_def [symmetric] by (rule mult_right_mono) simp
  then have "2 powi (52 + b) \<le> round_pos y" by (simp add: power_int_add)
  with x show ?thesis by linarith
qed

lemma round_pos_error: "0 < x \<Longrightarrow> \<bar>round_pos x - x\<bar> \<le> 2 powi ulp_exp x / 2"
proof -
  let ?u = "2 powi ulp_exp x :: rat"
  have "round_pos x - x = (of_int (round_even (x / ?u)) - x / ?u) * ?u"
    by (simp add: round_pos_def left_diff_distrib)
  then have "\<bar>round_pos x - x\<bar> = \<bar>of_int (round_even (x / ?u)) - x / ?u\<bar> * ?u"
    by (simp add: abs_mult)
  also have "\<dots> \<le> 1 / 2 * ?u" by (intro mult_right_mono round_even_error) simp
  finally show ?thesis by simp
qed

text \<open>The relative error of a value that is not denormal is at most half a unit in the last place.\<close>

lemma round_pos_rel:
  assumes "2 powi (- 1022) \<le> x"
  shows "\<bar>round_pos x - x\<bar> \<le> x / 2 ^ 53"
proof -
  have x: "0 < x" using assms by (meson less_le_trans powi_pos(1))
  have "(- 1022 :: int) < ilog2 x + 1"
    using assms ilog2_bounds [OF x] powi_mono2 [of "ilog2 x + 1" "- 1022"] by linarith
  then have u: "ulp_exp x = ilog2 x - 52" by (simp add: ulp_exp_def)
  have "2 powi ulp_exp x / 2 = (2 powi ilog2 x :: rat) / 2 ^ 53"
    by (simp add: u power_int_diff)
  also have "\<dots> \<le> x / 2 ^ 53" using ilog2_bounds [OF x] by (simp add: divide_right_mono)
  finally show ?thesis using round_pos_error [OF x] by linarith
qed

lemma round_pos_nonneg: "0 < x \<Longrightarrow> 0 \<le> round_pos x"
  using round_even_mono [of "of_int 0" "x / 2 powi ulp_exp x"]
  by (simp add: round_pos_def del: of_int_0) (simp add: less_imp_le)

lemma round_pos_exact:
  assumes "x / 2 powi ulp_exp x = of_int n"
  shows "round_pos x = x"
proof -
  have "round_pos x = x / 2 powi ulp_exp x * 2 powi ulp_exp x"
    unfolding round_pos_def assms by simp
  then show ?thesis by simp
qed

lemma round_pos_of_int:
  assumes "0 < n" and "n < 2 ^ 53"
  shows "round_pos (of_int n) = of_int n"
proof -
  have n: "(0 :: rat) < of_int n" using assms by simp
  have "(of_int n :: rat) < of_int (2 ^ 53)" using assms by (simp only: of_int_less_iff)
  then have "(of_int n :: rat) < 2 powi 53" by simp
  then have "ilog2 (of_int n) < 53"
    using ilog2_bounds [OF n] powi_mono2 [of 53 "ilog2 (of_int n)"] by linarith
  then have u: "0 \<le> - ulp_exp (of_int n)" by (simp add: ulp_exp_def)
  have inv: "(z :: rat) / 2 powi e = z * 2 powi (- e)" for z e
    by (simp add: power_int_minus divide_inverse)
  have "(2 :: rat) powi (- ulp_exp (of_int n)) = of_int (2 ^ nat (- ulp_exp (of_int n)))"
    using u unfolding power_int_def by simp
  then have "(of_int n :: rat) / 2 powi ulp_exp (of_int n) = of_int (n * 2 ^ nat (- ulp_exp (of_int n)))"
    unfolding inv by (simp only: of_int_mult)
  then show ?thesis by (rule round_pos_exact)
qed

lemma round64_of_int:
  assumes "\<bar>n\<bar> < 2 ^ 53"
  shows "round64 (of_int n) = FFin (of_int n)"
proof (cases "n = 0")
  case False
  have "round_pos (of_int \<bar>n\<bar>) = of_int \<bar>n\<bar>"
    by (rule round_pos_of_int) (use assms False in auto)
  moreover have "(of_int \<bar>n\<bar> :: rat) < of_int (2 ^ 53)" using assms by (simp only: of_int_less_iff)
  then have "(of_int \<bar>n\<bar> :: rat) < 2 ^ 1024" by (rule less_trans) simp_all
  ultimately show ?thesis using False by (auto simp: round64_def Let_def)
qed (simp add: round64_def)

lemma round_pos_dyadic:
  assumes "0 < n" and "n < 2 ^ 53" and "- 1074 \<le> e"
  shows "round_pos (of_int n * 2 powi e) = of_int n * 2 powi e"
proof -
  let ?x = "of_int n * 2 powi e :: rat"
  have n: "0 < ?x" using assms(1) powi_pos(1) [of e] by simp
  have "(of_int n :: rat) < of_int (2 ^ 53)" using assms by (simp only: of_int_less_iff)
  then have "?x < 2 powi 53 * 2 powi e" using powi_pos(1) [of e] by (simp add: mult_strict_right_mono)
  also have "\<dots> = 2 powi (53 + e)" by (simp add: power_int_add)
  finally have "ilog2 ?x < 53 + e"
    using ilog2_bounds [OF n] powi_mono2 [of "53 + e" "ilog2 ?x"] by linarith
  then have u: "0 \<le> e - ulp_exp ?x" using assms(3) by (simp add: ulp_exp_def)
  have "(2 :: rat) powi (e - ulp_exp ?x) = of_int (2 ^ nat (e - ulp_exp ?x))"
    using u unfolding power_int_def by simp
  moreover have "?x / 2 powi ulp_exp ?x = of_int n * 2 powi (e - ulp_exp ?x)"
    using power_int_diff [of "2 :: rat" e "ulp_exp ?x"] by simp
  ultimately have "?x / 2 powi ulp_exp ?x = of_int (n * 2 ^ nat (e - ulp_exp ?x))" by (simp only: of_int_mult)
  then show ?thesis by (rule round_pos_exact)
qed

lemma round64_half:
  assumes "0 \<le> k" and "k < 2 ^ 51"
  shows "round64 (of_int k + 1 / 2) = FFin (of_int k + 1 / 2)"
proof -
  have eq: "(of_int k + 1 / 2 :: rat) = of_int (2 * k + 1) * 2 powi (- 1)" by (simp add: power_int_minus)
  have pos: "(0 :: rat) \<le> of_int k" using assms(1) by simp
  have "round_pos (of_int k + 1 / 2) = of_int k + 1 / 2"
    unfolding eq by (rule round_pos_dyadic) (use assms in auto)
  moreover have "(of_int k :: rat) < of_int (2 ^ 51)" using assms by (simp only: of_int_less_iff)
  then have "(of_int k + 1 / 2 :: rat) < 2 ^ 52" by simp
  then have "\<not> 2 ^ 1024 \<le> (of_int k + 1 / 2 :: rat)"
    using power_increasing [of 52 1024 "2 :: rat"] by linarith
  ultimately show ?thesis using pos by (auto simp: round64_def Let_def)
qed


subsection \<open>Comparison, arithmetic and conversion\<close>

fun flt :: "float64 \<Rightarrow> float64 \<Rightarrow> bool" where
  "flt FNaN y = False"
| "flt x FNaN = False"
| "flt (FInf n) (FInf m) = (n \<and> \<not> m)"
| "flt (FInf n) (FFin y) = n"
| "flt (FFin x) (FInf m) = (\<not> m)"
| "flt (FFin x) (FFin y) = (x < y)"

fun fle :: "float64 \<Rightarrow> float64 \<Rightarrow> bool" where
  "fle FNaN y = False"
| "fle x FNaN = False"
| "fle (FInf n) (FInf m) = (n \<or> \<not> m)"
| "fle (FInf n) (FFin y) = n"
| "fle (FFin x) (FInf m) = (\<not> m)"
| "fle (FFin x) (FFin y) = (x \<le> y)"

fun fmul :: "float64 \<Rightarrow> float64 \<Rightarrow> float64" where
  "fmul FNaN y = FNaN"
| "fmul x FNaN = FNaN"
| "fmul (FInf n) (FInf m) = FInf (n \<noteq> m)"
| "fmul (FInf n) (FFin y) = (if y = 0 then FNaN else FInf (n \<noteq> (y < 0)))"
| "fmul (FFin x) (FInf m) = (if x = 0 then FNaN else FInf ((x < 0) \<noteq> m))"
| "fmul (FFin x) (FFin y) = round64 (x * y)"

fun fadd :: "float64 \<Rightarrow> float64 \<Rightarrow> float64" where
  "fadd FNaN y = FNaN"
| "fadd x FNaN = FNaN"
| "fadd (FInf n) (FInf m) = (if n = m then FInf n else FNaN)"
| "fadd (FInf n) (FFin y) = FInf n"
| "fadd (FFin x) (FInf m) = FInf m"
| "fadd (FFin x) (FFin y) = round64 (x + y)"

text \<open>
  Division by a constant that is not zero, and the conversion to uint64. What the conversion gives
  for a value that does not fit is left to the compiler by the language: it is the argument oob.
\<close>

fun fdiv_const :: "float64 \<Rightarrow> rat \<Rightarrow> float64" where
  "fdiv_const (FFin x) c = round64 (x / c)"
| "fdiv_const (FInf n) c = FInf (n \<noteq> (c < 0))"
| "fdiv_const FNaN c = FNaN"

definition to_uint64 :: "(float64 \<Rightarrow> nat) \<Rightarrow> float64 \<Rightarrow> nat" where
  "to_uint64 oob f =
     (case f of
        FFin x \<Rightarrow> if - 1 < x \<and> x < 2 ^ 64 then nat \<lfloor>x\<rfloor> else oob f
      | _ \<Rightarrow> oob f)"

text \<open>The decimal value fmt prints for the verb .6f, of a finite value.\<close>

definition fixed6 :: "rat \<Rightarrow> rat" where
  "fixed6 x = of_int (round_even (x * 10 ^ 6)) / 10 ^ 6"

lemma round64_mono:
  assumes "x \<le> y"
  shows "\<not> flt (round64 y) (round64 x)"
proof -
  consider "x < 0" "0 < y" | "x = 0" | "y = 0" | "0 < x" | "y < 0" using assms by linarith
  then show ?thesis
  proof cases
    case 1
    then show ?thesis using round_pos_nonneg [of "- x"] round_pos_nonneg [of y] by (auto simp: round64_def Let_def)
  next
    case 2
    then show ?thesis using round_pos_nonneg [of y] assms by (auto simp: round64_def Let_def)
  next
    case 3
    then show ?thesis using round_pos_nonneg [of "- x"] assms by (auto simp: round64_def Let_def)
  next
    case 4
    then show ?thesis using round_pos_mono [of x y] assms by (auto simp: round64_def Let_def)
  next
    case 5
    then show ?thesis using round_pos_mono [of "- y" "- x"] assms by (auto simp: round64_def Let_def)
  qed
qed

lemma round64_between:
  assumes "round64 lo = FFin lo" and "round64 hi = FFin hi" and "lo \<le> x" and "x \<le> hi"
  obtains y where "round64 x = FFin y" "lo \<le> y" "y \<le> hi"
proof -
  have 1: "\<not> flt (round64 x) (FFin lo)" "\<not> flt (FFin hi) (round64 x)"
    using round64_mono [OF assms(3)] round64_mono [OF assms(4)] assms(1,2) by simp_all
  have "round64 x \<noteq> FNaN" by (simp add: round64_def Let_def)
  then show thesis using 1 that by (cases "round64 x") auto
qed

lemma fixed6_between:
  assumes "of_int a \<le> y * 10 ^ 6" and "y * 10 ^ 6 \<le> of_int b"
  shows "of_int a / 10 ^ 6 \<le> fixed6 y" "fixed6 y \<le> of_int b / 10 ^ 6"
  using round_even_mono [OF assms(1)] round_even_mono [OF assms(2)]
  by (simp_all add: fixed6_def divide_right_mono)

subsection \<open>strconv.ParseFloat\<close>

definition digit_val :: "nat \<Rightarrow> char \<Rightarrow> nat option" where
  "digit_val base c =
     (let n = of_char (lower_char c) :: nat in
      if 48 \<le> n \<and> n \<le> 57 then Some (n - 48)
      else if base = 16 \<and> 97 \<le> n \<and> n \<le> 102 then Some (n - 87)
      else None)"

text \<open>
  The mantissa: whether a digit was seen, its digits as a number, how many of them stand after the
  point, and what is left of the text.
\<close>

fun read_mant :: "nat \<Rightarrow> bool \<Rightarrow> bool \<times> nat \<times> nat \<Rightarrow> string \<Rightarrow> (bool \<times> nat \<times> nat) \<times> string" where
  "read_mant base dot acc [] = (acc, [])"
| "read_mant base dot (sd, m, f) (c # cs) =
     (if c = CHR ''_'' then read_mant base dot (sd, m, f) cs
      else if c = CHR ''.'' then
        (if dot then ((sd, m, f), c # cs) else read_mant base True (sd, m, f) cs)
      else
        (case digit_val base c of
           Some d \<Rightarrow> read_mant base dot (True, m * base + d, if dot then Suc f else f) cs
         | None \<Rightarrow> ((sd, m, f), c # cs)))"

text \<open>The digits of an exponent; past 10000 they no longer count.\<close>

fun read_exp :: "nat \<Rightarrow> string \<Rightarrow> nat \<times> string" where
  "read_exp e [] = (e, [])"
| "read_exp e (c # cs) =
     (if c = CHR ''_'' then read_exp e cs
      else
        (case digit_val 10 c of
           Some d \<Rightarrow> read_exp (if e < 10000 then e * 10 + d else e) cs
         | None \<Rightarrow> (e, c # cs)))"

definition exponent_part :: "char \<Rightarrow> bool \<Rightarrow> string \<Rightarrow> (int \<times> string) option" where
  "exponent_part expChar needed s =
     (case s of
        c # cs \<Rightarrow>
          if lower_char c = expChar then
            (let neg = (cs \<noteq> [] \<and> hd cs = CHR ''-'');
                 ds = (if cs \<noteq> [] \<and> (hd cs = CHR ''-'' \<or> hd cs = CHR ''+'') then tl cs else cs)
             in if ds = [] \<or> digit_val 10 (hd ds) = None then None
                else (case read_exp 0 ds of (e, rest) \<Rightarrow> Some (if neg then - int e else int e, rest)))
          else if needed then None else Some (0, s)
      | [] \<Rightarrow> if needed then None else Some (0, s))"

text \<open>Underscores must stand between digits, or after a base prefix.\<close>

fun underscores_from :: "bool \<Rightarrow> char \<Rightarrow> string \<Rightarrow> bool" where
  "underscores_from hex prev [] = (prev \<noteq> CHR ''_'')"
| "underscores_from hex prev (c # cs) =
     (if digit_val (if hex then 16 else 10) c \<noteq> None then underscores_from hex (CHR ''0'') cs
      else if c = CHR ''_'' then prev = CHR ''0'' \<and> underscores_from hex c cs
      else prev \<noteq> CHR ''_'' \<and> underscores_from hex (CHR ''!'') cs)"

definition drop_sign :: "string \<Rightarrow> bool \<times> string" where
  "drop_sign s =
     (if s \<noteq> [] \<and> (hd s = CHR ''+'' \<or> hd s = CHR ''-'') then (hd s = CHR ''-'', tl s) else (False, s))"

definition underscoreOK :: "string \<Rightarrow> bool" where
  "underscoreOK s =
     (case snd (drop_sign s) of
        z # p # rest \<Rightarrow>
          if z = CHR ''0'' \<and> lower_char p \<in> set ''box''
          then underscores_from (lower_char p = CHR ''x'') (CHR ''0'') rest
          else underscores_from False (CHR ''^'') (z # p # rest)
      | body \<Rightarrow> underscores_from False (CHR ''^'') body)"

definition special :: "string \<Rightarrow> float64 option" where
  "special s =
     (if ToLower s = ''nan'' then Some FNaN
      else (case drop_sign s of (neg, t) \<Rightarrow>
              if ToLower t \<in> {''inf'', ''infinity''} then Some (FInf neg) else None))"

definition signed :: "bool \<Rightarrow> float64 \<Rightarrow> float64 option" where
  "signed neg f = (case f of FFin x \<Rightarrow> Some (FFin (if neg then - x else x)) | _ \<Rightarrow> None)"

text \<open>A value out of range comes with an error, like a syntax error; both are \<open>None\<close> here.\<close>

definition ParseFloat :: "string \<Rightarrow> float64 option" where
  "ParseFloat s =
     (case special s of
        Some f \<Rightarrow> Some f
      | None \<Rightarrow>
          (case drop_sign s of (neg, t) \<Rightarrow>
             (let hex = (2 < length t \<and> hd t = CHR ''0'' \<and> lower_char (t ! 1) = CHR ''x'')
              in (case read_mant (if hex then 16 else 10) False (False, 0, 0) (if hex then drop 2 t else t) of
                    ((sawdigits, m, f), rest) \<Rightarrow>
                      if \<not> sawdigits then None
                      else
                        (case exponent_part (if hex then CHR ''p'' else CHR ''e'') hex rest of
                           Some (e, []) \<Rightarrow>
                             if CHR ''_'' \<in> set s \<and> \<not> underscoreOK s then None
                             else signed neg (round64
                               (if hex then of_nat m * 2 powi (e - 4 * int f) else of_nat m * 10 powi (e - int f)))
                         | _ \<Rightarrow> None)))))"

subsection \<open>Reading back a printed number\<close>

lemma digit_code:
  fixes c :: char
  assumes "of_char c = 48 + n" and "n < 10"
  shows "digit_val 10 c = Some n" "c \<notin> set ''_.+-xXnNiI''" "lower_char c \<notin> set ''xni''"
proof -
  have l: "lower_char c = c" using assms by (simp add: lower_char_def Let_def)
  show "digit_val 10 c = Some n" using assms by (simp add: digit_val_def l)
  show "c \<notin> set ''_.+-xXnNiI''" using assms by auto
  show "lower_char c \<notin> set ''xni''" unfolding l using assms by auto
qed

lemma digit_chars:
  assumes "n < 10"
  shows "digit_val 10 (char_of (48 + n)) = Some n" "char_of (48 + n) \<notin> set ''_.+-xXnNiI''"
    "lower_char (char_of (48 + n)) \<notin> set ''xni''"
proof -
  have "of_char (char_of (48 + n) :: char) = 48 + n" using assms by simp
  from digit_code [OF this assms] show "digit_val 10 (char_of (48 + n)) = Some n"
    "char_of (48 + n) \<notin> set ''_.+-xXnNiI''" "lower_char (char_of (48 + n)) \<notin> set ''xni''" by blast+
qed

definition digit_char :: "char \<Rightarrow> bool" where
  "digit_char c \<longleftrightarrow> (\<exists>n < 10. c = char_of (48 + n :: nat))"

lemma nat_text_digits: "nat_text n \<noteq> [] \<and> (\<forall>c \<in> set (nat_text n). digit_char c)"
proof (induction n rule: nat_text.induct)
  case (1 n)
  show ?case
  proof (cases "n < 10")
    case True
    then show ?thesis by (subst (1 2) nat_text.simps) (auto simp: digit_char_def)
  next
    case False
    have "digit_char (char_of (48 + n mod 10))" unfolding digit_char_def by (rule exI [of _ "n mod 10"]) simp
    then show ?thesis using 1 [OF False] False by (subst (1 2) nat_text.simps) auto
  qed
qed

lemma read_mant_digit:
  "n < 10 \<Longrightarrow> read_mant 10 False (sd, m, 0) (char_of (48 + n) # cs) = read_mant 10 False (True, m * 10 + n, 0) cs"
  using digit_chars(1,2) [of n] by simp

lemma read_mant_nat_text:
  "\<exists>m'. read_mant 10 False (sd, m, 0) (nat_text n @ cs) = read_mant 10 False (True, m', 0) cs \<and> (m = 0 \<longrightarrow> m' = n)"
proof (induction n arbitrary: cs rule: nat_text.induct)
  case (1 n)
  show ?case
  proof (cases "n < 10")
    case True
    then show ?thesis by (subst nat_text.simps) (auto simp: read_mant_digit simp del: read_mant.simps)
  next
    case False
    from 1 [OF False, of "char_of (48 + n mod 10) # cs"] obtain m' where
      m': "read_mant 10 False (sd, m, 0) (nat_text (n div 10) @ char_of (48 + n mod 10) # cs) =
        read_mant 10 False (True, m', 0) (char_of (48 + n mod 10) # cs)" "m = 0 \<longrightarrow> m' = n div 10"
      by blast
    have "nat_text n = nat_text (n div 10) @ [char_of (48 + n mod 10)]" using False by (subst nat_text.simps) simp
    then have "read_mant 10 False (sd, m, 0) (nat_text n @ cs) = read_mant 10 False (True, m' * 10 + n mod 10, 0) cs"
      using m'(1) read_mant_digit [of "n mod 10" True m' cs] by (simp del: read_mant.simps)
    then show ?thesis using m'(2) by auto
  qed
qed

lemma ParseFloat_nat_text:
  assumes "int n < 2 ^ 53"
  shows "ParseFloat (nat_text n) = Some (FFin (of_nat n))"
proof -
  obtain c cs where t: "nat_text n = c # cs" "digit_char c" "\<forall>x \<in> set cs. digit_char x"
    using nat_text_digits [of n] by (cases "nat_text n") auto
  have ns: "x \<notin> set ''_.+-xXnNiI''" "lower_char x \<notin> set ''xni''" if "digit_char x" for x
    using that digit_chars(2,3) by (auto simp: digit_char_def)
  note c = ns [OF t(2)]
  have sp: "special (c # cs) = None" and ds: "drop_sign (c # cs) = (False, c # cs)"
    using c by (auto simp: special_def drop_sign_def ToLower_def)
  have hx: "\<not> (2 < length (c # cs) \<and> hd (c # cs) = CHR ''0'' \<and> lower_char ((c # cs) ! 1) = CHR ''x'')"
    using t(3) ns(2) by (cases cs) auto
  have us: "CHR ''_'' \<notin> set (c # cs)" using t(2,3) ns(1) by auto
  have m: "read_mant 10 False (False, 0, 0) (c # cs) = ((True, n, 0), [])"
    using read_mant_nat_text [of False 0 n "[]"] unfolding t(1) by auto
  have r: "round64 (of_nat n) = FFin (of_nat n)" using round64_of_int [of "int n"] assms by simp
  have hf: "(2 < length (c # cs) \<and> hd (c # cs) = CHR ''0'' \<and> lower_char ((c # cs) ! 1) = CHR ''x'') = False"
    using hx by blast
  show ?thesis
    unfolding t(1) ParseFloat_def sp ds option.case prod.case Let_def hf if_False m
    using us r by (simp add: exponent_part_def signed_def)
qed

end
