(* ===== verification/WalletApi.thy ===== *)
theory WalletApi
  imports Tables Go_Float Schema
begin

text \<open>
  The withdrawal side of the wallet daemon, cmd/wallet-api/main.go: the requests users and
  administrators make, over the tables balances, withdrawals and withdrawal_idempotency
  (migrations 0001, 0003, 0007, 0019, 0029, 0033). The daemon writes these tables with its own SQL
  and does not go through the ledger of theory Wallet. Balances are NUMERIC(38, 18) columns, which
  can hold NaN; the texts of amounts reach Postgres as they are, so Postgres' reading of a text is
  an argument.
\<close>

subsection \<open>NUMERIC with its special values\<close>

datatype numeric = NaN | PInf | NInf | Num rat

fun n_neg :: "numeric \<Rightarrow> numeric" where
  "n_neg NaN = NaN"
| "n_neg PInf = NInf"
| "n_neg NInf = PInf"
| "n_neg (Num x) = Num (- x)"

fun n_add :: "numeric \<Rightarrow> numeric \<Rightarrow> numeric" where
  "n_add NaN y = NaN"
| "n_add x NaN = NaN"
| "n_add PInf NInf = NaN"
| "n_add NInf PInf = NaN"
| "n_add PInf y = PInf"
| "n_add NInf y = NInf"
| "n_add x PInf = PInf"
| "n_add x NInf = NInf"
| "n_add (Num x) (Num y) = Num (x + y)"

definition n_sub :: "numeric \<Rightarrow> numeric \<Rightarrow> numeric" where
  "n_sub x y = n_add x (n_neg y)"

text \<open>Postgres' order: NaN is equal to itself and above everything else.\<close>

fun n_le :: "numeric \<Rightarrow> numeric \<Rightarrow> bool" where
  "n_le x NaN = True"
| "n_le NaN y = False"
| "n_le x PInf = True"
| "n_le PInf y = False"
| "n_le NInf y = True"
| "n_le x NInf = False"
| "n_le (Num x) (Num y) = (x \<le> y)"

definition n_greatest :: "numeric \<Rightarrow> numeric \<Rightarrow> numeric" where
  "n_greatest x y = (if n_le x y then y else x)"

definition n_least :: "numeric \<Rightarrow> numeric \<Rightarrow> numeric" where
  "n_least x y = (if n_le x y then x else y)"

text \<open>Writing into NUMERIC(38, 18): no infinities, NaN is allowed.\<close>

fun n_store :: "numeric \<Rightarrow> numeric option" where
  "n_store NaN = Some NaN"
| "n_store (Num x) = map_option Num (numeric_38_18 x)"
| "n_store x = None"

text \<open>
  The float64 of a column: the cast to float8, and the text of the column read by ParseFloat, are
  both the nearest float64.
\<close>

fun n_float :: "numeric \<Rightarrow> float64" where
  "n_float NaN = FNaN"
| "n_float PInf = FInf False"
| "n_float NInf = FInf True"
| "n_float (Num x) = round64 x"

subsection \<open>Tables\<close>

record api_balance =
  ab_available :: numeric
  ab_frozen :: numeric

record api_user =
  au_id :: uuid
  au_is_bot :: bool
  au_created_at :: int

record withdrawal =
  wr_id :: uuid
  wr_user :: uuid
  wr_chain :: string
  wr_asset :: string
  wr_amount :: numeric
  wr_dest :: string
  wr_tx_hash :: "string option"
  wr_status :: string
  wr_error_msg :: "string option"
  wr_created_at :: int
  wr_sent_at :: "int option"
  wr_completed_at :: "int option"
  wr_fee :: numeric
  wr_receive :: numeric
  wr_risk_score :: int
  wr_risk_hold :: bool
  wr_block_number :: "nat option"

text \<open>
  tx_aborted says that a statement of the open transaction has failed, after which Postgres
  refuses the others; withdrawal_columns are the columns the table has.
\<close>

record wapi_db = env +
  tx_aborted :: bool
  api_users :: "api_user list"
  api_balances :: "(uuid \<times> string) \<Rightarrow> api_balance option"
  withdrawal_columns :: "string list"
  withdrawals :: "withdrawal list"
  idempotency :: "((uuid \<times> string) \<times> uuid) list"

definition store_api_balance :: "numeric \<Rightarrow> numeric \<Rightarrow> api_balance option" where
  "store_api_balance a f =
     (case (n_store a, n_store f) of
        (Some a', Some f') \<Rightarrow>
          if n_le (Num 0) a' \<and> n_le (Num 0) f' then Some \<lparr>ab_available = a', ab_frozen = f'\<rparr> else None
      | _ \<Rightarrow> None)"

text \<open>UPDATE balances SET available = .., frozen = .. WHERE user_id = .. AND asset = ..\<close>

definition update_api_balance ::
  "uuid \<Rightarrow> string \<Rightarrow> (api_balance \<Rightarrow> numeric \<times> numeric) \<Rightarrow> 'x wapi_db_scheme \<Rightarrow> (nat \<times> 'x wapi_db_scheme) option" where
  "update_api_balance u asset f s =
     (case api_balances s (u, asset) of
        None \<Rightarrow> Some (0, s)
      | Some b \<Rightarrow>
          (case f b of (a, z) \<Rightarrow>
             map_option (\<lambda>b'. (1, s\<lparr>api_balances := (api_balances s)((u, asset) \<mapsto> b')\<rparr>)) (store_api_balance a z)))"

text \<open>The CHECKs of the row, and writing a new row with its amounts.\<close>

definition wd_check :: "withdrawal \<Rightarrow> withdrawal option" where
  "wd_check r =
     (if wr_status r \<in> set withdrawal_statuses \<and> length (wr_dest r) \<le> 128 \<and>
         (case wr_tx_hash r of None \<Rightarrow> True | Some h \<Rightarrow> length h \<le> 128)
      then Some r else None)"

definition wd_store :: "withdrawal \<Rightarrow> withdrawal option" where
  "wd_store r =
     (case (n_store (wr_amount r), n_store (wr_receive r)) of
        (Some a, Some v) \<Rightarrow> wd_check (r\<lparr>wr_amount := a, wr_receive := v\<rparr>)
      | _ \<Rightarrow> None)"

definition update_withdrawals ::
  "(withdrawal \<Rightarrow> bool) \<Rightarrow> (withdrawal \<Rightarrow> withdrawal) \<Rightarrow> 'x wapi_db_scheme \<Rightarrow> (nat \<times> 'x wapi_db_scheme) option" where
  "update_withdrawals P f s =
     map_option (\<lambda>(n, ws). (n, s\<lparr>withdrawals := ws\<rparr>)) (tbl_update P (\<lambda>r. wd_check (f r)) (withdrawals s))"

definition find_withdrawal :: "uuid \<Rightarrow> 'x wapi_db_scheme \<Rightarrow> withdrawal option" where
  "find_withdrawal i s = tbl_find wr_id i (withdrawals s)"

definition find_api_user :: "uuid \<Rightarrow> 'x wapi_db_scheme \<Rightarrow> api_user option" where
  "find_api_user u s = tbl_find au_id u (api_users s)"

subsection \<open>Transactions\<close>

definition begin_tx :: "'x wapi_db_scheme \<Rightarrow> bool \<times> 'x wapi_db_scheme" where
  "begin_tx s = (case query (\<lambda>_. ()) s of (r, s') \<Rightarrow> (r \<noteq> None, s'\<lparr>tx_aborted := False\<rparr>))"

definition tx_query :: "('x wapi_db_scheme \<Rightarrow> 'a) \<Rightarrow> 'x wapi_db_scheme \<Rightarrow> 'a option \<times> 'x wapi_db_scheme" where
  "tx_query f s =
     (if tx_aborted s then (None, s)
      else (case query f s of
              (None, s') \<Rightarrow> (None, s'\<lparr>tx_aborted := True\<rparr>)
            | (Some r, s') \<Rightarrow> (Some r, s')))"

definition tx_exec ::
  "('x wapi_db_scheme \<Rightarrow> (nat \<times> 'x wapi_db_scheme) option) \<Rightarrow> 'x wapi_db_scheme \<Rightarrow> nat option \<times> 'x wapi_db_scheme" where
  "tx_exec f s =
     (if tx_aborted s then (None, s)
      else (case exec_stmt f s of
              (None, s') \<Rightarrow> (None, s'\<lparr>tx_aborted := True\<rparr>)
            | (Some n, s') \<Rightarrow> (Some n, s')))"

definition rollback_tx :: "'x wapi_db_scheme \<Rightarrow> 'x wapi_db_scheme \<Rightarrow> 'x wapi_db_scheme" where
  "rollback_tx s0 s =
     s\<lparr>tx_aborted := False, api_balances := api_balances s0, withdrawals := withdrawals s0,
       idempotency := idempotency s0\<rparr>"

text \<open>Committing an aborted transaction rolls it back and is an error.\<close>

definition commit_tx :: "'x wapi_db_scheme \<Rightarrow> 'x wapi_db_scheme \<Rightarrow> bool \<times> 'x wapi_db_scheme" where
  "commit_tx s0 s =
     (if tx_aborted s then (False, rollback_tx s0 s)
      else (case next_fault s of
              (Acked, s') \<Rightarrow> (True, s')
            | (Lost, s') \<Rightarrow> (False, rollback_tx s0 s')
            | (Unacked, s') \<Rightarrow> (False, s')))"

subsection \<open>Risk score\<close>

text \<open>A factor is its name, its points and the score so far; its text is what the response shows.\<close>

type_synonym factor = "string \<times> int \<times> int"

definition factor_text :: "factor \<Rightarrow> string" where
  "factor_text x = (case x of (name, pts, now) \<Rightarrow> name @ '' (+'' @ Itoa pts @ '', now '' @ Itoa now @ '')'')"

definition add_factor :: "string \<Rightarrow> int \<Rightarrow> int \<times> factor list \<Rightarrow> int \<times> factor list" where
  "add_factor name pts acc = (fst acc + pts, snd acc @ [(name, pts, fst acc + pts)])"

definition amount_factor :: "float64 \<Rightarrow> int \<times> factor list \<Rightarrow> int \<times> factor list" where
  "amount_factor amount =
     (if flt (FFin 10000) amount then add_factor ''amount>10000'' 80
      else if flt (FFin 1000) amount then add_factor ''amount>1000'' 50
      else if flt (FFin 100) amount then add_factor ''amount>100'' 20
      else id)"

definition account_age_factor :: "int \<Rightarrow> int \<times> factor list \<Rightarrow> int \<times> factor list" where
  "account_age_factor age =
     (if age < hour_ns then add_factor ''account_age<1h'' 60
      else if age < 24 * hour_ns then add_factor ''account_age<24h'' 40
      else id)"

definition used_count :: "uuid \<Rightarrow> string \<Rightarrow> 'x wapi_db_scheme \<Rightarrow> nat" where
  "used_count u dest s =
     length (filter (\<lambda>r. wr_user r = u \<and> wr_dest r = dest \<and> wr_id r \<noteq> uuid_nil) (withdrawals s))"

definition day_total :: "int \<Rightarrow> uuid \<Rightarrow> 'x wapi_db_scheme \<Rightarrow> float64" where
  "day_total db_now u s =
     n_float (fold n_add (map wr_amount (filter (\<lambda>r. wr_user r = u \<and> db_now - 24 * hour_ns < wr_created_at r \<and>
       wr_status r \<notin> {''REJECTED'', ''FAILED'', ''CANCELLED''}) (withdrawals s))) (Num 0))"

definition unusual_hour :: "int \<Rightarrow> bool" where
  "unusual_hour now = (let h = now div hour_ns mod 24 in 22 \<le> h \<or> h < 6)"

text \<open>Its reads run in the caller's transaction; one that fails counts for nothing.\<close>

definition computeRiskScore ::
  "int \<Rightarrow> int \<Rightarrow> uuid \<Rightarrow> string \<Rightarrow> float64 \<Rightarrow> 'x wapi_db_scheme \<Rightarrow> (int \<times> factor list) \<times> 'x wapi_db_scheme" where
  "computeRiskScore now db_now u dest amount s =
     (let a0 = amount_factor amount (0, []) in
      case tx_query (find_api_user u) s of (age_row, s1) \<Rightarrow>
        (let a1 = (case age_row of Some (Some r) \<Rightarrow> account_age_factor (now - au_created_at r) a0 | _ \<Rightarrow> a0) in
         case tx_query (used_count u dest) s1 of (used, s2) \<Rightarrow>
           (let a2 = (case used of Some n \<Rightarrow> if 0 < n then add_factor ''new_destination'' 30 a1 else a1 | None \<Rightarrow> a1) in
            case tx_query (day_total db_now u) s2 of (sum24, s3) \<Rightarrow>
              (let a3 = (case sum24 of
                           Some t \<Rightarrow> if flt (FFin 5000) (fadd t amount) then add_factor ''daily_cum>5000'' 30 a2 else a2
                         | None \<Rightarrow> a2);
                   a4 = (if unusual_hour now then add_factor ''unusual_hour'' 15 a3 else a3)
               in (a4, s3)))))"

definition initial_status :: "int \<Rightarrow> string" where
  "initial_status score =
     (if 100 \<le> score then ''REJECTED'' else if 80 \<le> score then ''MANUAL_REVIEW''
      else if 50 \<le> score then ''RISK_CHECK'' else ''PENDING'')"

definition riskActionMessage :: "string \<Rightarrow> string" where
  "riskActionMessage status =
     (if status = ''PENDING'' then ''queued for processing''
      else if status = ''RISK_CHECK'' then ''2FA confirmation required: POST /wallet/v1/withdrawals/confirm''
      else if status = ''MANUAL_REVIEW'' then ''admin review required; status will update via /wallet/v1/withdrawals/<id>''
      else if status = ''REJECTED'' then ''withdrawal rejected by automated risk checks''
      else [])"

subsection \<open>Creating a withdrawal\<close>

definition base58_alphabet :: string where
  "base58_alphabet = ''123456789ABCDEFGHJKLMNPQRSTUVWXYZabcdefghijkmnopqrstuvwxyz''"

definition tronValidateAddress :: "string \<Rightarrow> bool" where
  "tronValidateAddress s \<longleftrightarrow> length s = 34 \<and> HasPrefix s ''T'' \<and> list_all (\<lambda>c. c \<in> set base58_alphabet) s"

datatype create_response =
    Refused nat string
  | Replayed uuid
  | Created nat uuid string int "factor list" string

record create_request =
  cr_chain :: string
  cr_asset :: string
  cr_destination :: string
  cr_amount :: string

definition http_status :: "string \<Rightarrow> nat" where
  "http_status status =
     (if status = ''REJECTED'' then 403 else if status \<in> {''MANUAL_REVIEW'', ''RISK_CHECK''} then 202 else 201)"

definition lock_balance ::
  "(string \<Rightarrow> numeric option) \<Rightarrow> uuid \<Rightarrow> string \<Rightarrow> string \<Rightarrow> 'x wapi_db_scheme \<Rightarrow> (nat \<times> 'x wapi_db_scheme) option" where
  "lock_balance numeric_in u amount asset s =
     Option.bind (numeric_in amount) (\<lambda>x. update_api_balance u asset (\<lambda>b. (n_sub (ab_available b) x, n_add (ab_frozen b) x)) s)"

definition insert_withdrawal ::
  "(string \<Rightarrow> numeric option) \<Rightarrow> uuid \<Rightarrow> int \<Rightarrow> uuid \<Rightarrow> string \<Rightarrow> string \<Rightarrow> string \<Rightarrow> string \<Rightarrow> string \<Rightarrow> int
    \<Rightarrow> 'x wapi_db_scheme \<Rightarrow> (nat \<times> 'x wapi_db_scheme) option" where
  "insert_withdrawal numeric_in new_id db_now u chain asset amount dest status score s =
     (if u \<in> au_id ` set (api_users s)
      then Option.bind (numeric_in amount) (\<lambda>x.
        Option.bind (wd_store \<lparr>wr_id = new_id, wr_user = u, wr_chain = chain, wr_asset = asset, wr_amount = x,
            wr_dest = dest, wr_tx_hash = None, wr_status = status, wr_error_msg = None, wr_created_at = db_now,
            wr_sent_at = None, wr_completed_at = None, wr_fee = Num 0, wr_receive = x, wr_risk_score = score,
            wr_risk_hold = (status \<noteq> ''PENDING''), wr_block_number = None\<rparr>) (\<lambda>r.
          map_option (\<lambda>ws. (1, s\<lparr>withdrawals := ws\<rparr>)) (tbl_insert wr_id r (withdrawals s))))
      else None)"

definition find_idem :: "uuid \<Rightarrow> string \<Rightarrow> 'x wapi_db_scheme \<Rightarrow> uuid option" where
  "find_idem u key s = map_option snd (tbl_find fst (u, key) (idempotency s))"

definition insert_idem ::
  "uuid \<Rightarrow> string \<Rightarrow> uuid \<Rightarrow> 'x wapi_db_scheme \<Rightarrow> (nat \<times> 'x wapi_db_scheme) option" where
  "insert_idem u key i s =
     (if length key \<le> 128
      then map_option (\<lambda>es. (1, s\<lparr>idempotency := es\<rparr>)) (tbl_insert fst ((u, key), i) (idempotency s))
      else None)"

text \<open>The part inside the transaction, from the balance check on. s0 is the state it began in.\<close>

definition withdrawal_body ::
  "(string \<Rightarrow> numeric option) \<Rightarrow> uuid \<Rightarrow> int \<Rightarrow> int \<Rightarrow> uuid \<Rightarrow> string \<Rightarrow> create_request \<Rightarrow> float64
    \<Rightarrow> 'x wapi_db_scheme \<Rightarrow> 'x wapi_db_scheme \<Rightarrow> create_response \<times> 'x wapi_db_scheme" where
  "withdrawal_body numeric_in new_id now db_now u idemKey req amountFloat s0 s =
     (let chain = ToUpper (TrimSpace (cr_chain req));
          asset = ToUpper (TrimSpace (cr_asset req));
          dest = TrimSpace (cr_destination req)
      in case tx_query (\<lambda>t. api_balances t (u, asset)) s of
        (None, s1) \<Rightarrow> (Refused 500 ''internal error'', rollback_tx s0 s1)
      | (Some None, s1) \<Rightarrow> (Refused 400 ''no balance for this asset'', rollback_tx s0 s1)
      | (Some (Some b), s1) \<Rightarrow>
          if flt (n_float (ab_available b)) amountFloat
          then (Refused 400 ''insufficient balance'', rollback_tx s0 s1)
          else
            (case tx_exec (lock_balance numeric_in u (cr_amount req) asset) s1 of
               (None, s2) \<Rightarrow> (Refused 500 ''internal error'', rollback_tx s0 s2)
             | (Some _, s2) \<Rightarrow>
                 (case computeRiskScore now db_now u (cr_destination req) amountFloat s2 of
                    ((score, factors), s3) \<Rightarrow>
                      (let status = initial_status score in
                       case tx_exec (insert_withdrawal numeric_in new_id db_now u chain asset (cr_amount req) dest status score) s3 of
                         (None, s4) \<Rightarrow> (Refused 500 ''internal error'', rollback_tx s0 s4)
                       | (Some _, s4) \<Rightarrow>
                           (case (if idemKey = [] then (Some 1, s4) else tx_exec (insert_idem u idemKey new_id) s4) of
                              (None, s5) \<Rightarrow> (Refused 500 ''internal error'', rollback_tx s0 s5)
                            | (Some _, s5) \<Rightarrow>
                                (case commit_tx s0 s5 of
                                   (False, s6) \<Rightarrow> (Refused 500 ''internal error'', s6)
                                 | (True, s6) \<Rightarrow>
                                     (Created (http_status status) new_id status score factors (riskActionMessage status), s6)))))))"

definition minAmount :: nat where
  "minAmount = 100000"

text \<open>The checks before the transaction; the right value is the amount as float64.\<close>

definition check_request :: "(float64 \<Rightarrow> nat) \<Rightarrow> create_request option \<Rightarrow> (nat \<times> string) + (create_request \<times> float64)" where
  "check_request oob body =
     (case body of
        None \<Rightarrow> Inl (400, ''invalid JSON body'')
      | Some req \<Rightarrow>
          if ToUpper (TrimSpace (cr_chain req)) \<noteq> ''TRON'' then Inl (400, ''only TRON chain supported in V1'')
          else if ToUpper (TrimSpace (cr_asset req)) \<noteq> ''USDT'' then Inl (400, ''only USDT asset supported in V1'')
          else if \<not> tronValidateAddress (TrimSpace (cr_destination req))
          then Inl (400, ''destination must be a TRON Base58 address (T-prefix)'')
          else
            (case ParseFloat (cr_amount req) of
               None \<Rightarrow> Inl (400, ''amount must be a positive number'')
             | Some f \<Rightarrow>
                 if fle f (FFin 0) then Inl (400, ''amount must be a positive number'')
                 else if to_uint64 oob (fmul f (FFin 1000000)) < minAmount then Inl (400, ''amount below minimum 0.1 USDT'')
                 else Inr (req, f)))"

definition createWithdrawal ::
  "(string \<Rightarrow> numeric option) \<Rightarrow> (float64 \<Rightarrow> nat) \<Rightarrow> uuid \<Rightarrow> int \<Rightarrow> int \<Rightarrow> uuid \<Rightarrow> string \<Rightarrow> create_request option
    \<Rightarrow> 'x wapi_db_scheme \<Rightarrow> create_response \<times> 'x wapi_db_scheme" where
  "createWithdrawal numeric_in oob new_id now db_now u idemHeader body s =
     (case query (find_api_user u) s of (bot_row, s1) \<Rightarrow>
        if (case bot_row of Some (Some r) \<Rightarrow> au_is_bot r | _ \<Rightarrow> False)
        then (Refused 403 ''bot accounts cannot initiate withdrawals'', s1)
        else
          (case check_request oob body of
             Inl (code, msg) \<Rightarrow> (Refused code msg, s1)
           | Inr (req, amountFloat) \<Rightarrow>
               (let idemKey = TrimSpace idemHeader in
                case begin_tx s1 of
                  (False, s2) \<Rightarrow> (Refused 500 ''internal error'', s2)
                | (True, s2) \<Rightarrow>
                    if idemKey = [] then withdrawal_body numeric_in new_id now db_now u idemKey req amountFloat s2 s2
                    else
                      (case tx_query (find_idem u idemKey) s2 of
                         (None, s3) \<Rightarrow> (Refused 500 ''internal error'', rollback_tx s2 s3)
                       | (Some (Some i), s3) \<Rightarrow> (Replayed i, snd (commit_tx s2 s3))
                       | (Some None, s3) \<Rightarrow> withdrawal_body numeric_in new_id now db_now u idemKey req amountFloat s2 s3))))"


subsection \<open>Confirming and reviewing\<close>

text \<open>
  Requests name a withdrawal by a text that Postgres casts to uuid; uuid_in is that cast. The
  answer of the TOTP service to the code is an argument, \<open>None\<close> when there is no service. The
  left value of a response is the HTTP status of an error.
\<close>

definition is_status :: "uuid \<Rightarrow> string \<Rightarrow> withdrawal \<Rightarrow> bool" where
  "is_status i status r \<longleftrightarrow> wr_id r = i \<and> wr_status r = status"

definition confirmWithdrawal ::
  "(string \<Rightarrow> uuid option) \<Rightarrow> bool option \<Rightarrow> uuid \<Rightarrow> (string \<times> string) option
    \<Rightarrow> 'x wapi_db_scheme \<Rightarrow> (nat + uuid) \<times> 'x wapi_db_scheme" where
  "confirmWithdrawal uuid_in totp u body s =
     (case totp of
        None \<Rightarrow> (Inl 501, s)
      | Some code_ok \<Rightarrow>
          (case body of
             None \<Rightarrow> (Inl 400, s)
           | Some (withdrawalID, code) \<Rightarrow>
               if withdrawalID = [] \<or> code = [] then (Inl 400, s)
               else
                 (case uuid_in withdrawalID of
                    None \<Rightarrow> (Inl 500, s)
                  | Some i \<Rightarrow>
                      (case query (find_withdrawal i) s of
                         (None, s1) \<Rightarrow> (Inl 500, s1)
                       | (Some None, s1) \<Rightarrow> (Inl 404, s1)
                       | (Some (Some r), s1) \<Rightarrow>
                           if wr_user r \<noteq> u then (Inl 403, s1)
                           else if wr_status r \<noteq> ''RISK_CHECK'' then (Inl 400, s1)
                           else if \<not> code_ok then (Inl 401, s1)
                           else
                             (case exec_stmt (update_withdrawals (is_status i ''RISK_CHECK'')
                                     (\<lambda>r. r\<lparr>wr_status := ''PENDING'', wr_risk_hold := False\<rparr>)) s1 of
                                (None, s2) \<Rightarrow> (Inl 500, s2)
                              | (Some n, s2) \<Rightarrow> (if n = 0 then Inl 409 else Inr i, s2))))))"

definition listReviewWithdrawals :: "'x wapi_db_scheme \<Rightarrow> (nat + withdrawal list) \<times> 'x wapi_db_scheme" where
  "listReviewWithdrawals s =
     (case query (\<lambda>t. take 200 (sort_key wr_created_at (filter (\<lambda>r. wr_status r = ''MANUAL_REVIEW'' \<or>
              80 \<le> wr_risk_score r \<and> wr_status r \<notin> {''COMPLETED'', ''FAILED'', ''REJECTED'', ''CANCELLED''})
              (withdrawals t)))) s of
        (None, s1) \<Rightarrow> (Inl 500, s1)
      | (Some rs, s1) \<Rightarrow> (Inr rs, s1))"

definition approveReviewWithdrawal ::
  "(string \<Rightarrow> uuid option) \<Rightarrow> string option \<Rightarrow> 'x wapi_db_scheme \<Rightarrow> (nat + uuid) \<times> 'x wapi_db_scheme" where
  "approveReviewWithdrawal uuid_in body s =
     (case body of
        None \<Rightarrow> (Inl 400, s)
      | Some withdrawalID \<Rightarrow>
          (case uuid_in withdrawalID of
             None \<Rightarrow> (Inl 500, s)
           | Some i \<Rightarrow>
               (case exec_stmt (update_withdrawals (is_status i ''MANUAL_REVIEW'')
                       (\<lambda>r. r\<lparr>wr_status := ''PENDING'', wr_risk_hold := False, wr_error_msg := None\<rparr>)) s of
                  (None, s1) \<Rightarrow> (Inl 500, s1)
                | (Some n, s1) \<Rightarrow> (if n = 0 then Inl 409 else Inr i, s1))))"

definition unfreeze_rejected ::
  "uuid \<Rightarrow> string \<Rightarrow> numeric \<Rightarrow> 'x wapi_db_scheme \<Rightarrow> (nat \<times> 'x wapi_db_scheme) option" where
  "unfreeze_rejected u asset amount =
     update_api_balance u asset (\<lambda>b.
       (n_add (ab_available b) (n_greatest (n_sub amount (ab_frozen b)) (Num 0)),
        n_greatest (n_sub (ab_frozen b) amount) (Num 0)))"

definition rejected_row :: "string \<Rightarrow> withdrawal \<Rightarrow> withdrawal" where
  "rejected_row reason r =
     r\<lparr>wr_status := ''REJECTED'', wr_risk_hold := False,
       wr_error_msg := Some (if reason = [] then ''rejected by admin'' else reason)\<rparr>"

definition rejectReviewWithdrawal ::
  "(string \<Rightarrow> uuid option) \<Rightarrow> (string \<times> string) option \<Rightarrow> 'x wapi_db_scheme \<Rightarrow> (nat + uuid) \<times> 'x wapi_db_scheme" where
  "rejectReviewWithdrawal uuid_in body s =
     (case body of
        None \<Rightarrow> (Inl 400, s)
      | Some (withdrawalID, reason) \<Rightarrow>
          (case begin_tx s of
             (False, s1) \<Rightarrow> (Inl 500, s1)
           | (True, s1) \<Rightarrow>
               (case uuid_in withdrawalID of
                  None \<Rightarrow> (Inl 409, rollback_tx s1 s1)
                | Some i \<Rightarrow>
                    (case tx_exec (update_withdrawals (is_status i ''MANUAL_REVIEW'')
                            (rejected_row reason)) s1 of
                       (None, s2) \<Rightarrow> (Inl 409, rollback_tx s1 s2)
                     | (Some n, s2) \<Rightarrow>
                         (case (if n = 0 then None else find_withdrawal i s2) of
                            None \<Rightarrow> (Inl 409, rollback_tx s1 s2)
                          | Some r \<Rightarrow>
                              (case tx_exec (unfreeze_rejected (wr_user r) (wr_asset r) (wr_amount r)) s2 of
                                 (None, s3) \<Rightarrow> (Inl 500, rollback_tx s1 s3)
                               | (Some _, s3) \<Rightarrow>
                                   (case commit_tx s1 s3 of
                                      (False, s4) \<Rightarrow> (Inl 500, s4)
                                    | (True, s4) \<Rightarrow> (Inr i, s4))))))))"

subsection \<open>Listing, and the request helpers\<close>

text \<open>
  The listing reads a column the migrations do not create; scans says whether the driver can put a
  row into the item, and a row it cannot is skipped.
\<close>

definition parseLimit :: "string \<Rightarrow> int \<Rightarrow> int \<Rightarrow> int" where
  "parseLimit s def most =
     (if s = [] then def
      else (case ParseInt64 s of
              None \<Rightarrow> def
            | Some n \<Rightarrow> if n \<le> 0 then def else if most < n then most else n))"

definition listWithdrawals ::
  "(withdrawal \<Rightarrow> bool) \<Rightarrow> uuid \<Rightarrow> string \<Rightarrow> string \<Rightarrow> string \<Rightarrow> 'x wapi_db_scheme \<Rightarrow> (nat + withdrawal list) \<times> 'x wapi_db_scheme" where
  "listWithdrawals scans u limit chain0 asset0 s =
     (let chain = ToUpper (TrimSpace chain0); asset = ToUpper (TrimSpace asset0)
      in case query (\<lambda>t. if ''completed_at'' \<in> set (withdrawal_columns t)
             then Some (take (nat (parseLimit limit 50 200)) (sort_key (\<lambda>r. - wr_created_at r)
               (filter (\<lambda>r. wr_user r = u \<and> (chain = [] \<or> wr_chain r = chain) \<and> (asset = [] \<or> wr_asset r = asset)) (withdrawals t))))
             else None) s of
           (Some (Some rs), s1) \<Rightarrow> (Inr (filter scans rs), s1)
         | (_, s1) \<Rightarrow> (Inl 500, s1))"

definition bearerToken :: "string \<Rightarrow> string" where
  "bearerToken h =
     (if h = [] then [] else if \<not> HasPrefix h ''Bearer '' then [] else TrimSpace (drop (length ''Bearer '') h))"

text \<open>
  The two middlewares: verify gives the user id text and the role a token claims, uuid_parse is
  the uuid package's parser. The left value is the refusal's status.
\<close>

definition auth_gate :: "(string \<Rightarrow> (string \<times> string) option) \<Rightarrow> (string \<Rightarrow> uuid option) \<Rightarrow> string \<Rightarrow> nat + uuid" where
  "auth_gate verify uuid_parse header =
     (let raw = bearerToken header in
      if raw = [] then Inl 401
      else (case verify raw of
              None \<Rightarrow> Inl 401
            | Some (userID, role) \<Rightarrow> (case uuid_parse userID of None \<Rightarrow> Inl 401 | Some u \<Rightarrow> Inr u)))"

definition adminAuth :: "(string \<Rightarrow> (string \<times> string) option) \<Rightarrow> string \<Rightarrow> nat + unit" where
  "adminAuth verify header =
     (let raw = bearerToken header in
      if raw = [] then Inl 401
      else (case verify raw of
              None \<Rightarrow> Inl 401
            | Some (userID, role) \<Rightarrow> if role \<noteq> ''admin'' then Inl 403 else Inr ()))"

end
