(* ===== verification/Json.thy ===== *)
theory Json
  imports Go_Strings
begin

text \<open>
  What encoding/json makes of a document decoded into any: an object is an association list with one
  entry per key, numbers are kept as their text. Reading a document and writing one are arguments
  where they occur.
\<close>

datatype json = JNull | JBool bool | JNum string | JStr string | JArr "json list" | JObj "(string \<times> json) list"

type_synonym json_obj = "(string \<times> json) list"

text \<open>Go's comma-ok type assertions on an entry.\<close>

definition get_string :: "json_obj \<Rightarrow> string \<Rightarrow> string option" where
  "get_string ob k = (case map_of ob k of Some (JStr s) \<Rightarrow> Some s | _ \<Rightarrow> None)"

definition get_obj :: "json_obj \<Rightarrow> string \<Rightarrow> json_obj option" where
  "get_obj ob k = (case map_of ob k of Some (JObj p) \<Rightarrow> Some p | _ \<Rightarrow> None)"

abbreviation obj_size :: "json_obj \<Rightarrow> nat" where
  "obj_size \<equiv> size_list (size_prod (\<lambda>k. 0) size)"

lemma obj_size_member: "(k, JObj p) \<in> set ob \<Longrightarrow> obj_size p < obj_size ob"
  by (induction ob) auto

lemma get_obj_size [termination_simp]: "get_obj ob k = Some p \<Longrightarrow> obj_size p < obj_size ob"
  by (auto simp: get_obj_def split: option.splits json.splits dest!: map_of_SomeD intro: obj_size_member)

end
