(* ===== verification/Withdraw_Worker.thy ===== *)
theory Withdraw_Worker
  imports WalletApi Json
begin

text \<open>
  The workers of the wallet daemon, cmd/wallet-api/main.go: signing and broadcasting withdrawals,
  following them to finality, and the sweeps of deposit addresses (migrations 0029 and 0034). The
  TRON adapter and the signer are arguments: operations on a state of their own.
\<close>

subsection \<open>The chain and the signer\<close>

record BuildResult =
  br_RawTx :: "nat list"
  br_TxHash :: string
  br_RawData :: "json_obj option"

record BroadcastResult =
  bc_TxHash :: string
  bc_Accepted :: bool

record Transaction =
  tx_Hash :: string
  tx_BlockNumber :: nat
  tx_BlockHash :: string
  tx_Status :: string
  tx_Events :: "string list"

definition TxStatusPending :: string where "TxStatusPending = ''PENDING''"
definition TxStatusSuccess :: string where "TxStatusSuccess = ''SUCCESS''"
definition TxStatusFailed :: string where "TxStatusFailed = ''FAILED''"

text \<open>The left value of an operation is its error text.\<close>

record 'c chain_ops =
  ch_BuildTransfer :: "string \<Rightarrow> string \<Rightarrow> nat \<Rightarrow> string \<Rightarrow> 'c \<Rightarrow> (string + BuildResult) \<times> 'c"
  ch_Sign :: "nat list \<Rightarrow> 'c \<Rightarrow> (string + (nat list \<times> string)) \<times> 'c"
  ch_BroadcastSigned :: "json_obj option \<Rightarrow> nat list \<Rightarrow> 'c \<Rightarrow> (string + BroadcastResult) \<times> 'c"
  ch_GetTransaction :: "string \<Rightarrow> 'c \<Rightarrow> (string + Transaction) \<times> 'c"
  ch_GetSolidifiedBlock :: "'c \<Rightarrow> (string + nat) \<times> 'c"
  ch_GetBalance :: "string \<Rightarrow> string \<Rightarrow> 'c \<Rightarrow> (string + nat option) \<times> 'c"

record sweep_task =
  sw_id :: nat
  sw_chain :: string
  sw_asset :: string
  sw_from_id :: uuid
  sw_to_id :: uuid
  sw_amount :: numeric
  sw_status :: string
  sw_tx_hash :: "string option"
  sw_last_error :: "string option"
  sw_created_at :: int
  sw_built_at :: "int option"
  sw_signed_at :: "int option"
  sw_broadcast_at :: "int option"
  sw_solidified_at :: "int option"
  sw_completed_at :: "int option"

record chain_address =
  ca_id :: uuid
  ca_chain :: string
  ca_address :: string
  ca_wallet_type :: string
  ca_status :: string
  ca_created_at :: int

text \<open>
  sent_withdrawals and sent_sweeps are the rows whose signed bytes were handed to BroadcastSigned,
  in order: what the chain has seen of them.
\<close>

record 'c worker_db = wapi_db +
  chain_state :: 'c
  sweep_tasks :: "sweep_task list"
  chain_addresses :: "chain_address list"
  sent_withdrawals :: "uuid list"
  sent_sweeps :: "nat list"

definition call_chain ::
  "('c \<Rightarrow> 'r \<times> 'c) \<Rightarrow> ('c, 'x) worker_db_scheme \<Rightarrow> 'r \<times> ('c, 'x) worker_db_scheme" where
  "call_chain f s = (case f (chain_state s) of (r, c) \<Rightarrow> (r, s\<lparr>chain_state := c\<rparr>))"

text \<open>The environment the workers read: contract, hot wallet, dry-run switch.\<close>

record worker_config =
  wc_contract :: string
  wc_hotWalletAddr :: string
  wc_dry_run :: bool

subsection \<open>Withdrawals\<close>

definition set_status :: "int \<Rightarrow> string \<Rightarrow> string option \<Rightarrow> int option \<Rightarrow> string \<Rightarrow> withdrawal \<Rightarrow> withdrawal" where
  "set_status db_now toStatus txHash completedAt errMsg r =
     r\<lparr>wr_status := toStatus,
       wr_tx_hash := (case txHash of None \<Rightarrow> wr_tx_hash r | Some h \<Rightarrow> Some h),
       wr_completed_at := (case completedAt of None \<Rightarrow> wr_completed_at r | Some c \<Rightarrow> Some c),
       wr_sent_at := (if toStatus \<in> {''BROADCASTED'', ''COMPLETED''} then Some db_now else wr_sent_at r),
       wr_error_msg := (if errMsg = [] then None else Some errMsg)\<rparr>"

definition update_status_stmt ::
  "int \<Rightarrow> uuid \<Rightarrow> string \<Rightarrow> string \<Rightarrow> string option \<Rightarrow> int option \<Rightarrow> string \<Rightarrow> 'x wapi_db_scheme \<Rightarrow> (nat \<times> 'x wapi_db_scheme) option" where
  "update_status_stmt db_now i fromStatus toStatus txHash completedAt errMsg t =
     (if ''completed_at'' \<in> set (withdrawal_columns t)
      then update_withdrawals (is_status i fromStatus) (set_status db_now toStatus txHash completedAt errMsg) t
      else None)"

definition updateWithdrawalStatus ::
  "int \<Rightarrow> uuid \<Rightarrow> string \<Rightarrow> string \<Rightarrow> string option \<Rightarrow> int option \<Rightarrow> string \<Rightarrow> 'x wapi_db_scheme \<Rightarrow> bool \<times> 'x wapi_db_scheme" where
  "updateWithdrawalStatus db_now i fromStatus toStatus txHash completedAt errMsg s =
     (case exec_stmt (update_status_stmt db_now i fromStatus toStatus txHash completedAt errMsg) s of
        (None, s1) \<Rightarrow> (False, s1)
      | (Some n, s1) \<Rightarrow> (n \<noteq> 0, s1))"

definition unlockWithdrawalBalance :: "uuid \<Rightarrow> string \<Rightarrow> numeric \<Rightarrow> 'x wapi_db_scheme \<Rightarrow> 'x wapi_db_scheme" where
  "unlockWithdrawalBalance u asset amount s =
     snd (exec_stmt (update_api_balance u asset (\<lambda>b.
       (n_add (ab_available b) (n_least amount (ab_frozen b)),
        n_greatest (n_sub (ab_frozen b) amount) (Num 0)))) s)"

definition burnWithdrawalBalance :: "uuid \<Rightarrow> string \<Rightarrow> numeric \<Rightarrow> 'x wapi_db_scheme \<Rightarrow> bool \<times> 'x wapi_db_scheme" where
  "burnWithdrawalBalance u asset amount s =
     (case exec_stmt (update_api_balance u asset (\<lambda>b.
             (ab_available b, n_greatest (n_sub (ab_frozen b) amount) (Num 0)))) s of
        (r, s1) \<Rightarrow> (r \<noteq> None, s1))"

text \<open>The amount column's text read by ParseFloat is the nearest float64.\<close>

definition usdtToUnits :: "(float64 \<Rightarrow> nat) \<Rightarrow> float64 option \<Rightarrow> nat" where
  "usdtToUnits oob f = (case f of None \<Rightarrow> 0 | Some x \<Rightarrow> to_uint64 oob (fmul x (FFin 1000000)))"

text \<open>What the worker reads of a row before it processes it.\<close>

record withdrawal_item =
  wi_ID :: uuid
  wi_To :: string
  wi_Asset :: string
  wi_Amount :: numeric
  wi_UID :: uuid

definition item_of :: "withdrawal \<Rightarrow> withdrawal_item" where
  "item_of r = \<lparr>wi_ID = wr_id r, wi_To = wr_dest r, wi_Asset = wr_asset r, wi_Amount = wr_amount r, wi_UID = wr_user r\<rparr>"

definition fail_withdrawal ::
  "int \<Rightarrow> withdrawal_item \<Rightarrow> string \<Rightarrow> ('c, 'x) worker_db_scheme \<Rightarrow> ('c, 'x) worker_db_scheme" where
  "fail_withdrawal db_now it err s =
     unlockWithdrawalBalance (wi_UID it) (wi_Asset it) (wi_Amount it)
       (snd (updateWithdrawalStatus db_now (wi_ID it) ''SIGNING'' ''FAILED'' None None err s))"

definition finish_broadcast ::
  "int \<Rightarrow> withdrawal_item \<Rightarrow> string \<Rightarrow> string \<Rightarrow> (string + BroadcastResult) \<Rightarrow> ('c, 'x) worker_db_scheme \<Rightarrow> ('c, 'x) worker_db_scheme" where
  "finish_broadcast db_now it signerHash buildHash res s =
     (case res of
        Inl err \<Rightarrow>
          (let s1 = snd (updateWithdrawalStatus db_now (wi_ID it) ''BROADCASTED'' ''FAILED'' (Some signerHash) None err s)
           in snd (updateWithdrawalStatus db_now (wi_ID it) ''BROADCASTED'' ''BROADCAST_UNKNOWN'' (Some signerHash) None err s1))
      | Inr resp \<Rightarrow>
          (let txHash = (if bc_TxHash resp = [] then buildHash else bc_TxHash resp) in
           case updateWithdrawalStatus db_now (wi_ID it) ''SIGNING'' ''BROADCASTED'' (Some txHash) None [] s of
             (False, s1) \<Rightarrow> s1
           | (True, s1) \<Rightarrow> snd (burnWithdrawalBalance (wi_UID it) (wi_Asset it) (wi_Amount it) s1)))"

text \<open>A signer's answer shorter than the raw transaction makes the slice panic: \<open>None\<close>.\<close>

definition processOneWithdrawal ::
  "'c chain_ops \<Rightarrow> worker_config \<Rightarrow> (float64 \<Rightarrow> nat) \<Rightarrow> int \<Rightarrow> withdrawal_item
    \<Rightarrow> ('c, 'x) worker_db_scheme \<Rightarrow> (unit option) \<times> ('c, 'x) worker_db_scheme" where
  "processOneWithdrawal ops cfg oob db_now it s =
     (case updateWithdrawalStatus db_now (wi_ID it) ''PENDING'' ''SIGNING'' None None [] s of
        (False, s1) \<Rightarrow> (Some (), s1)
      | (True, s1) \<Rightarrow>
          (case call_chain (ch_BuildTransfer ops (wc_hotWalletAddr cfg) (wi_To it)
                  (usdtToUnits oob (Some (n_float (wi_Amount it)))) (wc_contract cfg)) s1 of
             (Inl err, s2) \<Rightarrow> (Some (), fail_withdrawal db_now it err s2)
           | (Inr build, s2) \<Rightarrow>
               (case call_chain (ch_Sign ops (br_RawTx build)) s2 of
                  (Inl err, s3) \<Rightarrow> (Some (), fail_withdrawal db_now it err s3)
                | (Inr (signedTx, txHash), s3) \<Rightarrow>
                    if length signedTx < length (br_RawTx build) then (None, s3)
                    else
                      (let sig = drop (length (br_RawTx build)) signedTx in
                       if length sig \<noteq> 65
                       then (Some (), fail_withdrawal db_now it (''bad signature length '' @ Itoa (int (length sig))) s3)
                       else if wc_dry_run cfg
                       then (Some (), snd (updateWithdrawalStatus db_now (wi_ID it) ''SIGNING'' ''SIGNED'' (Some txHash) None
                                (''dry-run sig='' @ hex_encode sig) s3))
                       else
                         (case call_chain (ch_BroadcastSigned ops (br_RawData build) sig)
                                 (s3\<lparr>sent_withdrawals := sent_withdrawals s3 @ [wi_ID it]\<rparr>) of
                            (res, s4) \<Rightarrow> (Some (), finish_broadcast db_now it txHash (br_TxHash build) res s4))))))"

text \<open>A panic ends the worker, and with it the process.\<close>

fun process_items ::
  "'c chain_ops \<Rightarrow> worker_config \<Rightarrow> (float64 \<Rightarrow> nat) \<Rightarrow> int \<Rightarrow> withdrawal_item list
    \<Rightarrow> ('c, 'x) worker_db_scheme \<Rightarrow> (unit option) \<times> ('c, 'x) worker_db_scheme" where
  "process_items ops cfg oob db_now [] s = (Some (), s)"
| "process_items ops cfg oob db_now (it # its) s =
     (case processOneWithdrawal ops cfg oob db_now it s of
        (None, s1) \<Rightarrow> (None, s1)
      | (Some _, s1) \<Rightarrow> process_items ops cfg oob db_now its s1)"

definition maxPerTick :: nat where
  "maxPerTick = 5"

definition pending_items :: "'x wapi_db_scheme \<Rightarrow> withdrawal_item list" where
  "pending_items s =
     map item_of (take maxPerTick (sort_key wr_created_at (filter (\<lambda>r. wr_status r = ''PENDING'') (withdrawals s))))"

definition processPendingWithdrawals ::
  "'c chain_ops \<Rightarrow> worker_config \<Rightarrow> (float64 \<Rightarrow> nat) \<Rightarrow> int \<Rightarrow> ('c, 'x) worker_db_scheme \<Rightarrow> (unit option) \<times> ('c, 'x) worker_db_scheme" where
  "processPendingWithdrawals ops cfg oob db_now s =
     (case query pending_items s of
        (None, s1) \<Rightarrow> (Some (), s1)
      | (Some its, s1) \<Rightarrow> process_items ops cfg oob db_now its s1)"

subsection \<open>Confirmations\<close>

definition unknownThresholdTicks :: int where
  "unknownThresholdTicks = 12"

definition unknown_prefix :: string where
  "unknown_prefix = ''unknown_ticks=''"

definition wrap_int64 :: "int \<Rightarrow> int" where
  "wrap_int64 n = (n + 2 ^ 63) mod 2 ^ 64 - 2 ^ 63"

fun tick_digits :: "int \<Rightarrow> string \<Rightarrow> int" where
  "tick_digits n [] = n"
| "tick_digits n (c # cs) =
     (case digit_of c of None \<Rightarrow> 0 | Some d \<Rightarrow> tick_digits (wrap_int64 (wrap_int64 (n * 10) + d)) cs)"

definition countUnknownTicks :: "string \<Rightarrow> int" where
  "countUnknownTicks s =
     (case LastIndex s unknown_prefix of
        None \<Rightarrow> 0
      | Some idx \<Rightarrow>
          (let tail = drop (idx + length unknown_prefix) s
           in tick_digits 0 (case IndexByte tail CHR '','' of None \<Rightarrow> tail | Some k \<Rightarrow> take k tail)))"

text \<open>SQL's LIKE with the pattern between two percent signs, in which an underscore is any character.\<close>

fun like_prefix :: "string \<Rightarrow> string \<Rightarrow> bool" where
  "like_prefix s [] = True"
| "like_prefix [] (p # ps) = False"
| "like_prefix (c # cs) (p # ps) = ((p = CHR ''_'' \<or> c = p) \<and> like_prefix cs ps)"

fun like_contains :: "string \<Rightarrow> string \<Rightarrow> bool" where
  "like_contains [] p = like_prefix [] p"
| "like_contains (c # cs) p = (like_prefix (c # cs) p \<or> like_contains cs p)"

definition bump_text :: "string option \<Rightarrow> string" where
  "bump_text m =
     (let old = (case m of None \<Rightarrow> [] | Some t \<Rightarrow> t)
      in old @ (if m \<noteq> None \<and> like_contains old unknown_prefix then [] else unknown_prefix) @ ''1,'')"

definition in_flight :: "uuid \<Rightarrow> withdrawal \<Rightarrow> bool" where
  "in_flight i r \<longleftrightarrow> wr_id r = i \<and> wr_status r \<in> {''BROADCASTED'', ''IN_BLOCK''}"

definition bumpUnknownTick :: "uuid \<Rightarrow> 'x wapi_db_scheme \<Rightarrow> bool \<times> 'x wapi_db_scheme" where
  "bumpUnknownTick i s =
     (case exec_stmt (update_withdrawals (in_flight i) (\<lambda>r. r\<lparr>wr_error_msg := Some (bump_text (wr_error_msg r))\<rparr>)) s of
        (None, s1) \<Rightarrow> (False, s1)
      | (Some _, s1) \<Rightarrow>
          (case query (find_withdrawal i) s1 of
             (Some (Some r), s2) \<Rightarrow>
               if countUnknownTicks (case wr_error_msg r of None \<Rightarrow> [] | Some t \<Rightarrow> t) < unknownThresholdTicks
               then (True, s2)
               else (case exec_stmt (update_withdrawals (in_flight i) (\<lambda>r. r\<lparr>wr_status := ''BROADCAST_UNKNOWN''\<rparr>)) s2 of
                       (r, s3) \<Rightarrow> (r \<noteq> None, s3))
           | (_, s2) \<Rightarrow> (False, s2)))"

text \<open>To COMPLETED or FAILED from IN_BLOCK, or from BROADCASTED when that did not work.\<close>

definition finalize_withdrawal ::
  "int \<Rightarrow> uuid \<Rightarrow> string \<Rightarrow> string \<Rightarrow> ('c, 'x) worker_db_scheme \<Rightarrow> ('c, 'x) worker_db_scheme" where
  "finalize_withdrawal db_now i toStatus msg s =
     (case updateWithdrawalStatus db_now i ''IN_BLOCK'' toStatus None None msg s of
        (True, s1) \<Rightarrow> s1
      | (False, s1) \<Rightarrow> snd (updateWithdrawalStatus db_now i ''BROADCASTED'' toStatus None None msg s1))"

definition reverted_msg :: string where
  "reverted_msg = ''contract reverted on chain; frozen balance burned, manual credit required''"

definition set_block_number :: "uuid \<Rightarrow> nat \<Rightarrow> 'x wapi_db_scheme \<Rightarrow> nat option \<times> 'x wapi_db_scheme" where
  "set_block_number i n =
     exec_stmt (update_withdrawals (\<lambda>r. wr_id r = i \<and> wr_block_number r \<noteq> Some n) (\<lambda>r. r\<lparr>wr_block_number := Some n\<rparr>))"

definition confirmOneWithdrawal ::
  "'c chain_ops \<Rightarrow> int \<Rightarrow> nat \<Rightarrow> uuid \<times> string \<Rightarrow> ('c, 'x) worker_db_scheme \<Rightarrow> ('c, 'x) worker_db_scheme" where
  "confirmOneWithdrawal ops db_now solidifiedHeight it s =
     (case call_chain (ch_GetTransaction ops (snd it)) s of
        (Inl err, s1) \<Rightarrow> s1
      | (Inr tx, s1) \<Rightarrow>
          if tx_BlockNumber tx = 0 \<and> tx_Status tx = TxStatusPending then snd (bumpUnknownTick (fst it) s1)
          else if solidifiedHeight < tx_BlockNumber tx
          then snd (set_block_number (fst it) (tx_BlockNumber tx)
                 (snd (updateWithdrawalStatus db_now (fst it) ''BROADCASTED'' ''IN_BLOCK'' None None [] s1)))
          else if tx_Status tx = TxStatusSuccess then finalize_withdrawal db_now (fst it) ''COMPLETED'' [] s1
          else if tx_Status tx = TxStatusFailed then finalize_withdrawal db_now (fst it) ''FAILED'' reverted_msg s1
          else s1)"

definition confirm_items :: "'x wapi_db_scheme \<Rightarrow> (uuid \<times> string) list" where
  "confirm_items s =
     map (\<lambda>r. (wr_id r, the (wr_tx_hash r))) (take 50 (sort_key wr_created_at
       (filter (\<lambda>r. wr_status r \<in> {''BROADCASTED'', ''IN_BLOCK''} \<and> wr_tx_hash r \<noteq> None) (withdrawals s))))"

definition processPendingConfirmations ::
  "'c chain_ops \<Rightarrow> int \<Rightarrow> ('c, 'x) worker_db_scheme \<Rightarrow> ('c, 'x) worker_db_scheme" where
  "processPendingConfirmations ops db_now s =
     (case call_chain (ch_GetSolidifiedBlock ops) s of
        (Inl err, s1) \<Rightarrow> s1
      | (Inr height, s1) \<Rightarrow>
          (case query confirm_items s1 of
             (None, s2) \<Rightarrow> s2
           | (Some its, s2) \<Rightarrow> fold (confirmOneWithdrawal ops db_now height) its s2))"

end
