(* ===== verification/WalletApi_Correct.thy ===== *)
theory WalletApi_Correct
  imports Withdraw_Worker
begin

text \<open>
  Correctness of the wallet daemon: what a request and a worker run can do to the rows and the
  balances, under every script of database faults, every chain and every signer.
\<close>

subsection \<open>The status machine\<close>

inductive status_move :: "string \<Rightarrow> string \<Rightarrow> bool" where
  confirmed: "status_move ''RISK_CHECK'' ''PENDING''"
| approved: "status_move ''MANUAL_REVIEW'' ''PENDING''"
| rejected: "status_move ''MANUAL_REVIEW'' ''REJECTED''"
| signing: "status_move ''PENDING'' ''SIGNING''"
| failed: "status_move ''SIGNING'' ''FAILED''"
| dry_run: "status_move ''SIGNING'' ''SIGNED''"
| broadcasted: "status_move ''SIGNING'' ''BROADCASTED''"
| included: "status_move ''BROADCASTED'' ''IN_BLOCK''"
| completed: "x \<in> {''BROADCASTED'', ''IN_BLOCK''} \<Longrightarrow> status_move x ''COMPLETED''"
| reverted: "x \<in> {''BROADCASTED'', ''IN_BLOCK''} \<Longrightarrow> status_move x ''FAILED''"
| lost_track: "x \<in> {''BROADCASTED'', ''IN_BLOCK''} \<Longrightarrow> status_move x ''BROADCAST_UNKNOWN''"

text \<open>The statuses a withdrawal can still be sent from.\<close>

definition unsent :: "string \<Rightarrow> bool" where
  "unsent x \<longleftrightarrow> x \<in> {''PENDING'', ''RISK_CHECK'', ''MANUAL_REVIEW''}"

definition final_status :: "string \<Rightarrow> bool" where
  "final_status x \<longleftrightarrow> x \<in> {''COMPLETED'', ''FAILED'', ''REJECTED'', ''SIGNED'', ''BROADCAST_UNKNOWN'', ''CANCELLED''}"

lemma moves_sent: "status_move\<^sup>*\<^sup>* x y \<Longrightarrow> \<not> unsent x \<Longrightarrow> \<not> unsent y"
  by (induction rule: rtranclp_induct) (auto elim!: status_move.cases simp: unsent_def)

lemma moves_closed: "status_move\<^sup>*\<^sup>* x y \<Longrightarrow> final_status x \<Longrightarrow> y = x"
  by (induction rule: converse_rtranclp_induct) (auto elim!: status_move.cases simp: final_status_def)

text \<open>What no operation changes of a row, and where its status can have gone.\<close>

definition same_order :: "withdrawal \<Rightarrow> withdrawal \<Rightarrow> bool" where
  "same_order r r' \<longleftrightarrow>
     wr_id r' = wr_id r \<and> wr_user r' = wr_user r \<and> wr_chain r' = wr_chain r \<and> wr_asset r' = wr_asset r \<and>
     wr_amount r' = wr_amount r \<and> wr_dest r' = wr_dest r \<and> wr_fee r' = wr_fee r \<and>
     wr_receive r' = wr_receive r \<and> wr_risk_score r' = wr_risk_score r \<and> wr_created_at r' = wr_created_at r"

definition row_moves :: "withdrawal \<Rightarrow> withdrawal \<Rightarrow> bool" where
  "row_moves r r' \<longleftrightarrow> same_order r r' \<and> status_move\<^sup>*\<^sup>* (wr_status r) (wr_status r')"

definition rows_move :: "'x wapi_db_scheme \<Rightarrow> 'x wapi_db_scheme \<Rightarrow> bool" where
  "rows_move s s' \<longleftrightarrow>
     (\<forall>r \<in> set (withdrawals s). \<exists>r' \<in> set (withdrawals s'). row_moves r r') \<and>
     (distinct (map wr_id (withdrawals s)) \<longrightarrow> distinct (map wr_id (withdrawals s')))"

lemma row_moves_refl [simp]: "row_moves r r"
  by (simp add: row_moves_def same_order_def)

lemma row_moves_trans: "row_moves x y \<Longrightarrow> row_moves y z \<Longrightarrow> row_moves x z"
  by (auto simp: row_moves_def same_order_def)

lemma rows_move_same: "withdrawals s' = withdrawals s \<Longrightarrow> rows_move s s'"
  unfolding rows_move_def by (metis row_moves_refl)

lemma rows_move_trans: "rows_move s t \<Longrightarrow> rows_move t u \<Longrightarrow> rows_move s u"
  unfolding rows_move_def by (meson row_moves_trans)

lemma rows_move_map:
  assumes "\<And>r. row_moves r (g r)" and "withdrawals s' = map g (withdrawals s)"
  shows "rows_move s s'"
proof -
  have "map wr_id (map g (withdrawals s)) = map wr_id (withdrawals s)"
    using assms(1) by (simp add: row_moves_def same_order_def)
  then show ?thesis unfolding rows_move_def assms(2) using assms(1) by (metis imageI image_set)
qed

lemma wd_check_SomeD: "wd_check r = Some r' \<Longrightarrow> r' = r"
  by (simp add: wd_check_def split: if_splits)

lemma update_withdrawals_SomeD:
  assumes "update_withdrawals P f s = Some (n, s')"
  shows "s' = s\<lparr>withdrawals := map (\<lambda>r. if P r then f r else r) (withdrawals s)\<rparr> \<and>
    n = length (filter P (withdrawals s))"
proof -
  obtain ws where ws: "tbl_update P (\<lambda>r. wd_check (f r)) (withdrawals s) = Some (n, ws)" and s': "s' = s\<lparr>withdrawals := ws\<rparr>"
    using assms(1) by (auto simp: update_withdrawals_def)
  note d = tbl_update_SomeD [OF ws]
  have "ws = map (\<lambda>r. if P r then the (wd_check (f r)) else r) (withdrawals s)" using d by blast
  also have "\<dots> = map (\<lambda>r. if P r then f r else r) (withdrawals s)"
  proof (rule map_cong [OF refl])
    fix r assume "r \<in> set (withdrawals s)"
    then have "P r \<longrightarrow> (\<exists>y. wd_check (f r) = Some y)" using d by blast
    then show "(if P r then the (wd_check (f r)) else r) = (if P r then f r else r)"
      using wd_check_SomeD [of "f r"] by auto
  qed
  finally show ?thesis using d s' by simp
qed

lemma update_withdrawals_moves:
  assumes "update_withdrawals P f s = Some (n, s')"
    and "\<And>r. P r \<Longrightarrow> row_moves r (f r)"
  shows "rows_move s s'"
  by (rule rows_move_map [where g = "\<lambda>r. if P r then f r else r"])
    (use assms(2) update_withdrawals_SomeD [OF assms(1)] in simp_all)

lemma exec_moves:
  assumes "exec_stmt f s = (r, s')"
    and "\<And>t n t'. f t = Some (n, t') \<Longrightarrow> rows_move t t'"
  shows "rows_move s s'"
proof -
  obtain fs where "s' = s\<lparr>faults := fs\<rparr> \<or> (\<exists>n. f (s\<lparr>faults := fs\<rparr>) = Some (n, s'))"
    using exec_stmt_casesD [OF assms(1)] by blast
  moreover have "rows_move s s'" if "f (s\<lparr>faults := fs\<rparr>) = Some (n, s')" for n
    using assms(2) [OF that] by (simp add: rows_move_def)
  ultimately show ?thesis using rows_move_same [of s' s] by auto
qed

lemma query_moves: "query f s = (r, s') \<Longrightarrow> rows_move s s'"
  by (drule query_casesD) (auto intro: rows_move_same)

lemma update_api_balance_moves: "update_api_balance u a f s = Some (n, s') \<Longrightarrow> rows_move s s'"
  by (rule rows_move_same) (auto simp: update_api_balance_def split: option.splits prod.splits)

text \<open>The worker's status change.\<close>

lemma set_status_simps [simp]:
  "wr_id (set_status now y h c m r) = wr_id r" "wr_status (set_status now y h c m r) = y"
  by (simp_all add: set_status_def)

lemma set_status_same: "same_order r (set_status now y h c m r)"
  by (simp add: same_order_def set_status_def)

lemma updateWithdrawalStatus_moves:
  assumes "updateWithdrawalStatus now i x y h c m s = (b, s')" and "status_move x y"
  shows "rows_move s s'"
proof -
  obtain r where "exec_stmt (update_status_stmt now i x y h c m) s = (r, s')"
    using assms(1) by (auto simp: updateWithdrawalStatus_def split: prod.splits option.splits)
  then show ?thesis
    by (rule exec_moves)
      (use assms(2) in \<open>auto simp: update_status_stmt_def split: if_splits elim!: update_withdrawals_moves
        simp: is_status_def row_moves_def set_status_same\<close>)
qed

lemma call_chain_moves: "call_chain f s = (r, s') \<Longrightarrow> rows_move s s'"
  by (rule rows_move_same) (auto simp: call_chain_def split: prod.splits)

subsection \<open>What the workers keep\<close>

text \<open>
  A relation between states that holds over every statement the workers send holds over their
  operations. The bytes of a row are only handed to the chain after its row went from PENDING to
  SIGNING; in between the withdrawals do not change.
\<close>

locale worker_relation =
  fixes R :: "('c, 'x) worker_db_scheme \<Rightarrow> ('c, 'x) worker_db_scheme \<Rightarrow> bool"
  assumes refl: "R s s"
    and trans: "R s t \<Longrightarrow> R t u \<Longrightarrow> R s u"
    and upd: "updateWithdrawalStatus now i x y h c m s = (b, s') \<Longrightarrow> status_move x y \<Longrightarrow> R s s'"
    and chain_step: "R s (s\<lparr>chain_state := chain'\<rparr>)"
    and bal: "exec_stmt (update_api_balance uid asset g) s = (k, s') \<Longrightarrow> R s s'"
    and read_step: "R s (s\<lparr>faults := fs\<rparr>)"
    and msg: "exec_stmt (update_withdrawals P (\<lambda>r. r\<lparr>wr_error_msg := e r\<rparr>)) s = (k, s') \<Longrightarrow> R s s'"
    and block: "exec_stmt (update_withdrawals P (\<lambda>r. r\<lparr>wr_block_number := n\<rparr>)) s = (k, s') \<Longrightarrow> R s s'"
    and unknown: "exec_stmt (update_withdrawals (in_flight i) (\<lambda>r. r\<lparr>wr_status := ''BROADCAST_UNKNOWN''\<rparr>)) s = (k, s') \<Longrightarrow> R s s'"
    and send: "updateWithdrawalStatus now i ''PENDING'' ''SIGNING'' None None [] s = (True, s1) \<Longrightarrow>
      withdrawals s2 = withdrawals s1 \<Longrightarrow> sent_withdrawals s2 = sent_withdrawals s1 \<Longrightarrow> R s s2 \<Longrightarrow>
      R s (s2\<lparr>sent_withdrawals := sent_withdrawals s2 @ [i]\<rparr>)"
begin

lemma chain: "call_chain f s = (r, s') \<Longrightarrow> R s s'"
  using chain_step by (auto simp: call_chain_def split: prod.splits)

lemma read: "query q s = (v, s') \<Longrightarrow> R s s'"
  using read_step query_casesD by fastforce

lemma unlock_R: "R s (unlockWithdrawalBalance u a x s)"
  unfolding unlockWithdrawalBalance_def by (rule bal [OF prod.collapse [symmetric]])

lemma burn_R: "R s (snd (burnWithdrawalBalance u a x s))"
  unfolding burnWithdrawalBalance_def by (auto split: prod.splits intro: bal)

lemma upd_R: "status_move x y \<Longrightarrow> R s (snd (updateWithdrawalStatus now i x y h c m s))"
  by (rule upd [where b = "fst (updateWithdrawalStatus now i x y h c m s)"]) simp

lemma fail_R: "R s (fail_withdrawal now it err s)"
  unfolding fail_withdrawal_def by (rule trans [OF upd_R unlock_R]) (rule failed)

lemma finish_R: "R s (finish_broadcast now it h bh res s)"
proof (cases res)
  case (Inl err)
  then show ?thesis
    unfolding finish_broadcast_def Let_def
    by simp (rule trans [OF upd_R upd_R], auto intro: reverted lost_track)
next
  case (Inr resp)
  obtain b s1 where 1: "updateWithdrawalStatus now (wi_ID it) ''SIGNING'' ''BROADCASTED''
      (Some (if bc_TxHash resp = [] then bh else bc_TxHash resp)) None [] s = (b, s1)" by force
  then have "R s s1" by (rule upd) (rule broadcasted)
  then show ?thesis using Inr 1 trans [OF _ burn_R] by (simp add: finish_broadcast_def Let_def split: bool.split)
qed

lemma broadcast_R:
  assumes "updateWithdrawalStatus now (wi_ID it) ''PENDING'' ''SIGNING'' None None [] s = (True, s1)"
    and "withdrawals s3 = withdrawals s1" and "sent_withdrawals s3 = sent_withdrawals s1" and "R s s3"
    and "call_chain f (s3\<lparr>sent_withdrawals := sent_withdrawals s3 @ [wi_ID it]\<rparr>) = (res, s4)"
  shows "R s (finish_broadcast now it h bh res s4)"
  using trans [OF trans [OF send [OF assms(1-4)] chain [OF assms(5)]] finish_R] .

lemma call_chain_frame:
  "call_chain f s = (r, s') \<Longrightarrow> withdrawals s' = withdrawals s \<and> sent_withdrawals s' = sent_withdrawals s"
  by (auto simp: call_chain_def split: prod.splits)

lemma processOne_R:
  assumes "processOneWithdrawal ops cfg oob now it s = (r, s')"
  shows "R s s'"
proof -
  obtain b s1 where 1: "updateWithdrawalStatus now (wi_ID it) ''PENDING'' ''SIGNING'' None None [] s = (b, s1)" by force
  have m1: "R s s1" using 1 signing by (rule upd)
  show ?thesis
  proof (cases b)
    case False
    then show ?thesis using assms 1 m1 by (simp add: processOneWithdrawal_def)
  next
    case True
    obtain bres s2 where 2: "call_chain (ch_BuildTransfer ops (wc_hotWalletAddr cfg) (wi_To it)
        (usdtToUnits oob (Some (n_float (wi_Amount it)))) (wc_contract cfg)) s1 = (bres, s2)" by force
    note m2 = trans [OF m1 chain [OF 2]]
    show ?thesis
    proof (cases bres)
      case (Inl err)
      then show ?thesis using assms 1 2 True trans [OF m2 fail_R] by (auto simp: processOneWithdrawal_def)
    next
      case (Inr build)
      obtain sres s3 where 3: "call_chain (ch_Sign ops (br_RawTx build)) s2 = (sres, s3)" by force
      note m3 = trans [OF m2 chain [OF 3]]
      have fr: "withdrawals s3 = withdrawals s1" "sent_withdrawals s3 = sent_withdrawals s1"
        using call_chain_frame [OF 2] call_chain_frame [OF 3] by simp_all
      have 1: "updateWithdrawalStatus now (wi_ID it) ''PENDING'' ''SIGNING'' None None [] s = (True, s1)"
        using 1 True by simp
      note start = assms(1) [unfolded processOneWithdrawal_def 1, simplified]
      show ?thesis
      proof (cases sres)
        case (Inl err)
        then show ?thesis using start 2 3 Inr trans [OF m3 fail_R] by auto
      next
        case sr: (Inr p)
        obtain signedTx txHash where p: "p = (signedTx, txHash)" by force
        let ?sig = "drop (length (br_RawTx build)) signedTx"
        let ?t = "s3\<lparr>sent_withdrawals := sent_withdrawals s3 @ [wi_ID it]\<rparr>"
        obtain res s4 where 4: "call_chain (ch_BroadcastSigned ops (br_RawData build) ?sig) ?t = (res, s4)" by force
        have m4: "R s (finish_broadcast now it txHash (br_TxHash build) res s4)"
          by (rule broadcast_R [OF 1 fr m3 4])
        have m5: "R s (snd (updateWithdrawalStatus now (wi_ID it) ''SIGNING'' ''SIGNED'' (Some txHash) None
            (''dry-run sig='' @ hex_encode ?sig) s3))"
          by (rule trans [OF m3 upd_R]) (rule dry_run)
        show ?thesis
          using start 2 3 4 Inr sr p m3 trans [OF m3 fail_R] m4 m5
          by (simp add: Let_def split: if_splits prod.splits) blast
      qed
    qed
  qed
qed

lemma process_items_R: "process_items ops cfg oob now its s = (r, s') \<Longrightarrow> R s s'"
proof (induction its arbitrary: s)
  case Nil
  then show ?case by (simp add: refl)
next
  case (Cons it its)
  obtain r1 s1 where 1: "processOneWithdrawal ops cfg oob now it s = (r1, s1)" by force
  show ?case
    using Cons.prems 1 processOne_R [OF 1] trans Cons.IH by (auto split: option.splits)
qed

lemma processPending_R: "processPendingWithdrawals ops cfg oob now s = (r, s') \<Longrightarrow> R s s'"
  by (auto simp: processPendingWithdrawals_def split: prod.splits option.splits
      intro: read trans [OF read process_items_R])

lemma bump_R: "R s (snd (bumpUnknownTick i s))"
proof -
  let ?f = "update_withdrawals (in_flight i) (\<lambda>r. r\<lparr>wr_error_msg := Some (bump_text (wr_error_msg r))\<rparr>)"
  obtain k s1 where 1: "exec_stmt ?f s = (k, s1)" by force
  obtain v s2 where 2: "query (find_withdrawal i) s1 = (v, s2)" by force
  obtain l s3 where 3: "exec_stmt (update_withdrawals (in_flight i) (\<lambda>r. r\<lparr>wr_status := ''BROADCAST_UNKNOWN''\<rparr>)) s2 = (l, s3)" by force
  have m: "R s s1" "R s s2" "R s s3"
    using msg [OF 1] read [OF 2] unknown [OF 3] trans by blast+
  then show ?thesis using 1 2 3
    by (auto simp: bumpUnknownTick_def split: option.splits if_splits)
qed

lemma finalize_R:
  assumes "status_move ''IN_BLOCK'' y" and "status_move ''BROADCASTED'' y"
  shows "R s (finalize_withdrawal now i y m s)"
proof -
  obtain b s1 where 1: "updateWithdrawalStatus now i ''IN_BLOCK'' y None None m s = (b, s1)" by force
  note m1 = upd [OF 1 assms(1)]
  show ?thesis using 1 m1 trans [OF m1 upd_R [OF assms(2)]]
    by (simp add: finalize_withdrawal_def split: bool.split)
qed

lemma confirmOne_R: "R s (confirmOneWithdrawal ops now h it s)"
proof -
  obtain r s1 where 1: "call_chain (ch_GetTransaction ops (snd it)) s = (r, s1)" by force
  note m1 = chain [OF 1]
  obtain b s2 where 2: "updateWithdrawalStatus now (fst it) ''BROADCASTED'' ''IN_BLOCK'' None None [] s1 = (b, s2)" by force
  note m2 = trans [OF m1 upd [OF 2 included]]
  have m3: "R s (snd (set_block_number (fst it) n s2))" for n
    unfolding set_block_number_def by (rule trans [OF m2 block]) (rule prod.collapse [symmetric])
  have m4: "R s (finalize_withdrawal now (fst it) ''COMPLETED'' [] s1)" "R s (finalize_withdrawal now (fst it) ''FAILED'' reverted_msg s1)"
    by (rule trans [OF m1 finalize_R]; simp add: completed reverted)+
  show ?thesis
    using 1 2 m1 m3 m4 trans [OF m1 bump_R]
    by (auto simp: confirmOneWithdrawal_def split: sum.splits)
qed

lemma processConfirmations_R: "R s (processPendingConfirmations ops now s)"
proof -
  have f: "R t (fold (confirmOneWithdrawal ops now h) its t)" for t h its
    by (induction its arbitrary: t) (auto simp: refl intro: trans [OF confirmOne_R])
  obtain r s1 where 1: "call_chain (ch_GetSolidifiedBlock ops) s = (r, s1)" by force
  obtain v s2 where 2: "query confirm_items s1 = (v, s2)" by force
  note m1 = chain [OF 1]
  note m2 = trans [OF m1 read [OF 2]]
  show ?thesis using 1 2 m1 m2 trans [OF m2 f]
    by (simp add: processPendingConfirmations_def split: sum.splits option.splits)
qed

end

lemma note_moves:
  "exec_stmt (update_withdrawals P (\<lambda>r. r\<lparr>wr_error_msg := e r\<rparr>)) s = (k, s') \<Longrightarrow> rows_move s s'"
  "exec_stmt (update_withdrawals P (\<lambda>r. r\<lparr>wr_block_number := n\<rparr>)) s = (k, s') \<Longrightarrow> rows_move s s'"
  by (erule exec_moves, erule update_withdrawals_moves, simp add: row_moves_def same_order_def)+

lemma unknown_moves:
  "exec_stmt (update_withdrawals (in_flight i) (\<lambda>r. r\<lparr>wr_status := ''BROADCAST_UNKNOWN''\<rparr>)) s = (k, s') \<Longrightarrow> rows_move s s'"
  by (erule exec_moves, erule update_withdrawals_moves)
    (auto simp: row_moves_def same_order_def in_flight_def intro: lost_track)

interpretation rm: worker_relation rows_move
proof unfold_locales
  show "rows_move s u" if "rows_move s t" "rows_move t u" for s t u :: "('a, 'b) worker_db_scheme"
    using rows_move_trans that .
  show "rows_move s (s2\<lparr>sent_withdrawals := sent_withdrawals s2 @ [i]\<rparr>)" if "rows_move s s2"
    for s s2 :: "('a, 'b) worker_db_scheme" and i
    using that by (simp add: rows_move_def)
qed (auto intro: rows_move_same updateWithdrawalStatus_moves call_chain_moves query_moves note_moves unknown_moves
    exec_moves update_api_balance_moves rows_move_trans)


subsection \<open>What has been sent\<close>

definition sent_inv :: "('c, 'x) worker_db_scheme \<Rightarrow> bool" where
  "sent_inv s \<longleftrightarrow>
     distinct (sent_withdrawals s) \<and> distinct (map wr_id (withdrawals s)) \<and>
     (\<forall>i \<in> set (sent_withdrawals s). \<exists>r \<in> set (withdrawals s). wr_id r = i \<and> \<not> unsent (wr_status r))"

definition keeps_sent :: "('c, 'x) worker_db_scheme \<Rightarrow> ('c, 'x) worker_db_scheme \<Rightarrow> bool" where
  "keeps_sent s s' \<longleftrightarrow> (sent_inv s \<longrightarrow> sent_inv s')"

lemma keeps_sent_frame:
  "rows_move s s' \<Longrightarrow> sent_withdrawals s' = sent_withdrawals s \<Longrightarrow> keeps_sent s s'"
  unfolding keeps_sent_def sent_inv_def rows_move_def row_moves_def same_order_def
  by (metis moves_sent)

lemma update_withdrawals_sent:
  "update_withdrawals P f s = Some (n, s') \<Longrightarrow> sent_withdrawals s' = sent_withdrawals s"
  by (drule update_withdrawals_SomeD) simp

lemma update_api_balance_sent:
  "update_api_balance u a f s = Some (n, s') \<Longrightarrow> sent_withdrawals s' = sent_withdrawals s"
  by (auto simp: update_api_balance_def split: option.splits prod.splits)

lemma exec_sent:
  assumes "exec_stmt f s = (r, s')"
    and "\<And>t n t'. f t = Some (n, t') \<Longrightarrow> sent_withdrawals t' = sent_withdrawals t"
  shows "sent_withdrawals s' = sent_withdrawals s"
proof -
  obtain fs where "s' = s\<lparr>faults := fs\<rparr> \<or> (\<exists>n. f (s\<lparr>faults := fs\<rparr>) = Some (n, s'))"
    using exec_stmt_casesD [OF assms(1)] by blast
  then show ?thesis using assms(2) by fastforce
qed

text \<open>What a status change that reports success has done.\<close>

lemma updateWithdrawalStatus_cases:
  assumes "updateWithdrawalStatus now i x y h c m s = (b, s')"
  shows "\<exists>fs. (\<not> b \<and> s' = s\<lparr>faults := fs\<rparr>) \<or>
    (''completed_at'' \<in> set (withdrawal_columns s) \<and>
     s' = s\<lparr>faults := fs, withdrawals := map (\<lambda>r. if is_status i x r then set_status now y h c m r else r) (withdrawals s)\<rparr> \<and>
     (b \<longrightarrow> (\<exists>r \<in> set (withdrawals s). is_status i x r)))"
proof -
  let ?f = "update_status_stmt now i x y h c m" and ?g = "set_status now y h c m"
  obtain k where e: "exec_stmt ?f s = (k, s')" and k: "b = (case k of None \<Rightarrow> False | Some n \<Rightarrow> n \<noteq> 0)"
    using assms by (auto simp: updateWithdrawalStatus_def split: prod.splits option.splits)
  obtain fs where fs: "k = None \<and> s' = s\<lparr>faults := fs\<rparr> \<or>
      (\<exists>n. ?f (s\<lparr>faults := fs\<rparr>) = Some (n, s') \<and> (k = Some n \<or> k = None))"
    using exec_stmt_casesD [OF e] by blast
  have "''completed_at'' \<in> set (withdrawal_columns s) \<and>
      s' = s\<lparr>faults := fs, withdrawals := map (\<lambda>r. if is_status i x r then ?g r else r) (withdrawals s)\<rparr> \<and>
      (b \<longrightarrow> (\<exists>r \<in> set (withdrawals s). is_status i x r))"
    if "?f (s\<lparr>faults := fs\<rparr>) = Some (n, s')" "k = Some n \<or> k = None" for n
  proof -
    have u: "''completed_at'' \<in> set (withdrawal_columns s)"
      "update_withdrawals (is_status i x) ?g (s\<lparr>faults := fs\<rparr>) = Some (n, s')"
      using that(1) by (simp_all add: update_status_stmt_def split: if_splits)
    note d = update_withdrawals_SomeD [OF u(2)]
    have "n \<noteq> 0 \<longrightarrow> (\<exists>r \<in> set (withdrawals s). is_status i x r)"
      using d by (auto simp: filter_empty_conv)
    then show ?thesis using u(1) d that(2) k by auto
  qed
  then show ?thesis using fs k by (intro exI [of _ fs]) auto
qed

lemma updateWithdrawalStatus_sent:
  "updateWithdrawalStatus now i x y h c m s = (b, s') \<Longrightarrow> sent_withdrawals s' = sent_withdrawals s"
  by (drule updateWithdrawalStatus_cases) auto

lemma send_once:
  assumes "updateWithdrawalStatus now i ''PENDING'' ''SIGNING'' None None [] s = (True, s1)"
    and "withdrawals s2 = withdrawals s1" and "sent_withdrawals s2 = sent_withdrawals s1"
  shows "keeps_sent s (s2\<lparr>sent_withdrawals := sent_withdrawals s2 @ [i]\<rparr>)"
  unfolding keeps_sent_def
proof
  assume inv: "sent_inv s"
  have m: "rows_move s s1" using assms(1) signing by (rule updateWithdrawalStatus_moves)
  have k: "keeps_sent s s1" using m updateWithdrawalStatus_sent [OF assms(1)] by (rule keeps_sent_frame)
  obtain r where r: "r \<in> set (withdrawals s)" "wr_id r = i" "wr_status r = ''PENDING''"
    using updateWithdrawalStatus_cases [OF assms(1)] by (auto simp: is_status_def)
  have "i \<notin> set (sent_withdrawals s)"
  proof
    assume "i \<in> set (sent_withdrawals s)"
    then obtain q where q: "q \<in> set (withdrawals s)" "wr_id q = i" "\<not> unsent (wr_status q)"
      using inv by (auto simp: sent_inv_def)
    have "q = r" using inv q r by (metis sent_inv_def distinct_map inj_on_def)
    then show False using q r by (simp add: unsent_def)
  qed
  moreover have "\<exists>q \<in> set (withdrawals s1). wr_id q = i \<and> \<not> unsent (wr_status q)"
    using updateWithdrawalStatus_cases [OF assms(1)] r
    by (intro bexI [of _ "set_status now ''SIGNING'' None None [] r"]) (auto simp: is_status_def unsent_def image_iff)
  ultimately show "sent_inv (s2\<lparr>sent_withdrawals := sent_withdrawals s2 @ [i]\<rparr>)"
    using k inv assms(2,3) updateWithdrawalStatus_sent [OF assms(1)]
    by (auto simp: keeps_sent_def sent_inv_def)
qed

interpretation ks: worker_relation keeps_sent
proof unfold_locales
  fix s s' :: "('a, 'b) worker_db_scheme" and now i x y h c m b
  show "updateWithdrawalStatus now i x y h c m s = (b, s') \<Longrightarrow> status_move x y \<Longrightarrow> keeps_sent s s'"
    by (rule keeps_sent_frame) (auto intro: updateWithdrawalStatus_moves updateWithdrawalStatus_sent)
next
  fix s s' :: "('a, 'b) worker_db_scheme" and u a g k
  show "exec_stmt (update_api_balance u a g) s = (k, s') \<Longrightarrow> keeps_sent s s'"
    by (rule keeps_sent_frame) (auto intro: exec_moves exec_sent update_api_balance_moves update_api_balance_sent)
next
  fix s s' :: "('a, 'b) worker_db_scheme" and P e k
  show "exec_stmt (update_withdrawals P (\<lambda>r. r\<lparr>wr_error_msg := e r\<rparr>)) s = (k, s') \<Longrightarrow> keeps_sent s s'"
    by (rule keeps_sent_frame) (auto intro: note_moves exec_sent update_withdrawals_sent)
next
  fix s s' :: "('a, 'b) worker_db_scheme" and P n k
  show "exec_stmt (update_withdrawals P (\<lambda>r. r\<lparr>wr_block_number := n\<rparr>)) s = (k, s') \<Longrightarrow> keeps_sent s s'"
    by (rule keeps_sent_frame) (auto intro: note_moves exec_sent update_withdrawals_sent)
next
  fix s s' :: "('a, 'b) worker_db_scheme" and i k
  show "exec_stmt (update_withdrawals (in_flight i) (\<lambda>r. r\<lparr>wr_status := ''BROADCAST_UNKNOWN''\<rparr>)) s = (k, s') \<Longrightarrow> keeps_sent s s'"
    by (rule keeps_sent_frame) (auto intro: unknown_moves exec_sent update_withdrawals_sent)
next
  fix s s1 s2 :: "('a, 'b) worker_db_scheme" and now i
  show "updateWithdrawalStatus now i ''PENDING'' ''SIGNING'' None None [] s = (True, s1) \<Longrightarrow>
      withdrawals s2 = withdrawals s1 \<Longrightarrow> sent_withdrawals s2 = sent_withdrawals s1 \<Longrightarrow> keeps_sent s s2 \<Longrightarrow>
      keeps_sent s (s2\<lparr>sent_withdrawals := sent_withdrawals s2 @ [i]\<rparr>)"
    by (rule send_once)
qed (auto simp: keeps_sent_def sent_inv_def)

end
