(* ===== verification/WalletApi_Requests.thy ===== *)
theory WalletApi_Requests
  imports WalletApi_Correct
begin

text \<open>
  What the requests of users and administrators do: a withdrawal request either leaves the tables
  as they were or locks the amount and records the withdrawal, in one piece.
\<close>

subsection \<open>Transactions\<close>

definition static :: "'x wapi_db_scheme \<Rightarrow> api_user list \<times> string list \<times> 'x" where
  "static s = (api_users s, withdrawal_columns s, wapi_db.more s)"

definition tables ::
  "'x wapi_db_scheme \<Rightarrow> ((uuid \<times> string) \<Rightarrow> api_balance option) \<times> withdrawal list \<times> ((uuid \<times> string) \<times> uuid) list
    \<times> api_user list \<times> string list \<times> 'x" where
  "tables s = (api_balances s, withdrawals s, idempotency s, static s)"

lemma tables_env [simp]:
  "tables (s\<lparr>faults := fs\<rparr>) = tables s" "tables (s\<lparr>tx_aborted := a\<rparr>) = tables s"
  "static (s\<lparr>faults := fs\<rparr>) = static s" "static (s\<lparr>tx_aborted := a\<rparr>) = static s"
  by (simp_all add: tables_def static_def)

lemma tables_static: "tables s = tables t \<Longrightarrow> static s = static t"
  by (simp add: tables_def)

lemma tables_parts:
  "tables s = tables t \<Longrightarrow> api_balances s = api_balances t \<and> withdrawals s = withdrawals t \<and>
     idempotency s = idempotency t \<and> api_users s = api_users t \<and> withdrawal_columns s = withdrawal_columns t \<and>
     wapi_db.more s = wapi_db.more t"
  by (simp add: tables_def static_def)

lemma rollback_tables: "static s = static s0 \<Longrightarrow> tables (rollback_tx s0 s) = tables s0"
  by (simp add: tables_def static_def rollback_tx_def)

lemma tx_query_cases:
  "tx_query f s = (r, s') \<Longrightarrow>
     tables s' = tables s \<and> (r = None \<and> tx_aborted s' \<or> r = Some (f s') \<and> tx_aborted s' = tx_aborted s)"
  unfolding tx_query_def by (auto split: if_splits prod.splits option.splits dest!: query_casesD)

text \<open>A statement that touches the tables of the transaction only.\<close>

definition tx_local :: "('x wapi_db_scheme \<Rightarrow> (nat \<times> 'x wapi_db_scheme) option) \<Rightarrow> bool" where
  "tx_local f \<longleftrightarrow> (\<forall>s n s'. f s = Some (n, s') \<longrightarrow> static s' = static s \<and> tx_aborted s' = tx_aborted s)"

lemma tx_exec_cases:
  assumes "tx_exec f s = (r, s')" and "tx_local f"
  shows "static s' = static s \<and>
    (r = None \<and> tx_aborted s' \<or>
     (\<exists>n fs. r = Some n \<and> f (s\<lparr>faults := fs\<rparr>) = Some (n, s') \<and> \<not> tx_aborted s'))"
proof (cases "tx_aborted s")
  case True
  then show ?thesis using assms(1) by (simp add: tx_exec_def)
next
  case False
  obtain k t where e: "exec_stmt f s = (k, t)" by force
  obtain fs where fs: "k = None \<and> t = s\<lparr>faults := fs\<rparr> \<or>
      (\<exists>n. f (s\<lparr>faults := fs\<rparr>) = Some (n, t) \<and> (k = Some n \<or> k = None))"
    using exec_stmt_casesD [OF e] by blast
  have l: "static t = static s \<and> tx_aborted t = tx_aborted s" if "f (s\<lparr>faults := fs\<rparr>) = Some (n, t)" for n
    using assms(2) that by (fastforce simp: tx_local_def)
  show ?thesis
  proof (cases k)
    case None
    then show ?thesis using assms(1) e False fs l by (auto simp: tx_exec_def)
  next
    case (Some n)
    then show ?thesis using assms(1) e False fs l by (auto simp: tx_exec_def)
  qed
qed

lemma commit_cases:
  assumes "commit_tx s0 s = (ok, s')" and "static s = static s0"
  shows "tables s' = tables s0 \<and> \<not> ok \<or> tables s' = tables s \<and> \<not> tx_aborted s"
proof (cases "tx_aborted s")
  case True
  then show ?thesis using assms rollback_tables by (auto simp: commit_tx_def)
next
  case False
  obtain fl t where n: "next_fault s = (fl, t)" by force
  obtain fs where "t = s\<lparr>faults := fs\<rparr>" using next_fault_casesD [OF n] by blast
  then show ?thesis using assms n False rollback_tables [of t s0]
    by (cases fl) (auto simp: commit_tx_def)
qed

lemma begin_cases: "begin_tx s = (ok, s') \<Longrightarrow> tables s' = tables s \<and> \<not> tx_aborted s'"
  by (auto simp: begin_tx_def split: prod.splits dest!: query_casesD)

lemma query_tables: "query f s = (r, s') \<Longrightarrow> tables s' = tables s"
  by (auto dest!: query_casesD)

lemma update_api_balance_SomeD:
  "update_api_balance u a f s = Some (n, s') \<Longrightarrow>
     (api_balances s (u, a) = None \<and> s' = s) \<or>
     (\<exists>b b'. api_balances s (u, a) = Some b \<and> store_api_balance (fst (f b)) (snd (f b)) = Some b' \<and>
        s' = s\<lparr>api_balances := (api_balances s)((u, a) \<mapsto> b')\<rparr>)"
  by (auto simp: update_api_balance_def split: option.splits prod.splits)

lemma tx_locals:
  "tx_local (lock_balance ni u amt a)" "tx_local (insert_withdrawal ni i now u c a amt d st sc)"
  "tx_local (insert_idem u k i)" "tx_local (update_withdrawals P g)" "tx_local (unfreeze_rejected u a x)"
  by (auto simp: tx_local_def lock_balance_def insert_withdrawal_def insert_idem_def unfreeze_rejected_def bind_eq_Some_conv
      static_def split: if_splits dest!: update_api_balance_SomeD update_withdrawals_SomeD)

lemma computeRiskScore_tables:
  assumes "computeRiskScore now db_now u d f s = (r, s')"
  shows "tables s' = tables s"
proof -
  obtain v1 s1 where 1: "tx_query (find_api_user u) s = (v1, s1)" by force
  obtain v2 s2 where 2: "tx_query (used_count u d) s1 = (v2, s2)" by force
  obtain v3 s3 where 3: "tx_query (day_total db_now u) s2 = (v3, s3)" by force
  show ?thesis
    using assms 1 2 3 tx_query_cases [OF 1] tx_query_cases [OF 2] tx_query_cases [OF 3]
    by (simp add: computeRiskScore_def Let_def)
qed

subsection \<open>A created withdrawal\<close>

definition new_withdrawal :: "uuid \<Rightarrow> int \<Rightarrow> uuid \<Rightarrow> create_request \<Rightarrow> numeric \<Rightarrow> int \<Rightarrow> withdrawal" where
  "new_withdrawal new_id db_now u req x score =
     \<lparr>wr_id = new_id, wr_user = u, wr_chain = ToUpper (TrimSpace (cr_chain req)),
      wr_asset = ToUpper (TrimSpace (cr_asset req)), wr_amount = x, wr_dest = TrimSpace (cr_destination req),
      wr_tx_hash = None, wr_status = initial_status score, wr_error_msg = None, wr_created_at = db_now,
      wr_sent_at = None, wr_completed_at = None, wr_fee = Num 0, wr_receive = x, wr_risk_score = score,
      wr_risk_hold = (initial_status score \<noteq> ''PENDING''), wr_block_number = None\<rparr>"

definition withdrawal_recorded ::
  "(string \<Rightarrow> numeric option) \<Rightarrow> uuid \<Rightarrow> int \<Rightarrow> uuid \<Rightarrow> string \<Rightarrow> create_request \<Rightarrow> float64 \<Rightarrow> int
    \<Rightarrow> 'x wapi_db_scheme \<Rightarrow> 'x wapi_db_scheme \<Rightarrow> bool" where
  "withdrawal_recorded numeric_in new_id db_now u key req f score s s' \<longleftrightarrow>
     static s' = static s \<and> u \<in> au_id ` set (api_users s) \<and>
     (\<exists>x b b' r. numeric_in (cr_amount req) = Some x \<and>
        api_balances s (u, ToUpper (TrimSpace (cr_asset req))) = Some b \<and> \<not> flt (n_float (ab_available b)) f \<and>
        store_api_balance (n_sub (ab_available b) x) (n_add (ab_frozen b) x) = Some b' \<and>
        api_balances s' = (api_balances s)((u, ToUpper (TrimSpace (cr_asset req))) \<mapsto> b') \<and>
        wd_store (new_withdrawal new_id db_now u req x score) = Some r \<and>
        new_id \<notin> wr_id ` set (withdrawals s) \<and> withdrawals s' = withdrawals s @ [r] \<and>
        (if key = [] then idempotency s' = idempotency s
         else length key \<le> 128 \<and> find_idem u key s = None \<and> idempotency s' = idempotency s @ [((u, key), new_id)]))"

definition create_outcome ::
  "(string \<Rightarrow> numeric option) \<Rightarrow> uuid \<Rightarrow> int \<Rightarrow> uuid \<Rightarrow> string \<Rightarrow> create_request \<Rightarrow> float64
    \<Rightarrow> 'x wapi_db_scheme \<Rightarrow> create_response \<Rightarrow> 'x wapi_db_scheme \<Rightarrow> bool" where
  "create_outcome numeric_in new_id db_now u key req f s resp s' \<longleftrightarrow>
     tables s' = tables s \<and> (\<exists>c m. resp = Refused c m) \<or>
     (\<exists>score. withdrawal_recorded numeric_in new_id db_now u key req f score s s' \<and>
        (resp = Refused 500 ''internal error'' \<or>
         (\<exists>factors. resp = Created (http_status (initial_status score)) new_id (initial_status score) score factors
            (riskActionMessage (initial_status score)))))"

lemma withdrawal_recorded_cong:
  assumes "tables s = tables t" and "tables s' = tables t'"
  shows "withdrawal_recorded ni i now u key req f score s s' = withdrawal_recorded ni i now u key req f score t t'"
proof -
  note a = tables_parts [OF assms(1)] tables_static [OF assms(1)]
  note b = tables_parts [OF assms(2)] tables_static [OF assms(2)]
  show ?thesis unfolding withdrawal_recorded_def find_idem_def by (simp only: a b)
qed

lemma create_outcome_refused:
  "tables s' = tables s \<Longrightarrow> create_outcome ni i now u key req f s (Refused c m) s'"
  by (simp add: create_outcome_def)

lemma withdrawal_body_outcome:
  assumes "withdrawal_body ni i now db_now u key req f s0 s = (resp, s')" and "tables s = tables s0"
  shows "create_outcome ni i db_now u key req f s0 resp s'"
proof -
  let ?asset = "ToUpper (TrimSpace (cr_asset req))"
  obtain v s1 where 1: "tx_query (\<lambda>t. api_balances t (u, ?asset)) s = (v, s1)" by force
  have t1: "tables s1 = tables s0" and v: "v = None \<or> v = Some (api_balances s1 (u, ?asset))"
    using tx_query_cases [OF 1] assms(2) by auto
  have refuse: "create_outcome ni i db_now u key req f s0 (Refused c m) (rollback_tx s0 t)" if "static t = static s0" for c m t
    using rollback_tables [OF that] by (rule create_outcome_refused)
  note p1 = tables_parts [OF t1] and st1 = tables_static [OF t1]
  obtain k2 s2 where 2: "tx_exec (lock_balance ni u (cr_amount req) ?asset) s1 = (k2, s2)" by force
  note c2 = tx_exec_cases [OF 2 tx_locals(1)]
  have st2: "static s2 = static s0" using c2 st1 by simp
  obtain score factors s3 where 3: "computeRiskScore now db_now u (cr_destination req) f s2 = ((score, factors), s3)"
    by (metis prod.collapse)
  note t3 = computeRiskScore_tables [OF 3]
  have st3: "static s3 = static s0" using tables_static [OF t3] st2 by simp
  let ?st = "initial_status score"
  let ?ins = "insert_withdrawal ni i db_now u (ToUpper (TrimSpace (cr_chain req))) ?asset (cr_amount req)
      (TrimSpace (cr_destination req)) ?st score"
  obtain k4 s4 where 4: "tx_exec ?ins s3 = (k4, s4)" by force
  note c4 = tx_exec_cases [OF 4 tx_locals(2)]
  have st4: "static s4 = static s0" using c4 st3 by simp
  obtain k5 s5 where 5: "(if key = [] then (Some 1, s4) else tx_exec (insert_idem u key i) s4) = (k5, s5)" by force
  have c5: "static s5 = static s4 \<and> (k5 = None \<or>
      (if key = [] then s5 = s4 else (\<exists>n fs. insert_idem u key i (s4\<lparr>faults := fs\<rparr>) = Some (n, s5))))"
    using 5 tx_exec_cases [OF _ tx_locals(3), of u key i s4 k5 s5] by (auto split: if_splits)
  have st5: "static s5 = static s0" using c5 st4 by simp
  obtain ok s6 where 6: "commit_tx s0 s5 = (ok, s6)" by force
  note c6 = commit_cases [OF 6 st5]
  note run = assms(1) [unfolded withdrawal_body_def Let_def 1]
  show ?thesis
  proof (cases "v = None \<or> v = Some None \<or> (\<exists>b. v = Some (Some b) \<and> flt (n_float (ab_available b)) f)")
    case True
    then show ?thesis using run refuse [OF st1] by auto
  next
    case False
    then obtain w where "v = Some w" "w \<noteq> None" by (cases v) auto
    then obtain b where b: "v = Some (Some b)" "\<not> flt (n_float (ab_available b)) f" using False by (cases w) auto
    have bal: "api_balances s0 (u, ?asset) = Some b" using v b p1 by simp
    show ?thesis
    proof (cases "k2 = None \<or> k4 = None \<or> k5 = None")
      case True
      then show ?thesis
        using run b 2 3 4 5 refuse [OF st2] refuse [OF st4] refuse [OF st5] by (auto split: option.splits)
    next
      case False
      then obtain n2 n4 n5 where k: "k2 = Some n2" "k4 = Some n4" "k5 = Some n5" by auto
      have resp: "resp = (if ok then Created (http_status ?st) i ?st score factors (riskActionMessage ?st)
          else Refused 500 ''internal error'')" "s' = s6"
        using run b 2 3 4 5 6 k by (auto split: bool.splits)
      have rec: "withdrawal_recorded ni i db_now u key req f score s0 s5"
      proof -
        obtain fs2 where l: "lock_balance ni u (cr_amount req) ?asset (s1\<lparr>faults := fs2\<rparr>) = Some (n2, s2)"
          using c2 k by auto
        then obtain x b' where x: "ni (cr_amount req) = Some x"
          and b': "store_api_balance (n_sub (ab_available b) x) (n_add (ab_frozen b) x) = Some b'"
          and s2: "s2 = s1\<lparr>faults := fs2, api_balances := (api_balances s1)((u, ?asset) \<mapsto> b')\<rparr>"
          using bal p1 by (auto simp: lock_balance_def bind_eq_Some_conv dest!: update_api_balance_SomeD)
        have p3: "api_balances s3 = (api_balances s0)((u, ?asset) \<mapsto> b')" "withdrawals s3 = withdrawals s0"
          "idempotency s3 = idempotency s0" "api_users s3 = api_users s0"
          using tables_parts [OF t3] p1 s2 by simp_all
        obtain fs4 where ins: "?ins (s3\<lparr>faults := fs4\<rparr>) = Some (n4, s4)" using c4 k by auto
        then obtain r where r: "wd_store (new_withdrawal i db_now u req x score) = Some r"
          and fresh: "i \<notin> wr_id ` set (withdrawals s0)" and u: "u \<in> au_id ` set (api_users s0)"
          and s4: "s4 = s3\<lparr>faults := fs4, withdrawals := withdrawals s0 @ [r]\<rparr>"
          using x p3 by (auto simp: insert_withdrawal_def new_withdrawal_def bind_eq_Some_conv wd_store_def wd_check_def
              split: if_splits option.splits dest!: tbl_insert_SomeD)
        have idem: "if key = [] then idempotency s5 = idempotency s0
            else length key \<le> 128 \<and> find_idem u key s0 = None \<and> idempotency s5 = idempotency s0 @ [((u, key), i)]"
        proof (cases "key = []")
          case True
          then show ?thesis using c5 k s4 p3 by simp
        next
          case False
          then obtain fs5 n where "insert_idem u key i (s4\<lparr>faults := fs5\<rparr>) = Some (n, s5)" using c5 k by auto
          then show ?thesis using False s4 p3
            by (auto simp: insert_idem_def find_idem_def split: if_splits dest: tbl_insert_SomeD tbl_insert_fresh)
        qed
        have rest: "api_balances s5 = api_balances s4 \<and> withdrawals s5 = withdrawals s4"
          using c5 k by (auto simp: insert_idem_def split: if_splits)
        show ?thesis
          unfolding withdrawal_recorded_def
          using st5 u x bal b(2) b' r fresh idem rest s4 p3 by simp
      qed
      then show ?thesis
      proof (cases "tables s6 = tables s0 \<and> \<not> ok")
        case True
        then show ?thesis using resp by (simp add: create_outcome_def)
      next
        case False
        then have t: "tables s6 = tables s5" using c6 by auto
        have "withdrawal_recorded ni i db_now u key req f score s0 s6"
          using rec withdrawal_recorded_cong [OF refl t] by simp
        then show ?thesis using resp by (auto simp: create_outcome_def)
      qed
    qed
  qed
qed


lemma createWithdrawal_outcome_aux:
  assumes "createWithdrawal ni oob i now db_now u hdr body s = (resp, s')"
  shows "tables s' = tables s \<and> ((\<exists>c m. resp = Refused c m) \<or>
      (\<exists>j. resp = Replayed j \<and> TrimSpace hdr \<noteq> [] \<and> find_idem u (TrimSpace hdr) s = Some j)) \<or>
    (\<exists>req f. check_request oob body = Inr (req, f) \<and>
       create_outcome ni i db_now u (TrimSpace hdr) req f s resp s')"
proof -
  let ?key = "TrimSpace hdr"
  obtain v s1 where 1: "query (find_api_user u) s = (v, s1)" by force
  note t1 = query_tables [OF 1]
  obtain ok s2 where 2: "begin_tx s1 = (ok, s2)" by force
  have t2: "tables s2 = tables s" using begin_cases [OF 2] t1 by simp
  obtain w s3 where 3: "tx_query (find_idem u ?key) s2 = (w, s3)" by force
  have t3: "tables s3 = tables s" using tx_query_cases [OF 3] t2 by simp
  note run = assms [unfolded createWithdrawal_def 1 Let_def, simplified]
  let ?bot = "case v of Some (Some r) \<Rightarrow> au_is_bot r | _ \<Rightarrow> False"
  show ?thesis
  proof (cases "?bot \<or> (\<exists>e. check_request oob body = Inl e) \<or> \<not> ok")
    case True
    then show ?thesis using run t1 t2 2 by (auto split: if_splits sum.splits prod.splits)
  next
    case False
    then obtain req f where c: "check_request oob body = Inr (req, f)"
      by (cases "check_request oob body") auto
    have body: "create_outcome ni i db_now u ?key req f s resp s'"
      if "withdrawal_body ni i now db_now u ?key req f s2 t = (resp, s')" "tables t = tables s" for t
    proof -
      have "create_outcome ni i db_now u ?key req f s2 resp s'"
        by (rule withdrawal_body_outcome [OF that(1)]) (use that t2 in simp)
      then show ?thesis
        unfolding create_outcome_def using t2 withdrawal_recorded_cong [OF t2 refl] by simp
    qed
    show ?thesis
    proof (cases "?key = []")
      case True
      then show ?thesis using run False c 2 body [OF _ t2] by simp
    next
      case key: False
      show ?thesis
      proof (cases w)
        case None
        have "tables (rollback_tx s2 s3) = tables s2" by (rule rollback_tables) (use t2 t3 tables_static in metis)
        then show ?thesis using run False c 2 3 key None t2 by auto
      next
        case (Some idem)
        then have idem: "idem = find_idem u ?key s"
          using tx_query_cases [OF 3] tables_parts [OF t3] by (simp add: find_idem_def)
        show ?thesis
        proof (cases idem)
          case None
          then show ?thesis using run False c 2 3 key Some body [OF _ t3] by simp
        next
          case found: (Some j)
          obtain ok' s4 where 4: "commit_tx s2 s3 = (ok', s4)" by force
          have "tables s4 = tables s"
            using commit_cases [OF 4] t2 t3 tables_static by metis
          then show ?thesis using run False c 2 3 4 key Some found idem by simp
        qed
      qed
    qed
  qed
qed


subsection \<open>Confirming and reviewing\<close>

lemma exec_update_tables:
  assumes "exec_stmt (update_withdrawals P g) s = (k, s')"
  shows "(tables s' = tables s \<and> k = None) \<or>
    (tables s' = tables (s\<lparr>withdrawals := map (\<lambda>r. if P r then g r else r) (withdrawals s)\<rparr>) \<and>
     (\<forall>n. k = Some n \<longrightarrow> n = length (filter P (withdrawals s))))"
proof -
  obtain fs where fs: "k = None \<and> s' = s\<lparr>faults := fs\<rparr> \<or>
      (\<exists>n. update_withdrawals P g (s\<lparr>faults := fs\<rparr>) = Some (n, s') \<and> (k = Some n \<or> k = None))"
    using exec_stmt_casesD [OF assms] by blast
  then show ?thesis
    by (auto dest!: update_withdrawals_SomeD simp: tables_def static_def)
qed

definition only_rows :: "'x wapi_db_scheme \<Rightarrow> 'x wapi_db_scheme \<Rightarrow> bool" where
  "only_rows s s' \<longleftrightarrow>
     rows_move s s' \<and> api_balances s' = api_balances s \<and> idempotency s' = idempotency s \<and> static s' = static s \<and>
     (\<forall>r \<in> set (withdrawals s). wr_status r = ''PENDING'' \<longrightarrow> r \<in> set (withdrawals s'))"

lemma only_rows_tables: "tables s' = tables s \<Longrightarrow> only_rows s s'"
  by (auto simp: only_rows_def tables_def intro: rows_move_same)

lemma only_rows_trans: "only_rows s t \<Longrightarrow> only_rows t u \<Longrightarrow> only_rows s u"
  by (auto simp: only_rows_def intro: rows_move_trans)

lemma map_keeps_pending:
  assumes "\<And>r. P r \<Longrightarrow> wr_status r \<noteq> ''PENDING''" and "r \<in> set rs" and "wr_status r = ''PENDING''"
  shows "r \<in> set (map (\<lambda>r. if P r then g r else r) rs)"
  using assms by (auto intro: rev_image_eqI)

lemma exec_update_only_rows:
  assumes "exec_stmt (update_withdrawals P g) s = (k, s')"
    and "\<And>r. P r \<Longrightarrow> row_moves r (g r) \<and> wr_status r \<noteq> ''PENDING''"
  shows "only_rows s s'"
  using exec_update_tables [OF assms(1)]
proof
  assume "tables s' = tables s \<and> k = None"
  then show ?thesis by (simp add: only_rows_tables)
next
  let ?g = "\<lambda>r. if P r then g r else r"
  assume "tables s' = tables (s\<lparr>withdrawals := map ?g (withdrawals s)\<rparr>) \<and>
     (\<forall>n. k = Some n \<longrightarrow> n = length (filter P (withdrawals s)))"
  then have t: "tables s' = tables (s\<lparr>withdrawals := map ?g (withdrawals s)\<rparr>)" by blast
  have w: "withdrawals s' = map ?g (withdrawals s)" using tables_parts [OF t] by simp
  have "rows_move s s'"
    by (rule rows_move_map [OF _ w]) (use assms(2) in simp)
  moreover have "r \<in> set (withdrawals s')" if "r \<in> set (withdrawals s)" "wr_status r = ''PENDING''" for r
    unfolding w by (rule map_keeps_pending [OF _ that]) (use assms(2) in blast)
  ultimately show ?thesis using tables_parts [OF t] tables_static [OF t] by (simp add: only_rows_def static_def)
qed

lemma confirm_only_rows: "only_rows s (snd (confirmWithdrawal ui totp u body s))"
proof -
  have upd: "only_rows t t'"
    if "exec_stmt (update_withdrawals (is_status i ''RISK_CHECK'')
        (\<lambda>r. r\<lparr>wr_status := ''PENDING'', wr_risk_hold := False\<rparr>)) t = (k, t')" for i k and t t' :: "'a wapi_db_scheme"
    using that by (rule exec_update_only_rows)
      (auto simp: is_status_def row_moves_def same_order_def intro: confirmed)
  have q: "only_rows s t" if "query f s = (r, t)" for r t and f :: "_ \<Rightarrow> withdrawal option"
    using query_tables [OF that] by (rule only_rows_tables)
  show ?thesis
    unfolding confirmWithdrawal_def
    by (auto simp: only_rows_tables split: option.splits prod.splits
        intro: q only_rows_trans [OF q upd])
qed

lemma approve_only_rows: "only_rows s (snd (approveReviewWithdrawal ui body s))"
proof -
  have upd: "only_rows t t'"
    if "exec_stmt (update_withdrawals (is_status i ''MANUAL_REVIEW'')
        (\<lambda>r. r\<lparr>wr_status := ''PENDING'', wr_risk_hold := False, wr_error_msg := None\<rparr>)) t = (k, t')" for i k and t t' :: "'a wapi_db_scheme"
    using that by (rule exec_update_only_rows)
      (auto simp: is_status_def row_moves_def same_order_def intro: approved)
  show ?thesis
    unfolding approveReviewWithdrawal_def
    by (auto simp: only_rows_tables split: option.splits prod.splits intro: upd)
qed

definition rejection_recorded :: "uuid \<Rightarrow> string \<Rightarrow> 'x wapi_db_scheme \<Rightarrow> 'x wapi_db_scheme \<Rightarrow> bool" where
  "rejection_recorded i msg s s' \<longleftrightarrow>
     static s' = static s \<and> idempotency s' = idempotency s \<and>
     withdrawals s' = map (\<lambda>r. if is_status i ''MANUAL_REVIEW'' r then rejected_row msg r else r) (withdrawals s) \<and>
     (\<exists>r. find_withdrawal i s' = Some r \<and>
        (case api_balances s (wr_user r, wr_asset r) of
           None \<Rightarrow> api_balances s' = api_balances s
         | Some b \<Rightarrow> \<exists>b'. store_api_balance
               (n_add (ab_available b) (n_greatest (n_sub (wr_amount r) (ab_frozen b)) (Num 0)))
               (n_greatest (n_sub (ab_frozen b) (wr_amount r)) (Num 0)) = Some b' \<and>
             api_balances s' = (api_balances s)((wr_user r, wr_asset r) \<mapsto> b')))"

lemma rejection_recorded_cong:
  assumes "tables s' = tables t'"
  shows "rejection_recorded i msg s s' = rejection_recorded i msg s t'"
  unfolding rejection_recorded_def find_withdrawal_def
  by (simp only: tables_parts [OF assms] tables_static [OF assms])

lemma reject_cases:
  assumes "rejectReviewWithdrawal ui body s = (resp, s')"
  shows "tables s' = tables s \<or> (\<exists>wid msg i. body = Some (wid, msg) \<and> ui wid = Some i \<and>
    rejection_recorded i msg s s' \<and> (resp = Inr i \<or> resp = Inl 500))"
proof (cases body)
  case None
  then show ?thesis using assms by (simp add: rejectReviewWithdrawal_def)
next
  case (Some p)
  obtain wid msg where p: "p = (wid, msg)" by force
  obtain ok s1 where 1: "begin_tx s = (ok, s1)" by force
  note t1 = begin_cases [OF 1]
  have st1: "static s1 = static s" using t1 tables_static by blast
  have undone: "tables (rollback_tx s1 t) = tables s" if "static t = static s1" for t
    using rollback_tables [OF that] t1 by simp
  show ?thesis
  proof (cases "ok \<and> ui wid \<noteq> None")
    case False
    then show ?thesis using assms Some p 1 t1 undone [of s1] by (cases ok) (auto simp: rejectReviewWithdrawal_def)
  next
    case True
    then obtain i where i: "ui wid = Some i" by auto
    let ?upd = "update_withdrawals (is_status i ''MANUAL_REVIEW'') (rejected_row msg)"
    obtain k2 s2 where 2: "tx_exec ?upd s1 = (k2, s2)" by force
    note c2 = tx_exec_cases [OF 2 tx_locals(4)]
    have st2: "static s2 = static s1" using c2 by simp
    have 1: "begin_tx s = (True, s1)" using 1 \<open>ok \<and> ui wid \<noteq> None\<close> by simp
    note run = assms [unfolded rejectReviewWithdrawal_def Some p, simplified, unfolded 1 i, simplified, unfolded 2, simplified]
    show ?thesis
    proof (cases "k2 = None \<or> k2 = Some 0 \<or> find_withdrawal i s2 = None")
      case True
      then show ?thesis using run \<open>ok \<and> ui wid \<noteq> None\<close> undone [OF st2] by (auto split: option.splits if_splits)
    next
      case False
      then obtain n2 r where k2: "k2 = Some n2" "n2 \<noteq> 0" and r: "find_withdrawal i s2 = Some r" by auto
      obtain k3 s3 where 3: "tx_exec (unfreeze_rejected (wr_user r) (wr_asset r) (wr_amount r)) s2 = (k3, s3)" by force
      note c3 = tx_exec_cases [OF 3 tx_locals(5)]
      have st3: "static s3 = static s1" using c3 st2 by simp
      obtain ok4 s4 where 4: "commit_tx s1 s3 = (ok4, s4)" by force
      note c4 = commit_cases [OF 4 st3]
      show ?thesis
      proof (cases k3)
        case None
        then show ?thesis using run k2 r 3 \<open>ok \<and> ui wid \<noteq> None\<close> undone [OF st3] by auto
      next
        case k3: (Some n3)
        have s': "s' = s4" "resp = (if ok4 then Inr i else Inl 500)"
          using run k2 r 3 4 k3 \<open>ok \<and> ui wid \<noteq> None\<close> by (auto split: bool.splits)
        show ?thesis
        proof (cases "tables s4 = tables s1 \<and> \<not> ok4")
          case True
          then show ?thesis using s' t1 by simp
        next
          case False
          then have t4: "tables s4 = tables s3" using c4 by blast
          obtain fs2 where "?upd (s1\<lparr>faults := fs2\<rparr>) = Some (n2, s2)" using c2 k2 by auto
          then have w2: "withdrawals s2 = map (\<lambda>r. if is_status i ''MANUAL_REVIEW'' r then rejected_row msg r else r) (withdrawals s)"
            and o2: "api_balances s2 = api_balances s" "idempotency s2 = idempotency s"
            using t1 by (auto dest!: update_withdrawals_SomeD dest: tables_parts)
          obtain fs3 where u3: "unfreeze_rejected (wr_user r) (wr_asset r) (wr_amount r) (s2\<lparr>faults := fs3\<rparr>) = Some (n3, s3)"
            using c3 k3 by auto
          then have o3: "withdrawals s3 = withdrawals s2" "idempotency s3 = idempotency s2"
            by (auto simp: unfreeze_rejected_def dest!: update_api_balance_SomeD)
          have "rejection_recorded i msg s s3"
            unfolding rejection_recorded_def
            using st3 st1 o2 o3 w2 r u3
            by (auto simp: unfreeze_rejected_def find_withdrawal_def split: option.splits dest!: update_api_balance_SomeD)
          then have "rejection_recorded i msg s s4"
            using rejection_recorded_cong [OF t4] by simp
          then show ?thesis using s' Some p i by auto
        qed
      qed
    qed
  qed
qed


subsection \<open>Runs\<close>

text \<open>
  Everything that happens to the daemon: requests, worker ticks, the processing of a row that some
  worker read at an earlier time, and confirmation ticks.
\<close>

datatype api_op =
    OpCreate uuid int int uuid string "create_request option"
  | OpConfirm "bool option" uuid "(string \<times> string) option"
  | OpApprove "string option"
  | OpReject "(string \<times> string) option"
  | OpWorkerTick int
  | OpProcess int withdrawal_item
  | OpConfirmTick int

record 'c api_env =
  ae_ops :: "'c chain_ops"
  ae_config :: worker_config
  ae_numeric_in :: "string \<Rightarrow> numeric option"
  ae_uuid_in :: "string \<Rightarrow> uuid option"
  ae_oob :: "float64 \<Rightarrow> nat"

fun api_step :: "'c api_env \<Rightarrow> api_op \<Rightarrow> ('c, 'x) worker_db_scheme \<Rightarrow> ('c, 'x) worker_db_scheme" where
  "api_step e (OpCreate i now db_now u hdr body) s =
     snd (createWithdrawal (ae_numeric_in e) (ae_oob e) i now db_now u hdr body s)"
| "api_step e (OpConfirm totp u body) s = snd (confirmWithdrawal (ae_uuid_in e) totp u body s)"
| "api_step e (OpApprove body) s = snd (approveReviewWithdrawal (ae_uuid_in e) body s)"
| "api_step e (OpReject body) s = snd (rejectReviewWithdrawal (ae_uuid_in e) body s)"
| "api_step e (OpWorkerTick db_now) s = snd (processPendingWithdrawals (ae_ops e) (ae_config e) (ae_oob e) db_now s)"
| "api_step e (OpProcess db_now it) s = snd (processOneWithdrawal (ae_ops e) (ae_config e) (ae_oob e) db_now it s)"
| "api_step e (OpConfirmTick db_now) s = processPendingConfirmations (ae_ops e) db_now s"

text \<open>A request changes neither the columns nor what has been sent.\<close>

definition request_frame :: "('c, 'x) worker_db_scheme \<Rightarrow> ('c, 'x) worker_db_scheme \<Rightarrow> bool" where
  "request_frame s s' \<longleftrightarrow>
     rows_move s s' \<and> sent_withdrawals s' = sent_withdrawals s \<and> withdrawal_columns s' = withdrawal_columns s \<and>
     (\<forall>r \<in> set (withdrawals s). wr_status r = ''PENDING'' \<longrightarrow> r \<in> set (withdrawals s'))"

lemma static_frame:
  "static s' = static s \<Longrightarrow> sent_withdrawals s' = sent_withdrawals s \<and> withdrawal_columns s' = withdrawal_columns s"
  for s s' :: "('c, 'x) worker_db_scheme"
  by (cases s, cases s') (simp add: static_def)

lemma rows_move_append:
  assumes "withdrawals s' = withdrawals s @ [r]" and "wr_id r \<notin> wr_id ` set (withdrawals s)"
  shows "rows_move s s'"
  unfolding rows_move_def assms(1)
proof (intro conjI ballI impI)
  fix q assume "q \<in> set (withdrawals s)"
  then show "\<exists>q' \<in> set (withdrawals s @ [r]). row_moves q q'" by (intro bexI [of _ q]) simp_all
qed (use assms(2) in auto)

lemma wd_store_id: "wd_store r = Some r' \<Longrightarrow> wr_id r' = wr_id r \<and> wr_status r' = wr_status r \<and> wr_user r' = wr_user r"
  by (auto simp: wd_store_def split: option.splits dest!: wd_check_SomeD)

lemma request_frame_tables: "tables s' = tables s \<Longrightarrow> request_frame s s'"
  for s s' :: "('c, 'x) worker_db_scheme"
  using static_frame [OF tables_static] tables_parts [of s' s]
  by (auto simp: request_frame_def intro: rows_move_same)

lemma create_frame: "request_frame s (snd (createWithdrawal ni oob i now db_now u hdr body s))"
  for s :: "('c, 'x) worker_db_scheme"
proof -
  obtain resp s' where run: "createWithdrawal ni oob i now db_now u hdr body s = (resp, s')" by force
  have "request_frame s s'" if rec: "withdrawal_recorded ni i db_now u (TrimSpace hdr) req f score s s'" for req f score
  proof -
    obtain x r where r: "wd_store (new_withdrawal i db_now u req x score) = Some r"
      and fresh: "i \<notin> wr_id ` set (withdrawals s)" and ws: "withdrawals s' = withdrawals s @ [r]"
      and st: "static s' = static s"
      using rec by (auto simp: withdrawal_recorded_def)
    have "wr_id r = i" using wd_store_id [OF r] by (simp add: new_withdrawal_def)
    then have "rows_move s s'" using rows_move_append [OF ws] fresh by simp
    then show ?thesis using static_frame [OF st] ws by (auto simp: request_frame_def)
  qed
  then have "request_frame s s'"
    using createWithdrawal_outcome_aux [OF run] request_frame_tables by (auto simp: create_outcome_def)
  then show ?thesis using run by simp
qed


lemma only_rows_frame: "only_rows s s' \<Longrightarrow> request_frame s s'"
  for s s' :: "('c, 'x) worker_db_scheme"
  using static_frame [of s' s] by (auto simp: only_rows_def request_frame_def)

lemma rejection_frame:
  assumes "rejection_recorded i msg s s'"
  shows "request_frame s s'"
proof -
  let ?P = "is_status i ''MANUAL_REVIEW''"
  let ?g = "\<lambda>r. if ?P r then rejected_row msg r else r"
  have w: "withdrawals s' = map ?g (withdrawals s)" and st: "static s' = static s"
    using assms by (simp_all add: rejection_recorded_def)
  have "rows_move s s'"
    by (rule rows_move_map [OF _ w])
      (auto simp: rejected_row_def is_status_def row_moves_def same_order_def intro: rejected)
  moreover have "r \<in> set (withdrawals s')" if "r \<in> set (withdrawals s)" "wr_status r = ''PENDING''" for r
    unfolding w by (rule map_keeps_pending [OF _ that]) (simp add: is_status_def)
  ultimately show ?thesis using static_frame [OF st] by (simp add: request_frame_def)
qed

lemma reject_frame: "request_frame s (snd (rejectReviewWithdrawal ui body s))"
  for s :: "('c, 'x) worker_db_scheme"
proof -
  obtain resp s' where run: "rejectReviewWithdrawal ui body s = (resp, s')" by force
  have "request_frame s s'"
    using reject_cases [OF run] request_frame_tables rejection_frame by blast
  then show ?thesis using run by simp
qed

lemma request_frame_sent: "request_frame s s' \<Longrightarrow> keeps_sent s s'"
  by (rule keeps_sent_frame) (auto simp: request_frame_def)

lemma api_step_moves: "rows_move s (api_step e op s)"
  for s :: "('c, 'x) worker_db_scheme"
proof (cases op)
  case (OpWorkerTick db_now)
  then show ?thesis using rm.processPending_R [OF prod.collapse [symmetric]] by simp
next
  case (OpProcess db_now it)
  then show ?thesis using rm.processOne_R [OF prod.collapse [symmetric]] by simp
next
  case (OpConfirmTick db_now)
  then show ?thesis using rm.processConfirmations_R by simp
qed (use create_frame [of s] only_rows_frame [OF confirm_only_rows, of s] only_rows_frame [OF approve_only_rows, of s]
    reject_frame [of s] in \<open>auto simp: request_frame_def\<close>)

lemma api_step_sent: "keeps_sent s (api_step e op s)"
  for s :: "('c, 'x) worker_db_scheme"
proof (cases op)
  case (OpWorkerTick db_now)
  then show ?thesis using ks.processPending_R [OF prod.collapse [symmetric]] by simp
next
  case (OpProcess db_now it)
  then show ?thesis using ks.processOne_R [OF prod.collapse [symmetric]] by simp
next
  case (OpConfirmTick db_now)
  then show ?thesis using ks.processConfirmations_R by simp
qed (auto intro: request_frame_sent create_frame only_rows_frame confirm_only_rows approve_only_rows reject_frame)

end
