(* ===== verification/WalletApi_Safety.thy ===== *)
theory WalletApi_Safety
  imports WalletApi_Requests
begin

text \<open>
  Properties of the wallet daemon over whole runs, and of single requests: the status machine, one
  broadcast per withdrawal, what happens on the schema the migrations create, the idempotency key,
  amounts that are not numbers, and the two ways of giving frozen funds back.
\<close>

subsection \<open>On a schema without the completion column\<close>

definition stuck_rel :: "('c, 'x) worker_db_scheme \<Rightarrow> ('c, 'x) worker_db_scheme \<Rightarrow> bool" where
  "stuck_rel s s' \<longleftrightarrow>
     (''completed_at'' \<notin> set (withdrawal_columns s) \<longrightarrow>
        withdrawal_columns s' = withdrawal_columns s \<and> sent_withdrawals s' = sent_withdrawals s \<and>
        (\<forall>r \<in> set (withdrawals s). wr_status r = ''PENDING'' \<longrightarrow>
          (\<exists>r' \<in> set (withdrawals s'). same_order r r' \<and> wr_status r' = ''PENDING'')))"

lemma same_order_refl [simp]: "same_order r r"
  by (simp add: same_order_def)

lemma same_order_trans: "same_order x y \<Longrightarrow> same_order y z \<Longrightarrow> same_order x z"
  by (simp add: same_order_def)

lemma stuck_rel_same:
  "withdrawal_columns s' = withdrawal_columns s \<Longrightarrow> sent_withdrawals s' = sent_withdrawals s \<Longrightarrow>
     withdrawals s' = withdrawals s \<Longrightarrow> stuck_rel s s'"
  unfolding stuck_rel_def by (metis same_order_refl)

lemma stuck_rel_trans:
  assumes "stuck_rel s t" and "stuck_rel t u"
  shows "stuck_rel s u"
  unfolding stuck_rel_def
proof (intro impI conjI ballI)
  assume c: "''completed_at'' \<notin> set (withdrawal_columns s)"
  note 1 = assms(1) [unfolded stuck_rel_def, rule_format, OF c]
  note 2 = assms(2) [unfolded stuck_rel_def, rule_format]
  have ct: "''completed_at'' \<notin> set (withdrawal_columns t)" using 1 c by simp
  show "withdrawal_columns u = withdrawal_columns s" "sent_withdrawals u = sent_withdrawals s"
    using 1 2 [OF ct] by simp_all
  fix r assume "r \<in> set (withdrawals s)" "wr_status r = ''PENDING''"
  then obtain r1 where r1: "r1 \<in> set (withdrawals t)" "same_order r r1" "wr_status r1 = ''PENDING''" using 1 by blast
  then obtain r2 where "r2 \<in> set (withdrawals u)" "same_order r1 r2" "wr_status r2 = ''PENDING''" using 2 [OF ct] by blast
  then show "\<exists>r' \<in> set (withdrawals u). same_order r r' \<and> wr_status r' = ''PENDING''"
    using r1 same_order_trans by blast
qed

lemma request_frame_stuck: "request_frame s s' \<Longrightarrow> stuck_rel s s'"
  unfolding request_frame_def stuck_rel_def by (metis same_order_refl)

lemma update_stuck:
  assumes "exec_stmt (update_withdrawals P g) s = (k, s')"
    and "\<And>r. same_order r (g r)" and "\<And>r. P r \<Longrightarrow> wr_status r = ''PENDING'' \<Longrightarrow> wr_status (g r) = ''PENDING''"
  shows "stuck_rel s s'"
proof -
  obtain fs where fs: "s' = s\<lparr>faults := fs\<rparr> \<or> (\<exists>n. update_withdrawals P g (s\<lparr>faults := fs\<rparr>) = Some (n, s'))"
    using exec_stmt_casesD [OF assms(1)] by blast
  let ?g = "\<lambda>r. if P r then g r else r"
  have "stuck_rel s (s\<lparr>faults := fs, withdrawals := map ?g (withdrawals s)\<rparr>)"
  proof -
    have "\<exists>r' \<in> set (map ?g (withdrawals s)). same_order r r' \<and> wr_status r' = ''PENDING''"
      if "r \<in> set (withdrawals s)" "wr_status r = ''PENDING''" for r
    proof (rule bexI [of _ "?g r"])
      show "same_order r (?g r) \<and> wr_status (?g r) = ''PENDING''" using assms(2,3) that by simp
      show "?g r \<in> set (map ?g (withdrawals s))" unfolding set_map by (rule imageI [OF that(1)])
    qed
    then show ?thesis by (simp add: stuck_rel_def)
  qed
  then show ?thesis using fs stuck_rel_same [of s' s] by (auto dest!: update_withdrawals_SomeD)
qed

lemma bal_stuck:
  fixes s :: "('c, 'x) worker_db_scheme"
  assumes "exec_stmt (update_api_balance u a g) s = (k, s')"
  shows "stuck_rel s s'"
proof -
  have "withdrawal_columns s' = withdrawal_columns s \<and> sent_withdrawals s' = sent_withdrawals s \<and> withdrawals s' = withdrawals s"
    using exec_stmt_casesD [OF assms] by (auto dest!: update_api_balance_SomeD)
  then show ?thesis by (simp add: stuck_rel_same)
qed

interpretation st: worker_relation stuck_rel
proof unfold_locales
  fix s s' :: "('a, 'b) worker_db_scheme" and now i x y h c m b
  assume u: "updateWithdrawalStatus now i x y h c m s = (b, s')"
  show "stuck_rel s s'"
  proof (cases "''completed_at'' \<in> set (withdrawal_columns s)")
    case False
    then have "\<exists>fs. s' = s\<lparr>faults := fs\<rparr>" using updateWithdrawalStatus_cases [OF u] by blast
    then show ?thesis by (auto intro: stuck_rel_same)
  qed (simp add: stuck_rel_def)
next
  fix s s' :: "('a, 'b) worker_db_scheme" and P e k
  show "exec_stmt (update_withdrawals P (\<lambda>r. r\<lparr>wr_error_msg := e r\<rparr>)) s = (k, s') \<Longrightarrow> stuck_rel s s'"
    by (erule update_stuck) (simp_all add: same_order_def)
next
  fix s s' :: "('a, 'b) worker_db_scheme" and P n k
  show "exec_stmt (update_withdrawals P (\<lambda>r. r\<lparr>wr_block_number := n\<rparr>)) s = (k, s') \<Longrightarrow> stuck_rel s s'"
    by (erule update_stuck) (simp_all add: same_order_def)
next
  fix s s' :: "('a, 'b) worker_db_scheme" and i k
  show "exec_stmt (update_withdrawals (in_flight i) (\<lambda>r. r\<lparr>wr_status := ''BROADCAST_UNKNOWN''\<rparr>)) s = (k, s') \<Longrightarrow> stuck_rel s s'"
    by (erule update_stuck) (auto simp: same_order_def in_flight_def)
next
  fix s s1 s2 :: "('a, 'b) worker_db_scheme" and now i
  assume u: "updateWithdrawalStatus now i ''PENDING'' ''SIGNING'' None None [] s = (True, s1)"
  have "''completed_at'' \<in> set (withdrawal_columns s)" using updateWithdrawalStatus_cases [OF u] by auto
  then show "stuck_rel s (s2\<lparr>sent_withdrawals := sent_withdrawals s2 @ [i]\<rparr>)" by (simp add: stuck_rel_def)
qed (auto intro: stuck_rel_same stuck_rel_trans bal_stuck)

lemma api_step_stuck: "stuck_rel s (api_step e op s)"
  for s :: "('c, 'x) worker_db_scheme"
proof (cases op)
  case (OpWorkerTick db_now)
  then show ?thesis using st.processPending_R [OF prod.collapse [symmetric]] by simp
next
  case (OpProcess db_now it)
  then show ?thesis using st.processOne_R [OF prod.collapse [symmetric]] by simp
next
  case (OpConfirmTick db_now)
  then show ?thesis using st.processConfirmations_R by simp
qed (auto intro: request_frame_stuck create_frame only_rows_frame confirm_only_rows approve_only_rows reject_frame)

text \<open>A relation that every step has, over a run.\<close>

lemma fold_relation:
  assumes "\<And>op s. R s (f op s)" and "\<And>s. R s s" and "\<And>s t u. R s t \<Longrightarrow> R t u \<Longrightarrow> R s u"
  shows "R s (fold f ops s)"
  using assms by (induction ops arbitrary: s) (simp, simp, blast)

subsection \<open>Runs\<close>

text \<open>C17: whatever requests, reviews, worker and confirmation ticks happen, in whatever order and with
  whatever faults of the database, the chain and the signer, a withdrawal never disappears and never
  changes its user, asset, amount or destination; its status only moves along the allowed steps,
  and a completed, failed, rejected, signed-only or lost withdrawal stays what it is.\<close>

theorem withdrawal_status_machine:
  assumes "r \<in> set (withdrawals s)"
  shows "\<exists>r' \<in> set (withdrawals (fold (api_step e) ops s)).
    same_order r r' \<and> status_move\<^sup>*\<^sup>* (wr_status r) (wr_status r') \<and>
    (final_status (wr_status r) \<longrightarrow> wr_status r' = wr_status r)"
proof -
  have "rows_move s (fold (api_step e) ops s)"
    by (rule fold_relation [where R = rows_move]) (auto intro: api_step_moves rows_move_same rows_move_trans)
  then obtain r' where r': "r' \<in> set (withdrawals (fold (api_step e) ops s))" "row_moves r r'"
    using assms by (auto simp: rows_move_def)
  then show ?thesis using moves_closed by (intro bexI [OF _ r'(1)]) (auto simp: row_moves_def)
qed

definition demo_withdrawal :: withdrawal where
  "demo_withdrawal =
     \<lparr>wr_id = 60, wr_user = 7, wr_chain = ''TRON'', wr_asset = ''USDT'', wr_amount = Num 30, wr_dest = ''T9'',
      wr_tx_hash = None, wr_status = ''PENDING'', wr_error_msg = None, wr_created_at = 5, wr_sent_at = None,
      wr_completed_at = None, wr_fee = Num 0, wr_receive = Num 30, wr_risk_score = 20, wr_risk_hold = False,
      wr_block_number = None\<rparr>"

definition demo_wapi :: "string list \<Rightarrow> withdrawal list \<Rightarrow> unit worker_db" where
  "demo_wapi cols ws =
     \<lparr>faults = [], tx_aborted = False,
      api_users = [\<lparr>au_id = 7, au_is_bot = False, au_created_at = 0\<rparr>],
      api_balances = [(7, ''USDT'') \<mapsto> \<lparr>ab_available = Num 200, ab_frozen = Num 30\<rparr>],
      withdrawal_columns = cols, withdrawals = ws, idempotency = [], chain_state = (), sweep_tasks = [],
      chain_addresses = [], sent_withdrawals = [], sent_sweeps = []\<rparr>"

definition demo_chain :: "unit chain_ops" where
  "demo_chain =
     \<lparr>ch_BuildTransfer = (\<lambda>_ _ _ _ c. (Inr \<lparr>br_RawTx = [8, 9], br_TxHash = ''h'', br_RawData = Some []\<rparr>, c)),
      ch_Sign = (\<lambda>raw c. (Inr (raw @ replicate 65 8, ''s''), c)),
      ch_BroadcastSigned = (\<lambda>_ _ c. (Inr \<lparr>bc_TxHash = ''t'', bc_Accepted = True\<rparr>, c)),
      ch_GetTransaction = (\<lambda>_ c. (Inr \<lparr>tx_Hash = ''t'', tx_BlockNumber = 40, tx_BlockHash = [], tx_Status = ''SUCCESS'', tx_Events = []\<rparr>, c)),
      ch_GetSolidifiedBlock = (\<lambda>c. (Inr 60, c)),
      ch_GetBalance = (\<lambda>_ _ c. (Inr (Some 0), c))\<rparr>"

definition demo_env :: "unit api_env" where
  "demo_env = \<lparr>ae_ops = demo_chain,
     ae_config = \<lparr>wc_contract = [], wc_hotWalletAddr = ''T8'', wc_dry_run = False\<rparr>,
     ae_numeric_in = (\<lambda>x. if x = ''NaN'' then Some NaN else Some (Num 150)),
     ae_uuid_in = (\<lambda>x. if x = ''60'' then Some 60 else None), ae_oob = (\<lambda>_. 2 ^ 63)\<rparr>"

theorem withdrawal_status_machine_witness:
  "\<exists>r' \<in> set (withdrawals (fold (api_step demo_env) [OpWorkerTick 9, OpReject (Some (''60'', [])), OpConfirmTick 9]
      (demo_wapi [] [demo_withdrawal\<lparr>wr_status := ''COMPLETED''\<rparr>]))). wr_status r' = ''COMPLETED'' \<and> wr_amount r' = Num 30"
proof -
  have "demo_withdrawal\<lparr>wr_status := ''COMPLETED''\<rparr> \<in> set (withdrawals (demo_wapi [] [demo_withdrawal\<lparr>wr_status := ''COMPLETED''\<rparr>]))"
    by (simp add: demo_wapi_def)
  from withdrawal_status_machine [OF this, of demo_env "[OpWorkerTick 9, OpReject (Some (''60'', [])), OpConfirmTick 9]"]
  show ?thesis by (auto simp: same_order_def final_status_def demo_withdrawal_def)
qed

text \<open>C18: from a start in which nothing has been sent, no withdrawal is ever handed to the chain twice,
  however many workers process it, however old what they read of it is, and whatever is lost.\<close>

theorem withdrawal_broadcast_once:
  assumes "sent_withdrawals s = []" and "distinct (map wr_id (withdrawals s))"
  shows "distinct (sent_withdrawals (fold (api_step e) ops s))"
proof -
  have "keeps_sent s (fold (api_step e) ops s)"
    by (rule fold_relation [where R = keeps_sent, OF api_step_sent]) (simp_all add: keeps_sent_def)
  moreover have "sent_inv s" using assms by (simp add: sent_inv_def)
  ultimately show ?thesis by (simp add: keeps_sent_def sent_inv_def)
qed

lemmas demo_wapi_simps = demo_wapi_def demo_env_def demo_chain_def

lemma demo_process:
  "api_step demo_env (OpProcess 9 (item_of demo_withdrawal)) (demo_wapi [''completed_at''] [demo_withdrawal]) =
     (demo_wapi [''completed_at''] [demo_withdrawal\<lparr>wr_status := ''BROADCASTED'', wr_tx_hash := Some ''t'', wr_sent_at := Some 9\<rparr>])
       \<lparr>api_balances := [(7, ''USDT'') \<mapsto> \<lparr>ab_available = Num 200, ab_frozen = Num 0\<rparr>], sent_withdrawals := [60]\<rparr>"
  by (simp add: demo_wapi_simps demo_withdrawal_def item_of_def processOneWithdrawal_def updateWithdrawalStatus_def
      update_status_stmt_def update_withdrawals_def is_status_def wd_check_def set_status_def withdrawal_statuses_def
      call_chain_def finish_broadcast_def burnWithdrawalBalance_def update_api_balance_def store_api_balance_def
      n_sub_def n_greatest_def Let_def)

theorem withdrawal_broadcast_once_witness:
  "let s' = fold (api_step demo_env) [OpProcess 9 (item_of demo_withdrawal), OpProcess 9 (item_of demo_withdrawal)]
      (demo_wapi [''completed_at''] [demo_withdrawal])
   in 60 \<in> set (sent_withdrawals s') \<and> distinct (sent_withdrawals s')"
proof -
  let ?ops = "[OpProcess 9 (item_of demo_withdrawal), OpProcess 9 (item_of demo_withdrawal)]"
  have "distinct (sent_withdrawals (fold (api_step demo_env) ?ops (demo_wapi [''completed_at''] [demo_withdrawal])))"
    by (rule withdrawal_broadcast_once) (simp_all add: demo_wapi_def)
  moreover have "60 \<in> set (sent_withdrawals (fold (api_step demo_env) ?ops (demo_wapi [''completed_at''] [demo_withdrawal])))"
    by (simp del: api_step.simps add: demo_process)
      (simp add: demo_wapi_simps demo_withdrawal_def item_of_def processOneWithdrawal_def updateWithdrawalStatus_def
        update_status_stmt_def update_withdrawals_def is_status_def)
  ultimately show ?thesis by (simp add: Let_def)
qed

text \<open>On the schema the migrations create no run ever sends a withdrawal, and one that is pending
  stays pending for ever: the worker's status update names a column that does not exist.\<close>

theorem migrated_withdrawals_stuck:
  assumes "withdrawal_columns s = migrated_columns" and "r \<in> set (withdrawals s)" and "wr_status r = ''PENDING''"
  shows "sent_withdrawals (fold (api_step e) ops s) = sent_withdrawals s \<and>
    (\<exists>r' \<in> set (withdrawals (fold (api_step e) ops s)). same_order r r' \<and> wr_status r' = ''PENDING'')"
proof -
  have "stuck_rel s (fold (api_step e) ops s)"
    by (rule fold_relation [where R = stuck_rel]) (auto intro: api_step_stuck stuck_rel_same stuck_rel_trans)
  then show ?thesis using assms no_completed_at by (simp add: stuck_rel_def)
qed

theorem migrated_withdrawals_stuck_witness:
  "sent_withdrawals (fold (api_step demo_env) (replicate 60 (OpWorkerTick 9)) (demo_wapi migrated_columns [demo_withdrawal])) = []"
proof -
  have "demo_withdrawal \<in> set (withdrawals (demo_wapi migrated_columns [demo_withdrawal]))"
    "withdrawal_columns (demo_wapi migrated_columns [demo_withdrawal]) = migrated_columns"
    "wr_status demo_withdrawal = ''PENDING''"
    by (simp_all add: demo_wapi_def demo_withdrawal_def)
  from migrated_withdrawals_stuck [OF this(2,1,3), of demo_env "replicate 60 (OpWorkerTick 9)", THEN conjunct1]
  show ?thesis by (rule trans) (simp add: demo_wapi_def)
qed

end
