(* ===== verification/WalletApi_Money.thy ===== *)
theory WalletApi_Money
  imports WalletApi_Safety
begin

text \<open>
  What a request does to the money: a withdrawal locks its amount or changes nothing, a key is used
  once, an amount that is not a number goes through, and the two ways back from frozen differ.
\<close>

subsection \<open>Creating\<close>

lemma wd_store_amount:
  "wd_store r = Some r' \<Longrightarrow> n_store (wr_amount r) = Some (wr_amount r') \<and> wr_risk_score r' = wr_risk_score r"
  by (auto simp: wd_store_def split: option.splits dest!: wd_check_SomeD)

lemma store_api_balance_Num:
  assumes "store_api_balance (Num x) (Num y) = Some b"
  shows "b = \<lparr>ab_available = Num (num18 x), ab_frozen = Num (num18 y)\<rparr> \<and> 0 \<le> num18 x \<and> 0 \<le> num18 y"
  using assms by (auto simp: store_api_balance_def numeric_38_18_def split: option.splits if_splits)

lemma tables_idem: "tables s = tables t \<Longrightarrow> find_idem u k s = find_idem u k t"
  and tables_withdrawals: "tables s = tables t \<Longrightarrow> withdrawals s = withdrawals t"
  using tables_parts [of s t] by (simp_all add: find_idem_def)


text \<open>C20: however often a request with the same idempotency key is repeated, with the same or another
  body and whatever the earlier attempts answered, it records at most one withdrawal; once the key
  is recorded, further requests change nothing.\<close>

theorem idempotency_key_once:
  assumes "TrimSpace hdr \<noteq> []"
  shows "let s' = fold (\<lambda>(i, now, db_now, body) t. snd (createWithdrawal ni oob i now db_now u hdr body t)) reqs s
    in (withdrawals s' = withdrawals s \<or>
        (\<exists>w. withdrawals s' = withdrawals s @ [w] \<and> find_idem u (TrimSpace hdr) s' = Some (wr_id w))) \<and>
       (find_idem u (TrimSpace hdr) s \<noteq> None \<longrightarrow> tables s' = tables s)"
proof -
  let ?key = "TrimSpace hdr"
  let ?f = "\<lambda>(i, now, db_now, body) t. snd (createWithdrawal ni oob i now db_now u hdr body t)"
  have step: "tables (?f q t) = tables t \<or>
      find_idem u ?key t = None \<and> (\<exists>w. withdrawals (?f q t) = withdrawals t @ [w] \<and> find_idem u ?key (?f q t) = Some (wr_id w))"
    for q and t :: "'a wapi_db_scheme"
  proof -
    obtain i now db_now body where q: "q = (i, now, db_now, body)" by (cases q)
    obtain resp t' where run: "createWithdrawal ni oob i now db_now u hdr body t = (resp, t')" by force
    have "find_idem u ?key t = None \<and> (\<exists>w. withdrawals t' = withdrawals t @ [w] \<and> find_idem u ?key t' = Some (wr_id w))"
      if rec: "withdrawal_recorded ni i db_now u ?key req f score t t'" for req f score
    proof -
      obtain x w where w: "wd_store (new_withdrawal i db_now u req x score) = Some w" "withdrawals t' = withdrawals t @ [w]"
        and k: "find_idem u ?key t = None" "idempotency t' = idempotency t @ [((u, ?key), i)]"
        using rec assms by (auto simp: withdrawal_recorded_def)
      have "find_idem u ?key t' = Some i"
        using k by (simp add: find_idem_def tbl_find_append)
      then show ?thesis using w k wd_store_id [OF w(1)] by (simp add: new_withdrawal_def)
    qed
    then show ?thesis
      using createWithdrawal_outcome_aux [OF run] q run by (auto simp: create_outcome_def)
  qed
  have kept: "tables (fold ?f qs t) = tables t" if "find_idem u ?key t \<noteq> None" for qs and t :: "'a wapi_db_scheme"
    using that
  proof (induction qs arbitrary: t)
    case (Cons q qs)
    have t: "tables (?f q t) = tables t" using step [of q t] Cons.prems by blast
    have "find_idem u ?key (?f q t) \<noteq> None"
      unfolding tables_idem [OF t] by (rule Cons.prems)
    then show ?case using Cons.IH [of "?f q t"] t by simp
  qed simp
  have "withdrawals (fold ?f reqs t) = withdrawals t \<or>
      (\<exists>w. withdrawals (fold ?f reqs t) = withdrawals t @ [w] \<and> find_idem u ?key (fold ?f reqs t) = Some (wr_id w))"
    for t :: "'a wapi_db_scheme"
  proof (induction reqs arbitrary: t)
    case (Cons q qs)
    show ?case
      using step [of q t]
    proof
      assume "tables (?f q t) = tables t"
      then have "withdrawals (?f q t) = withdrawals t" by (rule tables_withdrawals)
      then show ?thesis using Cons.IH [of "?f q t"] by simp
    next
      assume a: "find_idem u ?key t = None \<and> (\<exists>w. withdrawals (?f q t) = withdrawals t @ [w] \<and> find_idem u ?key (?f q t) = Some (wr_id w))"
      then have "tables (fold ?f qs (?f q t)) = tables (?f q t)"
        by (intro kept) auto
      then have "withdrawals (fold ?f qs (?f q t)) = withdrawals (?f q t)"
        "find_idem u ?key (fold ?f qs (?f q t)) = find_idem u ?key (?f q t)"
        by (rule tables_withdrawals, rule tables_idem)
      then show ?thesis using a by simp
    qed
  qed simp
  then show ?thesis using kept by (simp add: Let_def)
qed


subsection \<open>When the database answers\<close>

lemma tx_acked [simp]:
  "faults s = [] \<Longrightarrow> \<not> tx_aborted s \<Longrightarrow> tx_query q s = (Some (q s), s)"
  "faults s = [] \<Longrightarrow> \<not> tx_aborted s \<Longrightarrow> f s = Some (n, t) \<Longrightarrow> tx_exec f s = (Some n, t)"
  "faults s = [] \<Longrightarrow> begin_tx s = (True, s\<lparr>tx_aborted := False\<rparr>)"
  "faults s = [] \<Longrightarrow> \<not> tx_aborted s \<Longrightarrow> commit_tx s0 s = (True, s)"
  by (simp_all add: tx_query_def tx_exec_def begin_tx_def commit_tx_def)

lemma computeRiskScore_acked:
  "faults s = [] \<Longrightarrow> \<not> tx_aborted s \<Longrightarrow> \<exists>r. computeRiskScore now db_now u d f s = (r, s)"
  by (simp add: computeRiskScore_def Let_def)

lemma tronValidateAddress_length: "tronValidateAddress a \<Longrightarrow> length a = 34"
  by (simp add: tronValidateAddress_def)

lemma create_accepts:
  assumes "faults s = []" and user: "find_api_user u s = Some usr" "\<not> au_is_bot usr"
    and c: "check_request oob (Some req) = Inr (req, f)" and key: "TrimSpace hdr = []"
    and b: "api_balances s (u, ''USDT'') = Some b" "\<not> flt (n_float (ab_available b)) f"
    and x: "ni (cr_amount req) = Some x" "n_store x = Some x'"
    and b': "store_api_balance (n_sub (ab_available b) x) (n_add (ab_frozen b) x) = Some b'"
    and fresh: "i \<notin> wr_id ` set (withdrawals s)"
  shows "\<exists>score fs s'. createWithdrawal ni oob i now db_now u hdr (Some req) s =
      (Created (http_status (initial_status score)) i (initial_status score) score fs (riskActionMessage (initial_status score)), s') \<and>
    faults s' = [] \<and> api_users s' = api_users s \<and> api_balances s' = (api_balances s)((u, ''USDT'') \<mapsto> b') \<and>
    (\<exists>w. withdrawals s' = withdrawals s @ [w] \<and> wr_id w = i)"
proof -
  have asset: "ToUpper (TrimSpace (cr_asset req)) = ''USDT''"
    and dest: "length (TrimSpace (cr_destination req)) \<le> 128"
    using c by (auto simp: check_request_def split: if_splits option.splits dest: tronValidateAddress_length)
  let ?s1 = "s\<lparr>tx_aborted := False\<rparr>"
  let ?s2 = "?s1\<lparr>api_balances := (api_balances s)((u, ''USDT'') \<mapsto> b')\<rparr>"
  have lock: "lock_balance ni u (cr_amount req) ''USDT'' ?s1 = Some (1, ?s2)"
    using x b b' by (simp add: lock_balance_def update_api_balance_def)
  obtain score fs where rs: "computeRiskScore now db_now u (cr_destination req) f ?s2 = ((score, fs), ?s2)"
    using computeRiskScore_acked [of ?s2 now db_now u "cr_destination req" f] assms(1) by auto
  let ?st = "initial_status score"
  let ?w = "(new_withdrawal i db_now u req x score)\<lparr>wr_amount := x', wr_receive := x'\<rparr>"
  have "?st \<in> set withdrawal_statuses" by (simp add: initial_status_def withdrawal_statuses_def)
  then have store: "wd_store (new_withdrawal i db_now u req x score) = Some ?w"
    using x dest by (simp add: wd_store_def wd_check_def new_withdrawal_def)
  have ins: "insert_withdrawal ni i db_now u (ToUpper (TrimSpace (cr_chain req))) ''USDT'' (cr_amount req)
      (TrimSpace (cr_destination req)) ?st score ?s2 = Some (1, ?s2\<lparr>withdrawals := withdrawals s @ [?w]\<rparr>)"
  proof -
    have u: "u \<in> au_id ` set (api_users s)"
      using user(1) by (auto simp: find_api_user_def dest!: tbl_find_SomeD)
    have "insert_withdrawal ni i db_now u (ToUpper (TrimSpace (cr_chain req))) ''USDT'' (cr_amount req)
        (TrimSpace (cr_destination req)) ?st score ?s2 =
      Option.bind (wd_store (new_withdrawal i db_now u req x score)) (\<lambda>r.
        map_option (\<lambda>ws. (1, ?s2\<lparr>withdrawals := ws\<rparr>)) (tbl_insert wr_id r (withdrawals s)))"
      using u x asset by (simp add: insert_withdrawal_def new_withdrawal_def)
    then show ?thesis using fresh store by (simp add: tbl_insert_def new_withdrawal_def)
  qed
  have "createWithdrawal ni oob i now db_now u hdr (Some req) s = withdrawal_body ni i now db_now u [] req f ?s1 ?s1"
    using assms(1) user c key by (simp add: createWithdrawal_def)
  also have "\<dots> = (Created (http_status ?st) i ?st score fs (riskActionMessage ?st), ?s2\<lparr>withdrawals := withdrawals s @ [?w]\<rparr>)"
    using assms(1) b by (simp add: withdrawal_body_def asset lock rs ins Let_def)
  finally show ?thesis using assms(1) by (auto simp: new_withdrawal_def)
qed

definition demo_address :: string where
  "demo_address = ''TR7NHqjeKQxGTCi8q8ZY4pL8otSzgjLj6t''"

definition demo_create :: "string \<Rightarrow> create_request" where
  "demo_create amount = \<lparr>cr_chain = '' tron'', cr_asset = ''usdt'', cr_destination = demo_address, cr_amount = amount\<rparr>"

lemma demo_checked:
  "check_request (\<lambda>_. 2 ^ 63) (Some (demo_create ''150'')) = Inr (demo_create ''150'', FFin 150)"
  "check_request (\<lambda>_. 2 ^ 63) (Some (demo_create ''NaN'')) = Inr (demo_create ''NaN'', FNaN)"
proof -
  have a: "ToUpper (TrimSpace '' tron'') = ''TRON''" "ToUpper (TrimSpace ''usdt'') = ''USDT''"
    "tronValidateAddress (TrimSpace demo_address)"
    "ParseFloat ''150'' = Some (FFin 150)" "ParseFloat ''NaN'' = Some FNaN"
    by code_simp+
  have u: "to_uint64 (\<lambda>_. 2 ^ 63) (fmul (FFin 150) (FFin 1000000)) = 150000000"
    using round64_of_int [of 150000000] by (simp add: to_uint64_def)
  show "check_request (\<lambda>_. 2 ^ 63) (Some (demo_create ''150'')) = Inr (demo_create ''150'', FFin 150)"
    "check_request (\<lambda>_. 2 ^ 63) (Some (demo_create ''NaN'')) = Inr (demo_create ''NaN'', FNaN)"
    using a u by (simp_all add: check_request_def demo_create_def minAmount_def) (simp add: to_uint64_def)
qed


theorem idempotency_key_once_witness:
  "let s' = fold (\<lambda>(i, now, db_now, body) t. snd (createWithdrawal (ae_numeric_in demo_env) (\<lambda>_. 2 ^ 63) i now db_now 7 '' k '' body t))
       [(61, 9, 9, Some (demo_create ''150'')), (62, 9, 9, Some (demo_create ''20''))] (demo_wapi [] [])
   in length (withdrawals s') \<le> 1"
  using idempotency_key_once [where hdr = "'' k ''" and reqs = "[(61, 9, 9, Some (demo_create ''150'')), (62, 9, 9, Some (demo_create ''20''))]"
      and ni = "ae_numeric_in demo_env" and oob = "\<lambda>_. 2 ^ 63" and u = 7 and s = "demo_wapi [] []"]
  by (auto simp: Let_def demo_wapi_def TrimSpace_def is_space_def)

text \<open>A user with any balance of USDT can withdraw the amount NaN, if the conversion of a float that is
  no number gives a large integer: the request passes every check, both balances become NaN, and
  after that a request for any amount is accepted too.\<close>

theorem nan_withdrawal_poisons:
  assumes "faults s = []" and "find_api_user u s = Some usr" and "\<not> au_is_bot usr"
    and "api_balances s (u, ''USDT'') = Some b"
    and "check_request oob (Some req) = Inr (req, FNaN)" and "ni (cr_amount req) = Some NaN"
    and "check_request oob (Some other) = Inr (other, f)" and "ni (cr_amount other) = Some (Num a)" and "\<bar>num18 a\<bar> < 10 ^ 20"
    and "i \<notin> wr_id ` set (withdrawals s)" and "j \<notin> wr_id ` set (withdrawals s)" and "i \<noteq> j"
  shows "\<exists>c st sc fs m s1 c2 st2 sc2 fs2 m2 s2.
    createWithdrawal ni oob i now db_now u [] (Some req) s = (Created c i st sc fs m, s1) \<and>
    createWithdrawal ni oob j now db_now u [] (Some other) s1 = (Created c2 j st2 sc2 fs2 m2, s2) \<and>
    api_balances s2 (u, ''USDT'') = Some \<lparr>ab_available = NaN, ab_frozen = NaN\<rparr>"
proof -
  have key: "TrimSpace [] = []" by (simp add: TrimSpace_def)
  have nan: "n_add x NaN = NaN" "n_sub x NaN = NaN" for x by (cases x; simp add: n_sub_def)+
  let ?n = "\<lparr>ab_available = NaN, ab_frozen = NaN\<rparr>"
  have cmp: "\<not> flt x FNaN" for x by (cases x) simp_all
  have store: "store_api_balance NaN NaN = Some ?n" by (simp add: store_api_balance_def)
  have "\<exists>score fs s1. createWithdrawal ni oob i now db_now u [] (Some req) s =
      (Created (http_status (initial_status score)) i (initial_status score) score fs (riskActionMessage (initial_status score)), s1) \<and>
    faults s1 = [] \<and> api_users s1 = api_users s \<and> api_balances s1 = (api_balances s)((u, ''USDT'') \<mapsto> ?n) \<and>
    (\<exists>w. withdrawals s1 = withdrawals s @ [w] \<and> wr_id w = i)"
    by (rule create_accepts [where ni = ni and req = req, OF assms(1-3,5) key assms(4) _ assms(6)]) (use assms nan store cmp in simp_all)
  then obtain score fs s1 w where 1: "createWithdrawal ni oob i now db_now u [] (Some req) s =
      (Created (http_status (initial_status score)) i (initial_status score) score fs (riskActionMessage (initial_status score)), s1)"
    and s1: "faults s1 = []" "api_users s1 = api_users s" "api_balances s1 = (api_balances s)((u, ''USDT'') \<mapsto> ?n)"
      "withdrawals s1 = withdrawals s @ [w]" "wr_id w = i"
    by blast
  have u1: "find_api_user u s1 = Some usr" using assms(2) s1 by (simp add: find_api_user_def)
  have b1: "api_balances s1 (u, ''USDT'') = Some ?n" using s1 by simp
  have "\<exists>score fs s2. createWithdrawal ni oob j now db_now u [] (Some other) s1 =
      (Created (http_status (initial_status score)) j (initial_status score) score fs (riskActionMessage (initial_status score)), s2) \<and>
    faults s2 = [] \<and> api_users s2 = api_users s1 \<and> api_balances s2 = (api_balances s1)((u, ''USDT'') \<mapsto> ?n) \<and>
    (\<exists>w. withdrawals s2 = withdrawals s1 @ [w] \<and> wr_id w = j)"
    by (rule create_accepts [where ni = ni and req = other, OF s1(1) u1 assms(3,7) key b1 _ assms(8)])
      (use assms store s1 in \<open>auto simp: numeric_38_18_def n_sub_def\<close>)
  then show ?thesis using 1 s1 by fastforce
qed


theorem nan_withdrawal_poisons_witness:
  "\<exists>c st sc fs m s1 c2 st2 sc2 fs2 m2 s2.
    createWithdrawal (ae_numeric_in demo_env) (\<lambda>_. 2 ^ 63) 61 9 9 7 [] (Some (demo_create ''NaN'')) (demo_wapi [] []) = (Created c 61 st sc fs m, s1) \<and>
    createWithdrawal (ae_numeric_in demo_env) (\<lambda>_. 2 ^ 63) 62 9 9 7 [] (Some (demo_create ''150'')) s1 = (Created c2 62 st2 sc2 fs2 m2, s2) \<and>
    api_balances s2 (7, ''USDT'') = Some \<lparr>ab_available = NaN, ab_frozen = NaN\<rparr>"
  by (rule nan_withdrawal_poisons [where ni = "ae_numeric_in demo_env" and req = "demo_create ''NaN''" and other = "demo_create ''150''",
        OF _ _ _ _ demo_checked(2) _ demo_checked(1), where a = 150
        and usr = "\<lparr>au_id = 7, au_is_bot = False, au_created_at = 0\<rparr>" and b = "\<lparr>ab_available = Num 200, ab_frozen = Num 30\<rparr>"])
    (simp_all add: demo_wapi_def find_api_user_def tbl_find_def demo_env_def demo_create_def)

subsection \<open>Giving frozen funds back\<close>

text \<open>When an administrator rejects a withdrawal under review, its row becomes REJECTED and the amount
  leaves the frozen balance without coming back to the available one, so the user loses it; the
  worker's own failure path, in contrast, gives the same amount back.\<close>

theorem rejected_review_loses_funds:
  assumes "faults s = []" and "distinct (map wr_id (withdrawals s))"
    and "r \<in> set (withdrawals s)" "wr_status r = ''MANUAL_REVIEW''" "wr_amount r = Num a" "ui wid = Some (wr_id r)"
    and "length (wr_dest r) \<le> 128" "wr_tx_hash r = None"
    and "api_balances s (wr_user r, wr_asset r) = Some \<lparr>ab_available = Num v, ab_frozen = Num z\<rparr>"
    and "0 \<le> v" "0 < a" "a \<le> z" "scale18 v" "scale18 z" "scale18 a" "v + z < 10 ^ 20"
  shows "(\<exists>s'. rejectReviewWithdrawal ui (Some (wid, reason)) s = (Inr (wr_id r), s') \<and>
      api_balances s' (wr_user r, wr_asset r) = Some \<lparr>ab_available = Num v, ab_frozen = Num (z - a)\<rparr> \<and>
      rejected_row reason r \<in> set (withdrawals s')) \<and>
    api_balances (unlockWithdrawalBalance (wr_user r) (wr_asset r) (wr_amount r) s) (wr_user r, wr_asset r) =
      Some \<lparr>ab_available = Num (v + a), ab_frozen = Num (z - a)\<rparr>"
proof -
  let ?P = "is_status (wr_id r) ''MANUAL_REVIEW''"
  let ?g = "\<lambda>q. if ?P q then rejected_row reason q else q"
  let ?s1 = "s\<lparr>tx_aborted := False\<rparr>" and ?k = "(wr_user r, wr_asset r)"
  let ?ws = "map ?g (withdrawals s)"
  have uniq: "?P q \<longleftrightarrow> q = r" if "q \<in> set (withdrawals s)" for q
    using assms(2-4) that by (auto simp: is_status_def distinct_map inj_on_def)
  have "tbl_update ?P (\<lambda>q. wd_check (rejected_row reason q)) (withdrawals s) =
      Some (length (filter ?P (withdrawals s)), map (\<lambda>q. if ?P q then the (wd_check (rejected_row reason q)) else q) (withdrawals s))"
    by (rule tbl_update_ok) (use uniq assms(7,8) in \<open>auto simp: wd_check_def rejected_row_def withdrawal_statuses_def\<close>)
  also have "map (\<lambda>q. if ?P q then the (wd_check (rejected_row reason q)) else q) (withdrawals s) = ?ws"
    by (rule map_cong [OF refl]) (use uniq assms(7,8) in \<open>auto simp: wd_check_def rejected_row_def withdrawal_statuses_def\<close>)
  finally have upd: "update_withdrawals ?P (rejected_row reason) ?s1 =
      Some (length (filter ?P (withdrawals s)), ?s1\<lparr>withdrawals := ?ws\<rparr>)"
    by (simp add: update_withdrawals_def)
  have n: "length (filter ?P (withdrawals s)) \<noteq> 0"
    using assms(3) uniq by (auto simp: filter_empty_conv)
  have found: "find_withdrawal (wr_id r) (?s1\<lparr>withdrawals := ?ws\<rparr>) = Some (rejected_row reason r)"
  proof -
    have "tbl_find wr_id (wr_id r) (withdrawals s) = Some r"
      using assms(2,3) by (rule tbl_find_distinct)
    then have "tbl_find wr_id (wr_id r) ?ws = Some (?g r)"
      by (subst tbl_find_map) (simp_all add: rejected_row_def)
    then show ?thesis using uniq assms(3) by (simp add: find_withdrawal_def)
  qed
  have g: "n_greatest (n_sub (Num a) (Num z)) (Num 0) = Num 0" "n_greatest (n_sub (Num z) (Num a)) (Num 0) = Num (z - a)"
    "n_least (Num a) (Num z) = Num a"
    using assms by (auto simp: n_greatest_def n_sub_def n_least_def)
  have st: "store_api_balance (Num v) (Num (z - a)) = Some \<lparr>ab_available = Num v, ab_frozen = Num (z - a)\<rparr>"
    "store_api_balance (Num (v + a)) (Num (z - a)) = Some \<lparr>ab_available = Num (v + a), ab_frozen = Num (z - a)\<rparr>"
    using assms by (simp_all add: store_api_balance_def)
  have unf: "unfreeze_rejected (wr_user r) (wr_asset r) (Num a) (?s1\<lparr>withdrawals := ?ws\<rparr>) =
      Some (1, ?s1\<lparr>withdrawals := ?ws, api_balances := (api_balances s)(?k \<mapsto> \<lparr>ab_available = Num v, ab_frozen = Num (z - a)\<rparr>)\<rparr>)"
    using assms(9) g st by (simp add: unfreeze_rejected_def update_api_balance_def)
  have "rejectReviewWithdrawal ui (Some (wid, reason)) s = (Inr (wr_id r),
      ?s1\<lparr>withdrawals := ?ws, api_balances := (api_balances s)(?k \<mapsto> \<lparr>ab_available = Num v, ab_frozen = Num (z - a)\<rparr>)\<rparr>)"
    using assms(1,5,6) upd n found unf by (simp add: rejectReviewWithdrawal_def rejected_row_def)
  moreover have "rejected_row reason r \<in> set ?ws"
    using uniq assms(3) by (auto intro: rev_image_eqI)
  moreover have "api_balances (unlockWithdrawalBalance (wr_user r) (wr_asset r) (wr_amount r) s) (wr_user r, wr_asset r) =
      Some \<lparr>ab_available = Num (v + a), ab_frozen = Num (z - a)\<rparr>"
    using assms(1,5,9) g st by (simp add: unlockWithdrawalBalance_def update_api_balance_def)
  ultimately show ?thesis by simp
qed

theorem rejected_review_loses_funds_witness:
  "\<exists>s'. rejectReviewWithdrawal (ae_uuid_in demo_env) (Some (''60'', [])) (demo_wapi [] [demo_withdrawal\<lparr>wr_status := ''MANUAL_REVIEW''\<rparr>]) =
      (Inr 60, s') \<and> api_balances s' (7, ''USDT'') = Some \<lparr>ab_available = Num 200, ab_frozen = Num 0\<rparr>"
  using rejected_review_loses_funds [where s = "demo_wapi [] [demo_withdrawal\<lparr>wr_status := ''MANUAL_REVIEW''\<rparr>]"
      and r = "demo_withdrawal\<lparr>wr_status := ''MANUAL_REVIEW''\<rparr>" and a = 30 and v = 200 and z = 30
      and ui = "ae_uuid_in demo_env" and wid = "''60''" and reason = "[]"]
  by (auto simp: demo_wapi_def demo_withdrawal_def demo_env_def)

subsection \<open>Units and ticks\<close>

lemma round64_pos: "0 < x \<Longrightarrow> round_pos x < 2 ^ 1024 \<Longrightarrow> round64 x = FFin (round_pos x)"
  by (simp add: round64_def Let_def)

lemma small_normal: "1 / 2 ^ 20 \<le> (x :: rat) \<Longrightarrow> 2 powi (- 1022) \<le> x"
proof -
  assume x: "1 / 2 ^ 20 \<le> x"
  have "(2 :: rat) powi (- 1022) \<le> 2 powi (- 20)" by (rule powi_mono2) simp
  also have "(2 :: rat) powi (- 20) = inverse (2 powi 20)" by (rule power_int_minus)
  also have "\<dots> = 1 / 2 ^ 20" by (simp only: power_int_numeral inverse_eq_divide)
  also note x
  finally show ?thesis .
qed

lemma abs_diff_leD: "\<bar>a - b\<bar> \<le> (c :: rat) \<Longrightarrow> a \<le> b + c \<and> b \<le> a + c"
  by (simp add: abs_le_iff algebra_simps)

lemma below_overflow: "(x :: rat) < 2 ^ 64 \<Longrightarrow> x < 2 ^ 1024"
proof -
  assume "x < 2 ^ 64"
  also have "(2 :: rat) ^ 64 \<le> 2 ^ 1024" by (rule power_increasing) simp_all
  finally show ?thesis .
qed

text \<open>For an amount of k millionths below two to the 51st, what the worker asks the chain to transfer is k
  units, or k - 1 units when the multiplication of the float lands just below an integer.\<close>

theorem usdtToUnits_bounds:
  assumes "0 < k" and "k < 2 ^ 51"
  shows "usdtToUnits oob (Some (n_float (Num (of_nat k / 10 ^ 6)))) \<in> {k - 1, k}"
proof -
  define K :: rat where "K = of_nat k"
  have "K < of_nat (2 ^ 51)" unfolding K_def using assms(2) by (simp only: of_nat_less_iff)
  then have K: "1 \<le> K" "K < 2 ^ 51" using assms(1) by (simp_all add: K_def)
  define x where "x = K / 10 ^ 6"
  have x: "1 / 2 ^ 20 \<le> x" "0 < x" "x < 2 ^ 51" using K by (simp_all add: x_def)
  define y where "y = round_pos x"
  have y: "\<bar>y - x\<bar> \<le> x / 2 ^ 53" unfolding y_def by (rule round_pos_rel [OF small_normal [OF x(1)]])
  define Y where "Y = y * 10 ^ 6"
  have xK: "x * 10 ^ 6 = K" by (simp add: x_def)
  have "\<bar>Y - K\<bar> = \<bar>y - x\<bar> * 10 ^ 6" unfolding Y_def xK [symmetric] by (simp add: abs_if left_diff_distrib)
  then have Y: "\<bar>Y - K\<bar> \<le> K / 2 ^ 53" using y xK by simp
  have yb: "0 < y" "y < 2 ^ 64" using abs_diff_leD [OF y] x by simp_all
  have Yb: "1 / 2 ^ 20 \<le> Y" "0 < Y" using abs_diff_leD [OF Y] K by simp_all
  define w where "w = round_pos Y"
  have w: "\<bar>w - Y\<bar> \<le> Y / 2 ^ 53" unfolding w_def by (rule round_pos_rel [OF small_normal [OF Yb(1)]])
  have d: "K - 1 < w" "w < K + 1" using abs_diff_leD [OF w] abs_diff_leD [OF Y] K by simp_all
  have wb: "- 1 < w" "w < 2 ^ 64" using d K by simp_all
  have "round64 x = FFin y" using round64_pos [OF x(2)] below_overflow [OF yb(2)] by (simp only: y_def [symmetric])
  moreover have "round64 Y = FFin w" using round64_pos [OF Yb(2)] below_overflow [OF wb(2)] by (simp only: w_def [symmetric])
  ultimately have "usdtToUnits oob (Some (n_float (Num x))) = nat \<lfloor>w\<rfloor>"
    using wb by (simp add: usdtToUnits_def to_uint64_def Y_def)
  moreover have "\<lfloor>w\<rfloor> = int k - 1 \<or> \<lfloor>w\<rfloor> = int k"
    using d unfolding K_def by (simp add: floor_eq_iff) linarith
  ultimately show ?thesis using assms(1) by (auto simp: x_def K_def)
qed

lemma round_even_near: "\<bar>of_int m - x\<bar> < 1 / 2 \<Longrightarrow> round_even x = m"
proof -
  assume "\<bar>of_int m - x\<bar> < 1 / 2"
  then have "\<bar>(of_int (round_even x) :: rat) - of_int m\<bar> < 1" using round_even_error [of x] by linarith
  then have "\<bar>round_even x - m\<bar> < 1" by (simp flip: of_int_diff of_int_abs)
  then show ?thesis by linarith
qed

lemma round_pos_near:
  assumes "ilog2 x = e + 52" and "- 1074 \<le> e" and "\<bar>of_int m - x * 2 powi (- e)\<bar> < 1 / 2"
  shows "round_pos x = of_int m * 2 powi e"
proof -
  have u: "ulp_exp x = e" using assms by (simp add: ulp_exp_def)
  have "x / 2 powi e = x * 2 powi (- e)" by (simp add: power_int_minus divide_inverse)
  then show ?thesis using round_even_near [OF assms(3)] by (simp add: round_pos_def u)
qed

text \<open>The amount 0.125014 is sent one unit short.\<close>

lemma units_0_125014: "usdtToUnits oob (Some (n_float (Num (of_nat 125014 / 10 ^ 6)))) = 125013"
proof -
  let ?y = "of_int 4504104030528761 * 2 powi (- 55) :: rat" and ?w = "of_int 8590896664674303 * 2 powi (- 36) :: rat"
  have 1: "round_pos (125014 / 10 ^ 6) = ?y"
    by (rule round_pos_near) (simp_all add: ilog2_eq power_int_minus)
  have 2: "round_pos (?y * 1000000) = ?w"
    by (rule round_pos_near) (simp_all add: ilog2_eq power_int_minus)
  have "?y < 2 ^ 64" "?w < 2 ^ 64" "0 < ?y" by (simp_all add: power_int_minus)
  then have "round64 (125014 / 10 ^ 6) = FFin ?y" "round64 (?y * 1000000) = FFin ?w"
    using round64_pos 1 2 below_overflow by (metis zero_less_divide_iff zero_less_numeral zero_less_power, metis mult_pos_pos zero_less_numeral)
  then have "usdtToUnits oob (Some (n_float (Num (of_nat 125014 / 10 ^ 6)))) = to_uint64 oob (FFin ?w)"
    by (simp add: usdtToUnits_def)
  also have "\<dots> = 125013"
  proof -
    have "\<lfloor>?w\<rfloor> = 125013" by (rule floor_unique) (simp_all add: power_int_minus)
    moreover have "- 1 < ?w" by (simp add: power_int_minus)
    ultimately show ?thesis using \<open>?w < 2 ^ 64\<close> by (simp only: to_uint64_def float64.case if_True simp_thms)
  qed
  finally show ?thesis .
qed

theorem usdtToUnits_bounds_witness:
  "usdtToUnits (\<lambda>_. 0) (Some (n_float (Num (of_nat 125014 / 10 ^ 6)))) \<in> {125013, 125014} \<and>
   usdtToUnits (\<lambda>_. 0) (Some (n_float (Num (of_nat 125014 / 10 ^ 6)))) = 125014 - 1"
  using usdtToUnits_bounds [of 125014 "\<lambda>_. 0"] units_0_125014 [of "\<lambda>_. 0"] by simp


text \<open>The text bumpUnknownTick builds up.\<close>

definition tick_text :: "nat \<Rightarrow> string" where
  "tick_text n = unknown_prefix @ concat (replicate n ''1,'')"

lemma LastIndex_absent: "p \<noteq> [] \<Longrightarrow> hd p \<notin> set s \<Longrightarrow> LastIndex s p = None"
  by (induction s) (auto split: option.splits, metis HasPrefix.simps(3) list.collapse)

lemma like_prefix_self: "like_prefix (p @ t) p"
  by (induction p) auto

lemma tick_text_props:
  "countUnknownTicks (tick_text (Suc n)) = 1" "like_contains (tick_text n) unknown_prefix"
  "bump_text (Some (tick_text n)) = tick_text (Suc n)" "bump_text None = tick_text 1"
proof -
  let ?t = "concat (replicate n ''1,'')"
  have t: "CHR ''u'' \<notin> set (rest @ ?t)" if "CHR ''u'' \<notin> set rest" for rest
    using that by auto
  have "LastIndex (unknown_prefix @ ''1,'' @ ?t) unknown_prefix = Some 0"
  proof -
    have "LastIndex (tl unknown_prefix @ ''1,'' @ ?t) unknown_prefix = None"
      by (rule LastIndex_absent) (auto simp: unknown_prefix_def)
    moreover have "HasPrefix (unknown_prefix @ ''1,'' @ ?t) unknown_prefix" by (rule HasPrefix_append)
    moreover have "unknown_prefix @ ''1,'' @ ?t = CHR ''u'' # tl unknown_prefix @ ''1,'' @ ?t"
      by (simp add: unknown_prefix_def)
    ultimately show ?thesis by (simp only: LastIndex.simps option.case if_True)
  qed
  then show "countUnknownTicks (tick_text (Suc n)) = 1"
    by (simp add: countUnknownTicks_def tick_text_def digit_of_def wrap_int64_def)
  have "like_contains (unknown_prefix @ ?t) unknown_prefix"
    using like_prefix_self [of unknown_prefix ?t] by (cases "unknown_prefix @ ?t") (auto simp: unknown_prefix_def)
  then show l: "like_contains (tick_text n) unknown_prefix" by (simp add: tick_text_def)
  have r: "concat (replicate n ''1,'') @ ''1,'' = ''1,'' @ concat (replicate n ''1,'')"
    by (induction n) auto
  show "bump_text (Some (tick_text n)) = tick_text (Suc n)"
    using l r by (simp add: bump_text_def Let_def) (simp add: tick_text_def)
  show "bump_text None = tick_text 1"
    by (simp add: bump_text_def tick_text_def)
qed

definition ticking :: "uuid \<Rightarrow> 'x wapi_db_scheme \<Rightarrow> bool" where
  "ticking i s \<longleftrightarrow> (\<forall>r \<in> set (withdrawals s). wr_id r = i \<longrightarrow> in_flight i r \<and> (wr_error_msg r = None \<or> (\<exists>n. wr_error_msg r = Some (tick_text (Suc n)))))"

lemma bump_ticking:
  assumes "ticking i s"
  shows "ticking i (snd (bumpUnknownTick i s))"
proof -
  let ?g = "\<lambda>r. r\<lparr>wr_error_msg := Some (bump_text (wr_error_msg r))\<rparr>"
  obtain k s1 where 1: "exec_stmt (update_withdrawals (in_flight i) ?g) s = (k, s1)" by force
  have t1: "ticking i s1"
    using exec_update_tables [OF 1]
  proof
    assume "tables s1 = tables s \<and> k = None"
    then show ?thesis using assms tables_withdrawals by (metis ticking_def)
  next
    assume "tables s1 = tables (s\<lparr>withdrawals := map (\<lambda>r. if in_flight i r then ?g r else r) (withdrawals s)\<rparr>) \<and>
      (\<forall>n. k = Some n \<longrightarrow> n = length (filter (in_flight i) (withdrawals s)))"
    then have w: "withdrawals s1 = map (\<lambda>r. if in_flight i r then ?g r else r) (withdrawals s)"
      using tables_withdrawals by force
    have "in_flight i (?g r) \<and> (\<exists>n. wr_error_msg (?g r) = Some (tick_text (Suc n)))"
      if r: "r \<in> set (withdrawals s)" "wr_id r = i" for r
    proof -
      have "in_flight i r" and m: "wr_error_msg r = None \<or> (\<exists>n. wr_error_msg r = Some (tick_text (Suc n)))"
        using assms r by (auto simp: ticking_def)
      moreover have "\<exists>n. bump_text (wr_error_msg r) = tick_text (Suc n)"
        using m by (auto simp: tick_text_props(3,4))
      ultimately show ?thesis by (simp add: in_flight_def)
    qed
    then show ?thesis using assms by (auto simp: ticking_def w)
  qed
  obtain v s2 where 2: "query (find_withdrawal i) s1 = (v, s2)" by force
  have t2: "ticking i s2" using t1 tables_withdrawals [OF query_tables [OF 2]] by (simp add: ticking_def)
  have "countUnknownTicks (case wr_error_msg r of None \<Rightarrow> [] | Some t \<Rightarrow> t) < unknownThresholdTicks"
    if "v = Some (Some r)" for r
  proof -
    have "find_withdrawal i s2 = Some r" using that query_casesD [OF 2] by auto
    then have "wr_error_msg r = None \<or> (\<exists>n. wr_error_msg r = Some (tick_text (Suc n)))"
      using t2 by (auto simp: find_withdrawal_def ticking_def dest!: tbl_find_SomeD)
    moreover have "countUnknownTicks [] = 0" by (simp add: countUnknownTicks_def unknown_prefix_def)
    ultimately show ?thesis by (auto simp: tick_text_props(1) unknownThresholdTicks_def)
  qed
  then show ?thesis using 1 2 t1 t2 by (auto simp: bumpUnknownTick_def split: option.splits)
qed

text \<open>A broadcast withdrawal the chain does not know is never demoted to BROADCAST_UNKNOWN, however many
  confirmation ticks find it unknown: the count a tick reads back is always one, and the threshold
  is twelve.\<close>

theorem unknown_ticks_never_reach:
  assumes "ticking i s"
  shows "\<forall>r \<in> set (withdrawals (((\<lambda>t. snd (bumpUnknownTick i t)) ^^ n) s)).
    wr_id r = i \<longrightarrow> wr_status r \<in> {''BROADCASTED'', ''IN_BLOCK''}"
proof -
  have "ticking i (((\<lambda>t. snd (bumpUnknownTick i t)) ^^ n) s)"
    by (induction n) (simp_all add: assms bump_ticking)
  then show ?thesis by (auto simp: ticking_def in_flight_def)
qed

theorem unknown_ticks_never_reach_witness:
  "\<not> list_ex (\<lambda>r. wr_id r = 60 \<and> wr_status r = ''BROADCAST_UNKNOWN'')
     (withdrawals (((\<lambda>t. snd (bumpUnknownTick 60 t)) ^^ 100) (demo_wapi [] [demo_withdrawal\<lparr>wr_status := ''BROADCASTED''\<rparr>])))"
proof -
  have "ticking 60 (demo_wapi [] [demo_withdrawal\<lparr>wr_status := ''BROADCASTED''\<rparr>])"
    by (simp add: ticking_def demo_wapi_def demo_withdrawal_def in_flight_def)
  from unknown_ticks_never_reach [OF this, of 100] show ?thesis by (auto simp: list_ex_iff)
qed

end
