(* ===== verification/Sweeps.thy ===== *)
theory Sweeps
  imports WalletApi_Safety
begin

text \<open>
  The sweeps of deposit addresses to the hot wallet, cmd/wallet-api/main.go over sweep_tasks
  (migrations 0029 and 0034): the planner, the worker and the confirmation watcher. Their amounts
  are NUMERIC(38, 0), which Postgres rounds on the way in.
\<close>

subsection \<open>The table\<close>

text \<open>The ids come from a sequence; a statement that inserts nothing uses one up all the same.\<close>

record 'c sweep_db = "'c worker_db" +
  sweep_seq :: nat

definition numeric_38_0 :: "numeric \<Rightarrow> numeric option" where
  "numeric_38_0 x =
     (case x of
        Num y \<Rightarrow>
          (let n = (if 0 \<le> y then \<lfloor>y + 1 / 2\<rfloor> else - \<lfloor>1 / 2 - y\<rfloor>)
           in if \<bar>n\<bar> < 10 ^ 38 then Some (Num (of_int n)) else None)
      | NaN \<Rightarrow> Some NaN
      | _ \<Rightarrow> None)"

text \<open>The column cast to text.\<close>

definition sweep_amount_text :: "numeric \<Rightarrow> string" where
  "sweep_amount_text x =
     (case x of NaN \<Rightarrow> ''NaN'' | PInf \<Rightarrow> ''Infinity'' | NInf \<Rightarrow> ''-Infinity'' | Num y \<Rightarrow> Itoa \<lfloor>y\<rfloor>)"

definition sweep_check :: "sweep_task \<Rightarrow> sweep_task option" where
  "sweep_check r = (if (case sw_tx_hash r of None \<Rightarrow> True | Some h \<Rightarrow> length h \<le> 128) then Some r else None)"

definition update_sweeps ::
  "(sweep_task \<Rightarrow> bool) \<Rightarrow> (sweep_task \<Rightarrow> sweep_task) \<Rightarrow> ('c, 'x) worker_db_scheme \<Rightarrow> (nat \<times> ('c, 'x) worker_db_scheme) option" where
  "update_sweeps P f s =
     map_option (\<lambda>(n, ts). (n, s\<lparr>sweep_tasks := ts\<rparr>)) (tbl_update P (\<lambda>r. sweep_check (f r)) (sweep_tasks s))"

definition sweep_at :: "nat \<Rightarrow> string \<Rightarrow> sweep_task \<Rightarrow> bool" where
  "sweep_at i status r \<longleftrightarrow> sw_id r = i \<and> sw_status r = status"

subsection \<open>The worker\<close>

record sweep_item =
  si_ID :: nat
  si_Amount :: string
  si_FromAddr :: string
  si_ToAddr :: string

definition sweep_item_of :: "chain_address list \<Rightarrow> sweep_task \<Rightarrow> sweep_item option" where
  "sweep_item_of addrs r =
     (case (tbl_find ca_id (sw_from_id r) addrs, tbl_find ca_id (sw_to_id r) addrs) of
        (Some fa, Some ta) \<Rightarrow> Some \<lparr>si_ID = sw_id r, si_Amount = sweep_amount_text (sw_amount r),
          si_FromAddr = ca_address fa, si_ToAddr = ca_address ta\<rparr>
      | _ \<Rightarrow> None)"

definition sweep_maxPerTick :: nat where
  "sweep_maxPerTick = 3"

text \<open>The join leaves out a task whose addresses are missing. The row locks end with the statement.\<close>

definition pending_sweeps :: "('c, 'x) worker_db_scheme \<Rightarrow> sweep_item list" where
  "pending_sweeps s =
     take sweep_maxPerTick (List.map_filter (sweep_item_of (chain_addresses s))
       (sort_key sw_created_at (filter (\<lambda>r. sw_status r = ''PENDING'') (sweep_tasks s))))"

definition failed_sweep :: "int \<Rightarrow> string \<Rightarrow> sweep_task \<Rightarrow> sweep_task" where
  "failed_sweep db_now errMsg r = r\<lparr>sw_status := ''FAILED'', sw_last_error := Some errMsg, sw_completed_at := Some db_now\<rparr>"

definition failSweep ::
  "int \<Rightarrow> nat \<Rightarrow> string \<Rightarrow> string \<Rightarrow> ('c, 'x) worker_db_scheme \<Rightarrow> ('c, 'x) worker_db_scheme" where
  "failSweep db_now i fromStatus errMsg s =
     snd (exec_stmt (update_sweeps (sweep_at i fromStatus) (failed_sweep db_now errMsg)) s)"

text \<open>
  The three statements that move a task on look at the error of the statement only, not at the
  number of rows it changed.
\<close>

definition move_sweep ::
  "nat \<Rightarrow> string \<Rightarrow> (sweep_task \<Rightarrow> sweep_task) \<Rightarrow> ('c, 'x) worker_db_scheme \<Rightarrow> bool \<times> ('c, 'x) worker_db_scheme" where
  "move_sweep i fromStatus f s =
     (case exec_stmt (update_sweeps (sweep_at i fromStatus) f) s of (r, s1) \<Rightarrow> (r \<noteq> None, s1))"

definition finish_sweep ::
  "int \<Rightarrow> nat \<Rightarrow> string \<Rightarrow> (string + BroadcastResult) \<Rightarrow> ('c, 'x) worker_db_scheme \<Rightarrow> ('c, 'x) worker_db_scheme" where
  "finish_sweep db_now i buildHash res s =
     (case res of
        Inl err \<Rightarrow> failSweep db_now i ''AWAITING_BROADCAST'' err s
      | Inr resp \<Rightarrow>
          (let txHash = (if bc_TxHash resp = [] then buildHash else bc_TxHash resp) in
           snd (move_sweep i ''AWAITING_BROADCAST''
             (\<lambda>r. r\<lparr>sw_status := ''BROADCASTED'', sw_tx_hash := Some txHash, sw_broadcast_at := Some db_now\<rparr>) s)))"

text \<open>Without a contract in the environment sweeps move USDT, where withdrawals move TRX.\<close>

definition sweep_contract :: "worker_config \<Rightarrow> string" where
  "sweep_contract cfg = (if wc_contract cfg = [] then ''TR7NHqjeKQxGTCi8q8ZY4pL8otSzgjLj6t'' else wc_contract cfg)"

definition processOneSweep ::
  "'c chain_ops \<Rightarrow> worker_config \<Rightarrow> (float64 \<Rightarrow> nat) \<Rightarrow> int \<Rightarrow> sweep_item
    \<Rightarrow> ('c, 'x) worker_db_scheme \<Rightarrow> (unit option) \<times> ('c, 'x) worker_db_scheme" where
  "processOneSweep ops cfg oob db_now it s =
     (case move_sweep (si_ID it) ''PENDING'' (\<lambda>r. r\<lparr>sw_status := ''BUILDING'', sw_built_at := Some db_now\<rparr>) s of
        (False, s1) \<Rightarrow> (Some (), s1)
      | (True, s1) \<Rightarrow>
          (let bad = (Some (), failSweep db_now (si_ID it) ''BUILDING'' (''bad amount '' @ CHR ''\"'' # si_Amount it @ [CHR ''\"'']) s1) in
           case ParseFloat (si_Amount it) of
             None \<Rightarrow> bad
           | Some amountFloat \<Rightarrow>
               if fle amountFloat (FFin 0) then bad
               else
                 (case call_chain (ch_BuildTransfer ops (si_FromAddr it) (si_ToAddr it)
                         (to_uint64 oob (fmul amountFloat (FFin 1000000))) (sweep_contract cfg)) s1 of
                    (Inl err, s2) \<Rightarrow> (Some (), failSweep db_now (si_ID it) ''BUILDING'' err s2)
                  | (Inr build, s2) \<Rightarrow>
                      (case move_sweep (si_ID it) ''BUILDING'' (\<lambda>r. r\<lparr>sw_status := ''AWAITING_SIGN''\<rparr>) s2 of
                         (False, s3) \<Rightarrow> (Some (), s3)
                       | (True, s3) \<Rightarrow>
                           (case call_chain (ch_Sign ops (br_RawTx build)) s3 of
                              (Inl err, s4) \<Rightarrow> (Some (), failSweep db_now (si_ID it) ''AWAITING_SIGN'' err s4)
                            | (Inr (signedTx, h), s4) \<Rightarrow>
                                if length signedTx < length (br_RawTx build) then (None, s4)
                                else
                                  (let sig = drop (length (br_RawTx build)) signedTx in
                                   if length sig \<noteq> 65
                                   then (Some (), failSweep db_now (si_ID it) ''AWAITING_SIGN''
                                          (''bad signature length '' @ Itoa (int (length sig))) s4)
                                   else
                                     (case move_sweep (si_ID it) ''AWAITING_SIGN''
                                             (\<lambda>r. r\<lparr>sw_status := ''AWAITING_BROADCAST'', sw_signed_at := Some db_now\<rparr>) s4 of
                                        (False, s5) \<Rightarrow> (Some (), s5)
                                      | (True, s5) \<Rightarrow>
                                          if wc_dry_run cfg
                                          then (Some (), snd (move_sweep (si_ID it) ''AWAITING_BROADCAST''
                                                 (\<lambda>r. r\<lparr>sw_status := ''SIGNED'', sw_tx_hash := Some (br_TxHash build),
                                                   sw_last_error := Some (''dry-run sig='' @ hex_encode sig)\<rparr>) s5))
                                          else
                                            (case call_chain (ch_BroadcastSigned ops (br_RawData build) sig)
                                                    (s5\<lparr>sent_sweeps := sent_sweeps s5 @ [si_ID it]\<rparr>) of
                                               (res, s6) \<Rightarrow> (Some (), finish_sweep db_now (si_ID it) (br_TxHash build) res s6)))))))))"

fun process_sweeps ::
  "'c chain_ops \<Rightarrow> worker_config \<Rightarrow> (float64 \<Rightarrow> nat) \<Rightarrow> int \<Rightarrow> sweep_item list
    \<Rightarrow> ('c, 'x) worker_db_scheme \<Rightarrow> (unit option) \<times> ('c, 'x) worker_db_scheme" where
  "process_sweeps ops cfg oob db_now [] s = (Some (), s)"
| "process_sweeps ops cfg oob db_now (it # its) s =
     (case processOneSweep ops cfg oob db_now it s of
        (None, s1) \<Rightarrow> (None, s1)
      | (Some _, s1) \<Rightarrow> process_sweeps ops cfg oob db_now its s1)"

definition processPendingSweeps ::
  "'c chain_ops \<Rightarrow> worker_config \<Rightarrow> (float64 \<Rightarrow> nat) \<Rightarrow> int \<Rightarrow> ('c, 'x) worker_db_scheme \<Rightarrow> (unit option) \<times> ('c, 'x) worker_db_scheme" where
  "processPendingSweeps ops cfg oob db_now s =
     (case query pending_sweeps s of
        (None, s1) \<Rightarrow> (Some (), s1)
      | (Some its, s1) \<Rightarrow> process_sweeps ops cfg oob db_now its s1)"

subsection \<open>The planner\<close>

definition active_of :: "string \<Rightarrow> chain_address \<Rightarrow> bool" where
  "active_of wallet_type a \<longleftrightarrow> ca_chain a = ''TRON'' \<and> ca_wallet_type a = wallet_type \<and> ca_status a = ''ACTIVE''"

definition hot_wallet :: "('c, 'x) worker_db_scheme \<Rightarrow> chain_address option" where
  "hot_wallet s =
     (case sort_key ca_created_at (filter (active_of ''HOT'') (chain_addresses s)) of [] \<Rightarrow> None | a # _ \<Rightarrow> Some a)"

definition recent_sweeps :: "int \<Rightarrow> uuid \<Rightarrow> ('c, 'x) worker_db_scheme \<Rightarrow> nat" where
  "recent_sweeps db_now i s =
     length (filter (\<lambda>r. sw_from_id r = i \<and> sw_status r \<noteq> ''FAILED'' \<and> db_now - hour_ns < sw_created_at r) (sweep_tasks s))"

definition insert_sweep ::
  "int \<Rightarrow> uuid \<Rightarrow> uuid \<Rightarrow> rat \<Rightarrow> ('c, 'x) sweep_db_scheme \<Rightarrow> (nat \<times> ('c, 'x) sweep_db_scheme) option" where
  "insert_sweep db_now from to x s =
     (case numeric_38_0 (Num x) of
        None \<Rightarrow> None
      | Some a \<Rightarrow>
          (let i = sweep_seq s; s1 = s\<lparr>sweep_seq := Suc i\<rparr> in
           if list_ex (\<lambda>r. sw_from_id r = from \<and> sw_asset r = ''USDT'' \<and> sw_status r = ''PENDING'') (sweep_tasks s)
           then Some (0, s1)
           else if from \<in> ca_id ` set (chain_addresses s) \<and> to \<in> ca_id ` set (chain_addresses s)
           then Some (1, s1\<lparr>sweep_tasks := sweep_tasks s @
             [\<lparr>sw_id = i, sw_chain = ''TRON'', sw_asset = ''USDT'', sw_from_id = from, sw_to_id = to, sw_amount = a,
               sw_status = ''PENDING'', sw_tx_hash = None, sw_last_error = None, sw_created_at = db_now, sw_built_at = None,
               sw_signed_at = None, sw_broadcast_at = None, sw_solidified_at = None, sw_completed_at = None\<rparr>]\<rparr>)
           else None))"

text \<open>
  One deposit address. Uint64 gives the low 64 bits of the balance; its quotient is always finite.
  A cooldown query that fails counts for nothing.
\<close>

definition plan_one ::
  "'c chain_ops \<Rightarrow> string \<Rightarrow> nat \<Rightarrow> int \<Rightarrow> uuid \<Rightarrow> chain_address \<Rightarrow> ('c, 'x) sweep_db_scheme \<Rightarrow> ('c, 'x) sweep_db_scheme" where
  "plan_one ops contract thresholdUnits db_now hotID d s =
     (case call_chain (ch_GetBalance ops (ca_address d) contract) s of
        (Inl err, s1) \<Rightarrow> s1
      | (Inr None, s1) \<Rightarrow> s1
      | (Inr (Some n), s1) \<Rightarrow>
          (let units = n mod 2 ^ 64 in
           if units < thresholdUnits then s1
           else
             (case query (recent_sweeps db_now (ca_id d)) s1 of
                (existing, s2) \<Rightarrow>
                  if (case existing of Some k \<Rightarrow> 0 < k | None \<Rightarrow> False) then s2
                  else (case fdiv_const (round64 (of_nat units)) 1000000 of
                          FFin x \<Rightarrow> snd (exec_stmt (insert_sweep db_now (ca_id d) hotID (fixed6 x)) s2)
                        | _ \<Rightarrow> s2))))"

definition planSweeps ::
  "'c chain_ops \<Rightarrow> string \<Rightarrow> nat \<Rightarrow> int \<Rightarrow> ('c, 'x) sweep_db_scheme \<Rightarrow> ('c, 'x) sweep_db_scheme" where
  "planSweeps ops contract thresholdUnits db_now s =
     (case query (\<lambda>t. filter (active_of ''DEPOSIT'') (chain_addresses t)) s of
        (None, s1) \<Rightarrow> s1
      | (Some deps, s1) \<Rightarrow>
          if deps = [] then s1
          else
            (case query hot_wallet s1 of
               (Some (Some hot), s2) \<Rightarrow> fold (plan_one ops contract thresholdUnits db_now (ca_id hot)) deps s2
             | (_, s2) \<Rightarrow> s2))"

text \<open>The planner's environment: the interval and the threshold, with their defaults.\<close>

definition planner_intervalSec :: "string \<Rightarrow> int" where
  "planner_intervalSec v = (case ParseInt64 v of Some n \<Rightarrow> if 0 < n then n else 600 | None \<Rightarrow> 600)"

definition planner_thresholdUnits :: "(float64 \<Rightarrow> nat) \<Rightarrow> string \<Rightarrow> nat" where
  "planner_thresholdUnits oob v =
     (case ParseFloat v of
        Some f \<Rightarrow> if flt (FFin 0) f then to_uint64 oob (fmul f (FFin 1000000)) else 10 * 1000000
      | None \<Rightarrow> 10 * 1000000)"

subsection \<open>The confirmation watcher\<close>

definition sweep_in_flight :: "nat \<Rightarrow> sweep_task \<Rightarrow> bool" where
  "sweep_in_flight i r \<longleftrightarrow> sw_id r = i \<and> sw_status r \<in> {''BROADCASTED'', ''IN_BLOCK''}"

definition confirm_sweep ::
  "'c chain_ops \<Rightarrow> int \<Rightarrow> nat \<Rightarrow> nat \<times> string \<Rightarrow> ('c, 'x) worker_db_scheme \<Rightarrow> ('c, 'x) worker_db_scheme" where
  "confirm_sweep ops db_now solidifiedHeight it s =
     (case call_chain (ch_GetTransaction ops (snd it)) s of
        (Inl err, s1) \<Rightarrow> s1
      | (Inr tx, s1) \<Rightarrow>
          if solidifiedHeight < tx_BlockNumber tx
          then snd (move_sweep (fst it) ''BROADCASTED'' (\<lambda>r. r\<lparr>sw_status := ''IN_BLOCK''\<rparr>) s1)
          else if tx_Status tx = TxStatusSuccess
          then snd (exec_stmt (update_sweeps (sweep_in_flight (fst it))
                 (\<lambda>r. r\<lparr>sw_status := ''COMPLETED'', sw_solidified_at := Some db_now, sw_completed_at := Some db_now\<rparr>)) s1)
          else if tx_Status tx = TxStatusFailed
          then snd (exec_stmt (update_sweeps (sweep_in_flight (fst it))
                 (failed_sweep db_now ''contract reverted on chain'')) s1)
          else s1)"

definition broadcasted_sweeps :: "('c, 'x) worker_db_scheme \<Rightarrow> (nat \<times> string) list" where
  "broadcasted_sweeps s =
     map (\<lambda>r. (sw_id r, the (sw_tx_hash r))) (take 50 (sort_key sw_created_at
       (filter (\<lambda>r. sw_status r = ''BROADCASTED'' \<and> sw_tx_hash r \<noteq> None) (sweep_tasks s))))"

definition processPendingSweepConfirmations ::
  "'c chain_ops \<Rightarrow> int \<Rightarrow> ('c, 'x) worker_db_scheme \<Rightarrow> ('c, 'x) worker_db_scheme" where
  "processPendingSweepConfirmations ops db_now s =
     (case call_chain (ch_GetSolidifiedBlock ops) s of
        (Inl err, s1) \<Rightarrow> s1
      | (Inr height, s1) \<Rightarrow>
          (case query broadcasted_sweeps s1 of
             (None, s2) \<Rightarrow> s2
           | (Some its, s2) \<Rightarrow> fold (confirm_sweep ops db_now height) its s2))"

subsection \<open>Properties\<close>

lemma update_sweeps_none:
  assumes "\<And>r. r \<in> set (sweep_tasks s) \<Longrightarrow> \<not> P r"
  shows "update_sweeps P f s = Some (0, s)"
  by (simp add: update_sweeps_def assms)

lemma move_sweep_none:
  assumes "faults s = []" and "\<And>r. r \<in> set (sweep_tasks s) \<Longrightarrow> sw_id r = i \<Longrightarrow> sw_status r \<noteq> x"
  shows "move_sweep i x f s = (True, s)"
proof -
  have "update_sweeps (sweep_at i x) f s = Some (0, s)"
    by (rule update_sweeps_none) (use assms(2) in \<open>auto simp: sweep_at_def\<close>)
  then show ?thesis by (simp add: move_sweep_def assms(1))
qed

lemma failSweep_none:
  assumes "faults s = []" and "\<And>r. r \<in> set (sweep_tasks s) \<Longrightarrow> sw_id r = i \<Longrightarrow> sw_status r \<noteq> x"
  shows "failSweep db_now i x msg s = s"
proof -
  have "update_sweeps (sweep_at i x) (failed_sweep db_now msg) s = Some (0, s)"
    by (rule update_sweeps_none) (use assms(2) in \<open>auto simp: sweep_at_def\<close>)
  then show ?thesis by (simp add: failSweep_def assms(1))
qed

text \<open>The statuses the worker's statements look for.\<close>

definition claimable :: "string \<Rightarrow> bool" where
  "claimable x \<longleftrightarrow> x \<in> {''PENDING'', ''BUILDING'', ''AWAITING_SIGN'', ''AWAITING_BROADCAST''}"

text \<open>The sweep worker does not look whether its statement claimed the task: a task another worker has
  already broadcast, completed or failed is built, signed and handed to the chain again, and the
  rows show nothing of it.\<close>

theorem sweep_unguarded:
  assumes "faults s = []" and "\<forall>r \<in> set (sweep_tasks s). sw_id r = si_ID it \<longrightarrow> \<not> claimable (sw_status r)"
    and "ParseFloat (si_Amount it) = Some f" and "\<not> fle f (FFin 0)"
    and "\<And>from to n k c. fst (ch_BuildTransfer ops from to n k c) = Inr build"
    and "\<And>c. fst (ch_Sign ops (br_RawTx build) c) = Inr (br_RawTx build @ sig, h)" and "length sig = 65"
    and "\<not> wc_dry_run cfg"
  shows "\<exists>c. processOneSweep ops cfg oob db_now it s =
    (Some (), s\<lparr>chain_state := c, sent_sweeps := sent_sweeps s @ [si_ID it]\<rparr>)"
proof -
  have gone: "sw_status r \<noteq> x" if "claimable x" "r \<in> set (sweep_tasks s)" "sw_id r = si_ID it" for r x
    using assms(2) that by auto
  have mv: "move_sweep (si_ID it) x g t = (True, t)"
    if "claimable x" "faults t = []" "sweep_tasks t = sweep_tasks s" for x g and t :: "('a, 'b) worker_db_scheme"
    by (rule move_sweep_none) (use that gone in auto)
  have fl: "failSweep db_now (si_ID it) x msg t = t"
    if "claimable x" "faults t = []" "sweep_tasks t = sweep_tasks s" for x msg and t :: "('a, 'b) worker_db_scheme"
    by (rule failSweep_none) (use that gone in auto)
  obtain c1 where 1: "ch_BuildTransfer ops (si_FromAddr it) (si_ToAddr it) (to_uint64 oob (fmul f (FFin 1000000))) (sweep_contract cfg)
      (chain_state s) = (Inr build, c1)"
    using assms(5) by (metis prod.collapse)
  obtain c2 where 2: "ch_Sign ops (br_RawTx build) c1 = (Inr (br_RawTx build @ sig, h), c2)"
    using assms(6) by (metis prod.collapse)
  obtain res c3 where 3: "ch_BroadcastSigned ops (br_RawData build) sig c2 = (res, c3)" by force
  have c: "claimable ''PENDING''" "claimable ''BUILDING''" "claimable ''AWAITING_SIGN''" "claimable ''AWAITING_BROADCAST''"
    by (simp_all add: claimable_def)
  show ?thesis
    by (rule exI [of _ c3])
      (use assms(1,3,4,7,8) in \<open>simp add: processOneSweep_def call_chain_def mv fl c 1 2 3 finish_sweep_def Let_def split: sum.splits\<close>)
qed

theorem sweep_unguarded_witness:
  "\<exists>c. processOneSweep demo_chain (ae_config demo_env) (\<lambda>_. 0) 9 \<lparr>si_ID = 4, si_Amount = ''12'', si_FromAddr = ''T1'', si_ToAddr = ''T2''\<rparr> (demo_wapi [] [])
    = (Some (), (demo_wapi [] [])\<lparr>chain_state := c, sent_sweeps := [4]\<rparr>)"
proof -
  have p: "ParseFloat ''12'' = Some (FFin 12)" by code_simp
  show ?thesis
    using sweep_unguarded [where s = "demo_wapi [] []" and ops = demo_chain and cfg = "ae_config demo_env"
        and it = "\<lparr>si_ID = 4, si_Amount = ''12'', si_FromAddr = ''T1'', si_ToAddr = ''T2''\<rparr>" and f = "FFin 12"
        and sig = "replicate 65 8" and build = "\<lparr>br_RawTx = [8, 9], br_TxHash = ''h'', br_RawData = Some []\<rparr>" and h = "''s''"
        and oob = "\<lambda>_. 0" and db_now = 9] p
    by (simp add: demo_wapi_simps)
qed

lemma to_uint64_of_nat:
  assumes "m < 2 ^ 64"
  shows "to_uint64 oob (FFin (of_nat m)) = m"
proof -
  have "(of_nat m :: rat) < of_nat (2 ^ 64)" using assms by (simp only: of_nat_less_iff)
  then have "(of_nat m :: rat) < 2 ^ 64" by simp
  moreover have "(- 1 :: rat) < of_nat m" by (rule less_le_trans [of _ 0]) simp_all
  ultimately show ?thesis by (simp add: to_uint64_def)
qed

lemma planned_amount:
  assumes "n < 2 ^ 53" and "500000 \<le> n mod 10 ^ 6"
  obtains x where "fdiv_const (round64 (of_nat n)) 1000000 = FFin x"
    "of_nat (n div 10 ^ 6) + 1 / 2 \<le> fixed6 x" "fixed6 x \<le> of_nat (n div 10 ^ 6) + 1"
proof -
  let ?k = "n div 10 ^ 6"
  have k: "int ?k < 2 ^ 51" "\<bar>int ?k + 1\<bar> < 2 ^ 53" using assms(1) by auto
  have n: "n = 1000000 * ?k + n mod 1000000" and m: "n mod 1000000 < 1000000" using mult_div_mod_eq [of "10 ^ 6" n] by simp_all
  have arith: "(2 * k + 1) * 500000 \<le> n" "n \<le> (k + 1) * 1000000"
    if "n = 1000000 * k + r" "500000 \<le> r" "r < 1000000" for k r :: nat
    using that by simp_all
  have a: "(2 * ?k + 1) * 500000 \<le> n" and b: "n \<le> (?k + 1) * 10 ^ 6"
    using arith [of ?k "n mod 1000000"] n m assms(2) by simp_all
  have "of_nat ((2 * ?k + 1) * 500000) \<le> (of_nat n :: rat)" "(of_nat n :: rat) \<le> of_nat ((?k + 1) * 10 ^ 6)"
    using a b by (simp_all only: of_nat_le_iff)
  then have lo: "of_int (int ?k) + 1 / 2 \<le> (of_nat n / 1000000 :: rat)"
    and hi: "(of_nat n / 1000000 :: rat) \<le> of_int (int ?k + 1)"
    by (simp_all add: field_simps)
  obtain y where y: "round64 (of_nat n / 1000000) = FFin y" "of_int (int ?k) + 1 / 2 \<le> y" "y \<le> of_int (int ?k + 1)"
    by (rule round64_between [OF round64_half round64_of_int lo hi]) (use k in simp_all)
  have r: "round64 (of_nat n) = FFin (of_nat n)" using round64_of_int [of "int n"] assms(1) by simp
  have f: "of_int (int ?k * 10 ^ 6 + 500000) \<le> y * 10 ^ 6" "y * 10 ^ 6 \<le> of_int ((int ?k + 1) * 10 ^ 6)"
    using y(2,3) by (simp_all add: field_simps)
  show thesis
    by (rule that [of y]) (use r y(1) fixed6_between [OF f] in \<open>simp_all add: field_simps\<close>)
qed

text \<open>A sweep asks for whole USDT, rounded: when the balance of the address has half a USDT or more
  after the point, the planned task is for more than the address holds, and so is the transfer the
  worker builds for it.\<close>

theorem sweep_exceeds_balance:
  assumes "faults s = []" and "ch_GetBalance ops (ca_address d) contract (chain_state s) = (Inr (Some n), c)"
    and "thresholdUnits \<le> n" and "n < 2 ^ 52" and "500000 \<le> n mod 10 ^ 6"
    and "\<forall>r \<in> set (sweep_tasks s). sw_from_id r \<noteq> ca_id d"
    and "ca_id d \<in> ca_id ` set (chain_addresses s)" and "hotID \<in> ca_id ` set (chain_addresses s)"
  shows "\<exists>r units. plan_one ops contract thresholdUnits db_now hotID d s =
      s\<lparr>chain_state := c, sweep_seq := Suc (sweep_seq s), sweep_tasks := sweep_tasks s @ [r]\<rparr> \<and>
    sw_status r = ''PENDING'' \<and>
    map_option (\<lambda>f. to_uint64 oob (fmul f (FFin 1000000))) (ParseFloat (sweep_amount_text (sw_amount r))) = Some units \<and>
    units = (n div 10 ^ 6 + 1) * 10 ^ 6 \<and> n < units"
proof -
  let ?k = "n div 10 ^ 6"
  let ?s = "s\<lparr>chain_state := c\<rparr>"
  have n53: "n < 2 ^ 53" using assms(4) by simp
  obtain x where x: "fdiv_const (round64 (of_nat n)) 1000000 = FFin x"
    "of_nat ?k + 1 / 2 \<le> fixed6 x" "fixed6 x \<le> of_nat ?k + 1"
    by (rule planned_amount [OF n53 assms(5)])
  have fl: "\<lfloor>fixed6 x + 1 / 2\<rfloor> = int ?k + 1" and pos: "0 \<le> fixed6 x"
    using x(2,3) by (simp_all add: floor_eq_iff)
  have kb: "int ?k + 1 < 2 ^ 52" "(int ?k + 1) * 10 ^ 6 < 2 ^ 53" using assms(4) by simp_all
  have a: "numeric_38_0 (Num (fixed6 x)) = Some (Num (of_int (int ?k + 1)))"
    using fl pos kb(1) by (simp add: numeric_38_0_def Let_def)
  have no: "\<not> list_ex (\<lambda>r. sw_from_id r = ca_id d \<and> sw_asset r = ''USDT'' \<and> sw_status r = ''PENDING'') (sweep_tasks s)"
    "recent_sweeps db_now (ca_id d) ?s = 0"
    using assms(6) by (auto simp: list_ex_iff recent_sweeps_def filter_empty_conv)
  have n64: "n mod 18446744073709551616 = n" using assms(4) by simp
  obtain r where ins: "insert_sweep db_now (ca_id d) hotID (fixed6 x) ?s =
      Some (1, ?s\<lparr>sweep_seq := Suc (sweep_seq s), sweep_tasks := sweep_tasks s @ [r]\<rparr>)"
    and r: "sw_status r = ''PENDING''" "sw_amount r = Num (of_int (int ?k + 1))"
    using a no(1) assms(7,8) by (simp add: insert_sweep_def Let_def)
  have run: "plan_one ops contract thresholdUnits db_now hotID d s =
      s\<lparr>chain_state := c, sweep_seq := Suc (sweep_seq s), sweep_tasks := sweep_tasks s @ [r]\<rparr>"
    using assms(1-3) x(1) no(2) ins by (simp add: plan_one_def call_chain_def n64 Let_def del: fdiv_const.simps)
  have am_text: "sweep_amount_text (sw_amount r) = nat_text (?k + 1)"
    using r(2) by (simp add: sweep_amount_text_def Itoa_def nat_add_distrib)
  have pf: "ParseFloat (nat_text (?k + 1)) = Some (FFin (of_nat (?k + 1)))"
    by (rule ParseFloat_nat_text) (use kb(1) in simp)
  have "round64 (of_int ((int ?k + 1) * 10 ^ 6)) = FFin (of_int ((int ?k + 1) * 10 ^ 6))"
    by (rule round64_of_int) (use kb(2) in simp)
  then have "fmul (FFin (of_nat (?k + 1))) (FFin 1000000) = FFin (of_nat ((?k + 1) * 10 ^ 6))" by (simp add: algebra_simps)
  then have u: "to_uint64 oob (fmul (FFin (of_nat (?k + 1))) (FFin 1000000)) = (?k + 1) * 10 ^ 6"
    using to_uint64_of_nat [of "(?k + 1) * 10 ^ 6" oob] assms(4) by simp
  have "n < (?k + 1) * 10 ^ 6"
    using dividend_less_times_div [of "10 ^ 6" n] by (simp add: algebra_simps)
  then show ?thesis using run r(1) am_text pf u by (intro exI [of _ r] exI [of _ "(?k + 1) * 10 ^ 6"]) simp
qed

definition demo_sweeps :: "unit sweep_db" where
  "demo_sweeps =
     \<lparr>faults = [], tx_aborted = False, api_users = [], api_balances = (\<lambda>_. None), withdrawal_columns = [], withdrawals = [],
      idempotency = [], chain_state = (), sweep_tasks = [],
      chain_addresses = [\<lparr>ca_id = 21, ca_chain = ''TRON'', ca_address = ''T1'', ca_wallet_type = ''DEPOSIT'', ca_status = ''ACTIVE'', ca_created_at = 1\<rparr>,
        \<lparr>ca_id = 22, ca_chain = ''TRON'', ca_address = ''T2'', ca_wallet_type = ''HOT'', ca_status = ''ACTIVE'', ca_created_at = 2\<rparr>],
      sent_withdrawals = [], sent_sweeps = [], sweep_seq = 1\<rparr>"

theorem sweep_exceeds_balance_witness:
  "\<exists>r units. plan_one (demo_chain\<lparr>ch_GetBalance := (\<lambda>_ _ c. (Inr (Some 12500000), c))\<rparr>) ''USDT'' 10000000 9 22
      \<lparr>ca_id = 21, ca_chain = ''TRON'', ca_address = ''T1'', ca_wallet_type = ''DEPOSIT'', ca_status = ''ACTIVE'', ca_created_at = 1\<rparr> demo_sweeps
      = demo_sweeps\<lparr>sweep_seq := 2, sweep_tasks := [r]\<rparr> \<and>
    map_option (\<lambda>f. to_uint64 (\<lambda>_. 0) (fmul f (FFin 1000000))) (ParseFloat (sweep_amount_text (sw_amount r))) = Some units \<and>
    units = 13000000"
proof -
  let ?d = "\<lparr>ca_id = 21, ca_chain = ''TRON'', ca_address = ''T1'', ca_wallet_type = ''DEPOSIT'', ca_status = ''ACTIVE'', ca_created_at = 1\<rparr>"
  let ?ops = "demo_chain\<lparr>ch_GetBalance := (\<lambda>_ _ c. (Inr (Some 12500000), c))\<rparr>"
  have "faults demo_sweeps = []" "ch_GetBalance ?ops (ca_address ?d) ''USDT'' (chain_state demo_sweeps) = (Inr (Some 12500000), ())"
    "(10000000 :: nat) \<le> 12500000" "(12500000 :: nat) < 2 ^ 52" "(500000 :: nat) \<le> 12500000 mod 10 ^ 6"
    "\<forall>r \<in> set (sweep_tasks demo_sweeps). sw_from_id r \<noteq> ca_id ?d"
    "ca_id ?d \<in> ca_id ` set (chain_addresses demo_sweeps)" "(22 :: uuid) \<in> ca_id ` set (chain_addresses demo_sweeps)"
    by (simp_all add: demo_sweeps_def)
  from sweep_exceeds_balance [OF this, of 9 "\<lambda>_. 0"] obtain r units where
    run: "plan_one ?ops ''USDT'' 10000000 9 22 ?d demo_sweeps =
      demo_sweeps\<lparr>chain_state := (), sweep_seq := Suc (sweep_seq demo_sweeps), sweep_tasks := sweep_tasks demo_sweeps @ [r]\<rparr>"
    and u: "map_option (\<lambda>f. to_uint64 (\<lambda>_. 0) (fmul f (FFin 1000000))) (ParseFloat (sweep_amount_text (sw_amount r))) = Some units"
      "units = (12500000 div 10 ^ 6 + 1) * 10 ^ 6"
    by blast
  have "demo_sweeps\<lparr>chain_state := (), sweep_seq := Suc (sweep_seq demo_sweeps), sweep_tasks := sweep_tasks demo_sweeps @ [r]\<rparr> =
      demo_sweeps\<lparr>sweep_seq := 2, sweep_tasks := [r]\<rparr>"
    by (simp add: demo_sweeps_def)
  then show ?thesis using run u by (intro exI [of _ r] exI [of _ units]) simp
qed

end
