(* ===== verification/Sha256.thy ===== *)
theory Sha256
  imports Main "HOL-Library.Word"
begin

unbundle bit_operations_syntax

text \<open>
  crypto/sha256 of Go's standard library (FIPS 180-4), over lists of bytes: what the TRON code
  computes its address checksums and transaction ids with.
\<close>

type_synonym byte = "8 word"

text \<open>
  The constants are the first 32 bits of the fractional parts of the cube roots of the first 64
  primes; the start is the same of the square roots of the first eight.
\<close>

definition sha_primes :: "int list" where
  "sha_primes =
     [2, 3, 5, 7, 11, 13, 17, 19, 23, 29, 31, 37, 41, 43, 47, 53, 59, 61, 67, 71, 73, 79,
      83, 89, 97, 101, 103, 107, 109, 113, 127, 131, 137, 139, 149, 151, 157, 163, 167, 173, 179, 181, 191, 193,
      197, 199, 211, 223, 227, 229, 233, 239, 241, 251, 257, 263, 269, 271, 277, 281, 283, 293, 307, 311]"

definition int_root :: "nat \<Rightarrow> int \<Rightarrow> int" where
  "int_root k n = fold (\<lambda>i r. if (r + 2 ^ i) ^ k \<le> n then r + 2 ^ i else r) (rev [0..<36]) 0"

definition root_bits :: "nat \<Rightarrow> int \<Rightarrow> 32 word" where
  "root_bits k p = word_of_int (int_root k (p * 2 ^ (32 * k)))"

definition sha_ks :: "32 word list" where
  "sha_ks = map (root_bits 3) sha_primes"

record sha_state =
  sh_a :: "32 word"
  sh_b :: "32 word"
  sh_c :: "32 word"
  sh_d :: "32 word"
  sh_e :: "32 word"
  sh_f :: "32 word"
  sh_g :: "32 word"
  sh_h :: "32 word"

definition sha_init :: sha_state where
  "sha_init =
     (let h = (\<lambda>i. root_bits 2 (sha_primes ! i)) in
      \<lparr>sh_a = h 0, sh_b = h 1, sh_c = h 2, sh_d = h 3, sh_e = h 4, sh_f = h 5, sh_g = h 6, sh_h = h 7\<rparr>)"

definition sha_pad :: "byte list \<Rightarrow> byte list" where
  "sha_pad bs =
     (let n = length bs; l = 8 * n
      in bs @ 0x80 # replicate ((119 - n mod 64) mod 64) 0 @ map (\<lambda>i. word_of_nat (l div 256 ^ i)) (rev [0..<8]))"

definition be_word32 :: "byte list \<Rightarrow> 32 word" where
  "be_word32 bs = foldl (\<lambda>w b. push_bit 8 w OR ucast b) 0 bs"

fun chunks_of :: "nat \<Rightarrow> nat \<Rightarrow> 'a list \<Rightarrow> 'a list list" where
  "chunks_of w 0 xs = []"
| "chunks_of w (Suc n) xs = take w xs # chunks_of w n (drop w xs)"

definition sha_schedule :: "32 word list \<Rightarrow> 32 word list" where
  "sha_schedule ws =
     fold (\<lambda>t v.
       let x = v ! (t - 15); y = v ! (t - 2);
           s0 = word_rotr 7 x XOR word_rotr 18 x XOR drop_bit 3 x;
           s1 = word_rotr 17 y XOR word_rotr 19 y XOR drop_bit 10 y
       in v @ [v ! (t - 16) + s0 + v ! (t - 7) + s1]) [16..<64] ws"

definition sha_round :: "32 word \<times> 32 word \<Rightarrow> sha_state \<Rightarrow> sha_state" where
  "sha_round kw s =
     (case kw of (k, w) \<Rightarrow>
        (let e = sh_e s; a = sh_a s;
             s1 = word_rotr 6 e XOR word_rotr 11 e XOR word_rotr 25 e;
             ch = (e AND sh_f s) XOR (NOT e AND sh_g s);
             t1 = sh_h s + s1 + ch + k + w;
             s0 = word_rotr 2 a XOR word_rotr 13 a XOR word_rotr 22 a;
             maj = (a AND sh_b s) XOR (a AND sh_c s) XOR (sh_b s AND sh_c s)
         in \<lparr>sh_a = t1 + (s0 + maj), sh_b = a, sh_c = sh_b s, sh_d = sh_c s,
             sh_e = sh_d s + t1, sh_f = e, sh_g = sh_f s, sh_h = sh_g s\<rparr>))"

definition sha_block :: "byte list \<Rightarrow> sha_state \<Rightarrow> sha_state" where
  "sha_block blk s =
     (let z = fold sha_round (zip sha_ks (sha_schedule (map be_word32 (chunks_of 4 16 blk)))) s
      in \<lparr>sh_a = sh_a s + sh_a z, sh_b = sh_b s + sh_b z, sh_c = sh_c s + sh_c z, sh_d = sh_d s + sh_d z,
          sh_e = sh_e s + sh_e z, sh_f = sh_f s + sh_f z, sh_g = sh_g s + sh_g z, sh_h = sh_h s + sh_h z\<rparr>)"

definition be_bytes32 :: "32 word \<Rightarrow> byte list" where
  "be_bytes32 w = map (\<lambda>i. ucast (drop_bit (8 * i) w)) [3, 2, 1, 0]"

definition sha256 :: "byte list \<Rightarrow> byte list" where
  "sha256 bs =
     (let p = sha_pad bs; s = fold sha_block (chunks_of 64 (length p div 64) p) sha_init
      in concat (map be_bytes32 [sh_a s, sh_b s, sh_c s, sh_d s, sh_e s, sh_f s, sh_g s, sh_h s]))"

lemma length_sha256 [simp]: "length (sha256 bs) = 32"
  by (simp add: sha256_def be_bytes32_def Let_def)

end
