(* ===== verification/Digits.thy ===== *)
theory Digits
  imports Main
begin

text \<open>
  Digits of a number in a base and the number of a list of digits: what the byte and Base58 texts
  of addresses and amounts are read and written with.
\<close>

subsection \<open>Digits, least significant first, and their number, most significant first\<close>

fun digits_of :: "nat \<Rightarrow> nat \<Rightarrow> nat list" where
  "digits_of b n = (if n = 0 \<or> b < 2 then [] else n mod b # digits_of b (n div b))"

declare digits_of.simps [simp del]

definition value_of :: "nat \<Rightarrow> nat list \<Rightarrow> nat" where
  "value_of b ds = foldl (\<lambda>n d. n * b + d) 0 ds"

subsection \<open>Each undoes the other\<close>

lemma digits_of_0 [simp]: "digits_of b 0 = []"
  by (simp add: digits_of.simps)

lemma digits_of_step: "2 \<le> b \<Longrightarrow> d < b \<Longrightarrow> 0 < v * b + d \<Longrightarrow> digits_of b (v * b + d) = d # digits_of b v"
  by (subst digits_of.simps) auto

lemma value_of_snoc [simp]: "value_of b (ds @ [d]) = value_of b ds * b + d"
  by (simp add: value_of_def)

lemma value_of_Nil [simp]: "value_of b [] = 0"
  by (simp add: value_of_def)

lemma value_of_digits_of: "2 \<le> b \<Longrightarrow> value_of b (rev (digits_of b n)) = n"
proof (induction b n rule: digits_of.induct)
  case (1 b n)
  then show ?case
    by (cases "n = 0") (simp_all add: digits_of.simps [of b n] mult.commute)
qed

lemma digits_of_bound: "2 \<le> b \<Longrightarrow> d \<in> set (digits_of b n) \<Longrightarrow> d < b"
proof (induction b n rule: digits_of.induct)
  case (1 b n)
  then show ?case by (cases "n = 0") (auto simp: digits_of.simps [of b n])
qed

lemma digits_of_last: "2 \<le> b \<Longrightarrow> digits_of b n \<noteq> [] \<Longrightarrow> last (digits_of b n) \<noteq> 0"
proof (induction b n rule: digits_of.induct)
  case (1 b n)
  show ?case
  proof (cases "digits_of b (n div b) = []")
    case True
    then have "n div b = 0" using 1(2) by (metis value_of_digits_of rev.simps(1) value_of_Nil)
    then have "n < b" using 1(2) by (simp add: div_eq_0_iff)
    then show ?thesis using 1(2,3) by (cases "n = 0") (simp_all add: digits_of.simps [of b n] True)
  next
    case False
    then have "\<not> (n = 0 \<or> b < 2)" using 1(2) by (cases "n = 0") auto
    from 1(1) [OF this 1(2) False] show ?thesis
      using False \<open>\<not> (n = 0 \<or> b < 2)\<close> by (simp add: digits_of.simps [of b n])
  qed
qed

lemma value_of_0_iff: "0 < b \<Longrightarrow> value_of b ds = 0 \<longleftrightarrow> (\<forall>d \<in> set ds. d = 0)"
  by (induction ds rule: rev_induct) auto

lemma digits_of_value_of:
  assumes "2 \<le> b" and "\<forall>d \<in> set ds. d < b"
  shows "digits_of b (value_of b ds) = rev (dropWhile (\<lambda>d. d = 0) ds)"
  using assms(2)
proof (induction ds rule: rev_induct)
  case (snoc d ds)
  show ?case
  proof (cases "value_of b ds * b + d = 0")
    case True
    then have "\<forall>x \<in> set (ds @ [d]). x = 0" using assms(1) value_of_0_iff [of b "ds @ [d]"] by simp
    then have "dropWhile (\<lambda>d. d = 0) (ds @ [d]) = []" by simp
    moreover have "value_of b (ds @ [d]) = 0" using True by simp
    ultimately show ?thesis by (simp only: digits_of_0 rev.simps)
  next
    case False
    then have step: "digits_of b (value_of b ds * b + d) = d # digits_of b (value_of b ds)"
      using snoc.prems assms(1) by (intro digits_of_step) auto
    show ?thesis
    proof (cases "\<forall>x \<in> set ds. x = 0")
      case True
      then have "d \<noteq> 0" using False assms(1) value_of_0_iff [of b ds] by simp
      then show ?thesis using True snoc step by simp
    next
      case f: False
      then show ?thesis using snoc step by auto
    qed
  qed
qed simp

lemma value_of_replicate_0 [simp]: "value_of b (replicate k 0 @ ds) = value_of b ds"
  by (induction k) (simp_all add: value_of_def)

lemma value_of_bounds:
  assumes "\<forall>d \<in> set ds. d < b"
  shows "value_of b ds < b ^ length ds"
  using assms
proof (induction ds rule: rev_induct)
  case (snoc d ds)
  then have "Suc (value_of b ds) * b \<le> b ^ length ds * b" by (intro mult_le_mono1) simp
  then show ?case using snoc.prems by (simp add: mult.commute)
qed simp

lemma value_of_Cons: "value_of b (d # ds) = d * b ^ length ds + value_of b ds"
  by (induction ds rule: rev_induct) (simp_all add: value_of_def algebra_simps)

end
