(* ===== verification/Tron_Address.thy ===== *)
theory Tron_Address
  imports Go_Strings Sha256 Digits
begin

text \<open>
  TRON addresses: Base58, its checksummed form, and the call data of a token transfer
  (internal/blockchain/tron/keccak.go and the helpers of adapter.go). Base58 decoding is btcd's
  btcutil/base58: the argument dec.
\<close>

text \<open>big.Int's SetBytes and Bytes.\<close>

definition SetBytes :: "byte list \<Rightarrow> nat" where
  "SetBytes bs = value_of 256 (map unat bs)"

definition Bytes :: "nat \<Rightarrow> byte list" where
  "Bytes n = map word_of_nat (rev (digits_of 256 n))"

subsection \<open>keccak.go\<close>

definition base58Alphabet :: string where
  "base58Alphabet = ''123456789ABCDEFGHJKLMNPQRSTUVWXYZabcdefghijkmnopqrstuvwxyz''"

definition base58Encode :: "byte list \<Rightarrow> string" where
  "base58Encode b =
     rev (map ((!) base58Alphabet) (digits_of 58 (SetBytes b)) @
          replicate (length (takeWhile (\<lambda>x. x = 0) b)) (base58Alphabet ! 0))"

definition base58Decode :: "(string \<Rightarrow> byte list) \<Rightarrow> string \<Rightarrow> byte list" where
  "base58Decode dec s = (if s = [] then [] else dec s)"

text \<open>
  What the package documents of its Decode: the value of the digits in base 58, with a zero byte for
  each leading digit 1, and nothing for a text that is not Base58.
\<close>

definition base58_index :: "char \<Rightarrow> nat" where
  "base58_index c = length (takeWhile (\<lambda>x. x \<noteq> c) base58Alphabet)"

definition base58_text :: "string \<Rightarrow> bool" where
  "base58_text s \<longleftrightarrow> list_all (\<lambda>c. c \<in> set base58Alphabet) s"

definition btcutil_Decode :: "(string \<Rightarrow> byte list) \<Rightarrow> bool" where
  "btcutil_Decode dec \<longleftrightarrow>
     (\<forall>s. dec s =
       (if base58_text s
        then replicate (length (takeWhile (\<lambda>c. c = CHR ''1'') s)) 0 @ Bytes (value_of 58 (map base58_index s))
        else []))"

subsection \<open>The checksummed form\<close>

definition sha256Twice :: "byte list \<Rightarrow> byte list" where
  "sha256Twice b = sha256 (sha256 b)"

definition base58CheckEncode :: "byte list \<Rightarrow> string" where
  "base58CheckEncode payload = (if payload = [] then [] else base58Encode (payload @ take 4 (sha256Twice payload)))"

datatype addr_error = TooShort | BadChecksum | BadPrefix | BadLength | BadVersion | BadHex

definition base58CheckDecode :: "(string \<Rightarrow> byte list) \<Rightarrow> string \<Rightarrow> addr_error + byte list" where
  "base58CheckDecode dec s =
     (let raw = base58Decode dec s in
      if length raw < 4 then Inl TooShort
      else
        (let body = take (length raw - 4) raw; cs = drop (length raw - 4) raw in
         if cs \<noteq> take 4 (sha256Twice body) then Inl BadChecksum else Inr body))"

definition ValidateAddress :: "(string \<Rightarrow> byte list) \<Rightarrow> string \<Rightarrow> bool" where
  "ValidateAddress dec addr =
     (case base58CheckDecode dec addr of
        Inl e \<Rightarrow> False
      | Inr decoded \<Rightarrow> length decoded = 21 \<and> hd decoded = 0x41)"

text \<open>hex.DecodeString and hex.EncodeToString.\<close>

definition hex_value :: "char \<Rightarrow> nat option" where
  "hex_value c =
     (let n = of_char c :: nat in
      if 48 \<le> n \<and> n \<le> 57 then Some (n - 48)
      else if 97 \<le> n \<and> n \<le> 102 then Some (n - 87)
      else if 65 \<le> n \<and> n \<le> 70 then Some (n - 55)
      else None)"

fun DecodeString :: "string \<Rightarrow> byte list option" where
  "DecodeString [] = Some []"
| "DecodeString [c] = None"
| "DecodeString (c # d # cs) =
     (case (hex_value c, hex_value d, DecodeString cs) of
        (Some x, Some y, Some bs) \<Rightarrow> Some (word_of_nat (16 * x + y) # bs)
      | _ \<Rightarrow> None)"

definition EncodeToString :: "byte list \<Rightarrow> string" where
  "EncodeToString bs = hex_encode (map unat bs)"

definition normaliseTronAddr :: "(string \<Rightarrow> byte list) \<Rightarrow> string \<Rightarrow> addr_error + string" where
  "normaliseTronAddr dec addr =
     (let stripped = TrimPrefix addr ''0x'' in
      if HasPrefix stripped ''41'' \<and> length stripped = 42 then
        (case DecodeString stripped of
           None \<Rightarrow> Inl BadHex
         | Some body \<Rightarrow> if length body \<noteq> 21 \<or> hd body \<noteq> 0x41 then Inl BadLength else Inr (base58CheckEncode body))
      else if HasPrefix stripped ''T'' then
        (case base58CheckDecode dec stripped of
           Inl e \<Rightarrow> Inl e
         | Inr body \<Rightarrow> if length body \<noteq> 21 \<or> hd body \<noteq> 0x41 then Inl BadLength else Inr stripped)
      else Inl BadPrefix)"

definition base58ToHexTron :: "(string \<Rightarrow> byte list) \<Rightarrow> string \<Rightarrow> addr_error + string" where
  "base58ToHexTron dec addr =
     (if \<not> HasPrefix addr ''T'' \<and> \<not> HasPrefix addr ''41'' then Inl BadPrefix
      else if HasPrefix addr ''41'' then Inr (ToLower addr)
      else
        (case base58CheckDecode dec addr of
           Inl e \<Rightarrow> Inl e
         | Inr decoded \<Rightarrow>
             if length decoded \<noteq> 21 then Inl BadLength
             else if hd decoded \<noteq> 0x41 then Inl BadVersion
             else Inr (''41'' @ EncodeToString (drop 1 decoded))))"

text \<open>
  The call data of transfer(address, uint256). A text too long for the padding makes
  strings.Repeat panic: \<open>None\<close>.
\<close>

fun hex_digits :: "nat \<Rightarrow> string" where
  "hex_digits n = (if n < 16 then [hex_digit n] else hex_digits (n div 16) @ [hex_digit (n mod 16)])"

declare hex_digits.simps [simp del]

definition pad_left :: "nat \<Rightarrow> string \<Rightarrow> string" where
  "pad_left w s = replicate (w - length s) CHR ''0'' @ s"

definition encodeTransferCall :: "string \<Rightarrow> nat \<Rightarrow> string option" where
  "encodeTransferCall toHex41Prefix amount =
     (let addr0 = TrimPrefix toHex41Prefix ''41'' in
      if 40 < length addr0 then None
      else Some (''a9059cbb'' @ pad_left 64 (pad_left 40 addr0) @ pad_left 64 (hex_digits amount)))"

end
