(* ===== verification/Tron_Adapter.thy ===== *)
theory Tron_Adapter
  imports Tron_Address Withdraw_Worker
begin

text \<open>
  The TRON adapter, internal/blockchain/tron/adapter.go: providers and failover, the calls and what
  they make of the answers. HTTP is an argument: the operations of http_net on a world of their own,
  which also has the clock. encoding/json is an argument where a text is read or written.
\<close>

subsection \<open>Providers\<close>

definition NetworkMainnet :: string where "NetworkMainnet = ''mainnet''"
definition NetworkNile :: string where "NetworkNile = ''nile_testnet''"
definition NetworkPrivate :: string where "NetworkPrivate = ''private_testnet''"

record Provider =
  pv_Name :: string
  pv_BaseURL :: string
  pv_APIKey :: string
  pv_Weight :: int
  pv_JSONRPC :: bool
  pv_Health :: int
  pv_RateLimit429At :: int

text \<open>Times and durations are nanoseconds.\<close>

definition RateLimitGrace :: int where
  "RateLimitGrace = 30 * 1000000000"

definition IsAvailable :: "int \<Rightarrow> Provider \<Rightarrow> bool" where
  "IsAvailable now p \<longleftrightarrow>
     (if pv_Health p = 0
      then pv_RateLimit429At p = 0 \<or> RateLimitGrace < now - pv_RateLimit429At p
      else True)"

definition MarkRateLimited :: "int \<Rightarrow> Provider \<Rightarrow> Provider" where
  "MarkRateLimited now p = p\<lparr>pv_RateLimit429At := now, pv_Health := 0\<rparr>"

definition MarkHealthy :: "Provider \<Rightarrow> Provider" where
  "MarkHealthy p = p\<lparr>pv_RateLimit429At := 0, pv_Health := 1\<rparr>"

definition MarkUnhealthy :: "Provider \<Rightarrow> Provider" where
  "MarkUnhealthy p = p\<lparr>pv_Health := 0\<rparr>"

record Adapter =
  ad_Network :: string
  ad_providers :: "Provider list"
  ad_activeIdx :: nat

definition prepare_provider :: "Provider \<Rightarrow> Provider" where
  "prepare_provider p = MarkHealthy (p\<lparr>pv_Weight := (if pv_Weight p = 0 then 1 else pv_Weight p)\<rparr>)"

text \<open>
  The left value is the error. The comparison keeps the given order of equal weights in the
  insertion sort that sort.SliceStable uses for up to twenty elements.
\<close>

definition NewAdapter :: "Provider list \<Rightarrow> string \<Rightarrow> string + Adapter" where
  "NewAdapter ps network =
     (if ps = [] then Inl ''tron: at least one provider is required''
      else
        (case find (\<lambda>i. pv_BaseURL (ps ! i) = []) [0..<length ps] of
           Some i \<Rightarrow> Inl (''tron: provider '' @ Itoa (int i) @ '' BaseURL is empty'')
         | None \<Rightarrow> Inr \<lparr>ad_Network = (if network = [] then NetworkMainnet else network),
             ad_providers = sort_key (\<lambda>p. - pv_Weight p) (map prepare_provider ps), ad_activeIdx = 0\<rparr>))"

definition SetActive :: "string \<Rightarrow> Adapter \<Rightarrow> bool \<times> Adapter" where
  "SetActive name a =
     (case find (\<lambda>i. pv_Name (ad_providers a ! i) = name) [0..<length (ad_providers a)] of
        Some i \<Rightarrow> (True, a\<lparr>ad_activeIdx := i\<rparr>)
      | None \<Rightarrow> (False, a))"

definition ActiveProvider :: "Adapter \<Rightarrow> Provider" where
  "ActiveProvider a = ad_providers a ! (if ad_activeIdx a < length (ad_providers a) then ad_activeIdx a else 0)"

definition failoverToNext :: "int \<Rightarrow> Adapter \<Rightarrow> nat option \<times> Adapter" where
  "failoverToNext now a =
     (let n = length (ad_providers a) in
      case find (\<lambda>k. IsAvailable now (ad_providers a ! ((ad_activeIdx a + k) mod n))) [1..<Suc n] of
        Some k \<Rightarrow> (Some ((ad_activeIdx a + k) mod n), a\<lparr>ad_activeIdx := (ad_activeIdx a + k) mod n\<rparr>)
      | None \<Rightarrow> (None, a))"

definition chainID :: "Adapter \<Rightarrow> nat" where
  "chainID a =
     (if ad_Network a = NetworkNile then 0xcd8690dc
      else if ad_Network a = NetworkPrivate then 0x27
      else 0x2b6653dc)"

subsection \<open>Calls\<close>

record rpc_request =
  hq_Verb :: string
  hq_URL :: string
  hq_APIKey :: string
  hq_ContentType :: string
  hq_Body :: string

text \<open>BadBody is an answer whose body could not be read to its end.\<close>

datatype http_result =
    NoRequest string
  | Unreachable string
  | BadBody nat string string
  | Response nat string

record 'c http_net =
  hn_Do :: "rpc_request \<Rightarrow> 'c \<Rightarrow> http_result \<times> 'c"
  hn_Now :: "'c \<Rightarrow> int"

text \<open>json.Marshal of the parameters, a nil map included, alone and in the JSON-RPC envelope with its method and id.\<close>

record json_codec =
  jc_Marshal :: "json_obj option \<Rightarrow> string"
  jc_MarshalRPC :: "string \<Rightarrow> json_obj option \<Rightarrow> int \<Rightarrow> string"

definition split_method :: "string \<Rightarrow> string \<times> string" where
  "split_method m =
     (case (case IndexByte m CHR '' '' of
              Some i \<Rightarrow> if 0 < i then (take i m, drop (i + 1) m) else (''POST'', m)
            | None \<Rightarrow> (''POST'', m)) of
        (verb, path) \<Rightarrow> (verb, TrimPrefix path ''/''))"

definition TrimSuffix :: "string \<Rightarrow> string \<Rightarrow> string" where
  "TrimSuffix s p = (if HasSuffix s p then take (length s - length p) s else s)"

definition Contains :: "string \<Rightarrow> string \<Rightarrow> bool" where
  "Contains s p \<longleftrightarrow> LastIndex s p \<noteq> None"

text \<open>
  json.Unmarshal reads an answer's text into a variable: it gives an error, if any, and what the
  variable then holds, which an error can leave half filled.
\<close>

type_synonym 'r unmarshal = "string \<Rightarrow> 'r \<Rightarrow> string option \<times> 'r"

text \<open>
  The result is the error, if any, the variable and the world. After a 429 the body has already been
  read, so what the error message quotes of it is empty.
\<close>

definition callJSON ::
  "'c http_net \<Rightarrow> json_codec \<Rightarrow> 'r unmarshal \<Rightarrow> string \<Rightarrow> json_obj option \<Rightarrow> Provider \<Rightarrow> 'r \<Rightarrow> 'c \<Rightarrow> string option \<times> 'r \<times> 'c" where
  "callJSON net jc um method params p out c =
     (case split_method method of
        (verb, path) \<Rightarrow>
          (let base = TrimSuffix (pv_BaseURL p) ''/'';
               req = \<lparr>hq_Verb = verb,
                      hq_URL = (if pv_JSONRPC p then base @ ''/jsonrpc'' else base @ ''/'' @ path),
                      hq_APIKey = pv_APIKey p, hq_ContentType = ''application/json'',
                      hq_Body = (if pv_JSONRPC p then jc_MarshalRPC jc path params (hn_Now net c) else jc_Marshal jc params)\<rparr>
           in case hn_Do net req c of
                (NoRequest e, c1) \<Rightarrow> (Some (''new request: '' @ e), out, c1)
              | (Unreachable e, c1) \<Rightarrow> (Some (pv_Name p @ '' request: '' @ e), out, c1)
              | (BadBody code part e, c1) \<Rightarrow> (Some (pv_Name p @ '' read body: '' @ e), out, c1)
              | (Response code body, c1) \<Rightarrow>
                  (let raw = take (2 ^ 20) body in
                   if code = 429 then (Some (''status=429 from '' @ pv_Name p @ '': ''), out, c1)
                   else if 400 \<le> code then (Some (pv_Name p @ '' http '' @ Itoa (int code) @ '': '' @ raw), out, c1)
                   else
                     (case um raw out of
                        (Some e, out1) \<Rightarrow> (Some (pv_Name p @ '' decode: '' @ e @ '' (body='' @ take 200 raw @ '')''), out1, c1)
                      | (None, out1) \<Rightarrow> (None, out1, c1)))))"

definition isRateLimitErr :: "string \<Rightarrow> bool" where
  "isRateLimitErr s \<longleftrightarrow>
     Contains s ''status=429'' \<or> Contains s ''Too Many Requests'' \<or> Contains s ''rate limit'' \<or> Contains s ''rate-limited''"

definition mark_failed :: "string \<Rightarrow> int \<Rightarrow> Provider \<Rightarrow> Provider" where
  "mark_failed err now p = (if isRateLimitErr err then MarkRateLimited now p else MarkUnhealthy p)"

text \<open>
  The walk over the providers at the offsets left to try; start is where it began. promote says
  whether a provider that is not the active one becomes it when it answers. The result is
  \<open>None\<close> when one has answered, or else the last error.
\<close>

type_synonym ('r, 'c) rpc_call = "Provider \<Rightarrow> 'r \<Rightarrow> 'c \<Rightarrow> string option \<times> 'r \<times> 'c"

fun try_providers ::
  "'c http_net \<Rightarrow> bool \<Rightarrow> ('r, 'c) rpc_call \<Rightarrow> nat \<Rightarrow> nat list \<Rightarrow> string \<Rightarrow> 'r \<Rightarrow> Adapter \<times> 'c
    \<Rightarrow> string option \<times> 'r \<times> Adapter \<times> 'c" where
  "try_providers net promote call start [] lastErr out (a, c) = (Some lastErr, out, a, c)"
| "try_providers net promote call start (k # ks) lastErr out (a, c) =
     (let idx = (start + k) mod length (ad_providers a); p = ad_providers a ! idx in
      if 0 < k \<and> \<not> IsAvailable (hn_Now net c) p then try_providers net promote call start ks lastErr out (a, c)
      else
        (case call p out c of
           (None, out1, c1) \<Rightarrow>
             (None, out1,
              a\<lparr>ad_providers := (ad_providers a)[idx := MarkHealthy p],
                ad_activeIdx := (if promote \<and> 0 < k then idx else ad_activeIdx a)\<rparr>, c1)
         | (Some err, out1, c1) \<Rightarrow>
             try_providers net promote call start ks err out1
               (a\<lparr>ad_providers := (ad_providers a)[idx := mark_failed err (hn_Now net c1) p]\<rparr>, c1)))"

definition callWithFailover ::
  "'c http_net \<Rightarrow> json_codec \<Rightarrow> 'r unmarshal \<Rightarrow> string \<Rightarrow> json_obj option \<Rightarrow> 'r \<Rightarrow> Adapter \<times> 'c
    \<Rightarrow> (string + 'r) \<times> Adapter \<times> 'c" where
  "callWithFailover net jc um method params zero s =
     (let n = length (ad_providers (fst s)) in
      if n = 0 then (Inl ''tron: no providers configured'', s)
      else
        (case try_providers net True (callJSON net jc um method params) (ad_activeIdx (fst s)) [0..<n] ''<nil>'' zero s of
           (None, r, s1) \<Rightarrow> (Inr r, s1)
         | (Some err, r, s1) \<Rightarrow>
             (Inl (''all '' @ Itoa (int n) @ '' providers failed for '' @ method @ '': '' @ err), s1)))"

subsection \<open>What the calls answer\<close>

record now_block =
  nb_Number :: int
  nb_BlockID :: string
  nb_Timestamp :: int

record rawBlock =
  rb_Hash :: string
  rb_RawTimestamp :: int
  rb_Timestamp :: int
  rb_Transactions :: string

record tron_log =
  lg_Address :: string
  lg_Topics :: "string list"
  lg_Data :: string

record tx_info =
  ti_ID :: string
  ti_BlockNumber :: int
  ti_BlockID :: string
  ti_Result :: string
  ti_Logs :: "tron_log list"

record constant_answer =
  co_ConstantResult :: "string list"
  co_Result :: json_obj

record smart_answer =
  sm_TxID :: string
  sm_RawDataHex :: string
  sm_RawData :: string
  sm_Transaction :: "(string \<times> string) option"
  sm_Result :: "json_obj option"

record native_answer =
  na_TxID :: string
  na_RawDataHex :: string
  na_RawData :: "json_obj option"
  na_Result :: "json_obj option"

record broadcast_answer =
  ba_Result :: bool
  ba_TxID :: string
  ba_Message :: string
  ba_Code :: string

text \<open>
  Everything the adapter calls: HTTP, encoding/json with one reader per answer, btcd's Base58
  decoder and go-ethereum's FromHex.
\<close>

record 'c tron_lib =
  tl_net :: "'c http_net"
  tl_codec :: json_codec
  tl_dec :: "string \<Rightarrow> byte list"
  tl_FromHex :: "string \<Rightarrow> byte list"
  tl_now_block :: "now_block unmarshal"
  tl_rawBlock :: "rawBlock unmarshal"
  tl_TxStrings :: "string \<Rightarrow> string list option"
  tl_TxObjects :: "string \<Rightarrow> string list option"
  tl_tx_info :: "tx_info unmarshal"
  tl_marshal_log :: "tron_log \<Rightarrow> string"
  tl_unmarshal_log :: "string \<Rightarrow> tron_log option"
  tl_constant :: "constant_answer unmarshal"
  tl_smart :: "smart_answer unmarshal"
  tl_native :: "native_answer unmarshal"
  tl_broadcast :: "broadcast_answer unmarshal"

definition rpc ::
  "'c tron_lib \<Rightarrow> 'r unmarshal \<Rightarrow> string \<Rightarrow> json_obj option \<Rightarrow> 'r \<Rightarrow> Adapter \<times> 'c \<Rightarrow> (string + 'r) \<times> Adapter \<times> 'c" where
  "rpc lib um method params zero s = callWithFailover (tl_net lib) (tl_codec lib) um method params zero s"

end
