(* ===== verification/Tron_Calls.thy ===== *)
theory Tron_Calls
  imports Tron_Adapter
begin

text \<open>
  The operations of the TRON adapter (adapter.go) over the calls of theory Tron_Adapter: blocks,
  transactions and their transfer events, balances, building and broadcasting. An operation's left
  value is its error; \<open>None\<close> around a result is a panic.
\<close>

datatype tron_error =
    RpcError string
  | AddressError string addr_error
  | DecodeTransactions
  | EmptyAnswer
  | BadHexAnswer
  | NativeBalance
  | SignatureLength nat
  | NilRawData
  | Rejected string
  | AllFailed nat

type_synonym 'c tron = "Adapter \<times> 'c"

text \<open>bind of a call's result: an error is passed on.\<close>

definition with_rpc :: "(string + 'r) \<times> 'c tron \<Rightarrow> ('r \<Rightarrow> tron_error + 'a) \<Rightarrow> (tron_error + 'a) \<times> 'c tron" where
  "with_rpc x f = (case x of (Inl e, s) \<Rightarrow> (Inl (RpcError e), s) | (Inr r, s) \<Rightarrow> (f r, s))"

text \<open>Still a stub: the same pair of texts for every index.\<close>

definition GenerateAddress :: "nat \<Rightarrow> string \<times> string" where
  "GenerateAddress index = (CHR ''T'' # replicate 33 CHR ''0'', ''41'' @ replicate 40 CHR ''0'')"

subsection \<open>Blocks and transactions\<close>

record Block =
  bk_Height :: nat
  bk_Hash :: string
  bk_LogTime :: int
  bk_TxHashes :: "string list"
  bk_IsFinal :: bool

text \<open>The conversion of an int64 to uint64. Times are milliseconds.\<close>

definition to_u64 :: "int \<Rightarrow> nat" where
  "to_u64 n = nat (n mod 2 ^ 64)"

definition GetLatestBlock :: "'c tron_lib \<Rightarrow> 'c tron \<Rightarrow> (tron_error + Block) \<times> 'c tron" where
  "GetLatestBlock lib s =
     with_rpc (rpc lib (tl_now_block lib) ''GET /wallet/getnowblock'' None \<lparr>nb_Number = 0, nb_BlockID = [], nb_Timestamp = 0\<rparr> s)
       (\<lambda>r. Inr \<lparr>bk_Height = to_u64 (nb_Number r), bk_Hash = nb_BlockID r, bk_LogTime = nb_Timestamp r,
                 bk_TxHashes = [], bk_IsFinal = False\<rparr>)"

definition solidifyWindow :: nat where
  "solidifyWindow = 27"

definition GetSolidifiedBlock :: "'c tron_lib \<Rightarrow> 'c tron \<Rightarrow> (tron_error + Block) \<times> 'c tron" where
  "GetSolidifiedBlock lib s =
     (case GetLatestBlock lib s of
        (Inl e, s1) \<Rightarrow> (Inl e, s1)
      | (Inr head, s1) \<Rightarrow>
          (Inr (head\<lparr>bk_Height := (if solidifyWindow < bk_Height head then bk_Height head - solidifyWindow else bk_Height head),
                     bk_IsFinal := True\<rparr>), s1))"

definition getBlockRaw :: "'c tron_lib \<Rightarrow> nat \<Rightarrow> 'c tron \<Rightarrow> (string + rawBlock) \<times> 'c tron" where
  "getBlockRaw lib height s =
     (case rpc lib (tl_rawBlock lib) ''GET /wallet/getblockbynum'' (Some [(''num'', JNum (nat_text height))])
             \<lparr>rb_Hash = [], rb_RawTimestamp = 0, rb_Timestamp = 0, rb_Transactions = []\<rparr> s of
        (Inl e, s1) \<Rightarrow> (Inl e, s1)
      | (Inr r, s1) \<Rightarrow>
          (Inr (if rb_Timestamp r = 0 \<and> rb_RawTimestamp r \<noteq> 0 then r\<lparr>rb_Timestamp := rb_RawTimestamp r\<rparr> else r), s1))"

definition block_hashes :: "'c tron_lib \<Rightarrow> string \<Rightarrow> string list option" where
  "block_hashes lib txs =
     (if txs = [] then Some []
      else
        (case tl_TxStrings lib txs of
           Some (h # hs) \<Rightarrow> Some (h # hs)
         | _ \<Rightarrow> map_option (filter (\<lambda>h. h \<noteq> [])) (tl_TxObjects lib txs)))"

definition GetBlockByNumber :: "'c tron_lib \<Rightarrow> nat \<Rightarrow> 'c tron \<Rightarrow> (tron_error + Block) \<times> 'c tron" where
  "GetBlockByNumber lib height s =
     with_rpc (getBlockRaw lib height s) (\<lambda>rb.
       case block_hashes lib (rb_Transactions rb) of
         None \<Rightarrow> Inl DecodeTransactions
       | Some hashes \<Rightarrow>
           Inr \<lparr>bk_Height = height, bk_Hash = rb_Hash rb,
                bk_LogTime = (if rb_RawTimestamp rb = 0 then rb_Timestamp rb else rb_RawTimestamp rb),
                bk_TxHashes = hashes, bk_IsFinal = True\<rparr>)"

definition receipt_status :: "string \<Rightarrow> int \<Rightarrow> string" where
  "receipt_status result blockNumber =
     (if result = ''SUCCESS'' then TxStatusSuccess
      else if result \<in> {''FAILED'', ''REVERT'', ''OUT_OF_ENERGY''} then TxStatusFailed
      else if result = [] \<and> 0 < blockNumber then TxStatusSuccess
      else TxStatusPending)"

definition getTransactionInfo :: "'c tron_lib \<Rightarrow> string \<Rightarrow> 'c tron \<Rightarrow> (tron_error + Transaction) \<times> 'c tron" where
  "getTransactionInfo lib txHash s =
     with_rpc (rpc lib (tl_tx_info lib) ''POST /wallet/gettransactioninfobyid'' (Some [(''value'', JStr txHash)])
         \<lparr>ti_ID = [], ti_BlockNumber = 0, ti_BlockID = [], ti_Result = [], ti_Logs = []\<rparr> s)
       (\<lambda>r. Inr \<lparr>tx_Hash = ti_ID r, tx_BlockNumber = to_u64 (ti_BlockNumber r), tx_BlockHash = ti_BlockID r,
                 tx_Status = receipt_status (ti_Result r) (ti_BlockNumber r),
                 tx_Events = map (tl_marshal_log lib) (ti_Logs r)\<rparr>)"

definition GetTransaction :: "'c tron_lib \<Rightarrow> string \<Rightarrow> 'c tron \<Rightarrow> (tron_error + Transaction) \<times> 'c tron" where
  "GetTransaction lib txHash s = getTransactionInfo lib txHash s"

subsection \<open>Transfer events\<close>

record TransferEvent =
  te_Index :: nat
  te_Contract :: string
  te_From :: string
  te_To :: string
  te_Amount :: nat
  te_Decimals :: nat

definition transferTopic :: string where
  "transferTopic = ''ddf252ad1be2c89b69c2b068fc378daa952ba7f163c4a11628f55a4df523b3ef''"

text \<open>strings.EqualFold on the ASCII texts of hexadecimal values.\<close>

definition EqualFold :: "string \<Rightarrow> string \<Rightarrow> bool" where
  "EqualFold s t \<longleftrightarrow> ToLower s = ToLower t"

definition log_contract :: "tron_log \<Rightarrow> string" where
  "log_contract l = ''41'' @ TrimPrefix (lg_Address l) ''41''"

definition log_matches :: "string \<Rightarrow> tron_log \<Rightarrow> bool" where
  "log_matches contract l \<longleftrightarrow>
     (let targetContract = ToLower (TrimPrefix contract ''0x''); logAddr = ToLower (log_contract l) in
      3 \<le> length (lg_Topics l) \<and> EqualFold (TrimPrefix (lg_Topics l ! 0) ''0x'') transferTopic \<and>
      (targetContract = [] \<or> EqualFold logAddr (''41'' @ targetContract) \<or> EqualFold logAddr (ToLower contract)))"

definition event_of :: "'c tron_lib \<Rightarrow> nat \<Rightarrow> tron_log \<Rightarrow> TransferEvent" where
  "event_of lib idx l =
     \<lparr>te_Index = idx mod 2 ^ 32, te_Contract = log_contract l,
      te_From = ''0x'' @ TrimPrefix (lg_Topics l ! 1) ''0x'', te_To = ''0x'' @ TrimPrefix (lg_Topics l ! 2) ''0x'',
      te_Amount = SetBytes (tl_FromHex lib (lg_Data l)), te_Decimals = 6\<rparr>"

definition ParseTransferEvents :: "'c tron_lib \<Rightarrow> Transaction \<Rightarrow> string \<Rightarrow> TransferEvent list" where
  "ParseTransferEvents lib tx contract =
     List.map_filter (\<lambda>(idx, raw).
         case tl_unmarshal_log lib raw of
           None \<Rightarrow> None
         | Some l \<Rightarrow> if log_matches contract l then Some (event_of lib idx l) else None)
       (enumerate 0 (tx_Events tx))"

subsection \<open>Balances\<close>

definition firstString :: "string list \<Rightarrow> string" where
  "firstString ss = (case find (\<lambda>v. v \<noteq> []) ss of Some v \<Rightarrow> v | None \<Rightarrow> [])"

function extractConstantResult :: "json_obj \<Rightarrow> string" where
  "extractConstantResult m =
     (case map_of m ''constant_result'' of
        Some (JArr (JStr v # vs)) \<Rightarrow> v
      | _ \<Rightarrow> (case get_obj m ''result'' of Some inner \<Rightarrow> extractConstantResult inner | None \<Rightarrow> []))"
  by pat_completeness auto
termination
  by (relation "measure obj_size") (auto intro: get_obj_size)

declare extractConstantResult.simps [simp del]

definition GetBalance ::
  "'c tron_lib \<Rightarrow> string \<Rightarrow> string \<Rightarrow> 'c tron \<Rightarrow> (tron_error + nat) option \<times> 'c tron" where
  "GetBalance lib addr contract s =
     (if contract = [] then (Some (Inl NativeBalance), s)
      else
        (case base58ToHexTron (tl_dec lib) addr of
           Inl e \<Rightarrow> (Some (Inl (AddressError ''decode addr'' e)), s)
         | Inr ownerHex \<Rightarrow>
             (case base58ToHexTron (tl_dec lib) contract of
                Inl e \<Rightarrow> (Some (Inl (AddressError ''decode contract'' e)), s)
              | Inr contractHex \<Rightarrow>
                  if 64 < length ownerHex then (None, s)
                  else
                    (let params = [(''owner_address'', JStr ownerHex), (''contract_address'', JStr contractHex),
                           (''function_selector'', JStr ''balanceOf(address)''), (''parameter'', JStr (pad_left 64 ownerHex)),
                           (''visible'', JBool False)]
                     in case with_rpc (rpc lib (tl_constant lib) ''POST /wallet/triggerconstantcontract'' (Some params)
                               \<lparr>co_ConstantResult = [], co_Result = []\<rparr> s)
                             (\<lambda>r. let raw1 = firstString (co_ConstantResult r);
                                      rawHex = (if raw1 = [] then extractConstantResult (co_Result r) else raw1)
                                  in if rawHex = [] then Inl EmptyAnswer
                                     else (case DecodeString rawHex of
                                             None \<Rightarrow> Inl BadHexAnswer
                                           | Some balBytes \<Rightarrow> Inr (SetBytes balBytes))) of
                          (r, s1) \<Rightarrow> (Some r, s1)))))"

subsection \<open>Building\<close>

definition or_else :: "string \<Rightarrow> string \<Rightarrow> string" where
  "or_else x y = (if x = [] then y else x)"

definition opt_text :: "string option \<Rightarrow> string" where
  "opt_text x = (case x of Some v \<Rightarrow> v | None \<Rightarrow> [])"

definition normaliseBoth ::
  "'c tron_lib \<Rightarrow> string \<Rightarrow> string \<Rightarrow> tron_error + (string \<times> string)" where
  "normaliseBoth lib keyID to =
     (case normaliseTronAddr (tl_dec lib) keyID of
        Inl e \<Rightarrow> Inl (AddressError ''owner'' e)
      | Inr owner \<Rightarrow>
          (case normaliseTronAddr (tl_dec lib) to of
             Inl e \<Rightarrow> Inl (AddressError ''to'' e)
           | Inr t \<Rightarrow> Inr (owner, t)))"

definition native_result :: "json_codec \<Rightarrow> native_answer \<Rightarrow> tron_error + BuildResult" where
  "native_result jc r =
     (let rawData = (case (na_RawData r, na_Result r) of (None, Some res) \<Rightarrow> get_obj res ''raw_data'' | (d, _) \<Rightarrow> d);
          hex0 = or_else (na_RawDataHex r) (case na_Result r of Some res \<Rightarrow> opt_text (get_string res ''raw_data_hex'') | None \<Rightarrow> []);
          rawHex = or_else hex0 (case rawData of Some d \<Rightarrow> EncodeToString (map of_char (jc_Marshal jc (Some d))) | None \<Rightarrow> [])
      in if rawHex = [] then Inl EmptyAnswer
         else (case DecodeString rawHex of
                 None \<Rightarrow> Inl BadHexAnswer
               | Some bs \<Rightarrow> Inr \<lparr>br_RawTx = map unat bs, br_TxHash = na_TxID r, br_RawData = rawData\<rparr>))"

definition BuildNativeTransfer ::
  "'c tron_lib \<Rightarrow> string \<Rightarrow> string \<Rightarrow> nat \<Rightarrow> 'c tron \<Rightarrow> (tron_error + BuildResult) \<times> 'c tron" where
  "BuildNativeTransfer lib keyID to amountSun s =
     (case normaliseBoth lib keyID to of
        Inl e \<Rightarrow> (Inl e, s)
      | Inr (ownerB58, toB58) \<Rightarrow>
          with_rpc (rpc lib (tl_native lib) ''POST /wallet/createtransaction''
              (Some [(''owner_address'', JStr ownerB58), (''to_address'', JStr toB58),
                     (''amount'', JNum (nat_text amountSun)), (''visible'', JBool True)])
              \<lparr>na_TxID = [], na_RawDataHex = [], na_RawData = None, na_Result = None\<rparr> s)
            (native_result (tl_codec lib)))"

text \<open>Where the answer has the transaction's bytes and id, in the order the code looks.\<close>

definition smart_hex :: "smart_answer \<Rightarrow> string" where
  "smart_hex r =
     (let h = or_else (or_else (sm_RawDataHex r) (sm_RawData r)) (case sm_Transaction r of Some t \<Rightarrow> snd t | None \<Rightarrow> [])
      in or_else h (case sm_Result r of
           None \<Rightarrow> []
         | Some res \<Rightarrow>
             or_else (or_else (opt_text (get_string res ''raw_data_hex'')) (opt_text (get_string res ''raw_data'')))
               (case get_obj res ''transaction'' of Some t \<Rightarrow> opt_text (get_string t ''raw_data_hex'') | None \<Rightarrow> [])))"

definition smart_id :: "smart_answer \<Rightarrow> string" where
  "smart_id r =
     (let i = or_else (sm_TxID r) (case sm_Transaction r of Some t \<Rightarrow> fst t | None \<Rightarrow> [])
      in or_else i (case sm_Result r of
           None \<Rightarrow> []
         | Some res \<Rightarrow>
             or_else (opt_text (get_string res ''txID''))
               (case get_obj res ''transaction'' of Some t \<Rightarrow> opt_text (get_string t ''txID'') | None \<Rightarrow> [])))"

text \<open>The result of a token transfer has no parsed raw data.\<close>

definition smart_result :: "smart_answer \<Rightarrow> tron_error + BuildResult" where
  "smart_result r =
     (if smart_hex r = [] then Inl EmptyAnswer
      else (case DecodeString (smart_hex r) of
              None \<Rightarrow> Inl BadHexAnswer
            | Some bs \<Rightarrow> Inr \<lparr>br_RawTx = map unat bs, br_TxHash = smart_id r, br_RawData = None\<rparr>))"

definition BuildTransfer ::
  "'c tron_lib \<Rightarrow> string \<Rightarrow> string \<Rightarrow> nat \<Rightarrow> string \<Rightarrow> 'c tron \<Rightarrow> (tron_error + BuildResult) option \<times> 'c tron" where
  "BuildTransfer lib keyID to amount contract s =
     (if contract = [] then (case BuildNativeTransfer lib keyID to amount s of (r, s1) \<Rightarrow> (Some r, s1))
      else
        (case base58ToHexTron (tl_dec lib) keyID of
           Inl e \<Rightarrow> (Some (Inl (AddressError ''decode owner'' e)), s)
         | Inr ownerHex \<Rightarrow>
             (case base58ToHexTron (tl_dec lib) contract of
                Inl e \<Rightarrow> (Some (Inl (AddressError ''decode contract'' e)), s)
              | Inr contractHex \<Rightarrow>
                  (case base58ToHexTron (tl_dec lib) to of
                     Inl e \<Rightarrow> (Some (Inl (AddressError ''decode to'' e)), s)
                   | Inr toHex \<Rightarrow>
                       (case encodeTransferCall toHex amount of
                          None \<Rightarrow> (None, s)
                        | Some callData \<Rightarrow>
                            (case with_rpc (rpc lib (tl_smart lib) ''POST /wallet/triggersmartcontract''
                                     (Some [(''owner_address'', JStr ownerHex), (''contract_address'', JStr contractHex),
                                        (''function_selector'', JStr ''transfer(address,uint256)''), (''parameter'', JStr callData),
                                        (''call_value'', JNum ''0''), (''fee_limit'', JNum ''100000000''), (''visible'', JBool False)])
                                     \<lparr>sm_TxID = [], sm_RawDataHex = [], sm_RawData = [], sm_Transaction = None, sm_Result = None\<rparr> s)
                                   smart_result of
                               (r, s1) \<Rightarrow> (Some r, s1)))))))"

subsection \<open>Broadcasting\<close>

definition sha256Of :: "byte list \<Rightarrow> byte list" where
  "sha256Of b = sha256 b"

definition sha256Hex :: "byte list \<Rightarrow> string" where
  "sha256Hex b = (if length (sha256Of b) \<noteq> 32 then [] else EncodeToString (sha256Of b))"

definition zero_answer :: broadcast_answer where
  "zero_answer = \<lparr>ba_Result = False, ba_TxID = [], ba_Message = [], ba_Code = []\<rparr>"

definition broadcast_result :: "broadcast_answer \<Rightarrow> tron_error + BroadcastResult" where
  "broadcast_result r =
     (if \<not> ba_Result r
      then Inl (Rejected (or_else (or_else (ba_Code r) (ba_Message r)) ''unknown rejection''))
      else Inr \<lparr>bc_TxHash = ba_TxID r, bc_Accepted = True\<rparr>)"

definition broadcast_payload :: "string \<times> json \<Rightarrow> nat list \<Rightarrow> byte list \<Rightarrow> json_obj" where
  "broadcast_payload raw sig bs =
     [raw, (''signature'', JArr [JStr (hex_encode sig)]), (''txID'', JStr (sha256Hex bs)), (''visible'', JBool True)]"

definition BroadcastSigned ::
  "'c tron_lib \<Rightarrow> json_obj option \<Rightarrow> nat list \<Rightarrow> 'c tron \<Rightarrow> (tron_error + BroadcastResult) \<times> 'c tron" where
  "BroadcastSigned lib rawDataJSON sig s =
     (if length sig \<noteq> 65 then (Inl (SignatureLength (length sig)), s)
      else
        (case rawDataJSON of
           None \<Rightarrow> (Inl NilRawData, s)
         | Some d \<Rightarrow>
             with_rpc (rpc lib (tl_broadcast lib) ''POST /wallet/broadcasttransaction''
                 (Some (broadcast_payload (''raw_data'', JObj d) sig (map of_char (jc_Marshal (tl_codec lib) (Some d)))))
                 zero_answer s)
               broadcast_result))"

definition BroadcastWithSignature ::
  "'c tron_lib \<Rightarrow> byte list \<Rightarrow> nat list \<Rightarrow> 'c tron \<Rightarrow> (tron_error + BroadcastResult) \<times> 'c tron" where
  "BroadcastWithSignature lib rawData sig s =
     (if length sig \<noteq> 65 then (Inl (SignatureLength (length sig)), s)
      else
        with_rpc (rpc lib (tl_broadcast lib) ''POST /wallet/broadcasttransaction''
            (Some (broadcast_payload (''raw_data_hex'', JStr (EncodeToString rawData)) sig rawData)) zero_answer s)
          broadcast_result)"

text \<open>The raw bytes posted to one provider, and to the providers in turn.\<close>

definition read_answer ::
  "broadcast_answer unmarshal \<Rightarrow> Provider \<Rightarrow> nat \<Rightarrow> string \<Rightarrow> broadcast_answer \<Rightarrow> string option \<times> broadcast_answer" where
  "read_answer um p code body out =
     (if code = 429 then (Some (''status=429 from '' @ pv_Name p), out)
      else if code \<noteq> 200
      then (Some (''status='' @ Itoa (int code) @ '' from '' @ pv_Name p @ '': '' @ take 200 body), out)
      else um body out)"

definition broadcastOnce ::
  "'c http_net \<Rightarrow> broadcast_answer unmarshal \<Rightarrow> string \<Rightarrow> Provider \<Rightarrow> broadcast_answer \<Rightarrow> 'c
    \<Rightarrow> string option \<times> broadcast_answer \<times> 'c" where
  "broadcastOnce net um signedTx p out c =
     (let req = \<lparr>hq_Verb = ''POST'', hq_URL = TrimSuffix (pv_BaseURL p) ''/'' @ ''/wallet/broadcasttransaction'',
                 hq_APIKey = pv_APIKey p, hq_ContentType = ''application/octet-stream'', hq_Body = signedTx\<rparr>
      in case hn_Do net req c of
           (NoRequest e, c1) \<Rightarrow> (Some e, out, c1)
         | (Unreachable e, c1) \<Rightarrow> (Some e, out, c1)
         | (BadBody code part e, c1) \<Rightarrow> (case read_answer um p code part out of (err, out1) \<Rightarrow> (err, out1, c1))
         | (Response code body, c1) \<Rightarrow> (case read_answer um p code body out of (err, out1) \<Rightarrow> (err, out1, c1)))"

definition Broadcast ::
  "'c tron_lib \<Rightarrow> string \<Rightarrow> 'c tron \<Rightarrow> (tron_error + BroadcastResult) \<times> 'c tron" where
  "Broadcast lib signedTx s =
     (let n = length (ad_providers (fst s)) in
      case try_providers (tl_net lib) False (broadcastOnce (tl_net lib) (tl_broadcast lib) signedTx)
             (ad_activeIdx (fst s)) [0..<n] [] zero_answer s of
        (None, r, s1) \<Rightarrow>
          (if \<not> ba_Result r then Inl (Rejected (ba_Message r)) else Inr \<lparr>bc_TxHash = ba_TxID r, bc_Accepted = True\<rparr>, s1)
      | (Some e, r, s1) \<Rightarrow> (Inl (AllFailed n), s1))"

end
