(* ===== verification/Tron_Scanner.thy ===== *)
theory Tron_Scanner
  imports Tron_Calls "HOL-Library.Sublist"
begin

text \<open>
  The block scanner, internal/blockchain/tron/scanner.go: it walks the blocks between its cursor
  and the solidified head and hands the transfers of the watched addresses and contracts to a
  callback. The adapter is the interface it is given (internal/blockchain/adapter.go).
\<close>

subsection \<open>The scanner\<close>

record 'c adapter_ops =
  ao_GetSolidifiedBlock :: "'c \<Rightarrow> (string + Block) \<times> 'c"
  ao_GetBlockByNumber :: "nat \<Rightarrow> 'c \<Rightarrow> (string + Block) \<times> 'c"
  ao_GetTransaction :: "string \<Rightarrow> 'c \<Rightarrow> (string + Transaction) \<times> 'c"
  ao_ParseTransferEvents :: "Transaction \<Rightarrow> string \<Rightarrow> string + TransferEvent list"

record Scanner =
  sc_lastScanned :: nat
  sc_watched :: "string set"
  sc_watchedContracts :: "string set"
  sc_headBehindBy :: nat

definition NewScanner :: Scanner where
  "NewScanner = \<lparr>sc_lastScanned = 0, sc_watched = {}, sc_watchedContracts = {}, sc_headBehindBy = 4\<rparr>"

definition AddWatch :: "string \<Rightarrow> Scanner \<Rightarrow> Scanner" where
  "AddWatch addr sc = sc\<lparr>sc_watched := insert addr (sc_watched sc)\<rparr>"

definition RemoveWatch :: "string \<Rightarrow> Scanner \<Rightarrow> Scanner" where
  "RemoveWatch addr sc = sc\<lparr>sc_watched := sc_watched sc - {addr}\<rparr>"

definition AddWatchByContract :: "string \<Rightarrow> Scanner \<Rightarrow> Scanner" where
  "AddWatchByContract contract sc = sc\<lparr>sc_watchedContracts := insert (ToLower contract) (sc_watchedContracts sc)\<rparr>"

definition RemoveWatchByContract :: "string \<Rightarrow> Scanner \<Rightarrow> Scanner" where
  "RemoveWatchByContract contract sc = sc\<lparr>sc_watchedContracts := sc_watchedContracts sc - {ToLower contract}\<rparr>"

definition SetCursor :: "nat \<Rightarrow> Scanner \<Rightarrow> Scanner" where
  "SetCursor h sc = sc\<lparr>sc_lastScanned := h\<rparr>"

definition GetCursor :: "Scanner \<Rightarrow> nat" where
  "GetCursor sc = sc_lastScanned sc"

definition WatchedCount :: "Scanner \<Rightarrow> nat" where
  "WatchedCount sc = card (sc_watched sc)"

record Event =
  ev_Chain :: string
  ev_Asset :: string
  ev_TxHash :: string
  ev_EventIdx :: nat
  ev_BlockNum :: nat
  ev_From :: string
  ev_To :: string
  ev_Amount :: string
  ev_Timestamp :: int

definition normaliseAddr :: "string \<Rightarrow> string" where
  "normaliseAddr s =
     map (\<lambda>c. let n = of_char c :: nat in if 65 \<le> n \<and> n \<le> 70 then char_of (n + 32) else c)
       (if 2 < length s \<and> take 2 s \<in> {''0x'', ''0X''} then drop 2 s else s)"

definition isWatched :: "Scanner \<Rightarrow> string \<Rightarrow> bool" where
  "isWatched sc addr \<longleftrightarrow> addr \<in> sc_watched sc \<or> normaliseAddr addr \<in> sc_watched sc"

definition shouldEmit :: "Scanner \<Rightarrow> TransferEvent \<Rightarrow> bool" where
  "shouldEmit sc e \<longleftrightarrow> isWatched sc (te_To e) \<or> ToLower (te_Contract e) \<in> sc_watchedContracts sc"

definition event_for :: "Transaction \<Rightarrow> nat \<Rightarrow> int \<Rightarrow> TransferEvent \<Rightarrow> Event" where
  "event_for tx blockNum ts e =
     \<lparr>ev_Chain = ''TRON'', ev_Asset = ''USDT'', ev_TxHash = tx_Hash tx, ev_EventIdx = te_Index e, ev_BlockNum = blockNum,
      ev_From = te_From e, ev_To = te_To e, ev_Amount = nat_text (te_Amount e), ev_Timestamp = ts\<rparr>"

text \<open>The first component is the error of a transaction that is skipped.\<close>

definition processTx ::
  "'c adapter_ops \<Rightarrow> (Event \<Rightarrow> 'c \<Rightarrow> 'c) \<Rightarrow> Scanner \<Rightarrow> nat \<Rightarrow> int \<Rightarrow> string \<Rightarrow> 'c \<Rightarrow> string option \<times> 'c" where
  "processTx ops deliver sc blockNum ts txHash c =
     (case ao_GetTransaction ops txHash c of
        (Inl e, c1) \<Rightarrow> (Some e, c1)
      | (Inr tx, c1) \<Rightarrow>
          if tx_Status tx \<noteq> TxStatusSuccess then (None, c1)
          else
            (case ao_ParseTransferEvents ops tx [] of
               Inl e \<Rightarrow> (Some e, c1)
             | Inr events \<Rightarrow> (None, fold deliver (map (event_for tx blockNum ts) (filter (shouldEmit sc) events)) c1)))"

definition process_block ::
  "'c adapter_ops \<Rightarrow> (Event \<Rightarrow> 'c \<Rightarrow> 'c) \<Rightarrow> Scanner \<Rightarrow> nat \<Rightarrow> Block \<Rightarrow> 'c \<Rightarrow> 'c" where
  "process_block ops deliver sc h block c =
     fold (\<lambda>txHash d. snd (processTx ops deliver sc h (bk_LogTime block) txHash d)) (bk_TxHashes block) c"

text \<open>The loop over the heights left; cancelled is the context's Done.\<close>

fun scan_blocks ::
  "('c \<Rightarrow> bool) \<Rightarrow> 'c adapter_ops \<Rightarrow> (Event \<Rightarrow> 'c \<Rightarrow> 'c) \<Rightarrow> nat list \<Rightarrow> Scanner \<Rightarrow> 'c \<Rightarrow> string option \<times> Scanner \<times> 'c" where
  "scan_blocks cancelled ops deliver [] sc c = (None, sc, c)"
| "scan_blocks cancelled ops deliver (h # hs) sc c =
     (if cancelled c then (Some ''context canceled'', sc, c)
      else
        (case ao_GetBlockByNumber ops h c of
           (Inl e, c1) \<Rightarrow> (Some e, sc, c1)
         | (Inr block, c1) \<Rightarrow>
             scan_blocks cancelled ops deliver hs (sc\<lparr>sc_lastScanned := h\<rparr>) (process_block ops deliver sc h block c1)))"

definition scan_end :: "Scanner \<Rightarrow> nat \<Rightarrow> nat" where
  "scan_end sc height = (if sc_headBehindBy sc < height then height - sc_headBehindBy sc else height)"

text \<open>
  The number of delivered events that is returned is never counted. Heights are uint64 values; end
  is at most 2 ^ 64 - 5, so counting up to it does not wrap.
\<close>

definition RunOnce ::
  "('c \<Rightarrow> bool) \<Rightarrow> 'c adapter_ops \<Rightarrow> (Event \<Rightarrow> 'c \<Rightarrow> 'c) \<Rightarrow> Scanner \<Rightarrow> 'c \<Rightarrow> (nat \<times> string option) \<times> Scanner \<times> 'c" where
  "RunOnce cancelled ops deliver sc c =
     (if sc_watched sc = {} \<and> sc_watchedContracts sc = {} then ((0, None), sc, c)
      else
        (case ao_GetSolidifiedBlock ops c of
           (Inl e, c1) \<Rightarrow> ((0, Some e), sc, c1)
         | (Inr head, c1) \<Rightarrow>
             (let start = (sc_lastScanned sc + 1) mod 2 ^ 64; stop = scan_end sc (bk_Height head) in
              if stop < start then ((0, None), sc, c1)
              else
                (case scan_blocks cancelled ops deliver [start..<Suc stop] sc c1 of
                   (err, sc1, c2) \<Rightarrow> ((0, err), sc1, c2)))))"

subsection \<open>A chain that answers when it answers\<close>

text \<open>
  A scripted adapter over a fixed chain: it may fail at any call, and when it answers, it answers
  with the chain's blocks and transactions. The callback appends to the list of delivered events.
\<close>

record scripted_chain =
  cn_block :: "nat \<Rightarrow> Block"
  cn_tx :: "string \<Rightarrow> Transaction"
  cn_events :: "Transaction \<Rightarrow> TransferEvent list"

record script =
  st_heads :: "nat option list"
  st_block_faults :: "bool list"
  st_tx_faults :: "bool list"
  st_out :: "Event list"

definition scripted_ops :: "scripted_chain \<Rightarrow> script adapter_ops" where
  "scripted_ops ch =
     \<lparr>ao_GetSolidifiedBlock = (\<lambda>w. case st_heads w of
          Some h # hs \<Rightarrow> (Inr \<lparr>bk_Height = h, bk_Hash = [], bk_LogTime = 0, bk_TxHashes = [], bk_IsFinal = True\<rparr>, w\<lparr>st_heads := hs\<rparr>)
        | _ \<Rightarrow> (Inl ''rpc'', w\<lparr>st_heads := tl (st_heads w)\<rparr>)),
      ao_GetBlockByNumber = (\<lambda>h w. case st_block_faults w of
          True # fs \<Rightarrow> (Inl ''rpc'', w\<lparr>st_block_faults := fs\<rparr>)
        | fs \<Rightarrow> (Inr (cn_block ch h), w\<lparr>st_block_faults := tl fs\<rparr>)),
      ao_GetTransaction = (\<lambda>t w. case st_tx_faults w of
          True # fs \<Rightarrow> (Inl ''rpc'', w\<lparr>st_tx_faults := fs\<rparr>)
        | fs \<Rightarrow> (Inr (cn_tx ch t), w\<lparr>st_tx_faults := tl fs\<rparr>)),
      ao_ParseTransferEvents = (\<lambda>tx c. Inr (cn_events ch tx))\<rparr>"

definition deliver_out :: "Event \<Rightarrow> script \<Rightarrow> script" where
  "deliver_out e w = w\<lparr>st_out := st_out w @ [e]\<rparr>"

definition tx_events :: "scripted_chain \<Rightarrow> Scanner \<Rightarrow> nat \<Rightarrow> int \<Rightarrow> string \<Rightarrow> Event list" where
  "tx_events ch sc h ts t =
     (let tx = cn_tx ch t in
      if tx_Status tx \<noteq> TxStatusSuccess then []
      else map (event_for tx h ts) (filter (shouldEmit sc) (cn_events ch tx)))"

definition block_events :: "scripted_chain \<Rightarrow> Scanner \<Rightarrow> nat \<Rightarrow> Event list" where
  "block_events ch sc h = concat (map (tx_events ch sc h (bk_LogTime (cn_block ch h))) (bk_TxHashes (cn_block ch h)))"

end
