(* ===== verification/Tron_Scanner_Correct.thy ===== *)
theory Tron_Scanner_Correct
  imports Tron_Scanner
begin

text \<open>
  What the scanner delivers of a chain: every matching transfer of the blocks its cursor passes,
  once and in order, but for the transactions whose lookup failed.
\<close>

lemma fold_deliver: "fold deliver_out es w = w\<lparr>st_out := st_out w @ es\<rparr>"
  by (induction es arbitrary: w) (simp_all add: deliver_out_def)

text \<open>One transaction delivers all of its events, or none when its lookup fails.\<close>

lemma processTx_events:
  obtains es fs where "snd (processTx (scripted_ops ch) deliver_out sc h ts t w) = w\<lparr>st_tx_faults := fs, st_out := st_out w @ es\<rparr>"
    "es = tx_events ch sc h ts t \<or> es = []" "st_tx_faults w = [] \<Longrightarrow> es = tx_events ch sc h ts t \<and> fs = []"
proof (cases "st_tx_faults w")
  case (Cons b bs)
  then show thesis
    by (cases b; intro that [of "if b then [] else tx_events ch sc h ts t" bs])
      (auto simp: processTx_def scripted_ops_def tx_events_def fold_deliver Let_def)
qed (rule that [of "tx_events ch sc h ts t" "[]"];
     auto simp: processTx_def scripted_ops_def tx_events_def fold_deliver Let_def)

lemma process_txs_events:
  "\<exists>es fs. fold (\<lambda>t d. snd (processTx (scripted_ops ch) deliver_out sc h ts t d)) txs w = w\<lparr>st_tx_faults := fs, st_out := st_out w @ es\<rparr> \<and>
     subseq es (concat (map (tx_events ch sc h ts) txs)) \<and>
     (st_tx_faults w = [] \<longrightarrow> es = concat (map (tx_events ch sc h ts) txs) \<and> fs = [])"
proof (induction txs arbitrary: w)
  case Nil
  show ?case by (intro exI [of _ "[]"] exI [of _ "st_tx_faults w"]) simp
next
  case (Cons t txs)
  obtain e1 f1 where 1: "snd (processTx (scripted_ops ch) deliver_out sc h ts t w) = w\<lparr>st_tx_faults := f1, st_out := st_out w @ e1\<rparr>"
    "e1 = tx_events ch sc h ts t \<or> e1 = []" "st_tx_faults w = [] \<Longrightarrow> e1 = tx_events ch sc h ts t \<and> f1 = []"
    by (rule processTx_events [where ch = ch and sc = sc and h = h and ts = ts and t = t and w = w]) blast
  obtain e2 f2 where 2: "fold (\<lambda>t d. snd (processTx (scripted_ops ch) deliver_out sc h ts t d)) txs (w\<lparr>st_tx_faults := f1, st_out := st_out w @ e1\<rparr>) =
      w\<lparr>st_tx_faults := f2, st_out := (st_out w @ e1) @ e2\<rparr>" "subseq e2 (concat (map (tx_events ch sc h ts) txs))"
    "f1 = [] \<longrightarrow> e2 = concat (map (tx_events ch sc h ts) txs) \<and> f2 = []"
    using Cons.IH [of "w\<lparr>st_tx_faults := f1, st_out := st_out w @ e1\<rparr>"] by auto
  have "subseq (e1 @ e2) (tx_events ch sc h ts t @ concat (map (tx_events ch sc h ts) txs))"
    using 1(2) 2(2) by (intro list_emb_append_mono) auto
  then show ?case using 1 2 by (intro exI [of _ "e1 @ e2"] exI [of _ f2]) auto
qed

text \<open>The cursor and the filters.\<close>

definition same_filters :: "Scanner \<Rightarrow> Scanner \<Rightarrow> bool" where
  "same_filters sc sc' \<longleftrightarrow> (\<exists>h. sc' = sc\<lparr>sc_lastScanned := h\<rparr>)"

lemma shouldEmit_cursor [simp]: "shouldEmit (sc\<lparr>sc_lastScanned := h\<rparr>) = shouldEmit sc"
  by (rule ext) (simp add: shouldEmit_def isWatched_def)

lemma tx_events_cursor [simp]: "tx_events ch (sc\<lparr>sc_lastScanned := h\<rparr>) = tx_events ch sc"
  by (intro ext) (simp only: tx_events_def Let_def shouldEmit_cursor)

lemma same_filters_events: "same_filters sc sc' \<Longrightarrow> block_events ch sc' h = block_events ch sc h"
  by (auto simp: same_filters_def block_events_def)

lemma same_filters_refl [simp]: "same_filters sc sc"
  by (auto simp: same_filters_def intro: exI [of _ "sc_lastScanned sc"])

lemma same_filters_cursor [simp]: "same_filters sc (sc\<lparr>sc_lastScanned := h\<rparr>)"
  by (auto simp: same_filters_def)

lemma same_filters_trans: "same_filters a b \<Longrightarrow> same_filters b c \<Longrightarrow> same_filters a c"
  by (auto simp: same_filters_def)

lemma block_scan:
  "\<exists>es fs. process_block (scripted_ops ch) deliver_out sc h (cn_block ch h) w = w\<lparr>st_tx_faults := fs, st_out := st_out w @ es\<rparr> \<and>
     subseq es (block_events ch sc h) \<and> (st_tx_faults w = [] \<longrightarrow> es = block_events ch sc h \<and> fs = [])"
  unfolding process_block_def block_events_def by (rule process_txs_events)

lemma scan_blocks_events:
  assumes "sc_lastScanned sc = start" and "scan_blocks cancelled (scripted_ops ch) deliver_out [Suc start..<stop] sc w = (err, sc', w')"
  shows "same_filters sc sc' \<and> start \<le> sc_lastScanned sc' \<and> sc_lastScanned sc' \<le> max start (stop - 1) \<and>
    (\<exists>es. st_out w' = st_out w @ es \<and> subseq es (concat (map (block_events ch sc) [Suc start..<Suc (sc_lastScanned sc')])) \<and>
      (st_tx_faults w = [] \<longrightarrow> es = concat (map (block_events ch sc) [Suc start..<Suc (sc_lastScanned sc')]) \<and> st_tx_faults w' = []))"
  using assms
proof (induction "stop - Suc start" arbitrary: start sc w)
  case 0
  then have "[Suc start..<stop] = []" by simp
  then show ?case using 0 by simp
next
  case (Suc n)
  then have sp: "[Suc start..<stop] = Suc start # [Suc (Suc start)..<stop]" by (simp add: upt_conv_Cons)
  consider "err \<noteq> None" "sc' = sc" "st_out w' = st_out w" "st_tx_faults w' = st_tx_faults w"
    | fs where "scan_blocks cancelled (scripted_ops ch) deliver_out [Suc (Suc start)..<stop] (sc\<lparr>sc_lastScanned := Suc start\<rparr>)
        (process_block (scripted_ops ch) deliver_out sc (Suc start) (cn_block ch (Suc start)) (w\<lparr>st_block_faults := fs\<rparr>)) = (err, sc', w')"
    using Suc.prems(2) unfolding sp
    by (auto simp: scripted_ops_def split: if_splits list.splits bool.splits prod.splits)
  then show ?case
  proof cases
    case 1
    then show ?thesis using Suc.prems(1) by simp
  next
    case 2
    let ?sc = "sc\<lparr>sc_lastScanned := Suc start\<rparr>"
    let ?B = "block_events ch sc"
    obtain e1 f1 where b: "process_block (scripted_ops ch) deliver_out sc (Suc start) (cn_block ch (Suc start)) (w\<lparr>st_block_faults := fs\<rparr>) =
        w\<lparr>st_block_faults := fs, st_tx_faults := f1, st_out := st_out w @ e1\<rparr>" "subseq e1 (?B (Suc start))"
      "st_tx_faults w = [] \<longrightarrow> e1 = ?B (Suc start) \<and> f1 = []"
      using block_scan [of ch sc "Suc start" "w\<lparr>st_block_faults := fs\<rparr>"] by auto
    have "n = stop - Suc (Suc start)" using Suc.hyps(2) by simp
    from Suc.hyps(1) [OF this _ 2 [unfolded b(1)]] obtain e2 where
      r: "same_filters ?sc sc'" "Suc start \<le> sc_lastScanned sc'" "sc_lastScanned sc' \<le> max (Suc start) (stop - 1)"
      "st_out w' = (st_out w @ e1) @ e2" "subseq e2 (concat (map (block_events ch ?sc) [Suc (Suc start)..<Suc (sc_lastScanned sc')]))"
      "f1 = [] \<longrightarrow> e2 = concat (map (block_events ch ?sc) [Suc (Suc start)..<Suc (sc_lastScanned sc')]) \<and> st_tx_faults w' = []"
      by auto
    have eq: "block_events ch ?sc = ?B" by (rule ext) (rule same_filters_events, simp)
    have up: "[Suc start..<Suc (sc_lastScanned sc')] = Suc start # [Suc (Suc start)..<Suc (sc_lastScanned sc')]"
      using r(2) by (simp add: upt_conv_Cons)
    have "same_filters sc sc'" using r(1) by (rule same_filters_trans [rotated]) simp
    moreover have "subseq (e1 @ e2) (concat (map ?B [Suc start..<Suc (sc_lastScanned sc')]))"
      unfolding up using b(2) r(5) [unfolded eq] by (simp del: upt_Suc add: list_emb_append_mono)
    ultimately show ?thesis using r b(3) Suc.hyps(2) unfolding up eq by (auto simp del: upt_Suc)
  qed
qed

text \<open>A run, and the runs of a polling loop.\<close>

lemma block_heads: "st_heads (process_block (scripted_ops ch) deliver_out sc h (cn_block ch h) w) = st_heads w"
  using block_scan [of ch sc h w] by auto

lemma scan_blocks_heads:
  "scan_blocks cancelled (scripted_ops ch) deliver_out hs sc w = (err, sc', w') \<Longrightarrow> st_heads w' = st_heads w"
proof (induction hs arbitrary: sc w)
  case (Cons h hs)
  from Cons.prems show ?case
    by (auto simp: scripted_ops_def block_heads [unfolded scripted_ops_def] dest!: Cons.IH [unfolded scripted_ops_def]
        split: if_splits list.splits bool.splits prod.splits)
qed simp

definition passed_events :: "scripted_chain \<Rightarrow> Scanner \<Rightarrow> Scanner \<Rightarrow> Event list" where
  "passed_events ch sc sc' = concat (map (block_events ch sc) [Suc (sc_lastScanned sc)..<Suc (sc_lastScanned sc')])"

definition scan_ok :: "scripted_chain \<Rightarrow> Scanner \<Rightarrow> script \<Rightarrow> Scanner \<Rightarrow> script \<Rightarrow> bool" where
  "scan_ok ch sc w sc' w' \<longleftrightarrow>
     same_filters sc sc' \<and> sc_lastScanned sc \<le> sc_lastScanned sc' \<and>
     (\<exists>es. st_out w' = st_out w @ es \<and> subseq es (passed_events ch sc sc') \<and>
        (st_tx_faults w = [] \<longrightarrow> es = passed_events ch sc sc' \<and> st_tx_faults w' = []))"

definition heads_ok :: "script \<Rightarrow> bool" where
  "heads_ok w \<longleftrightarrow> list_all (\<lambda>h. case h of None \<Rightarrow> True | Some x \<Rightarrow> x < 2 ^ 64) (st_heads w)"

lemma passed_none [simp]: "passed_events ch sc sc = []"
  by (simp add: passed_events_def)

lemma scan_ok_refl: "st_out w' = st_out w \<Longrightarrow> st_tx_faults w' = st_tx_faults w \<Longrightarrow> scan_ok ch sc w sc w'"
  by (simp add: scan_ok_def)

lemma passed_split:
  assumes "same_filters sc sc1" and "sc_lastScanned sc \<le> sc_lastScanned sc1" and "sc_lastScanned sc1 \<le> sc_lastScanned sc2"
  shows "passed_events ch sc sc2 = passed_events ch sc sc1 @ passed_events ch sc1 sc2"
proof -
  have "block_events ch sc1 = block_events ch sc" by (rule ext) (rule same_filters_events [OF assms(1)])
  moreover have "[Suc (sc_lastScanned sc)..<Suc (sc_lastScanned sc2)] =
      [Suc (sc_lastScanned sc)..<Suc (sc_lastScanned sc1)] @ [Suc (sc_lastScanned sc1)..<Suc (sc_lastScanned sc2)]"
    using assms(2,3) upt_add_eq_append [of "Suc (sc_lastScanned sc)" "Suc (sc_lastScanned sc1)" "sc_lastScanned sc2 - sc_lastScanned sc1"]
    by (simp del: upt_Suc)
  ultimately show ?thesis by (simp add: passed_events_def del: upt_Suc)
qed

lemma scan_ok_trans:
  assumes "scan_ok ch sc w sc1 w1" and "scan_ok ch sc1 w1 sc2 w2"
  shows "scan_ok ch sc w sc2 w2"
proof -
  obtain e1 e2 where 1: "same_filters sc sc1" "sc_lastScanned sc \<le> sc_lastScanned sc1" "st_out w1 = st_out w @ e1"
      "subseq e1 (passed_events ch sc sc1)" "st_tx_faults w = [] \<longrightarrow> e1 = passed_events ch sc sc1 \<and> st_tx_faults w1 = []"
    and 2: "same_filters sc1 sc2" "sc_lastScanned sc1 \<le> sc_lastScanned sc2" "st_out w2 = st_out w1 @ e2"
      "subseq e2 (passed_events ch sc1 sc2)" "st_tx_faults w1 = [] \<longrightarrow> e2 = passed_events ch sc1 sc2 \<and> st_tx_faults w2 = []"
    using assms unfolding scan_ok_def by blast
  have "subseq (e1 @ e2) (passed_events ch sc sc2)"
    unfolding passed_split [OF 1(1,2) 2(2)] using 1(4) 2(4) by (rule list_emb_append_mono)
  then show ?thesis
    using 1 2 same_filters_trans [OF 1(1) 2(1)] unfolding scan_ok_def passed_split [OF 1(1,2) 2(2)] by auto
qed

lemma scan_end_bound: "sc_headBehindBy sc = 4 \<Longrightarrow> h < 2 ^ 64 \<Longrightarrow> scan_end sc h < 2 ^ 64 - 1"
  by (cases "4 < h") (auto simp: scan_end_def)

lemma RunOnce_scan:
  assumes hb: "sc_headBehindBy sc = 4" and lo: "sc_lastScanned sc < 2 ^ 64 - 1" and hs: "heads_ok w"
    and run: "RunOnce cancelled (scripted_ops ch) deliver_out sc w = (res, sc', w')"
  shows "scan_ok ch sc w sc' w' \<and> sc_lastScanned sc' < 2 ^ 64 - 1 \<and> heads_ok w' \<and> st_heads w' \<in> {st_heads w, tl (st_heads w)}"
proof (cases "(sc_watched sc = {} \<and> sc_watchedContracts sc = {}) \<or> st_heads w = [] \<or> hd (st_heads w) = None")
  case True
  then show ?thesis using run lo hs
    by (auto simp: RunOnce_def scripted_ops_def heads_ok_def scan_ok_refl split: if_splits list.splits option.splits)
next
  case False
  then obtain h rest where h: "st_heads w = Some h # rest" by (cases "st_heads w") auto
  have watched: "\<not> (sc_watched sc = {} \<and> sc_watchedContracts sc = {})" using False by blast
  have h64: "h < 2 ^ 64" using hs h by (simp add: heads_ok_def)
  let ?w = "w\<lparr>st_heads := rest\<rparr>"
  let ?stop = "scan_end sc h"
  have stop: "?stop < 2 ^ 64 - 1" using hb h64 by (rule scan_end_bound)
  have start: "(sc_lastScanned sc + 1) mod 2 ^ 64 = Suc (sc_lastScanned sc)" using lo by simp
  have head: "ao_GetSolidifiedBlock (scripted_ops ch) w =
      (Inr \<lparr>bk_Height = h, bk_Hash = [], bk_LogTime = 0, bk_TxHashes = [], bk_IsFinal = True\<rparr>, ?w)"
    by (simp add: scripted_ops_def h)
  have ok: "heads_ok ?w" using hs h by (simp add: heads_ok_def)
  have R: "RunOnce cancelled (scripted_ops ch) deliver_out sc w =
      (if ?stop < Suc (sc_lastScanned sc) then ((0, None), sc, ?w)
       else (case scan_blocks cancelled (scripted_ops ch) deliver_out [Suc (sc_lastScanned sc)..<Suc ?stop] sc ?w of
               (err, sc1, c2) \<Rightarrow> ((0, err), sc1, c2)))"
    unfolding RunOnce_def head start Let_def if_not_P [OF watched] by (simp del: upt_Suc)
  show ?thesis
  proof (cases "?stop < Suc (sc_lastScanned sc)")
    case True
    then show ?thesis using run R lo ok h by (auto intro: scan_ok_refl)
  next
    case False
    then obtain err where s: "scan_blocks cancelled (scripted_ops ch) deliver_out [Suc (sc_lastScanned sc)..<Suc ?stop] sc ?w = (err, sc', w')"
      using run unfolding R by (auto simp del: upt_Suc split: prod.splits)
    from scan_blocks_events [OF refl s] have "scan_ok ch sc ?w sc' w'" "sc_lastScanned sc' \<le> max (sc_lastScanned sc) ?stop"
      by (simp_all add: scan_ok_def passed_events_def del: upt_Suc)
    moreover have "st_heads w' = rest" using scan_blocks_heads [OF s] by simp
    ultimately show ?thesis using lo stop ok h by (auto simp: scan_ok_def heads_ok_def)
  qed
qed

text \<open>The polling loop of the scanner command calls RunOnce again and again.\<close>

fun run_times :: "nat \<Rightarrow> (script \<Rightarrow> bool) \<Rightarrow> scripted_chain \<Rightarrow> Scanner \<Rightarrow> script \<Rightarrow> Scanner \<times> script" where
  "run_times 0 cancelled ch sc w = (sc, w)"
| "run_times (Suc n) cancelled ch sc w =
     (case RunOnce cancelled (scripted_ops ch) deliver_out sc w of (res, sc1, w1) \<Rightarrow> run_times n cancelled ch sc1 w1)"

lemma run_times_scan:
  assumes "sc_headBehindBy sc = 4" and "sc_lastScanned sc < 2 ^ 64 - 1" and "heads_ok w"
    and "run_times n cancelled ch sc w = (sc', w')"
  shows "scan_ok ch sc w sc' w'"
  using assms
proof (induction n arbitrary: sc w)
  case 0
  then show ?case by (auto intro: scan_ok_refl)
next
  case (Suc n)
  obtain res sc1 w1 where r: "RunOnce cancelled (scripted_ops ch) deliver_out sc w = (res, sc1, w1)" by (metis prod_cases3)
  have 1: "scan_ok ch sc w sc1 w1" "sc_lastScanned sc1 < 2 ^ 64 - 1" "heads_ok w1"
    using RunOnce_scan [OF Suc.prems(1,2,3) r] by auto
  have "sc_headBehindBy sc1 = 4" using 1(1) Suc.prems(1) by (auto simp: scan_ok_def same_filters_def)
  from Suc.IH [OF this 1(2,3)] have "scan_ok ch sc1 w1 sc' w'" using Suc.prems(4) r by simp
  with 1(1) show ?case by (rule scan_ok_trans)
qed

text \<open>C22: However often the scanner runs, over a chain whose calls may fail at any point, its cursor
  never goes back, and what it delivers are the events of the blocks it passed, in order and none
  twice; all of them when no transaction lookup fails.
\<close>
theorem scanner_delivers:
  assumes "sc_headBehindBy sc = 4" and "sc_lastScanned sc < 2 ^ 64 - 1" and "heads_ok w"
    and "run_times n cancelled ch sc w = (sc', w')"
  shows "sc_lastScanned sc \<le> sc_lastScanned sc' \<and>
    (\<exists>es. st_out w' = st_out w @ es \<and> subseq es (passed_events ch sc sc') \<and>
       (st_tx_faults w = [] \<longrightarrow> es = passed_events ch sc sc'))"
  using run_times_scan [OF assms] unfolding scan_ok_def by auto

lemma block_clean:
  assumes "st_tx_faults w = []"
  shows "process_block (scripted_ops ch) deliver_out sc h (cn_block ch h) w = w\<lparr>st_out := st_out w @ block_events ch sc h\<rparr>"
proof -
  have "process_block (scripted_ops ch) deliver_out sc h (cn_block ch h) w = w\<lparr>st_tx_faults := [], st_out := st_out w @ block_events ch sc h\<rparr>"
    using block_scan [of ch sc h w] assms by auto
  then show ?thesis using assms by (cases w) simp
qed

lemma block_events_cursor [simp]: "block_events ch (sc\<lparr>sc_lastScanned := h\<rparr>) = block_events ch sc"
  by (rule ext) (rule same_filters_events, simp)

lemma scan_blocks_clean:
  assumes "st_block_faults w = []" and "st_tx_faults w = []"
  shows "scan_blocks (\<lambda>_. False) (scripted_ops ch) deliver_out hs sc w =
    (None, sc\<lparr>sc_lastScanned := last (sc_lastScanned sc # hs)\<rparr>, w\<lparr>st_out := st_out w @ concat (map (block_events ch sc) hs)\<rparr>)"
  using assms
proof (induction hs arbitrary: sc w)
  case (Cons h hs)
  have get: "ao_GetBlockByNumber (scripted_ops ch) h w = (Inr (cn_block ch h), w)"
    using Cons.prems by (cases w) (simp add: scripted_ops_def)
  show ?case by (simp add: get block_clean Cons.prems Cons.IH)
qed simp

text \<open>C23: When the node answers every call, one run of a scanner that watches something ends at the
  height four blocks below the solidified head, if it is behind it, and has delivered every matching
  transfer up to there.
\<close>
theorem RunOnce_catches_up:
  assumes "sc_watched sc \<noteq> {} \<or> sc_watchedContracts sc \<noteq> {}" and "sc_headBehindBy sc = 4"
    and "st_heads w = Some head # hs" and "head < 2 ^ 64" and "sc_lastScanned sc < head - 4"
    and "st_block_faults w = []" and "st_tx_faults w = []"
  shows "RunOnce (\<lambda>_. False) (scripted_ops ch) deliver_out sc w =
    ((0, None), SetCursor (head - 4) sc,
     w\<lparr>st_heads := hs, st_out := st_out w @ concat (map (block_events ch sc) [Suc (sc_lastScanned sc)..<Suc (head - 4)])\<rparr>)"
proof -
  have watched: "\<not> (sc_watched sc = {} \<and> sc_watchedContracts sc = {})" using assms(1) by blast
  have start: "(sc_lastScanned sc + 1) mod 2 ^ 64 = Suc (sc_lastScanned sc)" using assms(4,5) by simp
  have head: "ao_GetSolidifiedBlock (scripted_ops ch) w =
      (Inr \<lparr>bk_Height = head, bk_Hash = [], bk_LogTime = 0, bk_TxHashes = [], bk_IsFinal = True\<rparr>, w\<lparr>st_heads := hs\<rparr>)"
    by (simp add: scripted_ops_def assms(3))
  have stop: "scan_end sc head = head - 4" using assms(2,5) by (auto simp: scan_end_def)
  have hs: "last (sc_lastScanned sc # [Suc (sc_lastScanned sc)..<Suc (head - 4)]) = head - 4" using assms(5) by simp
  have "\<not> head - 4 < Suc (sc_lastScanned sc)" using assms(5) by simp
  then show ?thesis
    unfolding RunOnce_def head start Let_def if_not_P [OF watched]
    by (simp add: stop scan_blocks_clean assms(6,7) SetCursor_def hs del: upt_Suc last.simps)
qed

text \<open>Two transfers of a watched contract in block three; the lookup of the first one fails once.\<close>

definition demo_tron_chain :: scripted_chain where
  "demo_tron_chain =
     \<lparr>cn_block = (\<lambda>h. \<lparr>bk_Height = h, bk_Hash = [], bk_LogTime = 7,
         bk_TxHashes = (if h = 3 then [''t8'', ''t9''] else []), bk_IsFinal = True\<rparr>),
      cn_tx = (\<lambda>t. \<lparr>tx_Hash = t, tx_BlockNumber = 3, tx_BlockHash = [], tx_Status = ''SUCCESS'', tx_Events = []\<rparr>),
      cn_events = (\<lambda>tx. [\<lparr>te_Index = 0, te_Contract = ''41'', te_From = ''0x6'', te_To = ''0x7'', te_Amount = 5, te_Decimals = 6\<rparr>])\<rparr>"

definition demo_script :: "nat option list \<Rightarrow> bool list \<Rightarrow> script" where
  "demo_script hs fs = \<lparr>st_heads = hs, st_block_faults = [], st_tx_faults = fs, st_out = []\<rparr>"

definition demo_scanner :: Scanner where
  "demo_scanner = AddWatchByContract ''41'' NewScanner"

definition demo_event :: "string \<Rightarrow> Event" where
  "demo_event t = \<lparr>ev_Chain = ''TRON'', ev_Asset = ''USDT'', ev_TxHash = t, ev_EventIdx = 0, ev_BlockNum = 3,
     ev_From = ''0x6'', ev_To = ''0x7'', ev_Amount = nat_text 5, ev_Timestamp = 7\<rparr>"

lemma demo_watch: "shouldEmit demo_scanner \<lparr>te_Index = 0, te_Contract = ''41'', te_From = ''0x6'', te_To = ''0x7'', te_Amount = 5, te_Decimals = 6\<rparr>"
  by (simp add: shouldEmit_def demo_scanner_def AddWatchByContract_def NewScanner_def)

lemma demo_block_events: "block_events demo_tron_chain demo_scanner h = (if h = 3 then [demo_event ''t8'', demo_event ''t9''] else [])"
  by (simp add: block_events_def tx_events_def demo_tron_chain_def demo_watch event_for_def demo_event_def TxStatusSuccess_def)

lemmas demo_scan_simps = demo_scanner_def AddWatchByContract_def NewScanner_def

theorem RunOnce_catches_up_witness:
  "st_out (snd (snd (RunOnce (\<lambda>_. False) (scripted_ops demo_tron_chain) deliver_out demo_scanner (demo_script [Some 9] [])))) =
     [demo_event ''t8'', demo_event ''t9'']"
proof -
  have "RunOnce (\<lambda>_. False) (scripted_ops demo_tron_chain) deliver_out demo_scanner (demo_script [Some 9] []) =
    ((0, None), SetCursor (9 - 4) demo_scanner, (demo_script [Some 9] [])\<lparr>st_heads := [], st_out := st_out (demo_script [Some 9] []) @
        concat (map (block_events demo_tron_chain demo_scanner) [Suc (sc_lastScanned demo_scanner)..<Suc (9 - 4)])\<rparr>)"
    by (rule RunOnce_catches_up) (simp_all add: demo_scan_simps demo_script_def)
  moreover have "[Suc (sc_lastScanned demo_scanner)..<Suc (9 - 4)] = [1, 2, 3, 4, 5]"
    by (simp add: demo_scan_simps upt_rec)
  ultimately show ?thesis by (simp add: demo_block_events demo_script_def del: upt_Suc)
qed

lemmas demo_run_simps = RunOnce_def scripted_ops_def demo_script_def demo_scan_simps scan_end_def process_block_def processTx_def
  demo_tron_chain_def event_for_def demo_event_def TxStatusSuccess_def deliver_out_def shouldEmit_def SetCursor_def

lemma demo_runs:
  "RunOnce (\<lambda>_. False) (scripted_ops demo_tron_chain) deliver_out demo_scanner (demo_script [None, Some 6, Some 9] [True]) =
     ((0, Some ''rpc''), demo_scanner, demo_script [Some 6, Some 9] [True])"
  "RunOnce (\<lambda>_. False) (scripted_ops demo_tron_chain) deliver_out demo_scanner (demo_script [Some 6, Some 9] [True]) =
     ((0, None), SetCursor 2 demo_scanner, demo_script [Some 9] [True])"
  "RunOnce (\<lambda>_. False) (scripted_ops demo_tron_chain) deliver_out (SetCursor 2 demo_scanner) (demo_script [Some 9] [True]) =
     ((0, None), SetCursor 5 demo_scanner, (demo_script [] [])\<lparr>st_out := [demo_event ''t9'']\<rparr>)"
proof -
  have u: "[Suc 0..<3] = [1, 2]" "[3..<6] = [3, 4, 5]" by (simp_all add: upt_rec)
  show "RunOnce (\<lambda>_. False) (scripted_ops demo_tron_chain) deliver_out demo_scanner (demo_script [None, Some 6, Some 9] [True]) =
     ((0, Some ''rpc''), demo_scanner, demo_script [Some 6, Some 9] [True])"
    by (simp add: demo_run_simps)
  show "RunOnce (\<lambda>_. False) (scripted_ops demo_tron_chain) deliver_out demo_scanner (demo_script [Some 6, Some 9] [True]) =
     ((0, None), SetCursor 2 demo_scanner, demo_script [Some 9] [True])"
    by (simp add: demo_run_simps u del: upt_Suc)
  show "RunOnce (\<lambda>_. False) (scripted_ops demo_tron_chain) deliver_out (SetCursor 2 demo_scanner) (demo_script [Some 9] [True]) =
     ((0, None), SetCursor 5 demo_scanner, (demo_script [] [])\<lparr>st_out := [demo_event ''t9'']\<rparr>)"
    by (simp add: demo_run_simps u del: upt_Suc)
qed

lemma demo_run: "run_times (Suc (Suc (Suc 0))) (\<lambda>_. False) demo_tron_chain demo_scanner (demo_script [None, Some 6, Some 9] [True]) =
    (SetCursor 5 demo_scanner, (demo_script [] [])\<lparr>st_out := [demo_event ''t9'']\<rparr>)"
  by (simp add: demo_runs)

theorem scanner_delivers_witness:
  "let (sc', w') = run_times (Suc (Suc (Suc 0))) (\<lambda>_. False) demo_tron_chain demo_scanner (demo_script [None, Some 6, Some 9] [True])
   in 0 < sc_lastScanned sc' \<and> st_out w' = [demo_event ''t9''] \<and> subseq (st_out w') (passed_events demo_tron_chain demo_scanner sc')"
proof -
  let ?w = "(demo_script [] [])\<lparr>st_out := [demo_event ''t9'']\<rparr>"
  have "\<exists>es. st_out ?w = st_out (demo_script [None, Some 6, Some 9] [True]) @ es \<and>
      subseq es (passed_events demo_tron_chain demo_scanner (SetCursor 5 demo_scanner))"
    using scanner_delivers [OF _ _ _ demo_run] by (auto simp: demo_scan_simps heads_ok_def demo_script_def)
  then show ?thesis unfolding demo_run by (simp add: demo_script_def SetCursor_def)
qed

end
