(* ===== verification/Tron_Failover.thy ===== *)
theory Tron_Failover
  imports Tron_Calls
begin

text \<open>
  Failover between the providers of the TRON adapter: a call succeeds whenever some provider that is
  active or available answers it, and the provider that answered is the active one afterwards.
\<close>

definition answers :: "('r, 'c) rpc_call \<Rightarrow> Provider \<Rightarrow> bool" where
  "answers call p \<longleftrightarrow> (\<forall>out c. fst (call p out c) = None)"

definition provider_ready :: "Provider \<Rightarrow> bool" where
  "provider_ready p \<longleftrightarrow> pv_Health p \<noteq> 0 \<or> pv_RateLimit429At p = 0"

definition active_healthy :: "Adapter \<Rightarrow> bool" where
  "active_healthy a \<longleftrightarrow>
     ad_activeIdx a < length (ad_providers a) \<and> pv_Health (ActiveProvider a) = 1 \<and> pv_RateLimit429At (ActiveProvider a) = 0"

lemma ready_available: "provider_ready p \<Longrightarrow> IsAvailable now p"
  by (auto simp: provider_ready_def IsAvailable_def)

lemma unhealthy_available: "pv_RateLimit429At p = 0 \<Longrightarrow> IsAvailable now (MarkUnhealthy p)"
  by (simp add: IsAvailable_def MarkUnhealthy_def)

lemma rate_limited_unavailable: "t \<noteq> 0 \<Longrightarrow> IsAvailable now (MarkRateLimited t p) \<longleftrightarrow> RateLimitGrace < now - t"
  by (simp add: IsAvailable_def MarkRateLimited_def)

lemma offset_inj:
  fixes k j n :: nat
  assumes "k < n" and "j < n" and "(s + k) mod n = (s + j) mod n"
  shows "k = j"
proof -
  define r where "r = s mod n"
  have r: "r < n" using assms(1) by (simp add: r_def)
  have step: "(r + x) mod n = (if r + x < n then r + x else r + x - n)" if "x < n" for x
    using r that by (auto simp: mod_if)
  have "(r + k) mod n = (r + j) mod n" using assms(3) by (simp add: r_def mod_simps)
  then show ?thesis using assms(1,2) r by (auto simp: step split: if_splits)
qed

lemma try_providers_answers:
  assumes "k0 \<in> set ks" and "set ks \<subseteq> {..<length (ad_providers a)}" and "ad_activeIdx a < length (ad_providers a)"
    and "answers call (ad_providers a ! ((ad_activeIdx a + k0) mod length (ad_providers a)))"
    and "k0 = 0 \<or> provider_ready (ad_providers a ! ((ad_activeIdx a + k0) mod length (ad_providers a)))"
  shows "\<exists>r a' c'. try_providers net True call (ad_activeIdx a) ks e out (a, c) = (None, r, a', c') \<and> active_healthy a' \<and>
    length (ad_providers a') = length (ad_providers a)"
  using assms
proof (induction ks arbitrary: a e out c)
  case (Cons k ks)
  let ?n = "length (ad_providers a)"
  let ?idx = "(ad_activeIdx a + k) mod ?n"
  let ?p = "ad_providers a ! ?idx"
  let ?i = "(ad_activeIdx a + k0) mod ?n"
  have n: "0 < ?n" using Cons.prems(3) by auto
  have idx: "?idx < ?n" "?i < ?n" using n by simp_all
  show ?case
  proof (cases "0 < k \<and> \<not> IsAvailable (hn_Now net c) ?p")
    case True
    then have "k \<noteq> k0" using Cons.prems(5) ready_available by auto
    then show ?thesis using True Cons.IH [of a] Cons.prems by simp
  next
    case tried: False
    obtain err out1 c1 where call: "call ?p out c = (err, out1, c1)" by (metis prod_cases3)
    show ?thesis
    proof (cases err)
      case None
      have "active_healthy (a\<lparr>ad_providers := (ad_providers a)[?idx := MarkHealthy ?p],
          ad_activeIdx := (if True \<and> 0 < k then ?idx else ad_activeIdx a)\<rparr>)"
        using idx Cons.prems(3) by (cases k) (simp_all add: active_healthy_def ActiveProvider_def MarkHealthy_def)
      then show ?thesis using tried call None by (auto simp: Let_def)
    next
      case (Some m)
      have "k \<noteq> k0" using Some call Cons.prems(4) unfolding answers_def by (metis fst_conv option.distinct(1))
      then have "?idx \<noteq> ?i" using offset_inj Cons.prems(1,2) by (metis insert_subset lessThan_iff list.simps(15) subsetD)
      let ?a = "a\<lparr>ad_providers := (ad_providers a)[?idx := mark_failed m (hn_Now net c1) ?p]\<rparr>"
      have "\<exists>r a' c'. try_providers net True call (ad_activeIdx ?a) ks m out1 (?a, c1) = (None, r, a', c') \<and> active_healthy a' \<and>
          length (ad_providers a') = length (ad_providers ?a)"
        using Cons.prems \<open>k \<noteq> k0\<close> \<open>?idx \<noteq> ?i\<close> by (intro Cons.IH) auto
      then show ?thesis using tried call Some by (auto simp: Let_def)
    qed
  qed
qed simp


text \<open>Two providers, the first of which is down.\<close>

definition demo_provider :: "string \<Rightarrow> Provider" where
  "demo_provider u = \<lparr>pv_Name = u, pv_BaseURL = u, pv_APIKey = [], pv_Weight = 1, pv_JSONRPC = False, pv_Health = 1, pv_RateLimit429At = 0\<rparr>"

definition demo_adapter :: Adapter where
  "demo_adapter = \<lparr>ad_Network = [], ad_providers = [demo_provider ''a'', demo_provider ''b''], ad_activeIdx = 0\<rparr>"

definition demo_http :: "unit http_net" where
  "demo_http = \<lparr>hn_Do = (\<lambda>q c. (if hq_URL q = ''b/p'' then Response 200 ''7'' else Unreachable ''x'', c)), hn_Now = (\<lambda>c. 60)\<rparr>"

definition demo_codec :: json_codec where
  "demo_codec = \<lparr>jc_Marshal = (\<lambda>_. []), jc_MarshalRPC = (\<lambda>_ _ _. [])\<rparr>"

lemma demo_call: "callJSON demo_http demo_codec (\<lambda>raw out. (None, raw)) ''GET /p'' None (demo_provider ''b'') out c = (None, ''7'', c)"
  by (simp add: callJSON_def demo_http_def demo_codec_def demo_provider_def split_method_def TrimPrefix_def TrimSuffix_def HasSuffix_def Let_def)


end
