(* ===== verification/Tron_Withdrawals.thy ===== *)
theory Tron_Withdrawals
  imports WalletApi_Safety Tron_Calls
begin

text \<open>
  The withdrawal worker on top of the TRON adapter: with a token contract configured, what
  BuildTransfer gives has no parsed transaction and BroadcastSigned refuses to send without one.
\<close>

lemma smart_result_raw: "smart_result r = Inr b \<Longrightarrow> br_RawData b = None"
  by (auto simp: smart_result_def split: if_splits option.splits)

lemma with_rpc_Inr: "with_rpc x f = (Inr b, s') \<Longrightarrow> \<exists>r. f r = Inr b"
  by (auto simp: with_rpc_def split: prod.splits sum.splits)

lemma BuildTransfer_token:
  assumes "contract \<noteq> []" and "BuildTransfer lib k t a contract s = (Some (Inr b), s')"
  shows "br_RawData b = None"
  using assms by (auto simp: BuildTransfer_def split: prod.splits sum.splits option.splits dest!: with_rpc_Inr smart_result_raw)

lemma BroadcastSigned_nil: "\<exists>e. BroadcastSigned lib None sig s = (Inl e, s)"
  by (simp add: BroadcastSigned_def)

text \<open>The chain operations of a worker whose successful answers are the adapter's.\<close>

definition tron_backed :: "'t tron_lib \<Rightarrow> 'c chain_ops \<Rightarrow> bool" where
  "tron_backed lib ops \<longleftrightarrow>
     (\<forall>k t a ct c b c'. ch_BuildTransfer ops k t a ct c = (Inr b, c') \<longrightarrow>
        (\<exists>s s'. BuildTransfer lib k t a ct s = (Some (Inr b), s'))) \<and>
     (\<forall>d sig c b c'. ch_BroadcastSigned ops d sig c = (Inr b, c') \<longrightarrow>
        (\<exists>s s'. BroadcastSigned lib d sig s = (Inr b, s')))"

definition broadcast_ids :: "'x wapi_db_scheme \<Rightarrow> uuid set" where
  "broadcast_ids s = wr_id ` {r \<in> set (withdrawals s). wr_status r = ''BROADCASTED''}"

lemma upd_broadcast:
  assumes "updateWithdrawalStatus now i x y h c m s = (b, s')" and "y \<noteq> ''BROADCASTED''"
  shows "broadcast_ids s' \<subseteq> broadcast_ids s"
  using updateWithdrawalStatus_cases [OF assms(1)] assms(2)
  by (auto simp: broadcast_ids_def set_status_def split: if_splits)

lemma upd_broadcast_snd:
  "y \<noteq> ''BROADCASTED'' \<Longrightarrow> broadcast_ids (snd (updateWithdrawalStatus now i x y h c m s)) \<subseteq> broadcast_ids s"
  by (rule upd_broadcast [OF prod.collapse [symmetric]])

lemma unlock_broadcast: "broadcast_ids (unlockWithdrawalBalance u a x s) = broadcast_ids s"
proof -
  have "withdrawals (unlockWithdrawalBalance u a x s) = withdrawals s"
    using exec_stmt_casesD [of "update_api_balance u a (\<lambda>b. (n_add (ab_available b) (n_least x (ab_frozen b)),
        n_greatest (n_sub (ab_frozen b) x) (Num 0)))" s, OF prod.collapse [symmetric]]
    unfolding unlockWithdrawalBalance_def by (auto dest!: update_api_balance_SomeD)
  then show ?thesis by (simp add: broadcast_ids_def)
qed

lemma fail_broadcast: "broadcast_ids (fail_withdrawal now it e s) \<subseteq> broadcast_ids s"
  by (simp add: fail_withdrawal_def unlock_broadcast upd_broadcast_snd)

lemma chain_broadcast: "call_chain f s = (r, s') \<Longrightarrow> broadcast_ids s' = broadcast_ids s"
  by (auto simp: call_chain_def broadcast_ids_def split: prod.splits)

lemma chain_answer: "call_chain f s = (r, s') \<Longrightarrow> \<exists>c c'. f c = (r, c')"
  by (auto simp: call_chain_def split: prod.splits)

lemma finish_refused_broadcast: "broadcast_ids (finish_broadcast now it h h' (Inl e) s) \<subseteq> broadcast_ids s"
  unfolding finish_broadcast_def Let_def sum.case
  by (rule subset_trans [OF upd_broadcast_snd upd_broadcast_snd]) simp_all

lemma process_token_broadcast:
  fixes s :: "('c, 'x) worker_db_scheme"
  assumes tron: "tron_backed lib ops" and contract: "wc_contract cfg \<noteq> []"
  shows "broadcast_ids (snd (processOneWithdrawal ops cfg oob now it s)) \<subseteq> broadcast_ids s"
proof -
  let ?u = "updateWithdrawalStatus now (wi_ID it) ''PENDING'' ''SIGNING'' None None [] s"
  obtain ok s1 where 1: "?u = (ok, s1)" by force
  have b1: "broadcast_ids s1 \<subseteq> broadcast_ids s" using 1 by (rule upd_broadcast) simp
  obtain bres s2 where 2: "call_chain (ch_BuildTransfer ops (wc_hotWalletAddr cfg) (wi_To it)
      (usdtToUnits oob (Some (n_float (wi_Amount it)))) (wc_contract cfg)) s1 = (bres, s2)" by force
  note b2 = chain_broadcast [OF 2]
  show ?thesis
  proof (cases "ok \<and> \<not> isl bres")
    case False
    then show ?thesis using 1 2 b1 b2 fail_broadcast [of now it _ s2]
      by (cases ok; cases bres) (auto simp: processOneWithdrawal_def)
  next
    case True
    then obtain build where build: "ok" "bres = Inr build" by (cases bres) auto
    obtain sres s3 where 3: "call_chain (ch_Sign ops (br_RawTx build)) s2 = (sres, s3)" by force
    note b3 = chain_broadcast [OF 3]
    have nil: "br_RawData build = None"
      using chain_answer [OF 2] tron contract BuildTransfer_token unfolding tron_backed_def build(2) by blast
    let ?s = "s3\<lparr>sent_withdrawals := sent_withdrawals s3 @ [wi_ID it]\<rparr>"
    have refused: "\<exists>e. fst (call_chain (ch_BroadcastSigned ops None sig) ?s) = Inl e" for sig
    proof (cases "fst (call_chain (ch_BroadcastSigned ops None sig) ?s)")
      case (Inr b)
      then obtain c c' where "ch_BroadcastSigned ops None sig c = (Inr b, c')"
        using chain_answer [OF prod.collapse [symmetric]] by metis
      then show ?thesis using tron BroadcastSigned_nil unfolding tron_backed_def by (metis Inl_Inr_False fst_conv)
    qed simp
    have sent: "broadcast_ids (finish_broadcast now it h h' (fst (call_chain (ch_BroadcastSigned ops None sig) ?s))
        (snd (call_chain (ch_BroadcastSigned ops None sig) ?s))) \<subseteq> broadcast_ids s3" for h h' sig
    proof -
      obtain e where "fst (call_chain (ch_BroadcastSigned ops None sig) ?s) = Inl e" using refused by blast
      moreover have "broadcast_ids (snd (call_chain (ch_BroadcastSigned ops None sig) ?s)) = broadcast_ids s3"
        using chain_broadcast [of "ch_BroadcastSigned ops None sig" ?s, OF prod.collapse [symmetric]] by (simp add: broadcast_ids_def)
      ultimately show ?thesis using finish_refused_broadcast by metis
    qed
    have "broadcast_ids (snd (processOneWithdrawal ops cfg oob now it s)) \<subseteq> broadcast_ids s3"
      by (simp add: processOneWithdrawal_def 1 2 3 build nil sent upd_broadcast_snd fail_broadcast Let_def case_prod_unfold
          split: sum.split)
    then show ?thesis using b1 b2 b3 by simp
  qed
qed

lemma process_items_token_broadcast:
  assumes "tron_backed lib ops" and "wc_contract cfg \<noteq> []"
  shows "broadcast_ids (snd (process_items ops cfg oob now its s)) \<subseteq> broadcast_ids s"
proof (induction its arbitrary: s)
  case (Cons it its)
  obtain r s1 where "processOneWithdrawal ops cfg oob now it s = (r, s1)" by force
  then show ?case using process_token_broadcast [OF assms, of oob now it s] Cons.IH [of s1] by (cases r) auto
qed simp

text \<open>A worker that withdraws a token through the TRON adapter never gets a withdrawal out: no tick
  marks a withdrawal as broadcast, since the adapter refuses to send what it has built itself.
\<close>
theorem token_withdrawals_never_sent:
  assumes "tron_backed lib ops" and "wc_contract cfg \<noteq> []"
  shows "broadcast_ids (snd (processPendingWithdrawals ops cfg oob now s)) \<subseteq> broadcast_ids s"
proof -
  obtain v s1 where q: "query pending_items s = (v, s1)" by force
  then have "broadcast_ids s1 = broadcast_ids s" by (auto simp: broadcast_ids_def dest!: query_casesD)
  then show ?thesis using process_items_token_broadcast [OF assms, of oob now _ s1] q by (cases v) (simp_all add: processPendingWithdrawals_def)
qed

text \<open>A node that builds every token transfer, and the worker's operations over it.\<close>

definition demo_lib :: "unit tron_lib" where
  "demo_lib =
     \<lparr>tl_net = \<lparr>hn_Do = (\<lambda>q c. (Response 200 [], c)), hn_Now = (\<lambda>c. 60)\<rparr>,
      tl_codec = \<lparr>jc_Marshal = (\<lambda>_. []), jc_MarshalRPC = (\<lambda>_ _ _. [])\<rparr>,
      tl_dec = (\<lambda>_. []), tl_FromHex = (\<lambda>_. []),
      tl_now_block = (\<lambda>_ r. (None, r)), tl_rawBlock = (\<lambda>_ r. (None, r)),
      tl_TxStrings = (\<lambda>_. None), tl_TxObjects = (\<lambda>_. None), tl_tx_info = (\<lambda>_ r. (None, r)),
      tl_marshal_log = (\<lambda>_. []), tl_unmarshal_log = (\<lambda>_. None), tl_constant = (\<lambda>_ r. (None, r)),
      tl_smart = (\<lambda>_ r. (None, r\<lparr>sm_TxID := ''t'', sm_RawDataHex := ''0a''\<rparr>)),
      tl_native = (\<lambda>_ r. (None, r)), tl_broadcast = (\<lambda>_ r. (None, r\<lparr>ba_Result := True\<rparr>))\<rparr>"

definition demo_tron_ops :: "unit tron chain_ops" where
  "demo_tron_ops =
     \<lparr>ch_BuildTransfer = (\<lambda>k t a ct s. case BuildTransfer demo_lib k t a ct s of
          (Some (Inr b), s') \<Rightarrow> (Inr b, s') | (_, s') \<Rightarrow> (Inl ''build'', s')),
      ch_Sign = (\<lambda>raw c. (Inr (raw @ replicate 65 8, ''s''), c)),
      ch_BroadcastSigned = (\<lambda>d sig s. case BroadcastSigned demo_lib d sig s of
          (Inr b, s') \<Rightarrow> (Inr b, s') | (_, s') \<Rightarrow> (Inl ''nil'', s')),
      ch_GetTransaction = (\<lambda>_ c. (Inl [], c)), ch_GetSolidifiedBlock = (\<lambda>c. (Inl [], c)),
      ch_GetBalance = (\<lambda>_ _ c. (Inl [], c))\<rparr>"

lemma demo_tron_backed: "tron_backed demo_lib demo_tron_ops"
  unfolding tron_backed_def demo_tron_ops_def
  by (auto split: prod.splits sum.splits option.splits)

definition demo_tron_state :: "unit tron worker_db" where
  "demo_tron_state =
     \<lparr>faults = [], tx_aborted = False, api_users = [],
      api_balances = [(7, ''USDT'') \<mapsto> \<lparr>ab_available = Num 200, ab_frozen = Num 30\<rparr>],
      withdrawal_columns = [''completed_at''], withdrawals = [demo_withdrawal\<lparr>wr_dest := ''41''\<rparr>], idempotency = [],
      chain_state = (\<lparr>ad_Network = [], ad_providers = [\<lparr>pv_Name = [], pv_BaseURL = ''a'', pv_APIKey = [], pv_Weight = 1,
         pv_JSONRPC = False, pv_Health = 1, pv_RateLimit429At = 0\<rparr>], ad_activeIdx = 0\<rparr>, ()),
      sweep_tasks = [], chain_addresses = [], sent_withdrawals = [], sent_sweeps = []\<rparr>"

definition token_config :: worker_config where
  "token_config = \<lparr>wc_contract = ''41'', wc_hotWalletAddr = ''41'', wc_dry_run = False\<rparr>"

lemma demo_post:
  "callWithFailover (tl_net demo_lib) (tl_codec demo_lib) (tl_smart demo_lib) ''POST /wallet/triggersmartcontract'' ps z
     (chain_state demo_tron_state) = (Inr (z\<lparr>sm_TxID := ''t'', sm_RawDataHex := ''0a''\<rparr>), chain_state demo_tron_state)"
  by (simp add: callWithFailover_def callJSON_def demo_lib_def demo_tron_state_def split_method_def MarkHealthy_def Let_def)

lemma demo_texts: "ToLower ''41'' = ''41''" "DecodeString ''0a'' = Some [10]"
  by code_simp+

lemma demo_build:
  "ch_BuildTransfer demo_tron_ops ''41'' ''41'' n ''41'' (chain_state demo_tron_state) =
     (Inr \<lparr>br_RawTx = [10], br_TxHash = ''t'', br_RawData = None\<rparr>, chain_state demo_tron_state)"
  by (simp add: demo_tron_ops_def BuildTransfer_def base58ToHexTron_def encodeTransferCall_def demo_texts TrimPrefix_def rpc_def demo_post
      with_rpc_def smart_result_def smart_hex_def smart_id_def or_else_def del: DecodeString.simps)

lemma demo_tick:
  "processPendingWithdrawals demo_tron_ops token_config (\<lambda>_. 0) 9 demo_tron_state =
     (Some (), demo_tron_state\<lparr>withdrawals := [demo_withdrawal\<lparr>wr_dest := ''41'', wr_status := ''SIGNING''\<rparr>], sent_withdrawals := [60]\<rparr>)"
proof -
  let ?it = "item_of (demo_withdrawal\<lparr>wr_dest := ''41''\<rparr>)"
  have items: "pending_items demo_tron_state = [?it]"
    by (simp add: pending_items_def maxPerTick_def demo_tron_state_def demo_withdrawal_def)
  have claim: "updateWithdrawalStatus 9 60 ''PENDING'' ''SIGNING'' None None [] demo_tron_state =
      (True, demo_tron_state\<lparr>withdrawals := [demo_withdrawal\<lparr>wr_dest := ''41'', wr_status := ''SIGNING''\<rparr>]\<rparr>)"
    by (simp add: demo_tron_state_def demo_withdrawal_def updateWithdrawalStatus_def update_status_stmt_def update_withdrawals_def
        is_status_def wd_check_def set_status_def withdrawal_statuses_def)
  have lost: "finish_broadcast 9 ?it ''s'' ''t'' (Inl ''nil'') t = t"
    if "t = demo_tron_state\<lparr>withdrawals := [demo_withdrawal\<lparr>wr_dest := ''41'', wr_status := ''SIGNING''\<rparr>], sent_withdrawals := [60]\<rparr>" for t
    unfolding that
    by (simp add: demo_tron_state_def demo_withdrawal_def item_of_def finish_broadcast_def updateWithdrawalStatus_def update_status_stmt_def update_withdrawals_def
        is_status_def Let_def)
  have sent: "sent_withdrawals demo_tron_state = []" by (simp add: demo_tron_state_def)
  have acked: "faults demo_tron_state = []" by (simp add: demo_tron_state_def)
  have it: "wi_ID ?it = 60" "wi_To ?it = ''41''" by (simp_all add: item_of_def demo_withdrawal_def)
  have refuse: "ch_BroadcastSigned demo_tron_ops None (replicate 65 8) c = (Inl ''nil'', c)" for c
    by (simp add: demo_tron_ops_def BroadcastSigned_def)
  have sign: "ch_Sign demo_tron_ops raw c = (Inr (raw @ replicate 65 8, ''s''), c)" for raw c
    by (simp add: demo_tron_ops_def)
  have "processOneWithdrawal demo_tron_ops token_config (\<lambda>_. 0) 9 ?it demo_tron_state = (Some (), 
      demo_tron_state\<lparr>withdrawals := [demo_withdrawal\<lparr>wr_dest := ''41'', wr_status := ''SIGNING''\<rparr>], sent_withdrawals := [60]\<rparr>)"
    unfolding processOneWithdrawal_def it claim
    by (simp add: token_config_def call_chain_def demo_build sign refuse lost sent)
  then show ?thesis by (simp add: processPendingWithdrawals_def items acked)
qed

theorem token_withdrawals_never_sent_witness:
  "let s' = snd (processPendingWithdrawals demo_tron_ops token_config (\<lambda>_. 0) 9 demo_tron_state)
   in broadcast_ids s' = {} \<and> sent_withdrawals s' = [60] \<and> map wr_status (withdrawals s') = [''SIGNING'']"
proof -
  have "broadcast_ids (snd (processPendingWithdrawals demo_tron_ops token_config (\<lambda>_. 0) 9 demo_tron_state)) \<subseteq> broadcast_ids demo_tron_state"
    using demo_tron_backed by (rule token_withdrawals_never_sent) (simp add: token_config_def)
  moreover have "broadcast_ids demo_tron_state = {}" by (simp add: broadcast_ids_def demo_tron_state_def demo_withdrawal_def)
  ultimately show ?thesis by (simp add: demo_tick)
qed

end
