(* ===== verification/Blockchain.thy ===== *)
theory Blockchain
  imports Go_Strings
begin

text \<open>
  The chains and their adapters: internal/blockchain/adapter.go and stub.go. An adapter is a value
  with the chain it is for; the stubs of the chains that are not implemented fail at every operation.
\<close>

definition ChainTron :: string where "ChainTron = ''TRON''"
definition ChainBtc :: string where "ChainBtc = ''BTC''"
definition ChainEth :: string where "ChainEth = ''ETH''"
definition ChainBsc :: string where "ChainBsc = ''BSC''"
definition ChainSol :: string where "ChainSol = ''SOL''"

definition AllChains :: "string list" where
  "AllChains = [ChainTron, ChainBtc, ChainEth, ChainBsc, ChainSol]"

definition toUpperASCII :: "string \<Rightarrow> string" where
  "toUpperASCII s = map (\<lambda>c. let n = of_char c :: nat in if 97 \<le> n \<and> n \<le> 122 then char_of (n - 32) else c) s"

text \<open>\<open>None\<close> is ErrUnknownChain.\<close>

definition ParseChain :: "string \<Rightarrow> string option" where
  "ParseChain s = (if toUpperASCII s \<in> set AllChains then Some (toUpperASCII s) else None)"

datatype 'a adapter = stubAdapter (adapter_Chain: string) | RealAdapter (adapter_Chain: string) 'a

text \<open>A stub's answer to an operation, or \<open>None\<close> of an adapter that has one.\<close>

definition stub_error :: "string \<Rightarrow> string \<Rightarrow> string" where
  "stub_error chain op = ''blockchain: chain not yet implemented: '' @ chain @ '' '' @ op"

record 'a Registry =
  rg_adapters :: "string \<rightharpoonup> 'a adapter"

definition NewRegistry :: "'a Registry" where
  "NewRegistry = \<lparr>rg_adapters = Map.empty\<rparr>"

definition Register :: "'a adapter \<Rightarrow> 'a Registry \<Rightarrow> 'a Registry" where
  "Register a r = r\<lparr>rg_adapters := (rg_adapters r)(adapter_Chain a \<mapsto> a)\<rparr>"

definition For :: "string \<Rightarrow> 'a Registry \<Rightarrow> string + 'a adapter" where
  "For chain r =
     (case rg_adapters r chain of
        None \<Rightarrow> Inl (''blockchain: no adapter registered for chain: '' @ chain)
      | Some a \<Rightarrow> Inr a)"

definition Has :: "string \<Rightarrow> 'a Registry \<Rightarrow> bool" where
  "Has chain r \<longleftrightarrow> rg_adapters r chain \<noteq> None"

text \<open>The order of Chains is that of a Go map: unspecified.\<close>

definition Chains :: "'a Registry \<Rightarrow> string set" where
  "Chains r = dom (rg_adapters r)"

fun register_stubs :: "string list \<Rightarrow> 'a Registry \<Rightarrow> string list \<times> 'a Registry" where
  "register_stubs [] r = ([], r)"
| "register_stubs (c # cs) r =
     (if Has c r then register_stubs cs r
      else (case register_stubs cs (Register (stubAdapter c) r) of (stubbed, r') \<Rightarrow> (c # stubbed, r')))"

definition RegisterStubs :: "'a Registry \<Rightarrow> string list \<times> 'a Registry" where
  "RegisterStubs r = register_stubs AllChains r"

lemma Has_Register [simp]: "Has c (Register a r) \<longleftrightarrow> c = adapter_Chain a \<or> Has c r"
  by (simp add: Has_def Register_def)

lemma register_stubs_adapters:
  "distinct cs \<Longrightarrow> register_stubs cs r = (stubbed, r') \<Longrightarrow>
     stubbed = filter (\<lambda>c. \<not> Has c r) cs \<and>
     rg_adapters r' = (\<lambda>c. if c \<in> set cs \<and> \<not> Has c r then Some (stubAdapter c) else rg_adapters r c)"
proof (induction cs arbitrary: r stubbed r')
  case (Cons c cs)
  show ?case
  proof (cases "Has c r")
    case True
    then show ?thesis using Cons.IH [of r stubbed r'] Cons.prems by auto
  next
    case False
    then obtain st where st: "register_stubs cs (Register (stubAdapter c) r) = (st, r')" "stubbed = c # st"
      using Cons.prems(2) by (auto split: prod.splits)
    have "filter (\<lambda>d. \<not> Has d (Register (stubAdapter c) r)) cs = filter (\<lambda>d. \<not> Has d r) cs"
      using Cons.prems(1) by (intro filter_cong) auto
    then show ?thesis using Cons.IH [OF _ st(1)] Cons.prems(1) st(2) False
      by (auto simp: fun_eq_iff Register_def Has_def)
  qed
qed simp

text \<open>After the stubs every chain has an adapter, and the ones registered before are unchanged.\<close>

theorem RegisterStubs_complete:
  assumes "RegisterStubs r = (stubbed, r')"
  shows "set AllChains \<subseteq> Chains r' \<and> stubbed = filter (\<lambda>c. \<not> Has c r) AllChains \<and>
    (\<forall>c. Has c r \<longrightarrow> For c r' = For c r) \<and> (\<forall>c \<in> set stubbed. For c r' = Inr (stubAdapter c))"
proof -
  have "distinct AllChains"
    by (simp add: AllChains_def ChainTron_def ChainBtc_def ChainEth_def ChainBsc_def ChainSol_def)
  from register_stubs_adapters [OF this assms [unfolded RegisterStubs_def]]
  show ?thesis by (auto simp: Chains_def For_def Has_def)
qed

lemma ParseChain_known: "ParseChain s = Some c \<Longrightarrow> c \<in> set AllChains"
  by (simp add: ParseChain_def split: if_splits)

end
