(* ===== verification/Tron_Address_Correct.thy ===== *)
theory Tron_Address_Correct
  imports Tron_Address WalletApi
begin

text \<open>
  Correctness of the TRON address texts: encoding and decoding undo each other, every address has
  34 characters and begins with T, and the conversions between the forms agree.
\<close>

subsection \<open>Base58\<close>

lemma digits_of_58 [simp]: "d \<in> set (digits_of 58 n) \<Longrightarrow> d < 58"
  by (rule digits_of_bound) simp_all

lemma digits_of_256 [simp]: "d \<in> set (digits_of 256 n) \<Longrightarrow> d < 256"
  by (rule digits_of_bound) simp_all

lemma unat_byte [simp]: "unat (x :: byte) < 256"
  using unsigned_less [of x, where 'a = nat] by simp

lemma Bytes_SetBytes: "Bytes (SetBytes b) = dropWhile (\<lambda>x. x = 0) b"
proof -
  have "\<forall>d \<in> set (map unat b). d < 256" by simp
  from digits_of_value_of [OF _ this] have "Bytes (SetBytes b) = map word_of_nat (dropWhile (\<lambda>d. d = 0) (map unat b))"
    by (simp add: Bytes_def SetBytes_def)
  also have "\<dots> = dropWhile (\<lambda>x. x = 0) b" by (simp add: dropWhile_map comp_def unat_eq_0)
  finally show ?thesis .
qed

lemma SetBytes_Bytes: "SetBytes (Bytes n) = n"
proof -
  have "map unat (Bytes n) = rev (digits_of 256 n)"
    by (auto simp: Bytes_def comp_def unat_of_nat intro!: map_idI)
  then show ?thesis by (simp add: SetBytes_def value_of_digits_of)
qed

lemma alphabet_index: "i < 58 \<Longrightarrow> base58_index (base58Alphabet ! i) = i"
proof -
  assume "i < 58"
  then have "i \<in> set [0..<58]" by simp
  moreover have "\<forall>i \<in> set [0..<58]. base58_index (base58Alphabet ! i) = i" by code_simp
  ultimately show ?thesis by blast
qed

lemma length_alphabet [simp]: "length base58Alphabet = 58"
  by (simp add: base58Alphabet_def)

lemma alphabet_in [simp]: "i < 58 \<Longrightarrow> base58Alphabet ! i \<in> set base58Alphabet"
  by simp

lemma index_alphabet:
  assumes "c \<in> set base58Alphabet"
  shows "base58_index c < 58" "base58Alphabet ! base58_index c = c"
proof -
  obtain i where "i < 58" "c = base58Alphabet ! i" using assms by (metis in_set_conv_nth length_alphabet)
  then show "base58_index c < 58" "base58Alphabet ! base58_index c = c" using alphabet_index by auto
qed

lemma alphabet_0 [simp]: "base58Alphabet ! 0 = CHR ''1''"
  by (simp add: base58Alphabet_def)

lemma index_1 [simp]: "base58_index (CHR ''1'') = 0"
  using alphabet_index [of 0] by simp

lemma alphabet_eq_1: "i < 58 \<Longrightarrow> base58Alphabet ! i = CHR ''1'' \<longleftrightarrow> i = 0"
  using alphabet_index [of i] by auto

lemma takeWhile_replicate_hd:
  "(xs \<noteq> [] \<Longrightarrow> hd xs \<noteq> x) \<Longrightarrow> takeWhile (\<lambda>c. c = x) (replicate k x @ xs) = replicate k x"
  by (induction k) (auto simp: takeWhile_eq_Nil_iff)

lemma replicate_takeWhile: "replicate (length (takeWhile (\<lambda>c. c = x) xs)) x = takeWhile (\<lambda>c. c = x) xs"
  by (induction xs) auto

lemma base58Encode_alt:
  "base58Encode b = replicate (length (takeWhile (\<lambda>x. x = 0) b)) CHR ''1'' @ map ((!) base58Alphabet) (rev (digits_of 58 (SetBytes b)))"
  by (simp add: base58Encode_def rev_map)

lemma base58_leading:
  "takeWhile (\<lambda>c. c = CHR ''1'') (replicate k CHR ''1'' @ map ((!) base58Alphabet) (rev (digits_of 58 n))) = replicate k CHR ''1''"
proof (rule takeWhile_replicate_hd)
  assume "map ((!) base58Alphabet) (rev (digits_of 58 n)) \<noteq> []"
  then have ne: "digits_of 58 n \<noteq> []" by simp
  then have "hd (map ((!) base58Alphabet) (rev (digits_of 58 n))) = base58Alphabet ! last (digits_of 58 n)"
    by (simp add: hd_map hd_rev)
  moreover have "last (digits_of 58 n) < 58" using digits_of_58 [OF last_in_set [OF ne]] .
  ultimately show "hd (map ((!) base58Alphabet) (rev (digits_of 58 n))) \<noteq> CHR ''1''"
    using digits_of_last [OF _ ne] by (simp add: alphabet_eq_1)
qed

lemma base58_digits: "map base58_index (map ((!) base58Alphabet) (rev (digits_of 58 n))) = rev (digits_of 58 n)"
  by (auto intro!: map_idI alphabet_index)

lemma base58_text_encode: "base58_text (base58Encode b)"
  by (auto simp: base58_text_def base58Encode_alt list_all_iff) (simp add: base58Alphabet_def)

lemma decode_encode:
  assumes "btcutil_Decode dec"
  shows "base58Decode dec (base58Encode b) = b"
proof -
  let ?z = "length (takeWhile (\<lambda>x. x = 0) b)"
  have "dec (base58Encode b) = replicate ?z 0 @ Bytes (value_of 58 (map base58_index (base58Encode b)))"
    using assms base58_text_encode [of b] by (simp add: btcutil_Decode_def base58Encode_alt base58_leading)
  also have "value_of 58 (map base58_index (base58Encode b)) = SetBytes b"
    unfolding base58Encode_alt map_append base58_digits by (simp add: value_of_digits_of)
  also have "replicate ?z 0 @ Bytes (SetBytes b) = b"
    by (simp add: Bytes_SetBytes replicate_takeWhile)
  finally have d: "dec (base58Encode b) = b" .
  show ?thesis
  proof (cases "base58Encode b = []")
    case True
    then have z: "takeWhile (\<lambda>x. x = 0) b = []" and "digits_of 58 (SetBytes b) = []"
      by (auto simp: base58Encode_alt)
    then have "SetBytes b = 0" using value_of_digits_of [of 58 "SetBytes b"] by simp
    then have "dropWhile (\<lambda>x. x = 0) b = []" using Bytes_SetBytes [of b] by (simp add: Bytes_def)
    then have "b = []" using z by (metis append_Nil takeWhile_dropWhile_id)
    then show ?thesis using True by (simp add: base58Decode_def)
  qed (simp add: base58Decode_def d)
qed


lemma encode_decode:
  assumes "btcutil_Decode dec" and "base58_text s"
  shows "base58Encode (base58Decode dec s) = s"
proof -
  let ?k = "length (takeWhile (\<lambda>c. c = CHR ''1'') s)"
  let ?r = "dropWhile (\<lambda>c. c = CHR ''1'') s"
  have al: "\<forall>c \<in> set s. c \<in> set base58Alphabet" using assms(2) by (simp add: base58_text_def list_all_iff)
  have d: "base58Decode dec s = replicate ?k 0 @ Bytes (value_of 58 (map base58_index s))"
    using assms by (simp add: btcutil_Decode_def base58Decode_def Bytes_def)
  have s: "s = replicate ?k CHR ''1'' @ ?r" by (simp add: replicate_takeWhile)
  have "map base58_index s = replicate ?k 0 @ map base58_index ?r"
    by (subst s) (simp only: map_append map_replicate index_1)
  then have v: "value_of 58 (map base58_index s) = value_of 58 (map base58_index ?r)" by simp
  have lt: "\<forall>x \<in> set (map base58_index ?r). x < 58"
    using al index_alphabet(1) by (auto dest: set_dropWhileD)
  have dw: "dropWhile (\<lambda>d. d = 0) (map base58_index r) = map base58_index r"
    if "r = ?r" for r
  proof (cases r)
    case (Cons c cs)
    then have r: "?r = c # cs" using that by simp
    have "c \<noteq> CHR ''1''" using hd_dropWhile [of "\<lambda>c. c = CHR ''1''" s] unfolding r by simp
    moreover have "c \<in> set ?r" unfolding r by simp
    then have "c \<in> set base58Alphabet" using al by (blast dest: set_dropWhileD)
    ultimately have "base58_index c \<noteq> 0" using index_alphabet(2) [of c] by (metis alphabet_0)
    then show ?thesis by (simp add: Cons)
  qed simp
  have "digits_of 58 (value_of 58 (map base58_index ?r)) = rev (dropWhile (\<lambda>d. d = 0) (map base58_index ?r))"
    by (rule digits_of_value_of) (use lt in auto)
  then have dg: "digits_of 58 (value_of 58 (map base58_index ?r)) = rev (map base58_index ?r)"
    by (simp only: dw [OF refl])
  have nz: "takeWhile (\<lambda>x. x = 0) (Bytes n) = []" for n
    using Bytes_SetBytes [of "Bytes n"] SetBytes_Bytes [of n]
    by (metis hd_dropWhile takeWhile_eq_Nil_iff)
  have tw: "takeWhile (\<lambda>x. x = 0) (replicate ?k (0 :: byte) @ Bytes n) = replicate ?k 0" for n
    using nz [of n] by (intro takeWhile_replicate_hd) (auto simp: takeWhile_eq_Nil_iff)
  have sb: "SetBytes (replicate ?k 0 @ Bytes n) = n" for n
    using SetBytes_Bytes [of n] by (simp add: SetBytes_def)
  have "base58Encode (base58Decode dec s) = replicate ?k CHR ''1'' @ map ((!) base58Alphabet) (map base58_index ?r)"
    unfolding d base58Encode_alt tw sb v dg by simp
  also have "map ((!) base58Alphabet) (map base58_index ?r) = ?r"
    using al index_alphabet(2) by (auto intro!: map_idI dest: set_dropWhileD)
  finally show ?thesis using s by simp
qed

subsection \<open>The checksummed form\<close>

lemma length_sha256Twice [simp]: "length (sha256Twice b) = 32"
  by (simp add: sha256Twice_def)

lemma check_decode_encode:
  assumes "btcutil_Decode dec" and "p \<noteq> []"
  shows "base58CheckDecode dec (base58CheckEncode p) = Inr p"
  using assms by (simp add: base58CheckDecode_def base58CheckEncode_def decode_encode Let_def)

lemma check_encode_decode:
  assumes "btcutil_Decode dec" and "base58CheckDecode dec s = Inr p" and "p \<noteq> []"
  shows "base58CheckEncode p = s"
proof -
  let ?raw = "base58Decode dec s"
  have p: "p = take (length ?raw - 4) ?raw" "drop (length ?raw - 4) ?raw = take 4 (sha256Twice p)"
    using assms(2) by (auto simp: base58CheckDecode_def Let_def split: if_splits)
  have "base58_text s"
  proof (rule ccontr)
    assume "\<not> base58_text s"
    then have "?raw = []" using assms(1) by (simp add: btcutil_Decode_def base58Decode_def)
    then show False using p(1) assms(3) by simp
  qed
  moreover have "p @ take 4 (sha256Twice p) = ?raw" using p by (metis append_take_drop_id)
  ultimately show ?thesis using encode_decode [OF assms(1)] assms(3) by (simp add: base58CheckEncode_def)
qed

subsection \<open>The form of an address\<close>

lemma digits_of_leading:
  assumes "2 \<le> b" and "0 < d" and "d < b" and "d * b ^ k \<le> n" and "n < Suc d * b ^ k"
  shows "\<exists>ds. length ds = k \<and> digits_of b n = ds @ [d]"
  using assms(4,5)
proof (induction k arbitrary: n)
  case 0
  then have "n = d" by simp
  then show ?case using assms(1-3) digits_of_step [of b d 0] by simp
next
  case (Suc k)
  have "d * b ^ k \<le> n div b" using Suc.prems(1) assms(1) by (simp add: less_eq_div_iff_mult_less_eq mult.commute mult.left_commute)
  moreover have "n div b < Suc d * b ^ k" using Suc.prems(2) assms(1) by (simp add: div_less_iff_less_mult mult.commute mult.left_commute)
  ultimately obtain ds where ds: "length ds = k" "digits_of b (n div b) = ds @ [d]" using Suc.IH by blast
  have "0 < n div b" using \<open>d * b ^ k \<le> n div b\<close> assms(1,2) by (meson less_le_trans nat_0_less_mult_iff zero_less_power less_2_cases_iff not_less order_less_le_trans pos2)
  then have "\<not> (n = 0 \<or> b < 2)" using assms(1) by (metis div_0 less_irrefl not_less)
  then have "digits_of b n = (n mod b # ds) @ [d]" using ds(2) by (subst digits_of.simps) simp
  then show ?case using ds(1) by (intro exI [of _ "n mod b # ds"]) simp
qed

lemma SetBytes_tron:
  assumes "length (c :: byte list) = 24"
  shows "26 * 58 ^ 33 \<le> SetBytes (0x41 # c)" "SetBytes (0x41 # c) < 27 * 58 ^ 33"
proof -
  have v: "SetBytes (0x41 # c) = 65 * 256 ^ 24 + SetBytes c" using assms by (simp add: SetBytes_def value_of_Cons)
  have "SetBytes c < 256 ^ 24" using value_of_bounds [of "map unat c" 256] assms by (simp add: SetBytes_def)
  then show "26 * 58 ^ 33 \<le> SetBytes (0x41 # c)" "SetBytes (0x41 # c) < 27 * 58 ^ 33" unfolding v by simp_all
qed

lemma encode_tron_form:
  assumes "length c = 24"
  shows "length (base58Encode (0x41 # c)) = 34 \<and> hd (base58Encode (0x41 # c)) = CHR ''T''"
proof -
  obtain ds where "length ds = 33" "digits_of 58 (SetBytes (0x41 # c)) = ds @ [26]"
    using digits_of_leading [of 58 26 33 "SetBytes (0x41 # c)"] SetBytes_tron [OF assms] by auto
  then show ?thesis by (simp add: base58Encode_alt) (simp add: base58Alphabet_def)
qed

abbreviation tron_payload :: "byte list \<Rightarrow> byte list" where
  "tron_payload a \<equiv> 0x41 # a"

lemma tron_form:
  assumes "length a = 20"
  shows "length (base58CheckEncode (tron_payload a)) = 34 \<and> HasPrefix (base58CheckEncode (tron_payload a)) ''T''"
proof -
  have "length (a @ take 4 (sha256Twice (tron_payload a))) = 24" using assms by simp
  from encode_tron_form [OF this] show ?thesis
    by (cases "base58CheckEncode (tron_payload a)") (auto simp: base58CheckEncode_def)
qed

lemma hex_value_digit: "n < 16 \<Longrightarrow> hex_value (hex_digit n) = Some n"
  by (auto simp: hex_value_def hex_digit_def Let_def)

lemma DecodeString_EncodeToString [simp]: "DecodeString (EncodeToString bs) = Some bs"
proof (induction bs)
  case (Cons b bs)
  have "EncodeToString (b # bs) = hex_digit (unat b div 16 mod 16) # hex_digit (unat b mod 16) # EncodeToString bs"
    by (simp add: EncodeToString_def hex_encode_def)
  moreover have "16 * (unat b div 16 mod 16) + unat b mod 16 = unat b"
  proof -
    have "unat b div 16 < 16" by (rule less_mult_imp_div_less) simp
    then show ?thesis by simp
  qed
  ultimately show ?case using Cons by (simp add: hex_value_digit)
qed (simp add: EncodeToString_def hex_encode_def)

lemma length_EncodeToString [simp]: "length (EncodeToString bs) = 2 * length bs"
  by (simp add: EncodeToString_def)

lemma hex_41: "hex_digit 4 = CHR ''4''" "hex_digit (Suc 0) = CHR ''1''"
  by code_simp+

lemma EncodeToString_tron: "EncodeToString (tron_payload a) = ''41'' @ EncodeToString a"
  by (simp add: EncodeToString_def hex_encode_def hex_41)

lemma alphabet_same: "base58_alphabet = base58Alphabet"
  by (simp add: base58_alphabet_def base58Alphabet_def)

lemma T_prefix: "HasPrefix s ''T'' \<Longrightarrow> TrimPrefix s ''0x'' = s \<and> \<not> HasPrefix s ''41''"
  by (cases s) (auto simp: TrimPrefix_def)

lemma tron_address_cases:
  assumes "btcutil_Decode dec" and "length a = 20"
  defines "s \<equiv> base58CheckEncode (tron_payload a)"
  shows "ValidateAddress dec s" "normaliseTronAddr dec s = Inr s"
    "normaliseTronAddr dec (EncodeToString (tron_payload a)) = Inr s"
    "base58ToHexTron dec s = Inr (EncodeToString (tron_payload a))"
    "tronValidateAddress s"
proof -
  have d: "base58CheckDecode dec s = Inr (tron_payload a)"
    unfolding s_def by (rule check_decode_encode) (use assms in simp_all)
  note f = tron_form [OF assms(2), folded s_def]
  show "ValidateAddress dec s" using d assms(2) by (simp add: ValidateAddress_def)
  show "normaliseTronAddr dec s = Inr s" using d assms(2) f T_prefix [of s] by (simp add: normaliseTronAddr_def)
  show "base58ToHexTron dec s = Inr (EncodeToString (tron_payload a))"
    using d assms(2) f T_prefix [of s] by (simp add: base58ToHexTron_def EncodeToString_tron)
  have "TrimPrefix (EncodeToString (tron_payload a)) ''0x'' = EncodeToString (tron_payload a)"
    by (simp add: EncodeToString_tron TrimPrefix_def)
  moreover have "HasPrefix (EncodeToString (tron_payload a)) ''41''" by (simp add: EncodeToString_tron)
  ultimately show "normaliseTronAddr dec (EncodeToString (tron_payload a)) = Inr s"
    using assms(2) by (simp add: normaliseTronAddr_def s_def)
  have "base58_text s" unfolding s_def base58CheckEncode_def by (simp add: base58_text_encode)
  then show "tronValidateAddress s" using f by (simp add: tronValidateAddress_def base58_text_def alphabet_same)
qed

lemma valid_is_tron:
  assumes "btcutil_Decode dec" and "ValidateAddress dec s"
  obtains a where "length a = 20" "s = base58CheckEncode (tron_payload a)"
proof -
  obtain p where p: "base58CheckDecode dec s = Inr p" "length p = 21" "hd p = 0x41"
    using assms(2) by (auto simp: ValidateAddress_def split: sum.splits)
  then have "p = tron_payload (tl p)" by (cases p) auto
  moreover have "s = base58CheckEncode p" using check_encode_decode [OF assms(1) p(1)] p(2) by force
  ultimately show thesis using that [of "tl p"] p(2) by simp
qed

subsection \<open>Properties\<close>

text \<open>C24: Base58 and its checksummed form lose nothing: decoding an encoded byte string gives it back,
  leading zero bytes included, encoding a decoded text gives the text back, and a checksummed
  payload is read back whatever it is.\<close>

theorem base58_roundtrip:
  assumes "btcutil_Decode dec"
  shows "base58Decode dec (base58Encode b) = b \<and>
    (base58_text s \<longrightarrow> base58Encode (base58Decode dec s) = s) \<and>
    (p \<noteq> [] \<longrightarrow> base58CheckDecode dec (base58CheckEncode p) = Inr p)"
  using decode_encode [OF assms] encode_decode [OF assms] check_decode_encode [OF assms] by blast

text \<open>C25: the texts the adapter accepts as addresses are exactly the checksummed forms of the payloads
  0x41 with twenty bytes; each of them has the form the wallet daemon checks for, 34 Base58
  characters beginning with T, and converting it to hexadecimal and back gives it again.\<close>

theorem tron_address_forms:
  assumes "btcutil_Decode dec"
  shows "(ValidateAddress dec s \<longleftrightarrow> (\<exists>a. length a = 20 \<and> s = base58CheckEncode (0x41 # a))) \<and>
    (ValidateAddress dec s \<longrightarrow>
      tronValidateAddress s \<and> normaliseTronAddr dec s = Inr s \<and>
      (\<exists>h. base58ToHexTron dec s = Inr h \<and> length h = 42 \<and> normaliseTronAddr dec h = Inr s))"
proof (intro conjI iffI impI)
  assume v: "ValidateAddress dec s"
  from valid_is_tron [OF assms v] obtain a where a: "length a = 20" "s = base58CheckEncode (tron_payload a)" by blast
  note c = tron_address_cases [OF assms a(1), folded a(2)]
  show "\<exists>a. length a = 20 \<and> s = base58CheckEncode (tron_payload a)" using a by blast
  show "tronValidateAddress s" "normaliseTronAddr dec s = Inr s" by (rule c)+
  show "\<exists>h. base58ToHexTron dec s = Inr h \<and> length h = 42 \<and> normaliseTronAddr dec h = Inr s"
    using c(3,4) a(1) by (intro exI [of _ "EncodeToString (tron_payload a)"]) simp
next
  assume "\<exists>a. length a = 20 \<and> s = base58CheckEncode (tron_payload a)"
  then obtain a where a: "length a = 20" "s = base58CheckEncode (tron_payload a)" by blast
  show "ValidateAddress dec s" unfolding a(2) by (rule tron_address_cases(1) [OF assms a(1)])
qed

definition reference_Decode :: "string \<Rightarrow> byte list" where
  "reference_Decode s =
     (if base58_text s
      then replicate (length (takeWhile (\<lambda>c. c = CHR ''1'') s)) 0 @ Bytes (value_of 58 (map base58_index s))
      else [])"

lemma reference_Decode: "btcutil_Decode reference_Decode"
  by (simp add: btcutil_Decode_def reference_Decode_def)

theorem base58_roundtrip_witness:
  "base58Decode reference_Decode (base58Encode [0, 0, 1, 255]) = [0, 0, 1, 255] \<and>
   base58Encode (base58Decode reference_Decode ''11Z'') = ''11Z'' \<and>
   base58CheckDecode reference_Decode (base58CheckEncode [0x41, 7]) = Inr [0x41, 7]"
proof -
  have "base58_text ''11Z''" by code_simp
  then show ?thesis
    using base58_roundtrip [OF reference_Decode, of "[0, 0, 1, 255]" "''11Z''" "[0x41, 7]"] by blast
qed

theorem tron_address_forms_witness:
  "\<exists>s h. tronValidateAddress s \<and> base58ToHexTron reference_Decode s = Inr h \<and> normaliseTronAddr reference_Decode h = Inr s"
proof -
  have "length (replicate 20 (0 :: byte)) = 20" by simp
  then show ?thesis using tron_address_forms [OF reference_Decode, of "base58CheckEncode (0x41 # replicate 20 0)"] by blast
qed

end
