(* ===== verification/Accounts.thy ===== *)
theory Accounts
  imports Risk
begin

text \<open>
  User accounts, internal/user (user.go, repo.go, service.go, email_tokens.go) over the tables users
  (migrations 0001, 0005, 0006, 0028 and 0036), kyc_submissions, email_verify_tokens,
  password_reset_tokens, user_favorites and withdrawal_addresses. The columns of users that risk scoring
  reads are those of theory Risk. bcrypt, crypto/rand and net/mail's address parser are arguments.
\<close>

subsection \<open>Types and tables\<close>

record User =
  us_ID :: uuid
  us_Email :: string
  us_PasswordHash :: string
  us_KycLevel :: int
  us_KycStatus :: string
  us_KycSubmittedAt :: "int option"
  us_KycApprovedAt :: "int option"
  us_KycRejectedReason :: string
  us_Role :: string
  us_EmailVerified :: bool
  us_IsBotUser :: bool
  us_CreatedAt :: int
  us_UpdatedAt :: int

record KYCSubmission =
  ks_ID :: uuid
  ks_UserID :: uuid
  ks_TargetLevel :: int
  ks_FullName :: string
  ks_IdNumber :: string
  ks_Country :: string
  ks_DocFront :: string
  ks_DocBack :: string
  ks_Selfie :: string
  ks_Status :: string
  ks_SubmittedAt :: int
  ks_ReviewedAt :: "int option"
  ks_ReviewerNote :: string

record email_token =
  et_id :: uuid
  et_user_id :: uuid
  et_token_hash :: string
  et_expires_at :: int
  et_used_at :: "int option"
  et_created_at :: int

record AddressBookEntry =
  ad_ID :: uuid
  ad_UserID :: uuid
  ad_Asset :: string
  ad_Address :: string
  ad_Label :: string
  ad_Whitelisted :: bool
  ad_LastUsedAt :: "int option"
  ad_CreatedAt :: int
  ad_UpdatedAt :: int

record favorite =
  fv_user_id :: uuid
  fv_pair :: string
  fv_created_at :: int

record accounts_db = risk_db +
  acc_users :: "User list"
  kyc_submissions :: "KYCSubmission list"
  verify_tokens :: "email_token list"
  reset_tokens :: "email_token list"
  user_favorites :: "favorite list"
  withdrawal_addresses :: "AddressBookEntry list"

datatype account_error =
    ErrEmailTaken
  | ErrUserNotFound
  | ErrInvalidCredentials
  | ErrInvalidEmail
  | ErrWeakPassword
  | ErrBotUserAlreadySet
  | ErrKYCSubmissionNotFound
  | ErrTokenNotFound
  | ErrTokenExpired
  | ErrAccountDB
  | ErrAccount string

definition WithdrawLimitByKYC :: "int \<Rightarrow> decimal" where
  "WithdrawLimitByKYC level = (if level = 0 then 1000 else if level = 1 then 10000 else if level = 2 then 100000 else 0)"

text \<open>The CHECKs and column lengths of users.\<close>

definition user_store :: "User \<Rightarrow> User option" where
  "user_store r =
     (if 0 \<le> us_KycLevel r \<and> us_KycLevel r \<le> 2 \<and> length (us_KycStatus r) \<le> 20 \<and> length (us_Role r) \<le> 20
      then Some r else None)"

definition update_users :: "(User \<Rightarrow> bool) \<Rightarrow> (User \<Rightarrow> User) \<Rightarrow> 'x accounts_db_scheme \<Rightarrow> (nat \<times> 'x accounts_db_scheme) option" where
  "update_users P f s =
     map_option (\<lambda>(n, us). (n, s\<lparr>acc_users := us\<rparr>)) (tbl_update P (\<lambda>r. user_store (f r)) (acc_users s))"

text \<open>A read of one row, and a statement of which an index violation is told apart from other errors.\<close>

definition query_row ::
  "account_error \<Rightarrow> ('x accounts_db_scheme \<Rightarrow> 'r option) \<Rightarrow> 'x accounts_db_scheme \<Rightarrow> (account_error + 'r) \<times> 'x accounts_db_scheme" where
  "query_row missing f s =
     (case query f s of
        (None, s1) \<Rightarrow> (Inl ErrAccountDB, s1)
      | (Some None, s1) \<Rightarrow> (Inl missing, s1)
      | (Some (Some r), s1) \<Rightarrow> (Inr r, s1))"

definition exec_unique ::
  "account_error \<Rightarrow> ('x accounts_db_scheme \<Rightarrow> bool) \<Rightarrow> ('x accounts_db_scheme \<Rightarrow> (nat \<times> 'x accounts_db_scheme) option)
    \<Rightarrow> 'x accounts_db_scheme \<Rightarrow> (account_error + nat) \<times> 'x accounts_db_scheme" where
  "exec_unique violation violated f s =
     (case next_fault s of (fl, s1) \<Rightarrow>
        if fl = Lost then (Inl ErrAccountDB, s1)
        else if violated s1 then (Inl (if fl = Acked then violation else ErrAccountDB), s1)
        else (case f s1 of
                None \<Rightarrow> (Inl ErrAccountDB, s1)
              | Some (n, s2) \<Rightarrow> (if fl = Acked then Inr n else Inl ErrAccountDB, s2)))"

definition exec_rows ::
  "('x accounts_db_scheme \<Rightarrow> (nat \<times> 'x accounts_db_scheme) option) \<Rightarrow> 'x accounts_db_scheme \<Rightarrow> (account_error + nat) \<times> 'x accounts_db_scheme" where
  "exec_rows f s = (case exec_stmt f s of (None, s1) \<Rightarrow> (Inl ErrAccountDB, s1) | (Some n, s1) \<Rightarrow> (Inr n, s1))"

subsection \<open>The users table\<close>

definition find_email :: "string \<Rightarrow> 'x accounts_db_scheme \<Rightarrow> User option" where
  "find_email email s = find (\<lambda>u. us_Email u = email) (acc_users s)"

definition find_account :: "uuid \<Rightarrow> 'x accounts_db_scheme \<Rightarrow> User option" where
  "find_account i s = tbl_find us_ID i (acc_users s)"

definition insert_user :: "int \<Rightarrow> User \<Rightarrow> 'x accounts_db_scheme \<Rightarrow> (nat \<times> 'x accounts_db_scheme) option" where
  "insert_user db_now u s =
     (if find_account (us_ID u) s \<noteq> None \<or> find_email (us_Email u) s \<noteq> None then None
      else Option.bind (user_store (u\<lparr>us_CreatedAt := db_now, us_UpdatedAt := db_now\<rparr>)) (\<lambda>r.
        Some (1, s\<lparr>acc_users := acc_users s @ [r],
          risk_users := risk_users s @ [\<lparr>ru_id = us_ID u, ru_email = us_Email u, ru_created_at = db_now,
            ru_is_bot = False, ru_last_risk_score = 0\<rparr>]\<rparr>)))"

definition repo_Create :: "int \<Rightarrow> User \<Rightarrow> 'x accounts_db_scheme \<Rightarrow> (account_error + User) \<times> 'x accounts_db_scheme" where
  "repo_Create db_now u0 s =
     (let u = u0\<lparr>us_KycLevel := 0, us_KycStatus := ''NONE'', us_Role := (if us_Role u0 = [] then ''user'' else us_Role u0),
                us_EmailVerified := False, us_IsBotUser := False\<rparr>
      in case exec_unique ErrEmailTaken (\<lambda>t. find_account (us_ID u) t \<noteq> None \<or> find_email (us_Email u) t \<noteq> None)
               (insert_user db_now u) s of
           (Inl e, s1) \<Rightarrow> (Inl e, s1)
         | (Inr n, s1) \<Rightarrow> (Inr (u\<lparr>us_CreatedAt := db_now, us_UpdatedAt := db_now\<rparr>), s1))"

definition FindByEmail :: "string \<Rightarrow> 'x accounts_db_scheme \<Rightarrow> (account_error + User) \<times> 'x accounts_db_scheme" where
  "FindByEmail email = query_row ErrUserNotFound (find_email email)"

definition FindByID :: "uuid \<Rightarrow> 'x accounts_db_scheme \<Rightarrow> (account_error + User) \<times> 'x accounts_db_scheme" where
  "FindByID i = query_row ErrUserNotFound (find_account i)"

definition other_bot :: "uuid \<Rightarrow> 'x accounts_db_scheme \<Rightarrow> bool" where
  "other_bot i s \<longleftrightarrow> find_account i s \<noteq> None \<and> list_ex (\<lambda>u. us_IsBotUser u \<and> us_ID u \<noteq> i) (acc_users s)"

definition set_bot_flag :: "bool \<Rightarrow> int \<Rightarrow> uuid \<Rightarrow> 'x accounts_db_scheme \<Rightarrow> (nat \<times> 'x accounts_db_scheme) option" where
  "set_bot_flag b db_now i s =
     map_option (\<lambda>(n, t). (n, t\<lparr>risk_users := map (\<lambda>r. if ru_id r = i then r\<lparr>ru_is_bot := b\<rparr> else r) (risk_users t)\<rparr>))
       (update_users (\<lambda>u. us_ID u = i) (\<lambda>u. u\<lparr>us_IsBotUser := b, us_UpdatedAt := db_now\<rparr>) s)"

definition SetBotUser :: "int \<Rightarrow> uuid \<Rightarrow> 'x accounts_db_scheme \<Rightarrow> (account_error + User) \<times> 'x accounts_db_scheme" where
  "SetBotUser db_now i s =
     (case exec_unique ErrBotUserAlreadySet (other_bot i) (set_bot_flag True db_now i) s of
        (Inl e, s1) \<Rightarrow> (Inl e, s1)
      | (Inr n, s1) \<Rightarrow> if n = 0 then (Inl ErrUserNotFound, s1) else FindByID i s1)"

definition ClearBotUser :: "int \<Rightarrow> uuid \<Rightarrow> 'x accounts_db_scheme \<Rightarrow> (account_error + unit) \<times> 'x accounts_db_scheme" where
  "ClearBotUser db_now i s =
     (case exec_rows (set_bot_flag False db_now i) s of
        (Inl e, s1) \<Rightarrow> (Inl e, s1)
      | (Inr n, s1) \<Rightarrow> (if n = 0 then Inl ErrUserNotFound else Inr (), s1))"

definition repo_UpdateKYCLevel :: "int \<Rightarrow> uuid \<Rightarrow> int \<Rightarrow> 'x accounts_db_scheme \<Rightarrow> (account_error + unit) \<times> 'x accounts_db_scheme" where
  "repo_UpdateKYCLevel db_now i level s =
     (case exec_rows (update_users (\<lambda>u. us_ID u = i) (\<lambda>u. u\<lparr>us_KycLevel := level, us_UpdatedAt := db_now\<rparr>)) s of
        (Inl e, s1) \<Rightarrow> (Inl e, s1)
      | (Inr n, s1) \<Rightarrow> (if n = 0 then Inl ErrUserNotFound else Inr (), s1))"

definition UpdateKYCLevel :: "int \<Rightarrow> uuid \<Rightarrow> int \<Rightarrow> 'x accounts_db_scheme \<Rightarrow> (account_error + unit) \<times> 'x accounts_db_scheme" where
  "UpdateKYCLevel db_now i level s =
     (if level < 0 \<or> 2 < level then (Inl (ErrAccount ''kyc level must be 0, 1, or 2''), s)
      else repo_UpdateKYCLevel db_now i level s)"

definition SetUserRole :: "int \<Rightarrow> uuid \<Rightarrow> string \<Rightarrow> 'x accounts_db_scheme \<Rightarrow> nat option \<times> 'x accounts_db_scheme" where
  "SetUserRole db_now i role =
     exec_stmt (update_users (\<lambda>u. us_ID u = i) (\<lambda>u. u\<lparr>us_Role := role, us_UpdatedAt := db_now\<rparr>))"

subsection \<open>Registering and logging in\<close>

record crypto =
  cr_hash :: "string \<Rightarrow> string option"
  cr_match :: "string \<Rightarrow> string \<Rightarrow> bool"

definition validateEmail :: "(string \<Rightarrow> bool) \<Rightarrow> string \<Rightarrow> account_error option" where
  "validateEmail parse_address email =
     (if email = [] \<or> \<not> parse_address email then Some ErrInvalidEmail else None)"

definition validatePassword :: "string \<Rightarrow> account_error option" where
  "validatePassword pw = (if length pw < 8 then Some ErrWeakPassword else None)"

definition RegisterUser ::
  "crypto \<Rightarrow> (string \<Rightarrow> bool) \<Rightarrow> uuid \<Rightarrow> int \<Rightarrow> string \<Rightarrow> string \<Rightarrow> 'x accounts_db_scheme
    \<Rightarrow> (account_error + User) \<times> 'x accounts_db_scheme" where
  "RegisterUser cr parse_address new_id db_now email pw s =
     (case validateEmail parse_address email of
        Some e \<Rightarrow> (Inl e, s)
      | None \<Rightarrow>
          (case validatePassword pw of
             Some e \<Rightarrow> (Inl e, s)
           | None \<Rightarrow>
               (case cr_hash cr pw of
                  None \<Rightarrow> (Inl (ErrAccount ''bcrypt''), s)
                | Some h \<Rightarrow>
                    repo_Create db_now \<lparr>us_ID = new_id, us_Email = ToLower (TrimSpace email), us_PasswordHash = h, us_KycLevel = 0,
                      us_KycStatus = ''NONE'', us_KycSubmittedAt = None, us_KycApprovedAt = None, us_KycRejectedReason = [],
                      us_Role = ''user'', us_EmailVerified = False, us_IsBotUser = False, us_CreatedAt = 0, us_UpdatedAt = 0\<rparr> s)))"

definition LoginUser :: "crypto \<Rightarrow> string \<Rightarrow> string \<Rightarrow> 'x accounts_db_scheme \<Rightarrow> (account_error + User) \<times> 'x accounts_db_scheme" where
  "LoginUser cr email pw s =
     (case FindByEmail (ToLower (TrimSpace email)) s of
        (Inl e, s1) \<Rightarrow> (Inl (if e = ErrUserNotFound then ErrInvalidCredentials else e), s1)
      | (Inr u, s1) \<Rightarrow> (if cr_match cr (us_PasswordHash u) pw then Inr u else Inl ErrInvalidCredentials, s1))"

text \<open>The left value is the error of the read. Times are nanoseconds.\<close>

definition IsLockedOut :: "int \<Rightarrow> string \<Rightarrow> nat \<Rightarrow> int \<Rightarrow> 'x accounts_db_scheme \<Rightarrow> (account_error + bool) \<times> 'x accounts_db_scheme" where
  "IsLockedOut db_now email maxFailures windowMins s =
     (case query (\<lambda>t. length (filter (\<lambda>a. la_email a = email \<and> \<not> la_success a \<and>
             db_now - windowMins * 60 * 1000000000 < la_timestamp a) (login_attempts t))) s of
        (None, s1) \<Rightarrow> (Inl ErrAccountDB, s1)
      | (Some count, s1) \<Rightarrow> (Inr (maxFailures \<le> count), s1))"

definition ClearLoginAttempts :: "string \<Rightarrow> 'x accounts_db_scheme \<Rightarrow> nat option \<times> 'x accounts_db_scheme" where
  "ClearLoginAttempts email =
     exec_stmt (\<lambda>s. Some (length (filter (\<lambda>a. la_email a = email \<and> \<not> la_success a) (login_attempts s)),
       s\<lparr>login_attempts := filter (\<lambda>a. \<not> (la_email a = email \<and> \<not> la_success a)) (login_attempts s)\<rparr>))"

definition SetUserPassword ::
  "crypto \<Rightarrow> int \<Rightarrow> uuid \<Rightarrow> string \<Rightarrow> 'x accounts_db_scheme \<Rightarrow> (account_error + unit) \<times> 'x accounts_db_scheme" where
  "SetUserPassword cr db_now i password s =
     (if length password < 8 then (Inl (ErrAccount ''password too short (min 8 chars)''), s)
      else
        (case cr_hash cr password of
           None \<Rightarrow> (Inl (ErrAccount ''bcrypt''), s)
         | Some h \<Rightarrow>
             (case exec_rows (update_users (\<lambda>u. us_ID u = i) (\<lambda>u. u\<lparr>us_PasswordHash := h, us_UpdatedAt := db_now\<rparr>)) s of
                (Inl e, s1) \<Rightarrow> (Inl e, s1)
              | (Inr n, s1) \<Rightarrow> (Inr (), s1))))"

definition GetAdminStats :: "'x accounts_db_scheme \<Rightarrow> (nat \<times> nat \<times> nat \<times> nat \<times> nat \<times> nat) option \<times> 'x accounts_db_scheme" where
  "GetAdminStats s =
     (case query (\<lambda>t. let n = (\<lambda>P. length (filter P (acc_users t))) in
             (n (\<lambda>u. True), n (\<lambda>u. us_Role u = ''admin''), n (\<lambda>u. us_KycLevel u = 0), n (\<lambda>u. us_KycLevel u = 1),
              n (\<lambda>u. us_KycLevel u = 2))) s of
        (None, s1) \<Rightarrow> (None, s1)
      | (Some (a, b, c, d, e), s1) \<Rightarrow>
          (case query (\<lambda>t. length (filter (\<lambda>k. ks_Status k = ''PENDING'') (kyc_submissions t))) s1 of
             (p, s2) \<Rightarrow> (Some (a, b, c, d, e, case p of None \<Rightarrow> 0 | Some n \<Rightarrow> n), s2)))"

end
