(* ===== verification/Account_Tokens.thy ===== *)
theory Account_Tokens
  imports Accounts
begin

text \<open>
  The e-mail tokens of internal/user/email_tokens.go: verifying an address and resetting a password. A
  token is stored as its bcrypt hash, and a timestamp column keeps microseconds.
\<close>

definition VerifyTokenTTL :: int where "VerifyTokenTTL = 24 * 3600 * 1000000000"
definition ResetTokenTTL :: int where "ResetTokenTTL = 3600 * 1000000000"

text \<open>encoding/base64's RawURLEncoding: six bits a character, the last group filled with zeros.\<close>

definition base64_url :: string where
  "base64_url = ''ABCDEFGHIJKLMNOPQRSTUVWXYZabcdefghijklmnopqrstuvwxyz0123456789-_''"

fun base64_raw :: "nat list \<Rightarrow> string" where
  "base64_raw [] = []"
| "base64_raw [a] = [base64_url ! (a div 4), base64_url ! (a mod 4 * 16)]"
| "base64_raw [a, b] = [base64_url ! (a div 4), base64_url ! (a mod 4 * 16 + b div 16), base64_url ! (b mod 16 * 4)]"
| "base64_raw (a # b # c # bs) =
     [base64_url ! (a div 4), base64_url ! (a mod 4 * 16 + b div 16), base64_url ! (b mod 16 * 4 + c div 64),
      base64_url ! (c mod 64)] @ base64_raw bs"

text \<open>The bytes crypto/rand gives are values below 256; \<open>None\<close> is its error.\<close>

definition generateToken :: "nat list option \<Rightarrow> string option" where
  "generateToken rnd = map_option base64_raw rnd"

definition pg_micros :: "int \<Rightarrow> int" where
  "pg_micros t = t div 1000 * 1000"

definition new_token :: "uuid \<Rightarrow> uuid \<Rightarrow> string \<Rightarrow> int \<Rightarrow> int \<Rightarrow> email_token" where
  "new_token i u h ex db_now =
     \<lparr>et_id = i, et_user_id = u, et_token_hash = h, et_expires_at = pg_micros ex, et_used_at = None, et_created_at = db_now\<rparr>"

text \<open>The hash column is unique, and the user must exist.\<close>

definition add_token :: "email_token \<Rightarrow> 'x accounts_db_scheme \<Rightarrow> email_token list \<Rightarrow> email_token list option" where
  "add_token t s ts =
     (if find_account (et_user_id t) s = None \<or> et_token_hash t \<in> et_token_hash ` set ts then None
      else tbl_insert et_id t ts)"

definition CreateVerifyToken ::
  "crypto \<Rightarrow> nat list option \<Rightarrow> uuid \<Rightarrow> int \<Rightarrow> int \<Rightarrow> uuid \<Rightarrow> 'x accounts_db_scheme
    \<Rightarrow> (account_error + (string \<times> int)) \<times> 'x accounts_db_scheme" where
  "CreateVerifyToken cr rnd new_id now db_now u s =
     (case generateToken rnd of
        None \<Rightarrow> (Inl (ErrAccount ''rand''), s)
      | Some tok \<Rightarrow>
          (case cr_hash cr tok of
             None \<Rightarrow> (Inl (ErrAccount ''bcrypt''), s)
           | Some h \<Rightarrow>
               (case exec_rows (\<lambda>t. map_option (\<lambda>ts. (1, t\<lparr>verify_tokens := ts\<rparr>))
                       (add_token (new_token new_id u h (now + VerifyTokenTTL) db_now) t (verify_tokens t))) s of
                  (Inl e, s1) \<Rightarrow> (Inl e, s1)
                | (Inr n, s1) \<Rightarrow> (Inr (tok, now + VerifyTokenTTL), s1))))"

text \<open>ORDER BY created_at DESC; rows of the same time in the order they were made.\<close>

definition newest_first :: "email_token list \<Rightarrow> email_token list" where
  "newest_first ts = sort_key (\<lambda>t. - et_created_at t) ts"

definition newest_token :: "email_token list \<Rightarrow> email_token option" where
  "newest_token ts = (case newest_first ts of [] \<Rightarrow> None | t # _ \<Rightarrow> Some t)"

definition use_token :: "int \<Rightarrow> uuid \<Rightarrow> email_token list \<Rightarrow> email_token list" where
  "use_token db_now i ts =
     map (\<lambda>t. if et_id t = i \<and> et_used_at t = None then t\<lparr>et_used_at := Some db_now\<rparr> else t) ts"

definition MarkEmailVerified :: "uuid \<Rightarrow> 'x accounts_db_scheme \<Rightarrow> nat option \<times> 'x accounts_db_scheme" where
  "MarkEmailVerified u = exec_stmt (update_users (\<lambda>r. us_ID r = u) (\<lambda>r. r\<lparr>us_EmailVerified := True\<rparr>))"

definition ConsumeVerifyToken ::
  "crypto \<Rightarrow> int \<Rightarrow> int \<Rightarrow> string \<Rightarrow> 'x accounts_db_scheme \<Rightarrow> (account_error + uuid) \<times> 'x accounts_db_scheme" where
  "ConsumeVerifyToken cr now db_now plaintext s =
     (if plaintext = [] then (Inl ErrTokenNotFound, s)
      else
        (case query (\<lambda>t. newest_token (verify_tokens t)) s of
           (Some (Some t), s1) \<Rightarrow>
             if \<not> cr_match cr (et_token_hash t) plaintext then (Inl ErrTokenNotFound, s1)
             else if et_used_at t \<noteq> None \<or> et_expires_at t < now then (Inl ErrTokenExpired, s1)
             else
               (case exec_stmt (\<lambda>d. Some (1, d\<lparr>verify_tokens := use_token db_now (et_id t) (verify_tokens d)\<rparr>)) s1 of
                  (None, s2) \<Rightarrow> (Inl ErrAccountDB, s2)
                | (Some n, s2) \<Rightarrow>
                    (case MarkEmailVerified (et_user_id t) s2 of
                       (None, s3) \<Rightarrow> (Inl ErrAccountDB, s3)
                     | (Some m, s3) \<Rightarrow> (Inr (et_user_id t), s3)))
         | (r, s1) \<Rightarrow> (Inl ErrTokenNotFound, s1)))"

definition EmailVerified :: "uuid \<Rightarrow> 'x accounts_db_scheme \<Rightarrow> (account_error + bool) \<times> 'x accounts_db_scheme" where
  "EmailVerified u = query_row (ErrAccount ''no rows'') (\<lambda>s. map_option us_EmailVerified (find_account u s))"

text \<open>Every error of the lookup is taken for an unknown address.\<close>

definition CreateResetTokenForEmail ::
  "crypto \<Rightarrow> nat list option \<Rightarrow> uuid \<Rightarrow> int \<Rightarrow> int \<Rightarrow> string \<Rightarrow> 'x accounts_db_scheme
    \<Rightarrow> (account_error + (string \<times> uuid \<times> int)) \<times> 'x accounts_db_scheme" where
  "CreateResetTokenForEmail cr rnd new_id now db_now email s =
     (case FindByEmail email s of
        (Inl e, s1) \<Rightarrow> (Inl ErrUserNotFound, s1)
      | (Inr u, s1) \<Rightarrow>
          (case generateToken rnd of
             None \<Rightarrow> (Inl (ErrAccount ''rand''), s1)
           | Some tok \<Rightarrow>
               (case cr_hash cr tok of
                  None \<Rightarrow> (Inl (ErrAccount ''bcrypt''), s1)
                | Some h \<Rightarrow>
                    (case exec_rows (\<lambda>t. map_option (\<lambda>ts. (1, t\<lparr>reset_tokens := ts\<rparr>))
                            (add_token (new_token new_id (us_ID u) h (now + ResetTokenTTL) db_now) t (reset_tokens t))) s1 of
                       (Inl e, s2) \<Rightarrow> (Inl e, s2)
                     | (Inr n, s2) \<Rightarrow> (Inr (tok, us_ID u, now + ResetTokenTTL), s2)))))"

definition reset_window :: nat where
  "reset_window = 25"

definition live_resets :: "int \<Rightarrow> 'x accounts_db_scheme \<Rightarrow> email_token list" where
  "live_resets db_now s =
     take reset_window (newest_first (filter (\<lambda>t. et_used_at t = None \<and> db_now < et_expires_at t) (reset_tokens s)))"

definition ResetPasswordWithToken ::
  "crypto \<Rightarrow> int \<Rightarrow> int \<Rightarrow> string \<Rightarrow> string \<Rightarrow> 'x accounts_db_scheme \<Rightarrow> (account_error + uuid) \<times> 'x accounts_db_scheme" where
  "ResetPasswordWithToken cr now db_now plaintext newPassword s =
     (if plaintext = [] \<or> newPassword = [] then (Inl ErrTokenNotFound, s)
      else
        (case validatePassword newPassword of
           Some e \<Rightarrow> (Inl e, s)
         | None \<Rightarrow>
             (case query (live_resets db_now) s of
                (None, s1) \<Rightarrow> (Inl ErrAccountDB, s1)
              | (Some ts, s1) \<Rightarrow>
                  (case filter (\<lambda>t. cr_match cr (et_token_hash t) plaintext) ts of
                     [] \<Rightarrow> (Inl ErrTokenNotFound, s1)
                   | c # cs \<Rightarrow>
                       if et_used_at c \<noteq> None \<or> et_expires_at c < now then (Inl ErrTokenExpired, s1)
                       else
                         (case exec_stmt (\<lambda>d. Some (1, d\<lparr>reset_tokens := use_token db_now (et_id c) (reset_tokens d)\<rparr>)) s1 of
                            (None, s2) \<Rightarrow> (Inl ErrAccountDB, s2)
                          | (Some n, s2) \<Rightarrow>
                              (case SetUserPassword cr db_now (et_user_id c) newPassword s2 of
                                 (Inl e, s3) \<Rightarrow> (Inl e, s3)
                               | (Inr _, s3) \<Rightarrow> (Inr (et_user_id c), s3)))))))"

end
