(* ===== verification/Second_Factor.thy ===== *)
theory Second_Factor
  imports Account_Tokens
begin

text \<open>
  Two-factor authentication, internal/auth/totp.go, over the tables user_totp and user_backup_codes
  (migration 0015). AES-GCM, bcrypt, crypto/rand and pquerna/otp's check of a code are arguments.
\<close>

record totp_row =
  ut_secret :: "nat list"
  ut_enabled :: bool

record backup_code =
  bk_id :: uuid
  bk_user_id :: uuid
  bk_code_hash :: string
  bk_used :: bool

record totp_db = accounts_db +
  user_totp :: "uuid \<rightharpoonup> totp_row"
  backup_codes :: "backup_code list"

text \<open>Seal and Open take the nonce and the text; the check takes the code, the secret in Base32 and the time.\<close>

record totp_lib =
  tp_Seal :: "nat list \<Rightarrow> nat list \<Rightarrow> nat list"
  tp_Open :: "nat list \<Rightarrow> nat list \<Rightarrow> nat list option"
  tp_Validate :: "string \<Rightarrow> string \<Rightarrow> int \<Rightarrow> bool option"
  tp_crypto :: crypto

datatype totp_error =
    NotSetUp
  | TotpDB
  | TotpRand
  | DecryptFailed
  | ValidateFailed
  | InvalidCode
  | Err2FANotEnabled
  | CannotDisable

definition NonceSize :: nat where
  "NonceSize = 12"

definition encrypt_secret :: "totp_lib \<Rightarrow> nat list \<Rightarrow> nat list \<Rightarrow> nat list" where
  "encrypt_secret lib nonce plaintext = nonce @ tp_Seal lib nonce plaintext"

definition decrypt_secret :: "totp_lib \<Rightarrow> nat list \<Rightarrow> nat list option" where
  "decrypt_secret lib ciphertext =
     (if length ciphertext < NonceSize then None
      else tp_Open lib (take NonceSize ciphertext) (drop NonceSize ciphertext))"

text \<open>encoding/base32's StdEncoding: groups of five bytes, eight characters each, padded.\<close>

definition base32_alphabet :: string where
  "base32_alphabet = ''ABCDEFGHIJKLMNOPQRSTUVWXYZ234567''"

definition base32_group :: "nat list \<Rightarrow> string" where
  "base32_group bs =
     (let n = foldl (\<lambda>v b. 256 * v + b) 0 (bs @ replicate (5 - length bs) 0);
          k = (if length bs = 1 then 2 else if length bs = 2 then 4 else if length bs = 3 then 5 else if length bs = 4 then 7 else 8)
      in take k (map (\<lambda>i. base32_alphabet ! (n div 32 ^ i mod 32)) [7, 6, 5, 4, 3, 2, 1, 0]) @ replicate (8 - k) CHR ''='')"

function base32_encode :: "nat list \<Rightarrow> string" where
  "base32_encode bs = (if bs = [] then [] else base32_group (take 5 bs) @ base32_encode (drop 5 bs))"
  by pat_completeness auto
termination
  by (relation "measure length") auto

declare base32_encode.simps [simp del]

record TOTPSetup =
  ts_Secret :: string
  ts_OTPAuthURL :: string

definition store_secret :: "uuid \<Rightarrow> nat list \<Rightarrow> 'x totp_db_scheme \<Rightarrow> (nat \<times> 'x totp_db_scheme) option" where
  "store_secret u enc s =
     (if find_account u s = None then None
      else Some (1, s\<lparr>user_totp := (user_totp s)(u \<mapsto> \<lparr>ut_secret = enc, ut_enabled = False\<rparr>)\<rparr>))"

text \<open>The random values are the twenty bytes of the secret and the nonce; \<open>None\<close> is crypto/rand's error.\<close>

definition GenerateSecret ::
  "totp_lib \<Rightarrow> nat list option \<Rightarrow> nat list option \<Rightarrow> string \<Rightarrow> uuid \<Rightarrow> string \<Rightarrow> 'x totp_db_scheme
    \<Rightarrow> (totp_error + TOTPSetup) \<times> 'x totp_db_scheme" where
  "GenerateSecret lib rnd nonce issuer u accountName s =
     (case (rnd, nonce) of
        (Some secretBytes, Some nb) \<Rightarrow>
          (case exec_stmt (store_secret u (encrypt_secret lib nb secretBytes)) s of
             (None, s1) \<Rightarrow> (Inl TotpDB, s1)
           | (Some n, s1) \<Rightarrow>
               (let secret = base32_encode secretBytes in
                (Inr \<lparr>ts_Secret = secret,
                      ts_OTPAuthURL = ''otpauth://totp/'' @ issuer @ '':'' @ accountName @ ''?secret='' @ secret @ ''&issuer='' @ issuer\<rparr>, s1)))
      | _ \<Rightarrow> (Inl TotpRand, s))"

definition VerifyCode ::
  "totp_lib \<Rightarrow> int \<Rightarrow> uuid \<Rightarrow> string \<Rightarrow> 'x totp_db_scheme \<Rightarrow> (totp_error + unit) \<times> 'x totp_db_scheme" where
  "VerifyCode lib now u code s =
     (case query (\<lambda>t. map_option ut_secret (user_totp t u)) s of
        (None, s1) \<Rightarrow> (Inl TotpDB, s1)
      | (Some None, s1) \<Rightarrow> (Inl NotSetUp, s1)
      | (Some (Some enc), s1) \<Rightarrow>
          (case decrypt_secret lib enc of
             None \<Rightarrow> (Inl DecryptFailed, s1)
           | Some secretBytes \<Rightarrow>
               (case tp_Validate lib code (base32_encode secretBytes) now of
                  None \<Rightarrow> (Inl ValidateFailed, s1)
                | Some valid \<Rightarrow> (if valid then Inr () else Inl InvalidCode, s1))))"

definition IsEnabled :: "uuid \<Rightarrow> 'x totp_db_scheme \<Rightarrow> (totp_error + bool) \<times> 'x totp_db_scheme" where
  "IsEnabled u s =
     (case query (\<lambda>t. user_totp t u) s of
        (None, s1) \<Rightarrow> (Inl TotpDB, s1)
      | (Some r, s1) \<Rightarrow> (Inr (case r of None \<Rightarrow> False | Some t \<Rightarrow> ut_enabled t), s1))"

subsection \<open>Backup codes\<close>

definition backupCodeN :: nat where
  "backupCodeN = 8"

definition unused_codes :: "uuid \<Rightarrow> 'x totp_db_scheme \<Rightarrow> backup_code list" where
  "unused_codes u s = filter (\<lambda>b. bk_user_id b = u \<and> \<not> bk_used b) (backup_codes s)"

definition insert_code :: "backup_code \<Rightarrow> 'x totp_db_scheme \<Rightarrow> (nat \<times> 'x totp_db_scheme) option" where
  "insert_code b s =
     (if find_account (bk_user_id b) s = None then None
      else map_option (\<lambda>bs. (1, s\<lparr>backup_codes := bs\<rparr>)) (tbl_insert bk_id b (backup_codes s)))"

text \<open>One draw of random bytes and one identifier for each code left to make.\<close>

fun make_codes ::
  "totp_lib \<Rightarrow> uuid \<Rightarrow> (nat list option \<times> uuid) list \<Rightarrow> string list \<Rightarrow> 'x totp_db_scheme
    \<Rightarrow> (totp_error + string list) \<times> 'x totp_db_scheme" where
  "make_codes lib u [] codes s = (Inr codes, s)"
| "make_codes lib u ((rnd, i) # rest) codes s =
     (case rnd of
        None \<Rightarrow> (Inl TotpRand, s)
      | Some codeBytes \<Rightarrow>
          (let code = take 10 (base64_raw codeBytes) in
           case cr_hash (tp_crypto lib) code of
             None \<Rightarrow> (Inl TotpRand, s)
           | Some h \<Rightarrow>
               (case exec_stmt (insert_code \<lparr>bk_id = i, bk_user_id = u, bk_code_hash = h, bk_used = False\<rparr>) s of
                  (None, s1) \<Rightarrow> (Inl TotpDB, s1)
                | (Some n, s1) \<Rightarrow> make_codes lib u rest (codes @ [code]) s1)))"

definition GenerateBackupCodes ::
  "totp_lib \<Rightarrow> (nat list option \<times> uuid) list \<Rightarrow> uuid \<Rightarrow> 'x totp_db_scheme
    \<Rightarrow> (totp_error + string list) \<times> 'x totp_db_scheme" where
  "GenerateBackupCodes lib rnds u s =
     (case exec_stmt (\<lambda>t. Some (length (unused_codes u t),
             t\<lparr>backup_codes := filter (\<lambda>b. \<not> (bk_user_id b = u \<and> \<not> bk_used b)) (backup_codes t)\<rparr>)) s of
        (None, s1) \<Rightarrow> (Inl TotpDB, s1)
      | (Some n, s1) \<Rightarrow> make_codes lib u (take backupCodeN rnds) [] s1)"

text \<open>The result is whether a code matched, and whether marking it failed.\<close>

definition UseBackupCode ::
  "totp_lib \<Rightarrow> uuid \<Rightarrow> string \<Rightarrow> 'x totp_db_scheme \<Rightarrow> (bool \<times> totp_error option) \<times> 'x totp_db_scheme" where
  "UseBackupCode lib u code s =
     (case query (unused_codes u) s of
        (None, s1) \<Rightarrow> ((False, Some TotpDB), s1)
      | (Some rows, s1) \<Rightarrow>
          (case find (\<lambda>b. cr_match (tp_crypto lib) (bk_code_hash b) code) rows of
             None \<Rightarrow> ((False, None), s1)
           | Some b \<Rightarrow>
               (case exec_stmt (\<lambda>t. Some (1, t\<lparr>backup_codes := map (\<lambda>x. if bk_id x = bk_id b then x\<lparr>bk_used := True\<rparr> else x) (backup_codes t)\<rparr>)) s1 of
                  (None, s2) \<Rightarrow> ((True, Some TotpDB), s2)
                | (Some n, s2) \<Rightarrow> ((True, None), s2))))"

definition RemainingBackupCodes :: "uuid \<Rightarrow> 'x totp_db_scheme \<Rightarrow> nat option \<times> 'x totp_db_scheme" where
  "RemainingBackupCodes u = query (\<lambda>t. length (unused_codes u t))"

subsection \<open>Enabling and disabling\<close>

definition enable_stmt :: "uuid \<Rightarrow> 'x totp_db_scheme \<Rightarrow> (nat \<times> 'x totp_db_scheme) option" where
  "enable_stmt u s =
     Some (case user_totp s u of
             None \<Rightarrow> (0, s)
           | Some r \<Rightarrow> (1, s\<lparr>user_totp := (user_totp s)(u \<mapsto> r\<lparr>ut_enabled := True\<rparr>)\<rparr>))"

definition Enable ::
  "totp_lib \<Rightarrow> (nat list option \<times> uuid) list \<Rightarrow> int \<Rightarrow> uuid \<Rightarrow> string \<Rightarrow> 'x totp_db_scheme
    \<Rightarrow> (totp_error + string list) \<times> 'x totp_db_scheme" where
  "Enable lib rnds now u code s =
     (case VerifyCode lib now u code s of
        (Inl e, s1) \<Rightarrow> (Inl e, s1)
      | (Inr _, s1) \<Rightarrow>
          (case exec_stmt (enable_stmt u) s1 of
             (None, s2) \<Rightarrow> (Inl TotpDB, s2)
           | (Some n, s2) \<Rightarrow> GenerateBackupCodes lib rnds u s2))"

text \<open>The two deletions are one transaction.\<close>

definition rollback_2fa :: "'x totp_db_scheme \<Rightarrow> 'x totp_db_scheme \<Rightarrow> 'x totp_db_scheme" where
  "rollback_2fa s0 s = s\<lparr>user_totp := user_totp s0, backup_codes := backup_codes s0\<rparr>"

definition delete_2fa :: "uuid \<Rightarrow> 'x totp_db_scheme \<Rightarrow> (totp_error + unit) \<times> 'x totp_db_scheme" where
  "delete_2fa u s =
     (case query (\<lambda>_. ()) s of
        (None, s0) \<Rightarrow> (Inl TotpDB, s0)
      | (Some _, s0) \<Rightarrow>
          (case exec_stmt (\<lambda>t. Some (1, t\<lparr>user_totp := (user_totp t)(u := None)\<rparr>)) s0 of
             (None, s1) \<Rightarrow> (Inl TotpDB, rollback_2fa s0 s1)
           | (Some n, s1) \<Rightarrow>
               (case exec_stmt (\<lambda>t. Some (1, t\<lparr>backup_codes := filter (\<lambda>b. bk_user_id b \<noteq> u) (backup_codes t)\<rparr>)) s1 of
                  (None, s2) \<Rightarrow> (Inl TotpDB, rollback_2fa s0 s2)
                | (Some m, s2) \<Rightarrow>
                    (case next_fault s2 of
                       (Acked, s3) \<Rightarrow> (Inr (), s3)
                     | (Lost, s3) \<Rightarrow> (Inl TotpDB, rollback_2fa s0 s3)
                     | (Unacked, s3) \<Rightarrow> (Inl TotpDB, s3)))))"

definition Disable ::
  "totp_lib \<Rightarrow> int \<Rightarrow> uuid \<Rightarrow> string \<Rightarrow> 'x totp_db_scheme \<Rightarrow> (totp_error + unit) \<times> 'x totp_db_scheme" where
  "Disable lib now u currentCode s =
     (case IsEnabled u s of
        (Inl e, s1) \<Rightarrow> (Inl e, s1)
      | (Inr False, s1) \<Rightarrow> (Inl Err2FANotEnabled, s1)
      | (Inr True, s1) \<Rightarrow>
          (case VerifyCode lib now u currentCode s1 of
             (Inl e, s2) \<Rightarrow> (Inl CannotDisable, s2)
           | (Inr _, s2) \<Rightarrow> delete_2fa u s2))"

end
