(* ===== verification/Login.thy ===== *)
theory Login
  imports Second_Factor
begin

text \<open>
  Sessions: the JWT service of internal/auth/auth.go, the two middlewares of internal/api/router.go and the
  handlers of user_handlers.go, email_handlers.go and totp_handlers.go that log a user in, verify an
  address, reset a password and manage the second factor. The JWT library is an argument. E-mails, audit
  entries and notifications are left out; they write tables of their own and their errors are dropped.
\<close>

subsection \<open>Tokens\<close>

record Claims =
  cl_UserID :: string
  cl_Role :: string
  cl_Scope :: string
  cl_ExpiresAt :: int
  cl_IssuedAt :: int

text \<open>Signing can fail; parsing checks the signature and the expiry at the time given. Claims have whole seconds.\<close>

record auth_service =
  au_sign :: "Claims \<Rightarrow> string option"
  au_parse :: "int \<Rightarrow> string \<Rightarrow> Claims option"
  au_ttl :: int

definition second_ns :: int where
  "second_ns = 1000000000"

definition NewNumericDate :: "int \<Rightarrow> int" where
  "NewNumericDate t = t div second_ns"

definition IssueToken :: "auth_service \<Rightarrow> int \<Rightarrow> string \<Rightarrow> string \<Rightarrow> string option" where
  "IssueToken a now userID role =
     au_sign a \<lparr>cl_UserID = userID, cl_Role = role, cl_Scope = [], cl_ExpiresAt = NewNumericDate (now + au_ttl a),
                cl_IssuedAt = NewNumericDate now\<rparr>"

definition IssueTempToken :: "auth_service \<Rightarrow> int \<Rightarrow> string \<Rightarrow> string option" where
  "IssueTempToken a now userID =
     au_sign a \<lparr>cl_UserID = userID, cl_Role = [], cl_Scope = ''2fa_login'',
                cl_ExpiresAt = NewNumericDate (now + 5 * 60 * second_ns), cl_IssuedAt = NewNumericDate now\<rparr>"

definition VerifyToken :: "auth_service \<Rightarrow> int \<Rightarrow> string \<Rightarrow> Claims option" where
  "VerifyToken a now token = au_parse a now token"

text \<open>The left value is the answer's error text, the right one the user id put into the context.\<close>

definition authMiddleware :: "auth_service \<Rightarrow> int \<Rightarrow> string \<Rightarrow> string + string" where
  "authMiddleware a now header =
     (if length header < 7 \<or> take 7 header \<noteq> ''Bearer '' then Inl ''missing bearer token''
      else (case VerifyToken a now (drop 7 header) of
              None \<Rightarrow> Inl ''invalid token''
            | Some claims \<Rightarrow> Inr (cl_UserID claims)))"

text \<open>uuid.Parse and its inverse String are arguments.\<close>

record uuid_lib =
  uu_Parse :: "string \<Rightarrow> uuid option"
  uu_String :: "uuid \<Rightarrow> string"

definition userUUIDFromContext :: "uuid_lib \<Rightarrow> string \<Rightarrow> uuid option" where
  "userUUIDFromContext uu s = (if s = [] then None else uu_Parse uu s)"

definition adminMiddleware :: "uuid_lib \<Rightarrow> string \<Rightarrow> 'x totp_db_scheme \<Rightarrow> nat option \<times> 'x totp_db_scheme" where
  "adminMiddleware uu uid s =
     (case userUUIDFromContext uu uid of
        None \<Rightarrow> (Some 401, s)
      | Some i \<Rightarrow>
          (case FindByID i s of
             (Inl e, s1) \<Rightarrow> (Some 401, s1)
           | (Inr u, s1) \<Rightarrow> (if us_Role u \<noteq> ''admin'' then Some 403 else None, s1)))"

subsection \<open>Logging in\<close>

definition stripPort :: "string \<Rightarrow> string" where
  "stripPort addr =
     (case (if HasPrefix addr ''['' then IndexByte addr CHR '']'' else None) of
        Some e \<Rightarrow> take (e - 1) (drop 1 addr)
      | None \<Rightarrow> (case LastIndexByte addr CHR '':'' of Some i \<Rightarrow> take i addr | None \<Rightarrow> addr))"

record login_env =
  le_inet :: "string \<Rightarrow> string option"
  le_now :: int
  le_db_now :: int
  le_event_id :: uuid
  le_remote :: string
  le_ua :: string
  le_crypto :: crypto
  le_auth :: auth_service
  le_uuid :: uuid_lib
  le_db_text :: string

datatype login_response =
    LockedOut
  | BadCredentials
  | LoginFailed
  | Unverified
  | Requires2FA string User
  | LoggedIn string User

text \<open>The text of an error; that of a database error is part of the environment.\<close>

fun account_error_text :: "string \<Rightarrow> account_error \<Rightarrow> string" where
  "account_error_text db ErrEmailTaken = ''email already registered''"
| "account_error_text db ErrUserNotFound = ''user not found''"
| "account_error_text db ErrInvalidCredentials = ''invalid email or password''"
| "account_error_text db ErrInvalidEmail = ''invalid email format''"
| "account_error_text db ErrWeakPassword = ''password too weak (min 8 chars)''"
| "account_error_text db ErrBotUserAlreadySet = ''bot user already set; clear it before reassigning''"
| "account_error_text db ErrKYCSubmissionNotFound = ''kyc submission not found''"
| "account_error_text db ErrTokenNotFound = ''token not found''"
| "account_error_text db ErrTokenExpired = ''token expired or already used''"
| "account_error_text db ErrAccountDB = db"
| "account_error_text db (ErrAccount t) = t"

definition record_failed_login :: "login_env \<Rightarrow> string \<Rightarrow> string \<Rightarrow> 'x totp_db_scheme \<Rightarrow> 'x totp_db_scheme" where
  "record_failed_login e email reason s =
     snd (RecordLogin (le_inet e) (le_db_now e) email None (stripPort (le_remote e)) (le_ua e) False reason s)"

text \<open>What is recorded of a login with the right password.\<close>

definition after_password :: "login_env \<Rightarrow> string \<Rightarrow> User \<Rightarrow> 'x totp_db_scheme \<Rightarrow> 'x totp_db_scheme" where
  "after_password e email u s =
     (case login_risk (le_inet e) (le_now e) (le_db_now e) (us_ID u) email (stripPort (le_remote e)) (le_ua e) s of
        (score, s1) \<Rightarrow>
          login_record (le_event_id e) (le_db_now e) (us_ID u) (stripPort (le_remote e)) (le_ua e) score
            (snd (ClearLoginAttempts email s1)))"

definition finish_login :: "login_env \<Rightarrow> User \<Rightarrow> 'x totp_db_scheme \<Rightarrow> login_response \<times> 'x totp_db_scheme" where
  "finish_login e u s =
     (if \<not> us_EmailVerified u then (Unverified, s)
      else
        (case IsEnabled (us_ID u) s of
           (r, s1) \<Rightarrow>
             (let twoFAEnabled = (case r of Inl _ \<Rightarrow> False | Inr b \<Rightarrow> b); uid = uu_String (le_uuid e) (us_ID u) in
              if twoFAEnabled
              then (case IssueTempToken (le_auth e) (le_now e) uid of
                      None \<Rightarrow> LoginFailed | Some t \<Rightarrow> Requires2FA t u, s1)
              else (case IssueToken (le_auth e) (le_now e) uid (us_Role u) of
                      None \<Rightarrow> LoginFailed | Some t \<Rightarrow> LoggedIn t u, s1))))"

definition loginHandler :: "login_env \<Rightarrow> string \<Rightarrow> string \<Rightarrow> 'x totp_db_scheme \<Rightarrow> login_response \<times> 'x totp_db_scheme" where
  "loginHandler e email pw s =
     (case IsLockedOut (le_db_now e) email 5 15 s of
        (Inr True, s1) \<Rightarrow> (LockedOut, record_failed_login e email ''locked_out'' s1)
      | (_, s1) \<Rightarrow>
          (case LoginUser (le_crypto e) email pw s1 of
             (Inl err, s2) \<Rightarrow>
               (if err = ErrInvalidCredentials then BadCredentials else LoginFailed,
                record_failed_login e email (if err = ErrInvalidCredentials then ''invalid_credentials'' else account_error_text (le_db_text e) err) s2)
           | (Inr u, s2) \<Rightarrow> finish_login e u (after_password e email u s2)))"

subsection \<open>The second step of a login\<close>

record complete_request =
  cq_TempToken :: string
  cq_Code :: string

text \<open>A refusal is its status and text; a success is the token, the user and whether a backup code was used.\<close>

definition totpLoginCompleteHandler ::
  "login_env \<Rightarrow> totp_lib \<Rightarrow> complete_request option \<Rightarrow> 'x totp_db_scheme
    \<Rightarrow> ((nat \<times> string) + (string \<times> User \<times> bool)) \<times> 'x totp_db_scheme" where
  "totpLoginCompleteHandler e lib body s =
     (case body of
        None \<Rightarrow> (Inl (400, ''invalid JSON body''), s)
      | Some q \<Rightarrow>
          if cq_TempToken q = [] \<or> cq_Code q = [] then (Inl (400, ''missing temp_token or code''), s)
          else
            (case VerifyToken (le_auth e) (le_now e) (cq_TempToken q) of
               None \<Rightarrow> (Inl (401, ''invalid or expired temp token''), s)
             | Some claims \<Rightarrow>
                 if cl_Scope claims \<noteq> ''2fa_login'' then (Inl (401, ''invalid token scope''), s)
                 else
                   (case uu_Parse (le_uuid e) (cl_UserID claims) of
                      None \<Rightarrow> (Inl (401, ''invalid user in token''), s)
                    | Some uid \<Rightarrow>
                        (case (case VerifyCode lib (le_now e) uid (cq_Code q) s of
                                 (Inr _, s1) \<Rightarrow> (Some False, s1)
                               | (Inl _, s1) \<Rightarrow>
                                   (case UseBackupCode lib uid (cq_Code q) s1 of
                                      ((ok, None), s2) \<Rightarrow> (if ok then Some True else None, s2)
                                    | ((ok, Some err), s2) \<Rightarrow> (None, s2))) of
                           (None, s2) \<Rightarrow> (Inl (401, ''invalid 2FA code''), s2)
                         | (Some usedBackup, s2) \<Rightarrow>
                             (case FindByID uid s2 of
                                (Inl err, s3) \<Rightarrow> (Inl (500, ''internal error''), s3)
                              | (Inr u, s3) \<Rightarrow>
                                  (case IssueToken (le_auth e) (le_now e) (uu_String (le_uuid e) (us_ID u)) (us_Role u) of
                                     None \<Rightarrow> (Inl (500, ''internal error''), s3)
                                   | Some token \<Rightarrow> (Inr (token, u, usedBackup), s3))))))) "

subsection \<open>Managing the second factor\<close>

text \<open>The requests behind authMiddleware: its context has the user id the token names.\<close>

definition with_user :: "login_env \<Rightarrow> string \<Rightarrow> (uuid \<Rightarrow> 's \<Rightarrow> ((nat \<times> string) + 'a) \<times> 's) \<Rightarrow> 's \<Rightarrow> ((nat \<times> string) + 'a) \<times> 's" where
  "with_user e header f s =
     (case authMiddleware (le_auth e) (le_now e) header of
        Inl err \<Rightarrow> (Inl (401, err), s)
      | Inr uid \<Rightarrow>
          (case userUUIDFromContext (le_uuid e) uid of
             None \<Rightarrow> (Inl (401, ''unauthorized''), s)
           | Some u \<Rightarrow> f u s))"

definition totpSetupHandler ::
  "login_env \<Rightarrow> totp_lib \<Rightarrow> nat list option \<Rightarrow> nat list option \<Rightarrow> string \<Rightarrow> string \<Rightarrow> 'x totp_db_scheme
    \<Rightarrow> ((nat \<times> string) + TOTPSetup) \<times> 'x totp_db_scheme" where
  "totpSetupHandler e lib rnd nonce issuer header =
     with_user e header (\<lambda>u s.
       case FindByID u s of
         (Inl err, s1) \<Rightarrow> (Inl (500, ''internal error''), s1)
       | (Inr r, s1) \<Rightarrow>
           (case GenerateSecret lib rnd nonce issuer u (us_Email r) s1 of
              (Inl err, s2) \<Rightarrow> (Inl (500, ''internal error''), s2)
            | (Inr setup, s2) \<Rightarrow> (Inr setup, s2)))"

fun totp_error_text :: "string \<Rightarrow> totp_error \<Rightarrow> string" where
  "totp_error_text db NotSetUp = ''2FA not set up''"
| "totp_error_text db TotpDB = db"
| "totp_error_text db TotpRand = db"
| "totp_error_text db DecryptFailed = db"
| "totp_error_text db ValidateFailed = db"
| "totp_error_text db InvalidCode = ''invalid code''"
| "totp_error_text db Err2FANotEnabled = ''2fa is not enabled on this account''"
| "totp_error_text db CannotDisable = ''invalid code: cannot disable 2FA''"

definition totpEnableHandler ::
  "login_env \<Rightarrow> totp_lib \<Rightarrow> (nat list option \<times> uuid) list \<Rightarrow> string \<Rightarrow> string option \<Rightarrow> 'x totp_db_scheme
    \<Rightarrow> ((nat \<times> string) + string list) \<times> 'x totp_db_scheme" where
  "totpEnableHandler e lib rnds header body =
     with_user e header (\<lambda>u s.
       case body of
         None \<Rightarrow> (Inl (400, ''invalid JSON body''), s)
       | Some code \<Rightarrow>
           if length code \<noteq> 6 then (Inl (400, ''code must be 6 digits''), s)
           else (case Enable lib rnds (le_now e) u code s of
                   (Inl err, s1) \<Rightarrow> (Inl (400, totp_error_text (le_db_text e) err), s1)
                 | (Inr codes, s1) \<Rightarrow> (Inr codes, s1)))"

definition totpDisableHandler ::
  "login_env \<Rightarrow> totp_lib \<Rightarrow> string \<Rightarrow> string option \<Rightarrow> 'x totp_db_scheme \<Rightarrow> ((nat \<times> string) + unit) \<times> 'x totp_db_scheme" where
  "totpDisableHandler e lib header body =
     with_user e header (\<lambda>u s.
       case body of
         None \<Rightarrow> (Inl (400, ''invalid JSON body''), s)
       | Some code \<Rightarrow>
           (case Disable lib (le_now e) u code s of
              (Inl err, s1) \<Rightarrow> (Inl (400, totp_error_text (le_db_text e) err), s1)
            | (Inr _, s1) \<Rightarrow> (Inr (), s1)))"

definition totpStatusHandler :: "login_env \<Rightarrow> string \<Rightarrow> 'x totp_db_scheme \<Rightarrow> ((nat \<times> string) + (bool \<times> nat)) \<times> 'x totp_db_scheme" where
  "totpStatusHandler e header =
     with_user e header (\<lambda>u s.
       case IsEnabled u s of
         (Inl err, s1) \<Rightarrow> (Inl (500, ''internal error''), s1)
       | (Inr b, s1) \<Rightarrow> (case RemainingBackupCodes u s1 of (n, s2) \<Rightarrow> (Inr (b, case n of None \<Rightarrow> 0 | Some k \<Rightarrow> k), s2)))"

definition totpRegenerateBackupCodesHandler ::
  "login_env \<Rightarrow> totp_lib \<Rightarrow> (nat list option \<times> uuid) list \<Rightarrow> string \<Rightarrow> string option \<Rightarrow> 'x totp_db_scheme
    \<Rightarrow> ((nat \<times> string) + string list) \<times> 'x totp_db_scheme" where
  "totpRegenerateBackupCodesHandler e lib rnds header body =
     with_user e header (\<lambda>u s.
       case body of
         None \<Rightarrow> (Inl (400, ''invalid JSON body''), s)
       | Some code \<Rightarrow>
           (case VerifyCode lib (le_now e) u code s of
              (Inl err, s1) \<Rightarrow> (Inl (400, ''invalid code''), s1)
            | (Inr _, s1) \<Rightarrow>
                (case GenerateBackupCodes lib rnds u s1 of
                   (Inl err, s2) \<Rightarrow> (Inl (500, ''internal error''), s2)
                 | (Inr codes, s2) \<Rightarrow> (Inr codes, s2))))"

definition totpVerifyHandler ::
  "login_env \<Rightarrow> totp_lib \<Rightarrow> string \<Rightarrow> string option \<Rightarrow> 'x totp_db_scheme \<Rightarrow> ((nat \<times> string) + unit) \<times> 'x totp_db_scheme" where
  "totpVerifyHandler e lib header body =
     with_user e header (\<lambda>u s.
       case body of
         None \<Rightarrow> (Inl (400, ''invalid JSON body''), s)
       | Some code \<Rightarrow>
           (case VerifyCode lib (le_now e) u code s of
              (Inl err, s1) \<Rightarrow> (Inl (400, totp_error_text (le_db_text e) err), s1)
            | (Inr _, s1) \<Rightarrow> (Inr (), s1)))"

subsection \<open>E-mail links\<close>

definition verifyEmailHandler :: "login_env \<Rightarrow> string \<Rightarrow> 'x totp_db_scheme \<Rightarrow> ((nat \<times> string) + (uuid \<times> string)) \<times> 'x totp_db_scheme" where
  "verifyEmailHandler e tok s =
     (if tok = [] then (Inl (400, ''missing token''), s)
      else
        (case ConsumeVerifyToken (le_crypto e) (le_now e) (le_db_now e) tok s of
           (Inl err, s1) \<Rightarrow>
             (Inl (if err = ErrTokenNotFound then (400, ''invalid token'')
                   else if err = ErrTokenExpired then (410, ''token expired or already used'')
                   else (500, ''internal error'')), s1)
         | (Inr uid, s1) \<Rightarrow>
             (case IssueToken (le_auth e) (le_now e) (uu_String (le_uuid e) uid) [] of
                None \<Rightarrow> (Inl (500, ''internal error''), s1)
              | Some token \<Rightarrow> (Inr (uid, token), s1))))"

text \<open>The right value is the address and the token that is mailed to it, if any: the answer is the same.\<close>

definition forgotPasswordHandler ::
  "login_env \<Rightarrow> nat list option \<Rightarrow> uuid \<Rightarrow> string option \<Rightarrow> 'x totp_db_scheme
    \<Rightarrow> ((nat \<times> string) + (string \<times> string) option) \<times> 'x totp_db_scheme" where
  "forgotPasswordHandler e rnd new_id body s =
     (case body of
        None \<Rightarrow> (Inl (400, ''invalid json''), s)
      | Some email0 \<Rightarrow>
          (let email = TrimSpace (ToLower email0) in
           if email = [] then (Inl (400, ''email required''), s)
           else
             (case CreateResetTokenForEmail (le_crypto e) rnd new_id (le_now e) (le_db_now e) email s of
                (Inl err, s1) \<Rightarrow> (Inr None, s1)
              | (Inr (tok, uid, ex), s1) \<Rightarrow> (Inr (Some (email, tok)), s1))))"

definition resetPasswordHandler ::
  "login_env \<Rightarrow> (string \<times> string) option \<Rightarrow> 'x totp_db_scheme \<Rightarrow> ((nat \<times> string) + uuid) \<times> 'x totp_db_scheme" where
  "resetPasswordHandler e body s =
     (case body of
        None \<Rightarrow> (Inl (400, ''invalid json''), s)
      | Some (tok, pw) \<Rightarrow>
          if tok = [] \<or> pw = [] then (Inl (400, ''token and password required''), s)
          else
            (case ResetPasswordWithToken (le_crypto e) (le_now e) (le_db_now e) tok pw s of
               (Inl err, s1) \<Rightarrow>
                 (Inl (if err = ErrWeakPassword then (400, ''password too weak'')
                       else if err = ErrTokenNotFound then (400, ''invalid token'')
                       else if err = ErrTokenExpired then (410, ''token expired or already used'')
                       else (500, ''internal error'')), s1)
             | (Inr uid, s1) \<Rightarrow> (Inr uid, s1)))"

definition sendVerifyEmail :: "login_env \<Rightarrow> nat list option \<Rightarrow> uuid \<Rightarrow> uuid \<Rightarrow> 'x totp_db_scheme \<Rightarrow> string option \<times> 'x totp_db_scheme" where
  "sendVerifyEmail e rnd new_id uid s =
     (case CreateVerifyToken (le_crypto e) rnd new_id (le_now e) (le_db_now e) uid s of
        (Inl err, s1) \<Rightarrow> (None, s1)
      | (Inr (tok, ex), s1) \<Rightarrow> (Some tok, s1))"

definition resendVerificationHandler ::
  "login_env \<Rightarrow> nat list option \<Rightarrow> uuid \<Rightarrow> string option \<Rightarrow> 'x totp_db_scheme
    \<Rightarrow> ((nat \<times> string) + (string \<times> string) option) \<times> 'x totp_db_scheme" where
  "resendVerificationHandler e rnd new_id body s =
     (case body of
        None \<Rightarrow> (Inl (400, ''invalid json''), s)
      | Some email0 \<Rightarrow>
          (let email = TrimSpace (ToLower email0) in
           if email = [] then (Inl (400, ''email required''), s)
           else
             (case FindByEmail email s of
                (Inr u, s1) \<Rightarrow>
                  if us_EmailVerified u then (Inr None, s1)
                  else (case sendVerifyEmail e rnd new_id (us_ID u) s1 of
                          (tok, s2) \<Rightarrow> (Inr (map_option (Pair (us_Email u)) tok), s2))
              | (Inl err, s1) \<Rightarrow> (Inr None, s1))))"

end
