(* ===== verification/Account_Records.thy ===== *)
theory Account_Records
  imports Accounts
begin

text \<open>
  What else internal/user keeps for a user: KYC submissions and their review (repo.go, service.go),
  the address book and the favourite pairs.
\<close>

subsection \<open>KYC\<close>

record SubmitKYCInput =
  ki_TargetLevel :: int
  ki_FullName :: string
  ki_IdNumber :: string
  ki_Country :: string
  ki_DocFront :: string
  ki_DocBack :: string
  ki_Selfie :: string

definition insert_kyc :: "KYCSubmission \<Rightarrow> 'x accounts_db_scheme \<Rightarrow> (nat \<times> 'x accounts_db_scheme) option" where
  "insert_kyc k s =
     (if find_account (ks_UserID k) s = None \<or> ks_TargetLevel k \<notin> {1, 2} then None
      else map_option (\<lambda>ks. (1, s\<lparr>kyc_submissions := ks\<rparr>)) (tbl_insert ks_ID k (kyc_submissions s)))"

definition SubmitKYC ::
  "uuid \<Rightarrow> int \<Rightarrow> uuid \<Rightarrow> SubmitKYCInput \<Rightarrow> 'x accounts_db_scheme \<Rightarrow> (account_error + KYCSubmission) \<times> 'x accounts_db_scheme" where
  "SubmitKYC new_id db_now u inp s =
     (if ki_TargetLevel inp < 1 \<or> 2 < ki_TargetLevel inp then (Inl (ErrAccount ''target level must be 1 or 2''), s)
      else
        (case FindByID u s of
           (Inl e, s1) \<Rightarrow> (Inl e, s1)
         | (Inr r, s1) \<Rightarrow>
             if ki_TargetLevel inp \<le> us_KycLevel r then (Inl (ErrAccount ''already at this kyc level''), s1)
             else if us_KycStatus r = ''PENDING'' then (Inl (ErrAccount ''kyc submission already pending''), s1)
             else
               (let sub = \<lparr>ks_ID = new_id, ks_UserID = u, ks_TargetLevel = ki_TargetLevel inp, ks_FullName = ki_FullName inp,
                      ks_IdNumber = ki_IdNumber inp, ks_Country = ki_Country inp, ks_DocFront = ki_DocFront inp,
                      ks_DocBack = ki_DocBack inp, ks_Selfie = ki_Selfie inp, ks_Status = ''PENDING'', ks_SubmittedAt = db_now,
                      ks_ReviewedAt = None, ks_ReviewerNote = []\<rparr>
                in case exec_rows (insert_kyc sub) s1 of
                     (Inl e, s2) \<Rightarrow> (Inl e, s2)
                   | (Inr n, s2) \<Rightarrow>
                       (case exec_rows (update_users (\<lambda>x. us_ID x = u)
                               (\<lambda>x. x\<lparr>us_KycStatus := ''PENDING'', us_KycSubmittedAt := Some db_now, us_UpdatedAt := db_now\<rparr>)) s2 of
                          (Inl e, s3) \<Rightarrow> (Inl e, s3)
                        | (Inr m, s3) \<Rightarrow> (Inr sub, s3)))))"

text \<open>A review runs in one transaction: an error rolls its two tables back.\<close>

definition rollback_kyc :: "'x accounts_db_scheme \<Rightarrow> 'x accounts_db_scheme \<Rightarrow> 'x accounts_db_scheme" where
  "rollback_kyc s0 s = s\<lparr>acc_users := acc_users s0, kyc_submissions := kyc_submissions s0\<rparr>"

definition commit_kyc :: "'x accounts_db_scheme \<Rightarrow> 'x accounts_db_scheme \<Rightarrow> (account_error + unit) \<times> 'x accounts_db_scheme" where
  "commit_kyc s0 s =
     (case next_fault s of
        (Acked, s1) \<Rightarrow> (Inr (), s1)
      | (Lost, s1) \<Rightarrow> (Inl ErrAccountDB, rollback_kyc s0 s1)
      | (Unacked, s1) \<Rightarrow> (Inl ErrAccountDB, s1))"

definition pending_kyc :: "uuid \<Rightarrow> 'x accounts_db_scheme \<Rightarrow> KYCSubmission option" where
  "pending_kyc i s = find (\<lambda>k. ks_ID k = i \<and> ks_Status k = ''PENDING'') (kyc_submissions s)"

definition review_kyc :: "uuid \<Rightarrow> string \<Rightarrow> int \<Rightarrow> string \<Rightarrow> 'x accounts_db_scheme \<Rightarrow> (nat \<times> 'x accounts_db_scheme) option" where
  "review_kyc i status db_now text s =
     Some (1, s\<lparr>kyc_submissions := map (\<lambda>k. if ks_ID k = i
       then k\<lparr>ks_Status := status, ks_ReviewedAt := Some db_now, ks_ReviewerNote := text\<rparr> else k) (kyc_submissions s)\<rparr>)"

definition review_tx ::
  "uuid \<Rightarrow> string \<Rightarrow> int \<Rightarrow> string \<Rightarrow> (KYCSubmission \<Rightarrow> User \<Rightarrow> User) \<Rightarrow> 'x accounts_db_scheme
    \<Rightarrow> (account_error + unit) \<times> 'x accounts_db_scheme" where
  "review_tx i status db_now text f s =
     (case query (\<lambda>_. ()) s of
        (None, s0) \<Rightarrow> (Inl ErrAccountDB, s0)
      | (Some _, s0) \<Rightarrow>
          (case query_row ErrKYCSubmissionNotFound (pending_kyc i) s0 of
             (Inl e, s1) \<Rightarrow> (Inl e, rollback_kyc s0 s1)
           | (Inr k, s1) \<Rightarrow>
               (case exec_rows (review_kyc i status db_now text) s1 of
                  (Inl e, s2) \<Rightarrow> (Inl e, rollback_kyc s0 s2)
                | (Inr n, s2) \<Rightarrow>
                    (case exec_rows (update_users (\<lambda>x. us_ID x = ks_UserID k) (f k)) s2 of
                       (Inl e, s3) \<Rightarrow> (Inl e, rollback_kyc s0 s3)
                     | (Inr m, s3) \<Rightarrow> commit_kyc s0 s3))))"

definition ApproveKYCSubmission :: "uuid \<Rightarrow> int \<Rightarrow> string \<Rightarrow> 'x accounts_db_scheme \<Rightarrow> (account_error + unit) \<times> 'x accounts_db_scheme" where
  "ApproveKYCSubmission i db_now reviewer =
     review_tx i ''APPROVED'' db_now reviewer (\<lambda>k x. x\<lparr>us_KycLevel := ks_TargetLevel k, us_KycStatus := ''APPROVED'',
       us_KycApprovedAt := Some db_now, us_UpdatedAt := db_now\<rparr>)"

definition RejectKYCSubmission :: "uuid \<Rightarrow> int \<Rightarrow> string \<Rightarrow> 'x accounts_db_scheme \<Rightarrow> (account_error + unit) \<times> 'x accounts_db_scheme" where
  "RejectKYCSubmission i db_now reason =
     review_tx i ''REJECTED'' db_now reason (\<lambda>k x. x\<lparr>us_KycStatus := ''REJECTED'', us_KycRejectedReason := reason,
       us_UpdatedAt := db_now\<rparr>)"

definition GetKYCSubmissions :: "uuid \<Rightarrow> 'x accounts_db_scheme \<Rightarrow> KYCSubmission list option \<times> 'x accounts_db_scheme" where
  "GetKYCSubmissions u =
     query (\<lambda>t. sort_key (\<lambda>k. - ks_SubmittedAt k) (filter (\<lambda>k. ks_UserID k = u) (kyc_submissions t)))"

definition GetAllKYCSubmissions :: "string \<Rightarrow> 'x accounts_db_scheme \<Rightarrow> KYCSubmission list option \<times> 'x accounts_db_scheme" where
  "GetAllKYCSubmissions status =
     query (\<lambda>t. take 200 (sort_key (\<lambda>k. - ks_SubmittedAt k)
       (filter (\<lambda>k. status = [] \<or> ks_Status k = status) (kyc_submissions t))))"

definition GetPendingKYCSubmissions :: "'x accounts_db_scheme \<Rightarrow> KYCSubmission list option \<times> 'x accounts_db_scheme" where
  "GetPendingKYCSubmissions =
     query (\<lambda>t. sort_key ks_SubmittedAt (filter (\<lambda>k. ks_Status k = ''PENDING'') (kyc_submissions t)))"

subsection \<open>The address book\<close>

text \<open>
  Column lengths are those of migration 0025. A label is cut at 64 bytes, which can fall inside a
  character; the texts here are bytes.
\<close>

definition cut_label :: "string \<Rightarrow> string" where
  "cut_label l = (if 64 < length l then take 64 l else l)"

definition address_key :: "AddressBookEntry \<Rightarrow> uuid \<times> string \<times> string" where
  "address_key a = (ad_UserID a, ad_Asset a, ad_Address a)"

definition insert_address :: "AddressBookEntry \<Rightarrow> 'x accounts_db_scheme \<Rightarrow> (nat \<times> 'x accounts_db_scheme) option" where
  "insert_address a s =
     (if find_account (ad_UserID a) s = None \<or> 16 < length (ad_Asset a) \<or> 128 < length (ad_Address a) \<or>
         address_key a \<in> address_key ` set (withdrawal_addresses s) then None
      else map_option (\<lambda>rs. (1, s\<lparr>withdrawal_addresses := rs\<rparr>)) (tbl_insert ad_ID a (withdrawal_addresses s)))"

definition AddAddress ::
  "uuid \<Rightarrow> int \<Rightarrow> uuid \<Rightarrow> string \<Rightarrow> string \<Rightarrow> string \<Rightarrow> bool \<Rightarrow> 'x accounts_db_scheme
    \<Rightarrow> (account_error + AddressBookEntry) \<times> 'x accounts_db_scheme" where
  "AddAddress new_id db_now u asset0 address0 label0 whitelisted s =
     (let asset = ToUpper (TrimSpace asset0); address = TrimSpace address0; label = TrimSpace label0 in
      if asset = [] \<or> address = [] then (Inl (ErrAccount ''asset and address required''), s)
      else
        (let a = \<lparr>ad_ID = new_id, ad_UserID = u, ad_Asset = asset, ad_Address = address, ad_Label = cut_label label,
               ad_Whitelisted = whitelisted, ad_LastUsedAt = None, ad_CreatedAt = db_now, ad_UpdatedAt = db_now\<rparr>
         in case exec_rows (insert_address a) s of
              (Inl e, s1) \<Rightarrow> (Inl e, s1)
            | (Inr n, s1) \<Rightarrow> (Inr a, s1)))"

text \<open>ORDER BY last_used_at DESC NULLS LAST, created_at DESC.\<close>

definition ListAddresses :: "uuid \<Rightarrow> 'x accounts_db_scheme \<Rightarrow> AddressBookEntry list option \<times> 'x accounts_db_scheme" where
  "ListAddresses u =
     query (\<lambda>t. let rs = sort_key (\<lambda>a. - ad_CreatedAt a) (filter (\<lambda>a. ad_UserID a = u) (withdrawal_addresses t))
                in sort_key (\<lambda>a. - the (ad_LastUsedAt a)) (filter (\<lambda>a. ad_LastUsedAt a \<noteq> None) rs) @
                   filter (\<lambda>a. ad_LastUsedAt a = None) rs)"

definition own_address :: "uuid \<Rightarrow> uuid \<Rightarrow> AddressBookEntry \<Rightarrow> bool" where
  "own_address u i a \<longleftrightarrow> ad_ID a = i \<and> ad_UserID a = u"

definition DeleteAddress :: "uuid \<Rightarrow> uuid \<Rightarrow> 'x accounts_db_scheme \<Rightarrow> (account_error + unit) \<times> 'x accounts_db_scheme" where
  "DeleteAddress u i s =
     (case exec_rows (\<lambda>t. Some (length (filter (own_address u i) (withdrawal_addresses t)),
             t\<lparr>withdrawal_addresses := filter (\<lambda>a. \<not> own_address u i a) (withdrawal_addresses t)\<rparr>)) s of
        (Inl e, s1) \<Rightarrow> (Inl e, s1)
      | (Inr n, s1) \<Rightarrow> (if n = 0 then Inl (ErrAccount ''address not found'') else Inr (), s1))"

definition set_addresses ::
  "(AddressBookEntry \<Rightarrow> bool) \<Rightarrow> (AddressBookEntry \<Rightarrow> AddressBookEntry) \<Rightarrow> 'x accounts_db_scheme
    \<Rightarrow> (account_error + nat) \<times> 'x accounts_db_scheme" where
  "set_addresses P f =
     exec_rows (\<lambda>t. Some (length (filter P (withdrawal_addresses t)),
       t\<lparr>withdrawal_addresses := map (\<lambda>a. if P a then f a else a) (withdrawal_addresses t)\<rparr>))"

definition UpdateAddress ::
  "int \<Rightarrow> uuid \<Rightarrow> uuid \<Rightarrow> string option \<Rightarrow> bool option \<Rightarrow> 'x accounts_db_scheme
    \<Rightarrow> (account_error + AddressBookEntry) \<times> 'x accounts_db_scheme" where
  "UpdateAddress db_now u i label whitelisted s =
     (case (case label of
              None \<Rightarrow> (Inr 0, s)
            | Some l \<Rightarrow> set_addresses (own_address u i) (\<lambda>a. a\<lparr>ad_Label := cut_label (TrimSpace l), ad_UpdatedAt := db_now\<rparr>) s) of
        (Inl e, s1) \<Rightarrow> (Inl e, s1)
      | (Inr _, s1) \<Rightarrow>
          (case (case whitelisted of
                   None \<Rightarrow> (Inr 0, s1)
                 | Some w \<Rightarrow> set_addresses (own_address u i) (\<lambda>a. a\<lparr>ad_Whitelisted := w, ad_UpdatedAt := db_now\<rparr>) s1) of
             (Inl e, s2) \<Rightarrow> (Inl e, s2)
           | (Inr _, s2) \<Rightarrow> query_row (ErrAccount ''no rows'') (\<lambda>t. find (own_address u i) (withdrawal_addresses t)) s2))"

definition MarkAddressUsed :: "int \<Rightarrow> uuid \<Rightarrow> string \<Rightarrow> string \<Rightarrow> 'x accounts_db_scheme \<Rightarrow> (account_error + nat) \<times> 'x accounts_db_scheme" where
  "MarkAddressUsed db_now u asset address =
     set_addresses (\<lambda>a. address_key a = (u, asset, address)) (\<lambda>a. a\<lparr>ad_LastUsedAt := Some db_now\<rparr>)"

definition validAddressAsset :: "string \<Rightarrow> bool" where
  "validAddressAsset s \<longleftrightarrow> s \<in> {''BTC'', ''ETH'', ''BNB'', ''SOL'', ''USDT'', ''USDC''}"

subsection \<open>Favourites\<close>

definition MaxFavoritesPerUser :: nat where
  "MaxFavoritesPerUser = 100"

definition validPairFormat :: "string \<Rightarrow> bool" where
  "validPairFormat pair \<longleftrightarrow>
     3 \<le> length pair \<and> length pair \<le> 12 \<and>
     list_all (\<lambda>c. let n = of_char c :: nat in (65 \<le> n \<and> n \<le> 90) \<or> (48 \<le> n \<and> n \<le> 57) \<or> c = CHR ''_'') pair"

definition favorites_of :: "uuid \<Rightarrow> 'x accounts_db_scheme \<Rightarrow> favorite list" where
  "favorites_of u s = filter (\<lambda>f. fv_user_id f = u) (user_favorites s)"

definition GetFavorites :: "uuid \<Rightarrow> 'x accounts_db_scheme \<Rightarrow> string list option \<times> 'x accounts_db_scheme" where
  "GetFavorites u = query (\<lambda>t. map fv_pair (sort_key fv_created_at (favorites_of u t)))"

definition insert_favorite :: "int \<Rightarrow> uuid \<Rightarrow> string \<Rightarrow> 'x accounts_db_scheme \<Rightarrow> (nat \<times> 'x accounts_db_scheme) option" where
  "insert_favorite db_now u pair s =
     (if 32 < length pair then None
      else if (u, pair) \<in> (\<lambda>f. (fv_user_id f, fv_pair f)) ` set (user_favorites s) then Some (0, s)
      else if find_account u s = None then None
      else Some (1, s\<lparr>user_favorites := user_favorites s @ [\<lparr>fv_user_id = u, fv_pair = pair, fv_created_at = db_now\<rparr>]\<rparr>))"

definition AddFavorite :: "int \<Rightarrow> uuid \<Rightarrow> string \<Rightarrow> 'x accounts_db_scheme \<Rightarrow> (account_error + unit) \<times> 'x accounts_db_scheme" where
  "AddFavorite db_now u pair s =
     (case query (\<lambda>t. length (favorites_of u t)) s of
        (None, s1) \<Rightarrow> (Inl ErrAccountDB, s1)
      | (Some count, s1) \<Rightarrow>
          if MaxFavoritesPerUser \<le> count then (Inl (ErrAccount ''max favorites reached (100)''), s1)
          else
            (case exec_rows (insert_favorite db_now u pair) s1 of
               (Inl e, s2) \<Rightarrow> (Inl e, s2)
             | (Inr n, s2) \<Rightarrow> (Inr (), s2)))"

definition RemoveFavorite :: "uuid \<Rightarrow> string \<Rightarrow> 'x accounts_db_scheme \<Rightarrow> (account_error + nat) \<times> 'x accounts_db_scheme" where
  "RemoveFavorite u pair =
     exec_rows (\<lambda>t. Some (length (filter (\<lambda>f. fv_user_id f = u \<and> fv_pair f = pair) (user_favorites t)),
       t\<lparr>user_favorites := filter (\<lambda>f. \<not> (fv_user_id f = u \<and> fv_pair f = pair)) (user_favorites t)\<rparr>))"

text \<open>However often pairs are added, a user never has more than a hundred, as long as requests do not overlap.\<close>

lemma insert_favorite_count:
  "insert_favorite t u p s = Some (n, s') \<Longrightarrow>
     length (favorites_of v s') \<le> (if v = u then Suc (length (favorites_of v s)) else length (favorites_of v s))"
  by (auto simp: insert_favorite_def favorites_of_def split: if_splits)

lemma AddFavorite_bound:
  assumes "AddFavorite t u p s = (r, s')" and "length (favorites_of v s) \<le> MaxFavoritesPerUser"
  shows "length (favorites_of v s') \<le> MaxFavoritesPerUser"
proof -
  obtain c s1 where q: "query (\<lambda>t. length (favorites_of u t)) s = (c, s1)" by force
  then have same: "favorites_of w s1 = favorites_of w s" for w
    by (auto simp: favorites_of_def dest!: query_casesD)
  show ?thesis
  proof (cases "\<exists>n. c = Some n \<and> n < MaxFavoritesPerUser")
    case False
    then show ?thesis using assms q same by (auto simp: AddFavorite_def not_less split: option.splits)
  next
    case True
    then obtain n where n: "c = Some n" "n < MaxFavoritesPerUser" by blast
    then have nu: "length (favorites_of u s) < MaxFavoritesPerUser"
      using q same [of u] by (auto dest!: query_casesD)
    obtain k s2 where e: "exec_stmt (insert_favorite t u p) s1 = (k, s2)" by force
    have s': "s' = s2" using assms(1) q n e by (auto simp: AddFavorite_def exec_rows_def split: option.splits)
    from exec_stmt_casesD [OF e] obtain fs where "s2 = s1\<lparr>faults := fs\<rparr> \<or>
        (\<exists>m. insert_favorite t u p (s1\<lparr>faults := fs\<rparr>) = Some (m, s2))" by blast
    then have "length (favorites_of v s2) \<le> (if v = u then Suc (length (favorites_of v s1)) else length (favorites_of v s1))"
      using insert_favorite_count [of t u p "s1\<lparr>faults := fs\<rparr>" _ s2 v] by (auto simp: favorites_of_def)
    then show ?thesis using assms(2) nu same s' by (auto split: if_splits)
  qed
qed

end
