(* ===== verification/Account_Correct.thy ===== *)
theory Account_Correct
  imports Second_Factor Account_Records
begin

text \<open>
  What the account records guarantee: a reset link and a backup code work once, and a KYC review changes
  the submission and the user together or not at all.
\<close>

subsection \<open>A small state for the examples\<close>

text \<open>One user with an enabled second factor, a reset token, a backup code and a pending submission.\<close>

definition demo_crypto :: crypto where
  "demo_crypto = \<lparr>cr_hash = \<lambda>p. Some (CHR ''h'' # p), cr_match = \<lambda>h p. h = CHR ''h'' # p\<rparr>"

definition demo_user :: User where
  "demo_user = \<lparr>us_ID = 7, us_Email = ''a'', us_PasswordHash = ''hpw'', us_KycLevel = 0, us_KycStatus = ''PENDING'',
     us_KycSubmittedAt = Some 1, us_KycApprovedAt = None, us_KycRejectedReason = [], us_Role = ''user'',
     us_EmailVerified = True, us_IsBotUser = False, us_CreatedAt = 1, us_UpdatedAt = 1\<rparr>"

definition demo_kyc :: KYCSubmission where
  "demo_kyc = \<lparr>ks_ID = 2, ks_UserID = 7, ks_TargetLevel = 1, ks_FullName = [], ks_IdNumber = [], ks_Country = [],
     ks_DocFront = [], ks_DocBack = [], ks_Selfie = [], ks_Status = ''PENDING'', ks_SubmittedAt = 1, ks_ReviewedAt = None,
     ks_ReviewerNote = []\<rparr>"

definition demo_code :: backup_code where
  "demo_code = \<lparr>bk_id = 3, bk_user_id = 7, bk_code_hash = ''hc'', bk_used = False\<rparr>"

definition demo_reset :: email_token where
  "demo_reset = \<lparr>et_id = 4, et_user_id = 7, et_token_hash = ''ht'', et_expires_at = 100, et_used_at = None, et_created_at = 1\<rparr>"

definition demo_accounts :: totp_db where
  "demo_accounts = \<lparr>faults = [],
     risk_users = [\<lparr>ru_id = 7, ru_email = ''a'', ru_created_at = 1, ru_is_bot = False, ru_last_risk_score = 0\<rparr>],
     login_attempts = [], user_known_ips = [], risk_events = [], risk_deposits = [], risk_withdrawals = [],
     acc_users = [demo_user], kyc_submissions = [demo_kyc], verify_tokens = [], reset_tokens = [demo_reset],
     user_favorites = [], withdrawal_addresses = [],
     user_totp = [7 \<mapsto> \<lparr>ut_secret = [1], ut_enabled = True\<rparr>], backup_codes = [demo_code]\<rparr>"

definition demo_totp_lib :: totp_lib where
  "demo_totp_lib = \<lparr>tp_Seal = \<lambda>n t. t, tp_Open = \<lambda>n t. Some t, tp_Validate = \<lambda>c s n. Some (c = ''123456''), tp_crypto = demo_crypto\<rparr>"

subsection \<open>Password resets\<close>

lemma update_users_SomeD:
  assumes "update_users P f s = Some (n, s')"
  shows "s' = s\<lparr>acc_users := map (\<lambda>r. if P r then f r else r) (acc_users s)\<rparr>"
proof -
  obtain us where us: "tbl_update P (\<lambda>r. user_store (f r)) (acc_users s) = Some (n, us)" "s' = s\<lparr>acc_users := us\<rparr>"
    using assms by (auto simp: update_users_def)
  have "the (user_store (f r)) = f r" if "r \<in> set (acc_users s)" "P r" for r
    using tbl_update_SomeD [OF us(1)] that by (auto simp: user_store_def split: if_splits)
  then show ?thesis using us tbl_update_SomeD [OF us(1)] by auto
qed

text \<open>The row a reset takes: its hash accepts the token, it was not used and it has not expired.\<close>

definition reset_for :: "crypto \<Rightarrow> string \<Rightarrow> int \<Rightarrow> email_token \<Rightarrow> 'x accounts_db_scheme \<Rightarrow> bool" where
  "reset_for cr tok db_now t s \<longleftrightarrow>
     t \<in> set (reset_tokens s) \<and> cr_match cr (et_token_hash t) tok \<and> et_used_at t = None \<and> db_now < et_expires_at t"

lemma live_resets_in: "t \<in> set (live_resets db_now s) \<Longrightarrow> t \<in> set (reset_tokens s) \<and> et_used_at t = None \<and> db_now < et_expires_at t"
  by (auto simp: live_resets_def newest_first_def dest!: in_set_takeD)

lemma ResetPassword_effect:
  assumes "ResetPasswordWithToken cr now db_now tok pw s = (Inr u, s')" and "faults s = []"
  shows "\<exists>t h. reset_for cr tok db_now t s \<and> et_user_id t = u \<and> cr_hash cr pw = Some h \<and> 8 \<le> length pw \<and>
    s' = s\<lparr>reset_tokens := use_token db_now (et_id t) (reset_tokens s),
           acc_users := map (\<lambda>r. if us_ID r = u then r\<lparr>us_PasswordHash := h, us_UpdatedAt := db_now\<rparr> else r) (acc_users s)\<rparr>"
proof -
  obtain t ts where t: "filter (\<lambda>t. cr_match cr (et_token_hash t) tok) (live_resets db_now s) = t # ts"
    using assms by (cases "filter (\<lambda>t. cr_match cr (et_token_hash t) tok) (live_resets db_now s)")
      (auto simp: ResetPasswordWithToken_def split: if_splits option.splits)
  then have "t \<in> set (filter (\<lambda>t. cr_match cr (et_token_hash t) tok) (live_resets db_now s))" by simp
  then have "t \<in> set (live_resets db_now s)" "cr_match cr (et_token_hash t) tok" by simp_all
  then have r: "reset_for cr tok db_now t s" using live_resets_in by (auto simp: reset_for_def)
  let ?s2 = "s\<lparr>reset_tokens := use_token db_now (et_id t) (reset_tokens s)\<rparr>"
  have pw: "8 \<le> length pw" and sp: "SetUserPassword cr db_now (et_user_id t) pw ?s2 = (Inr (), s')" and u: "u = et_user_id t"
    using assms t by (auto simp: ResetPasswordWithToken_def validatePassword_def split: if_splits option.splits sum.splits prod.splits)
  obtain h n where h: "cr_hash cr pw = Some h"
    and up: "update_users (\<lambda>x. us_ID x = et_user_id t) (\<lambda>x. x\<lparr>us_PasswordHash := h, us_UpdatedAt := db_now\<rparr>) ?s2 = Some (n, s')"
    using sp assms(2) by (auto simp: SetUserPassword_def exec_rows_def split: if_splits option.splits prod.splits)
  show ?thesis using r u h pw update_users_SomeD [OF up] by auto
qed

text \<open>C28: A password reset succeeds for a token some unused, unexpired row accepts; it sets the hash of that
  row's user and of nobody else, and the token does not work again if no other row accepts it.
\<close>
theorem reset_token_once:
  assumes "ResetPasswordWithToken cr now db_now tok pw s = (Inr u, s')" and "faults s = []"
  shows "\<exists>t h. reset_for cr tok db_now t s \<and> et_user_id t = u \<and> cr_hash cr pw = Some h \<and> 8 \<le> length pw \<and>
    map us_PasswordHash (acc_users s') = map (\<lambda>r. if us_ID r = u then h else us_PasswordHash r) (acc_users s) \<and>
    map us_ID (acc_users s') = map us_ID (acc_users s) \<and>
    ((\<forall>x \<in> set (reset_tokens s). cr_match cr (et_token_hash x) tok \<longrightarrow> et_id x = et_id t) \<longrightarrow>
     (\<forall>now2 db2 pw2 v. fst (ResetPasswordWithToken cr now2 db2 tok pw2 s') \<noteq> Inr v))"
proof -
  obtain t h where th: "reset_for cr tok db_now t s" "et_user_id t = u" "cr_hash cr pw = Some h" "8 \<le> length pw"
    and s': "s' = s\<lparr>reset_tokens := use_token db_now (et_id t) (reset_tokens s),
      acc_users := map (\<lambda>r. if us_ID r = u then r\<lparr>us_PasswordHash := h, us_UpdatedAt := db_now\<rparr> else r) (acc_users s)\<rparr>"
    using ResetPassword_effect [OF assms] by blast
  have "fst (ResetPasswordWithToken cr now2 db2 tok pw2 s') \<noteq> Inr v"
    if only: "\<forall>x \<in> set (reset_tokens s). cr_match cr (et_token_hash x) tok \<longrightarrow> et_id x = et_id t" for now2 db2 pw2 v
  proof
    assume "fst (ResetPasswordWithToken cr now2 db2 tok pw2 s') = Inr v"
    then obtain s2 where "ResetPasswordWithToken cr now2 db2 tok pw2 s' = (Inr v, s2)" by (metis prod.collapse)
    then obtain x where x: "reset_for cr tok db2 x s'" using ResetPassword_effect [of cr now2 db2 tok pw2 s' v s2] assms(2) s' by auto
    then obtain y where "y \<in> set (reset_tokens s)"
      "x = (if et_id y = et_id t \<and> et_used_at y = None then y\<lparr>et_used_at := Some db_now\<rparr> else y)"
      by (auto simp: reset_for_def s' use_token_def)
    then show False using x only by (auto simp: reset_for_def split: if_splits)
  qed
  then show ?thesis using th s' by (intro exI [of _ t] exI [of _ h]) (auto intro!: map_cong)
qed

theorem reset_token_once_witness:
  "\<exists>s'. ResetPasswordWithToken demo_crypto 5 5 ''t'' ''new-secret'' demo_accounts = (Inr 7, s') \<and>
     map us_PasswordHash (acc_users s') = [''hnew-secret''] \<and>
     (\<forall>v. fst (ResetPasswordWithToken demo_crypto 6 6 ''t'' ''other-secret'' s') \<noteq> Inr v)"
proof -
  have c: "fst (ResetPasswordWithToken demo_crypto 5 5 ''t'' ''new-secret'' demo_accounts) = Inr 7"
    by (simp add: ResetPasswordWithToken_def validatePassword_def demo_accounts_def demo_reset_def demo_user_def live_resets_def
        reset_window_def newest_first_def demo_crypto_def SetUserPassword_def exec_rows_def update_users_def user_store_def)
  then obtain s' where s': "ResetPasswordWithToken demo_crypto 5 5 ''t'' ''new-secret'' demo_accounts = (Inr 7, s')"
    by (metis prod.collapse)
  have f: "faults demo_accounts = []" and us: "acc_users demo_accounts = [demo_user]" and ts: "reset_tokens demo_accounts = [demo_reset]"
    by (simp_all add: demo_accounts_def)
  have m: "us_ID demo_user = 7" "cr_hash demo_crypto ''new-secret'' = Some ''hnew-secret''"
    by (simp_all add: demo_user_def demo_crypto_def)
  show ?thesis using reset_token_once [OF s' f] s' us ts m by (auto simp: reset_for_def)
qed

subsection \<open>Backup codes\<close>

text \<open>C29: Using a backup code that is accepted marks exactly one unused code of the user: the number left falls by
  one, nobody else's codes change, and the same code is refused afterwards unless another unused one matches.
\<close>
theorem backup_code_once:
  assumes "UseBackupCode lib u code s = ((True, None), s')" and "faults s = []" and "distinct (map bk_id (backup_codes s))"
  shows "\<exists>b \<in> set (unused_codes u s). cr_match (tp_crypto lib) (bk_code_hash b) code \<and>
    unused_codes u s' = remove1 b (unused_codes u s) \<and>
    (\<forall>v. v \<noteq> u \<longrightarrow> unused_codes v s' = unused_codes v s) \<and>
    fst (RemainingBackupCodes u s) = map_option Suc (fst (RemainingBackupCodes u s')) \<and>
    ((\<forall>x \<in> set (unused_codes u s). cr_match (tp_crypto lib) (bk_code_hash x) code \<longrightarrow> x = b) \<longrightarrow>
     fst (UseBackupCode lib u code s') = (False, None))"
proof -
  obtain b where f: "find (\<lambda>b. cr_match (tp_crypto lib) (bk_code_hash b) code) (unused_codes u s) = Some b"
    and s': "s' = s\<lparr>backup_codes := map (\<lambda>x. if bk_id x = bk_id b then x\<lparr>bk_used := True\<rparr> else x) (backup_codes s)\<rparr>"
    using assms by (auto simp: UseBackupCode_def split: option.splits)
  have b: "b \<in> set (unused_codes u s)" "cr_match (tp_crypto lib) (bk_code_hash b) code" using find_SomeD [OF f] by auto
  have gen: "filter (\<lambda>x. bk_user_id x = v \<and> \<not> bk_used x) (map (\<lambda>x. if bk_id x = bk_id b then x\<lparr>bk_used := True\<rparr> else x) bs) =
      filter (\<lambda>x. bk_id x \<noteq> bk_id b) (filter (\<lambda>x. bk_user_id x = v \<and> \<not> bk_used x) bs)" for bs :: "backup_code list" and v
    by (induction bs) auto
  have in_b: "b \<in> set (backup_codes s)" "bk_user_id b = u" using b by (auto simp: unused_codes_def)
  have inj: "x = b" if "x \<in> set (backup_codes s)" "bk_id x = bk_id b" for x
    using assms(3) that in_b by (auto simp: distinct_map dest: inj_onD)
  have un: "unused_codes v s' = filter (\<lambda>x. x \<noteq> b) (unused_codes v s)" for v
    unfolding unused_codes_def using inj by (auto simp: s' gen intro!: filter_cong)
  have d: "distinct (unused_codes u s)" using assms(3) by (auto simp: unused_codes_def distinct_map intro: distinct_filter)
  have rem: "unused_codes u s' = remove1 b (unused_codes u s)"
    using d by (simp add: un distinct_remove1_removeAll removeAll_filter_not_eq eq_commute)
  have other: "unused_codes v s' = unused_codes v s" if "v \<noteq> u" for v
  proof -
    have "b \<notin> set (unused_codes v s)" using that in_b by (simp add: unused_codes_def)
    then show ?thesis unfolding un by (simp add: filter_id_conv) metis
  qed
  have "0 < length (unused_codes u s)" using b by (auto simp: length_pos_if_in_set)
  then have cnt: "fst (RemainingBackupCodes u s) = map_option Suc (fst (RemainingBackupCodes u s'))"
    using assms(2) b by (simp add: RemainingBackupCodes_def rem s' [THEN arg_cong [of _ _ faults], simplified] length_remove1)
  have "fst (UseBackupCode lib u code s') = (False, None)"
    if "\<forall>x \<in> set (unused_codes u s). cr_match (tp_crypto lib) (bk_code_hash x) code \<longrightarrow> x = b"
  proof -
    have "find (\<lambda>b. cr_match (tp_crypto lib) (bk_code_hash b) code) (unused_codes u s') = None"
      using that by (auto simp: find_None_iff un)
    then show ?thesis using assms(2) by (simp add: UseBackupCode_def s' [THEN arg_cong [of _ _ faults], simplified])
  qed
  then show ?thesis using b rem other cnt by blast
qed

theorem backup_code_once_witness:
  "\<exists>s'. UseBackupCode demo_totp_lib 7 ''c'' demo_accounts = ((True, None), s') \<and> unused_codes 7 s' = [] \<and>
     fst (UseBackupCode demo_totp_lib 7 ''c'' s') = (False, None)"
proof -
  have "fst (UseBackupCode demo_totp_lib 7 ''c'' demo_accounts) = (True, None)"
    by (simp add: UseBackupCode_def unused_codes_def demo_accounts_def demo_code_def demo_totp_lib_def demo_crypto_def)
  then obtain s' where s': "UseBackupCode demo_totp_lib 7 ''c'' demo_accounts = ((True, None), s')" by (metis prod.collapse)
  have d: "faults demo_accounts = []" "distinct (map bk_id (backup_codes demo_accounts))"
    and u: "unused_codes 7 demo_accounts = [demo_code]"
    by (simp_all add: demo_accounts_def demo_code_def unused_codes_def)
  show ?thesis using backup_code_once [OF s' d] s' u by auto
qed

subsection \<open>KYC reviews\<close>

lemma review_tx_cases:
  assumes "review_tx i st t text f s = (r, s')"
  shows "r \<noteq> Inr () \<and> acc_users s' = acc_users s \<and> kyc_submissions s' = kyc_submissions s \<or>
    (\<exists>k. pending_kyc i s = Some k \<and>
      kyc_submissions s' = map (\<lambda>x. if ks_ID x = i then x\<lparr>ks_Status := st, ks_ReviewedAt := Some t, ks_ReviewerNote := text\<rparr>
        else x) (kyc_submissions s) \<and>
      acc_users s' = map (\<lambda>x. if us_ID x = ks_UserID k then f k x else x) (acc_users s))"
proof -
  obtain q s0 where q: "query (\<lambda>_. ()) s = (q, s0)" by force
  have s0: "acc_users s0 = acc_users s" "kyc_submissions s0 = kyc_submissions s" using query_casesD [OF q] by auto
  obtain k s1 where k: "query_row ErrKYCSubmissionNotFound (pending_kyc i) s0 = (k, s1)" by force
  obtain n s2 where n: "exec_rows (review_kyc i st t text) s1 = (n, s2)" by force
  show ?thesis
  proof (cases "q \<noteq> None \<and> (\<exists>x y. k = Inr x \<and> n = Inr y)")
    case False
    then show ?thesis using assms s0
      by (auto simp: review_tx_def q k n rollback_kyc_def split: sum.splits option.splits)
  next
    case True
    then obtain x y where xy: "k = Inr x" "n = Inr y" by blast
    obtain m s3 where m: "exec_rows (update_users (\<lambda>u. us_ID u = ks_UserID x) (f x)) s2 = (m, s3)" by force
    have px: "pending_kyc i s1 = Some x" and s1: "acc_users s1 = acc_users s" "kyc_submissions s1 = kyc_submissions s"
      using k xy s0 by (auto simp: query_row_def split: prod.splits option.splits dest!: query_casesD)
    have s2: "acc_users s2 = acc_users s"
      "kyc_submissions s2 = map (\<lambda>x. if ks_ID x = i then x\<lparr>ks_Status := st, ks_ReviewedAt := Some t, ks_ReviewerNote := text\<rparr>
        else x) (kyc_submissions s)"
      using n xy s1 by (auto simp: exec_rows_def review_kyc_def split: prod.splits option.splits dest!: exec_stmt_casesD)
    show ?thesis
    proof (cases m)
      case (Inl e)
      then show ?thesis using assms s0 True xy by (auto simp: review_tx_def q k n m rollback_kyc_def)
    next
      case (Inr c)
      then have "acc_users s3 = map (\<lambda>u. if us_ID u = ks_UserID x then f x u else u) (acc_users s)"
        "kyc_submissions s3 = kyc_submissions s2"
        using m s2 by (auto simp: exec_rows_def split: prod.splits option.splits dest!: exec_stmt_casesD update_users_SomeD)
      moreover have "commit_kyc s0 s3 = (r, s')" using assms True xy Inr by (auto simp: review_tx_def q k n m)
      ultimately show ?thesis using px s1 s2 s0
        by (auto simp: commit_kyc_def rollback_kyc_def pending_kyc_def split: prod.splits fault.splits dest!: next_fault_casesD)
    qed
  qed
qed

text \<open>C30: Whatever statement of an approval fails, the submission and its user change together or not at all;
  when they change the submission was pending, the user gets exactly the level applied for, nobody else is
  touched, and the submission cannot be reviewed again. An approval that reports success has changed them.
\<close>
theorem kyc_review_atomic:
  assumes "ApproveKYCSubmission i t note s = (r, s')"
  shows "r \<noteq> Inr () \<and> acc_users s' = acc_users s \<and> kyc_submissions s' = kyc_submissions s \<or>
    (\<exists>k. pending_kyc i s = Some k \<and> pending_kyc i s' = None \<and>
      map us_KycLevel (acc_users s') =
        map (\<lambda>x. if us_ID x = ks_UserID k then ks_TargetLevel k else us_KycLevel x) (acc_users s) \<and>
      map ks_Status (kyc_submissions s') =
        map (\<lambda>x. if ks_ID x = i then ''APPROVED'' else ks_Status x) (kyc_submissions s) \<and>
      (faults s' = [] \<longrightarrow> fst (RejectKYCSubmission i t2 why s') = Inl ErrKYCSubmissionNotFound))"
proof -
  have none: "fst (RejectKYCSubmission i t2 why x) = Inl ErrKYCSubmissionNotFound" if "pending_kyc i x = None" "faults x = []" for x :: "'a accounts_db_scheme"
    using that by (simp add: RejectKYCSubmission_def review_tx_def query_row_def)
  from review_tx_cases [OF assms [unfolded ApproveKYCSubmission_def]] show ?thesis
  proof (elim disjE exE conjE)
    fix k
    assume k: "pending_kyc i s = Some k"
      and ks: "kyc_submissions s' = map (\<lambda>x. if ks_ID x = i then x\<lparr>ks_Status := ''APPROVED'', ks_ReviewedAt := Some t,
        ks_ReviewerNote := note\<rparr> else x) (kyc_submissions s)"
      and us: "acc_users s' = map (\<lambda>x. if us_ID x = ks_UserID k then x\<lparr>us_KycLevel := ks_TargetLevel k,
        us_KycStatus := ''APPROVED'', us_KycApprovedAt := Some t, us_UpdatedAt := t\<rparr> else x) (acc_users s)"
    have "\<not> (ks_ID x = i \<and> ks_Status x = ''PENDING'')" if "x \<in> set (kyc_submissions s')" for x
      using that unfolding ks set_map by (elim imageE) simp
    then have "pending_kyc i s' = None" unfolding pending_kyc_def find_None_iff by blast
    moreover have "map us_KycLevel (acc_users s') =
        map (\<lambda>x. if us_ID x = ks_UserID k then ks_TargetLevel k else us_KycLevel x) (acc_users s)"
      unfolding us map_map by (rule map_cong) simp_all
    moreover have "map ks_Status (kyc_submissions s') =
        map (\<lambda>x. if ks_ID x = i then ''APPROVED'' else ks_Status x) (kyc_submissions s)"
      unfolding ks map_map by (rule map_cong) simp_all
    ultimately show ?thesis using k none by blast
  qed simp
qed

theorem kyc_review_atomic_witness:
  "\<exists>s'. ApproveKYCSubmission 2 9 ''ok'' demo_accounts = (Inr (), s') \<and> map us_KycLevel (acc_users s') = [1] \<and>
     pending_kyc 2 s' = None"
proof -
  have "fst (ApproveKYCSubmission 2 9 ''ok'' demo_accounts) = Inr ()"
    by (simp add: ApproveKYCSubmission_def review_tx_def query_row_def pending_kyc_def exec_rows_def review_kyc_def update_users_def
        user_store_def commit_kyc_def demo_accounts_def demo_user_def demo_kyc_def)
  then obtain s' where s': "ApproveKYCSubmission 2 9 ''ok'' demo_accounts = (Inr (), s')" by (metis prod.collapse)
  have "pending_kyc 2 demo_accounts = Some demo_kyc" "acc_users demo_accounts = [demo_user]"
    "us_ID demo_user = ks_UserID demo_kyc" "ks_TargetLevel demo_kyc = 1"
    by (simp_all add: pending_kyc_def demo_accounts_def demo_user_def demo_kyc_def)
  then show ?thesis using kyc_review_atomic [OF s'] s' by auto
qed

end
