(* ===== verification/Login_Correct.thy ===== *)
theory Login_Correct
  imports Login Account_Correct
begin

text \<open>
  What the sessions guarantee: when a login gives a token, what resets and backup codes change, and how
  the lock and the second factor can be got around.
\<close>

subsection \<open>What the risk records leave alone\<close>

definition account_frame :: "'x totp_db_scheme \<Rightarrow> 'x totp_db_scheme \<Rightarrow> bool" where
  "account_frame s s' \<longleftrightarrow>
     acc_users s' = acc_users s \<and> user_totp s' = user_totp s \<and> backup_codes s' = backup_codes s \<and>
     verify_tokens s' = verify_tokens s \<and> reset_tokens s' = reset_tokens s \<and> (faults s = [] \<longrightarrow> faults s' = [])"

lemma account_frame_refl [simp]: "account_frame s s"
  by (simp add: account_frame_def)

lemma account_frame_trans: "account_frame s t \<Longrightarrow> account_frame t u \<Longrightarrow> account_frame s u"
  by (auto simp: account_frame_def)

lemma account_frameD:
  assumes "account_frame s s'"
  shows "acc_users s' = acc_users s" "user_totp s' = user_totp s" "backup_codes s' = backup_codes s"
    "verify_tokens s' = verify_tokens s" "reset_tokens s' = reset_tokens s" "faults s = [] \<Longrightarrow> faults s' = []"
  using assms by (auto simp: account_frame_def)

lemma next_fault_frame_acc: "next_fault s = (fl, s') \<Longrightarrow> account_frame s s'"
  by (auto simp: next_fault_def account_frame_def split: list.splits)

lemma query_frame_acc: "query f s = (r, s') \<Longrightarrow> account_frame s s'"
  by (auto simp: query_def split: prod.splits dest: next_fault_frame_acc)

lemma exec_frame_acc:
  assumes "exec_stmt f s = (r, s')" and "\<And>t n t'. f t = Some (n, t') \<Longrightarrow> account_frame t t'"
  shows "account_frame s s'"
  using assms by (auto simp: exec_stmt_def split: prod.splits if_splits option.splits
      dest!: next_fault_frame_acc intro: account_frame_trans)

lemma exec_frame_snd:
  "(\<And>t n t'. f t = Some (n, t') \<Longrightarrow> account_frame t t') \<Longrightarrow> account_frame s (snd (exec_stmt f s))"
  by (rule exec_frame_acc [OF prod.collapse [symmetric]])

lemma record_frames:
  fixes s :: "'x totp_db_scheme"
  shows "account_frame s (snd (RecordLogin inet t em u ip ua ok why s))"
    "account_frame s (snd (RecordKnownIP inet t v ip s))"
    "account_frame s (snd (ClearLoginAttempts em s))"
    "account_frame s (snd (UpdateUserRiskScore v k s))"
    "account_frame s (snd (RecordEvent i t v ty sc c s))"
  unfolding RecordLogin_def RecordKnownIP_def ClearLoginAttempts_def UpdateUserRiskScore_def RecordEvent_def
  by (rule exec_frame_snd; auto simp: account_frame_def upsert_known_ip_def split: if_splits bind_splits)+

lemma query_user_frame: "query_user u s = (r, s') \<Longrightarrow> account_frame s s'" for s :: "'x totp_db_scheme"
  by (auto simp: query_user_def split: prod.splits dest: query_frame_acc)

lemma ComputeLoginScore_frame:
  fixes s :: "'x totp_db_scheme"
  shows "account_frame s (snd (ComputeLoginScore inet now t u em ip s))"
proof -
  obtain b s1 where 1: "isBotUser u s = (b, s1)" by force
  obtain f s2 where 2: "CountFailedLogins t em 1 s1 = (f, s2)" by force
  obtain k s3 where 3: "IsKnownIP inet u ip s2 = (k, s3)" by force
  obtain r s4 where 4: "query_user u s3 = (r, s4)" by force
  have f1: "account_frame s s1" using 1 by (auto simp: isBotUser_def split: prod.splits option.splits dest: query_user_frame)
  have f2: "account_frame s s2" using f1 2 unfolding CountFailedLogins_def by (blast dest: query_frame_acc intro: account_frame_trans)
  have f3: "account_frame s s3" using f2 3 unfolding IsKnownIP_def
    by (auto split: prod.splits dest!: query_frame_acc intro: account_frame_trans)
  have "account_frame s s4" using f3 query_user_frame [OF 4] by (rule account_frame_trans)
  then show ?thesis using f1 f2 f3 by (auto simp: ComputeLoginScore_def 1 2 3 4 split: bool.split option.split)
qed

lemma login_record_frame: "account_frame s (login_record i t u ip ua sc s)" for s :: "'x totp_db_scheme"
  by (cases sc) (simp_all add: login_record_def Let_def account_frame_trans [OF record_frames(4,5)])

lemma after_password_frame: "account_frame s (after_password e em u s)" for s :: "'x totp_db_scheme"
proof -
  let ?ip = "stripPort (le_remote e)"
  let ?s1 = "snd (RecordLogin (le_inet e) (le_db_now e) em (Some (us_ID u)) ?ip (le_ua e) True [] s)"
  let ?s2 = "snd (RecordKnownIP (le_inet e) (le_db_now e) (us_ID u) ?ip ?s1)"
  obtain sc s3 where 3: "ComputeLoginScore (le_inet e) (le_now e) (le_db_now e) (us_ID u) em ?ip ?s2 = (sc, s3)" by force
  let ?s4 = "snd (ClearLoginAttempts em s3)"
  have "account_frame s ?s2" by (rule account_frame_trans [OF record_frames(1,2)])
  also have "account_frame ?s2 s3" using 3 ComputeLoginScore_frame by (metis snd_conv)
  finally (account_frame_trans) have "account_frame s ?s4" using record_frames(3) by (rule account_frame_trans)
  then have "account_frame s (login_record (le_event_id e) (le_db_now e) (us_ID u) ?ip (le_ua e) sc ?s4)"
    by (rule account_frame_trans) (rule login_record_frame)
  then show ?thesis by (simp add: after_password_def login_risk_def Let_def 3)
qed

lemma record_failed_frame: "account_frame s (record_failed_login e em why s)"
  by (simp add: record_failed_login_def record_frames)

lemma IsLockedOut_frame: "IsLockedOut t em n w s = (r, s') \<Longrightarrow> account_frame s s'" for s :: "'x totp_db_scheme"
  by (auto simp: IsLockedOut_def split: prod.splits option.splits dest: query_frame_acc)

lemma LoginUser_cases:
  fixes s :: "'x totp_db_scheme"
  assumes "LoginUser cr em pw s = (Inr u, s')"
  shows "account_frame s s' \<and> u \<in> set (acc_users s) \<and> us_Email u = ToLower (TrimSpace em) \<and> cr_match cr (us_PasswordHash u) pw"
proof -
  obtain r s1 where q: "query (find_email (ToLower (TrimSpace em))) s = (r, s1)" by force
  have f: "account_frame s s1" using q by (rule query_frame_acc)
  have "s' = s1" "r = Some (Some u)" "cr_match cr (us_PasswordHash u) pw"
    using assms q by (auto simp: LoginUser_def FindByEmail_def query_row_def split: option.splits if_splits)
  then have "find_email (ToLower (TrimSpace em)) s1 = Some u" using q by (auto dest!: query_casesD)
  then have "u \<in> set (acc_users s1)" "us_Email u = ToLower (TrimSpace em)"
    by (auto simp: find_email_def find_Some_iff)
  then show ?thesis using f \<open>s' = s1\<close> \<open>cr_match cr (us_PasswordHash u) pw\<close> by (simp add: account_frameD)
qed

subsection \<open>Who gets a token\<close>

definition second_factor_on :: "'x totp_db_scheme \<Rightarrow> uuid \<Rightarrow> bool" where
  "second_factor_on s u \<longleftrightarrow> (case user_totp s u of None \<Rightarrow> False | Some t \<Rightarrow> ut_enabled t)"

definition failed_logins :: "int \<Rightarrow> string \<Rightarrow> 'x totp_db_scheme \<Rightarrow> nat" where
  "failed_logins db_now em s =
     length (filter (\<lambda>a. la_email a = em \<and> \<not> la_success a \<and> db_now - 15 * 60 * 1000000000 < la_timestamp a) (login_attempts s))"

text \<open>C26: A login answers with a session token only for the stored account with that address, trimmed and in
  lower case, whose password hash accepts the password and whose address is verified; and only when the
  second factor is off and fewer than five attempts with this spelling failed in the last quarter of an hour,
  unless the database failed.
\<close>
theorem login_token_requires:
  assumes "loginHandler e em pw s = (LoggedIn tok u, s')"
  shows "u \<in> set (acc_users s) \<and> us_Email u = ToLower (TrimSpace em) \<and> cr_match (le_crypto e) (us_PasswordHash u) pw \<and>
    us_EmailVerified u \<and> IssueToken (le_auth e) (le_now e) (uu_String (le_uuid e) (us_ID u)) (us_Role u) = Some tok \<and>
    (faults s = [] \<longrightarrow> \<not> second_factor_on s (us_ID u) \<and> failed_logins (le_db_now e) em s < 5)"
proof -
  obtain l s1 where l: "IsLockedOut (le_db_now e) em 5 15 s = (l, s1)" by force
  have f1: "account_frame s s1" using l by (rule IsLockedOut_frame)
  have nl: "l \<noteq> Inr True" using assms l by (auto simp: loginHandler_def)
  obtain r s2 where r: "LoginUser (le_crypto e) em pw s1 = (r, s2)" by force
  have step: "loginHandler e em pw s = (case r of
      Inl err \<Rightarrow> (if err = ErrInvalidCredentials then BadCredentials else LoginFailed,
        record_failed_login e em (if err = ErrInvalidCredentials then ''invalid_credentials'' else account_error_text (le_db_text e) err) s2)
    | Inr u \<Rightarrow> finish_login e u (after_password e em u s2))"
    using l nl r by (auto simp: loginHandler_def split: sum.splits bool.splits)
  then obtain v where v: "r = Inr v" using assms by (cases r) (auto split: if_splits)
  let ?t = "after_password e em v s2"
  have fin: "finish_login e v ?t = (LoggedIn tok u, s')" using assms step v by simp
  obtain q t1 where q: "IsEnabled (us_ID v) ?t = (q, t1)" by force
  have uv: "u = v" "us_EmailVerified v" "IssueToken (le_auth e) (le_now e) (uu_String (le_uuid e) (us_ID v)) (us_Role v) = Some tok"
    "\<not> (case q of Inl _ \<Rightarrow> False | Inr b \<Rightarrow> b)"
    using fin q by (auto simp: finish_login_def Let_def split: if_splits option.splits)
  note lu = LoginUser_cases [OF r [unfolded v]]
  have f2: "account_frame s ?t"
    using f1 lu after_password_frame account_frame_trans by blast
  have "\<not> second_factor_on s (us_ID v) \<and> failed_logins (le_db_now e) em s < 5" if "faults s = []"
  proof
    have "faults ?t = []" using f2 that by (simp add: account_frameD)
    then have "q = Inr (second_factor_on ?t (us_ID v))"
      using q by (auto simp: IsEnabled_def second_factor_on_def)
    then show "\<not> second_factor_on s (us_ID v)" using uv(4) f2 by (simp add: second_factor_on_def account_frameD)
    show "failed_logins (le_db_now e) em s < 5" using l nl that by (auto simp: IsLockedOut_def failed_logins_def)
  qed
  then show ?thesis using lu f1 uv by (simp add: account_frameD)
qed

text \<open>The same login, read from its inputs, when no statement fails.\<close>

definition credentials_ok :: "login_env \<Rightarrow> string \<Rightarrow> string \<Rightarrow> User \<Rightarrow> 'x totp_db_scheme \<Rightarrow> bool" where
  "credentials_ok e em pw u s \<longleftrightarrow>
     find_email (ToLower (TrimSpace em)) s = Some u \<and> cr_match (le_crypto e) (us_PasswordHash u) pw \<and> us_EmailVerified u \<and>
     failed_logins (le_db_now e) em s < 5"

lemma loginHandler_ok:
  assumes "faults s = []" and "credentials_ok e em pw u s"
  shows "loginHandler e em pw s = finish_login e u (after_password e em u s)"
proof -
  have l: "IsLockedOut (le_db_now e) em 5 15 s = (Inr False, s)"
    using assms by (simp add: IsLockedOut_def credentials_ok_def failed_logins_def)
  have "LoginUser (le_crypto e) em pw s = (Inr u, s)"
    using assms by (simp add: LoginUser_def FindByEmail_def query_row_def credentials_ok_def)
  then show ?thesis by (simp add: loginHandler_def l)
qed

lemma after_password_faultless: "faults s = [] \<Longrightarrow> faults (after_password e em u s) = []" for s :: "'x totp_db_scheme"
  using after_password_frame [of s e em u] by (simp add: account_frameD)

lemma after_password_factor: "second_factor_on (after_password e em u s) v = second_factor_on s v" for s :: "'x totp_db_scheme"
  using after_password_frame [of s e em u] by (simp add: account_frameD second_factor_on_def)

lemma finish_login_ok:
  assumes "faults s = []" and "us_EmailVerified u"
  shows "finish_login e u s =
    (if second_factor_on s (us_ID u)
     then (case IssueTempToken (le_auth e) (le_now e) (uu_String (le_uuid e) (us_ID u)) of
             None \<Rightarrow> LoginFailed | Some t \<Rightarrow> Requires2FA t u, s)
     else (case IssueToken (le_auth e) (le_now e) (uu_String (le_uuid e) (us_ID u)) (us_Role u) of
             None \<Rightarrow> LoginFailed | Some t \<Rightarrow> LoggedIn t u, s))"
  using assms by (simp add: finish_login_def IsEnabled_def second_factor_on_def Let_def split: option.split)

lemma record_attempts:
  "login_attempts (snd (UpdateUserRiskScore u k s)) = login_attempts s"
  "login_attempts (snd (RecordEvent i t u ty sc c s)) = login_attempts s"
  unfolding UpdateUserRiskScore_def RecordEvent_def by (rule exec_keeps; auto split: if_splits)+

lemma login_record_attempts [simp]: "login_attempts (login_record i t u ip ua sc s) = login_attempts s"
  by (simp add: login_record_def Let_def record_attempts split: option.split)

lemma after_password_clears:
  assumes "faults s = []"
  shows "failed_logins t em (after_password e em u s) = 0"
proof -
  let ?ip = "stripPort (le_remote e)"
  let ?s1 = "snd (RecordLogin (le_inet e) (le_db_now e) em (Some (us_ID u)) ?ip (le_ua e) True [] s)"
  let ?s2 = "snd (RecordKnownIP (le_inet e) (le_db_now e) (us_ID u) ?ip ?s1)"
  obtain sc s3 where 3: "ComputeLoginScore (le_inet e) (le_now e) (le_db_now e) (us_ID u) em ?ip ?s2 = (sc, s3)" by force
  have "account_frame s ?s2" by (rule account_frame_trans [OF record_frames(1,2)])
  also have "account_frame ?s2 s3" using 3 ComputeLoginScore_frame by (metis snd_conv)
  finally (account_frame_trans) have "faults s3 = []" using assms by (simp add: account_frameD)
  then show ?thesis
    by (simp add: after_password_def login_risk_def Let_def 3 failed_logins_def ClearLoginAttempts_def)
qed

text \<open>C27: The password alone gets past the second factor. A login with it gives a temporary token; the API
  takes that token like any other, so it starts a new set-up, which switches the factor off; the next login
  with the password gives a session. The tokens need only be signed and accepted as the handlers ask.
\<close>
theorem temp_token_turns_2fa_off:
  assumes "faults s = []" and "credentials_ok e em pw u s"
    and "find_account (us_ID u) s = Some u" and "second_factor_on s (us_ID u)"
    and "le_crypto e2 = le_crypto e"
    and "uu_Parse (le_uuid e2) uid = Some (us_ID u)" and "uid = uu_String (le_uuid e) (us_ID u)" and "uid \<noteq> []"
    and "IssueTempToken (le_auth e) (le_now e) uid = Some tmp"
    and "VerifyToken (le_auth e2) (le_now e2) tmp = Some cl" and "cl_UserID cl = uid"
    and "IssueToken (le_auth e2) (le_now e2) (uu_String (le_uuid e2) (us_ID u)) (us_Role u) = Some tok"
  shows "\<exists>s1 setup s2 s3. loginHandler e em pw s = (Requires2FA tmp u, s1) \<and>
    totpSetupHandler e2 lib (Some rnd) (Some nonce) issuer (''Bearer '' @ tmp) s1 = (Inr setup, s2) \<and>
    \<not> second_factor_on s2 (us_ID u) \<and> loginHandler e2 em pw s2 = (LoggedIn tok u, s3)"
proof -
  let ?s1 = "after_password e em u s"
  have fr: "account_frame s ?s1" by (rule after_password_frame)
  note acc = account_frameD [OF fr]
  have ev: "us_EmailVerified u" using assms(2) by (simp add: credentials_ok_def)
  have f1: "faults ?s1 = []" using acc(6) assms(1) .
  have on: "second_factor_on ?s1 (us_ID u)" using assms(4) by (simp add: after_password_factor)
  have 1: "loginHandler e em pw s = (Requires2FA tmp u, ?s1)"
    using assms(7,9) by (simp add: loginHandler_ok [OF assms(1,2)] finish_login_ok [OF f1 ev] on)
  define s2 where "s2 = ?s1\<lparr>user_totp := (user_totp ?s1)(us_ID u \<mapsto>
    \<lparr>ut_secret = encrypt_secret lib nonce rnd, ut_enabled = False\<rparr>)\<rparr>"
  have fa: "find_account (us_ID u) ?s1 = Some u" using assms(3) acc(1) by (simp add: find_account_def)
  have mw: "authMiddleware (le_auth e2) (le_now e2) (''Bearer '' @ tmp) = Inr uid"
    using assms(10,11) by (simp add: authMiddleware_def)
  have 2: "\<exists>setup. totpSetupHandler e2 lib (Some rnd) (Some nonce) issuer (''Bearer '' @ tmp) ?s1 = (Inr setup, s2)"
    using assms(6,8) fa f1 unfolding totpSetupHandler_def with_user_def mw
    by (simp add: userUUIDFromContext_def FindByID_def query_row_def GenerateSecret_def store_secret_def s2_def Let_def)
  have off: "\<not> second_factor_on s2 (us_ID u)" by (simp add: s2_def second_factor_on_def)
  have f2: "faults s2 = []" using f1 by (simp add: s2_def)
  have "failed_logins (le_db_now e2) em s2 = 0"
    using after_password_clears [OF assms(1)] by (simp add: s2_def failed_logins_def)
  moreover have "find_email (ToLower (TrimSpace em)) s2 = Some u"
    using assms(2) acc(1) by (simp add: s2_def find_email_def credentials_ok_def)
  ultimately have ok2: "credentials_ok e2 em pw u s2"
    using assms(2,5) by (simp add: credentials_ok_def)
  have "faults (after_password e2 em u s2) = []" using f2 by (rule after_password_faultless)
  then have "loginHandler e2 em pw s2 = (LoggedIn tok u, after_password e2 em u s2)"
    using assms(12) off by (simp add: loginHandler_ok [OF f2 ok2] finish_login_ok ev after_password_factor)
  then show ?thesis using 1 2 off by blast
qed

text \<open>Tokens that are the claims' scope, and accepted with the user's id.\<close>

definition demo_login :: login_env where
  "demo_login = \<lparr>le_inet = Some, le_now = 5, le_db_now = 5, le_event_id = 1, le_remote = ''1.2.3.4:5'', le_ua = ''ua'',
     le_crypto = demo_crypto,
     le_auth = \<lparr>au_sign = \<lambda>c. Some (CHR ''t'' # cl_Scope c),
       au_parse = \<lambda>n t. Some \<lparr>cl_UserID = ''u'', cl_Role = [], cl_Scope = tl t, cl_ExpiresAt = 9, cl_IssuedAt = 0\<rparr>, au_ttl = 9\<rparr>,
     le_uuid = \<lparr>uu_Parse = \<lambda>s. Some 7, uu_String = \<lambda>i. ''u''\<rparr>, le_db_text = ''db''\<rparr>"

lemma demo_credentials: "credentials_ok demo_login '' A'' ''pw'' demo_user demo_accounts"
proof -
  have "ToLower (TrimSpace '' A'') = ''a''" by code_simp
  then show ?thesis
    by (simp add: credentials_ok_def find_email_def failed_logins_def demo_accounts_def demo_user_def demo_login_def demo_crypto_def)
qed

theorem temp_token_turns_2fa_off_witness:
  "\<exists>s1 setup s2 s3. loginHandler demo_login '' A'' ''pw'' demo_accounts = (Requires2FA ''t2fa_login'' demo_user, s1) \<and>
     totpSetupHandler demo_login demo_totp_lib (Some [9]) (Some [8]) ''x'' (''Bearer '' @ ''t2fa_login'') s1 = (Inr setup, s2) \<and>
     \<not> second_factor_on s2 7 \<and> loginHandler demo_login '' A'' ''pw'' s2 = (LoggedIn ''t'' demo_user, s3)"
proof -
  have c: "faults demo_accounts = []" "find_account (us_ID demo_user) demo_accounts = Some demo_user"
    "second_factor_on demo_accounts (us_ID demo_user)" "us_ID demo_user = 7"
    by (simp_all add: demo_accounts_def find_account_def tbl_find_def second_factor_on_def demo_user_def)
  have t: "IssueTempToken (le_auth demo_login) (le_now demo_login) ''u'' = Some ''t2fa_login''"
    "IssueToken (le_auth demo_login) (le_now demo_login) (uu_String (le_uuid demo_login) (us_ID demo_user)) (us_Role demo_user) = Some ''t''"
    "uu_Parse (le_uuid demo_login) ''u'' = Some (us_ID demo_user)" "''u'' = uu_String (le_uuid demo_login) (us_ID demo_user)"
    "VerifyToken (le_auth demo_login) (le_now demo_login) ''t2fa_login'' =
       Some \<lparr>cl_UserID = ''u'', cl_Role = [], cl_Scope = ''2fa_login'', cl_ExpiresAt = 9, cl_IssuedAt = 0\<rparr>"
    by (simp_all add: demo_login_def IssueTempToken_def IssueToken_def VerifyToken_def demo_user_def)
  show ?thesis
    using temp_token_turns_2fa_off [OF c(1) demo_credentials c(2,3) refl t(3,4) _ t(1,5) _ t(2), of demo_totp_lib "[9]" "[8]" "''x''"] c(4)
    by simp
qed

definition no_factor :: totp_db where
  "no_factor = demo_accounts\<lparr>user_totp := Map.empty\<rparr>"

theorem login_token_requires_witness:
  "\<exists>s'. loginHandler demo_login '' A'' ''pw'' no_factor = (LoggedIn ''t'' demo_user, s') \<and> us_EmailVerified demo_user \<and>
     \<not> second_factor_on no_factor (us_ID demo_user) \<and> failed_logins 5 '' A'' no_factor < 5"
proof -
  have n: "faults no_factor = []" "\<not> second_factor_on no_factor (us_ID demo_user)" "us_EmailVerified demo_user"
    by (simp_all add: no_factor_def demo_accounts_def second_factor_on_def demo_user_def)
  have k: "credentials_ok demo_login '' A'' ''pw'' demo_user no_factor"
    using demo_credentials by (simp add: no_factor_def credentials_ok_def find_email_def failed_logins_def)
  have t: "IssueToken (le_auth demo_login) (le_now demo_login) (uu_String (le_uuid demo_login) (us_ID demo_user)) (us_Role demo_user) = Some ''t''"
    "le_db_now demo_login = 5"
    by (simp_all add: demo_login_def IssueToken_def)
  obtain s' where s': "loginHandler demo_login '' A'' ''pw'' no_factor = (LoggedIn ''t'' demo_user, s')"
    using n t by (simp add: loginHandler_ok [OF n(1) k] finish_login_ok after_password_faultless after_password_factor)
  show ?thesis using login_token_requires [OF s'] s' n t by auto
qed

end
