(* ===== verification/Chain_Registry.thy ===== *)
theory Chain_Registry
  imports Prelude "HOL-Library.AList"
begin

text \<open>
  The chain watcher's registry, internal/chainwatcher/registry.go, and the driver table of factory.go: which
  chain has a driver, which configuration it was built from, and what a change of the configuration does to
  both. Drivers are built by constructors that reach a node; they are arguments, and so is the driver type.
  The maps are association lists with distinct keys; the order of a list stands for the order in which Go
  happens to walk the map.
\<close>

record TokenConfig =
  tk_Symbol :: string
  tk_Contract :: string
  tk_Decimals :: int

text \<open>The fields of config.ChainConfig that the registry reads.\<close>

record ChainConfig =
  cc_Enabled :: bool
  cc_ID :: string
  cc_Driver :: string
  cc_Asset :: string
  cc_RPCURL :: string
  cc_RPCUser :: string
  cc_RPCPass :: string
  cc_ChainID :: int
  cc_MinConf :: int
  cc_HotWallet :: string
  cc_Signer :: string
  cc_VaultSecretPath :: string
  cc_Tokens :: "TokenConfig list"

definition configChanged :: "ChainConfig \<Rightarrow> ChainConfig \<Rightarrow> bool" where
  "configChanged old new \<longleftrightarrow>
     cc_Driver old \<noteq> cc_Driver new \<or> cc_RPCURL old \<noteq> cc_RPCURL new \<or> cc_RPCUser old \<noteq> cc_RPCUser new \<or>
     cc_RPCPass old \<noteq> cc_RPCPass new \<or> cc_Asset old \<noteq> cc_Asset new \<or> cc_MinConf old \<noteq> cc_MinConf new \<or>
     cc_ChainID old \<noteq> cc_ChainID new \<or> cc_HotWallet old \<noteq> cc_HotWallet new \<or> cc_Signer old \<noteq> cc_Signer new \<or>
     cc_VaultSecretPath old \<noteq> cc_VaultSecretPath new"

subsection \<open>Building a driver\<close>

type_synonym 'd constructors = "string \<Rightarrow> (ChainConfig \<Rightarrow> string + 'd) option"

definition RegisterDriver :: "string \<Rightarrow> (ChainConfig \<Rightarrow> string + 'd) \<Rightarrow> 'd constructors \<Rightarrow> 'd constructors" where
  "RegisterDriver name ctor f = f(name \<mapsto> ctor)"

definition BuildDriver :: "'d constructors \<Rightarrow> ChainConfig \<Rightarrow> string + 'd" where
  "BuildDriver f cfg =
     (case f (cc_Driver cfg) of None \<Rightarrow> Inl (''unknown driver type: '' @ cc_Driver cfg) | Some ctor \<Rightarrow> ctor cfg)"

subsection \<open>The registry\<close>

record 'd ChainRegistry =
  rg_drivers :: "(string \<times> 'd) list"
  rg_configs :: "(string \<times> ChainConfig) list"

definition NewChainRegistry :: "'d ChainRegistry" where
  "NewChainRegistry = \<lparr>rg_drivers = [], rg_configs = []\<rparr>"

definition reg_Get :: "string \<Rightarrow> 'd ChainRegistry \<Rightarrow> 'd option" where
  "reg_Get chainID r = map_of (rg_drivers r) chainID"

definition serves :: "string \<Rightarrow> ChainConfig \<Rightarrow> bool" where
  "serves asset cfg \<longleftrightarrow> cc_Asset cfg = asset \<or> list_ex (\<lambda>t. tk_Symbol t = asset) (cc_Tokens cfg)"

definition chain_of_asset :: "string \<Rightarrow> 'd ChainRegistry \<Rightarrow> (string \<times> ChainConfig) option" where
  "chain_of_asset asset r = find (\<lambda>(i, cfg). serves asset cfg) (rg_configs r)"

definition GetForAsset :: "string \<Rightarrow> 'd ChainRegistry \<Rightarrow> 'd option" where
  "GetForAsset asset r = (case chain_of_asset asset r of None \<Rightarrow> None | Some (i, cfg) \<Rightarrow> map_of (rg_drivers r) i)"

definition GetTokenForAsset :: "string \<Rightarrow> 'd ChainRegistry \<Rightarrow> TokenConfig option" where
  "GetTokenForAsset asset r = find (\<lambda>t. tk_Symbol t = asset) (concat (map (\<lambda>(i, cfg). cc_Tokens cfg) (rg_configs r)))"

definition ChainIDForAsset :: "string \<Rightarrow> 'd ChainRegistry \<Rightarrow> string" where
  "ChainIDForAsset asset r = (case chain_of_asset asset r of None \<Rightarrow> [] | Some (i, cfg) \<Rightarrow> i)"

definition reg_List :: "'d ChainRegistry \<Rightarrow> string list" where
  "reg_List r = map fst (rg_drivers r)"

definition Configs :: "'d ChainRegistry \<Rightarrow> (string \<times> ChainConfig) list" where
  "Configs r = rg_configs r"

datatype change =
    RemovedChain string
  | DisabledChain string
  | KeptDisabled string
  | FailedBuild string string
  | AddedChain string
  | FailedRebuild string string
  | UpdatedChain string

text \<open>The two loops of SyncFromConfig: over the running drivers, then over the new configurations.\<close>

definition drop_chain :: "string \<Rightarrow> 'd ChainRegistry \<Rightarrow> 'd ChainRegistry" where
  "drop_chain i r = r\<lparr>rg_drivers := AList.delete i (rg_drivers r), rg_configs := AList.delete i (rg_configs r)\<rparr>"

definition put_chain :: "string \<Rightarrow> 'd \<Rightarrow> ChainConfig \<Rightarrow> 'd ChainRegistry \<Rightarrow> 'd ChainRegistry" where
  "put_chain i d cfg r = r\<lparr>rg_drivers := AList.update i d (rg_drivers r), rg_configs := AList.update i cfg (rg_configs r)\<rparr>"

fun sync_removed :: "(string \<times> ChainConfig) list \<Rightarrow> string list \<Rightarrow> 'd ChainRegistry \<Rightarrow> change list \<times> 'd ChainRegistry" where
  "sync_removed new [] r = ([], r)"
| "sync_removed new (i # is) r =
     (case map_of new i of
        None \<Rightarrow> (case sync_removed new is (drop_chain i r) of (cs, r') \<Rightarrow> (RemovedChain i # cs, r'))
      | Some cfg \<Rightarrow>
          if \<not> cc_Enabled cfg
          then (case sync_removed new is (r\<lparr>rg_drivers := AList.delete i (rg_drivers r), rg_configs := AList.update i cfg (rg_configs r)\<rparr>) of
                  (cs, r') \<Rightarrow> (DisabledChain i # cs, r'))
          else sync_removed new is r)"

definition sync_one :: "'d constructors \<Rightarrow> string \<Rightarrow> ChainConfig \<Rightarrow> 'd ChainRegistry \<Rightarrow> change list \<times> 'd ChainRegistry" where
  "sync_one f i cfg r =
     (case map_of (rg_configs r) i of
        None \<Rightarrow>
          if \<not> cc_Enabled cfg then ([KeptDisabled i], r\<lparr>rg_configs := AList.update i cfg (rg_configs r)\<rparr>)
          else (case BuildDriver f cfg of
                  Inl e \<Rightarrow> ([FailedBuild i e], r)
                | Inr d \<Rightarrow> ([AddedChain i], put_chain i d cfg r))
      | Some old \<Rightarrow>
          if \<not> cc_Enabled cfg then ([], r)
          else if configChanged old cfg
          then (case BuildDriver f cfg of
                  Inl e \<Rightarrow> ([FailedRebuild i e], r)
                | Inr d \<Rightarrow> ([UpdatedChain i], put_chain i d cfg r))
          else ([], r))"

fun sync_added :: "'d constructors \<Rightarrow> (string \<times> ChainConfig) list \<Rightarrow> 'd ChainRegistry \<Rightarrow> change list \<times> 'd ChainRegistry" where
  "sync_added f [] r = ([], r)"
| "sync_added f ((i, cfg) # new) r =
     (case sync_one f i cfg r of (cs, r1) \<Rightarrow> (case sync_added f new r1 of (cs', r2) \<Rightarrow> (cs @ cs', r2)))"

definition SyncFromConfig :: "'d constructors \<Rightarrow> (string \<times> ChainConfig) list \<Rightarrow> 'd ChainRegistry \<Rightarrow> change list \<times> 'd ChainRegistry" where
  "SyncFromConfig f newConfigs r =
     (let new = map (\<lambda>(i, cfg). (i, cfg\<lparr>cc_ID := i\<rparr>)) newConfigs in
      case sync_removed new (map fst (rg_drivers r)) r of
        (cs, r1) \<Rightarrow> (case sync_added f new r1 of (cs', r2) \<Rightarrow> (cs @ cs', r2)))"

definition SetEnabled :: "'d constructors \<Rightarrow> string \<Rightarrow> bool \<Rightarrow> 'd ChainRegistry \<Rightarrow> string option \<times> 'd ChainRegistry" where
  "SetEnabled f i enabled r =
     (case map_of (rg_configs r) i of
        None \<Rightarrow> (Some (''chain '' @ i @ '' not found''), r)
      | Some cfg \<Rightarrow>
          if cc_Enabled cfg = enabled then (None, r)
          else
            (let cfg' = cfg\<lparr>cc_Enabled := enabled\<rparr>; r1 = r\<lparr>rg_configs := AList.update i cfg' (rg_configs r)\<rparr> in
             if enabled
             then (case BuildDriver f cfg' of
                     Inl e \<Rightarrow> (Some e, r1)
                   | Inr d \<Rightarrow> (None, r1\<lparr>rg_drivers := AList.update i d (rg_drivers r1)\<rparr>))
             else (None, r1\<lparr>rg_drivers := AList.delete i (rg_drivers r1)\<rparr>)))"

definition AddChain :: "'d constructors \<Rightarrow> ChainConfig \<Rightarrow> 'd ChainRegistry \<Rightarrow> string option \<times> 'd ChainRegistry" where
  "AddChain f cfg0 r =
     (if cc_ID cfg0 = [] then (Some ''chain id required'', r)
      else if map_of (rg_drivers r) (cc_ID cfg0) \<noteq> None then (Some (''chain '' @ cc_ID cfg0 @ '' already exists''), r)
      else
        (let cfg = cfg0\<lparr>cc_Enabled := True\<rparr> in
         case BuildDriver f cfg of
           Inl e \<Rightarrow> (Some e, r)
         | Inr d \<Rightarrow> (None, put_chain (cc_ID cfg) d cfg r)))"

definition RemoveChain :: "string \<Rightarrow> 'd ChainRegistry \<Rightarrow> string option \<times> 'd ChainRegistry" where
  "RemoveChain i r =
     (if map_of (rg_drivers r) i = None then (Some (''chain '' @ i @ '' not found''), r)
      else (None, drop_chain i r))"

subsection \<open>A driver only runs for an enabled chain\<close>

definition running_enabled :: "'d ChainRegistry \<Rightarrow> bool" where
  "running_enabled r \<longleftrightarrow>
     (\<forall>i. map_of (rg_drivers r) i \<noteq> None \<longrightarrow> (\<exists>cfg. map_of (rg_configs r) i = Some cfg \<and> cc_Enabled cfg))"

lemma map_of_simps [simp]:
  "map_of (AList.update i x xs) j = (if j = i then Some x else map_of xs j)"
  "map_of (AList.delete i xs) j = (if j = i then None else map_of xs j)"
  by (simp_all add: AList.update_conv' AList.delete_conv')

lemma running_put: "running_enabled r \<Longrightarrow> cc_Enabled cfg \<Longrightarrow> running_enabled (put_chain i d cfg r)"
  by (simp add: running_enabled_def put_chain_def)

lemma running_drop: "running_enabled r \<Longrightarrow> running_enabled (drop_chain i r)"
  by (simp add: running_enabled_def drop_chain_def)

lemma sync_removed_ok: "running_enabled r \<Longrightarrow> running_enabled (snd (sync_removed new is r))"
proof (induction new "is" r rule: sync_removed.induct)
  case (2 new i "is" r)
  have "running_enabled (r\<lparr>rg_drivers := AList.delete i (rg_drivers r), rg_configs := AList.update i cfg (rg_configs r)\<rparr>)" for cfg
    using 2(4) by (simp add: running_enabled_def)
  then show ?case using 2 running_drop [OF 2(4), of i] by (auto split: option.split prod.split)
qed simp

lemma sync_one_ok: "running_enabled r \<Longrightarrow> running_enabled (snd (sync_one f i cfg r))"
  by (auto simp: sync_one_def running_put split: option.split sum.split) (auto simp: running_enabled_def)

lemma sync_added_ok: "running_enabled r \<Longrightarrow> running_enabled (snd (sync_added f new r))"
proof (induction f new r rule: sync_added.induct)
  case (2 f i cfg new r)
  then show ?case using sync_one_ok [OF 2(2), of f i cfg] by (auto split: prod.split)
qed simp

datatype registry_op = Sync "(string \<times> ChainConfig) list" | Enable_op string bool | Add_op ChainConfig | Remove_op string

fun registry_step :: "'d constructors \<Rightarrow> registry_op \<Rightarrow> 'd ChainRegistry \<Rightarrow> 'd ChainRegistry" where
  "registry_step f (Sync new) r = snd (SyncFromConfig f new r)"
| "registry_step f (Enable_op i b) r = snd (SetEnabled f i b r)"
| "registry_step f (Add_op cfg) r = snd (AddChain f cfg r)"
| "registry_step f (Remove_op i) r = snd (RemoveChain i r)"

lemma SyncFromConfig_snd:
  "snd (SyncFromConfig f new r) = snd (sync_added f (map (\<lambda>(i, cfg). (i, cfg\<lparr>cc_ID := i\<rparr>)) new)
     (snd (sync_removed (map (\<lambda>(i, cfg). (i, cfg\<lparr>cc_ID := i\<rparr>)) new) (map fst (rg_drivers r)) r)))"
  by (simp add: SyncFromConfig_def Let_def split: prod.split)

lemma registry_step_ok: "running_enabled r \<Longrightarrow> running_enabled (registry_step f op r)"
proof (cases op)
  case (Sync new)
  assume r: "running_enabled r"
  then show ?thesis
    using Sync by (simp add: SyncFromConfig_snd sync_added_ok [OF sync_removed_ok [OF r]])
next
  case (Enable_op i b)
  assume r: "running_enabled r"
  then show ?thesis using Enable_op
    by (auto simp: SetEnabled_def Let_def running_enabled_def split: option.split sum.split)
next
  case (Add_op cfg)
  assume "running_enabled r"
  then show ?thesis using Add_op by (auto simp: AddChain_def Let_def running_put split: sum.split)
next
  case (Remove_op i)
  assume "running_enabled r"
  then show ?thesis using Remove_op by (simp add: RemoveChain_def running_drop)
qed

text \<open>C36: Whatever is synchronised, toggled, added and removed, and whichever drivers fail to be built, a
  chain that has a driver is configured and enabled.\<close>
theorem registry_runs_enabled:
  "reg_Get i (fold (registry_step f) ops NewChainRegistry) = Some d \<Longrightarrow>
     \<exists>cfg. map_of (Configs (fold (registry_step f) ops NewChainRegistry)) i = Some cfg \<and> cc_Enabled cfg"
proof -
  assume d: "reg_Get i (fold (registry_step f) ops NewChainRegistry) = Some d"
  have "running_enabled (fold (registry_step f) ops r)" if "running_enabled r" for r :: "'a ChainRegistry"
    using that by (induction ops arbitrary: r) (simp_all add: registry_step_ok)
  then have "running_enabled (fold (registry_step f) ops NewChainRegistry)"
    by (simp add: running_enabled_def NewChainRegistry_def)
  then show ?thesis using d by (auto simp: running_enabled_def reg_Get_def Configs_def)
qed

definition demo_chain_config :: ChainConfig where
  "demo_chain_config = \<lparr>cc_Enabled = True, cc_ID = [], cc_Driver = ''mock'', cc_Asset = ''BTC'', cc_RPCURL = [], cc_RPCUser = [],
     cc_RPCPass = [], cc_ChainID = 1, cc_MinConf = 6, cc_HotWallet = [], cc_Signer = [], cc_VaultSecretPath = [], cc_Tokens = []\<rparr>"

definition demo_drivers :: "bool constructors" where
  "demo_drivers = RegisterDriver ''mock'' (\<lambda>c. Inr True) Map.empty"

lemma demo_builds: "BuildDriver demo_drivers (demo_chain_config\<lparr>cc_ID := i\<rparr>) = Inr True"
  by (simp add: BuildDriver_def demo_drivers_def RegisterDriver_def demo_chain_config_def)

lemma demo_registry:
  "fold (registry_step demo_drivers) [Sync [(''b'', demo_chain_config)]] NewChainRegistry =
     \<lparr>rg_drivers = [(''b'', True)], rg_configs = [(''b'', demo_chain_config\<lparr>cc_ID := ''b''\<rparr>)]\<rparr>"
  by (simp add: SyncFromConfig_def sync_one_def NewChainRegistry_def demo_builds put_chain_def Let_def) (simp add: demo_chain_config_def)

theorem registry_runs_enabled_witness:
  "\<exists>cfg. map_of (Configs (fold (registry_step demo_drivers) [Sync [(''b'', demo_chain_config)]] NewChainRegistry)) ''b'' = Some cfg \<and>
     cc_Enabled cfg"
  by (rule registry_runs_enabled [of _ _ _ True]) (simp only: demo_registry, simp add: reg_Get_def)

subsection \<open>Enabling a chain again\<close>

definition held_down :: "string \<Rightarrow> ChainConfig \<Rightarrow> 'd ChainRegistry \<Rightarrow> bool" where
  "held_down i c r \<longleftrightarrow> map_of (rg_drivers r) i = None \<and> map_of (rg_configs r) i = Some c"

lemma sync_removed_other:
  "i \<notin> set is \<Longrightarrow> held_down i c r \<Longrightarrow> held_down i c (snd (sync_removed new is r))"
proof (induction new "is" r rule: sync_removed.induct)
  case (2 new j "is" r)
  have "held_down i c (drop_chain j r)"
    "held_down i c (r\<lparr>rg_drivers := AList.delete j (rg_drivers r), rg_configs := AList.update j cfg (rg_configs r)\<rparr>)" for cfg
    using 2(4,5) by (auto simp: held_down_def drop_chain_def)
  then show ?case using 2 by (auto split: option.split prod.split)
qed simp

lemma sync_removed_disabled:
  "i \<in> set is \<Longrightarrow> distinct is \<Longrightarrow> map_of new i = Some c \<Longrightarrow> \<not> cc_Enabled c \<Longrightarrow> held_down i c (snd (sync_removed new is r))"
proof (induction new "is" r rule: sync_removed.induct)
  case (2 new j "is" r)
  show ?case
  proof (cases "i = j")
    case True
    have "held_down i c (r\<lparr>rg_drivers := AList.delete j (rg_drivers r), rg_configs := AList.update j c (rg_configs r)\<rparr>)"
      using True by (simp add: held_down_def)
    from sync_removed_other [OF _ this, of "is" new] show ?thesis using 2(4-7) True by (auto split: prod.split)
  next
    case False
    then show ?thesis using 2 by (auto split: option.split prod.split)
  qed
qed simp

lemma sync_one_down:
  assumes "held_down i c r" and "j = i \<Longrightarrow> \<not> cc_Enabled cfg \<or> \<not> configChanged c cfg"
  shows "held_down i c (snd (sync_one f j cfg r))"
  using assms by (auto simp: held_down_def sync_one_def put_chain_def split: option.split sum.split)

lemma sync_added_down:
  assumes "held_down i c r" and "\<And>cfg. (i, cfg) \<in> set new \<Longrightarrow> \<not> cc_Enabled cfg \<or> \<not> configChanged c cfg"
  shows "held_down i c (snd (sync_added f new r))"
  using assms
proof (induction f new r rule: sync_added.induct)
  case (2 f j cfg new r)
  have one: "held_down i c (snd (sync_one f j cfg r))" using 2(2,3) by (intro sync_one_down) auto
  obtain cs r1 where s: "sync_one f j cfg r = (cs, r1)" by force
  show ?case using 2(1) [OF s [symmetric], of ] one s 2(3) by (auto split: prod.split)
qed simp

lemma configChanged_id [simp]: "configChanged old (cfg\<lparr>cc_ID := i\<rparr>) = configChanged old cfg"
  "configChanged (cfg\<lparr>cc_ID := i, cc_Enabled := b\<rparr>) cfg' = configChanged cfg cfg'" "\<not> configChanged cfg cfg"
  by (simp_all add: configChanged_def)

lemma map_of_ids: "map_of (map (\<lambda>(i, cfg). (i, cfg\<lparr>cc_ID := i\<rparr>)) new) i = map_option (\<lambda>cfg. cfg\<lparr>cc_ID := i\<rparr>) (map_of new i)"
  by (induction new) auto

lemma in_ids: "(i, x) \<in> set (map (\<lambda>(i, cfg). (i, cfg\<lparr>cc_ID := i\<rparr>)) new) \<Longrightarrow> \<exists>y. (i, y) \<in> set new \<and> x = y\<lparr>cc_ID := i\<rparr>"
  by (induction new) auto

text \<open>
  A chain that one configuration disables and the next enables again, otherwise the same, is left without
  a driver, and its assets still belong to it, so that they are refused as disabled from then on.
\<close>
theorem reenabled_chain_stays_down:
  assumes "reg_Get i r = Some d" and "distinct (map fst (rg_drivers r))"
    and "distinct (map fst off)" and "distinct (map fst on)"
    and "map_of on i = Some cfg" and "map_of off i = Some (cfg\<lparr>cc_Enabled := False\<rparr>)"
  shows "\<exists>c. map_of (Configs (snd (SyncFromConfig f on (snd (SyncFromConfig f off r))))) i = Some c \<and> \<not> cc_Enabled c \<and>
    (\<forall>asset. serves asset c = serves asset cfg) \<and>
    reg_Get i (snd (SyncFromConfig f on (snd (SyncFromConfig f off r)))) = None"
proof -
  define c where "c = cfg\<lparr>cc_Enabled := False, cc_ID := i\<rparr>"
  let ?ids = "map (\<lambda>(i, cfg). (i, cfg\<lparr>cc_ID := i\<rparr>))"
  have same: "\<not> cc_Enabled x \<or> \<not> configChanged c x" if x: "(i, x) \<in> set (?ids new)" and d: "distinct (map fst new)"
    and e: "map_of new i = Some cfg \<or> map_of new i = Some (cfg\<lparr>cc_Enabled := False\<rparr>)" for x new
  proof -
    obtain y where "(i, y) \<in> set new" "x = y\<lparr>cc_ID := i\<rparr>" using in_ids [OF x] by blast
    then have "map_of new i = Some y" using d by simp
    then show ?thesis using e \<open>x = y\<lparr>cc_ID := i\<rparr>\<close> by (auto simp: c_def configChanged_def)
  qed
  have "i \<in> set (map fst (rg_drivers r))" using assms(1) by (force simp: reg_Get_def dest: map_of_SomeD)
  then have "held_down i c (snd (sync_removed (?ids off) (map fst (rg_drivers r)) r))"
    using assms(2,6) by (intro sync_removed_disabled) (simp_all add: map_of_ids c_def)
  then have 1: "held_down i c (snd (SyncFromConfig f off r))"
    using sync_added_down [of i c _ "?ids off" f] same [of _ off] assms(3,6) by (auto simp: SyncFromConfig_snd)
  then have "i \<notin> set (map fst (rg_drivers (snd (SyncFromConfig f off r))))"
    by (metis held_down_def map_of_eq_None_iff list.set_map)
  from sync_removed_other [OF this 1, of "?ids on"]
  have "held_down i c (snd (SyncFromConfig f on (snd (SyncFromConfig f off r))))"
    using sync_added_down [of i c _ "?ids on" f] same [of _ on] assms(4,5) by (auto simp: SyncFromConfig_snd)
  then show ?thesis by (intro exI [of _ c]) (simp add: held_down_def reg_Get_def Configs_def c_def serves_def)
qed

theorem reenabled_chain_stays_down_witness:
  "reg_Get ''b'' (snd (SyncFromConfig demo_drivers [(''b'', demo_chain_config)] (snd (SyncFromConfig demo_drivers
     [(''b'', demo_chain_config\<lparr>cc_Enabled := False\<rparr>)] (\<lparr>rg_drivers = [(''b'', True)], rg_configs = [(''b'', demo_chain_config)]\<rparr>))))) = None"
proof -
  let ?r = "\<lparr>rg_drivers = [(''b'', True)], rg_configs = [(''b'', demo_chain_config)]\<rparr>"
  have "reg_Get ''b'' ?r = Some True" "distinct (map fst (rg_drivers ?r))" by (simp_all add: reg_Get_def)
  from reenabled_chain_stays_down [OF this, of "[(''b'', demo_chain_config\<lparr>cc_Enabled := False\<rparr>)]" "[(''b'', demo_chain_config)]" demo_chain_config demo_drivers]
  show ?thesis by auto
qed

end
