(* ===== verification/Chain_Watcher.thy ===== *)
theory Chain_Watcher
  imports Wallet Risk Chain_Registry
begin

text \<open>
  The chain watcher of the API server, internal/chainwatcher/service.go with the driver interface of
  driver.go and the mock, stub and multi-chain drivers, and the chain wallet of
  internal/chainwallet/manager.go that sends a withdrawal. The nodes behind the drivers, the transaction
  builders, the signer and the broadcaster are arguments over a node state. The tables are those of
  migrations 0001, 0003, 0004, 0007, 0010, 0019 and 0029; which unique key deposits has and which statuses
  withdrawals allows changed with 0029, so both are part of the state. Of users and login_attempts the
  columns this service reads are kept; they are changed by other components. Notifications, which write
  tables of their own and whose errors are dropped, and logging are left out.
\<close>

subsection \<open>Rows\<close>

record cw_user =
  cu_id :: uuid
  cu_email :: string
  cu_kyc_level :: int
  cu_created_at :: int

record deposit_row =
  dp_id :: uuid
  dp_user_id :: uuid
  dp_asset :: string
  dp_amount :: decimal
  dp_tx_hash :: string
  dp_from_address :: string
  dp_to_address :: string
  dp_chain :: string
  dp_confirmations :: int
  dp_status :: string
  dp_created_at :: int

text \<open>A row and the value read from it; an empty hash stands for NULL, which every query treats alike.\<close>

record Withdrawal =
  wd_ID :: uuid
  wd_UserID :: uuid
  wd_Asset :: string
  wd_Amount :: decimal
  wd_Fee :: decimal
  wd_ReceiveAmount :: decimal
  wd_DestAddress :: string
  wd_TxHash :: string
  wd_Chain :: string
  wd_Status :: string
  wd_Confirmations :: int
  wd_ErrorMsg :: string
  wd_CreatedAt :: int
  wd_SentAt :: "int option"
  wd_ConfirmedAt :: "int option"
  wd_RiskScore :: int
  wd_RiskHold :: bool

record wallet_address =
  wa_user_id :: uuid
  wa_address :: string
  wa_chain :: string
  wa_asset :: string
  wa_memo :: string

record Deposit =
  de_ID :: uuid
  de_UserID :: uuid
  de_Asset :: string
  de_Amount :: decimal
  de_TxHash :: string
  de_Address :: string
  de_ToAddress :: string
  de_FromAddress :: string
  de_Chain :: string
  de_Confirmations :: int
  de_Status :: string
  de_CreatedAt :: int

record addressState =
  as_lastAmount :: decimal
  as_lastTxHash :: string
  as_userID :: uuid

record 'c watcher_db = wallet_db +
  txhash_key :: bool
  wd_statuses :: "string list"
  cw_users :: "cw_user list"
  cw_failed_logins :: "(string \<times> int) list"
  withdraw_fees :: "string \<rightharpoonup> decimal \<times> decimal \<times> decimal"
  chain_drivers :: "(string \<times> string) list"
  deposit_rows :: "deposit_row list"
  withdrawal_rows :: "Withdrawal list"
  wallet_addresses :: "wallet_address list"
  depositsCount :: nat
  address_states :: "string \<rightharpoonup> addressState"
  node :: 'c

definition old_statuses :: "string list" where
  "old_statuses = [''PENDING'', ''HOLD'', ''APPROVED'', ''BROADCAST'', ''DONE'', ''FAILED'', ''REJECTED'']"

datatype watch_error =
    ErrInvalidAsset
  | ErrInvalidAmount
  | ErrDepositNotFound
  | ErrNotSupported
  | ErrWithdrawalBlocked int
  | ErrWithdrawLimitExceeded
  | WatchDB
  | WatchWallet wallet_error
  | WatchError string
  | Panicked

subsection \<open>Drivers\<close>

record TxRecord =
  tr_TxHash :: string
  tr_Amount :: decimal
  tr_Address :: string
  tr_Confirmations :: int
  tr_BlockHeight :: int
  tr_Category :: string
  tr_Time :: int

record 'c Driver =
  dv_Name :: string
  dv_SpawnDeposit :: "uuid \<Rightarrow> string \<Rightarrow> string \<Rightarrow> decimal \<Rightarrow> 'c \<Rightarrow> watch_error option \<times> 'c"
  dv_GetReceived :: "string \<Rightarrow> 'c \<Rightarrow> (watch_error + decimal) \<times> 'c"
  dv_SendToAddress :: "string \<Rightarrow> string \<Rightarrow> decimal \<Rightarrow> 'c \<Rightarrow> (watch_error + string) \<times> 'c"
  dv_GetBlockCount :: "'c \<Rightarrow> (watch_error + int) \<times> 'c"
  dv_GenerateAddress :: "'c \<Rightarrow> (watch_error + string) \<times> 'c"
  dv_GetConfirmations :: "string \<Rightarrow> 'c \<Rightarrow> (watch_error + int) \<times> 'c"
  dv_GetReceivedConfirmed :: "string \<Rightarrow> int \<Rightarrow> 'c \<Rightarrow> (watch_error + decimal) \<times> 'c"
  dv_GetReceivedPending :: "string \<Rightarrow> int \<Rightarrow> 'c \<Rightarrow> (watch_error + decimal) \<times> 'c"
  dv_ListTransactions :: "string \<Rightarrow> int \<Rightarrow> 'c \<Rightarrow> (watch_error + TxRecord list) \<times> 'c"
  dv_HasSigner :: bool
  dv_GetHotAddress :: string

text \<open>The mock driver makes an address from a new uuid's text, the argument.\<close>

definition MockDriver :: "string \<Rightarrow> 'c Driver" where
  "MockDriver uuid_text =
     \<lparr>dv_Name = ''mock'',
      dv_SpawnDeposit = \<lambda>u asset tx amount c.
        (if asset = [] then Some ErrInvalidAsset else if amount \<le> 0 then Some ErrInvalidAmount else None, c),
      dv_GetReceived = \<lambda>a c. (Inr 0, c), dv_SendToAddress = \<lambda>asset a x c. (Inl ErrNotSupported, c),
      dv_GetBlockCount = \<lambda>c. (Inr 0, c), dv_GenerateAddress = \<lambda>c. (Inr (''Fmock'' @ take 32 uuid_text), c),
      dv_GetConfirmations = \<lambda>tx c. (Inr 6, c), dv_GetReceivedConfirmed = \<lambda>a n c. (Inr 0, c),
      dv_GetReceivedPending = \<lambda>a n c. (Inr 0, c), dv_ListTransactions = \<lambda>a n c. (Inr [], c),
      dv_HasSigner = False, dv_GetHotAddress = ''mock_hot_wallet_address''\<rparr>"

definition RandomTxHash :: "string \<Rightarrow> string" where
  "RandomTxHash uuid_text = ''MOCK_TX_'' @ uuid_text"

text \<open>What a configuration with driver mock gets: a driver that succeeds at everything. The argument is the clock in seconds.\<close>

definition stubDriver :: "int \<Rightarrow> string \<Rightarrow> string \<Rightarrow> 'c Driver" where
  "stubDriver unix name hotAddr =
     \<lparr>dv_Name = name, dv_SpawnDeposit = \<lambda>u asset tx amount c. (None, c), dv_GetReceived = \<lambda>a c. (Inr 0, c),
      dv_SendToAddress = \<lambda>asset a x c. (Inr ''stub-tx'', c), dv_GetBlockCount = \<lambda>c. (Inr 0, c),
      dv_GenerateAddress = \<lambda>c. (Inr ''stub-addr'', c), dv_GetConfirmations = \<lambda>tx c. (Inr (unix mod 10), c),
      dv_GetReceivedConfirmed = \<lambda>a n c. (Inr 0, c), dv_GetReceivedPending = \<lambda>a n c. (Inr 0, c),
      dv_ListTransactions = \<lambda>a n c. (Inr [], c), dv_HasSigner = False, dv_GetHotAddress = hotAddr\<rparr>"

text \<open>The multi-chain driver hands every call to the chain registered first.\<close>

record 'd MultiChainDriver =
  mc_drivers :: "string \<rightharpoonup> 'd"
  mc_defaultChain :: string

definition NewMultiChainDriver :: "'d MultiChainDriver" where
  "NewMultiChainDriver = \<lparr>mc_drivers = Map.empty, mc_defaultChain = []\<rparr>"

definition multi_Register :: "string \<Rightarrow> 'd \<Rightarrow> 'd MultiChainDriver \<Rightarrow> 'd MultiChainDriver" where
  "multi_Register chainID d m =
     m\<lparr>mc_drivers := (mc_drivers m)(chainID \<mapsto> d),
       mc_defaultChain := (if mc_defaultChain m = [] then chainID else mc_defaultChain m)\<rparr>"

definition defaultDriver :: "'d MultiChainDriver \<Rightarrow> watch_error + 'd" where
  "defaultDriver m =
     (if mc_defaultChain m = [] then Inl (WatchError ''no drivers registered'')
      else (case mc_drivers m (mc_defaultChain m) of
              None \<Rightarrow> Inl (WatchError (''default chain '' @ mc_defaultChain m @ '' not found''))
            | Some d \<Rightarrow> Inr d))"

definition delegate :: "'c Driver MultiChainDriver \<Rightarrow> ('c Driver \<Rightarrow> 'c \<Rightarrow> (watch_error + 'r) \<times> 'c) \<Rightarrow> 'c \<Rightarrow> (watch_error + 'r) \<times> 'c" where
  "delegate m f c = (case defaultDriver m of Inl e \<Rightarrow> (Inl e, c) | Inr d \<Rightarrow> f d c)"

definition multi_driver :: "'c Driver MultiChainDriver \<Rightarrow> 'c Driver" where
  "multi_driver m =
     \<lparr>dv_Name = ''multi'',
      dv_SpawnDeposit = \<lambda>u asset tx amount c.
        (case defaultDriver m of Inl e \<Rightarrow> (Some e, c) | Inr d \<Rightarrow> dv_SpawnDeposit d u asset tx amount c),
      dv_GetReceived = \<lambda>a. delegate m (\<lambda>d. dv_GetReceived d a),
      dv_SendToAddress = \<lambda>asset a x. delegate m (\<lambda>d. dv_SendToAddress d asset a x),
      dv_GetBlockCount = delegate m dv_GetBlockCount, dv_GenerateAddress = delegate m dv_GenerateAddress,
      dv_GetConfirmations = \<lambda>tx. delegate m (\<lambda>d. dv_GetConfirmations d tx),
      dv_GetReceivedConfirmed = \<lambda>a n. delegate m (\<lambda>d. dv_GetReceivedConfirmed d a n),
      dv_GetReceivedPending = \<lambda>a n. delegate m (\<lambda>d. dv_GetReceivedPending d a n),
      dv_ListTransactions = \<lambda>a n. delegate m (\<lambda>d. dv_ListTransactions d a n),
      dv_HasSigner = (case defaultDriver m of Inl e \<Rightarrow> False | Inr d \<Rightarrow> dv_HasSigner d),
      dv_GetHotAddress = (case defaultDriver m of Inl e \<Rightarrow> [] | Inr d \<Rightarrow> dv_GetHotAddress d)\<rparr>"

subsection \<open>The chain wallet\<close>

record SignedTx =
  st_SignedHex :: string
  st_TxHash :: string

text \<open>A builder gives the bytes to sign. Amounts are passed on as they are; their text is exact.\<close>

record 'c chain_manager =
  cm_builders :: "string \<rightharpoonup> (string \<Rightarrow> decimal \<Rightarrow> string \<Rightarrow> 'c \<Rightarrow> (string + nat list) \<times> 'c)"
  cm_broadcasters :: "string \<rightharpoonup> (string \<Rightarrow> string \<Rightarrow> 'c \<Rightarrow> (string + string) \<times> 'c)"
  cm_signer :: "string \<Rightarrow> nat list \<Rightarrow> uuid \<Rightarrow> uuid \<Rightarrow> 'c \<Rightarrow> (string + SignedTx) \<times> 'c"

definition RegisterBroadcaster :: "(string \<Rightarrow> string \<Rightarrow> 'c \<Rightarrow> (string + string) \<times> 'c) \<Rightarrow> 'c chain_manager \<Rightarrow> 'c chain_manager" where
  "RegisterBroadcaster b m = m\<lparr>cm_broadcasters := (cm_broadcasters m)(''bitcoin'' \<mapsto> b, ''ethereum'' \<mapsto> b)\<rparr>"

definition RegisterBuilder ::
  "string \<Rightarrow> (string \<Rightarrow> decimal \<Rightarrow> string \<Rightarrow> 'c \<Rightarrow> (string + nat list) \<times> 'c) \<Rightarrow> 'c chain_manager \<Rightarrow> 'c chain_manager" where
  "RegisterBuilder chainName b m = m\<lparr>cm_builders := (cm_builders m)(chainName \<mapsto> b)\<rparr>"

definition manager_Send ::
  "'c chain_manager \<Rightarrow> string \<Rightarrow> string \<Rightarrow> decimal \<Rightarrow> string \<Rightarrow> uuid \<Rightarrow> uuid \<Rightarrow> 'c \<Rightarrow> (string + string) \<times> 'c" where
  "manager_Send m ch to amount feeRate withdrawalID userID c =
     (case cm_builders m ch of
        None \<Rightarrow> (Inl (''no builder for chain '' @ ch), c)
      | Some build \<Rightarrow>
          (case build to amount feeRate c of
             (Inl e, c1) \<Rightarrow> (Inl (''build unsigned tx: '' @ e), c1)
           | (Inr data, c1) \<Rightarrow>
               (case cm_signer m ch data withdrawalID userID c1 of
                  (Inl e, c2) \<Rightarrow> (Inl (''sign tx: '' @ e), c2)
                | (Inr signed, c2) \<Rightarrow>
                    (case (case cm_broadcasters m ch of
                             None \<Rightarrow> (None, c2)
                           | Some b \<Rightarrow> (case b ch (st_SignedHex signed) c2 of
                                          (Inl e, c3) \<Rightarrow> (None, c3) | (Inr tx, c3) \<Rightarrow> (Some tx, c3))) of
                       (Some tx, c3) \<Rightarrow> (Inr tx, c3)
                     | (None, c3) \<Rightarrow> (Inr (if st_TxHash signed \<noteq> [] then st_TxHash signed else ''signed''), c3)))))"

subsection \<open>The service\<close>

text \<open>The last field gives the text of an error, which is stored with a failed withdrawal.\<close>

record 'c watcher =
  wt_driver :: "'c Driver"
  wt_registry :: "'c Driver ChainRegistry option"
  wt_MinConf :: int
  wt_chainWallet :: "'c chain_manager option"
  wt_Error :: "watch_error \<Rightarrow> string"

text \<open>What one request gets from the clocks and random sources.\<close>

record watch_env =
  we_now :: int
  we_db_now :: int
  we_day_start :: int
  we_new_id :: uuid

definition call_node :: "('c \<Rightarrow> 'r \<times> 'c) \<Rightarrow> 'c watcher_db \<Rightarrow> 'r \<times> 'c watcher_db" where
  "call_node f s = (case f (node s) of (r, c) \<Rightarrow> (r, s\<lparr>node := c\<rparr>))"

definition min_conf :: "'c watcher \<Rightarrow> int" where
  "min_conf w = (if wt_MinConf w = 0 then 6 else wt_MinConf w)"

definition chainForAsset :: "'c watcher \<Rightarrow> string \<Rightarrow> string" where
  "chainForAsset w asset =
     (case wt_registry w of
        None \<Rightarrow> ToLower asset
      | Some r \<Rightarrow> if ChainIDForAsset asset r \<noteq> [] then ChainIDForAsset asset r else ToLower asset)"

definition driverForAsset :: "'c watcher \<Rightarrow> string \<Rightarrow> 'c Driver option" where
  "driverForAsset w asset =
     (case wt_registry w of
        None \<Rightarrow> Some (wt_driver w)
      | Some r \<Rightarrow>
          (case GetForAsset asset r of
             Some d \<Rightarrow> Some d
           | None \<Rightarrow> if ChainIDForAsset asset r \<noteq> [] then None else Some (wt_driver w)))"

definition getTokenConfig :: "'c watcher \<Rightarrow> string \<Rightarrow> TokenConfig option" where
  "getTokenConfig w asset = (case wt_registry w of None \<Rightarrow> None | Some r \<Rightarrow> GetTokenForAsset asset r)"

definition normalizeChainName :: "string \<Rightarrow> string" where
  "normalizeChainName ch =
     (if ch \<in> {''bsc'', ''polygon'', ''avalanche'', ''arbitrum'', ''optimism'', ''base''} then ''ethereum''
      else if ch \<in> {''bitcoin'', ''litecoin'', ''dogecoin''} then ''bitcoin'' else ch)"

end
