(* ===== verification/Chain_Deposits.thy ===== *)
theory Chain_Deposits
  imports Chain_Watcher
begin

text \<open>
  The deposits of internal/chainwatcher/service.go: recording and crediting one, polling the watched
  addresses, importing from the chain, what is still pending, and the deposit addresses of users.
\<close>

subsection \<open>Recording\<close>

text \<open>ON CONFLICT (chain, tx_hash) needs a unique key on exactly these columns; a row is checked before the conflict.\<close>

definition insert_deposit ::
  "uuid \<Rightarrow> int \<Rightarrow> string \<Rightarrow> uuid \<Rightarrow> string \<Rightarrow> string \<Rightarrow> decimal \<Rightarrow> string \<Rightarrow> 'c watcher_db \<Rightarrow> (nat \<times> 'c watcher_db) option" where
  "insert_deposit new_id db_now ch u asset tx amount to s =
     (if \<not> txhash_key s then None
      else
        (case numeric_38_18 amount of
           None \<Rightarrow> None
         | Some x \<Rightarrow>
             if x \<le> 0 then None
             else if list_ex (\<lambda>r. dp_chain r = ch \<and> dp_tx_hash r = tx) (deposit_rows s) then Some (0, s)
             else if new_id \<in> dp_id ` set (deposit_rows s) then None
             else Some (1, s\<lparr>deposit_rows := deposit_rows s @
               [\<lparr>dp_id = new_id, dp_user_id = u, dp_asset = asset, dp_amount = x, dp_tx_hash = tx, dp_from_address = [],
                 dp_to_address = to, dp_chain = ch, dp_confirmations = 6, dp_status = ''CREDITED'', dp_created_at = db_now\<rparr>]\<rparr>)))"

definition recordDeposit ::
  "'c watcher \<Rightarrow> watch_env \<Rightarrow> uuid \<Rightarrow> string \<Rightarrow> string \<Rightarrow> decimal \<Rightarrow> string \<Rightarrow> 'c watcher_db
    \<Rightarrow> (watch_error + Deposit option) \<times> 'c watcher_db" where
  "recordDeposit w e u asset tx amount to s =
     (let ch = dv_Name (wt_driver w) in
      case exec_stmt (insert_deposit (we_new_id e) (we_db_now e) ch u asset tx amount to) s of
        (None, s1) \<Rightarrow> (Inl WatchDB, s1)
      | (Some n, s1) \<Rightarrow>
          if n = 0 then (Inr None, s1)
          else
            (case Credit u asset amount s1 of
               (Inl err, s2) \<Rightarrow> (Inl (WatchWallet err), s2)
             | (Inr _, s2) \<Rightarrow>
                 (Inr (Some \<lparr>de_ID = we_new_id e, de_UserID = u, de_Asset = asset, de_Amount = amount, de_TxHash = tx,
                        de_Address = [], de_ToAddress = to, de_FromAddress = [], de_Chain = ch, de_Confirmations = 6,
                        de_Status = ''CREDITED'', de_CreatedAt = we_db_now e\<rparr>),
                  s2\<lparr>depositsCount := depositsCount s2 + 1\<rparr>)))"

definition SpawnDeposit ::
  "'c watcher \<Rightarrow> watch_env \<Rightarrow> string \<Rightarrow> uuid \<Rightarrow> string \<Rightarrow> decimal \<Rightarrow> 'c watcher_db
    \<Rightarrow> (watch_error + Deposit option) \<times> 'c watcher_db" where
  "SpawnDeposit w e uuid_text u asset amount s =
     (let tx = RandomTxHash uuid_text; stop = max 10 (min 24 (length tx)) in
      case query (\<lambda>t. list_ex (\<lambda>r. dp_tx_hash r = tx) (deposit_rows t)) s of
        (None, s1) \<Rightarrow> (Inl WatchDB, s1)
      | (Some found, s1) \<Rightarrow>
          if found then (Inl (WatchError ''deposit with tx_hash already exists''), s1)
          else
            (case call_node (dv_SpawnDeposit (wt_driver w) u asset tx amount) s1 of
               (Some err, s2) \<Rightarrow> (Inl err, s2)
             | (None, s2) \<Rightarrow>
                 if length tx < stop then (Inl Panicked, s2)
                 else recordDeposit w e u asset tx amount (''mock'' @ take (stop - 10) (drop 10 tx)) s2))"

subsection \<open>Polling\<close>

text \<open>
  One address: every transaction that is not the last one seen is recorded, and an error does not stop the
  loop. Each record takes the next of the environments (its own identifier and times).
\<close>

definition address_state :: "uuid \<Rightarrow> string \<Rightarrow> 'c watcher_db \<Rightarrow> addressState" where
  "address_state u a s =
     (case address_states s a of None \<Rightarrow> \<lparr>as_lastAmount = 0, as_lastTxHash = [], as_userID = u\<rparr> | Some st \<Rightarrow> st)"

fun poll_txs :: "'c watcher \<Rightarrow> uuid \<Rightarrow> string \<Rightarrow> string \<Rightarrow> (TxRecord \<times> watch_env) list \<Rightarrow> 'c watcher_db \<Rightarrow> 'c watcher_db" where
  "poll_txs w u asset a [] s = s"
| "poll_txs w u asset a ((tx, e) # txs) s =
     (let st = address_state u a s in
      if as_lastTxHash st = tr_TxHash tx then poll_txs w u asset a txs s
      else
        (let s1 = s\<lparr>address_states := (address_states s)(a \<mapsto>
               \<lparr>as_lastAmount = as_lastAmount st + tr_Amount tx, as_lastTxHash = tr_TxHash tx, as_userID = u\<rparr>)\<rparr>
         in poll_txs w u asset a txs (snd (recordDeposit w e u asset (tr_TxHash tx) (tr_Amount tx) a s1))))"

definition pollOne ::
  "'c watcher \<Rightarrow> (nat \<Rightarrow> watch_env) \<Rightarrow> string \<Rightarrow> uuid \<Rightarrow> string \<Rightarrow> 'c watcher_db \<Rightarrow> watch_error option \<times> 'c watcher_db" where
  "pollOne w es a u asset s =
     (case call_node (dv_ListTransactions (wt_driver w) a (wt_MinConf w)) s of
        (Inl err, s1) \<Rightarrow> (Some err, s1)
      | (Inr txs, s1) \<Rightarrow>
          (None, poll_txs w u asset a (map (\<lambda>i. (txs ! i, es i)) [0..<length txs])
             (s1\<lparr>address_states := (address_states s1)(a \<mapsto> address_state u a s1)\<rparr>)))"

text \<open>
  The statement selects an address and a user, and the loop scans three values from each row, which pgx
  refuses: with a row there is an error before any address is polled.
\<close>

definition watched_rows :: "string \<Rightarrow> 'c watcher_db \<Rightarrow> wallet_address list" where
  "watched_rows name s =
     take 1000 (filter (\<lambda>a. wa_user_id a \<in> cu_id ` set (cw_users s) \<and> (wa_chain a, name) \<in> set (chain_drivers s)) (wallet_addresses s))"

definition pollDeposits :: "'c watcher \<Rightarrow> 'c watcher_db \<Rightarrow> watch_error option \<times> 'c watcher_db" where
  "pollDeposits w s =
     (case query (watched_rows (dv_Name (wt_driver w))) s of
        (None, s1) \<Rightarrow> (Some WatchDB, s1)
      | (Some [], s1) \<Rightarrow> (None, s1)
      | (Some (r # rs), s1) \<Rightarrow> (Some (WatchError ''number of field descriptions must equal number of destinations''), s1))"

subsection \<open>Importing\<close>

text \<open>The result lists the identifiers of new rows, and the nil identifier for each row given to another user.\<close>

definition reassign :: "string \<Rightarrow> string \<Rightarrow> uuid \<Rightarrow> string \<Rightarrow> 'c watcher_db \<Rightarrow> (nat \<times> 'c watcher_db) option" where
  "reassign ch tx u a s =
     Some (length (filter (\<lambda>r. dp_chain r = ch \<and> dp_tx_hash r = tx) (deposit_rows s)),
       s\<lparr>deposit_rows := map (\<lambda>r. if dp_chain r = ch \<and> dp_tx_hash r = tx
         then r\<lparr>dp_user_id := u, dp_to_address := a\<rparr> else r) (deposit_rows s)\<rparr>)"

definition import_tx ::
  "'c watcher \<Rightarrow> watch_env \<Rightarrow> uuid \<Rightarrow> wallet_address \<Rightarrow> TxRecord \<Rightarrow> 'c watcher_db \<Rightarrow> uuid list \<times> 'c watcher_db" where
  "import_tx w e u a tx s =
     (let ch = dv_Name (wt_driver w) in
      if tr_Category tx \<noteq> ''receive'' then ([], s)
      else
        (case query (\<lambda>t. find (\<lambda>r. dp_chain r = ch \<and> dp_tx_hash r = tr_TxHash tx) (deposit_rows t)) s of
           (None, s1) \<Rightarrow> ([], s1)
         | (Some None, s1) \<Rightarrow>
             (case recordDeposit w e u (wa_asset a) (tr_TxHash tx) (tr_Amount tx) (wa_address a) s1 of
                (Inr (Some d), s2) \<Rightarrow> ([de_ID d], s2)
              | (_, s2) \<Rightarrow> ([], s2))
         | (Some (Some r), s1) \<Rightarrow>
             if dp_user_id r \<noteq> u \<or> dp_to_address r \<noteq> wa_address a
             then (case exec_stmt (reassign ch (tr_TxHash tx) u (wa_address a)) s1 of
                     (None, s2) \<Rightarrow> ([], s2) | (Some n, s2) \<Rightarrow> ([uuid_nil], s2))
             else ([], s1)))"

fun import_txs ::
  "'c watcher \<Rightarrow> (nat \<Rightarrow> watch_env) \<Rightarrow> nat \<Rightarrow> uuid \<Rightarrow> wallet_address \<Rightarrow> TxRecord list \<Rightarrow> 'c watcher_db
    \<Rightarrow> uuid list \<times> nat \<times> 'c watcher_db" where
  "import_txs w es k u a [] s = ([], k, s)"
| "import_txs w es k u a (tx # txs) s =
     (case import_tx w (es k) u a tx s of
        (is, s1) \<Rightarrow> (case import_txs w es (Suc k) u a txs s1 of (js, k', s2) \<Rightarrow> (is @ js, k', s2)))"

fun import_addresses ::
  "'c watcher \<Rightarrow> (nat \<Rightarrow> watch_env) \<Rightarrow> nat \<Rightarrow> uuid \<Rightarrow> wallet_address list \<Rightarrow> 'c watcher_db \<Rightarrow> uuid list \<times> 'c watcher_db" where
  "import_addresses w es k u [] s = ([], s)"
| "import_addresses w es k u (a # as) s =
     (case call_node (dv_ListTransactions (wt_driver w) (wa_address a) (min_conf w)) s of
        (Inl err, s1) \<Rightarrow> import_addresses w es k u as s1
      | (Inr txs, s1) \<Rightarrow>
          (case import_txs w es k u a txs s1 of
             (is, k', s2) \<Rightarrow> (case import_addresses w es k' u as s2 of (js, s3) \<Rightarrow> (is @ js, s3))))"

definition own_addresses :: "uuid \<Rightarrow> 'c watcher_db \<Rightarrow> wallet_address list" where
  "own_addresses u s = filter (\<lambda>a. wa_user_id a = u) (wallet_addresses s)"

definition ImportDepositsFromChain ::
  "'c watcher \<Rightarrow> (nat \<Rightarrow> watch_env) \<Rightarrow> uuid \<Rightarrow> 'c watcher_db \<Rightarrow> (watch_error + uuid list) \<times> 'c watcher_db" where
  "ImportDepositsFromChain w es u s =
     (case query (own_addresses u) s of
        (None, s1) \<Rightarrow> (Inl WatchDB, s1)
      | (Some as, s1) \<Rightarrow> (case import_addresses w es 0 u as s1 of (is, s2) \<Rightarrow> (Inr is, s2)))"

subsection \<open>Reading\<close>

definition limit_of :: "int \<Rightarrow> nat" where
  "limit_of n = (if n \<le> 0 \<or> 100 < n then 50 else nat n)"

definition deposit_of_row :: "deposit_row \<Rightarrow> Deposit" where
  "deposit_of_row r =
     \<lparr>de_ID = dp_id r, de_UserID = dp_user_id r, de_Asset = dp_asset r, de_Amount = dp_amount r, de_TxHash = dp_tx_hash r,
      de_Address = dp_to_address r, de_ToAddress = [], de_FromAddress = dp_from_address r, de_Chain = dp_chain r,
      de_Confirmations = dp_confirmations r, de_Status = dp_status r, de_CreatedAt = dp_created_at r\<rparr>"

definition ListDeposits :: "uuid \<Rightarrow> int \<Rightarrow> 'c watcher_db \<Rightarrow> Deposit list option \<times> 'c watcher_db" where
  "ListDeposits u n =
     query (\<lambda>t. map deposit_of_row (take (limit_of n)
       (sort_key (\<lambda>r. - dp_created_at r) (filter (\<lambda>r. dp_user_id r = u) (deposit_rows t)))))"

definition GetDeposit :: "uuid \<Rightarrow> 'c watcher_db \<Rightarrow> (watch_error + Deposit) \<times> 'c watcher_db" where
  "GetDeposit i s =
     (case query (\<lambda>t. find (\<lambda>r. dp_id r = i) (deposit_rows t)) s of
        (None, s1) \<Rightarrow> (Inl WatchDB, s1)
      | (Some None, s1) \<Rightarrow> (Inl ErrDepositNotFound, s1)
      | (Some (Some r), s1) \<Rightarrow> (Inr (deposit_of_row r), s1))"

record PendingDeposit =
  pd_Address :: string
  pd_Asset :: string
  pd_Confirmed :: decimal
  pd_Pending :: decimal
  pd_Total :: decimal
  pd_MinConf :: int
  pd_BlockHeight :: int

fun pending_of :: "'c watcher \<Rightarrow> wallet_address list \<Rightarrow> 'c watcher_db \<Rightarrow> PendingDeposit list \<times> 'c watcher_db" where
  "pending_of w [] s = ([], s)"
| "pending_of w (a # as) s =
     (case call_node (dv_GetReceivedConfirmed (wt_driver w) (wa_address a) (min_conf w)) s of
        (Inl err, s1) \<Rightarrow> pending_of w as s1
      | (Inr confirmed, s1) \<Rightarrow>
          (case call_node (dv_GetReceivedPending (wt_driver w) (wa_address a) (min_conf w)) s1 of
             (Inl err, s2) \<Rightarrow> pending_of w as s2
           | (Inr pending, s2) \<Rightarrow>
               (case call_node (dv_GetBlockCount (wt_driver w)) s2 of
                  (h, s3) \<Rightarrow>
                    (case pending_of w as s3 of
                       (ps, s4) \<Rightarrow>
                         (\<lparr>pd_Address = wa_address a, pd_Asset = wa_asset a, pd_Confirmed = confirmed, pd_Pending = pending,
                           pd_Total = confirmed + pending, pd_MinConf = min_conf w,
                           pd_BlockHeight = (case h of Inl _ \<Rightarrow> 0 | Inr n \<Rightarrow> n)\<rparr> # ps, s4)))))"

definition GetPendingDeposits :: "'c watcher \<Rightarrow> uuid \<Rightarrow> 'c watcher_db \<Rightarrow> PendingDeposit list option \<times> 'c watcher_db" where
  "GetPendingDeposits w u s =
     (case query (own_addresses u) s of
        (None, s1) \<Rightarrow> (None, s1)
      | (Some as, s1) \<Rightarrow> (case pending_of w as s1 of (ps, s2) \<Rightarrow> (Some ps, s2)))"

record PendingTx =
  px_TxHash :: string
  px_Address :: string
  px_Asset :: string
  px_Amount :: decimal
  px_Confirmations :: int
  px_MinConf :: int
  px_BlockHeight :: int
  px_Time :: int
  px_Status :: string

fun pending_txs :: "'c watcher \<Rightarrow> wallet_address \<Rightarrow> TxRecord list \<Rightarrow> 'c watcher_db \<Rightarrow> PendingTx list \<times> 'c watcher_db" where
  "pending_txs w a [] s = ([], s)"
| "pending_txs w a (tx # txs) s =
     (if tr_Category tx \<noteq> ''receive'' then pending_txs w a txs s
      else
        (case query (\<lambda>t. list_ex (\<lambda>r. dp_chain r = dv_Name (wt_driver w) \<and> dp_tx_hash r = tr_TxHash tx) (deposit_rows t)) s of
           (Some False, s1) \<Rightarrow>
             if min_conf w \<le> tr_Confirmations tx then pending_txs w a txs s1
             else
               (case pending_txs w a txs s1 of
                  (ps, s2) \<Rightarrow>
                    (\<lparr>px_TxHash = tr_TxHash tx, px_Address = tr_Address tx, px_Asset = wa_asset a, px_Amount = tr_Amount tx,
                      px_Confirmations = tr_Confirmations tx, px_MinConf = min_conf w, px_BlockHeight = tr_BlockHeight tx,
                      px_Time = tr_Time tx, px_Status = (if 0 < tr_Confirmations tx then ''confirming'' else ''mempool'')\<rparr> # ps, s2))
         | (_, s1) \<Rightarrow> pending_txs w a txs s1))"

fun pending_addresses :: "'c watcher \<Rightarrow> wallet_address list \<Rightarrow> 'c watcher_db \<Rightarrow> PendingTx list \<times> 'c watcher_db" where
  "pending_addresses w [] s = ([], s)"
| "pending_addresses w (a # as) s =
     (case call_node (dv_ListTransactions (wt_driver w) (wa_address a) 0) s of
        (Inl err, s1) \<Rightarrow> pending_addresses w as s1
      | (Inr txs, s1) \<Rightarrow>
          (case pending_txs w a txs s1 of
             (ps, s2) \<Rightarrow> (case pending_addresses w as s2 of (qs, s3) \<Rightarrow> (ps @ qs, s3))))"

definition GetPendingTxs :: "'c watcher \<Rightarrow> uuid \<Rightarrow> 'c watcher_db \<Rightarrow> PendingTx list option \<times> 'c watcher_db" where
  "GetPendingTxs w u s =
     (case query (own_addresses u) s of
        (None, s1) \<Rightarrow> (None, s1)
      | (Some as, s1) \<Rightarrow> (case pending_addresses w as s1 of (ps, s2) \<Rightarrow> (Some ps, s2)))"

subsection \<open>Addresses\<close>

text \<open>The address columns and the key (chain, address) of migration 0029; the expiry is a constant. Rows whose
  asset is NULL, which this service never writes, are not represented.\<close>

definition insert_wallet_address :: "wallet_address \<Rightarrow> 'c watcher_db \<Rightarrow> (nat \<times> 'c watcher_db) option" where
  "insert_wallet_address a s =
     (if wa_user_id a \<notin> cu_id ` set (cw_users s) \<or> 128 < length (wa_address a) \<or> 32 < length (wa_chain a) \<or> 16 < length (wa_asset a) \<or>
         (wa_chain a, wa_address a) \<in> (\<lambda>b. (wa_chain b, wa_address b)) ` set (wallet_addresses s) then None
      else Some (1, s\<lparr>wallet_addresses := wallet_addresses s @ [a]\<rparr>))"

definition AllocateAddress :: "'c watcher \<Rightarrow> uuid \<Rightarrow> string \<Rightarrow> 'c watcher_db \<Rightarrow> (watch_error + string) \<times> 'c watcher_db" where
  "AllocateAddress w u asset s =
     (case driverForAsset w asset of
        None \<Rightarrow>
          (Inl (WatchError (case wt_registry w of
             Some r \<Rightarrow> if ChainIDForAsset asset r \<noteq> [] then ''chain '' @ ChainIDForAsset asset r @ '' disabled'' else ''no driver for asset '' @ asset
           | None \<Rightarrow> ''no driver for asset '' @ asset)), s)
      | Some d \<Rightarrow>
          (case call_node (dv_GenerateAddress d) s of
             (Inl err, s1) \<Rightarrow> (Inl err, s1)
           | (Inr addr, s1) \<Rightarrow>
               (case exec_stmt (insert_wallet_address \<lparr>wa_user_id = u, wa_address = addr, wa_chain = chainForAsset w asset,
                       wa_asset = asset, wa_memo = ''self-allocated''\<rparr>) s1 of
                  (None, s2) \<Rightarrow> (Inl WatchDB, s2)
                | (Some n, s2) \<Rightarrow> (Inr addr, s2))))"

definition GetDepositAddress :: "'c watcher \<Rightarrow> uuid \<Rightarrow> string \<Rightarrow> 'c watcher_db \<Rightarrow> (watch_error + string) \<times> 'c watcher_db" where
  "GetDepositAddress w u asset s =
     (case query (\<lambda>t. find (\<lambda>a. wa_user_id a = u \<and> wa_asset a = asset) (wallet_addresses t)) s of
        (None, s1) \<Rightarrow> (Inl WatchDB, s1)
      | (Some (Some a), s1) \<Rightarrow> (Inr (wa_address a), s1)
      | (Some None, s1) \<Rightarrow> AllocateAddress w u asset s1)"

end
