(* ===== verification/Chain_Withdrawals.thy ===== *)
theory Chain_Withdrawals
  imports Chain_Deposits
begin

text \<open>
  The withdrawals of internal/chainwatcher/service.go: fee, daily limit, risk score, the request itself, the
  review of a held one, and the polling of confirmations.
\<close>

subsection \<open>Rows\<close>

text \<open>The CHECKs and column lengths of withdrawals.\<close>

definition store_withdrawal :: "'c watcher_db \<Rightarrow> Withdrawal \<Rightarrow> Withdrawal option" where
  "store_withdrawal s r =
     (case (numeric_38_18 (wd_Amount r), numeric_38_18 (wd_Fee r), numeric_38_18 (wd_ReceiveAmount r)) of
        (Some a, Some f, Some v) \<Rightarrow>
          if wd_Status r \<in> set (wd_statuses s) \<and> length (wd_Asset r) \<le> 16 \<and> length (wd_DestAddress r) \<le> 128 \<and>
             length (wd_Chain r) \<le> 32 \<and> length (wd_TxHash r) \<le> 128 \<and> wd_UserID r \<in> cu_id ` set (cw_users s)
          then Some (r\<lparr>wd_Amount := a, wd_Fee := f, wd_ReceiveAmount := v\<rparr>) else None
      | _ \<Rightarrow> None)"

definition add_withdrawal :: "Withdrawal \<Rightarrow> 'c watcher_db \<Rightarrow> (nat \<times> 'c watcher_db) option" where
  "add_withdrawal r s =
     Option.bind (store_withdrawal s r) (\<lambda>r'.
       map_option (\<lambda>rs. (1, s\<lparr>withdrawal_rows := rs\<rparr>)) (tbl_insert wd_ID r' (withdrawal_rows s)))"

definition set_withdrawals :: "(Withdrawal \<Rightarrow> bool) \<Rightarrow> (Withdrawal \<Rightarrow> Withdrawal) \<Rightarrow> 'c watcher_db \<Rightarrow> (nat \<times> 'c watcher_db) option" where
  "set_withdrawals P f s =
     map_option (\<lambda>(n, rs). (n, s\<lparr>withdrawal_rows := rs\<rparr>)) (tbl_update P (\<lambda>r. store_withdrawal s (f r)) (withdrawal_rows s))"

subsection \<open>Fee, limit and score\<close>

text \<open>Any error of the read means no fee.\<close>

definition computeFee :: "string \<Rightarrow> decimal \<Rightarrow> 'c watcher_db \<Rightarrow> decimal \<times> 'c watcher_db" where
  "computeFee asset amount s =
     (case query (\<lambda>t. if is_active t asset then withdraw_fees t asset else None) s of
        (Some (Some (flat, percent, least)), s1) \<Rightarrow> (max (max flat (amount * percent)) least, s1)
      | (_, s1) \<Rightarrow> (0, s1))"

definition used_today :: "int \<Rightarrow> uuid \<Rightarrow> 'c watcher_db \<Rightarrow> decimal" where
  "used_today day_start u s =
     sum_list (map wd_Amount (filter (\<lambda>r. wd_UserID r = u \<and> wd_Status r \<in> {''PENDING'', ''BROADCAST'', ''DONE''} \<and>
       day_start \<le> wd_CreatedAt r) (withdrawal_rows s)))"

definition DailyWithdrawalUsage :: "int \<Rightarrow> uuid \<Rightarrow> 'c watcher_db \<Rightarrow> decimal option \<times> 'c watcher_db" where
  "DailyWithdrawalUsage day_start u = query (used_today day_start u)"

definition kyc_limit :: "int \<Rightarrow> decimal option" where
  "kyc_limit level = (if level = 0 then Some 1000 else if level = 1 then Some 10000 else if level = 2 then Some 100000 else None)"

definition WithdrawLimitCheck :: "int \<Rightarrow> uuid \<Rightarrow> decimal \<Rightarrow> 'c watcher_db \<Rightarrow> watch_error option \<times> 'c watcher_db" where
  "WithdrawLimitCheck day_start u amount s =
     (case query (\<lambda>t. tbl_find cu_id u (cw_users t)) s of
        (None, s1) \<Rightarrow> (Some WatchDB, s1)
      | (Some None, s1) \<Rightarrow> (Some (WatchError ''user not found''), s1)
      | (Some (Some r), s1) \<Rightarrow>
          (case kyc_limit (cu_kyc_level r) of
             None \<Rightarrow> (Some (WatchError ''unknown kyc level''), s1)
           | Some limit \<Rightarrow>
               (case DailyWithdrawalUsage day_start u s1 of
                  (None, s2) \<Rightarrow> (Some WatchDB, s2)
                | (Some used, s2) \<Rightarrow> (if limit < used + amount then Some ErrWithdrawLimitExceeded else None, s2))))"

text \<open>The five reads; the value of one that fails is the zero value, and the age then counts nothing.\<close>

definition computeWithdrawRisk :: "int \<Rightarrow> int \<Rightarrow> uuid \<Rightarrow> decimal \<Rightarrow> string \<Rightarrow> 'c watcher_db \<Rightarrow> int \<times> 'c watcher_db" where
  "computeWithdrawRisk now db_now u amount dest s =
     (case query (\<lambda>t. map_option cu_created_at (tbl_find cu_id u (cw_users t))) s of
        (created, s1) \<Rightarrow>
          (case query (\<lambda>t. sum_list (map dp_amount (filter (\<lambda>d. dp_user_id d = u \<and> dp_status d = ''CREDITED'') (deposit_rows t)))) s1 of
             (deposited, s2) \<Rightarrow>
               (case query (\<lambda>t. length (filter (\<lambda>r. wd_UserID r = u \<and> wd_DestAddress r = dest \<and>
                       wd_Status r \<in> {''DONE'', ''BROADCAST''}) (withdrawal_rows t))) s2 of
                  (sentBefore, s3) \<Rightarrow>
                    (case query (\<lambda>t. map_option cu_email (tbl_find cu_id u (cw_users t))) s3 of
                       (found, s4) \<Rightarrow>
                         (let email = (case found of Some (Some m) \<Rightarrow> m | _ \<Rightarrow> []) in
                          case query (\<lambda>t. length (filter (\<lambda>(m, ts). m = email \<and> db_now - 24 * hour_ns < ts) (cw_failed_logins t))) s4 of
                            (failed, s5) \<Rightarrow>
                              (let age = (case created of Some (Some born) \<Rightarrow> sum_list (map snd (age_factor (now - born) 15 8)) | _ \<Rightarrow> 0);
                                   total = (case deposited of None \<Rightarrow> 0 | Some d \<Rightarrow> d);
                                   ratio = sum_list (map snd (ratio_factor amount total));
                                   fresh = (case sentBefore of None \<Rightarrow> 10 | Some n \<Rightarrow> if n = 0 then 10 else 0);
                                   hour = now div hour_ns mod 24;
                                   odd = (if 2 \<le> hour \<and> hour < 6 then 10 else 0);
                                   tries = (case failed of None \<Rightarrow> 0 | Some n \<Rightarrow> min (3 * int n) 25)
                               in (age + ratio + fresh + odd + tries, s5)))))))"

subsection \<open>A request\<close>

definition failWithdrawal :: "uuid \<Rightarrow> string \<Rightarrow> 'c watcher_db \<Rightarrow> 'c watcher_db" where
  "failWithdrawal i msg s =
     snd (query (\<lambda>_. ()) (snd (exec_stmt (set_withdrawals (\<lambda>r. wd_ID r = i) (\<lambda>r. r\<lparr>wd_Status := ''FAILED'', wd_ErrorMsg := msg\<rparr>)) s)))"

text \<open>Steps 0 to 0c: the fee, and what the user must have available.\<close>

definition check_funds :: "uuid \<Rightarrow> string \<Rightarrow> decimal \<Rightarrow> 'c watcher_db \<Rightarrow> (watch_error + decimal) \<times> 'c watcher_db" where
  "check_funds u asset amount s =
     (case computeFee asset amount s of
        (fee, s1) \<Rightarrow>
          if amount - fee < 0 then (Inl (WatchError ''withdrawal amount less than fee''), s1)
          else
            (case query (\<lambda>t. map_option available (balances t (u, asset))) s1 of
               (None, s2) \<Rightarrow> (Inl WatchDB, s2)
             | (Some None, s2) \<Rightarrow> (Inl (WatchError (''insufficient balance: no '' @ asset @ '' wallet found'')), s2)
             | (Some (Some avail), s2) \<Rightarrow>
                 if avail < amount + fee then (Inl (WatchError ''insufficient balance''), s2) else (Inr fee, s2)))"

text \<open>Steps 4 to 6: debit, send, and record the hash.\<close>

definition refund :: "uuid \<Rightarrow> string \<Rightarrow> decimal \<Rightarrow> uuid \<Rightarrow> string \<Rightarrow> 'c watcher_db \<Rightarrow> 'c watcher_db" where
  "refund u asset amount i msg s = failWithdrawal i msg (snd (Credit u asset amount s))"

definition mark_sent :: "uuid \<Rightarrow> string \<Rightarrow> int \<Rightarrow> 'c watcher_db \<Rightarrow> (nat \<times> 'c watcher_db) option" where
  "mark_sent i tx now =
     set_withdrawals (\<lambda>r. wd_ID r = i) (\<lambda>r. r\<lparr>wd_TxHash := tx, wd_Status := ''BROADCAST'', wd_SentAt := Some now\<rparr>)"

definition send_withdrawal :: "'c watcher \<Rightarrow> int \<Rightarrow> Withdrawal \<Rightarrow> 'c watcher_db \<Rightarrow> (watch_error + Withdrawal) \<times> 'c watcher_db" where
  "send_withdrawal w now r s =
     (let u = wd_UserID r; asset = wd_Asset r; amount = wd_Amount r in
      case DebitAvailable u asset amount s of
        (Inl err, s1) \<Rightarrow> (Inl (WatchWallet err), failWithdrawal (wd_ID r) (wt_Error w (WatchWallet err)) s1)
      | (Inr _, s1) \<Rightarrow>
          (case wt_chainWallet w of
             None \<Rightarrow>
               (let msg = ''chainWallet not configured (signer service unavailable)''
                in (Inl (WatchError msg), refund u asset amount (wd_ID r) msg s1))
           | Some m \<Rightarrow>
               (case call_node (manager_Send m (normalizeChainName (chainForAsset w asset)) (wd_DestAddress r) amount [] (wd_ID r) u) s1 of
                  (Inl err, s2) \<Rightarrow> (Inl (WatchError err), refund u asset amount (wd_ID r) err s2)
                | (Inr tx, s2) \<Rightarrow>
                    (let s3 = snd (exec_stmt (mark_sent (wd_ID r) tx now) s2) in
                     if 500 < amount \<and> length (wd_DestAddress r) < 10 then (Inl Panicked, s3)
                     else (Inr (r\<lparr>wd_TxHash := tx, wd_Status := ''BROADCAST'', wd_SentAt := Some now\<rparr>), s3)))))"

definition WithdrawWithSigner ::
  "'c watcher \<Rightarrow> watch_env \<Rightarrow> uuid \<Rightarrow> string \<Rightarrow> string \<Rightarrow> decimal \<Rightarrow> 'c watcher_db \<Rightarrow> (watch_error + Withdrawal) \<times> 'c watcher_db" where
  "WithdrawWithSigner w e u asset dest amount s =
     (if amount \<le> 0 then (Inl ErrInvalidAmount, s)
      else
        (case WithdrawLimitCheck (we_day_start e) u amount s of
           (Some err, s1) \<Rightarrow> (Inl err, s1)
         | (None, s1) \<Rightarrow>
             (case check_funds u asset amount s1 of
                (Inl err, s2) \<Rightarrow> (Inl err, s2)
              | (Inr fee, s2) \<Rightarrow>
                  (case computeWithdrawRisk (we_now e) (we_db_now e) u amount dest s2 of
                     (score, s3) \<Rightarrow>
                       if ActionForScore score = ActionBlock then (Inl (ErrWithdrawalBlocked score), s3)
                       else
                         (let hold = (ActionForScore score = ActionHold);
                              r = \<lparr>wd_ID = we_new_id e, wd_UserID = u, wd_Asset = asset, wd_Amount = amount, wd_Fee = fee,
                                   wd_ReceiveAmount = amount - fee, wd_DestAddress = dest, wd_TxHash = [],
                                   wd_Chain = chainForAsset w asset, wd_Status = (if hold then ''HOLD'' else ''PENDING''),
                                   wd_Confirmations = 0, wd_ErrorMsg = [], wd_CreatedAt = we_now e, wd_SentAt = None,
                                   wd_ConfirmedAt = None, wd_RiskScore = score, wd_RiskHold = hold\<rparr>
                          in case exec_stmt (add_withdrawal r) s3 of
                               (None, s4) \<Rightarrow> (Inl WatchDB, s4)
                             | (Some n, s4) \<Rightarrow> if hold then (Inr r, s4) else send_withdrawal w (we_now e) r s4)))))"

subsection \<open>Reviewing a held withdrawal\<close>

text \<open>
  A review reads and updates in one transaction, but credits and marks a failure outside of it. The update is
  the transaction's only change, so what a rollback restores is the table of withdrawals before it.
\<close>

definition held_row :: "uuid \<Rightarrow> 'c watcher_db \<Rightarrow> Withdrawal option" where
  "held_row i s = find (\<lambda>r. wd_ID r = i \<and> wd_Status r = ''HOLD'') (withdrawal_rows s)"

definition finish_review :: "(Withdrawal \<Rightarrow> Withdrawal) \<Rightarrow> uuid \<Rightarrow> 'c watcher_db \<Rightarrow> watch_error option \<times> 'c watcher_db" where
  "finish_review f i s =
     (case exec_stmt (set_withdrawals (\<lambda>r. wd_ID r = i) f) s of
        (None, s1) \<Rightarrow> (Some WatchDB, s1\<lparr>withdrawal_rows := withdrawal_rows s\<rparr>)
      | (Some n, s1) \<Rightarrow>
          (case next_fault s1 of
             (Acked, s2) \<Rightarrow> (None, s2)
           | (Lost, s2) \<Rightarrow> (Some WatchDB, s2\<lparr>withdrawal_rows := withdrawal_rows s\<rparr>)
           | (Unacked, s2) \<Rightarrow> (Some WatchDB, s2)))"

definition begin_review :: "uuid \<Rightarrow> 'c watcher_db \<Rightarrow> (watch_error + Withdrawal) \<times> 'c watcher_db" where
  "begin_review i s =
     (case query (\<lambda>_. ()) s of
        (None, s1) \<Rightarrow> (Inl WatchDB, s1)
      | (Some _, s1) \<Rightarrow>
          (case query (held_row i) s1 of
             (None, s2) \<Rightarrow> (Inl WatchDB, s2)
           | (Some None, s2) \<Rightarrow> (Inl (WatchError ''withdrawal not found or not on hold''), s2)
           | (Some (Some r), s2) \<Rightarrow> (Inr r, s2)))"

definition ApproveHeldWithdrawal :: "'c watcher \<Rightarrow> int \<Rightarrow> uuid \<Rightarrow> 'c watcher_db \<Rightarrow> watch_error option \<times> 'c watcher_db" where
  "ApproveHeldWithdrawal w now i s =
     (case begin_review i s of
        (Inl err, s1) \<Rightarrow> (Some err, s1)
      | (Inr r, s1) \<Rightarrow>
          (case call_node (dv_SendToAddress (wt_driver w) (wd_Asset r) (wd_DestAddress r) (wd_Amount r)) s1 of
             (Inl err, s2) \<Rightarrow> (Some err, refund (wd_UserID r) (wd_Asset r) (wd_Amount r) i (wt_Error w err) s2)
           | (Inr tx, s2) \<Rightarrow>
               finish_review (\<lambda>x. x\<lparr>wd_TxHash := tx, wd_Status := ''BROADCAST'', wd_RiskHold := False, wd_SentAt := Some now\<rparr>) i s2))"

definition RejectHeldWithdrawal :: "string \<Rightarrow> uuid \<Rightarrow> 'c watcher_db \<Rightarrow> watch_error option \<times> 'c watcher_db" where
  "RejectHeldWithdrawal reason i s =
     (case begin_review i s of
        (Inl err, s1) \<Rightarrow> (Some err, s1)
      | (Inr r, s1) \<Rightarrow>
          (case Credit (wd_UserID r) (wd_Asset r) (wd_Amount r) s1 of
             (Inl err, s2) \<Rightarrow> (Some (WatchWallet err), s2)
           | (Inr _, s2) \<Rightarrow>
               finish_review (\<lambda>x. x\<lparr>wd_Status := ''REJECTED'', wd_ErrorMsg := ''rejected by admin: '' @ reason, wd_RiskHold := False\<rparr>) i s2))"

subsection \<open>Confirmations\<close>

definition unconfirmed :: "Withdrawal \<Rightarrow> bool" where
  "unconfirmed r \<longleftrightarrow> wd_Status r = ''BROADCAST'' \<and> wd_TxHash r \<noteq> []"

definition confirm_row :: "uuid \<Rightarrow> int \<Rightarrow> int \<Rightarrow> 'c watcher_db \<Rightarrow> (nat \<times> 'c watcher_db) option" where
  "confirm_row i confs db_now =
     set_withdrawals (\<lambda>r. wd_ID r = i \<and> wd_Status r = ''BROADCAST'')
       (\<lambda>r. r\<lparr>wd_Status := ''DONE'', wd_Confirmations := confs, wd_ConfirmedAt := Some db_now\<rparr>)"

definition poll_withdrawal :: "'c watcher \<Rightarrow> int \<Rightarrow> Withdrawal \<Rightarrow> 'c watcher_db \<Rightarrow> 'c watcher_db" where
  "poll_withdrawal w db_now r s =
     (case call_node (dv_GetConfirmations (wt_driver w) (wd_TxHash r)) s of
        (Inl err, s1) \<Rightarrow> s1
      | (Inr confs, s1) \<Rightarrow>
          if min_conf w \<le> confs
          then (case exec_stmt (confirm_row (wd_ID r) confs db_now) s1 of
                  (None, s2) \<Rightarrow> s2
                | (Some n, s2) \<Rightarrow> snd (query (\<lambda>_. ()) s2))
          else snd (exec_stmt (set_withdrawals (\<lambda>x. wd_ID x = wd_ID r \<and> wd_Status x = ''BROADCAST'')
                 (\<lambda>x. x\<lparr>wd_Confirmations := confs\<rparr>)) s1))"

definition PollWithdrawals :: "'c watcher \<Rightarrow> int \<Rightarrow> 'c watcher_db \<Rightarrow> watch_error option \<times> 'c watcher_db" where
  "PollWithdrawals w db_now s =
     (case query (\<lambda>t. take 50 (filter unconfirmed (withdrawal_rows t))) s of
        (None, s1) \<Rightarrow> (Some WatchDB, s1)
      | (Some rs, s1) \<Rightarrow> (None, fold (poll_withdrawal w db_now) rs s1))"

text \<open>One turn of the service's loop.\<close>

definition run_tick :: "'c watcher \<Rightarrow> int \<Rightarrow> 'c watcher_db \<Rightarrow> 'c watcher_db" where
  "run_tick w db_now s = snd (PollWithdrawals w db_now (snd (pollDeposits w s)))"

subsection \<open>Reading\<close>

text \<open>The columns a listing does not select keep their zero values.\<close>

definition listed :: "Withdrawal \<Rightarrow> Withdrawal" where
  "listed r = r\<lparr>wd_Fee := 0, wd_ReceiveAmount := 0, wd_RiskScore := 0, wd_RiskHold := False\<rparr>"

definition newest_withdrawals :: "Withdrawal list \<Rightarrow> Withdrawal list" where
  "newest_withdrawals rs = sort_key (\<lambda>r. - wd_CreatedAt r) rs"

definition ListWithdrawals :: "uuid \<Rightarrow> int \<Rightarrow> 'c watcher_db \<Rightarrow> Withdrawal list option \<times> 'c watcher_db" where
  "ListWithdrawals u n =
     query (\<lambda>t. map listed (take (limit_of n) (newest_withdrawals (filter (\<lambda>r. wd_UserID r = u) (withdrawal_rows t)))))"

definition ListAllWithdrawals :: "int \<Rightarrow> 'c watcher_db \<Rightarrow> Withdrawal list option \<times> 'c watcher_db" where
  "ListAllWithdrawals n s =
     (if n < 0 then (None, snd (query (\<lambda>_. ()) s))
      else query (\<lambda>t. map (\<lambda>r. (listed r)\<lparr>wd_Confirmations := 0\<rparr>) (take (nat n) (newest_withdrawals (withdrawal_rows t)))) s)"

definition ListHeldWithdrawals :: "'c watcher_db \<Rightarrow> Withdrawal list option \<times> 'c watcher_db" where
  "ListHeldWithdrawals =
     query (\<lambda>t. map (\<lambda>r. r\<lparr>wd_Fee := 0, wd_ReceiveAmount := 0, wd_Confirmations := 0\<rparr>)
       (newest_withdrawals (filter (\<lambda>r. wd_Status r = ''HOLD'') (withdrawal_rows t))))"

end
