(* ===== verification/Chain_Watcher_Correct.thy ===== *)
theory Chain_Watcher_Correct
  imports Chain_Withdrawals
begin

text \<open>
  What the chain watcher guarantees for balances, limits and statuses, on the schema its code was written for
  and on the one the migrations leave.
\<close>

subsection \<open>Steps that move nothing\<close>

text \<open>Reads and node calls change the position in the fault script and the node.\<close>

definition quiet :: "'c watcher_db \<Rightarrow> 'c watcher_db \<Rightarrow> bool" where
  "quiet s s' \<longleftrightarrow> (\<exists>fs c. s' = s\<lparr>faults := fs, node := c\<rparr> \<and> (faults s = [] \<longrightarrow> fs = []))"

lemma quietI: "s' = s\<lparr>faults := fs, node := c\<rparr> \<Longrightarrow> (faults s = [] \<Longrightarrow> fs = []) \<Longrightarrow> quiet s s'"
  unfolding quiet_def by blast

lemma quiet_refl [simp]: "quiet s s"
  by (rule quietI [where fs = "faults s" and c = "node s"]) simp_all

lemma quiet_trans: "quiet s t \<Longrightarrow> quiet t v \<Longrightarrow> quiet s v"
proof -
  assume "quiet s t" "quiet t v"
  then obtain fs c fs' c' where "t = s\<lparr>faults := fs, node := c\<rparr>" "faults s = [] \<longrightarrow> fs = []"
    "v = t\<lparr>faults := fs', node := c'\<rparr>" "faults t = [] \<longrightarrow> fs' = []" unfolding quiet_def by blast
  then show ?thesis by (intro quietI [where fs = fs' and c = c']) auto
qed

lemma quietD:
  assumes "quiet s s'"
  shows "balances s' = balances s" "currencies s' = currencies s" "txhash_key s' = txhash_key s" "wd_statuses s' = wd_statuses s"
    "cw_users s' = cw_users s" "deposit_rows s' = deposit_rows s" "withdrawal_rows s' = withdrawal_rows s"
    "wallet_addresses s' = wallet_addresses s" "withdraw_fees s' = withdraw_fees s" "address_states s' = address_states s"
    "faults s = [] \<Longrightarrow> faults s' = []"
  using assms by (auto simp: quiet_def)

lemma next_fault_quiet: "next_fault s = (fl, s') \<Longrightarrow> quiet s s'"
proof -
  assume n: "next_fault s = (fl, s')"
  then have "s' = s\<lparr>faults := tl (faults s), node := node s\<rparr> \<or> s' = s" by (auto simp: next_fault_def split: list.splits)
  then show ?thesis by (auto intro: quietI [where fs = "tl (faults s)" and c = "node s"])
qed

lemma query_quiet: "query f s = (r, s') \<Longrightarrow> quiet s s'"
  by (auto simp: query_def split: prod.splits dest: next_fault_quiet)

lemma call_node_quiet: "call_node f s = (r, s') \<Longrightarrow> quiet s s'"
  by (auto simp: call_node_def split: prod.splits intro!: quietI [where fs = "faults s"])

lemma quiet_wf: "quiet s s' \<Longrightarrow> wf_wallet s' = wf_wallet s"
  by (rule wf_wallet_cong) (rule quietD)

lemma quiet_cols: "quiet s s' \<Longrightarrow> wallet_cols s' = wallet_cols s"
  by (rule wallet_cols_cong) (rule quietD)

lemma exec_cases:
  assumes "exec_stmt f s = (r, s')"
  obtains "r = None" "quiet s s'" | n t where "quiet s t" "f t = Some (n, s')" "r = Some n \<or> r = None"
proof -
  obtain fl s1 where n: "next_fault s = (fl, s1)" by force
  show thesis using assms that next_fault_quiet [OF n] by (auto simp: exec_stmt_def n split: if_splits option.splits)
qed

subsection \<open>The table of withdrawals\<close>

definition wf_row :: "Withdrawal \<Rightarrow> bool" where
  "wf_row r \<longleftrightarrow> 0 \<le> wd_Amount r \<and> scale18 (wd_Amount r) \<and> scale18 (wd_Fee r) \<and> scale18 (wd_ReceiveAmount r)"

lemma store_withdrawal_SomeD:
  assumes "store_withdrawal s r = Some r'"
  shows "r' = r\<lparr>wd_Amount := num18 (wd_Amount r), wd_Fee := num18 (wd_Fee r), wd_ReceiveAmount := num18 (wd_ReceiveAmount r)\<rparr>"
    and "wd_Status r \<in> set (wd_statuses s)" and "wd_UserID r \<in> cu_id ` set (cw_users s)"
  using assms by (auto simp: store_withdrawal_def split: option.splits if_splits dest!: numeric_38_18_SomeD)

lemma store_wf: "store_withdrawal s r = Some r' \<Longrightarrow> wf_row r \<Longrightarrow> r' = r"
  by (drule store_withdrawal_SomeD(1)) (simp add: wf_row_def)

lemma set_withdrawals_SomeD:
  assumes "set_withdrawals P f s = Some (n, s')" and "\<forall>r \<in> set (withdrawal_rows s). wf_row r"
    and "\<And>r. wf_row (f r) = wf_row r"
  shows "s' = s\<lparr>withdrawal_rows := map (\<lambda>r. if P r then f r else r) (withdrawal_rows s)\<rparr>"
    and "\<forall>r \<in> set (withdrawal_rows s). P r \<longrightarrow> wd_Status (f r) \<in> set (wd_statuses s)"
proof -
  obtain rs where rs: "tbl_update P (\<lambda>r. store_withdrawal s (f r)) (withdrawal_rows s) = Some (n, rs)" "s' = s\<lparr>withdrawal_rows := rs\<rparr>"
    using assms(1) by (auto simp: set_withdrawals_def)
  have st: "\<exists>r'. store_withdrawal s (f r) = Some r'" if "r \<in> set (withdrawal_rows s)" "P r" for r
    using tbl_update_SomeD [OF rs(1)] that by auto
  then have the: "the (store_withdrawal s (f r)) = f r" if "r \<in> set (withdrawal_rows s)" "P r" for r
    using that assms(2,3) store_wf by (metis option.sel)
  show "s' = s\<lparr>withdrawal_rows := map (\<lambda>r. if P r then f r else r) (withdrawal_rows s)\<rparr>"
    using rs(2) tbl_update_SomeD [OF rs(1)] the by (auto intro!: arg_cong [where f = "\<lambda>x. s\<lparr>withdrawal_rows := x\<rparr>"])
  show "\<forall>r \<in> set (withdrawal_rows s). P r \<longrightarrow> wd_Status (f r) \<in> set (wd_statuses s)"
    using st store_withdrawal_SomeD(2) by blast
qed

definition wf_withdrawals :: "'c watcher_db \<Rightarrow> bool" where
  "wf_withdrawals s \<longleftrightarrow> (\<forall>r \<in> set (withdrawal_rows s). wf_row r)"

text \<open>What an update of the table can have done, under any fault.\<close>

lemma exec_update_cases:
  assumes "exec_stmt (set_withdrawals P f) s = (r, s')" and "wf_withdrawals s" and "\<And>r. wf_row (f r) = wf_row r"
  obtains "r = None" "quiet s s'"
  | t where "quiet s t" "s' = t\<lparr>withdrawal_rows := map (\<lambda>r. if P r then f r else r) (withdrawal_rows s)\<rparr>"
      "\<forall>r \<in> set (withdrawal_rows s). P r \<longrightarrow> wd_Status (f r) \<in> set (wd_statuses s)"
proof -
  have w: "\<forall>r \<in> set (withdrawal_rows t). wf_row r" if "quiet s t" for t
    using assms(2) quietD(7) [OF that] by (simp add: wf_withdrawals_def)
  show thesis
  proof (rule exec_cases [OF assms(1)])
    assume "r = None" "quiet s s'"
    then show thesis by (rule that(1))
  next
    fix n t assume "quiet s t" "set_withdrawals P f t = Some (n, s')"
    then show thesis
      using set_withdrawals_SomeD [of P f t n s', OF _ w assms(3)] quietD(4,7) [OF \<open>quiet s t\<close>] by (intro that(2)) auto
  qed
qed

subsection \<open>A request, step by step\<close>

lemma WithdrawLimitCheck_steps:
  assumes "WithdrawLimitCheck d u x s = (r, s')"
  shows "quiet s s'" and "r = None \<Longrightarrow> \<exists>row limit. tbl_find cu_id u (cw_users s) = Some row \<and> kyc_limit (cu_kyc_level row) = Some limit \<and>
      used_today d u s + x \<le> limit"
proof -
  obtain q s1 where q: "query (\<lambda>t. tbl_find cu_id u (cw_users t)) s = (q, s1)" by force
  obtain v s2 where v: "DailyWithdrawalUsage d u s1 = (v, s2)" by force
  have q1: "quiet s s1" using q by (rule query_quiet)
  have q2: "quiet s s2" using q1 v unfolding DailyWithdrawalUsage_def by (blast intro: query_quiet quiet_trans)
  show "quiet s s'" using assms q v q1 q2 by (auto simp: WithdrawLimitCheck_def split: option.splits)
  assume "r = None"
  then obtain row limit used where r: "q = Some (Some row)" "kyc_limit (cu_kyc_level row) = Some limit" "v = Some used" "used + x \<le> limit"
    using assms q v by (auto simp: WithdrawLimitCheck_def not_less split: option.splits if_splits)
  have "tbl_find cu_id u (cw_users s1) = Some row" using q r(1) by (auto dest!: query_casesD)
  moreover have "used = used_today d u s2" using v r(3) by (auto simp: DailyWithdrawalUsage_def dest!: query_casesD)
  moreover have "used_today d u s2 = used_today d u s" using quietD(7) [OF q2] by (simp add: used_today_def)
  ultimately show "\<exists>row limit. tbl_find cu_id u (cw_users s) = Some row \<and> kyc_limit (cu_kyc_level row) = Some limit \<and>
      used_today d u s + x \<le> limit"
    using r(2,4) quietD(5) [OF q1] by auto
qed

lemma check_funds_steps:
  assumes "check_funds u asset x s = (r, s')"
  shows "quiet s s'" and "r = Inr fee \<Longrightarrow> x + fee \<le> wallet_available s u asset \<and> fee \<le> x"
proof -
  obtain fee' s1 where f: "computeFee asset x s = (fee', s1)" by force
  obtain q s2 where q: "query (\<lambda>t. map_option available (balances t (u, asset))) s1 = (q, s2)" by force
  have q1: "quiet s s1" using f unfolding computeFee_def by (auto split: prod.splits option.splits dest: query_quiet)
  have q2: "quiet s s2" using q1 query_quiet [OF q] by (rule quiet_trans)
  show "quiet s s'" using assms f q q1 q2 by (auto simp: check_funds_def split: option.splits if_splits)
  assume "r = Inr fee"
  then have "fee' = fee" "fee \<le> x" "\<exists>a. q = Some (Some a) \<and> x + fee \<le> a"
    using assms f q by (auto simp: check_funds_def not_less split: option.splits if_splits)
  then show "x + fee \<le> wallet_available s u asset \<and> fee \<le> x"
    using q quietD(1) [OF q1] by (auto simp: wallet_available_def dest!: query_casesD split: option.splits)
qed

lemma computeWithdrawRisk_quiet: "computeWithdrawRisk n d u x a s = (k, s') \<Longrightarrow> quiet s s'"
  unfolding computeWithdrawRisk_def Let_def
  by (auto split: prod.splits dest!: query_quiet) (meson quiet_trans)

definition requested_withdrawal :: "'c watcher \<Rightarrow> watch_env \<Rightarrow> uuid \<Rightarrow> string \<Rightarrow> string \<Rightarrow> decimal \<Rightarrow> Withdrawal \<Rightarrow> bool" where
  "requested_withdrawal w e u asset dest x r \<longleftrightarrow>
     wd_ID r = we_new_id e \<and> wd_UserID r = u \<and> wd_Asset r = asset \<and> wd_Amount r = x \<and> wd_DestAddress r = dest \<and>
     wd_ReceiveAmount r = x - wd_Fee r \<and> wd_CreatedAt r = we_now e \<and> wd_TxHash r = [] \<and>
     wd_Status r = (if wd_RiskHold r then ''HOLD'' else ''PENDING'')"

lemma WithdrawWithSigner_cases:
  assumes "WithdrawWithSigner w e u asset dest x s = (res, s')"
  obtains (refused) err where "quiet s s'" "res = Inl err" "err \<noteq> Panicked"
  | (entered) r t m s4 row limit where "0 < x" "quiet s t" "requested_withdrawal w e u asset dest x r"
      "tbl_find cu_id u (cw_users s) = Some row" "kyc_limit (cu_kyc_level row) = Some limit"
      "used_today (we_day_start e) u s + x \<le> limit" "x + wd_Fee r \<le> wallet_available s u asset" "wd_Fee r \<le> x"
      "exec_stmt (add_withdrawal r) t = (m, s4)" "m = None \<longrightarrow> res = Inl WatchDB \<and> s' = s4"
      "m \<noteq> None \<and> wd_RiskHold r \<longrightarrow> res = Inr r \<and> s' = s4"
      "m \<noteq> None \<and> \<not> wd_RiskHold r \<longrightarrow> send_withdrawal w (we_now e) r s4 = (res, s')"
proof -
  obtain l s1 where l: "WithdrawLimitCheck (we_day_start e) u x s = (l, s1)" by force
  obtain c s2 where c: "check_funds u asset x s1 = (c, s2)" by force
  obtain k s3 where k: "computeWithdrawRisk (we_now e) (we_db_now e) u x dest s2 = (k, s3)" by force
  have q1: "quiet s s1" using l by (rule WithdrawLimitCheck_steps)
  have q2: "quiet s s2" using q1 check_funds_steps(1) [OF c] by (rule quiet_trans)
  have q3: "quiet s s3" using q2 computeWithdrawRisk_quiet [OF k] by (rule quiet_trans)
  note unfolded = assms [unfolded WithdrawWithSigner_def l c k prod.case]
  show thesis
  proof (cases "0 < x \<and> l = None \<and> (\<exists>fee. c = Inr fee) \<and> ActionForScore k \<noteq> ActionBlock")
    case False
    have np: "c \<noteq> Inl Panicked" using c by (auto simp: check_funds_def split: prod.splits option.splits if_splits)
    have nl: "l \<noteq> Some Panicked" using l by (auto simp: WithdrawLimitCheck_def split: prod.splits option.splits if_splits)
    have "\<exists>err. res = Inl err \<and> err \<noteq> Panicked \<and> quiet s s'"
      using unfolded False q1 q2 q3 np nl by (auto simp: Let_def split: if_splits option.splits sum.splits)
    then show thesis using refused by blast
  next
    case True
    then obtain fee where fee: "c = Inr fee" by blast
    let ?h = "ActionForScore k = ActionHold"
    define r where "r = \<lparr>wd_ID = we_new_id e, wd_UserID = u, wd_Asset = asset, wd_Amount = x, wd_Fee = fee,
       wd_ReceiveAmount = x - fee, wd_DestAddress = dest, wd_TxHash = [],
       wd_Chain = chainForAsset w asset, wd_Status = (if ?h then ''HOLD'' else ''PENDING''),
       wd_Confirmations = 0, wd_ErrorMsg = [], wd_CreatedAt = we_now e, wd_SentAt = None,
       wd_ConfirmedAt = None, wd_RiskScore = k, wd_RiskHold = ?h\<rparr>"
    obtain m s4 where m: "exec_stmt (add_withdrawal r) s3 = (m, s4)" by force
    have nw: "requested_withdrawal w e u asset dest x r" by (simp add: requested_withdrawal_def r_def)
    obtain row limit where lim: "tbl_find cu_id u (cw_users s) = Some row" "kyc_limit (cu_kyc_level row) = Some limit"
      "used_today (we_day_start e) u s + x \<le> limit"
      using WithdrawLimitCheck_steps(2) [OF l] True by blast
    have fd: "x + wd_Fee r \<le> wallet_available s u asset" "wd_Fee r \<le> x"
      using check_funds_steps(2) [OF c fee] wallet_cols_cong [OF quietD(1) [OF q1]] by (simp_all add: r_def wallet_cols_def)
    have "(case m of None \<Rightarrow> (Inl WatchDB, s4) | Some n \<Rightarrow> if wd_RiskHold r then (Inr r, s4) else send_withdrawal w (we_now e) r s4) = (res, s')"
      using unfolded True fee m unfolding r_def Let_def by (cases m) (simp_all split: if_splits)
    then show thesis using True q3 nw lim fd m by (intro entered) (auto split: option.splits)
  qed
qed

subsection \<open>Sending\<close>

lemma Debit_exec: "DebitAvailable u a x s = wallet_exec (CmdDebitAvailable u a x) s"
  and Credit_exec: "Credit u a x s = wallet_exec (CmdCredit u a x) s"
  by simp_all

lemma only_balances_fields:
  assumes "only_balances s s'"
  shows "withdrawal_rows s' = withdrawal_rows s" "wd_statuses s' = wd_statuses s" "cw_users s' = cw_users s"
    "deposit_rows s' = deposit_rows s" "txhash_key s' = txhash_key s" "wallet_addresses s' = wallet_addresses s" "node s' = node s"
  using assms by (auto simp: only_balances_def)

lemma wallet_exec_fields:
  assumes "wallet_exec c s = (r, s')"
  shows "withdrawal_rows s' = withdrawal_rows s" "wd_statuses s' = wd_statuses s" "cw_users s' = cw_users s"
    "deposit_rows s' = deposit_rows s" "txhash_key s' = txhash_key s" "wallet_addresses s' = wallet_addresses s" "node s' = node s"
  using only_balances_fields [OF wallet_exec_frame [OF assms]] by auto

lemma quiet_rows: "quiet s t \<Longrightarrow> quiet (s\<lparr>withdrawal_rows := rs\<rparr>) (t\<lparr>withdrawal_rows := rs\<rparr>)"
proof -
  assume "quiet s t"
  then obtain fs c where "t = s\<lparr>faults := fs, node := c\<rparr>" "faults s = [] \<longrightarrow> fs = []" unfolding quiet_def by blast
  then show ?thesis by (intro quietI [where fs = fs and c = c]) auto
qed

text \<open>The tables a withdrawal does not touch, and what it can do to the row it is about.\<close>

definition others :: "'c watcher_db \<Rightarrow> 'c watcher_db \<Rightarrow> bool" where
  "others s s' \<longleftrightarrow> txhash_key s' = txhash_key s \<and> wd_statuses s' = wd_statuses s \<and> cw_users s' = cw_users s \<and>
     deposit_rows s' = deposit_rows s"

lemma others_refl [simp]: "others s s"
  and others_trans: "others s t \<Longrightarrow> others t v \<Longrightarrow> others s v"
  and quiet_others: "quiet s s' \<Longrightarrow> others s s'"
  and exec_others: "wallet_exec c s = (r, s') \<Longrightarrow> others s s'"
  by (auto simp: others_def dest: quietD wallet_exec_fields)

definition marked :: "uuid \<Rightarrow> 'c watcher_db \<Rightarrow> 'c watcher_db \<Rightarrow> bool" where
  "marked i s s' \<longleftrightarrow>
     (\<exists>g. withdrawal_rows s' = map (\<lambda>x. if wd_ID x = i then g x else x) (withdrawal_rows s) \<and>
        (\<forall>x. wf_row (g x) = wf_row x \<and> wd_ID (g x) = wd_ID x \<and> wd_UserID (g x) = wd_UserID x \<and>
             wd_Amount (g x) = wd_Amount x \<and> wd_CreatedAt (g x) = wd_CreatedAt x) \<and>
        (\<forall>x \<in> set (withdrawal_rows s). wd_ID x = i \<longrightarrow>
             wd_Status (g x) = wd_Status x \<or> wd_Status (g x) \<in> {''FAILED'', ''BROADCAST''} \<inter> set (wd_statuses s)))"

lemma marked_same: "withdrawal_rows s' = withdrawal_rows s \<Longrightarrow> marked i s s'"
  unfolding marked_def by (intro exI [of _ "\<lambda>x. x"]) simp

lemma marked_cong:
  "withdrawal_rows s = withdrawal_rows t \<Longrightarrow> wd_statuses s = wd_statuses t \<Longrightarrow> withdrawal_rows s' = withdrawal_rows t' \<Longrightarrow>
     marked i s s' = marked i t t'"
  by (simp add: marked_def)

lemma marked_wf: "wf_withdrawals s \<Longrightarrow> marked i s s' \<Longrightarrow> wf_withdrawals s'"
  by (auto simp: wf_withdrawals_def marked_def)

lemma exec_marked:
  assumes "exec_stmt (set_withdrawals (\<lambda>x. wd_ID x = i) f) s = (m, s')" and "wf_withdrawals s"
    and "\<And>x. wf_row (f x) = wf_row x \<and> wd_ID (f x) = wd_ID x \<and> wd_UserID (f x) = wd_UserID x \<and>
             wd_Amount (f x) = wd_Amount x \<and> wd_CreatedAt (f x) = wd_CreatedAt x \<and> wd_Status (f x) \<in> {''FAILED'', ''BROADCAST''}"
  shows "marked i s s' \<and> others s s' \<and> balances s' = balances s"
  using assms(1,2)
proof (rule exec_update_cases)
  show "wf_row (f r) = wf_row r" for r using assms(3) by simp
next
  assume "quiet s s'"
  then show ?thesis by (simp add: marked_same quietD quiet_others)
next
  fix t assume t: "quiet s t" "s' = t\<lparr>withdrawal_rows := map (\<lambda>r. if wd_ID r = i then f r else r) (withdrawal_rows s)\<rparr>"
    "\<forall>r \<in> set (withdrawal_rows s). wd_ID r = i \<longrightarrow> wd_Status (f r) \<in> set (wd_statuses s)"
  then have "marked i s s'" unfolding marked_def using assms(3) by (intro exI [of _ f]) auto
  then show ?thesis using t(2) quietD [OF t(1)] by (simp add: others_def)
qed

lemma failWithdrawal_marked:
  assumes "wf_withdrawals s"
  shows "marked i s (failWithdrawal i msg s) \<and> others s (failWithdrawal i msg s) \<and> balances (failWithdrawal i msg s) = balances s"
proof -
  let ?f = "\<lambda>r. r\<lparr>wd_Status := ''FAILED'', wd_ErrorMsg := msg\<rparr>"
  obtain m s1 where e: "exec_stmt (set_withdrawals (\<lambda>r. wd_ID r = i) ?f) s = (m, s1)" by force
  obtain q s2 where q: "query (\<lambda>_. ()) s1 = (q, s2)" by force
  have "marked i s s1 \<and> others s s1 \<and> balances s1 = balances s"
    by (rule exec_marked [OF e assms]) (simp add: wf_row_def)
  moreover have "failWithdrawal i msg s = s2" by (simp add: failWithdrawal_def e q)
  ultimately show ?thesis
    using query_quiet [OF q] marked_cong [of s s s2 s1 i] by (auto simp: quietD intro: others_trans quiet_others)
qed

text \<open>A balance that can only have gone down, on the available side.\<close>

definition drained :: "'c watcher_db \<Rightarrow> 'c watcher_db \<Rightarrow> bool" where
  "drained s s' \<longleftrightarrow> (\<forall>u a. wallet_available s' u a \<le> wallet_available s u a \<and> wallet_frozen s' u a = wallet_frozen s u a)"

lemma drained_refl [simp]: "drained s s"
  and drained_trans: "drained s t \<Longrightarrow> drained t v \<Longrightarrow> drained s v"
  by (auto simp: drained_def) (meson order_trans)

lemma drained_cong: "balances s = balances t \<Longrightarrow> balances s' = balances t' \<Longrightarrow> drained s s' = drained t t'"
  by (simp add: drained_def wallet_available_def wallet_frozen_def)

lemma send_withdrawal_effect:
  assumes send: "send_withdrawal w now r s = (res, s')" and wf: "wf_wallet s" "wf_withdrawals s" "scale18 (wd_Amount r)"
  shows "wf_wallet s' \<and> others s s' \<and> marked (wd_ID r) s s' \<and> drained s s'"
proof -
  let ?u = "wd_UserID r" and ?a = "wd_Asset r" and ?x = "wd_Amount r"
  obtain d s1 where d: "wallet_exec (CmdDebitAvailable ?u ?a ?x) s = (d, s1)" by force
  note eff = wallet_exec_effect [OF d wf(1)]
  have wf1: "wf_wallet s1" "wf_withdrawals s1" using eff(1) wf wallet_exec_fields(1) [OF d] by (simp_all add: wf_withdrawals_def)
  have dr1: "drained s s1" using eff(2) wf(3) by (auto simp: drained_def wallet_cols_def applies_def fun_eq_iff)
  have o1: "others s s1" using d by (rule exec_others)
  have m1: "marked (wd_ID r) s t = marked (wd_ID r) s1 t" for t
    using wallet_exec_fields(1,2) [OF d] by (intro marked_cong) auto
  have fail: "wf_wallet (failWithdrawal (wd_ID r) msg t) \<and> others s (failWithdrawal (wd_ID r) msg t) \<and>
      marked (wd_ID r) s (failWithdrawal (wd_ID r) msg t) \<and> drained s (failWithdrawal (wd_ID r) msg t)"
    if "withdrawal_rows t = withdrawal_rows s" "others s t" "wf_wallet t" "drained s t" for t msg
  proof -
    have "wf_withdrawals t" using that(1) wf(2) by (simp add: wf_withdrawals_def)
    note f = failWithdrawal_marked [OF this, of "wd_ID r" msg]
    have "marked (wd_ID r) s (failWithdrawal (wd_ID r) msg t)"
      using f marked_cong [of t s "failWithdrawal (wd_ID r) msg t" "failWithdrawal (wd_ID r) msg t"] that(1,2) by (simp add: others_def)
    then show ?thesis
      using f that others_trans wf_wallet_cong [of "failWithdrawal (wd_ID r) msg t" t]
        drained_cong [of s s "failWithdrawal (wd_ID r) msg t" t] by auto
  qed
  have repaid: "wf_wallet t \<and> others s t \<and> withdrawal_rows t = withdrawal_rows s \<and> drained s t"
    if dd: "d = Inr ()" and q: "quiet s1 v" and c: "wallet_exec (CmdCredit ?u ?a ?x) v = (k, t)" for v k t
  proof -
    have wfv: "wf_wallet v" using wf1(1) quiet_wf [OF q] by simp
    note ev = wallet_exec_effect [OF c wfv]
    have ap: "applies (CmdDebitAvailable ?u ?a ?x) (wallet_cols s) (wallet_cols s1)" using eff(2) wf(3) dd by auto
    have "drained s t"
      using ev(2) ap wf(3) eff(2) quiet_cols [OF q] by (auto simp: drained_def wallet_cols_def applies_def fun_eq_iff)
    moreover have "others s t" by (rule others_trans [OF others_trans [OF o1 quiet_others [OF q]] exec_others [OF c]])
    ultimately show ?thesis
      using ev(1) wf(3) wallet_exec_fields(1) [OF c] wallet_exec_fields(1) [OF d] quietD(7) [OF q] by auto
  qed
  note unf = send [unfolded send_withdrawal_def Let_def Debit_exec d prod.case]
  show ?thesis
  proof (cases d)
    case (Inl err)
    then show ?thesis
      using unf fail [of s1] wallet_exec_fields(1) [OF d] o1 wf1(1) dr1 by auto
  next
    case (Inr un)
    then have dd: "d = Inr ()" by simp
    show ?thesis
    proof (cases "wt_chainWallet w")
      case None
      obtain k t where c: "wallet_exec (CmdCredit ?u ?a ?x) s1 = (k, t)" by force
      have "s' = failWithdrawal (wd_ID r) ''chainWallet not configured (signer service unavailable)'' t"
        using unf dd None c by (simp add: refund_def)
      then show ?thesis using fail repaid [OF dd quiet_refl c] by auto
    next
      case (Some m)
      obtain y s2 where y: "call_node (manager_Send m (normalizeChainName (chainForAsset w ?a)) (wd_DestAddress r) ?x [] (wd_ID r) ?u) s1 = (y, s2)"
        by force
      have q: "quiet s1 s2" using y by (rule call_node_quiet)
      show ?thesis
      proof (cases y)
        case (Inl err)
        obtain k t where c: "wallet_exec (CmdCredit ?u ?a ?x) s2 = (k, t)" by force
        have "s' = failWithdrawal (wd_ID r) err t" using unf dd Some y Inl c by (simp add: refund_def)
        then show ?thesis using fail repaid [OF dd q c] by auto
      next
        case (Inr tx)
        obtain k s3 where e: "exec_stmt (mark_sent (wd_ID r) tx now) s2 = (k, s3)" by force
        have s': "s' = s3" using unf dd Some y Inr e by (auto split: if_splits)
        have "wf_withdrawals s2" using wf1(2) quietD(7) [OF q] by (simp add: wf_withdrawals_def)
        from exec_marked [OF e [unfolded mark_sent_def] this]
        have ms: "marked (wd_ID r) s2 s3 \<and> others s2 s3 \<and> balances s3 = balances s2" by (simp add: wf_row_def)
        then have "marked (wd_ID r) s s3"
          using marked_cong [of s2 s s3 s3 "wd_ID r"] quietD(4,7) [OF q] wallet_exec_fields(1,2) [OF d] by simp
        moreover have "balances s3 = balances s1" using ms quietD(1) [OF q] by simp
        moreover have "others s s3" using ms others_trans [OF others_trans [OF o1 quiet_others [OF q]]] by blast
        ultimately show ?thesis using s' wf1(1) wf_wallet_cong [of s3 s1] dr1 drained_cong [of s s s3 s1] by auto
      qed
    qed
  qed
qed

end
