(* ===== verification/Chain_Watcher_Safety.thy ===== *)
theory Chain_Watcher_Safety
  imports Chain_Watcher_Correct
begin

text \<open>The properties of the chain watcher's withdrawals and deposits.\<close>

subsection \<open>The daily limit\<close>

definition counted :: "int \<Rightarrow> uuid \<Rightarrow> Withdrawal \<Rightarrow> decimal" where
  "counted d u r = (if wd_UserID r = u \<and> wd_Status r \<in> {''PENDING'', ''BROADCAST'', ''DONE''} \<and> d \<le> wd_CreatedAt r then wd_Amount r else 0)"

lemma used_today_counted: "used_today d u s = sum_list (map (counted d u) (withdrawal_rows s))"
  unfolding used_today_def counted_def by (rule sum_list_map_filter')

definition within_limits :: "int \<Rightarrow> 'c watcher_db \<Rightarrow> bool" where
  "within_limits d s \<longleftrightarrow>
     (\<forall>u row limit. tbl_find cu_id u (cw_users s) = Some row \<longrightarrow> kyc_limit (cu_kyc_level row) = Some limit \<longrightarrow> used_today d u s \<le> limit)"

lemma within_cong: "withdrawal_rows s = withdrawal_rows t \<Longrightarrow> cw_users s = cw_users t \<Longrightarrow> within_limits d s = within_limits d t"
  by (simp add: within_limits_def used_today_def)

lemma add_withdrawal_cases:
  assumes "exec_stmt (add_withdrawal r) t = (m, s4)" and "scale18 (wd_Amount r)" and "0 < wd_Amount r"
  obtains "m = None" "quiet t s4"
  | v r' where "quiet t v" "s4 = v\<lparr>withdrawal_rows := withdrawal_rows t @ [r']\<rparr>" "wf_row r'"
      "r' = r\<lparr>wd_Fee := num18 (wd_Fee r), wd_ReceiveAmount := num18 (wd_ReceiveAmount r)\<rparr>"
      "wd_ID r \<notin> wd_ID ` set (withdrawal_rows t)" "wd_Status r \<in> set (wd_statuses t)"
proof (rule exec_cases [OF assms(1)])
  assume "m = None" "quiet t s4"
  then show thesis by (rule that(1))
next
  fix n v assume v: "quiet t v" "add_withdrawal r v = Some (n, s4)"
  then obtain r' where r': "store_withdrawal v r = Some r'" and rs: "tbl_insert wd_ID r' (withdrawal_rows v) = Some (withdrawal_rows v @ [r'])"
      "wd_ID r' \<notin> wd_ID ` set (withdrawal_rows v)" and s4: "s4 = v\<lparr>withdrawal_rows := withdrawal_rows v @ [r']\<rparr>"
    by (auto simp: add_withdrawal_def tbl_insert_def bind_eq_Some_conv split: if_splits)
  have e: "r' = r\<lparr>wd_Fee := num18 (wd_Fee r), wd_ReceiveAmount := num18 (wd_ReceiveAmount r)\<rparr>"
    using store_withdrawal_SomeD(1) [OF r'] assms(2) by simp
  have "wf_row r'" using e assms(2,3) by (simp add: wf_row_def)
  then show thesis
    using that(2) [OF v(1) _ _ e] s4 rs(2) e store_withdrawal_SomeD(2) [OF r'] quietD [OF v(1)] by simp
qed

lemma marked_counted:
  assumes "marked i s s'" and "wf_withdrawals s" and "\<forall>x \<in> set (withdrawal_rows s). wd_ID x = i \<longrightarrow> wd_Status x = ''PENDING''"
  shows "used_today d u s' \<le> used_today d u s"
proof -
  obtain g where g: "withdrawal_rows s' = map (\<lambda>x. if wd_ID x = i then g x else x) (withdrawal_rows s)"
    "\<And>x. wd_UserID (g x) = wd_UserID x \<and> wd_Amount (g x) = wd_Amount x \<and> wd_CreatedAt (g x) = wd_CreatedAt x"
    using assms(1) unfolding marked_def by blast
  have "counted d u (if wd_ID x = i then g x else x) \<le> counted d u x" if "x \<in> set (withdrawal_rows s)" for x
    using that assms(2,3) g(2) [of x] by (auto simp: counted_def wf_withdrawals_def wf_row_def)
  then show ?thesis unfolding used_today_counted g(1) map_map comp_def by (rule sum_list_mono)
qed

lemma used_nonneg: "wf_withdrawals s \<Longrightarrow> 0 \<le> used_today d u s"
  unfolding used_today_counted by (intro sum_list_nonneg) (auto simp: counted_def wf_withdrawals_def wf_row_def)

lemma withdraw_within:
  assumes "wf_wallet s" and "wf_withdrawals s" and "within_limits d s" and "we_day_start e = d" and "scale18 x"
    and "WithdrawWithSigner w e u asset dest x s = (res, s')"
  shows "wf_wallet s' \<and> wf_withdrawals s' \<and> within_limits d s' \<and> cw_users s' = cw_users s"
  using assms(6)
proof (cases rule: WithdrawWithSigner_cases)
  case (refused err)
  then show ?thesis
    using assms(1-3) quiet_wf quietD(5,7) [OF refused(1)] within_cong [of s' s d] by (auto simp: wf_withdrawals_def)
next
  case (entered r t m s4 row limit)
  have t: "wf_wallet t" "wf_withdrawals t" "within_limits d t" "cw_users t = cw_users s"
    using assms(1-3) quiet_wf [OF entered(2)] quietD(5,7) [OF entered(2)] within_cong [of t s d] by (auto simp: wf_withdrawals_def)
  have r: "wd_Amount r = x" "wd_UserID r = u" "wd_ID r = we_new_id e" using entered(3) by (simp_all add: requested_withdrawal_def)
  show ?thesis
  proof (rule add_withdrawal_cases [OF entered(9)])
    show "scale18 (wd_Amount r)" "0 < wd_Amount r" using assms(5) entered(1) r by simp_all
  next
    assume "m = None" "quiet t s4"
    then show ?thesis
      using entered(10) t quiet_wf quietD(5,7) [of t s4] within_cong [of s4 t d] by (auto simp: wf_withdrawals_def)
  next
    fix v r' assume v: "quiet t v" "s4 = v\<lparr>withdrawal_rows := withdrawal_rows t @ [r']\<rparr>" "wf_row r'"
      "r' = r\<lparr>wd_Fee := num18 (wd_Fee r), wd_ReceiveAmount := num18 (wd_ReceiveAmount r)\<rparr>"
      "wd_ID r \<notin> wd_ID ` set (withdrawal_rows t)"
    have s4: "wf_wallet s4" "wf_withdrawals s4" "cw_users s4 = cw_users s" "withdrawal_rows s4 = withdrawal_rows t @ [r']"
      using t v(2,3) quietD(1,5) [OF v(1)] wf_wallet_cong [of s4 t] by (auto simp: wf_withdrawals_def)
    have sum4: "used_today d z s4 = used_today d z t + counted d z r'" for z by (simp add: used_today_counted s4(4))
    have new: "counted d z r' \<le> (if z = u then x else 0)" for z using entered(1) v(4) r by (auto simp: counted_def)
    have room: "used_today d u t + x \<le> limit"
      using entered(6) assms(4) quietD(7) [OF entered(2)] by (simp add: used_today_def)
    have le4: "used_today d z s4 \<le> (if z = u then limit else used_today d z t)" for z
      using sum4 [of z] new [of z] room by (cases "z = u") auto
    have w4: "within_limits d s4"
      unfolding within_limits_def
    proof (intro allI impI)
      fix z row' limit' assume z: "tbl_find cu_id z (cw_users s4) = Some row'" "kyc_limit (cu_kyc_level row') = Some limit'"
      show "used_today d z s4 \<le> limit'"
      proof (cases "z = u")
        case True
        then show ?thesis using z entered(4,5) s4(3) le4 [of z] by simp
      next
        case False
        then have "used_today d z t \<le> limit'" using z t(3,4) s4(3) by (simp add: within_limits_def)
        then show ?thesis using False le4 [of z] by simp
      qed
    qed
    consider "s' = s4" | "send_withdrawal w (we_now e) r s4 = (res, s')" "\<not> wd_RiskHold r" using entered(10,11,12) by blast
    then show ?thesis
    proof cases
      case 1
      then show ?thesis using s4 w4 by simp
    next
      case 2
      have eff: "wf_wallet s' \<and> others s4 s' \<and> marked (wd_ID r) s4 s'"
        using send_withdrawal_effect [OF 2(1) s4(1,2)] assms(5) r(1) by simp
      have st: "wd_Status r = ''PENDING''" using 2(2) entered(3) by (simp add: requested_withdrawal_def)
      have no: "wd_ID y \<noteq> wd_ID r" if "y \<in> set (withdrawal_rows t)" for y using v(5) that by (metis imageI)
      have "\<forall>y \<in> set (withdrawal_rows s4). wd_ID y = wd_ID r \<longrightarrow> wd_Status y = ''PENDING''"
        unfolding s4(4) using v(4) st no by auto
      then have le: "used_today d z s' \<le> used_today d z s4" for z using marked_counted eff s4(2) by blast
      have us: "cw_users s' = cw_users s4" using eff by (simp add: others_def)
      have "within_limits d s'"
        unfolding within_limits_def
      proof (intro allI impI)
        fix z row' limit' assume "tbl_find cu_id z (cw_users s') = Some row'" "kyc_limit (cu_kyc_level row') = Some limit'"
        then have "used_today d z s4 \<le> limit'" using w4 us unfolding within_limits_def by simp
        then show "used_today d z s' \<le> limit'" by (rule order_trans [OF le])
      qed
      then show ?thesis using eff marked_wf [OF s4(2), of "wd_ID r" s'] us s4(3) by simp
    qed
  qed
qed


text \<open>What polling does: a broadcast row may become done, and nothing else happens to a row or a balance.\<close>

definition row_polled :: "Withdrawal \<Rightarrow> Withdrawal \<Rightarrow> bool" where
  "row_polled x y \<longleftrightarrow> wf_row y = wf_row x \<and> wd_ID y = wd_ID x \<and> wd_UserID y = wd_UserID x \<and> wd_Amount y = wd_Amount x \<and>
     wd_CreatedAt y = wd_CreatedAt x \<and> (wd_Status y = wd_Status x \<or> wd_Status x = ''BROADCAST'' \<and> wd_Status y = ''DONE'')"

definition polled :: "'c watcher_db \<Rightarrow> 'c watcher_db \<Rightarrow> bool" where
  "polled s s' \<longleftrightarrow> others s s' \<and> balances s' = balances s \<and> list_all2 row_polled (withdrawal_rows s) (withdrawal_rows s')"

lemma row_polled_refl [simp]: "row_polled x x"
  and row_polled_trans: "row_polled x y \<Longrightarrow> row_polled y z \<Longrightarrow> row_polled x z"
  by (auto simp: row_polled_def)

lemma polled_trans: "polled s t \<Longrightarrow> polled t v \<Longrightarrow> polled s v"
proof -
  assume "polled s t" "polled t v"
  moreover have "list_all2 row_polled xs zs" if "list_all2 row_polled xs ys" "list_all2 row_polled ys zs" for xs ys zs
    using that by (rule list_all2_trans [rotated]) (rule row_polled_trans)
  ultimately show ?thesis unfolding polled_def using others_trans by auto
qed

lemma quiet_polled: "quiet s s' \<Longrightarrow> polled s s'"
  by (simp add: polled_def quiet_others quietD list_all2_same)

lemma polled_wf: "polled s s' \<Longrightarrow> wf_withdrawals s \<Longrightarrow> wf_withdrawals s'"
proof -
  assume "polled s s'"
  then have "list_all2 row_polled (withdrawal_rows s) (withdrawal_rows s')" by (simp add: polled_def)
  then have "(\<forall>x \<in> set (withdrawal_rows s). wf_row x) \<Longrightarrow> \<forall>x \<in> set (withdrawal_rows s'). wf_row x"
    by (induction rule: list_all2_induct) (simp_all add: row_polled_def)
  then show "wf_withdrawals s \<Longrightarrow> wf_withdrawals s'" by (simp add: wf_withdrawals_def)
qed

lemma polled_used: "polled s s' \<Longrightarrow> used_today d u s' = used_today d u s"
proof -
  assume "polled s s'"
  then have "list_all2 row_polled (withdrawal_rows s) (withdrawal_rows s')" by (simp add: polled_def)
  then have "map (counted d u) (withdrawal_rows s') = map (counted d u) (withdrawal_rows s)"
    by (induction rule: list_all2_induct) (auto simp: counted_def row_polled_def)
  then show ?thesis by (simp add: used_today_counted)
qed

lemma update_polled:
  assumes "exec_stmt (set_withdrawals (\<lambda>x. wd_ID x = i \<and> wd_Status x = ''BROADCAST'') f) s = (m, s')" and "wf_withdrawals s"
    and "\<And>x. wf_row (f x) = wf_row x" and "\<And>x. wd_Status x = ''BROADCAST'' \<Longrightarrow> row_polled x (f x)"
  shows "polled s s'"
  using assms(1,2)
proof (rule exec_update_cases)
  show "wf_row (f r) = wf_row r" for r by (rule assms(3))
next
  assume "quiet s s'"
  then show ?thesis by (rule quiet_polled)
next
  fix t assume "quiet s t"
    "s' = t\<lparr>withdrawal_rows := map (\<lambda>r. if wd_ID r = i \<and> wd_Status r = ''BROADCAST'' then f r else r) (withdrawal_rows s)\<rparr>"
  then show ?thesis
    using quietD [OF \<open>quiet s t\<close>] assms(4) by (simp add: polled_def others_def list_all2_map2 list_all2_same)
qed

lemma poll_withdrawal_polled:
  assumes "wf_withdrawals s"
  shows "polled s (poll_withdrawal w t r s)"
proof -
  obtain k s1 where k: "call_node (dv_GetConfirmations (wt_driver w) (wd_TxHash r)) s = (k, s1)" by force
  have q: "polled s s1" using call_node_quiet [OF k] by (rule quiet_polled)
  have w1: "wf_withdrawals s1" using q assms by (rule polled_wf)
  show ?thesis
  proof (cases k)
    case (Inl e)
    then show ?thesis using q k by (simp add: poll_withdrawal_def)
  next
    case (Inr c)
    obtain m s2 where m: "exec_stmt (confirm_row (wd_ID r) c t) s1 = (m, s2)" by force
    obtain n s3 where n: "exec_stmt (set_withdrawals (\<lambda>x. wd_ID x = wd_ID r \<and> wd_Status x = ''BROADCAST'')
        (\<lambda>x. x\<lparr>wd_Confirmations := c\<rparr>)) s1 = (n, s3)" by force
    obtain v s4 where v: "query (\<lambda>_. ()) s2 = (v, s4)" by force
    have "polled s1 s2"
      by (rule update_polled [OF m [unfolded confirm_row_def] w1]) (simp_all add: row_polled_def wf_row_def)
    moreover have "polled s1 s3" by (rule update_polled [OF n w1]) (simp_all add: row_polled_def wf_row_def)
    moreover have "polled s2 s4" using query_quiet [OF v] by (rule quiet_polled)
    ultimately show ?thesis
      using q k Inr m n v by (auto simp: poll_withdrawal_def split: option.split intro: polled_trans)
  qed
qed

lemma poll_rows_polled: "wf_withdrawals s \<Longrightarrow> polled s (fold (poll_withdrawal w t) rs s)"
proof (induction rs arbitrary: s)
  case (Cons r rs)
  have "polled s (poll_withdrawal w t r s)" using Cons.prems by (rule poll_withdrawal_polled)
  with Cons.IH [OF polled_wf [OF this Cons.prems]] show ?case by (auto intro: polled_trans)
qed (simp add: quiet_polled)

lemma pollDeposits_quiet: "pollDeposits w s = (r, s') \<Longrightarrow> quiet s s'"
  by (auto simp: pollDeposits_def split: prod.splits option.splits list.splits dest: query_quiet)

lemma run_tick_polled:
  assumes "wf_withdrawals s"
  shows "polled s (run_tick w t s)"
proof -
  obtain a s1 where a: "pollDeposits w s = (a, s1)" by force
  obtain q s2 where q: "query (\<lambda>t. take 50 (filter unconfirmed (withdrawal_rows t))) s1 = (q, s2)" by force
  have p: "polled s s1" "polled s s2"
    using quiet_trans [OF pollDeposits_quiet [OF a] query_quiet [OF q]] pollDeposits_quiet [OF a] by (simp_all add: quiet_polled)
  show ?thesis
    using a q p(2) polled_trans [OF p(2) poll_rows_polled [OF polled_wf [OF p(2) assms]]]
    by (auto simp: run_tick_def PollWithdrawals_def split: option.splits)
qed

datatype limit_op = Request_op watch_env uuid string string decimal | Tick_op int

fun limit_step :: "'c watcher \<Rightarrow> limit_op \<Rightarrow> 'c watcher_db \<Rightarrow> 'c watcher_db" where
  "limit_step w (Request_op e u asset dest x) s = snd (WithdrawWithSigner w e u asset dest x s)"
| "limit_step w (Tick_op t) s = run_tick w t s"

text \<open>A request of the day that begins at d, with an amount that the columns hold exactly.\<close>

fun on_day :: "int \<Rightarrow> limit_op \<Rightarrow> bool" where
  "on_day d (Request_op e u asset dest x) = (we_day_start e = d \<and> scale18 x)"
| "on_day d (Tick_op t) = True"

lemma limit_step_within:
  assumes "on_day d op" and "wf_wallet s" "wf_withdrawals s" "within_limits d s"
  shows "wf_wallet (limit_step w op s) \<and> wf_withdrawals (limit_step w op s) \<and> within_limits d (limit_step w op s) \<and>
    cw_users (limit_step w op s) = cw_users s"
proof (cases op)
  case (Request_op e u asset dest x)
  obtain r s' where "WithdrawWithSigner w e u asset dest x s = (r, s')" by force
  from withdraw_within [OF assms(2-4) _ _ this] show ?thesis using assms(1) Request_op \<open>_ = (r, s')\<close> by simp
next
  case (Tick_op t)
  have p: "polled s (run_tick w t s)" using assms(3) by (rule run_tick_polled)
  then have u: "cw_users (run_tick w t s) = cw_users s" "balances (run_tick w t s) = balances s" by (simp_all add: polled_def others_def)
  then show ?thesis
    using Tick_op polled_wf [OF p assms(3)] assms(2,4) wf_wallet_cong [OF u(2)] polled_used [OF p] by (simp add: within_limits_def)
qed


definition demo_watch_db :: "unit watcher_db" where
  "demo_watch_db =
     \<lparr>faults = [], balances = [(7, ''USDT'') \<mapsto> \<lparr>available = 2000, frozen = 0\<rparr>], currencies = [(''USDT'', True)],
      txhash_key = True, wd_statuses = old_statuses,
      cw_users = [\<lparr>cu_id = 7, cu_email = ''a'', cu_kyc_level = 0, cu_created_at = 3 * hour_ns\<rparr>],
      cw_failed_logins = [], withdraw_fees = Map.empty, chain_drivers = [], deposit_rows = [], withdrawal_rows = [],
      wallet_addresses = [], depositsCount = 0, address_states = Map.empty, node = ()\<rparr>"

definition demo_watcher :: "unit watcher" where
  "demo_watcher = \<lparr>wt_driver = MockDriver ''u'', wt_registry = None, wt_MinConf = 0, wt_chainWallet = None,
     wt_Error = (\<lambda>_. ''error'')\<rparr>"

definition demo_watch_env :: watch_env where
  "demo_watch_env = \<lparr>we_now = 3 * hour_ns, we_db_now = 3 * hour_ns, we_day_start = 0, we_new_id = 1\<rparr>"

lemma demo_watch_wf [simp]: "wf_wallet demo_watch_db" "wf_withdrawals demo_watch_db" "faults demo_watch_db = []"
  by (auto intro!: wf_walletI simp: demo_watch_db_def wf_withdrawals_def split: if_splits)


end
