(* ===== verification/Chain_Watcher_Money.thy ===== *)
theory Chain_Watcher_Money
  imports Chain_Watcher_Safety
begin

text \<open>What a withdrawal request does to the balances when the database answers, and what a review adds to that.\<close>

lemma quiet_faults: "quiet s t \<Longrightarrow> faults s = [] \<Longrightarrow> faults t = []"
  by (rule quietD(11))

lemma exec_acked_faults:
  assumes "exec_stmt f s = (m, s')" and "faults s = []" and "\<And>n t'. f s = Some (n, t') \<Longrightarrow> faults t' = faults s"
  shows "faults s' = []"
  using assms by (auto split: option.splits)

lemma set_withdrawals_faults: "set_withdrawals P f s = Some (n, s') \<Longrightarrow> faults s' = faults s"
  by (auto simp: set_withdrawals_def)

text \<open>A debit either refuses and changes nothing, or takes the amount, and then paying it back restores the columns.\<close>

lemma debit_acked:
  assumes "faults s = []" and "wf_wallet s" and "scale18 x" and "0 < x"
  obtains e where "DebitAvailable u a x s = (Inl e, s)"
  | s1 where "DebitAvailable u a x s = (Inr (), s1)" "applies (CmdDebitAvailable u a x) (wallet_cols s) (wallet_cols s1)"
      "wf_wallet s1" "faults s1 = []" "withdrawal_rows s1 = withdrawal_rows s"
proof (cases "x \<le> wallet_available s u a")
  case True
  let ?c = "CmdDebitAvailable u a x"
  have e: "wallet_exec ?c s = (Inr (), s\<lparr>balances := (balances s)((u, a) \<mapsto>
     \<lparr>available = wallet_available s u a - x, frozen = wallet_frozen s u a\<rparr>)\<rparr>)" (is "_ = (_, ?s1)")
    using wallet_exec_succeeds [OF assms(2,1), of ?c] True assms(3,4) wallet_columns_nonneg [OF assms(2)]
      order_le_less_trans [OF _ wallet_columns_bound(1) [OF assms(2), of u a], of "wallet_available s u a - x"]
      wallet_columns_bound(2) [OF assms(2), of u a] by simp
  have "applies ?c (wallet_cols s) (wallet_cols ?s1)" using wallet_exec_effect(2) [OF e assms(2)] assms(3) by auto
  then show thesis
    using that(2) [of ?s1] e wallet_exec_effect(1) [OF e assms(2)] assms(1,3) by simp
next
  case False
  then obtain e where "wallet_exec (CmdDebitAvailable u a x) s = (Inl e, s)"
    using wallet_exec_refused [OF assms(1) _ assms(2), of "CmdDebitAvailable u a x"] by auto
  then show thesis by (intro that(1)) simp
qed

lemma repay:
  assumes "applies (CmdDebitAvailable u a x) (wallet_cols s) (wallet_cols s1)" and "wf_wallet s" and "wf_wallet s1"
    and "faults s1 = []" and "scale18 x" and "0 < x" and "Credit u a x s1 = (k, s2)"
  shows "wallet_cols s2 = wallet_cols s \<and> withdrawal_rows s2 = withdrawal_rows s1"
proof -
  have av: "wallet_available s1 u a + x = wallet_available s u a" "wallet_frozen s1 u a = wallet_frozen s u a"
    using assms(1) by (auto simp: applies_def wallet_cols_def)
  have e: "wallet_exec (CmdCredit u a x) s1 = (Inr (), s1\<lparr>balances := (balances s1)((u, a) \<mapsto>
     \<lparr>available = wallet_available s u a, frozen = wallet_frozen s u a\<rparr>)\<rparr>)"
    using wallet_exec_succeeds [OF assms(3,4), of "CmdCredit u a x"] assms(5,6) av
      wallet_columns_nonneg [OF assms(2), of u a] wallet_columns_bound [OF assms(2), of u a] by simp
  have "applies (CmdCredit u a x) (wallet_cols s1) (wallet_cols s2)"
    using wallet_exec_effect(2) [OF e assms(3)] assms(5,7) e by auto
  then show ?thesis using assms(1,7) e by (auto simp: applies_def wallet_cols_def bump_def fun_eq_iff)
qed

lemma failWithdrawal_cols: "wf_withdrawals s \<Longrightarrow> wallet_cols (failWithdrawal i msg s) = wallet_cols s"
  using failWithdrawal_marked [of s i msg] wallet_cols_cong by blast

lemma send_withdrawal_acked:
  assumes "send_withdrawal w now r s = (res, s')" and "faults s = []" and wf: "wf_wallet s" "wf_withdrawals s"
    and "scale18 (wd_Amount r)" and "0 < wd_Amount r"
  shows "case res of Inr r' \<Rightarrow> applies (CmdDebitAvailable (wd_UserID r) (wd_Asset r) (wd_Amount r)) (wallet_cols s) (wallet_cols s') \<and>
      \<not> wd_RiskHold r' = (\<not> wd_RiskHold r)
    | Inl err \<Rightarrow> err \<noteq> Panicked \<longrightarrow> wallet_cols s' = wallet_cols s"
proof -
  let ?u = "wd_UserID r" and ?a = "wd_Asset r" and ?x = "wd_Amount r"
  have wft: "wf_withdrawals t" if "withdrawal_rows t = withdrawal_rows s" for t using that wf(2) by (simp add: wf_withdrawals_def)
  note unf = assms(1) [unfolded send_withdrawal_def Let_def]
  show ?thesis
  proof (rule debit_acked [OF assms(2) wf(1) assms(5,6), of ?u ?a])
    fix e assume "DebitAvailable ?u ?a ?x s = (Inl e, s)"
    then show ?thesis using unf failWithdrawal_cols [OF wf(2)] by auto
  next
    fix s1 assume d: "DebitAvailable ?u ?a ?x s = (Inr (), s1)" "applies (CmdDebitAvailable ?u ?a ?x) (wallet_cols s) (wallet_cols s1)"
      "wf_wallet s1" "faults s1 = []" "withdrawal_rows s1 = withdrawal_rows s"
    have repaid: "wallet_cols (failWithdrawal i msg (snd (Credit ?u ?a ?x t))) = wallet_cols s" if q: "quiet s1 t" for i msg t
    proof -
      obtain k t' where c: "Credit ?u ?a ?x t = (k, t')" by force
      have "wallet_cols t' = wallet_cols s \<and> withdrawal_rows t' = withdrawal_rows t"
        by (rule repay [OF _ wf(1) _ _ assms(5,6) c]) (use d quiet_cols [OF q] quiet_wf [OF q] quiet_faults [OF q] in simp_all)
      then show ?thesis using c d(5) quietD(7) [OF q] failWithdrawal_cols [OF wft, of t'] by simp
    qed
    show ?thesis
    proof (cases "wt_chainWallet w")
      case None
      then show ?thesis using unf d(1) repaid [OF quiet_refl] by (auto simp: refund_def)
    next
      case (Some m)
      obtain y s2 where y: "call_node (manager_Send m (normalizeChainName (chainForAsset w ?a)) (wd_DestAddress r) ?x [] (wd_ID r) ?u) s1 = (y, s2)"
        by force
      have q: "quiet s1 s2" using y by (rule call_node_quiet)
      obtain k s3 where e: "exec_stmt (mark_sent (wd_ID r) (case y of Inl _ \<Rightarrow> [] | Inr tx \<Rightarrow> tx) now) s2 = (k, s3)" by force
      have "wf_withdrawals s2" using d(5) quietD(7) [OF q] wft by simp
      from exec_marked [OF e [unfolded mark_sent_def] this]
      have "balances s3 = balances s2" by (simp add: wf_row_def)
      then have "wallet_cols s3 = wallet_cols s1" using wallet_cols_cong [of s3 s2] quiet_cols [OF q] by simp
      then show ?thesis using unf d(1,2) Some y e repaid [OF q] by (auto simp: refund_def split: sum.splits if_splits)
    qed
  qed
qed

text \<open>C32: When the database answers, a withdrawal that is sent takes exactly its amount out of the user's
  available balance and one that is held takes nothing; a request that ends in an error has taken nothing.\<close>
theorem withdrawal_outcome:
  assumes "faults s = []" and "wf_wallet s" and "wf_withdrawals s" and "scale18 x"
    and "WithdrawWithSigner w e u asset dest x s = (res, s')"
  shows "case res of
      Inr r \<Rightarrow> if wd_RiskHold r then wallet_cols s' = wallet_cols s
               else applies (CmdDebitAvailable u asset x) (wallet_cols s) (wallet_cols s')
    | Inl err \<Rightarrow> err \<noteq> Panicked \<longrightarrow> wallet_cols s' = wallet_cols s"
  using assms(5)
proof (cases rule: WithdrawWithSigner_cases)
  case (refused err)
  then show ?thesis using quiet_cols by auto
next
  case (entered r t m s4 row limit)
  have r: "wd_Amount r = x" "wd_UserID r = u" "wd_Asset r = asset" using entered(3) by (simp_all add: requested_withdrawal_def)
  have t: "wf_wallet t" "wf_withdrawals t" "faults t = []" "wallet_cols t = wallet_cols s"
    using assms(1-3) quiet_wf [OF entered(2)] quietD(7) [OF entered(2)] quiet_cols [OF entered(2)] quiet_faults [OF entered(2)]
    by (simp_all add: wf_withdrawals_def)
  have ins: "wf_wallet s4 \<and> wf_withdrawals s4 \<and> faults s4 = [] \<and> wallet_cols s4 = wallet_cols s"
  proof (rule add_withdrawal_cases [OF entered(9)])
    show "scale18 (wd_Amount r)" "0 < wd_Amount r" using assms(4) entered(1) r by simp_all
  next
    assume "m = None" "quiet t s4"
    then show ?thesis
      using t quiet_wf [of t s4] quietD(7) [of t s4] quiet_cols [of t s4] quiet_faults [of t s4] by (auto simp: wf_withdrawals_def)
  next
    fix v r' assume v: "quiet t v" "s4 = v\<lparr>withdrawal_rows := withdrawal_rows t @ [r']\<rparr>" "wf_row r'"
    then show ?thesis
      using t quiet_wf [OF v(1)] quiet_cols [OF v(1)] quiet_faults [OF v(1)] wf_wallet_cong [of s4 v] wallet_cols_cong [of s4 v]
      by (auto simp: wf_withdrawals_def)
  qed
  consider "res = Inl WatchDB" "s' = s4" | "wd_RiskHold r" "res = Inr r" "s' = s4"
    | "send_withdrawal w (we_now e) r s4 = (res, s')" "\<not> wd_RiskHold r" using entered(10-12) by blast
  then show ?thesis
  proof cases
    case 3
    from send_withdrawal_acked [OF 3(1)] show ?thesis
      using ins assms(4) entered(1) r 3(2) by (simp split: sum.splits)
  qed (use ins in simp_all)
qed

definition demo_requested :: "(watch_error + Withdrawal) \<times> unit watcher_db" where
  "demo_requested = WithdrawWithSigner demo_watcher demo_watch_env 7 ''USDT'' ''addr'' 600 demo_watch_db"

theorem withdrawal_outcome_witness:
  "case fst demo_requested of
      Inr r \<Rightarrow> if wd_RiskHold r then wallet_cols (snd demo_requested) = wallet_cols demo_watch_db
               else applies (CmdDebitAvailable 7 ''USDT'' 600) (wallet_cols demo_watch_db) (wallet_cols (snd demo_requested))
    | Inl err \<Rightarrow> err \<noteq> Panicked \<longrightarrow> wallet_cols (snd demo_requested) = wallet_cols demo_watch_db"
  by (rule withdrawal_outcome [where e = demo_watch_env and dest = "''addr''" and w = demo_watcher])
    (simp_all add: demo_requested_def [symmetric])

subsection \<open>A held withdrawal that is rejected\<close>

lemma held_row_append: "wd_ID r \<notin> wd_ID ` set xs \<Longrightarrow> wd_Status r = ''HOLD'' \<Longrightarrow>
    find (\<lambda>y. wd_ID y = wd_ID r \<and> wd_Status y = ''HOLD'') (xs @ [r]) = Some r"
  by (induction xs) auto

lemma store_withdrawal_again:
  assumes "store_withdrawal s r = Some r'" and "wf_row r'" and "wd_Status x \<in> set (wd_statuses s)"
    and "x = r'\<lparr>wd_Status := wd_Status x, wd_ErrorMsg := wd_ErrorMsg x, wd_RiskHold := wd_RiskHold x\<rparr>"
  shows "store_withdrawal s x = Some x"
proof -
  have f: "numeric_38_18 (wd_Amount r) = Some (wd_Amount r')" "numeric_38_18 (wd_Fee r) = Some (wd_Fee r')"
    "numeric_38_18 (wd_ReceiveAmount r) = Some (wd_ReceiveAmount r')"
    "r' = r\<lparr>wd_Amount := wd_Amount r', wd_Fee := wd_Fee r', wd_ReceiveAmount := wd_ReceiveAmount r'\<rparr>"
    using assms(1) by (auto simp: store_withdrawal_def split: option.splits if_splits)
  have again: "numeric_38_18 b = Some b" if "numeric_38_18 a = Some b" "scale18 b" for a b
    using that by (auto simp: numeric_38_18_def Let_def split: if_splits)
  have x: "wd_Amount x = wd_Amount r'" "wd_Fee x = wd_Fee r'" "wd_ReceiveAmount x = wd_ReceiveAmount r'"
    "wd_Asset x = wd_Asset r" "wd_DestAddress x = wd_DestAddress r" "wd_Chain x = wd_Chain r" "wd_TxHash x = wd_TxHash r"
    "wd_UserID x = wd_UserID r"
    using arg_cong [OF assms(4), of wd_Amount] arg_cong [OF assms(4), of wd_Fee] arg_cong [OF assms(4), of wd_ReceiveAmount]
      arg_cong [OF assms(4), of wd_Asset] arg_cong [OF assms(4), of wd_DestAddress] arg_cong [OF assms(4), of wd_Chain]
      arg_cong [OF assms(4), of wd_TxHash] arg_cong [OF assms(4), of wd_UserID]
      arg_cong [OF f(4), of wd_Asset] arg_cong [OF f(4), of wd_DestAddress] arg_cong [OF f(4), of wd_Chain]
      arg_cong [OF f(4), of wd_TxHash] arg_cong [OF f(4), of wd_UserID] by simp_all
  have n: "numeric_38_18 (wd_Amount x) = Some (wd_Amount x)" "numeric_38_18 (wd_Fee x) = Some (wd_Fee x)"
    "numeric_38_18 (wd_ReceiveAmount x) = Some (wd_ReceiveAmount x)"
    using again [OF f(1)] again [OF f(2)] again [OF f(3)] assms(2) unfolding x wf_row_def by blast+
  have "length (wd_Asset r) \<le> 16 \<and> length (wd_DestAddress r) \<le> 128 \<and> length (wd_Chain r) \<le> 32 \<and>
      length (wd_TxHash r) \<le> 128 \<and> wd_UserID r \<in> cu_id ` set (cw_users s)"
    using assms(1) by (auto simp: store_withdrawal_def split: option.splits if_splits)
  then show ?thesis unfolding store_withdrawal_def n option.case prod.case using assms(3) x(4-8) by simp
qed

text \<open>C33: Money out of nothing: a withdrawal is held for review without a debit, and rejecting it credits its
  amount, so that the user ends with that much more than before the request.
\<close>
theorem held_withdrawal_creates_funds:
  assumes "faults s = []" and "wf_wallet s" and "wd_statuses s = old_statuses" and "scale18 x"
    and "WithdrawWithSigner w e u asset dest x s = (Inr r, s1)" and "wd_RiskHold r"
    and "wallet_available s u asset + x < 10 ^ 20"
  shows "\<exists>s2. RejectHeldWithdrawal reason (wd_ID r) s1 = (None, s2) \<and>
    applies (CmdCredit u asset x) (wallet_cols s) (wallet_cols s2)"
  using assms(5)
proof (cases rule: WithdrawWithSigner_cases)
  case (entered r0 t m s4 row limit)
  have r: "r0 = r \<and> s4 = s1 \<and> m \<noteq> None"
  proof (cases "wd_RiskHold r0")
    case False
    have "wd_RiskHold r = wd_RiskHold r0" if "send_withdrawal w n r0 s4 = (Inr r, s1)" for n
      using that by (auto simp: send_withdrawal_def Let_def split: sum.splits prod.splits option.splits if_splits)
    then show ?thesis using entered(10,12) assms(6) False by blast
  qed (use entered(10,11) in auto)
  then obtain n where ins: "exec_stmt (add_withdrawal r) t = (Some n, s1)" using entered(9) by blast
  have t: "faults t = []" "wd_statuses t = old_statuses" "wf_wallet t" "wallet_cols t = wallet_cols s"
    using assms(1-3) quiet_faults [OF entered(2)] quietD(4) [OF entered(2)] quiet_wf [OF entered(2)] quiet_cols [OF entered(2)] by simp_all
  have rf: "wd_Amount r = x" "wd_UserID r = u" "wd_Asset r = asset" "wd_Status r = ''HOLD''"
    using entered(3) r assms(6) by (simp_all add: requested_withdrawal_def)
  obtain r' where r': "store_withdrawal t r = Some r'" "s1 = t\<lparr>withdrawal_rows := withdrawal_rows t @ [r']\<rparr>"
    "wd_ID r' \<notin> wd_ID ` set (withdrawal_rows t)"
    using ins t(1) by (auto simp: add_withdrawal_def tbl_insert_def bind_eq_Some_conv split: if_splits option.splits)
  note e = store_withdrawal_SomeD(1) [OF r'(1)]
  have f: "wd_ID r' = wd_ID r" "wd_Amount r' = x" "wd_UserID r' = u" "wd_Asset r' = asset" "wd_Status r' = ''HOLD''" "wf_row r'"
    using e rf assms(4) entered(1) by (simp_all add: wf_row_def)
  have s1: "faults s1 = []" "wf_wallet s1" "wallet_cols s1 = wallet_cols s" "wd_statuses s1 = old_statuses"
    using t r'(2) wf_wallet_cong [of s1 t] wallet_cols_cong [of s1 t] by simp_all
  have held: "held_row (wd_ID r) s1 = Some r'"
    using held_row_append [of r' "withdrawal_rows t"] r'(2,3) f(1,5) by (simp add: held_row_def)
  define s2 where "s2 = s1\<lparr>balances := (balances s1)((u, asset) \<mapsto>
     \<lparr>available = wallet_available s u asset + x, frozen = wallet_frozen s u asset\<rparr>)\<rparr>"
  have cols: "wallet_available s1 u asset = wallet_available s u asset" "wallet_frozen s1 u asset = wallet_frozen s u asset"
    using s1(3) by (simp_all add: wallet_cols_def)
  have c: "wallet_exec (CmdCredit u asset x) s1 = (Inr (), s2)"
    using wallet_exec_succeeds [OF s1(2,1), of "CmdCredit u asset x"] assms(4,7) entered(1) cols
      wallet_columns_nonneg [OF assms(2), of u asset] wallet_columns_bound(2) [OF assms(2), of u asset]
    by (simp add: s2_def del: wallet_exec.simps)
  then have ap: "applies (CmdCredit u asset x) (wallet_cols s) (wallet_cols s2)"
    using wallet_exec_effect(2) [OF c s1(2)] assms(4) s1(3) by auto
  let ?g = "\<lambda>y. y\<lparr>wd_Status := ''REJECTED'', wd_ErrorMsg := ''rejected by admin: '' @ reason, wd_RiskHold := False\<rparr>"
  have st: "store_withdrawal s2 (?g r') = Some (?g r')"
  proof (rule store_withdrawal_again [of s2 r r'])
    have same: "wd_statuses s2 = wd_statuses t" "cw_users s2 = cw_users t" using r'(2) by (simp_all add: s2_def)
    show "store_withdrawal s2 r = Some r'" using r'(1) unfolding store_withdrawal_def same .
    show "wf_row r'" by (rule f(6))
    show "wd_Status (?g r') \<in> set (wd_statuses s2)" using s1(4) by (simp add: s2_def old_statuses_def)
  qed simp
  have "\<exists>k rs. tbl_update (\<lambda>y. wd_ID y = wd_ID r) (\<lambda>y. store_withdrawal s2 (?g y)) (withdrawal_rows s2) = Some (k, rs)"
    by (subst tbl_update_ok) (use st r'(2,3) f(1) in \<open>auto simp: s2_def image_iff\<close>)
  then obtain k rs where up: "set_withdrawals (\<lambda>y. wd_ID y = wd_ID r) ?g s2 = Some (k, s2\<lparr>withdrawal_rows := rs\<rparr>)"
    by (auto simp: set_withdrawals_def)
  have f2: "faults s2 = []" using s1(1) by (simp add: s2_def)
  have "RejectHeldWithdrawal reason (wd_ID r) s1 = (None, s2\<lparr>withdrawal_rows := rs\<rparr>)"
    using s1(1) held c up f2 f(2-4) by (simp add: RejectHeldWithdrawal_def begin_review_def finish_review_def)
  moreover have "wallet_cols (s2\<lparr>withdrawal_rows := rs\<rparr>) = wallet_cols s2" by (rule wallet_cols_cong) simp
  ultimately show ?thesis using ap by auto
qed simp

lemma demo_request_held: "\<exists>r s1. demo_requested = (Inr r, s1) \<and> wd_RiskHold r"
proof -
  have "3 * hour_ns div hour_ns mod 24 = 3" by (simp add: hour_ns_def)
  then have k: "computeWithdrawRisk (3 * hour_ns) (3 * hour_ns) 7 600 ''addr'' demo_watch_db = (35, demo_watch_db)"
    by (simp add: computeWithdrawRisk_def Let_def, simp add: demo_watch_db_def tbl_find_def age_factor_def ratio_factor_def hour_ns_def)
  have l: "WithdrawLimitCheck 0 7 600 demo_watch_db = (None, demo_watch_db)"
    by (simp add: WithdrawLimitCheck_def, simp add: demo_watch_db_def tbl_find_def used_today_def kyc_limit_def DailyWithdrawalUsage_def)
  have c: "check_funds 7 ''USDT'' 600 demo_watch_db = (Inr 0, demo_watch_db)"
    by (simp add: check_funds_def computeFee_def, simp add: demo_watch_db_def)
  have h: "ActionForScore 35 = ActionHold" by (simp add: ActionForScore_def)
  have "\<exists>n s1. exec_stmt (add_withdrawal \<lparr>wd_ID = 1, wd_UserID = 7, wd_Asset = ''USDT'', wd_Amount = 600, wd_Fee = 0,
      wd_ReceiveAmount = 600, wd_DestAddress = ''addr'', wd_TxHash = [], wd_Chain = chainForAsset demo_watcher ''USDT'',
      wd_Status = ''HOLD'', wd_Confirmations = 0, wd_ErrorMsg = [], wd_CreatedAt = 3 * hour_ns, wd_SentAt = None,
      wd_ConfirmedAt = None, wd_RiskScore = 35, wd_RiskHold = True\<rparr>) demo_watch_db = (Some n, s1)"
    by (simp, simp add: add_withdrawal_def store_withdrawal_def tbl_insert_def demo_watch_db_def demo_watcher_def chainForAsset_def
        old_statuses_def ToLower_def)
  then show ?thesis
    by (auto simp: demo_requested_def WithdrawWithSigner_def demo_watch_env_def l c k h Let_def ActionForScore_def ActionHold_def ActionBlock_def)
qed

theorem held_withdrawal_creates_funds_witness:
  "\<exists>r s1 s2. demo_requested = (Inr r, s1) \<and> RejectHeldWithdrawal ''no'' (wd_ID r) s1 = (None, s2) \<and>
     applies (CmdCredit 7 ''USDT'' 600) (wallet_cols demo_watch_db) (wallet_cols s2)"
proof -
  obtain r s1 where r: "demo_requested = (Inr r, s1)" "wd_RiskHold r" using demo_request_held by blast
  have "wallet_available demo_watch_db 7 ''USDT'' + 600 < 10 ^ 20" "wd_statuses demo_watch_db = old_statuses"
    by (simp_all add: demo_watch_db_def wallet_available_def)
  from held_withdrawal_creates_funds [OF demo_watch_wf(3,1) this(2) _ r(1) [unfolded demo_requested_def] r(2) this(1), of "''no''"]
  show ?thesis using r(1) by auto
qed

end
