(* ===== verification/Chain_Deposits_Correct.thy ===== *)
theory Chain_Deposits_Correct
  imports Chain_Watcher_Money "HOL-Library.Sublist"
begin

text \<open>
  Deposits: a transaction of a chain is recorded once and credited at most once, on the schema that has the key;
  and what the watcher can still do on the schema the migrations leave.
\<close>

lemma Credit_fields: "Credit u a x s = (r, s') \<Longrightarrow> deposit_rows s' = deposit_rows s \<and> txhash_key s' = txhash_key s"
  using wallet_exec_fields(4,5) [of "CmdCredit u a x" s r s'] by simp

definition dp_key :: "deposit_row \<Rightarrow> string \<times> string" where
  "dp_key r = (dp_chain r, dp_tx_hash r)"

definition recorded :: "string \<Rightarrow> string \<Rightarrow> 'c watcher_db \<Rightarrow> bool" where
  "recorded ch tx s \<longleftrightarrow> (ch, tx) \<in> dp_key ` set (deposit_rows s)"

lemma recordDeposit_cases:
  assumes "recordDeposit w e u a tx x dest s = (res, s')"
  obtains (skipped) "quiet s s'" "res = Inl WatchDB \<or> res = Inr None \<and> recorded (dv_Name (wt_driver w)) tx s"
  | (entered) t row k s2 where "quiet s t" "txhash_key s" "\<not> recorded (dv_Name (wt_driver w)) tx s"
      "dp_key row = (dv_Name (wt_driver w), tx)" "dp_user_id row = u" "dp_asset row = a" "dp_amount row = num18 x" "0 < num18 x"
      "res = Inl WatchDB \<and> s' = t\<lparr>deposit_rows := deposit_rows s @ [row]\<rparr> \<or>
       wallet_exec (CmdCredit u a x) (t\<lparr>deposit_rows := deposit_rows s @ [row]\<rparr>) = (k, s2) \<and>
         (case k of Inl err \<Rightarrow> res = Inl (WatchWallet err) \<and> s' = s2
          | Inr _ \<Rightarrow> (\<exists>d. res = Inr (Some d)) \<and> s' = s2\<lparr>depositsCount := depositsCount s2 + 1\<rparr>)"
proof -
  let ?ch = "dv_Name (wt_driver w)"
  obtain m s1 where m: "exec_stmt (insert_deposit (we_new_id e) (we_db_now e) ?ch u a tx x dest) s = (m, s1)" by force
  note unf = assms [unfolded recordDeposit_def Let_def m prod.case]
  show thesis
  proof (rule exec_cases [OF m])
    assume "m = None" "quiet s s1"
    then show thesis using unf skipped by simp
  next
    fix n t assume t: "quiet s t" "insert_deposit (we_new_id e) (we_db_now e) ?ch u a tx x dest t = Some (n, s1)" "m = Some n \<or> m = None"
    have ins: "txhash_key s" "numeric_38_18 x = Some (num18 x)" "0 < num18 x"
      using t(2) quietD(3) [OF t(1)] by (auto simp: insert_deposit_def numeric_38_18_def split: if_splits)
    show thesis
    proof (cases "recorded ?ch tx s")
      case True
      then have "list_ex (\<lambda>r. dp_chain r = ?ch \<and> dp_tx_hash r = tx) (deposit_rows t)"
        using quietD(6) [OF t(1)] by (auto simp: recorded_def dp_key_def list_ex_iff)
      then have "n = 0" "s1 = t" using t(2) ins by (auto simp: insert_deposit_def split: if_splits)
      then show thesis using unf t(1,3) True skipped by auto
    next
      case False
      then have "\<not> list_ex (\<lambda>r. dp_chain r = ?ch \<and> dp_tx_hash r = tx) (deposit_rows t)"
        using quietD(6) [OF t(1)] by (auto simp: recorded_def dp_key_def list_ex_iff image_iff)
      then obtain row where row: "n = 1" "s1 = t\<lparr>deposit_rows := deposit_rows s @ [row]\<rparr>" "dp_key row = (?ch, tx)"
        "dp_user_id row = u" "dp_asset row = a" "dp_amount row = num18 x"
        using t(2) ins quietD(6) [OF t(1)] by (auto simp: insert_deposit_def dp_key_def split: if_splits)
      obtain k s2 where k: "wallet_exec (CmdCredit u a x) s1 = (k, s2)" by force
      show thesis
      proof (rule entered [of t row k s2])
        show "res = Inl WatchDB \<and> s' = t\<lparr>deposit_rows := deposit_rows s @ [row]\<rparr> \<or>
           wallet_exec (CmdCredit u a x) (t\<lparr>deposit_rows := deposit_rows s @ [row]\<rparr>) = (k, s2) \<and>
             (case k of Inl err \<Rightarrow> res = Inl (WatchWallet err) \<and> s' = s2
              | Inr _ \<Rightarrow> (\<exists>d. res = Inr (Some d)) \<and> s' = s2\<lparr>depositsCount := depositsCount s2 + 1\<rparr>)"
          using unf t(3) row(1,2) k by (cases "m = None") (auto split: sum.splits)
      qed (use t(1) ins row False in simp_all)
    qed
  qed
qed

text \<open>Balances moved by a sublist of the rows that were added, and by nothing else.\<close>

definition paid :: "uuid \<Rightarrow> string \<Rightarrow> deposit_row list \<Rightarrow> decimal" where
  "paid u a rows = sum_list (map dp_amount (filter (\<lambda>r. dp_user_id r = u \<and> dp_asset r = a) rows))"

definition deposited :: "'c watcher_db \<Rightarrow> 'c watcher_db \<Rightarrow> bool" where
  "deposited s s' \<longleftrightarrow> (wf_wallet s \<longrightarrow> wf_wallet s') \<and> (distinct (map dp_key (deposit_rows s)) \<longrightarrow> distinct (map dp_key (deposit_rows s'))) \<and>
     (wf_wallet s \<longrightarrow> (\<exists>new cred. deposit_rows s' = deposit_rows s @ new \<and> subseq cred new \<and>
        (\<forall>u a. wallet_available s' u a = wallet_available s u a + paid u a cred \<and> wallet_frozen s' u a = wallet_frozen s u a)))"

lemma depositedI_quiet:
  assumes "balances s' = balances s" and "deposit_rows s' = deposit_rows s"
  shows "deposited s s'"
proof -
  have "wallet_available s' u a = wallet_available s u a \<and> wallet_frozen s' u a = wallet_frozen s u a" for u a
    using assms(1) by (simp add: wallet_available_def wallet_frozen_def)
  then show ?thesis using assms wf_wallet_cong [OF assms(1)]
    unfolding deposited_def by (intro conjI impI exI [of _ "[]"]) (auto simp: paid_def)
qed

lemma deposited_trans: "deposited s t \<Longrightarrow> deposited t v \<Longrightarrow> deposited s v"
proof -
  assume st: "deposited s t" and tv: "deposited t v"
  have "\<exists>new cred. deposit_rows v = deposit_rows s @ new \<and> subseq cred new \<and>
        (\<forall>u a. wallet_available v u a = wallet_available s u a + paid u a cred \<and> wallet_frozen v u a = wallet_frozen s u a)"
    if w: "wf_wallet s"
  proof -
    obtain n1 c1 where 1: "deposit_rows t = deposit_rows s @ n1" "subseq c1 n1"
      "\<And>u a. wallet_available t u a = wallet_available s u a + paid u a c1 \<and> wallet_frozen t u a = wallet_frozen s u a"
      using st w unfolding deposited_def by blast
    obtain n2 c2 where 2: "deposit_rows v = deposit_rows t @ n2" "subseq c2 n2"
      "\<And>u a. wallet_available v u a = wallet_available t u a + paid u a c2 \<and> wallet_frozen v u a = wallet_frozen t u a"
      using st tv w unfolding deposited_def by blast
    have "subseq (c1 @ c2) (n1 @ n2)" using 1(2) 2(2) by (rule list_emb_append_mono)
    then show ?thesis using 1 2 by (intro exI [of _ "n1 @ n2"] exI [of _ "c1 @ c2"]) (simp add: paid_def)
  qed
  then show ?thesis using st tv unfolding deposited_def by blast
qed

lemma recordDeposit_deposited:
  assumes "recordDeposit w e u a tx x dest s = (res, s')" and "scale18 x"
  shows "deposited s s'"
  using assms(1)
proof (cases rule: recordDeposit_cases)
  case skipped
  then show ?thesis by (intro depositedI_quiet) (rule quietD; assumption)+
next
  case (entered t row k s2)
  let ?v = "t\<lparr>deposit_rows := deposit_rows s @ [row]\<rparr>"
  have new: "distinct (map dp_key (deposit_rows s)) \<longrightarrow> distinct (map dp_key (deposit_rows s @ [row]))"
    using entered(3,4) by (auto simp: recorded_def)
  have wv: "wf_wallet ?v = wf_wallet s" "wallet_cols ?v = wallet_cols s"
    using quiet_wf [OF entered(1)] quiet_cols [OF entered(1)] wf_wallet_cong [of ?v t] wallet_cols_cong [of ?v t] by simp_all
  have step: "deposited s v" if v: "deposit_rows v = deposit_rows s @ [row]" "wf_wallet s \<longrightarrow> wf_wallet v"
    "wf_wallet s \<longrightarrow> wallet_cols v = wallet_cols s \<or> applies (CmdCredit u a x) (wallet_cols s) (wallet_cols v)" for v
  proof -
    have c: "\<exists>cred. subseq cred [row] \<and> (\<forall>z b. wallet_available v z b = wallet_available s z b + paid z b cred \<and>
        wallet_frozen v z b = wallet_frozen s z b)" if w: "wf_wallet s"
    proof (cases "wallet_cols v = wallet_cols s")
      case True
      then show ?thesis by (intro exI [of _ "[]"]) (simp add: wallet_cols_def fun_eq_iff paid_def)
    next
      case False
      then have ap: "applies (CmdCredit u a x) (wallet_cols s) (wallet_cols v)" using v(3) w by blast
      have "paid z b [row] = (if z = u \<and> b = a then x else 0)" for z b using entered(5-7) assms(2) by (auto simp: paid_def)
      then show ?thesis
        using ap by (intro exI [of _ "[row]"]) (auto simp: applies_def wallet_cols_def bump_def fun_eq_iff)
    qed
    show ?thesis unfolding deposited_def using v(1,2) new c by auto
  qed
  show ?thesis
  proof (cases "s' = ?v")
    case True
    then show ?thesis using step [of ?v] wv by simp
  next
    case False
    then have k: "wallet_exec (CmdCredit u a x) ?v = (k, s2)" and s': "balances s' = balances s2" "deposit_rows s' = deposit_rows s2"
      using entered(9) by (auto split: sum.splits)
    have eff: "wf_wallet s \<longrightarrow> wf_wallet s2"
      "wf_wallet s \<longrightarrow> wallet_cols s2 = wallet_cols s \<or> applies (CmdCredit u a x) (wallet_cols s) (wallet_cols s2)"
      using wallet_exec_effect [OF k] wv assms(2) by auto
    have "deposit_rows s2 = deposit_rows s @ [row]" using wallet_exec_fields(4) [OF k] by simp
    then show ?thesis
      using step [of s'] eff s' wf_wallet_cong [OF s'(1)] wallet_cols_cong [OF s'(1)] by simp
  qed
qed

definition node_scaled :: "'c watcher \<Rightarrow> bool" where
  "node_scaled w \<longleftrightarrow> (\<forall>a n c txs c'. dv_ListTransactions (wt_driver w) a n c = (Inr txs, c') \<longrightarrow>
     (\<forall>tx \<in> set txs. scale18 (tr_Amount tx)))"

lemma deposited_refl [simp]: "deposited s s"
  by (rule depositedI_quiet) simp_all

lemma quiet_deposited: "quiet s s' \<Longrightarrow> deposited s s'"
  by (intro depositedI_quiet) (rule quietD; assumption)+

lemma poll_txs_deposited: "\<forall>p \<in> set txs. scale18 (tr_Amount (fst p)) \<Longrightarrow> deposited s (poll_txs w u asset a txs s)"
proof (induction w u asset a txs s rule: poll_txs.induct)
  case (2 w u asset a tx e txs s)
  let ?st = "address_state u a s"
  let ?s1 = "s\<lparr>address_states := (address_states s)(a \<mapsto>
     \<lparr>as_lastAmount = as_lastAmount ?st + tr_Amount tx, as_lastTxHash = tr_TxHash tx, as_userID = u\<rparr>)\<rparr>"
  obtain r s2 where r: "recordDeposit w e u asset (tr_TxHash tx) (tr_Amount tx) a ?s1 = (r, s2)" by force
  have "deposited s ?s1" by (rule depositedI_quiet) simp_all
  moreover have "deposited ?s1 s2" using r 2(3) by (intro recordDeposit_deposited [OF r]) simp
  ultimately have d: "deposited s s2" by (rule deposited_trans)
  show ?case
  proof (cases "as_lastTxHash ?st = tr_TxHash tx")
    case True
    then show ?thesis using 2(1) [OF refl True] 2(3) by (simp add: Let_def)
  next
    case False
    from 2(2) [OF refl False refl] have "deposited s2 (poll_txs w u asset a txs s2)" using r 2(3) by simp
    then show ?thesis using deposited_trans [OF d] False r by (simp add: Let_def)
  qed
qed simp

lemma pollOne_deposited:
  assumes "pollOne w es a u asset s = (r, s')" and "node_scaled w"
  shows "deposited s s'"
proof -
  obtain y s1 where y: "call_node (dv_ListTransactions (wt_driver w) a (wt_MinConf w)) s = (y, s1)" by force
  have q: "deposited s s1" using call_node_quiet [OF y] by (rule quiet_deposited)
  show ?thesis
  proof (cases y)
    case (Inl e)
    then show ?thesis using assms(1) y q by (simp add: pollOne_def)
  next
    case (Inr txs)
    let ?s2 = "s1\<lparr>address_states := (address_states s1)(a \<mapsto> address_state u a s1)\<rparr>"
    let ?txs = "map (\<lambda>i. (txs ! i, es i)) [0..<length txs]"
    obtain c where "dv_ListTransactions (wt_driver w) a (wt_MinConf w) (node s) = (Inr txs, c)"
      using y Inr by (auto simp: call_node_def split: prod.splits)
    then have "\<forall>tx \<in> set txs. scale18 (tr_Amount tx)" using assms(2) unfolding node_scaled_def by blast
    then have "\<forall>p \<in> set ?txs. scale18 (tr_Amount (fst p))" by auto
    then have "deposited ?s2 (poll_txs w u asset a ?txs ?s2)" by (rule poll_txs_deposited)
    moreover have "deposited s1 ?s2" by (rule depositedI_quiet) simp_all
    moreover have "s' = poll_txs w u asset a ?txs ?s2" using assms(1) y Inr by (simp add: pollOne_def)
    ultimately show ?thesis using q deposited_trans by blast
  qed
qed

lemma SpawnDeposit_deposited:
  assumes "SpawnDeposit w e salt u asset x s = (r, s')" and "scale18 x"
  shows "deposited s s'"
proof -
  let ?tx = "RandomTxHash salt"
  obtain q s1 where q: "query (\<lambda>t. list_ex (\<lambda>r. dp_tx_hash r = ?tx) (deposit_rows t)) s = (q, s1)" by force
  obtain y s2 where y: "call_node (dv_SpawnDeposit (wt_driver w) u asset ?tx x) s1 = (y, s2)" by force
  obtain z s3 where z: "recordDeposit w e u asset ?tx x (''mock'' @ take (max 10 (min 24 (length ?tx)) - 10) (drop 10 ?tx)) s2 = (z, s3)"
    by force
  have "quiet s s2" using query_quiet [OF q] call_node_quiet [OF y] by (rule quiet_trans)
  then have d: "deposited s s1" "deposited s s2" using query_quiet [OF q] by (simp_all add: quiet_deposited)
  have "deposited s s3" by (rule deposited_trans [OF d(2) recordDeposit_deposited [OF z assms(2)]])
  then show ?thesis
    using assms(1) q y z d by (auto simp: SpawnDeposit_def Let_def split: option.splits if_splits)
qed

datatype deposit_op =
    Record_op watch_env uuid string string decimal string
  | Spawn_op watch_env string uuid string decimal
  | Poll_op "nat \<Rightarrow> watch_env" string uuid string
  | Watch_op

fun deposit_step :: "'c watcher \<Rightarrow> deposit_op \<Rightarrow> 'c watcher_db \<Rightarrow> 'c watcher_db" where
  "deposit_step w (Record_op e u asset tx x dest) s = snd (recordDeposit w e u asset tx x dest s)"
| "deposit_step w (Spawn_op e salt u asset x) s = snd (SpawnDeposit w e salt u asset x s)"
| "deposit_step w (Poll_op es a u asset) s = snd (pollOne w es a u asset s)"
| "deposit_step w Watch_op s = snd (pollDeposits w s)"

fun scaled_op :: "deposit_op \<Rightarrow> bool" where
  "scaled_op (Record_op e u asset tx x dest) = scale18 x"
| "scaled_op (Spawn_op e salt u asset x) = scale18 x"
| "scaled_op _ = True"

lemma deposit_step_deposited: "scaled_op op \<Longrightarrow> node_scaled w \<Longrightarrow> deposited s (deposit_step w op s)"
  by (cases op)
    (auto intro: recordDeposit_deposited SpawnDeposit_deposited pollOne_deposited quiet_deposited pollDeposits_quiet prod.collapse [symmetric])

text \<open>C34: However the watcher records, spawns and polls deposits, and whatever the database loses, each
  transaction of a chain has at most one row and the balances have moved by exactly the amounts of some of the
  new rows, each at most once.\<close>
theorem deposits_credited_once:
  assumes "wf_wallet s" and "distinct (map dp_key (deposit_rows s))" and "list_all scaled_op ops" and "node_scaled w"
  shows "\<exists>new cred. deposit_rows (fold (deposit_step w) ops s) = deposit_rows s @ new \<and>
    distinct (map dp_key (deposit_rows s @ new)) \<and> subseq cred new \<and>
    (\<forall>u a. wallet_available (fold (deposit_step w) ops s) u a = wallet_available s u a + paid u a cred \<and>
           wallet_frozen (fold (deposit_step w) ops s) u a = wallet_frozen s u a)"
proof -
  have "deposited s (fold (deposit_step w) ops s)"
    using assms(3)
  proof (induction ops arbitrary: s)
    case (Cons op ops)
    then show ?case using deposited_trans [OF deposit_step_deposited [OF _ assms(4), of op s]] by simp
  qed simp
  then show ?thesis using assms(1,2) unfolding deposited_def by metis
qed

theorem deposits_credited_once_witness:
  "\<exists>new cred. deposit_rows (fold (deposit_step demo_watcher)
       [Record_op demo_watch_env 7 ''USDT'' ''tx'' 5 ''addr'', Record_op demo_watch_env 7 ''USDT'' ''tx'' 5 ''addr''] demo_watch_db) =
       deposit_rows demo_watch_db @ new \<and>
    distinct (map dp_key (deposit_rows demo_watch_db @ new)) \<and> subseq cred new \<and>
    (\<forall>u a. wallet_available (fold (deposit_step demo_watcher)
         [Record_op demo_watch_env 7 ''USDT'' ''tx'' 5 ''addr'', Record_op demo_watch_env 7 ''USDT'' ''tx'' 5 ''addr''] demo_watch_db) u a =
         wallet_available demo_watch_db u a + paid u a cred \<and>
       wallet_frozen (fold (deposit_step demo_watcher)
         [Record_op demo_watch_env 7 ''USDT'' ''tx'' 5 ''addr'', Record_op demo_watch_env 7 ''USDT'' ''tx'' 5 ''addr''] demo_watch_db) u a =
         wallet_frozen demo_watch_db u a)"
  by (rule deposits_credited_once [OF demo_watch_wf(1)])
    (simp_all add: node_scaled_def demo_watcher_def MockDriver_def demo_watch_db_def)

subsection \<open>On the migrated schema\<close>

text \<open>No row is held or broadcast, no deposit is new and no available balance has grown.\<close>

definition idle_rows :: "'c watcher_db \<Rightarrow> bool" where
  "idle_rows s \<longleftrightarrow> (\<forall>r \<in> set (withdrawal_rows s). wd_Status r \<notin> {''HOLD'', ''BROADCAST'', ''DONE''})"

definition migrated :: "'c watcher_db \<Rightarrow> bool" where
  "migrated s \<longleftrightarrow> \<not> txhash_key s \<and> wd_statuses s = withdrawal_statuses \<and> wf_wallet s \<and> wf_withdrawals s \<and> idle_rows s"

definition inert :: "'c watcher_db \<Rightarrow> 'c watcher_db \<Rightarrow> bool" where
  "inert s s' \<longleftrightarrow> (migrated s \<longrightarrow> migrated s' \<and> drained s s' \<and> deposit_rows s' = deposit_rows s)"

lemma inert_refl [simp]: "inert s s"
  and inert_trans: "inert s t \<Longrightarrow> inert t v \<Longrightarrow> inert s v"
  by (auto simp: inert_def intro: drained_trans)

lemma inertI_same:
  assumes "balances s' = balances s" "others s s'" "withdrawal_rows s' = withdrawal_rows s"
  shows "inert s s'"
  using assms wf_wallet_cong [OF assms(1)] drained_cong [of s s s' s]
  by (auto simp: inert_def migrated_def others_def wf_withdrawals_def idle_rows_def)

lemma quiet_inert: "quiet s s' \<Longrightarrow> inert s s'"
  by (intro inertI_same quiet_others) (auto dest: quietD)

lemma recordDeposit_inert:
  assumes "recordDeposit w e u asset tx x dest s = (res, s')"
  shows "inert s s'"
  using assms
proof (cases rule: recordDeposit_cases)
  case (entered t row k s2)
  then show ?thesis by (simp add: inert_def migrated_def)
qed (simp add: quiet_inert)

lemma poll_txs_inert: "inert s (poll_txs w u asset a txs s)"
proof (induction w u asset a txs s rule: poll_txs.induct)
  case (2 w u asset a tx e txs s)
  let ?st = "address_state u a s"
  let ?s1 = "s\<lparr>address_states := (address_states s)(a \<mapsto>
     \<lparr>as_lastAmount = as_lastAmount ?st + tr_Amount tx, as_lastTxHash = tr_TxHash tx, as_userID = u\<rparr>)\<rparr>"
  obtain r s2 where r: "recordDeposit w e u asset (tr_TxHash tx) (tr_Amount tx) a ?s1 = (r, s2)" by force
  have "inert s ?s1" by (rule inertI_same) (simp_all add: others_def)
  from inert_trans [OF this recordDeposit_inert [OF r]] have d: "inert s s2" .
  show ?case
  proof (cases "as_lastTxHash ?st = tr_TxHash tx")
    case True
    then show ?thesis using 2(1) [OF refl True] by (simp add: Let_def)
  next
    case False
    from 2(2) [OF refl False refl] have "inert s2 (poll_txs w u asset a txs s2)" using r by simp
    then show ?thesis using inert_trans [OF d] False r by (simp add: Let_def)
  qed
qed simp

lemma deposit_step_inert: "inert s (deposit_step w op s)"
proof (cases op)
  case (Record_op e u asset tx x dest)
  then show ?thesis by (simp add: recordDeposit_inert [OF prod.collapse [symmetric]])
next
  case (Spawn_op e salt u asset x)
  let ?tx = "RandomTxHash salt"
  obtain q s1 where q: "query (\<lambda>t. list_ex (\<lambda>r. dp_tx_hash r = ?tx) (deposit_rows t)) s = (q, s1)" by force
  obtain y s2 where y: "call_node (dv_SpawnDeposit (wt_driver w) u asset ?tx x) s1 = (y, s2)" by force
  have "quiet s s2" using query_quiet [OF q] call_node_quiet [OF y] by (rule quiet_trans)
  then have d: "inert s s1" "inert s s2" using query_quiet [OF q] by (simp_all add: quiet_inert)
  have "inert s (snd (recordDeposit w e u asset ?tx x b s2))" for b
    by (rule inert_trans [OF d(2) recordDeposit_inert [OF prod.collapse [symmetric]]])
  then show ?thesis using Spawn_op q y d by (auto simp: SpawnDeposit_def Let_def split: option.splits if_splits)
next
  case (Poll_op es a u asset)
  obtain y s1 where y: "call_node (dv_ListTransactions (wt_driver w) a (wt_MinConf w)) s = (y, s1)" by force
  let ?s2 = "s1\<lparr>address_states := (address_states s1)(a \<mapsto> address_state u a s1)\<rparr>"
  have q: "inert s s1" using call_node_quiet [OF y] by (rule quiet_inert)
  have "inert s1 ?s2" by (rule inertI_same) (simp_all add: others_def)
  with q have "inert s ?s2" by (rule inert_trans)
  then have "inert s (poll_txs w u asset a txs ?s2)" for txs using inert_trans poll_txs_inert by blast
  then show ?thesis using Poll_op y q by (auto simp: pollOne_def split: sum.splits)
next
  case Watch_op
  then show ?thesis using quiet_inert [OF pollDeposits_quiet [OF prod.collapse [symmetric]]] by simp
qed

lemma marked_idle:
  assumes "marked i s s'" and "wd_statuses s = withdrawal_statuses" and "idle_rows s"
  shows "idle_rows s'"
proof -
  obtain g where g: "withdrawal_rows s' = map (\<lambda>x. if wd_ID x = i then g x else x) (withdrawal_rows s)"
    "\<forall>x \<in> set (withdrawal_rows s). wd_ID x = i \<longrightarrow>
       wd_Status (g x) = wd_Status x \<or> wd_Status (g x) \<in> {''FAILED'', ''BROADCAST''} \<inter> set (wd_statuses s)"
    using assms(1) unfolding marked_def by blast
  have "''BROADCAST'' \<notin> set (wd_statuses s)" by (simp add: assms(2) withdrawal_statuses_def)
  then have "wd_Status (g x) \<notin> {''HOLD'', ''BROADCAST'', ''DONE''}" if "x \<in> set (withdrawal_rows s)" "wd_ID x = i" for x
    using g(2) that assms(3) unfolding idle_rows_def by fastforce
  then show ?thesis using assms(3) g(1) by (auto simp: idle_rows_def)
qed

lemma withdraw_inert:
  assumes "WithdrawWithSigner w e u asset dest x s = (res, s')" and "scale18 x"
  shows "inert s s'"
  using assms(1)
proof (cases rule: WithdrawWithSigner_cases)
  case (refused err)
  then show ?thesis by (simp add: quiet_inert)
next
  case (entered r t m s4 row limit)
  have r: "wd_Amount r = x" "0 < x" using entered(1,3) by (simp_all add: requested_withdrawal_def)
  have st: "inert s t" using entered(2) by (rule quiet_inert)
  have t4: "inert t s4"
  proof (rule add_withdrawal_cases [OF entered(9)])
    show "scale18 (wd_Amount r)" "0 < wd_Amount r" using assms(2) r by simp_all
  next
    assume "quiet t s4"
    then show ?thesis by (rule quiet_inert)
  next
    fix v r' assume v: "quiet t v" "s4 = v\<lparr>withdrawal_rows := withdrawal_rows t @ [r']\<rparr>" "wf_row r'"
      "r' = r\<lparr>wd_Fee := num18 (wd_Fee r), wd_ReceiveAmount := num18 (wd_ReceiveAmount r)\<rparr>" "wd_Status r \<in> set (wd_statuses t)"
    have "''HOLD'' \<notin> set withdrawal_statuses" by (simp add: withdrawal_statuses_def)
    then have "wd_Status r' = ''PENDING''" if "migrated t" using that v(4,5) entered(3) by (auto simp: migrated_def requested_withdrawal_def)
    then show ?thesis
      using v(1-3) quietD [OF v(1)] wf_wallet_cong [of s4 t] drained_cong [of t t s4 t]
      by (auto simp: inert_def migrated_def wf_withdrawals_def idle_rows_def)
  qed
  then have s4: "inert s s4" using st by (rule inert_trans [rotated])
  consider "s' = s4" | "send_withdrawal w (we_now e) r s4 = (res, s')" using entered(10-12) by blast
  then show ?thesis
  proof cases
    case 2
    have "inert s4 s'"
      unfolding inert_def
    proof (intro impI)
      assume mg: "migrated s4"
      then have wf: "wf_wallet s4" "wf_withdrawals s4" by (simp_all add: migrated_def)
      have eff: "wf_wallet s' \<and> others s4 s' \<and> marked (wd_ID r) s4 s' \<and> drained s4 s'"
        using send_withdrawal_effect [OF 2 wf] assms(2) r by simp
      then show "migrated s' \<and> drained s4 s' \<and> deposit_rows s' = deposit_rows s4"
        using mg marked_wf [OF wf(2), of "wd_ID r" s'] marked_idle [of "wd_ID r" s4 s'] by (auto simp: migrated_def others_def)
    qed
    then show ?thesis using s4 inert_trans by blast
  qed (use s4 in simp)
qed

lemma begin_review_steps:
  assumes "begin_review i s = (r, s')"
  shows "quiet s s'" and "r = Inr x \<Longrightarrow> \<exists>y \<in> set (withdrawal_rows s). wd_Status y = ''HOLD''"
proof -
  obtain a s1 where a: "query (\<lambda>_. ()) s = (a, s1)" by force
  obtain b s2 where b: "query (held_row i) s1 = (b, s2)" by force
  have q: "quiet s s1" "quiet s s2" using query_quiet [OF a] quiet_trans [OF query_quiet [OF a] query_quiet [OF b]] by simp_all
  show "quiet s s'" using assms a b q by (auto simp: begin_review_def split: option.splits)
  assume "r = Inr x"
  then have "b = Some (Some x)" using assms a b by (auto simp: begin_review_def split: option.splits)
  then have "held_row i s1 = Some x" using b by (auto simp: held_row_def dest!: query_casesD)
  then show "\<exists>y \<in> set (withdrawal_rows s). wd_Status y = ''HOLD''"
    using quietD(7) [OF q(1)] by (auto simp: held_row_def find_Some_iff)
qed

lemma reviews_inert:
  shows "inert s (snd (ApproveHeldWithdrawal w now i s))" and "inert s (snd (RejectHeldWithdrawal reason i s))"
proof -
  obtain r s1 where b: "begin_review i s = (r, s1)" by force
  have q: "inert s s1" using begin_review_steps(1) [OF b] by (rule quiet_inert)
  have no: "\<not> migrated s" if "r = Inr x" for x
    using begin_review_steps(2) [OF b that] by (auto simp: migrated_def idle_rows_def)
  show "inert s (snd (ApproveHeldWithdrawal w now i s))"
  proof (cases r)
    case (Inl e)
    then show ?thesis using b q by (simp add: ApproveHeldWithdrawal_def)
  next
    case (Inr x)
    then show ?thesis using no by (simp add: inert_def)
  qed
  show "inert s (snd (RejectHeldWithdrawal reason i s))"
  proof (cases r)
    case (Inl e)
    then show ?thesis using b q by (simp add: RejectHeldWithdrawal_def)
  next
    case (Inr x)
    then show ?thesis using no by (simp add: inert_def)
  qed
qed

lemma run_tick_inert: "inert s (run_tick w t s)"
proof -
  obtain a s1 where a: "pollDeposits w s = (a, s1)" by force
  obtain q s2 where q: "query (\<lambda>t. take 50 (filter unconfirmed (withdrawal_rows t))) s1 = (q, s2)" by force
  have p: "quiet s s1" "quiet s s2"
    using pollDeposits_quiet [OF a] quiet_trans [OF pollDeposits_quiet [OF a] query_quiet [OF q]] by simp_all
  show ?thesis
  proof (cases "migrated s")
    case True
    then have "filter unconfirmed (withdrawal_rows s1) = []"
      using quietD(7) [OF p(1)] by (auto simp: migrated_def idle_rows_def unconfirmed_def filter_empty_conv)
    then have "q = None \<or> q = Some []" using q by (auto dest!: query_casesD)
    then show ?thesis using a q quiet_inert [OF p(2)] by (auto simp: run_tick_def PollWithdrawals_def)
  next
    case False
    then show ?thesis by (simp add: inert_def)
  qed
qed

datatype watch_op =
    Deposit_op deposit_op
  | Withdraw_op watch_env uuid string string decimal
  | Approve_op int uuid
  | Reject_op string uuid
  | Turn_op int

fun watch_step :: "'c watcher \<Rightarrow> watch_op \<Rightarrow> 'c watcher_db \<Rightarrow> 'c watcher_db" where
  "watch_step w (Deposit_op op) s = deposit_step w op s"
| "watch_step w (Withdraw_op e u asset dest x) s = snd (WithdrawWithSigner w e u asset dest x s)"
| "watch_step w (Approve_op now i) s = snd (ApproveHeldWithdrawal w now i s)"
| "watch_step w (Reject_op reason i) s = snd (RejectHeldWithdrawal reason i s)"
| "watch_step w (Turn_op t) s = run_tick w t s"

fun exact_op :: "watch_op \<Rightarrow> bool" where
  "exact_op (Withdraw_op e u asset dest x) = scale18 x"
| "exact_op _ = True"

lemma watch_step_inert: "exact_op op \<Longrightarrow> inert s (watch_step w op s)"
  by (cases op) (simp_all add: deposit_step_inert reviews_inert run_tick_inert withdraw_inert [OF prod.collapse [symmetric]])



end
