(* ===== verification/Deposit_Daemon.thy ===== *)
theory Deposit_Daemon
  imports Wallet Tron_Scanner
begin

text \<open>
  The scanner daemon, cmd/tron-scanner/main.go: one polling cycle hands the events of the block scanner to the
  table of deposits, keeps the cursor, and promotes deposits from pending over confirmed to credited. The tables
  are wallet_addresses, deposits and scanner_state after migration 0032. The node behind the adapter and what
  Postgres reads from a text as a NUMERIC are arguments. Times are nanoseconds; logging is left out.
\<close>

subsection \<open>Rows\<close>

record address_row =
  ar_id :: uuid
  ar_user_id :: uuid
  ar_address :: string
  ar_chain :: string
  ar_asset :: string
  ar_wallet_type :: string
  ar_hex :: "string option"
  ar_status :: string
  ar_created_at :: int

record chain_deposit =
  cd_id :: uuid
  cd_user_id :: uuid
  cd_asset :: string
  cd_chain :: string
  cd_amount :: decimal
  cd_tx_hash :: string
  cd_event_index :: nat
  cd_from :: string
  cd_to :: string
  cd_confirmations :: int
  cd_status :: string
  cd_block_number :: "int option"
  cd_confirmed_at :: "int option"
  cd_credited_at :: "int option"

record run_row =
  rn_chain :: string
  rn_asset :: string
  rn_run_type :: string
  rn_start_at :: int
  rn_end_at :: int
  rn_status :: string

record 'c daemon_db = wallet_db +
  deposit_addresses :: "address_row list"
  chain_deposits :: "chain_deposit list"
  scanner_state :: "string \<rightharpoonup> nat"
  known_users :: "uuid list"
  reconciliation_runs :: "run_row list"
  chain_node :: 'c

text \<open>The conversion of a uint64 to int64.\<close>

definition int64 :: "nat \<Rightarrow> int" where
  "int64 n = (let m = int (n mod 2 ^ 64) in if m < 2 ^ 63 then m else m - 2 ^ 64)"

definition call_adapter :: "('c \<Rightarrow> 'r \<times> 'c) \<Rightarrow> 'c daemon_db \<Rightarrow> 'r \<times> 'c daemon_db" where
  "call_adapter f s = (case f (chain_node s) of (r, c) \<Rightarrow> (r, s\<lparr>chain_node := c\<rparr>))"

subsection \<open>One event\<close>

definition deposit_key :: "chain_deposit \<Rightarrow> string \<times> string \<times> nat" where
  "deposit_key r = (cd_chain r, cd_tx_hash r, cd_event_index r)"

text \<open>The statement names no event_index, so the column gets its default 0.\<close>

definition event_row :: "uuid \<Rightarrow> address_row \<Rightarrow> decimal \<Rightarrow> Event \<Rightarrow> chain_deposit" where
  "event_row new_id a x e =
     \<lparr>cd_id = new_id, cd_user_id = ar_user_id a, cd_asset = ar_asset a, cd_chain = ev_Chain e, cd_amount = x,
      cd_tx_hash = ev_TxHash e, cd_event_index = 0, cd_from = ev_From e, cd_to = ev_To e, cd_confirmations = 1,
      cd_status = ''PENDING'', cd_block_number = Some (int64 (ev_BlockNum e)), cd_confirmed_at = None, cd_credited_at = None\<rparr>"

definition insert_event ::
  "(string \<Rightarrow> decimal option) \<Rightarrow> uuid \<Rightarrow> address_row \<Rightarrow> Event \<Rightarrow> 'c daemon_db \<Rightarrow> (nat \<times> 'c daemon_db) option" where
  "insert_event numeric_text new_id a e s =
     (case Option.bind (numeric_text (ev_Amount e)) numeric_38_18 of
        None \<Rightarrow> None
      | Some x \<Rightarrow>
          let r = event_row new_id a x e in
          if x \<le> 0 then None
          else if deposit_key r \<in> deposit_key ` set (chain_deposits s) then Some (0, s)
          else map_option (\<lambda>rs. (1, s\<lparr>chain_deposits := rs\<rparr>)) (tbl_insert cd_id r (chain_deposits s)))"

definition persistEvent ::
  "(string \<Rightarrow> decimal option) \<Rightarrow> uuid \<Rightarrow> Event \<Rightarrow> 'c daemon_db \<Rightarrow> string option \<times> 'c daemon_db" where
  "persistEvent numeric_text new_id e s =
     (case query (\<lambda>t. find (\<lambda>a. ar_address a = ev_To e \<and> ar_status a = ''ACTIVE'') (deposit_addresses t)) s of
        (None, s1) \<Rightarrow> (Some ''lookup wallet_addresses'', s1)
      | (Some None, s1) \<Rightarrow> (None, s1)
      | (Some (Some a), s1) \<Rightarrow>
          (case exec_stmt (insert_event numeric_text new_id a e) s1 of
             (None, s2) \<Rightarrow> (Some ''insert deposit'', s2) | (Some n, s2) \<Rightarrow> (None, s2)))"

subsection \<open>Confirming and crediting\<close>

definition confirmThreshold :: int where
  "confirmThreshold = 19"

definition due :: "int \<Rightarrow> chain_deposit \<Rightarrow> bool" where
  "due head r \<longleftrightarrow> cd_status r = ''PENDING'' \<and> (case cd_block_number r of None \<Rightarrow> False | Some b \<Rightarrow> b \<le> head - confirmThreshold)"

definition confirmed_row :: "int \<Rightarrow> int \<Rightarrow> chain_deposit \<Rightarrow> chain_deposit" where
  "confirmed_row head now r =
     r\<lparr>cd_status := ''CONFIRMED'', cd_confirmations := min (cd_confirmations r) (head - the (cd_block_number r)),
       cd_confirmed_at := (case cd_confirmed_at r of None \<Rightarrow> Some now | Some t \<Rightarrow> Some t)\<rparr>"

definition promote :: "int \<Rightarrow> int \<Rightarrow> 'c daemon_db \<Rightarrow> (nat \<times> 'c daemon_db) option" where
  "promote head now s =
     map_option (\<lambda>(n, rs). (n, s\<lparr>chain_deposits := rs\<rparr>))
       (tbl_update (due head) (\<lambda>r. Some (confirmed_row head now r)) (chain_deposits s))"

definition uncredited :: "'c daemon_db \<Rightarrow> chain_deposit list" where
  "uncredited s = take 100 (filter (\<lambda>r. cd_status r = ''CONFIRMED'' \<and> cd_credited_at r = None) (chain_deposits s))"

definition mark_credited :: "int \<Rightarrow> uuid \<Rightarrow> 'c daemon_db \<Rightarrow> (nat \<times> 'c daemon_db) option" where
  "mark_credited now i s =
     map_option (\<lambda>(n, rs). (n, s\<lparr>chain_deposits := rs\<rparr>))
       (tbl_update (\<lambda>r. cd_id r = i \<and> cd_status r = ''CONFIRMED'') (\<lambda>r. Some (r\<lparr>cd_status := ''CREDITED'', cd_credited_at := Some now\<rparr>))
         (chain_deposits s))"

text \<open>The loop inside the transaction: the number credited, and the error it stopped at.\<close>

fun credit_rows :: "int \<Rightarrow> chain_deposit list \<Rightarrow> 'c daemon_db \<Rightarrow> (nat \<times> string option) \<times> 'c daemon_db" where
  "credit_rows now [] s = ((0, None), s)"
| "credit_rows now (r # rs) s =
     (case exec_stmt (credit_row (cd_user_id r) (cd_asset r) (cd_amount r)) s of
        (None, s1) \<Rightarrow> ((0, Some ''credit balance''), s1)
      | (Some _, s1) \<Rightarrow>
          (case exec_stmt (mark_credited now (cd_id r)) s1 of
             (None, s2) \<Rightarrow> ((0, Some ''mark deposit credited''), s2)
           | (Some _, s2) \<Rightarrow> (case credit_rows now rs s2 of ((n, e), s3) \<Rightarrow> ((Suc n, e), s3))))"

definition rollback_credits :: "'c daemon_db \<Rightarrow> 'c daemon_db \<Rightarrow> 'c daemon_db" where
  "rollback_credits s0 s = s\<lparr>balances := balances s0, chain_deposits := chain_deposits s0\<rparr>"

definition credit_pass :: "int \<Rightarrow> 'c daemon_db \<Rightarrow> (nat \<times> string option) \<times> 'c daemon_db" where
  "credit_pass now s =
     (case query (\<lambda>_. ()) s of
        (None, s1) \<Rightarrow> ((0, Some ''begin credit tx''), s1)
      | (Some _, s1) \<Rightarrow>
          (case query uncredited s1 of
             (None, s2) \<Rightarrow> ((0, Some ''select confirmed''), s2)
           | (Some rs, s2) \<Rightarrow>
               (case credit_rows now rs s2 of
                  ((n, Some e), s3) \<Rightarrow> ((n, Some e), rollback_credits s2 s3)
                | ((n, None), s3) \<Rightarrow>
                    (case next_fault s3 of
                       (Acked, s4) \<Rightarrow> ((n, None), s4)
                     | (Lost, s4) \<Rightarrow> ((n, Some ''commit credit tx''), rollback_credits s2 s4)
                     | (Unacked, s4) \<Rightarrow> ((n, Some ''commit credit tx''), s4)))))"

definition confirmAndCredit ::
  "('c \<Rightarrow> (string + Block) \<times> 'c) \<Rightarrow> int \<Rightarrow> 'c daemon_db \<Rightarrow> (nat \<times> nat \<times> string option) \<times> 'c daemon_db" where
  "confirmAndCredit latest now s =
     (case call_adapter latest s of
        (Inl e, s1) \<Rightarrow> ((0, 0, Some (''get latest block: '' @ e)), s1)
      | (Inr head, s1) \<Rightarrow>
          (case exec_stmt (promote (int64 (bk_Height head)) now) s1 of
             (None, s2) \<Rightarrow> ((0, 0, Some ''promote pending->confirmed''), s2)
           | (Some confirmed, s2) \<Rightarrow>
               (case credit_pass now s2 of ((credited, e), s3) \<Rightarrow> ((confirmed, credited, e), s3))))"

subsection \<open>The cursor\<close>

definition loadCursor :: "string \<Rightarrow> 'c daemon_db \<Rightarrow> nat option \<times> 'c daemon_db" where
  "loadCursor ch s = (case query (\<lambda>t. scanner_state t ch) s of (None, s1) \<Rightarrow> (None, s1) | (Some h, s1) \<Rightarrow> (h, s1))"

definition saveCursor :: "string \<Rightarrow> nat \<Rightarrow> 'c daemon_db \<Rightarrow> nat option \<times> 'c daemon_db" where
  "saveCursor ch h =
     exec_stmt (\<lambda>s. if 2 ^ 63 \<le> h then None else Some (1, s\<lparr>scanner_state := (scanner_state s)(ch \<mapsto> h)\<rparr>))"

subsection \<open>One cycle\<close>

text \<open>The channel between the goroutine of the scanner and the loop, as a list beside the node.\<close>

definition beside :: "('c \<Rightarrow> 'r \<times> 'c) \<Rightarrow> 'c \<times> Event list \<Rightarrow> 'r \<times> 'c \<times> Event list" where
  "beside f w = (case f (fst w) of (r, c) \<Rightarrow> (r, c, snd w))"

definition queue_ops :: "'c adapter_ops \<Rightarrow> ('c \<times> Event list) adapter_ops" where
  "queue_ops ops =
     \<lparr>ao_GetSolidifiedBlock = beside (ao_GetSolidifiedBlock ops), ao_GetBlockByNumber = (\<lambda>h. beside (ao_GetBlockByNumber ops h)),
      ao_GetTransaction = (\<lambda>t. beside (ao_GetTransaction ops t)), ao_ParseTransferEvents = ao_ParseTransferEvents ops\<rparr>"

definition queue_event :: "Event \<Rightarrow> 'c \<times> Event list \<Rightarrow> 'c \<times> Event list" where
  "queue_event e w = (fst w, snd w @ [e])"

fun persist_all :: "(string \<Rightarrow> decimal option) \<Rightarrow> (Event \<times> uuid) list \<Rightarrow> 'c daemon_db \<Rightarrow> nat \<times> 'c daemon_db" where
  "persist_all numeric_text [] s = (0, s)"
| "persist_all numeric_text ((e, i) # es) s =
     (case persistEvent numeric_text i e s of
        (err, s1) \<Rightarrow> (case persist_all numeric_text es s1 of (n, s2) \<Rightarrow> (if err = None then Suc n else n, s2)))"

text \<open>
  When the scan fails, the loop may see the error before the events still buffered, at most the 64 the channel
  holds; which of them is up to Go's select, the argument unread. New rows get the identifiers of ids. The two
  other ends of the loop, the 60 seconds and a cancelled context, leave the scanner running and are not modelled.
\<close>

definition runOnce ::
  "(string \<Rightarrow> decimal option) \<Rightarrow> ('c \<Rightarrow> bool) \<Rightarrow> 'c adapter_ops \<Rightarrow> ('c \<Rightarrow> (string + Block) \<times> 'c) \<Rightarrow> int \<Rightarrow> (nat \<Rightarrow> uuid) \<Rightarrow> nat
    \<Rightarrow> Scanner \<Rightarrow> 'c daemon_db \<Rightarrow> string option \<times> Scanner \<times> 'c daemon_db" where
  "runOnce numeric_text cancelled ops latest now ids unread sc s =
     (case RunOnce (\<lambda>w. cancelled (fst w)) (queue_ops ops) queue_event sc (chain_node s, []) of
        ((n, Some err), sc1, (c, es)) \<Rightarrow>
          (Some err, sc1,
           snd (persist_all numeric_text (zip (take (length es - min unread 64) es) (map ids [0..<length es])) (s\<lparr>chain_node := c\<rparr>)))
      | ((n, None), sc1, (c, es)) \<Rightarrow>
          (case persist_all numeric_text (zip es (map ids [0..<length es])) (s\<lparr>chain_node := c\<rparr>) of
             (persisted, s1) \<Rightarrow>
               (None, sc1, snd (confirmAndCredit latest now (snd (saveCursor ''TRON'' (GetCursor sc1) s1))))))"

text \<open>Durations are nanoseconds.\<close>

definition bumpInterval :: "int \<Rightarrow> int \<Rightarrow> int \<Rightarrow> int" where
  "bumpInterval base current most =
     (let next = (if 2 * current < base then base else 2 * current) in if most < next then most else next)"

definition maxInterval :: int where
  "maxInterval = 5 * 60 * 1000000000"

text \<open>The interval after a cycle with and without an error.\<close>

definition next_interval :: "int \<Rightarrow> bool \<Rightarrow> int \<Rightarrow> int" where
  "next_interval base failed current = (if failed then bumpInterval base current maxInterval else base)"

definition contractForAsset :: "string \<Rightarrow> string" where
  "contractForAsset asset = (if ToUpper asset = ''USDT'' then ''41a614f803b6fd780986a42c79ec8394ade726993d'' else [])"

text \<open>The scanner a start begins with: an unreadable cursor leaves it at 0.\<close>

definition start_scanner :: "string \<Rightarrow> 'c daemon_db \<Rightarrow> Scanner \<times> 'c daemon_db" where
  "start_scanner asset s =
     (let sc = AddWatchByContract (contractForAsset asset) NewScanner in
      case loadCursor ''TRON'' s of (None, s1) \<Rightarrow> (sc, s1) | (Some h, s1) \<Rightarrow> (SetCursor h sc, s1))"

subsection \<open>Providers from the environment\<close>

text \<open>The environment as entries KEY=VALUE; os.Getenv finds the first of a key.\<close>

definition env_entry :: "string \<Rightarrow> (string \<times> string) option" where
  "env_entry kv = (case IndexByte kv CHR ''='' of None \<Rightarrow> None | Some i \<Rightarrow> Some (take i kv, drop (Suc i) kv))"

definition Getenv :: "string list \<Rightarrow> string \<Rightarrow> string" where
  "Getenv env key = (case map_of (List.map_filter env_entry env) key of None \<Rightarrow> [] | Some v \<Rightarrow> v)"

definition envOr :: "string list \<Rightarrow> string \<Rightarrow> string \<Rightarrow> string" where
  "envOr env key def = (if Getenv env key \<noteq> [] then Getenv env key else def)"

definition envInt :: "(string \<Rightarrow> int option) \<Rightarrow> string list \<Rightarrow> string \<Rightarrow> int \<Rightarrow> int" where
  "envInt atoi env key def =
     (if Getenv env key = [] then def else (case atoi (Getenv env key) of None \<Rightarrow> def | Some n \<Rightarrow> n))"

text \<open>The fields a configuration sets.\<close>

record provider_config =
  pc_Name :: string
  pc_BaseURL :: string
  pc_APIKey :: string
  pc_Weight :: int

definition named_provider :: "string list \<Rightarrow> string \<times> string \<Rightarrow> provider_config option" where
  "named_provider env kv =
     (case kv of (key, url) \<Rightarrow>
        let pre = ''TRON_PROVIDER_''; suf = ''_URL'' in
        if \<not> (HasPrefix key pre \<and> HasSuffix key suf) then None
        else
          (let name = ToLower (take (length key - length suf - length pre) (drop (length pre) key)) in
           if name = [] \<or> url = [] then None
           else Some \<lparr>pc_Name = name, pc_BaseURL = url, pc_APIKey = Getenv env (''TRON_PROVIDER_'' @ name @ ''_KEY''), pc_Weight = 1\<rparr>))"

definition legacy_provider :: "string list \<Rightarrow> string \<Rightarrow> string \<Rightarrow> provider_config list" where
  "legacy_provider env role name =
     (if Getenv env (''TRON_'' @ role @ ''_URL'') = [] then []
      else [\<lparr>pc_Name = envOr env (''TRON_'' @ role @ ''_NAME'') name, pc_BaseURL = Getenv env (''TRON_'' @ role @ ''_URL''),
             pc_APIKey = Getenv env (''TRON_'' @ role @ ''_KEY''), pc_Weight = 1\<rparr>])"

text \<open>A key that is both with the two overlapping, TRON_PROVIDER_URL, makes the slice panic: \<open>None\<close>.\<close>

definition scanProvidersFromEnv :: "string list \<Rightarrow> provider_config list option" where
  "scanProvidersFromEnv env =
     (if ''TRON_PROVIDER_URL'' \<in> fst ` set (List.map_filter env_entry env) then None
      else Some (legacy_provider env ''PRIMARY'' ''primary'' @ legacy_provider env ''BACKUP'' ''backup'' @
             List.map_filter (named_provider env) (List.map_filter env_entry env)))"

end
