(* ===== verification/Deposit_Daemon_Correct.thy ===== *)
theory Deposit_Daemon_Correct
  imports Deposit_Daemon Tron_Withdrawals
begin

text \<open>
  The deposits of the scanner daemon: the balances and the table agree under every fault, a confirmed deposit is
  credited when the database answers, and what the daemon can record of the events the adapter makes.
\<close>

subsection \<open>Rows\<close>

definition credited_sum :: "uuid \<Rightarrow> string \<Rightarrow> chain_deposit list \<Rightarrow> decimal" where
  "credited_sum u a rs = sum_list (map cd_amount (filter (\<lambda>r. cd_user_id r = u \<and> cd_asset r = a \<and> cd_status r = ''CREDITED'') rs))"

definition wf_deposits :: "'c daemon_db \<Rightarrow> bool" where
  "wf_deposits s \<longleftrightarrow> (\<forall>r \<in> set (chain_deposits s). 0 < cd_amount r \<and> scale18 (cd_amount r)) \<and>
     distinct (map cd_id (chain_deposits s)) \<and> distinct (map deposit_key (chain_deposits s))"

definition same_deposit :: "chain_deposit \<Rightarrow> chain_deposit \<Rightarrow> bool" where
  "same_deposit x y \<longleftrightarrow> cd_id y = cd_id x \<and> cd_user_id y = cd_user_id x \<and> cd_asset y = cd_asset x \<and> cd_amount y = cd_amount x \<and>
     deposit_key y = deposit_key x \<and> cd_block_number y = cd_block_number x"

text \<open>The status only goes forward, and a credited row never changes again.\<close>

definition deposit_moves :: "chain_deposit \<Rightarrow> chain_deposit \<Rightarrow> bool" where
  "deposit_moves x y \<longleftrightarrow> same_deposit x y \<and> (cd_status x = ''CREDITED'' \<longrightarrow> y = x) \<and>
     (cd_status y = cd_status x \<or> cd_status x = ''PENDING'' \<and> cd_status y \<in> {''CONFIRMED'', ''CREDITED''} \<or>
      cd_status x = ''CONFIRMED'' \<and> cd_status y = ''CREDITED'')"

definition deposits_move :: "'c daemon_db \<Rightarrow> 'c daemon_db \<Rightarrow> bool" where
  "deposits_move s s' \<longleftrightarrow> (\<forall>x \<in> set (chain_deposits s). \<exists>y \<in> set (chain_deposits s'). deposit_moves x y)"

lemma deposit_moves_refl [simp]: "deposit_moves x x"
  and deposit_moves_trans: "deposit_moves x y \<Longrightarrow> deposit_moves y z \<Longrightarrow> deposit_moves x z"
  by (auto simp: deposit_moves_def same_deposit_def)

definition agree :: "'c daemon_db \<Rightarrow> 'c daemon_db \<Rightarrow> bool" where
  "agree s s' \<longleftrightarrow> (wf_wallet s \<and> wf_deposits s \<longrightarrow>
     wf_wallet s' \<and> wf_deposits s' \<and> deposits_move s s' \<and>
     (\<forall>u a. wallet_available s' u a - credited_sum u a (chain_deposits s') = wallet_available s u a - credited_sum u a (chain_deposits s) \<and>
            wallet_frozen s' u a = wallet_frozen s u a))"

lemma agreeD:
  assumes "agree s s'" "wf_wallet s" "wf_deposits s"
  shows "wf_wallet s'" "wf_deposits s'" "deposits_move s s'"
  using assms by (simp_all add: agree_def)

lemma deposits_move_trans: "deposits_move s t \<Longrightarrow> deposits_move t v \<Longrightarrow> deposits_move s v"
  unfolding deposits_move_def by (meson deposit_moves_trans)

lemma agree_trans: "agree s t \<Longrightarrow> agree t v \<Longrightarrow> agree s v"
  using deposits_move_trans [of s t v] unfolding agree_def by auto

lemma agree_same:
  assumes "balances s' = balances s" and "chain_deposits s' = chain_deposits s"
  shows "agree s s'"
proof -
  have "wallet_available s' = wallet_available s" "wallet_frozen s' = wallet_frozen s"
    using assms(1) by (simp_all add: wallet_available_def wallet_frozen_def fun_eq_iff)
  moreover have "deposits_move s s'" using assms(2) by (auto simp: deposits_move_def intro: deposit_moves_refl)
  ultimately show ?thesis using assms wf_wallet_cong [OF assms(1)] by (simp add: agree_def wf_deposits_def)
qed

lemma agree_refl [simp]: "agree s s"
  by (rule agree_same) simp_all

lemma query_agree: "query f s = (r, s') \<Longrightarrow> agree s s'"
  by (rule agree_same) (auto dest!: query_casesD)

text \<open>An update of the table that moves rows forward and credits none.\<close>

lemma rows_agree:
  assumes "balances s' = balances s" and "chain_deposits s' = map g (chain_deposits s)"
    and "\<And>x. x \<in> set (chain_deposits s) \<Longrightarrow> deposit_moves x (g x) \<and> (cd_status (g x) = ''CREDITED'' \<longrightarrow> g x = x)"
  shows "agree s s'"
proof -
  have av: "wallet_available s' = wallet_available s" "wallet_frozen s' = wallet_frozen s"
    using assms(1) by (simp_all add: wallet_available_def wallet_frozen_def fun_eq_iff)
  have same: "same_deposit x (g x)" if "x \<in> set (chain_deposits s)" for x using assms(3) [OF that] by (simp add: deposit_moves_def)
  have ids: "map cd_id (map g (chain_deposits s)) = map cd_id (chain_deposits s)"
    "map deposit_key (map g (chain_deposits s)) = map deposit_key (chain_deposits s)"
    using same by (simp_all add: same_deposit_def)
  have one: "cd_amount (g x) = cd_amount x \<and> cd_user_id (g x) = cd_user_id x \<and> cd_asset (g x) = cd_asset x \<and>
      (cd_status (g x) = ''CREDITED'') = (cd_status x = ''CREDITED'')" if "x \<in> set (chain_deposits s)" for x
    using assms(3) [OF that] same [OF that] by (auto simp: deposit_moves_def same_deposit_def)
  have "credited_sum u a (map g xs) = credited_sum u a xs" if "set xs \<subseteq> set (chain_deposits s)" for u a xs
    using that one by (induction xs) (auto simp: credited_sum_def)
  then have sums: "credited_sum u a (chain_deposits s') = credited_sum u a (chain_deposits s)" for u a
    unfolding assms(2) by blast
  have "wf_deposits s \<Longrightarrow> wf_deposits s'"
    unfolding wf_deposits_def assms(2) ids using one by auto
  moreover have "deposits_move s s'" unfolding deposits_move_def assms(2) using assms(3) by auto
  ultimately show ?thesis using av sums wf_wallet_cong [OF assms(1)] by (simp add: agree_def)
qed

lemma insert_event_agree:
  assumes "insert_event num i a e s = Some (n, s')"
  shows "agree s s'"
proof (cases "s' = s")
  case False
  then obtain y x where x: "numeric_38_18 y = Some x" "0 < x" and s': "s' = s\<lparr>chain_deposits := chain_deposits s @ [event_row i a x e]\<rparr>"
    and new: "deposit_key (event_row i a x e) \<notin> deposit_key ` set (chain_deposits s)" "i \<notin> cd_id ` set (chain_deposits s)"
    using assms by (auto simp: insert_event_def Let_def bind_eq_Some_conv tbl_insert_def event_row_def split: option.splits if_splits)
  have "scale18 x" using x(1) by (auto dest!: numeric_38_18_SomeD)
  then have "wf_deposits s \<Longrightarrow> wf_deposits s'" using x(2) new s' by (auto simp: wf_deposits_def event_row_def)
  moreover have "deposits_move s s'" using s' by (auto simp: deposits_move_def intro: deposit_moves_refl)
  moreover have "credited_sum u b (chain_deposits s') = credited_sum u b (chain_deposits s)" for u b
    using s' by (simp add: credited_sum_def event_row_def)
  moreover have "wallet_available s' = wallet_available s" "wallet_frozen s' = wallet_frozen s" "wf_wallet s' = wf_wallet s"
    using s' wf_wallet_cong [of s' s] by (simp_all add: wallet_available_def wallet_frozen_def fun_eq_iff)
  ultimately show ?thesis by (simp add: agree_def)
qed simp

lemma faults_agree: "agree (s\<lparr>faults := fs\<rparr>) s' = agree s s'" "agree s (s'\<lparr>faults := fs\<rparr>) = agree s s'"
  by (simp_all add: agree_def wf_deposits_def deposits_move_def)

lemma exec_agree:
  assumes "exec_stmt f s = (r, s')" and "\<And>t n t'. f t = Some (n, t') \<Longrightarrow> agree t t'"
  shows "agree s s'"
  using exec_stmt_casesD [OF assms(1)] assms(2) faults_agree(1) by (metis agree_refl)

lemma persistEvent_agree: "persistEvent num i e s = (r, s') \<Longrightarrow> agree s s'"
  by (auto simp: persistEvent_def split: prod.splits option.splits dest: query_agree)
    (meson agree_trans exec_agree insert_event_agree query_agree)+

lemma persist_all_agree: "agree s (snd (persist_all num es s))"
proof (induction num es s rule: persist_all.induct)
  case (2 num e i es s)
  obtain r s1 where r: "persistEvent num i e s = (r, s1)" by force
  then show ?case using agree_trans [OF persistEvent_agree [OF r] 2(1) [OF r [symmetric]]] by (auto split: prod.splits)
qed simp

lemma promote_agree:
  assumes "promote head now s = Some (n, s')"
  shows "agree s s'"
proof (rule rows_agree)
  have e: "chain_deposits s' = map (\<lambda>r. if due head r then confirmed_row head now r else r) (chain_deposits s)"
    "balances s' = balances s"
    using assms by (auto simp: promote_def dest!: tbl_update_SomeD)
  show "balances s' = balances s" by (rule e)
  show "chain_deposits s' = map (\<lambda>r. if due head r then confirmed_row head now r else r) (chain_deposits s)" by (rule e)
qed (auto simp: deposit_moves_def same_deposit_def due_def confirmed_row_def deposit_key_def)

subsection \<open>Crediting\<close>

lemma credit_row_exec:
  assumes "exec_stmt (credit_row u a x) s = (Some n, s')" and "0 < x"
  shows "wallet_exec (CmdCredit u a x) s = (Inr (), s')"
proof -
  obtain t where "credit_row u a x t = Some (n, s')" using exec_stmt_casesD [OF assms(1)] by auto
  then have "n \<noteq> 0" by (auto simp: credit_row_def update_balance_def split: option.splits)
  then show ?thesis using assms by (simp add: Credit_def repo_Credit_def wrap_err_def)
qed

lemma credit_exec_fields:
  assumes "wallet_exec c s = (r, s')"
  shows "chain_deposits s' = chain_deposits s" "scanner_state s' = scanner_state s" "chain_node s' = chain_node s"
    "deposit_addresses s' = deposit_addresses s"
  using wallet_exec_frame [OF assms] by (auto simp: only_balances_def)

lemma mark_credited_rows:
  assumes "exec_stmt (mark_credited now i) s = (Some n, s')"
  shows "balances s' = balances s" and "chain_deposits s' = map (\<lambda>r. if cd_id r = i \<and> cd_status r = ''CONFIRMED''
      then r\<lparr>cd_status := ''CREDITED'', cd_credited_at := Some now\<rparr> else r) (chain_deposits s)"
  using exec_stmt_casesD [OF assms] by (auto simp: mark_credited_def dest!: tbl_update_SomeD)

lemma credited_sum_Cons:
  "credited_sum u a (x # xs) =
     (if cd_user_id x = u \<and> cd_asset x = a \<and> cd_status x = ''CREDITED'' then cd_amount x else 0) + credited_sum u a xs"
  by (simp add: credited_sum_def)

lemma credited_sum_mark:
  assumes "distinct (map cd_id rs)" and "r \<in> set rs" and "cd_status r = ''CONFIRMED''"
  shows "credited_sum u a (map (\<lambda>x. if cd_id x = cd_id r \<and> cd_status x = ''CONFIRMED''
      then x\<lparr>cd_status := ''CREDITED'', cd_credited_at := Some now\<rparr> else x) rs) =
    credited_sum u a rs + (if cd_user_id r = u \<and> cd_asset r = a then cd_amount r else 0)"
  using assms(1,2)
proof (induction rs)
  case (Cons x rs)
  show ?case
  proof (cases "x = r")
    case True
    have "map (\<lambda>x. if cd_id x = cd_id r \<and> cd_status x = ''CONFIRMED''
        then x\<lparr>cd_status := ''CREDITED'', cd_credited_at := Some now\<rparr> else x) rs = rs"
      using Cons.prems(1) True by (intro map_idI) (auto simp: image_iff)
    then show ?thesis using True assms(3) by (simp add: credited_sum_Cons)
  next
    case False
    then have r: "r \<in> set rs" "distinct (map cd_id rs)" using Cons.prems by simp_all
    moreover have "cd_id x \<noteq> cd_id r" using r(1) Cons.prems(1) by auto
    ultimately show ?thesis using Cons.IH by (simp add: credited_sum_Cons)
  qed
qed simp

lemma credit_rows_agree:
  assumes "credit_rows now rs s = ((n, None), s')" and "\<forall>r \<in> set rs. r \<in> set (chain_deposits s) \<and> cd_status r = ''CONFIRMED''"
    and "distinct (map cd_id rs)"
  shows "agree s s'"
  using assms
proof (induction rs arbitrary: s n)
  case (Cons r rs)
  obtain k s1 where c: "exec_stmt (credit_row (cd_user_id r) (cd_asset r) (cd_amount r)) s = (Some k, s1)"
    using Cons.prems(1) by (auto split: prod.splits option.splits)
  obtain j s2 where m: "exec_stmt (mark_credited now (cd_id r)) s1 = (Some j, s2)"
    using Cons.prems(1) c by (auto split: prod.splits option.splits)
  obtain n' where rest: "credit_rows now rs s2 = ((n', None), s')"
    using Cons.prems(1) c m by (auto split: prod.splits)
  show ?case
  proof (cases "wf_wallet s \<and> wf_deposits s")
    case False
    then show ?thesis by (auto simp: agree_def)
  next
    case True
    then have r: "0 < cd_amount r" "scale18 (cd_amount r)" "r \<in> set (chain_deposits s)" "cd_status r = ''CONFIRMED''"
      and d: "distinct (map cd_id (chain_deposits s))"
      using Cons.prems(2) by (auto simp: wf_deposits_def)
    have e: "wallet_exec (CmdCredit (cd_user_id r) (cd_asset r) (cd_amount r)) s = (Inr (), s1)"
      using credit_row_exec [OF c r(1)] .
    have eff: "wf_wallet s1" "applies (CmdCredit (cd_user_id r) (cd_asset r) (cd_amount r)) (wallet_cols s) (wallet_cols s1)"
      using wallet_exec_effect [OF e] True r(2) by auto
    let ?g = "\<lambda>x. if cd_id x = cd_id r \<and> cd_status x = ''CONFIRMED'' then x\<lparr>cd_status := ''CREDITED'', cd_credited_at := Some now\<rparr> else x"
    have rows: "balances s2 = balances s1" "chain_deposits s2 = map ?g (chain_deposits s)"
      using mark_credited_rows [OF m] credit_exec_fields(1) [OF e] by simp_all
    have cols: "wallet_available s2 = wallet_available s1" "wallet_frozen s2 = wallet_frozen s1"
      using rows(1) by (simp_all add: wallet_available_def wallet_frozen_def fun_eq_iff)
    have wf2: "wf_deposits s2"
    proof -
      have ids: "map cd_id (map ?g (chain_deposits s)) = map cd_id (chain_deposits s)"
        "map deposit_key (map ?g (chain_deposits s)) = map deposit_key (chain_deposits s)" by (simp_all add: deposit_key_def)
      have "\<forall>x \<in> set (map ?g (chain_deposits s)). 0 < cd_amount x \<and> scale18 (cd_amount x)"
        using True by (auto simp: wf_deposits_def)
      then show ?thesis using True unfolding wf_deposits_def rows(2) ids by blast
    qed
    have "deposit_moves x (?g x)" for x by (simp add: deposit_moves_def same_deposit_def deposit_key_def)
    then have mv: "deposits_move s s2" unfolding deposits_move_def rows(2) set_map by blast
    have step: "agree s s2"
      using eff cols credited_sum_mark [OF d r(3,4)] wf2 mv rows wf_wallet_cong [OF rows(1)]
      by (auto simp: agree_def applies_def wallet_cols_def bump_def fun_eq_iff)
    have "\<forall>q \<in> set rs. q \<in> set (chain_deposits s2) \<and> cd_status q = ''CONFIRMED''"
    proof
      fix q assume q: "q \<in> set rs"
      then have "cd_id q \<noteq> cd_id r" using Cons.prems(3) by (auto simp: image_iff)
      then have eq: "?g q = q" by simp
      have q2: "q \<in> set (chain_deposits s)" "cd_status q = ''CONFIRMED''" using Cons.prems(2) q by simp_all
      have "?g q \<in> set (map ?g (chain_deposits s))" unfolding set_map by (rule imageI) (rule q2(1))
      then show "q \<in> set (chain_deposits s2) \<and> cd_status q = ''CONFIRMED''" using q2(2) unfolding rows(2) eq by blast
    qed
    then show ?thesis using agree_trans [OF step Cons.IH [OF rest]] Cons.prems(3) by simp
  qed
qed simp

lemma credit_pass_agree:
  assumes "credit_pass now s = ((n, e), s')"
  shows "agree s s'"
proof -
  obtain b s1 where b: "query (\<lambda>_. ()) s = (b, s1)" by force
  obtain q s2 where q: "query uncredited s1 = (q, s2)" by force
  have a2: "agree s s1" "agree s s2" using query_agree [OF b] agree_trans [OF query_agree [OF b] query_agree [OF q]] by simp_all
  note unf = assms [unfolded credit_pass_def b q prod.case]
  show ?thesis
  proof (cases "b = None \<or> q = None")
    case True
    then show ?thesis using unf a2 by (auto split: option.splits)
  next
    case False
    then obtain rs where rs: "q = Some rs" by auto
    obtain m err s3 where c: "credit_rows now rs s2 = ((m, err), s3)" by (metis prod.exhaust)
    obtain fl s4 where f: "next_fault s3 = (fl, s4)" by force
    have undo: "agree s2 (rollback_credits s2 t)" for t by (rule agree_same) (simp_all add: rollback_credits_def)
    show ?thesis
    proof (cases err)
      case (Some x)
      then have "s' = rollback_credits s2 s3" using unf False rs c by (auto split: option.splits)
      then show ?thesis using agree_trans [OF a2(2) undo] by simp
    next
      case None
      have "rs = uncredited s1" using q rs by (auto simp: uncredited_def dest!: query_casesD)
      then have mem: "\<forall>r \<in> set rs. r \<in> set (chain_deposits s2) \<and> cd_status r = ''CONFIRMED''"
        using q by (auto simp: uncredited_def dest!: query_casesD in_set_takeD)
      have "agree s2 s3"
      proof (cases "wf_deposits s2")
        case True
        then have "distinct (map cd_id rs)"
          using \<open>rs = uncredited s1\<close> q
          by (auto simp: uncredited_def wf_deposits_def distinct_map_filter take_map [symmetric] dest!: query_casesD)
        then show ?thesis using credit_rows_agree [OF c [unfolded None] mem] by simp
      next
        case False
        then show ?thesis by (simp add: agree_def)
      qed
      moreover have "agree s3 s4" using next_fault_casesD [OF f] by (auto intro: agree_same)
      moreover have "s' = rollback_credits s2 s4 \<or> s' = s4" using unf False rs c None f by (auto split: option.splits fault.splits)
      ultimately show ?thesis using a2(2) undo agree_trans by metis
    qed
  qed
qed

lemma confirmAndCredit_agree:
  assumes "confirmAndCredit latest now s = (r, s')"
  shows "agree s s'"
proof -
  obtain h s1 where h: "call_adapter latest s = (h, s1)" by force
  have a1: "agree s s1" using h by (auto simp: call_adapter_def split: prod.splits intro!: agree_same)
  show ?thesis
  proof (cases h)
    case (Inl e)
    then show ?thesis using assms h a1 by (simp add: confirmAndCredit_def)
  next
    case (Inr head)
    obtain m s2 where m: "exec_stmt (promote (int64 (bk_Height head)) now) s1 = (m, s2)" by force
    obtain n e s3 where c: "credit_pass now s2 = ((n, e), s3)" by (metis prod.exhaust)
    have a2: "agree s s2" using agree_trans [OF a1 exec_agree [OF m promote_agree]] .
    then show ?thesis
      using assms h Inr m c agree_trans [OF a2 credit_pass_agree [OF c]] by (auto simp: confirmAndCredit_def split: option.splits)
  qed
qed

lemma saveCursor_agree: "agree s (snd (saveCursor ch h s))"
  unfolding saveCursor_def
  by (rule exec_agree [OF prod.collapse [symmetric]]) (auto intro: agree_same split: if_splits)

lemma runOnce_agree:
  assumes "runOnce num cancelled ops latest now ids unread sc s = (r, sc', s')"
  shows "agree s s'"
proof -
  obtain n err sc1 c es where run: "RunOnce (\<lambda>w. cancelled (fst w)) (queue_ops ops) queue_event sc (chain_node s, []) = ((n, err), sc1, (c, es))"
    by (metis prod.exhaust)
  have 0: "agree s (s\<lparr>chain_node := c\<rparr>)" by (rule agree_same) simp_all
  have p: "agree s (snd (persist_all num xs (s\<lparr>chain_node := c\<rparr>)))" for xs by (rule agree_trans [OF 0 persist_all_agree])
  show ?thesis
  proof (cases err)
    case (Some e)
    then show ?thesis using assms run p by (auto simp: runOnce_def)
  next
    case None
    let ?s1 = "snd (persist_all num (zip es (map ids [0..<length es])) (s\<lparr>chain_node := c\<rparr>))"
    have "s' = snd (confirmAndCredit latest now (snd (saveCursor ''TRON'' (GetCursor sc1) ?s1)))"
      using assms run None by (auto simp: runOnce_def split: prod.splits)
    then show ?thesis
      using agree_trans [OF agree_trans [OF p saveCursor_agree] confirmAndCredit_agree [OF prod.collapse [symmetric]]] by simp
  qed
qed

text \<open>Cycle after cycle: the clock, the identifiers of new rows and the events left unread of each.\<close>

fun cycles ::
  "(string \<Rightarrow> decimal option) \<Rightarrow> ('c \<Rightarrow> bool) \<Rightarrow> 'c adapter_ops \<Rightarrow> ('c \<Rightarrow> (string + Block) \<times> 'c) \<Rightarrow> (int \<times> (nat \<Rightarrow> uuid) \<times> nat) list
    \<Rightarrow> Scanner \<Rightarrow> 'c daemon_db \<Rightarrow> Scanner \<times> 'c daemon_db" where
  "cycles num cancelled ops latest [] sc s = (sc, s)"
| "cycles num cancelled ops latest ((now, ids, unread) # cs) sc s =
     (case runOnce num cancelled ops latest now ids unread sc s of (r, sc1, s1) \<Rightarrow> cycles num cancelled ops latest cs sc1 s1)"

lemma cycles_agree: "agree s (snd (cycles num cancelled ops latest cs sc s))"
proof (induction num cancelled ops latest cs sc s rule: cycles.induct)
  case (2 num cancelled ops latest now ids unread cs sc s)
  obtain r sc1 s1 where r: "runOnce num cancelled ops latest now ids unread sc s = (r, sc1, s1)" by (metis prod.exhaust)
  then show ?case using agree_trans [OF runOnce_agree [OF r]] 2 by simp
qed simp

text \<open>C37: However many cycles the daemon runs, over any chain, any identifiers and any database faults, the
  balances have grown by exactly the deposits that became credited; a row keeps its user, amount and
  transaction, goes forward only, and never changes once it is credited, and no transaction has two rows.\<close>
theorem credited_deposits_match_ledger:
  assumes "wf_wallet s" and "wf_deposits s" and "cycles num cancelled ops latest cs sc s = (sc', s')"
  shows "(\<forall>u a. wallet_available s' u a - credited_sum u a (chain_deposits s') =
            wallet_available s u a - credited_sum u a (chain_deposits s) \<and> wallet_frozen s' u a = wallet_frozen s u a) \<and>
    (\<forall>x \<in> set (chain_deposits s). \<exists>y \<in> set (chain_deposits s'). deposit_moves x y) \<and>
    distinct (map deposit_key (chain_deposits s'))"
proof -
  have "agree s s'" using cycles_agree [of s num cancelled ops latest cs sc] assms(3) by simp
  then show ?thesis using assms(1,2) unfolding agree_def deposits_move_def wf_deposits_def by blast
qed

text \<open>A chain whose block 6 has one transfer, and a table with one deposit of block 5.\<close>

definition demo_scan_lib :: "unit tron_lib" where
  "demo_scan_lib = demo_lib\<lparr>tl_unmarshal_log := (\<lambda>_. Some \<lparr>lg_Address = ''a614f803b6fd780986a42c79ec8394ade726993d'',
     lg_Topics = [transferTopic, ''01'', ''02''], lg_Data = ''05''\<rparr>)\<rparr>"

definition demo_scan_ops :: "unit adapter_ops" where
  "demo_scan_ops =
     \<lparr>ao_GetSolidifiedBlock = (\<lambda>c. (Inr \<lparr>bk_Height = 6, bk_Hash = [], bk_LogTime = 0, bk_TxHashes = [], bk_IsFinal = True\<rparr>, c)),
      ao_GetBlockByNumber = (\<lambda>h c. (Inr \<lparr>bk_Height = h, bk_Hash = [], bk_LogTime = 0, bk_TxHashes = [''t''], bk_IsFinal = True\<rparr>, c)),
      ao_GetTransaction = (\<lambda>t c. (Inr \<lparr>tx_Hash = t, tx_BlockNumber = 6, tx_BlockHash = [], tx_Status = ''SUCCESS'', tx_Events = [''l'']\<rparr>, c)),
      ao_ParseTransferEvents = (\<lambda>tx c. Inr (ParseTransferEvents demo_scan_lib tx c))\<rparr>"

definition demo_latest :: "unit \<Rightarrow> (string + Block) \<times> unit" where
  "demo_latest c = (Inr \<lparr>bk_Height = 30, bk_Hash = [], bk_LogTime = 0, bk_TxHashes = [], bk_IsFinal = True\<rparr>, c)"

definition demo_daemon_db :: "unit daemon_db" where
  "demo_daemon_db =
     \<lparr>faults = [], balances = [(7, ''USDT'') \<mapsto> \<lparr>available = 100, frozen = 0\<rparr>], currencies = [(''USDT'', True)],
      deposit_addresses = [\<lparr>ar_id = 1, ar_user_id = 7, ar_address = ''TX7'', ar_chain = ''TRON'', ar_asset = ''USDT'',
        ar_wallet_type = ''DEPOSIT'', ar_hex = Some ''41'', ar_status = ''ACTIVE'', ar_created_at = 0\<rparr>],
      chain_deposits = [\<lparr>cd_id = 1, cd_user_id = 7, cd_asset = ''USDT'', cd_chain = ''TRON'', cd_amount = 5, cd_tx_hash = ''u'',
        cd_event_index = 0, cd_from = ''x'', cd_to = ''TX7'', cd_confirmations = 1, cd_status = ''PENDING'', cd_block_number = Some 5,
        cd_confirmed_at = None, cd_credited_at = None\<rparr>],
      scanner_state = Map.empty, known_users = [7], reconciliation_runs = [], chain_node = ()\<rparr>"

lemma demo_daemon_facts:
  "faults demo_daemon_db = []" "wf_wallet demo_daemon_db" "wf_deposits demo_daemon_db" "wallet_available demo_daemon_db 7 ''USDT'' = 100"
  "\<forall>a \<in> set (deposit_addresses demo_daemon_db). \<not> HasPrefix (ar_address a) ''0x''"
  by (simp_all add: demo_daemon_db_def wf_wallet_def wf_deposits_def wallet_available_def)

theorem credited_deposits_match_ledger_witness:
  "\<exists>sc' s'. cycles (\<lambda>_. Some 5) (\<lambda>_. False) demo_scan_ops demo_latest [(9, \<lambda>n. n + 2, 0), (12, \<lambda>n. n + 9, 0)]
       (fst (start_scanner ''USDT'' demo_daemon_db)) demo_daemon_db = (sc', s') \<and>
     wallet_available s' 7 ''USDT'' - credited_sum 7 ''USDT'' (chain_deposits s') =
       wallet_available demo_daemon_db 7 ''USDT'' - credited_sum 7 ''USDT'' (chain_deposits demo_daemon_db) \<and>
     distinct (map deposit_key (chain_deposits s'))"
proof -
  obtain sc' s' where "cycles (\<lambda>_. Some 5) (\<lambda>_. False) demo_scan_ops demo_latest [(9, \<lambda>n. n + 2, 0), (12, \<lambda>n. n + 9, 0)]
       (fst (start_scanner ''USDT'' demo_daemon_db)) demo_daemon_db = (sc', s')" by (rule prod.exhaust)
  with credited_deposits_match_ledger [OF demo_daemon_facts(2,3) this] show ?thesis by blast
qed

subsection \<open>When the database answers\<close>

definition marked_credited :: "int \<Rightarrow> uuid set \<Rightarrow> chain_deposit \<Rightarrow> chain_deposit" where
  "marked_credited now ids r =
     (if cd_id r \<in> ids \<and> cd_status r = ''CONFIRMED'' then r\<lparr>cd_status := ''CREDITED'', cd_credited_at := Some now\<rparr> else r)"

definition owed :: "uuid \<Rightarrow> string \<Rightarrow> chain_deposit list \<Rightarrow> decimal" where
  "owed u a rs = sum_list (map cd_amount (filter (\<lambda>r. cd_user_id r = u \<and> cd_asset r = a) rs))"

lemma owed_Cons: "owed u a (r # rs) = (if cd_user_id r = u \<and> cd_asset r = a then cd_amount r else 0) + owed u a rs"
  by (simp add: owed_def)

lemma owed_nonneg: "\<forall>r \<in> set rs. 0 < cd_amount r \<Longrightarrow> 0 \<le> owed u a rs"
  unfolding owed_def by (intro sum_list_nonneg) (auto simp: less_imp_le)

lemma credit_rows_acked:
  assumes "faults s = []" and "wf_wallet s" and "\<forall>r \<in> set rs. 0 < cd_amount r \<and> scale18 (cd_amount r)"
    and "\<And>u a. wallet_available s u a + owed u a rs < 10 ^ 20"
  shows "\<exists>s'. credit_rows now rs s = ((length rs, None), s') \<and> faults s' = [] \<and>
    chain_deposits s' = map (marked_credited now (cd_id ` set rs)) (chain_deposits s)"
  using assms
proof (induction rs arbitrary: s)
  case Nil
  then show ?case by (simp add: marked_credited_def)
next
  case (Cons r rs)
  let ?u = "cd_user_id r" and ?a = "cd_asset r" and ?x = "cd_amount r"
  have nn: "0 \<le> owed ?u ?a rs" using Cons.prems(3) by (intro owed_nonneg) simp
  define s1 where "s1 = s\<lparr>balances := (balances s)((?u, ?a) \<mapsto> \<lparr>available = wallet_available s ?u ?a + ?x, frozen = wallet_frozen s ?u ?a\<rparr>)\<rparr>"
  have e: "wallet_exec (CmdCredit ?u ?a ?x) s = (Inr (), s1)"
    using wallet_exec_succeeds [OF Cons.prems(2,1), of "CmdCredit ?u ?a ?x"] Cons.prems(3) Cons.prems(4) [of ?u ?a] nn
      wallet_columns_nonneg [OF Cons.prems(2), of ?u ?a] wallet_columns_bound(2) [OF Cons.prems(2), of ?u ?a]
    by (simp add: owed_Cons s1_def del: wallet_exec.simps)
  have c: "\<exists>n. exec_stmt (credit_row ?u ?a ?x) s = (Some n, s1)"
    using e Cons.prems(3) by (auto simp: Credit_def repo_Credit_def wrap_err_eq split: prod.splits option.splits if_splits)
  have f1: "faults s1 = []" "chain_deposits s1 = chain_deposits s" using Cons.prems(1) by (simp_all add: s1_def)
  define s2 where "s2 = s1\<lparr>chain_deposits := map (marked_credited now {cd_id r}) (chain_deposits s)\<rparr>"
  have "map (\<lambda>q. if cd_id q = cd_id r \<and> cd_status q = ''CONFIRMED'' then the (Some (q\<lparr>cd_status := ''CREDITED'', cd_credited_at := Some now\<rparr>)) else q)
      (chain_deposits s) = map (marked_credited now {cd_id r}) (chain_deposits s)"
    by (simp add: marked_credited_def)
  then have m: "\<exists>n. exec_stmt (mark_credited now (cd_id r)) s1 = (Some n, s2)"
    using f1 by (simp add: mark_credited_def tbl_update_ok s2_def)
  have eff: "wf_wallet s1" "applies (CmdCredit ?u ?a ?x) (wallet_cols s) (wallet_cols s1)"
    using wallet_exec_effect [OF e Cons.prems(2)] Cons.prems(3) by auto
  have s2: "faults s2 = []" "wf_wallet s2" "wallet_available s2 = wallet_available s1"
    using f1(1) eff(1) wf_wallet_cong [of s2 s1] by (simp_all add: s2_def wallet_available_def fun_eq_iff)
  have "wallet_available s2 u a + owed u a rs < 10 ^ 20" for u a
    using Cons.prems(4) [of u a] eff(2) s2(3) by (auto simp: owed_Cons applies_def wallet_cols_def bump_def fun_eq_iff split: if_splits)
  from Cons.IH [OF s2(1,2) _ this] Cons.prems(3) obtain s3 where s3: "credit_rows now rs s2 = ((length rs, None), s3)" "faults s3 = []"
    "chain_deposits s3 = map (marked_credited now (cd_id ` set rs)) (chain_deposits s2)" by auto
  have "marked_credited now (cd_id ` set rs) (marked_credited now {cd_id r} q) = marked_credited now (cd_id ` set (r # rs)) q" for q
    by (auto simp: marked_credited_def)
  then have "chain_deposits s3 = map (marked_credited now (cd_id ` set (r # rs))) (chain_deposits s)"
    using s3(3) by (simp add: s2_def)
  then show ?case using c m s3(1,2) by (intro exI [of _ s3]) (auto simp del: exec_stmt_acked)
qed

text \<open>Ready to be paid: confirmed, or pending in a block with 19 blocks on top of it. Both are stated on the row.\<close>

definition payable :: "int \<Rightarrow> chain_deposit \<Rightarrow> bool" where
  "payable head r \<longleftrightarrow> cd_status r = ''CONFIRMED'' \<or>
     cd_status r = ''PENDING'' \<and> (\<exists>b. cd_block_number r = Some b \<and> b + 19 \<le> head)"

definition credited_row :: "int \<Rightarrow> int \<Rightarrow> chain_deposit \<Rightarrow> chain_deposit" where
  "credited_row head now r =
     (if cd_status r = ''PENDING''
      then r\<lparr>cd_confirmations := min (cd_confirmations r) (head - the (cd_block_number r)),
             cd_confirmed_at := (if cd_confirmed_at r = None then Some now else cd_confirmed_at r)\<rparr>
      else r)\<lparr>cd_status := ''CREDITED'', cd_credited_at := Some now\<rparr>"

lemma payable_due: "payable head r = (due head r \<or> cd_status r = ''CONFIRMED'')"
  by (auto simp: payable_def due_def confirmThreshold_def split: option.splits)

lemma credited_row_due:
  "payable head r \<Longrightarrow> credited_row head now r = (if due head r then confirmed_row head now r else r)\<lparr>cd_status := ''CREDITED'', cd_credited_at := Some now\<rparr>"
  unfolding payable_due by (cases r) (auto simp: credited_row_def due_def confirmed_row_def split: option.splits)

lemma owed_filter_map:
  assumes "\<And>r. r \<in> set rs \<Longrightarrow> P (g r) = Q r \<and> cd_amount (g r) = cd_amount r \<and> cd_user_id (g r) = cd_user_id r \<and> cd_asset (g r) = cd_asset r"
  shows "owed u a (filter P (map g rs)) = owed u a (filter Q rs)"
  using assms by (induction rs) (auto simp: owed_Cons)

text \<open>C38: When the node and the database answer and at most 100 deposits are ready, one pass credits every
  deposit with 19 blocks on top of it and every one confirmed before, and leaves all others as they were.\<close>
theorem due_deposits_credited:
  assumes "faults s = []" and "wf_wallet s" and "wf_deposits s" and "latest (chain_node s) = (Inr head, c)"
    and "\<forall>r \<in> set (chain_deposits s). cd_status r \<in> {''PENDING'', ''CONFIRMED''} \<longrightarrow> cd_credited_at r = None"
    and "length (filter (payable (int64 (bk_Height head))) (chain_deposits s)) \<le> 100"
    and "\<And>u a. wallet_available s u a + owed u a (filter (payable (int64 (bk_Height head))) (chain_deposits s)) < 10 ^ 20"
  shows "\<exists>n m s'. confirmAndCredit latest now s = ((n, m, None), s') \<and>
    m = length (filter (payable (int64 (bk_Height head))) (chain_deposits s)) \<and>
    chain_deposits s' = map (\<lambda>r. if payable (int64 (bk_Height head)) r then credited_row (int64 (bk_Height head)) now r else r) (chain_deposits s) \<and>
    (\<forall>u a. wallet_available s' u a = wallet_available s u a + owed u a (filter (payable (int64 (bk_Height head))) (chain_deposits s)))"
proof -
  let ?h = "int64 (bk_Height head)"
  define G where "G = (\<lambda>r. if due ?h r then confirmed_row ?h now r else r)"
  define s1 where "s1 = s\<lparr>chain_node := c\<rparr>"
  define s2 where "s2 = s1\<lparr>chain_deposits := map G (chain_deposits s)\<rparr>"
  have p: "\<exists>n. exec_stmt (promote ?h now) s1 = (Some n, s2)"
    using assms(1) by (simp add: promote_def tbl_update_ok s1_def s2_def G_def)
  have s2: "faults s2 = []" "wf_wallet s2" "wallet_available s2 = wallet_available s"
    using assms(1,2) wf_wallet_cong [of s2 s] by (simp_all add: s2_def s1_def wallet_available_def fun_eq_iff)
  have g: "(cd_status (G r) = ''CONFIRMED'' \<and> cd_credited_at (G r) = None) = payable ?h r \<and> cd_amount (G r) = cd_amount r \<and>
      cd_user_id (G r) = cd_user_id r \<and> cd_asset (G r) = cd_asset r \<and> cd_id (G r) = cd_id r" if "r \<in> set (chain_deposits s)" for r
    using assms(5) that by (auto simp: payable_due confirmed_row_def due_def G_def)
  have "length (filter (\<lambda>r. cd_status r = ''CONFIRMED'' \<and> cd_credited_at r = None) (map G xs)) = length (filter (payable ?h) xs)"
    if "set xs \<subseteq> set (chain_deposits s)" for xs using that g by (induction xs) auto
  then have len: "length (filter (\<lambda>r. cd_status r = ''CONFIRMED'' \<and> cd_credited_at r = None) (chain_deposits s2)) =
      length (filter (payable ?h) (chain_deposits s))" by (simp add: s2_def)
  define rs where "rs = uncredited s2"
  have rs: "rs = filter (\<lambda>r. cd_status r = ''CONFIRMED'' \<and> cd_credited_at r = None) (map G (chain_deposits s))"
    using len assms(6) by (simp add: rs_def uncredited_def s2_def)
  have am: "\<forall>r \<in> set rs. 0 < cd_amount r \<and> scale18 (cd_amount r)"
    using assms(3) g unfolding rs wf_deposits_def by auto
  have ow: "owed u a rs = owed u a (filter (payable ?h) (chain_deposits s))" for u a
    unfolding rs by (rule owed_filter_map) (use g in blast)
  from credit_rows_acked [OF s2(1,2) am, of now] assms(7) obtain s3 where s3: "credit_rows now rs s2 = ((length rs, None), s3)" "faults s3 = []"
    "chain_deposits s3 = map (marked_credited now (cd_id ` set rs)) (chain_deposits s2)" by (auto simp: ow s2(3))
  have pass: "credit_pass now s2 = ((length rs, None), s3)"
    using s2(1) s3(1,2) by (simp add: credit_pass_def rs_def)
  have ids: "(cd_id (G r) \<in> cd_id ` set rs) = payable ?h r" if r: "r \<in> set (chain_deposits s)" for r
  proof
    assume "cd_id (G r) \<in> cd_id ` set rs"
    then obtain q where q: "q \<in> set (chain_deposits s)" "cd_status (G q) = ''CONFIRMED'' \<and> cd_credited_at (G q) = None"
      "cd_id (G r) = cd_id (G q)" unfolding rs by auto
    have "payable ?h q" "cd_id q = cd_id r" using g [OF q(1)] g [OF r] q(2,3) by simp_all
    note q = q(1) this
    then have "q = r" using assms(3) r by (auto simp: wf_deposits_def distinct_map dest: inj_onD)
    then show "payable ?h r" using q by simp
  next
    assume "payable ?h r"
    then have "G r \<in> set rs" using g [OF r] r unfolding rs by simp
    then show "cd_id (G r) \<in> cd_id ` set rs" by (rule imageI)
  qed
  have "marked_credited now (cd_id ` set rs) (G r) = (if payable ?h r then credited_row ?h now r else r)"
    if r: "r \<in> set (chain_deposits s)" for r
  proof (cases "payable ?h r")
    case True
    then have "marked_credited now (cd_id ` set rs) (G r) = (G r)\<lparr>cd_status := ''CREDITED'', cd_credited_at := Some now\<rparr>"
      using ids [OF r] g [OF r] unfolding marked_credited_def by simp
    then show ?thesis using True credited_row_due [OF True] by (simp add: G_def)
  next
    case False
    then have "marked_credited now (cd_id ` set rs) (G r) = G r" using ids [OF r] unfolding marked_credited_def by simp
    then show ?thesis using False by (simp add: G_def payable_due)
  qed
  then have rows: "chain_deposits s3 = map (\<lambda>r. if payable ?h r then credited_row ?h now r else r) (chain_deposits s)"
    using s3(3) by (simp add: s2_def)
  have run: "\<exists>n. confirmAndCredit latest now s = ((n, length rs, None), s3)"
    using p pass assms(4) by (auto simp: confirmAndCredit_def call_adapter_def s1_def simp del: exec_stmt_acked)
  then have ag: "agree s s3" using confirmAndCredit_agree by blast
  have cs: "credited_sum u a (map (\<lambda>r. if payable ?h r then credited_row ?h now r else r) xs) =
      credited_sum u a xs + owed u a (filter (payable ?h) xs)" for u a xs
    by (induction xs) (auto simp: credited_sum_Cons owed_Cons credited_row_def payable_def owed_def credited_sum_def)
  have bal: "wallet_available s3 u a - credited_sum u a (chain_deposits s3) = wallet_available s u a - credited_sum u a (chain_deposits s)" for u a
    using ag assms(2,3) by (simp add: agree_def)
  have "wallet_available s3 u a = wallet_available s u a + owed u a (filter (payable ?h) (chain_deposits s))" for u a
    using bal [of u a] cs [of u a "chain_deposits s"] unfolding rows by linarith
  moreover have "length rs = length (filter (payable ?h) (chain_deposits s))" using len unfolding rs by (simp add: s2_def)
  ultimately show ?thesis using run rows by auto
qed

theorem due_deposits_credited_witness:
  "\<exists>n s'. confirmAndCredit demo_latest 9 demo_daemon_db = ((n, 1, None), s') \<and> wallet_available s' 7 ''USDT'' = 105 \<and>
     map cd_status (chain_deposits s') = [''CREDITED'']"
proof -
  let ?h = "\<lparr>bk_Height = 30, bk_Hash = [], bk_LogTime = 0, bk_TxHashes = [], bk_IsFinal = True\<rparr>"
  have h: "demo_latest (chain_node demo_daemon_db) = (Inr ?h, ())" by (simp add: demo_latest_def)
  have p: "filter (payable (int64 (bk_Height ?h))) (chain_deposits demo_daemon_db) = chain_deposits demo_daemon_db"
    by (simp add: demo_daemon_db_def payable_def int64_def)
  have l: "length (chain_deposits demo_daemon_db) = 1" "owed 7 ''USDT'' (chain_deposits demo_daemon_db) = 5"
    by (simp_all add: demo_daemon_db_def owed_def)
  have b: "wallet_available demo_daemon_db u a + owed u a (chain_deposits demo_daemon_db) < 10 ^ 20" for u a
    by (auto simp: demo_daemon_db_def owed_def wallet_available_def)
  have c: "\<forall>r \<in> set (chain_deposits demo_daemon_db). cd_status r \<in> {''PENDING'', ''CONFIRMED''} \<longrightarrow> cd_credited_at r = None"
    by (simp add: demo_daemon_db_def)
  note run = due_deposits_credited [where s = demo_daemon_db and latest = demo_latest and head = "?h" and c = "()" and now = 9]
  have ln: "length (filter (payable (int64 (bk_Height ?h))) (chain_deposits demo_daemon_db)) \<le> 100" unfolding p l by simp
  have bn: "wallet_available demo_daemon_db u a + owed u a (filter (payable (int64 (bk_Height ?h))) (chain_deposits demo_daemon_db)) < 10 ^ 20" for u a
    unfolding p by (rule b)
  from run [OF demo_daemon_facts(1-3) h c ln bn] obtain n m s' where
    s': "confirmAndCredit demo_latest 9 demo_daemon_db = ((n, m, None), s')" "m = length (chain_deposits demo_daemon_db)"
      "chain_deposits s' = map (\<lambda>r. if payable (int64 (bk_Height ?h)) r then credited_row (int64 (bk_Height ?h)) 9 r else r) (chain_deposits demo_daemon_db)"
      "wallet_available s' 7 ''USDT'' = wallet_available demo_daemon_db 7 ''USDT'' + owed 7 ''USDT'' (chain_deposits demo_daemon_db)"
    unfolding p by blast
  have "map cd_status (chain_deposits s') = [''CREDITED'']"
    unfolding s'(3) by (simp add: demo_daemon_db_def credited_row_def payable_def int64_def)
  then show ?thesis using s'(1,2,4) l demo_daemon_facts(4) by auto
qed

subsection \<open>What the adapter's events can match\<close>

definition topic_event :: "Event \<Rightarrow> bool" where
  "topic_event e \<longleftrightarrow> HasPrefix (ev_To e) ''0x''"

definition topics_only :: "'c adapter_ops \<Rightarrow> bool" where
  "topics_only ops \<longleftrightarrow> (\<forall>tx evs. ao_ParseTransferEvents ops tx [] = Inr evs \<longrightarrow> (\<forall>e \<in> set evs. HasPrefix (te_To e) ''0x''))"

lemma fold_queue: "fold queue_event es w = (fst w, snd w @ es)"
  by (induction es arbitrary: w) (simp_all add: queue_event_def)

lemma processTx_queue:
  assumes "topics_only ops" and "\<forall>e \<in> set (snd w). topic_event e"
  shows "\<forall>e \<in> set (snd (snd (processTx (queue_ops ops) queue_event sc h ts t w))). topic_event e"
proof -
  obtain r w1 where r: "ao_GetTransaction (queue_ops ops) t w = (r, w1)" by (rule prod.exhaust)
  then have w1: "snd w1 = snd w" by (auto simp: queue_ops_def beside_def split: prod.splits)
  have p: "ao_ParseTransferEvents (queue_ops ops) = ao_ParseTransferEvents ops" by (simp add: queue_ops_def)
  show ?thesis
    using assms w1 unfolding processTx_def r p topics_only_def
    by (auto simp: fold_queue topic_event_def event_for_def split: sum.splits)
qed

lemma process_block_queue:
  assumes "topics_only ops" and "\<forall>e \<in> set (snd w). topic_event e"
  shows "\<forall>e \<in> set (snd (process_block (queue_ops ops) queue_event sc h b w)). topic_event e"
proof -
  have "\<forall>e \<in> set (snd (fold (\<lambda>t d. snd (processTx (queue_ops ops) queue_event sc h (bk_LogTime b) t d)) ts w)). topic_event e" for ts
    using assms(2)
  proof (induction ts arbitrary: w)
    case (Cons t ts)
    show ?case using Cons.IH [OF processTx_queue [OF assms(1) Cons.prems]] by simp
  qed simp
  then show ?thesis by (simp add: process_block_def)
qed

lemma scan_blocks_queue:
  assumes "topics_only ops"
  shows "\<forall>e \<in> set (snd w). topic_event e \<Longrightarrow> scan_blocks k (queue_ops ops) queue_event hs sc w = (err, sc', w') \<Longrightarrow>
    \<forall>e \<in> set (snd w'). topic_event e"
proof (induction hs arbitrary: sc w)
  case (Cons h hs)
  obtain r w1 where r: "ao_GetBlockByNumber (queue_ops ops) h w = (r, w1)" by (rule prod.exhaust)
  then have w1: "\<forall>e \<in> set (snd w1). topic_event e" using Cons.prems(1) by (auto simp: queue_ops_def beside_def split: prod.splits)
  show ?case
  proof (cases "k w \<or> (\<exists>e. r = Inl e)")
    case True
    then show ?thesis using Cons.prems r w1 by (auto split: if_splits)
  next
    case False
    then obtain b where b: "r = Inr b" by (cases r) auto
    have "scan_blocks k (queue_ops ops) queue_event hs (sc\<lparr>sc_lastScanned := h\<rparr>) (process_block (queue_ops ops) queue_event sc h b w1) =
        (err, sc', w')"
      using Cons.prems(2) False r b by simp
    then show ?thesis using Cons.IH process_block_queue [OF assms w1] by blast
  qed
qed simp

lemma RunOnce_queue:
  assumes "topics_only ops" and "RunOnce k (queue_ops ops) queue_event sc (c, []) = (r, sc', w')"
  shows "\<forall>e \<in> set (snd w'). topic_event e"
proof -
  obtain q w1 where q: "ao_GetSolidifiedBlock (queue_ops ops) (c, []) = (q, w1)" by (rule prod.exhaust)
  then have w1: "\<forall>e \<in> set (snd w1). topic_event e" by (auto simp: queue_ops_def beside_def split: prod.splits)
  show ?thesis
    using assms(2) q w1 scan_blocks_queue [OF assms(1) w1]
    by (auto simp: RunOnce_def Let_def split: if_splits sum.splits prod.splits)
qed

definition nothing_new :: "'c daemon_db \<Rightarrow> 'c daemon_db \<Rightarrow> bool" where
  "nothing_new s s' \<longleftrightarrow> deposit_addresses s' = deposit_addresses s \<and>
     map deposit_key (chain_deposits s') = map deposit_key (chain_deposits s)"

lemma nothing_new_refl [simp]: "nothing_new s s"
  and nothing_new_trans: "nothing_new s t \<Longrightarrow> nothing_new t v \<Longrightarrow> nothing_new s v"
  by (simp_all add: nothing_new_def)

lemma query_new: "query f s = (r, s') \<Longrightarrow> nothing_new s s'"
  by (auto simp: nothing_new_def dest!: query_casesD)

lemma exec_new:
  assumes "exec_stmt f s = (r, s')" and "\<And>t n t'. f t = Some (n, t') \<Longrightarrow> nothing_new t t'"
  shows "nothing_new s s'"
  using exec_stmt_casesD [OF assms(1)] assms(2) by (auto simp: nothing_new_def)

lemma persist_unmatched:
  assumes "topic_event e" and "\<forall>a \<in> set (deposit_addresses s). \<not> HasPrefix (ar_address a) ''0x''"
    and "persistEvent num i e s = (r, s')"
  shows "nothing_new s s'"
proof -
  obtain q s1 where q: "query (\<lambda>t. find (\<lambda>a. ar_address a = ev_To e \<and> ar_status a = ''ACTIVE'') (deposit_addresses t)) s = (q, s1)" by force
  have "find (\<lambda>a. ar_address a = ev_To e \<and> ar_status a = ''ACTIVE'') (deposit_addresses s) = None"
    using assms(1,2) by (auto simp: find_None_iff topic_event_def)
  then have "q = None \<or> q = Some None" using q by (auto dest!: query_casesD)
  then show ?thesis using assms(3) q query_new [OF q] by (auto simp: persistEvent_def)
qed

lemma persist_all_unmatched:
  "\<forall>p \<in> set es. topic_event (fst p) \<Longrightarrow> \<forall>a \<in> set (deposit_addresses s). \<not> HasPrefix (ar_address a) ''0x'' \<Longrightarrow>
     nothing_new s (snd (persist_all num es s))"
proof (induction num es s rule: persist_all.induct)
  case (2 num e i es s)
  obtain r s1 where r: "persistEvent num i e s = (r, s1)" by force
  have n: "nothing_new s s1" using 2 r by (intro persist_unmatched [OF _ _ r]) simp_all
  then show ?case using 2 r nothing_new_trans [OF n] by (auto simp: nothing_new_def split: prod.splits)
qed simp

lemma confirm_new: "nothing_new s (snd (confirmAndCredit latest now s))"
proof -
  have cr: "credit_row u a x t = Some (n, t') \<Longrightarrow> nothing_new t t'" for u a x n and t t' :: "'a daemon_db"
    by (auto simp: credit_row_def update_balance_def nothing_new_def split: option.splits if_splits)
  have mk: "mark_credited now i t = Some (n, t') \<Longrightarrow> nothing_new t t'" for i n and t t' :: "'a daemon_db"
    by (auto simp: mark_credited_def nothing_new_def deposit_key_def dest!: tbl_update_SomeD)
  have pr: "promote h now t = Some (n, t') \<Longrightarrow> nothing_new t t'" for h n and t t' :: "'a daemon_db"
    by (auto simp: promote_def nothing_new_def deposit_key_def confirmed_row_def dest!: tbl_update_SomeD)
  have rows: "nothing_new t (snd (credit_rows now rs t))" for rs and t :: "'a daemon_db"
  proof (induction rs arbitrary: t)
    case (Cons r rs)
    obtain k t1 where k: "exec_stmt (credit_row (cd_user_id r) (cd_asset r) (cd_amount r)) t = (k, t1)" by force
    obtain j t2 where j: "exec_stmt (mark_credited now (cd_id r)) t1 = (j, t2)" by force
    have n: "nothing_new t t1" "nothing_new t t2"
      using exec_new [OF k cr] nothing_new_trans [OF exec_new [OF k cr] exec_new [OF j mk]] by simp_all
    then show ?case using k j nothing_new_trans [OF n(2) Cons.IH [of t2]] by (auto split: option.splits prod.splits)
  qed simp
  have pass: "nothing_new t (snd (credit_pass now t))" for t :: "'a daemon_db"
  proof -
    obtain b t1 where b: "query (\<lambda>_. ()) t = (b, t1)" by force
    obtain q t2 where q: "query uncredited t1 = (q, t2)" by force
    have n: "nothing_new t t1" "nothing_new t t2" using query_new [OF b] nothing_new_trans [OF query_new [OF b] query_new [OF q]] by simp_all
    have rb: "nothing_new t (rollback_credits t2 v)" if "nothing_new t2 v" for v
      using n(2) that by (auto simp: nothing_new_def rollback_credits_def)
    show ?thesis
    proof (cases "b = None \<or> q = None")
      case True
      then show ?thesis using b q n by (auto simp: credit_pass_def split: option.splits)
    next
      case False
      then obtain rs where rs: "q = Some rs" by auto
      obtain m err t3 where c: "credit_rows now rs t2 = ((m, err), t3)" by (metis prod.exhaust)
      obtain fl t4 where f: "next_fault t3 = (fl, t4)" by force
      have n3: "nothing_new t2 t3" using rows [of t2 rs] c by simp
      have n4: "nothing_new t2 t4" using n3 next_fault_casesD [OF f] by (auto simp: nothing_new_def)
      have "snd (credit_pass now t) \<in> {rollback_credits t2 t3, rollback_credits t2 t4, t4}"
        using False b q rs c f by (cases fl; cases err) (auto simp: credit_pass_def)
      then show ?thesis using rb [OF n3] rb [OF n4] nothing_new_trans [OF n(2) n4] by auto
    qed
  qed
  obtain h s1 where h: "call_adapter latest s = (h, s1)" by force
  have n1: "nothing_new s s1" using h by (auto simp: call_adapter_def nothing_new_def split: prod.splits)
  show ?thesis
  proof (cases h)
    case (Inl e)
    then show ?thesis using h n1 by (simp add: confirmAndCredit_def)
  next
    case (Inr head)
    obtain m s2 where m: "exec_stmt (promote (int64 (bk_Height head)) now) s1 = (m, s2)" by force
    have n2: "nothing_new s s2" by (rule nothing_new_trans [OF n1 exec_new [OF m pr]])
    then show ?thesis
      using h Inr m nothing_new_trans [OF n2 pass [of s2]] by (auto simp: confirmAndCredit_def split: option.splits prod.splits)
  qed
qed

lemma runOnce_new:
  assumes "runOnce num cancelled ops latest now ids unread sc s = (r, sc', s')" and "topics_only ops"
    and "\<forall>a \<in> set (deposit_addresses s). \<not> HasPrefix (ar_address a) ''0x''"
  shows "nothing_new s s'"
proof -
  obtain n err sc1 c es where run: "RunOnce (\<lambda>w. cancelled (fst w)) (queue_ops ops) queue_event sc (chain_node s, []) = ((n, err), sc1, (c, es))"
    by (metis prod.exhaust)
  have ev: "\<forall>e \<in> set es. topic_event e" using RunOnce_queue [OF assms(2) run] by simp
  let ?s0 = "s\<lparr>chain_node := c\<rparr>"
  have p: "nothing_new s (snd (persist_all num (zip xs ys) ?s0))" if "set xs \<subseteq> set es" for xs ys
  proof -
    have "\<forall>q \<in> set (zip xs ys). topic_event (fst q)" using ev that by (auto dest: set_zip_leftD)
    then have "nothing_new ?s0 (snd (persist_all num (zip xs ys) ?s0))" using assms(3) by (intro persist_all_unmatched) simp_all
    then show ?thesis by (simp add: nothing_new_def)
  qed
  have sv: "nothing_new t (snd (saveCursor ch h t))" for ch h and t :: "'a daemon_db"
    unfolding saveCursor_def by (rule exec_new [OF prod.collapse [symmetric]]) (auto simp: nothing_new_def split: if_splits)
  show ?thesis
  proof (cases err)
    case (Some e)
    then show ?thesis using assms(1) run p [of "take (length es - min unread 64) es"] by (auto simp: runOnce_def dest: in_set_takeD)
  next
    case None
    let ?s1 = "snd (persist_all num (zip es (map ids [0..<length es])) ?s0)"
    have "s' = snd (confirmAndCredit latest now (snd (saveCursor ''TRON'' (GetCursor sc1) ?s1)))"
      using assms(1) run None by (auto simp: runOnce_def split: prod.splits)
    then show ?thesis using nothing_new_trans [OF nothing_new_trans [OF p sv] confirm_new] by simp
  qed
qed

text \<open>The parser of the TRON adapter.\<close>

lemma parser_topics: "ao_ParseTransferEvents ops = (\<lambda>tx contract. Inr (ParseTransferEvents lib tx contract)) \<Longrightarrow> topics_only ops"
  by (auto simp: topics_only_def ParseTransferEvents_def event_of_def map_filter_def split: option.splits if_splits)

text \<open>C39: With the parser of the TRON adapter the daemon never records a deposit to an address that is written in
  Base58: the recipient of its events is the text of a topic. Over any cycles the table has the same transactions.
\<close>
theorem tron_deposits_never_recorded:
  assumes "ao_ParseTransferEvents ops = (\<lambda>tx contract. Inr (ParseTransferEvents lib tx contract))"
    and "\<forall>a \<in> set (deposit_addresses s). \<not> HasPrefix (ar_address a) ''0x''"
    and "cycles num cancelled ops latest cs sc s = (sc', s')"
  shows "map deposit_key (chain_deposits s') = map deposit_key (chain_deposits s)"
proof -
  have "nothing_new s s'"
    using assms
  proof (induction num cancelled ops latest cs sc s rule: cycles.induct)
    case (2 num cancelled ops latest now ids unread cs sc s)
    obtain r sc1 s1 where r: "runOnce num cancelled ops latest now ids unread sc s = (r, sc1, s1)" by (metis prod.exhaust)
    have n: "nothing_new s s1" using runOnce_new [OF r parser_topics [OF 2(2)] 2(3)] .
    have "\<forall>a \<in> set (deposit_addresses s1). \<not> HasPrefix (ar_address a) ''0x''" using n 2(3) by (simp add: nothing_new_def)
    then have "nothing_new s1 s'" using 2(1) [OF r [symmetric] refl 2(2)] 2(4) r by simp
    then show ?case by (rule nothing_new_trans [OF n])
  qed simp
  then show ?thesis by (simp add: nothing_new_def)
qed

theorem tron_deposits_never_recorded_witness:
  "\<exists>sc' s'. cycles (\<lambda>_. Some 5) (\<lambda>_. False) demo_scan_ops demo_latest [(9, \<lambda>n. n + 2, 0)]
       (fst (start_scanner ''USDT'' demo_daemon_db)) demo_daemon_db = (sc', s') \<and>
     map deposit_key (chain_deposits s') = [(''TRON'', ''u'', 0)]"
proof -
  obtain sc' s' where c: "cycles (\<lambda>_. Some 5) (\<lambda>_. False) demo_scan_ops demo_latest [(9, \<lambda>n. n + 2, 0)]
       (fst (start_scanner ''USDT'' demo_daemon_db)) demo_daemon_db = (sc', s')" by (rule prod.exhaust)
  have "ao_ParseTransferEvents demo_scan_ops = (\<lambda>tx contract. Inr (ParseTransferEvents demo_scan_lib tx contract))"
    by (simp add: demo_scan_ops_def)
  from tron_deposits_never_recorded [OF this demo_daemon_facts(5) c] show ?thesis
    using c by (simp add: demo_daemon_db_def deposit_key_def)
qed

end
