(* ===== verification/Reconciler.thy ===== *)
theory Reconciler
  imports Deposit_Daemon_Correct
begin

text \<open>
  The reconciler, cmd/reconciler/main.go: one pass looks for transfers to the deposit addresses that the table of
  deposits does not have. The adapter is an argument; the missed events, which the program only logs, are the
  result.
\<close>

definition reconLookback :: nat where
  "reconLookback = 50"

definition usdtContractHex :: string where
  "usdtContractHex = ''41a614f803b6fd780986a42c78ec8394ade726993d''"

definition open_run :: "string \<Rightarrow> int \<Rightarrow> 'c daemon_db \<Rightarrow> (nat \<times> 'c daemon_db) option" where
  "open_run asset now s =
     (if 32 < length asset then None
      else Some (1, s\<lparr>reconciliation_runs := reconciliation_runs s @
        [\<lparr>rn_chain = ''TRON'', rn_asset = asset, rn_run_type = ''LIVE'', rn_start_at = now, rn_end_at = now, rn_status = ''RUNNING''\<rparr>]\<rparr>))"

definition running :: "string \<Rightarrow> run_row \<Rightarrow> bool" where
  "running asset r \<longleftrightarrow> rn_status r = ''RUNNING'' \<and> rn_chain r = ''TRON'' \<and> rn_asset r = asset"

definition update_runs :: "string \<Rightarrow> (run_row \<Rightarrow> run_row) \<Rightarrow> 'c daemon_db \<Rightarrow> (nat \<times> 'c daemon_db) option" where
  "update_runs asset f s =
     Some (length (filter (running asset) (reconciliation_runs s)),
       s\<lparr>reconciliation_runs := map (\<lambda>r. if running asset r then f r else r) (reconciliation_runs s)\<rparr>)"

definition listActiveAddresses :: "string \<Rightarrow> 'c daemon_db \<Rightarrow> address_row list" where
  "listActiveAddresses asset s =
     sort_key ar_created_at (filter (\<lambda>a. ar_status a = ''ACTIVE'' \<and> ar_asset a = asset) (deposit_addresses s))"

definition depositExists :: "string \<Rightarrow> string \<Rightarrow> nat \<Rightarrow> 'c daemon_db \<Rightarrow> bool" where
  "depositExists ch tx idx s = ((ch, tx, idx) \<in> deposit_key ` set (chain_deposits s))"

record missed =
  ms_tx :: string
  ms_index :: nat
  ms_user :: uuid
  ms_amount :: nat

text \<open>One transaction's events: the later rows of an address in the set win, as in the program's map.\<close>

fun check_events :: "(string \<rightharpoonup> uuid) \<Rightarrow> string \<Rightarrow> TransferEvent list \<Rightarrow> 'c daemon_db \<Rightarrow> missed list \<times> 'c daemon_db" where
  "check_events addrs tx [] s = ([], s)"
| "check_events addrs tx (e # es) s =
     (case addrs (te_To e) of
        None \<Rightarrow> check_events addrs tx es s
      | Some u \<Rightarrow>
          (case query (depositExists ''TRON'' tx (te_Index e)) s of
             (found, s1) \<Rightarrow>
               (case check_events addrs tx es s1 of
                  (ms, s2) \<Rightarrow>
                    (if found = Some False then \<lparr>ms_tx = tx, ms_index = te_Index e, ms_user = u, ms_amount = te_Amount e\<rparr> # ms else ms, s2))))"

fun check_txs :: "'c adapter_ops \<Rightarrow> (string \<rightharpoonup> uuid) \<Rightarrow> string list \<Rightarrow> 'c daemon_db \<Rightarrow> missed list \<times> 'c daemon_db" where
  "check_txs ops addrs [] s = ([], s)"
| "check_txs ops addrs (t # ts) s =
     (case call_adapter (ao_GetTransaction ops t) s of
        (Inl e, s1) \<Rightarrow> check_txs ops addrs ts s1
      | (Inr tx, s1) \<Rightarrow>
          (case ao_ParseTransferEvents ops tx usdtContractHex of
             Inl e \<Rightarrow> check_txs ops addrs ts s1
           | Inr evs \<Rightarrow>
               (case check_events addrs t evs s1 of
                  (ms, s2) \<Rightarrow> (case check_txs ops addrs ts s2 of (ms', s3) \<Rightarrow> (ms @ ms', s3)))))"

fun check_blocks :: "'c adapter_ops \<Rightarrow> (string \<rightharpoonup> uuid) \<Rightarrow> nat list \<Rightarrow> 'c daemon_db \<Rightarrow> missed list \<times> 'c daemon_db" where
  "check_blocks ops addrs [] s = ([], s)"
| "check_blocks ops addrs (h # hs) s =
     (case call_adapter (ao_GetBlockByNumber ops h) s of
        (Inl e, s1) \<Rightarrow> check_blocks ops addrs hs s1
      | (Inr b, s1) \<Rightarrow>
          (case check_txs ops addrs (bk_TxHashes b) s1 of
             (ms, s2) \<Rightarrow> (case check_blocks ops addrs hs s2 of (ms', s3) \<Rightarrow> (ms @ ms', s3))))"

definition start_height :: "nat \<Rightarrow> nat" where
  "start_height h = (if reconLookback < h then h - reconLookback else 0)"

text \<open>The body of the pass, and the pass with its deferred statement.\<close>

definition reconcile_body ::
  "'c adapter_ops \<Rightarrow> ('c \<Rightarrow> (string + Block) \<times> 'c) \<Rightarrow> string \<Rightarrow> 'c daemon_db \<Rightarrow> (string option \<times> missed list) \<times> 'c daemon_db" where
  "reconcile_body ops latest asset s =
     (case call_adapter latest s of
        (Inl e, s1) \<Rightarrow> ((Some (''get latest block: '' @ e), []), s1)
      | (Inr head, s1) \<Rightarrow>
          (case query (listActiveAddresses asset) s1 of
             (None, s2) \<Rightarrow> ((Some ''list active addresses'', []), s2)
           | (Some as, s2) \<Rightarrow>
               (case check_blocks ops (map_of (rev (map (\<lambda>a. (ar_address a, ar_user_id a)) as)))
                       [start_height (bk_Height head)..<Suc (bk_Height head)] s2 of
                  (ms, s3) \<Rightarrow>
                    (case exec_stmt (update_runs asset (\<lambda>r. r\<lparr>rn_status := ''OK''\<rparr>)) s3 of
                       (None, s4) \<Rightarrow> ((Some ''close reconciliation_runs row'', ms), s4)
                     | (Some n, s4) \<Rightarrow> ((None, ms), s4)))))"

definition reconcileOnce ::
  "'c adapter_ops \<Rightarrow> ('c \<Rightarrow> (string + Block) \<times> 'c) \<Rightarrow> int \<Rightarrow> int \<Rightarrow> string \<Rightarrow> 'c daemon_db \<Rightarrow> (string option \<times> missed list) \<times> 'c daemon_db" where
  "reconcileOnce ops latest t1 t2 asset s =
     (case exec_stmt (open_run asset t1) s of
        (None, s1) \<Rightarrow> ((Some ''open reconciliation_runs row'', []), s1)
      | (Some n, s1) \<Rightarrow>
          (case reconcile_body ops latest asset s1 of
             (r, s2) \<Rightarrow> (r, snd (exec_stmt (update_runs asset (\<lambda>x. x\<lparr>rn_end_at := t2\<rparr>)) s2))))"

definition envDuration :: "(string \<Rightarrow> int option) \<Rightarrow> string list \<Rightarrow> string \<Rightarrow> int \<Rightarrow> int" where
  "envDuration parse env key def =
     (if Getenv env key = [] then def else (case parse (Getenv env key) of None \<Rightarrow> def | Some d \<Rightarrow> d))"

text \<open>
  The reconciler's own reading of the environment: an entry that begins with the equals sign or has none is
  skipped and a name may be empty. It is copied byte by byte, each byte as a code point: an upper-case letter
  is lowered, and a byte above 127 becomes the two bytes of its encoding.
\<close>

definition lowered_byte :: "char \<Rightarrow> string" where
  "lowered_byte c =
     (let n = of_char c :: nat in
      if 65 \<le> n \<and> n \<le> 90 then [char_of (n + 32)] else if n < 128 then [c] else [char_of (192 + n div 64), char_of (128 + n mod 64)])"

definition recon_provider :: "string list \<Rightarrow> string \<times> string \<Rightarrow> provider_config option" where
  "recon_provider env kv =
     (case kv of (key, url) \<Rightarrow>
        let pre = ''TRON_PROVIDER_''; suf = ''_URL'' in
        if length key < length pre + length suf \<or> \<not> (HasPrefix key pre \<and> HasSuffix key suf) \<or> url = [] then None
        else
          (let name = concat (map lowered_byte (take (length key - length suf - length pre) (drop (length pre) key))) in
           Some \<lparr>pc_Name = name, pc_BaseURL = url, pc_APIKey = Getenv env (''TRON_PROVIDER_'' @ name @ ''_KEY''), pc_Weight = 1\<rparr>))"

definition providersFromEnv :: "string list \<Rightarrow> provider_config list" where
  "providersFromEnv env =
     List.map_filter (recon_provider env) (filter (\<lambda>(key, url). key \<noteq> []) (List.map_filter env_entry env))"

subsection \<open>What a pass can see\<close>

lemma contracts: "ToLower usdtContractHex = usdtContractHex" "ToLower (contractForAsset ''USDT'') = contractForAsset ''USDT''"
  "usdtContractHex \<noteq> contractForAsset ''USDT''" "ToLower (TrimPrefix usdtContractHex ''0x'') = usdtContractHex"
  "ToLower (''41'' @ usdtContractHex) \<noteq> contractForAsset ''USDT''" "usdtContractHex \<noteq> []"
  by (simp_all add: usdtContractHex_def contractForAsset_def ToLower_def ToUpper_def lower_char_def upper_char_def TrimPrefix_def)

lemma lower_lower: "ToLower (ToLower x) = ToLower x"
proof -
  have "lower_char (lower_char c) = lower_char c" for c
    by (cases "65 \<le> (of_char c :: nat) \<and> (of_char c :: nat) \<le> 90") (auto simp: lower_char_def Let_def)
  then show ?thesis by (simp add: ToLower_def)
qed

lemma started: "sc_watched (fst (start_scanner a s)) = {}"
  "sc_watchedContracts (fst (start_scanner a s)) = sc_watchedContracts (AddWatchByContract (contractForAsset a) NewScanner)"
  by (auto simp: start_scanner_def SetCursor_def AddWatchByContract_def NewScanner_def Let_def split: prod.splits option.splits)

lemma parsed_log: "e \<in> set (ParseTransferEvents lib tx c) \<Longrightarrow> \<exists>i l. e = event_of lib i l \<and> log_matches c l"
  by (auto simp: ParseTransferEvents_def map_filter_def split: option.splits if_splits) blast

lemma check_events_base58:
  assumes "\<forall>e \<in> set es. addrs (te_To e) = None"
  shows "check_events addrs t es s = ([], s)"
  using assms by (induction es) simp_all

lemma check_txs_base58:
  assumes "\<And>tx e. e \<in> set (ParseTransferEvents lib tx usdtContractHex) \<Longrightarrow> addrs (te_To e) = None"
    and "ao_ParseTransferEvents ops = (\<lambda>tx c. Inr (ParseTransferEvents lib tx c))"
  shows "fst (check_txs ops addrs ts s) = []"
proof (induction ts arbitrary: s)
  case (Cons t ts)
  obtain r s1 where r: "call_adapter (ao_GetTransaction ops t) s = (r, s1)" by (rule prod.exhaust)
  show ?case
  proof (cases r)
    case (Inl e)
    then show ?thesis using r Cons.IH by simp
  next
    case (Inr tx)
    have "check_events addrs t (ParseTransferEvents lib tx usdtContractHex) s1 = ([], s1)"
      by (rule check_events_base58) (use assms(1) in blast)
    then show ?thesis using r Inr Cons.IH [of s1] assms(2) by (simp split: prod.splits)
  qed
qed simp

lemma check_blocks_base58:
  assumes "\<And>tx e. e \<in> set (ParseTransferEvents lib tx usdtContractHex) \<Longrightarrow> addrs (te_To e) = None"
    and "ao_ParseTransferEvents ops = (\<lambda>tx c. Inr (ParseTransferEvents lib tx c))"
  shows "fst (check_blocks ops addrs hs s) = []"
proof (induction hs arbitrary: s)
  case (Cons h hs)
  obtain r s1 where r: "call_adapter (ao_GetBlockByNumber ops h) s = (r, s1)" by (rule prod.exhaust)
  show ?case
  proof (cases r)
    case (Inl e)
    then show ?thesis using r Cons.IH by simp
  next
    case (Inr b)
    obtain ms s2 where m: "check_txs ops addrs (bk_TxHashes b) s1 = (ms, s2)" by (rule prod.exhaust)
    moreover have "fst (check_txs ops addrs (bk_TxHashes b) s1) = []" by (rule check_txs_base58 [OF _ assms(2)]) (rule assms(1))
    ultimately show ?thesis using r Inr Cons.IH [of s2] by (auto split: prod.splits)
  qed
qed simp

text \<open>Over the TRON adapter the reconciler reports no missed deposit, whatever the chain holds and the table
  lacks, as long as the addresses are written in Base58; and no transfer it looks at is one that the scanner of
  the daemon, which watches another contract, would deliver.
\<close>
theorem reconciler_blind:
  assumes "ao_ParseTransferEvents ops = (\<lambda>tx c. Inr (ParseTransferEvents lib tx c))"
    and "\<forall>a \<in> set (deposit_addresses s). \<not> HasPrefix (ar_address a) ''0x''"
    and "reconcileOnce ops latest t1 t2 asset s = ((err, ms), s')"
  shows "ms = [] \<and> (\<forall>tx. \<forall>e \<in> set (ParseTransferEvents lib tx usdtContractHex). \<forall>d :: 'd daemon_db. \<not> shouldEmit (fst (start_scanner ''USDT'' d)) e)"
proof
  obtain n s1 where o1: "exec_stmt (open_run asset t1) s = (n, s1)" by force
  have a1: "deposit_addresses s1 = deposit_addresses s" using exec_stmt_casesD [OF o1] by (auto simp: open_run_def split: if_splits)
  obtain h s2 where h: "call_adapter latest s1 = (h, s2)" by (rule prod.exhaust)
  have a2: "deposit_addresses s2 = deposit_addresses s" using h a1 by (auto simp: call_adapter_def split: prod.splits)
  obtain as s3 where q: "query (listActiveAddresses asset) s2 = (as, s3)" by force
  define addrs where "addrs xs = map_of (rev (map (\<lambda>a. (ar_address a, ar_user_id a)) xs))" for xs :: "address_row list"
  have none: "addrs xs (te_To e) = None" if "as = Some xs" "e \<in> set (ParseTransferEvents lib tx usdtContractHex)" for xs tx e
  proof -
    have "set xs \<subseteq> set (deposit_addresses s)" using q a2 that(1) by (auto simp: listActiveAddresses_def dest!: query_casesD)
    moreover have "HasPrefix (te_To e) ''0x''" using parsed_log [OF that(2)] by (auto simp: event_of_def)
    ultimately show ?thesis using assms(2) unfolding addrs_def map_of_eq_None_iff by fastforce
  qed
  have "fst (check_blocks ops (addrs xs) hs s3) = []" if "as = Some xs" for xs hs
    by (rule check_blocks_base58 [OF _ assms(1)]) (rule none [OF that])
  moreover have "snd (fst (reconcileOnce ops latest t1 t2 asset s)) = []"
  proof (cases "n = None \<or> as = None \<or> (\<exists>e. h = Inl e)")
    case True
    then show ?thesis
      using o1 h q by (auto simp: reconcileOnce_def reconcile_body_def simp del: exec_stmt_acked split: option.splits sum.splits)
  next
    case False
    then obtain k head xs where some: "n = Some k" "h = Inr head" "as = Some xs" by (cases h) auto
    obtain ms' s4 where b: "check_blocks ops (addrs xs) [start_height (bk_Height head)..<Suc (bk_Height head)] s3 = (ms', s4)"
      by (rule prod.exhaust)
    moreover have "ms' = []" using calculation \<open>\<And>xs hs. as = Some xs \<Longrightarrow> fst (check_blocks ops (addrs xs) hs s3) = []\<close> [OF some(3), of "[start_height (bk_Height head)..<Suc (bk_Height head)]"]
      by simp
    ultimately show ?thesis
      using o1 h q some by (simp add: reconcileOnce_def reconcile_body_def addrs_def del: exec_stmt_acked split: option.splits prod.splits)
  qed
  ultimately show "ms = []" using assms(3) by simp
next
  show "\<forall>tx. \<forall>e \<in> set (ParseTransferEvents lib tx usdtContractHex). \<forall>d :: 'd daemon_db. \<not> shouldEmit (fst (start_scanner ''USDT'' d)) e"
  proof (intro allI ballI)
    fix tx e and d :: "'d daemon_db" assume "e \<in> set (ParseTransferEvents lib tx usdtContractHex)"
    from parsed_log [OF this] obtain i l where l: "e = event_of lib i l" "log_matches usdtContractHex l" by blast
    then have "ToLower (te_Contract e) \<in> {usdtContractHex, ToLower (''41'' @ usdtContractHex)}"
      using contracts by (auto simp: log_matches_def event_of_def EqualFold_def lower_lower Let_def)
    then show "\<not> shouldEmit (fst (start_scanner ''USDT'' d)) e"
      using contracts by (auto simp: shouldEmit_def isWatched_def started AddWatchByContract_def NewScanner_def)
  qed
qed

theorem reconciler_blind_witness:
  "\<exists>err s'. reconcileOnce demo_scan_ops demo_latest 8 9 ''USDT'' demo_daemon_db = ((err, []), s') \<and>
     (\<forall>tx. \<forall>e \<in> set (ParseTransferEvents demo_scan_lib tx usdtContractHex). \<not> shouldEmit (fst (start_scanner ''USDT'' demo_daemon_db)) e)"
proof -
  obtain err ms s' where c: "reconcileOnce demo_scan_ops demo_latest 8 9 ''USDT'' demo_daemon_db = ((err, ms), s')"
    by (metis prod.exhaust)
  have "ao_ParseTransferEvents demo_scan_ops = (\<lambda>tx contract. Inr (ParseTransferEvents demo_scan_lib tx contract))"
    by (simp add: demo_scan_ops_def)
  from reconciler_blind [OF this demo_daemon_facts(5) c] show ?thesis using c by blast
qed

lemma call_runs: "call_adapter f s = (r, s') \<Longrightarrow> reconciliation_runs s' = reconciliation_runs s"
  by (auto simp: call_adapter_def split: prod.splits)

lemma query_runs: "query f s = (r, s') \<Longrightarrow> reconciliation_runs s' = reconciliation_runs s"
  by (auto dest!: query_casesD)

lemma check_events_runs: "check_events addrs t es s = (ms, s') \<Longrightarrow> reconciliation_runs s' = reconciliation_runs s"
  by (induction es arbitrary: s ms) (auto split: option.splits prod.splits dest: query_runs simp del: query_acked)

lemma check_txs_runs: "check_txs ops addrs ts s = (ms, s') \<Longrightarrow> reconciliation_runs s' = reconciliation_runs s"
  by (induction ts arbitrary: s ms) (auto split: sum.splits prod.splits dest!: call_runs check_events_runs)

lemma check_blocks_runs: "check_blocks ops addrs hs s = (ms, s') \<Longrightarrow> reconciliation_runs s' = reconciliation_runs s"
  by (induction hs arbitrary: s ms) (auto split: sum.splits prod.splits dest!: call_runs check_txs_runs)

lemma body_runs:
  assumes "reconcile_body ops latest asset s = ((None, ms), s')"
  shows "reconciliation_runs s' = map (\<lambda>r. if running asset r then r\<lparr>rn_status := ''OK''\<rparr> else r) (reconciliation_runs s)"
proof -
  have up: "reconciliation_runs v = map (\<lambda>r. if running asset r then f r else r) (reconciliation_runs u)"
    if "exec_stmt (update_runs asset f) u = (Some k, v)" for f k and u v :: "'a daemon_db"
    using exec_stmt_casesD [OF that] by (auto simp: update_runs_def)
  show ?thesis
    using assms unfolding reconcile_body_def
    by (auto simp del: exec_stmt_acked query_acked split: option.splits sum.splits prod.splits
        dest!: up call_runs query_runs check_blocks_runs)
qed

text \<open>
  A pass that succeeds closes every run of the asset that is still open, those that failed before it included,
  and the deferred statement then finds none: the time of the end stays the time of the start.
\<close>
lemma successful_pass_closes_all:
  assumes "reconcileOnce ops latest t1 t2 asset s = ((None, ms), s')"
  shows "reconciliation_runs s' = map (\<lambda>r. if running asset r then r\<lparr>rn_status := ''OK''\<rparr> else r)
    (reconciliation_runs s @ [\<lparr>rn_chain = ''TRON'', rn_asset = asset, rn_run_type = ''LIVE'', rn_start_at = t1, rn_end_at = t1, rn_status = ''RUNNING''\<rparr>])"
proof -
  let ?r = "\<lparr>rn_chain = ''TRON'', rn_asset = asset, rn_run_type = ''LIVE'', rn_start_at = t1, rn_end_at = t1, rn_status = ''RUNNING''\<rparr>"
  let ?f = "\<lambda>r. if running asset r then r\<lparr>rn_status := ''OK''\<rparr> else r"
  obtain n s1 where o1: "exec_stmt (open_run asset t1) s = (n, s1)" by force
  obtain r s2 where body: "reconcile_body ops latest asset s1 = (r, s2)" by (rule prod.exhaust)
  have n: "n \<noteq> None" and r: "r = (None, ms)" and s': "s' = snd (exec_stmt (update_runs asset (\<lambda>x. x\<lparr>rn_end_at := t2\<rparr>)) s2)"
    using assms o1 body by (auto simp: reconcileOnce_def simp del: exec_stmt_acked split: option.splits)
  have runs1: "reconciliation_runs s1 = reconciliation_runs s @ [?r]"
    using exec_stmt_casesD [OF o1] n by (auto simp: open_run_def split: if_splits)
  have runs2: "reconciliation_runs s2 = map ?f (reconciliation_runs s1)"
    using body [unfolded r] by (rule body_runs)
  have "\<not> running asset (?f x)" for x by (simp add: running_def)
  then have closed: "\<not> running asset x" if "x \<in> set (reconciliation_runs s2)" for x
    using that unfolding runs2 set_map by blast
  obtain m s3 where e: "exec_stmt (update_runs asset (\<lambda>x. x\<lparr>rn_end_at := t2\<rparr>)) s2 = (m, s3)" by force
  have id: "map (\<lambda>r. if running asset r then r\<lparr>rn_end_at := t2\<rparr> else r) (reconciliation_runs s2) = reconciliation_runs s2"
    by (rule map_idI) (simp add: closed)
  have "reconciliation_runs s3 = reconciliation_runs s2"
    using exec_stmt_casesD [OF e] unfolding update_runs_def by (auto simp: id)
  then show ?thesis using s' e runs1 runs2 by simp
qed

end
