(* ===== verification/Address_Allocation.thy ===== *)
theory Address_Allocation
  imports Deposit_Daemon Blockchain
begin

text \<open>
  The allocation of deposit addresses, internal/wallet/service_v1.go and types.go, on the table
  wallet_addresses that the scanner daemon reads. The adapters of the registry and the signer are arguments
  over the node state.
\<close>

definition WalletDeposit :: string where "WalletDeposit = ''DEPOSIT''"
definition WalletHot :: string where "WalletHot = ''HOT''"
definition WalletCold :: string where "WalletCold = ''COLD''"
definition WalletOperational :: string where "WalletOperational = ''OPERATIONAL''"

definition AllWalletTypes :: "string list" where
  "AllWalletTypes = [WalletDeposit, WalletHot, WalletCold, WalletOperational]"

definition ParseWalletType :: "string \<Rightarrow> string" where
  "ParseWalletType s = (if s \<in> {WalletHot, WalletCold, WalletOperational} then s else WalletDeposit)"

record Address =
  ad_ID :: uuid
  ad_UserID :: "uuid option"
  ad_Chain :: string
  ad_Asset :: string
  ad_Type :: string
  ad_Encoded :: string
  ad_Hex :: string
  ad_Status :: string
  ad_CreatedAt :: "int option"

record AllocateAddressRequest =
  aq_UserID :: uuid
  aq_Chain :: string
  aq_Asset :: string

record AllocateAddressResponse =
  ap_Address :: Address
  ap_Reused :: bool
  ap_NewIndex :: nat

text \<open>What the service uses of an adapter: an address with its hexadecimal form, and a balance.\<close>

record 'c alloc_adapter =
  aa_GenerateAddress :: "nat \<Rightarrow> 'c \<Rightarrow> (string + string \<times> string) \<times> 'c"
  aa_GetBalance :: "string \<Rightarrow> string \<Rightarrow> 'c \<Rightarrow> (string + nat) \<times> 'c"

record 'c ServiceV1 =
  sv_registry :: "'c alloc_adapter Registry option"
  sv_signer :: "(string \<Rightarrow> nat \<Rightarrow> 'c \<Rightarrow> (string + string \<times> string) \<times> 'c) option"

definition NewServiceV1 :: "'c alloc_adapter Registry option \<Rightarrow> 'c ServiceV1" where
  "NewServiceV1 r = \<lparr>sv_registry = r, sv_signer = None\<rparr>"

definition SetSignerClient :: "(string \<Rightarrow> nat \<Rightarrow> 'c \<Rightarrow> (string + string \<times> string) \<times> 'c) option \<Rightarrow> 'c ServiceV1 \<Rightarrow> 'c ServiceV1" where
  "SetSignerClient g v = v\<lparr>sv_signer := g\<rparr>"

definition SetRegistry :: "'c alloc_adapter Registry option \<Rightarrow> 'c ServiceV1 \<Rightarrow> 'c ServiceV1" where
  "SetRegistry r v = v\<lparr>sv_registry := r\<rparr>"

definition RegisterAdapter :: "'c alloc_adapter adapter \<Rightarrow> 'c ServiceV1 \<Rightarrow> 'c ServiceV1" where
  "RegisterAdapter a v = (case sv_registry v of None \<Rightarrow> v | Some r \<Rightarrow> v\<lparr>sv_registry := Some (Register a r)\<rparr>)"

definition generate :: "'c alloc_adapter adapter \<Rightarrow> nat \<Rightarrow> 'c \<Rightarrow> (string + string \<times> string) \<times> 'c" where
  "generate a i c =
     (case a of stubAdapter ch \<Rightarrow> (Inl (''blockchain: chain not yet implemented: '' @ ch @ '' address generation''), c)
      | RealAdapter ch ops \<Rightarrow> aa_GenerateAddress ops i c)"

subsection \<open>Persisting\<close>

text \<open>The statement does not say which row a conflict met; status and created_at have defaults.\<close>

definition insert_allocated :: "address_row \<Rightarrow> 'c daemon_db \<Rightarrow> (nat \<times> 'c daemon_db) option" where
  "insert_allocated a s =
     (if ar_user_id a \<notin> set (known_users s) \<or> 128 < length (ar_address a) \<or> 32 < length (ar_chain a) \<or> 16 < length (ar_asset a) \<or>
         (case ar_hex a of None \<Rightarrow> False | Some h \<Rightarrow> 128 < length h) then None
      else if (ar_chain a, ar_address a) \<in> (\<lambda>b. (ar_chain b, ar_address b)) ` set (deposit_addresses s) then Some (0, s)
      else map_option (\<lambda>rs. (1, s\<lparr>deposit_addresses := rs\<rparr>)) (tbl_insert ar_id a (deposit_addresses s)))"

definition persistAllocatedAddress ::
  "uuid \<Rightarrow> int \<Rightarrow> int \<Rightarrow> AllocateAddressRequest \<Rightarrow> string \<Rightarrow> string \<Rightarrow> nat \<Rightarrow> 'c daemon_db
    \<Rightarrow> (string + AllocateAddressResponse) \<times> 'c daemon_db" where
  "persistAllocatedAddress new_id now db_now req encoded hexAddr index s =
     (case exec_stmt (insert_allocated \<lparr>ar_id = new_id, ar_user_id = aq_UserID req, ar_address = encoded, ar_chain = aq_Chain req,
             ar_asset = aq_Asset req, ar_wallet_type = ''DEPOSIT'', ar_hex = Some hexAddr, ar_status = ''ACTIVE'', ar_created_at = db_now\<rparr>) s of
        (None, s1) \<Rightarrow> (Inl ''insert address'', s1)
      | (Some n, s1) \<Rightarrow>
          (Inr \<lparr>ap_Address = \<lparr>ad_ID = new_id, ad_UserID = Some (aq_UserID req), ad_Chain = aq_Chain req, ad_Asset = aq_Asset req,
                 ad_Type = WalletDeposit, ad_Encoded = encoded, ad_Hex = hexAddr, ad_Status = ''ACTIVE'', ad_CreatedAt = Some now\<rparr>,
               ap_Reused = False, ap_NewIndex = index\<rparr>, s1))"

subsection \<open>Allocating\<close>

definition active_address :: "AllocateAddressRequest \<Rightarrow> 'c daemon_db \<Rightarrow> address_row option" where
  "active_address req s =
     find (\<lambda>a. ar_user_id a = aq_UserID req \<and> ar_chain a = aq_Chain req \<and> ar_asset a = aq_Asset req \<and> ar_status a = ''ACTIVE'')
       (deposit_addresses s)"

text \<open>A row without a hexadecimal form cannot be scanned into a string.\<close>

definition scanAddress :: "address_row \<Rightarrow> Address option" where
  "scanAddress a =
     map_option (\<lambda>h. \<lparr>ad_ID = ar_id a, ad_UserID = Some (ar_user_id a), ad_Chain = ar_chain a, ad_Asset = ar_asset a,
        ad_Type = ar_wallet_type a, ad_Encoded = ar_address a, ad_Hex = h, ad_Status = ar_status a, ad_CreatedAt = Some (ar_created_at a)\<rparr>)
       (ar_hex a)"

text \<open>The registry's way to an address, with the texts around its errors.\<close>

definition registry_address :: "'c ServiceV1 \<Rightarrow> string \<Rightarrow> 'c daemon_db \<Rightarrow> (string + string \<times> string) \<times> 'c daemon_db" where
  "registry_address v ch s =
     (case sv_registry v of
        None \<Rightarrow> (Inl ''registry not configured'', s)
      | Some reg \<Rightarrow>
          (case For ch reg of Inl e \<Rightarrow> (Inl (''get adapter: '' @ e), s) | Inr a \<Rightarrow> call_adapter (generate a 0) s))"

definition AllocateDepositAddress ::
  "'c ServiceV1 \<Rightarrow> uuid \<Rightarrow> int \<Rightarrow> int \<Rightarrow> AllocateAddressRequest \<Rightarrow> 'c daemon_db \<Rightarrow> (string + AllocateAddressResponse) \<times> 'c daemon_db" where
  "AllocateDepositAddress v new_id now db_now req s =
     (if aq_UserID req = uuid_nil then (Inl ''wallet.ServiceV1: UserID required for DEPOSIT allocation'', s)
      else if aq_Chain req = [] \<or> aq_Asset req = [] then (Inl ''wallet.ServiceV1: chain or asset invalid'', s)
      else
        (case query (active_address req) s of
           (None, s1) \<Rightarrow> (Inl ''lookup existing address'', s1)
         | (Some (Some a), s1) \<Rightarrow>
             (case scanAddress a of
                None \<Rightarrow> (Inl ''lookup existing address'', s1)
              | Some x \<Rightarrow> (Inr \<lparr>ap_Address = x, ap_Reused = True, ap_NewIndex = 0\<rparr>, s1))
         | (Some None, s1) \<Rightarrow>
             (case (case sv_signer v of
                      None \<Rightarrow> registry_address v (aq_Chain req) s1
                    | Some derive \<Rightarrow>
                        (case call_adapter (derive (aq_Chain req) 0) s1 of
                           (Inl e, s2) \<Rightarrow> registry_address v (aq_Chain req) s2
                         | (Inr x, s2) \<Rightarrow> (Inr x, s2))) of
                (Inl e, s2) \<Rightarrow> (Inl e, s2)
              | (Inr (encoded, hexAddr), s2) \<Rightarrow> persistAllocatedAddress new_id now db_now req encoded hexAddr 0 s2)))"

definition usdtContractForChain :: "string \<Rightarrow> string" where
  "usdtContractForChain ch = (if ch = ''TRON'' then ''41a614f803b6fd780986a42c79ec8394ade726993d'' else [])"

definition GetChainBalance :: "'c ServiceV1 \<Rightarrow> uuid \<Rightarrow> string \<Rightarrow> string \<Rightarrow> 'c daemon_db \<Rightarrow> (string + nat) \<times> 'c daemon_db" where
  "GetChainBalance v u ch asset s =
     (case sv_registry v of
        None \<Rightarrow> (Inl ''wallet.ServiceV1: registry not configured'', s)
      | Some reg \<Rightarrow>
          (case For ch reg of
             Inl e \<Rightarrow> (Inl e, s)
           | Inr a \<Rightarrow>
               (case query (active_address \<lparr>aq_UserID = u, aq_Chain = ch, aq_Asset = asset\<rparr>) s of
                  (Some (Some row), s1) \<Rightarrow>
                    call_adapter (\<lambda>c. case a of
                        stubAdapter sch \<Rightarrow> (Inl (''blockchain: chain not yet implemented: '' @ sch @ '' GetBalance''), c)
                      | RealAdapter rch ops \<Rightarrow> aa_GetBalance ops (ar_address row) (usdtContractForChain ch) c) s1
                | (_, s1) \<Rightarrow> (Inl ''no active address'', s1))))"

subsection \<open>What an answer is worth\<close>

text \<open>A response names an active row of that user, chain and asset with the address it gives.\<close>

definition owns :: "'c daemon_db \<Rightarrow> AllocateAddressRequest \<Rightarrow> AllocateAddressResponse \<Rightarrow> bool" where
  "owns s req p \<longleftrightarrow> (\<exists>a \<in> set (deposit_addresses s). ar_user_id a = aq_UserID req \<and> ar_chain a = aq_Chain req \<and> ar_asset a = aq_Asset req \<and>
     ar_status a = ''ACTIVE'' \<and> ar_address a = ad_Encoded (ap_Address p) \<and> ar_id a = ad_ID (ap_Address p))"

definition address_taken :: "string \<Rightarrow> string \<Rightarrow> 'c daemon_db \<Rightarrow> bool" where
  "address_taken ch addr s \<longleftrightarrow> (ch, addr) \<in> (\<lambda>b. (ar_chain b, ar_address b)) ` set (deposit_addresses s)"

lemma insert_allocated_SomeD:
  assumes "insert_allocated a s = Some (n, s')"
  shows "if address_taken (ar_chain a) (ar_address a) s then s' = s else s' = s\<lparr>deposit_addresses := deposit_addresses s @ [a]\<rparr>"
  using assms by (auto simp: insert_allocated_def address_taken_def tbl_insert_def split: if_splits)

lemma persist_owns:
  assumes "persistAllocatedAddress i now dbn req enc hex k s = (Inr p, s')"
  shows "ad_Encoded (ap_Address p) = enc \<and> \<not> ap_Reused p \<and>
    (if address_taken (aq_Chain req) enc s then deposit_addresses s' = deposit_addresses s else owns s' req p)"
proof -
  let ?a = "\<lparr>ar_id = i, ar_user_id = aq_UserID req, ar_address = enc, ar_chain = aq_Chain req, ar_asset = aq_Asset req,
    ar_wallet_type = ''DEPOSIT'', ar_hex = Some hex, ar_status = ''ACTIVE'', ar_created_at = dbn\<rparr>"
  obtain m s1 where m: "exec_stmt (insert_allocated ?a) s = (m, s1)" by force
  then have s': "s' = s1" and p: "m \<noteq> None" "ad_Encoded (ap_Address p) = enc" "ad_ID (ap_Address p) = i" "\<not> ap_Reused p"
    using assms by (auto simp: persistAllocatedAddress_def split: option.splits)
  then obtain n fs where "insert_allocated ?a (s\<lparr>faults := fs\<rparr>) = Some (n, s1)" using exec_stmt_casesD [OF m] by auto
  from insert_allocated_SomeD [OF this] show ?thesis
    using s' p by (auto simp: owns_def address_taken_def split: if_splits)
qed

lemma call_adapter_frame: "call_adapter f s = (r, s') \<Longrightarrow> deposit_addresses s' = deposit_addresses s"
  by (auto simp: call_adapter_def split: prod.splits)

lemma registry_address_frame: "registry_address v ch s = (r, s') \<Longrightarrow> deposit_addresses s' = deposit_addresses s"
  by (auto simp: registry_address_def call_adapter_def split: option.splits sum.splits prod.splits)


text \<open>A signer that gives its one address, which user 7 has, to user 9.\<close>

definition demo_alloc_db :: "unit daemon_db" where
  "demo_alloc_db =
     \<lparr>faults = [], balances = Map.empty, currencies = [(''USDT'', True)],
      deposit_addresses = [\<lparr>ar_id = 1, ar_user_id = 7, ar_address = ''TX7'', ar_chain = ''TRON'', ar_asset = ''USDT'',
        ar_wallet_type = ''DEPOSIT'', ar_hex = Some ''41'', ar_status = ''ACTIVE'', ar_created_at = 0\<rparr>],
      chain_deposits = [], scanner_state = Map.empty, known_users = [7, 9], reconciliation_runs = [], chain_node = ()\<rparr>"

definition demo_service :: "unit ServiceV1" where
  "demo_service = SetSignerClient (Some (\<lambda>ch i c. (Inr (''TX7'', ''41''), c))) (NewServiceV1 None)"

definition demo_allocation :: AllocateAddressRequest where
  "demo_allocation = \<lparr>aq_UserID = 9, aq_Chain = ''TRON'', aq_Asset = ''USDT''\<rparr>"


end
