(* ===== verification/Spec2Isabelle.thy ===== *)
theory Spec2Isabelle
  imports Wallet Trading_Correct RateLimit ApiKeys Risk Trigger WalletApi_Money Sweeps Tron_Scanner_Correct Tron_Failover Tron_Withdrawals Blockchain Tron_Address_Correct Login_Correct Chain_Deposits_Correct Reconciler Address_Allocation
begin

text \<open>
  A verification of the goexchange back end: a spot exchange with a balance ledger, an order service
  in front of an external matching engine, accounts with tokens and a second factor, API keys and rate
  limits, risk scores, conditional orders, a watcher of several chains, and the TRON programs: a wallet
  daemon that withdraws and sweeps, a scanner that records deposits and a reconciler.

  The parts and how they interact. Every service keeps its state in Postgres. The ledger
  (internal/wallet) owns the balances; the trading service (internal/trading) freezes and settles
  through it and sends orders to an engine through internal/matching; the trigger service
  (internal/trigger) places its orders through the trading service; the chain watcher
  (internal/chainwatcher) credits deposits and debits withdrawals through it; the middlewares of
  internal/api stand before all of them. The wallet daemon (cmd/wallet-api), the scanner
  (cmd/tron-scanner) and the reconciler (cmd/reconciler) work on the same tables with SQL of their own
  and call the TRON adapter (internal/blockchain/tron) and a signer.

  Theories and code.
    Prelude: decimals, NUMERIC(38, 18) columns, statements under a script of faults, sequences of
      operations that stop at the first error. Tables: tables as lists of rows, with CHECKs.
      Schema: status vocabularies of the migrations. Go_Strings, Json, Digits, Sha256, Go_Float: what the
      code uses of Go's strings, encoding/json, math/big, crypto/sha256 and float64 with
      strconv.ParseFloat.
    Ledger_Spec: the contract of a ledger as a locale (five commands, what each moves, what a run
      adds up to). Wallet: internal/wallet (wallet.go, repo.go, service.go, bootstrap.go), which
      interprets it.
    Matching: internal/matching (types, stub client, adapters, conversions of the gRPC client).
    Trading, Trading_Correct: internal/trading/service.go; the ledger is that of Wallet, the engine a
      parameter.
    RateLimit: internal/api/ratelimit.go and the per-key limiter; both limiters interpret one
      locale. ApiKeys: internal/apikeys/service.go with its middleware and handlers. Risk:
      internal/risk/service.go. Trigger: internal/trigger/service.go, its handlers and the monitor of
      cmd/api/main.go, over the state of Trading.
    Accounts, Account_Tokens, Second_Factor, Account_Records: internal/user (accounts, e-mail tokens,
      reviews of identity papers), internal/auth (tokens, one-time codes, backup codes). Login: the
      handlers of internal/api that log in, verify, reset and manage the second factor.
      Account_Correct, Login_Correct: what they guarantee.
    WalletApi: the requests of cmd/wallet-api/main.go. Withdraw_Worker: its withdrawal and
      confirmation workers. Sweeps: the sweep planner, worker and watcher. WalletApi_Correct,
      WalletApi_Requests, WalletApi_Safety, WalletApi_Money: what they guarantee; the locale
      worker_relation has what any worker step does and is interpreted for each relation used.
    Blockchain: internal/blockchain (chains, registry, stubs). Tron_Address: keccak.go and the address
      helpers of adapter.go. Tron_Adapter: providers and failover of adapter.go. Tron_Calls: its
      operations. Tron_Scanner: scanner.go. Tron_Address_Correct, Tron_Failover, Tron_Scanner_Correct,
      Tron_Withdrawals: what they guarantee, the last one for the daemon's worker on top of the adapter.
    Chain_Registry: registry.go and factory.go of internal/chainwatcher. Chain_Watcher, Chain_Deposits,
      Chain_Withdrawals: its drivers' interface, and service.go. Chain_Watcher_Correct,
      Chain_Watcher_Safety, Chain_Watcher_Money, Chain_Deposits_Correct: what they guarantee.
    Deposit_Daemon, Deposit_Daemon_Correct: cmd/tron-scanner/main.go, on top of Tron_Scanner and the rows of
      Wallet. Address_Allocation: service_v1.go and types.go of internal/wallet. Reconciler:
      cmd/reconciler/main.go.

  How state and operations correspond. A table is a field of a record: a map where the code only
  addresses it by key, a list of rows in insertion order otherwise. Each service extends the record of
  the services below it, so the operations of Wallet run unchanged on the state of Trading,
  Trigger, the watcher and the scanner daemon. A statement runs under the next entry of the script of faults: it is
  acknowledged, it fails without effect, or it takes effect and its acknowledgement is lost. An error is a value of a sum
  or option type; a panic is \<open>None\<close> where it can occur. Clock readings, fresh identifiers and random bytes are
  arguments of the call that makes them. A mutex makes a call one step; what runs concurrently is a
  sequence of such steps in any order.

  What the lemmas show. Balances are never negative and every operation moves exactly what it names
  (C1 to C3); messages to the engine lose nothing (C4); orders keep their invariant, settlement
  conserves, cancelling gives back what is held, and errors restore (C5 to C9), but for one order of failures
  that creates funds (C10); limits hold in every window (C11); nonces are used once and keys
  authenticate exactly when they should (C12 to C14); triggers fire once and when they are due (C15, C16);
  withdrawals of the wallet daemon follow their status machine, go out once, and are recorded in one piece
  under one key (C17 to C20); a TRON call succeeds when some provider answers (C21), the scanner delivers what
  it passes and catches up (C22, C23), and addresses are read and written faithfully (C24, C25). A login token
  needs every factor (C26), though a temporary one turns the second off (C27); reset tokens and backup codes
  work once (C28, C29) and a review is one piece (C30). The watcher keeps its daily limit (C31), its withdrawals take what they
  name (C32) unless they were held (C33), its deposits are credited once (C34), on the migrated tables nothing
  moves (C35), and its registry runs what is enabled (C36). The scanner daemon's balances agree with its deposits (C37),
  deposits that are due are credited (C38), but no TRON deposit is recorded (C39); an allocated address is the
  user's own unless it was in the table before (C40).

  Bounds and fuel. All functions are total; recursion is structural or has a measure, so no fuel is
  used. Heights are natural numbers below 2 ^ 64: the scanner stays four blocks behind the head, so its
  next height never wraps. The sort of the TRON providers is Go's stable insertion sort, which Go uses
  for up to twenty elements. Loops of the daemons that tick for ever are one definition per tick.

  Not modelled. The matching engine, the signer, JWT verification, bcrypt, HTTP, Postgres' reading
  of texts and the elliptic-curve and Base58 libraries are not in the repository: they are
  arguments, with their documented behaviour as hypotheses where a property needs it. Left out because they
  decide nothing: logging, metrics, routing, request decoding and the SQL listings of internal/api,
  generated gRPC code, the Vault, notification and node clients, the drivers of the single chains, the main functions
  and their loops. Left out because they only report: the trade history, statistics and candle readers of the
  trading service, profit and loss, the statistics of the watcher and the health, balance and deposit readers of
  the wallet daemon. Two instances of a daemon beside each other, and a scan that goes on after its cycle was
  cancelled or timed out, are not modelled: a statement is atomic here, but the reads and writes of one
  cycle are not interleaved with those of another.
\<close>

end
